(* ===== verification/Agentd_Base.thy ===== *)
theory Agentd_Base
  imports Main
begin

text \<open>
  Prelude of the development: Python strings and integers, SQL-style row lists, and the generic
  run-of-steps interface.

  A Python \<^verbatim>\<open>str\<close> is a list of \<^typ>\<open>char\<close>, each character read as the code point of the
  same number (Latin-1).  Message literals of the source that hold other code points use a
  one-character stand-in, so lengths are kept: \<open>em_dash\<close> for U+2014 and \<open>ellipsis\<close> for U+2026.
  Python's unbounded \<^verbatim>\<open>int\<close> is \<^typ>\<open>int\<close>.  A table of the SQLite store is the list of its rows
  in rowid order.
\<close>

section \<open>Fact collections\<close>

named_theorems row_simps \<open>equations of row lists under UPDATE, INSERT and SELECT\<close>
named_theorems frame_simps \<open>what an operation leaves unchanged\<close>
named_theorems keeps_wf \<open>operations that keep the store well-formed\<close>

section \<open>Characters and strings\<close>

definition em_dash :: char where "em_dash = CHR 0x97"
definition ellipsis :: char where "ellipsis = CHR 0x81"
definition section_sign :: char where "section_sign = CHR 0xA7"

abbreviation code :: "char \<Rightarrow> nat" where
  "code c \<equiv> of_char c"

definition is_digit :: "char \<Rightarrow> bool" where
  "is_digit c \<longleftrightarrow> 48 \<le> code c \<and> code c \<le> 57"

definition is_upper_ascii :: "char \<Rightarrow> bool" where
  "is_upper_ascii c \<longleftrightarrow> 65 \<le> code c \<and> code c \<le> 90"

definition is_lower_ascii :: "char \<Rightarrow> bool" where
  "is_lower_ascii c \<longleftrightarrow> 97 \<le> code c \<and> code c \<le> 122"

text \<open>\<open>str.isspace\<close> and the regex class \<open>\s\<close> on Latin-1.\<close>

definition is_space :: "char \<Rightarrow> bool" where
  "is_space c \<longleftrightarrow> (9 \<le> code c \<and> code c \<le> 13) \<or> (28 \<le> code c \<and> code c \<le> 32) \<or>
     code c = 133 \<or> code c = 160"

text \<open>The regex class \<open>\w\<close> on Latin-1: letters, digits, underscore.\<close>

definition is_word :: "char \<Rightarrow> bool" where
  "is_word c \<longleftrightarrow> is_digit c \<or> is_upper_ascii c \<or> is_lower_ascii c \<or> code c = 95 \<or>
     code c \<in> {170, 178, 179, 181, 185, 186, 188, 189, 190} \<or>
     (192 \<le> code c \<and> code c \<noteq> 215 \<and> code c \<noteq> 247)"

definition lower_char :: "char \<Rightarrow> char" where
  "lower_char c =
     (if is_upper_ascii c \<or> (192 \<le> code c \<and> code c \<le> 222 \<and> code c \<noteq> 215)
      then char_of (code c + 32) else c)"

definition py_lower :: "string \<Rightarrow> string" where
  "py_lower = map lower_char"

text \<open>\<open>str.upper\<close> is only applied to ASCII enumeration values by the source.\<close>

definition upper_char :: "char \<Rightarrow> char" where
  "upper_char c = (if is_lower_ascii c then char_of (code c - 32) else c)"

definition py_upper :: "string \<Rightarrow> string" where
  "py_upper = map upper_char"

definition py_strip :: "string \<Rightarrow> string" where
  "py_strip s = rev (dropWhile is_space (rev (dropWhile is_space s)))"

fun starts_with :: "string \<Rightarrow> string \<Rightarrow> bool" where
  "starts_with s [] = True"
| "starts_with [] (p # ps) = False"
| "starts_with (c # cs) (p # ps) = (c = p \<and> starts_with cs ps)"

fun contains :: "string \<Rightarrow> string \<Rightarrow> bool" where
  "contains p [] = (p = [])"
| "contains p (c # cs) = (starts_with (c # cs) p \<or> contains p cs)"

definition ends_with :: "string \<Rightarrow> string \<Rightarrow> bool" where
  "ends_with s p = starts_with (rev s) (rev p)"

text \<open>\<open>s.partition(c)\<close> for a one-character separator: head, whether it was found, tail.\<close>

fun partition_at :: "char \<Rightarrow> string \<Rightarrow> string \<times> bool \<times> string" where
  "partition_at c [] = ([], False, [])"
| "partition_at c (x # xs) =
     (if x = c then ([], True, xs)
      else (case partition_at c xs of (h, f, t) \<Rightarrow> (x # h, f, t)))"

text \<open>The line breaks of \<open>str.splitlines()\<close>.\<close>

definition is_break :: "char \<Rightarrow> bool" where
  "is_break c \<longleftrightarrow> c \<in> set [CHR 0x0A, CHR 0x0B, CHR 0x0C, CHR 0x0D, CHR 0x1C, CHR 0x1D, CHR 0x1E, CHR 0x85]"

text \<open>\<open>str.splitlines()\<close>; the flag: the character before was a carriage return.\<close>

fun splitlines :: "bool \<Rightarrow> string \<Rightarrow> string \<Rightarrow> string list" where
  "splitlines cr acc [] = (if acc = [] then [] else [acc])"
| "splitlines cr acc (c # cs) =
     (if cr \<and> c = CHR 0x0A then splitlines False [] cs
      else if is_break c then acc # splitlines (c = CHR 0x0D) [] cs
      else splitlines False (acc @ [c]) cs)"

fun split_on :: "char \<Rightarrow> string \<Rightarrow> string \<Rightarrow> string list" where
  "split_on d acc [] = [acc]"
| "split_on d acc (c # cs) = (if c = d then acc # split_on d [] cs else split_on d (acc @ [c]) cs)"

lemma starts_with_iff: "starts_with s p \<longleftrightarrow> (\<exists>t. s = p @ t)"
  by (induction s p rule: starts_with.induct) auto

lemma starts_with_append [simp]: "starts_with (p @ t) p"
  by (auto simp: starts_with_iff)

lemma starts_with_self [simp]: "starts_with p p"
  using starts_with_append [of p "[]"] by simp

lemma contains_iff: "contains p s \<longleftrightarrow> (\<exists>u v. s = u @ p @ v)"
proof (induction s)
  case Nil
  show ?case by simp
next
  case (Cons c cs)
  have "contains p (c # cs) \<longleftrightarrow> (\<exists>v. c # cs = p @ v) \<or> (\<exists>u v. cs = u @ p @ v)"
    by (simp add: Cons starts_with_iff)
  also have "\<dots> \<longleftrightarrow> (\<exists>u v. c # cs = u @ p @ v)"
    by (auto simp: Cons_eq_append_conv)
  finally show ?case .
qed

lemma containsI [intro]: "contains p (u @ p @ v)"
  by (auto simp: contains_iff)

lemma partition_at_absent: "c \<notin> set s \<Longrightarrow> partition_at c s = (s, False, [])"
  by (induction s) auto

lemma partition_at_found: "c \<notin> set u \<Longrightarrow> partition_at c (u @ c # v) = (u, True, v)"
  by (induction u) auto

lemma partition_at_Some: "partition_at c s = (h, True, t) \<Longrightarrow> s = h @ c # t \<and> c \<notin> set h"
  by (induction s arbitrary: h t) (auto split: if_splits prod.splits)

lemma partition_at_None: "partition_at c s = (h, False, t) \<Longrightarrow> s = h \<and> t = [] \<and> c \<notin> set s"
  by (induction s arbitrary: h t) (auto split: if_splits prod.splits)

lemma py_lower_append [simp]: "py_lower (a @ b) = py_lower a @ py_lower b"
  by (simp add: py_lower_def)

lemma length_py_lower [simp]: "length (py_lower s) = length s"
  by (simp add: py_lower_def)

lemma py_lower_Nil [simp]: "py_lower [] = []"
  by (simp add: py_lower_def)

lemma py_lower_eq_Nil [simp]: "py_lower s = [] \<longleftrightarrow> s = []"
  by (simp add: py_lower_def)

section \<open>Decimal integers\<close>

text \<open>\<open>str(n)\<close> of an integer.\<close>

fun dec_nat :: "nat \<Rightarrow> string" where
  "dec_nat n = (if n < 10 then [char_of (48 + n)]
                else dec_nat (n div 10) @ [char_of (48 + n mod 10)])"

declare dec_nat.simps [simp del]

definition dec :: "int \<Rightarrow> string" where
  "dec i = (if i < 0 then CHR ''-'' # dec_nat (nat (- i)) else dec_nat (nat i))"

text \<open>
  \<open>int(s)\<close> of a string: surrounding white space, one sign, digits with single underscores between
  them.  None is Python's \<open>ValueError\<close>.
\<close>

fun digits_val :: "int \<Rightarrow> bool \<Rightarrow> string \<Rightarrow> int option" where
  "digits_val acc p [] = (if p then Some acc else None)"
| "digits_val acc p (c # cs) =
     (if is_digit c then digits_val (acc * 10 + int (code c - 48)) True cs
      else if c = CHR ''_'' \<and> p then digits_val acc False cs
      else None)"

definition py_int :: "string \<Rightarrow> int option" where
  "py_int s =
     (case py_strip s of
        [] \<Rightarrow> None
      | c # cs \<Rightarrow>
          if c = CHR ''-'' then map_option uminus (digits_val 0 False cs)
          else if c = CHR ''+'' then digits_val 0 False cs
          else digits_val 0 False (c # cs))"

lemma code_digit [simp]: "k < 10 \<Longrightarrow> code (char_of (48 + k :: nat)) = (48 + k :: nat)"
  by simp

lemma is_digit_char [simp]: "k < 10 \<Longrightarrow> is_digit (char_of (48 + k :: nat))"
  by (simp add: is_digit_def)

lemma dec_nat_digits: "\<forall>c \<in> set (dec_nat n). is_digit c"
proof (induction n rule: dec_nat.induct)
  case (1 n)
  show ?case
    using 1 by (subst dec_nat.simps) auto
qed

lemma dec_nat_nonempty [simp]: "dec_nat n \<noteq> []"
  by (subst dec_nat.simps) simp

lemma digits_val_snoc:
  assumes "is_digit c"
  shows "digits_val acc p s = Some v \<Longrightarrow> digits_val acc p (s @ [c]) = Some (v * 10 + int (code c - 48))"
  using assms by (induction acc p s rule: digits_val.induct) (auto split: if_splits)

lemma digits_val_dec_nat: "digits_val 0 False (dec_nat n) = Some (int n)"
proof (induction n rule: dec_nat.induct)
  case (1 n)
  show ?case
  proof (cases "n < 10")
    case True
    then show ?thesis by (subst dec_nat.simps) simp
  next
    case False
    with 1 have "digits_val 0 False (dec_nat (n div 10)) = Some (int (n div 10))" by simp
    then have "digits_val 0 False (dec_nat (n div 10) @ [char_of (48 + n mod 10)]) =
        Some (int (n div 10) * 10 + int (n mod 10))"
      by (subst digits_val_snoc) simp_all
    also have "int (n div 10) * 10 + int (n mod 10) = int n"
      by presburger
    finally show ?thesis using False by (subst dec_nat.simps) simp
  qed
qed

lemma is_digit_not_space: "is_digit c \<Longrightarrow> \<not> is_space c"
  by (auto simp: is_digit_def is_space_def)

lemma py_strip_id: "\<forall>c \<in> set s. \<not> is_space c \<Longrightarrow> py_strip s = s"
proof -
  assume a: "\<forall>c \<in> set s. \<not> is_space c"
  then have "dropWhile is_space s = s"
    by (auto simp: dropWhile_eq_self_iff)
  moreover have "dropWhile is_space (rev s) = rev s"
    using a by (cases "s = []") (auto simp: dropWhile_eq_self_iff hd_rev)
  ultimately show ?thesis by (simp add: py_strip_def)
qed

lemma dec_no_space: "\<forall>c \<in> set (dec i). \<not> is_space c"
  using dec_nat_digits is_digit_not_space by (auto simp: dec_def is_space_def)

lemma dec_chars: "c \<in> set (dec i) \<Longrightarrow> is_digit c \<or> c = CHR ''-''"
  using dec_nat_digits by (auto simp: dec_def split: if_splits)

lemma py_int_dec: "py_int (dec i) = Some i"
proof (cases "i < 0")
  case True
  then have "py_strip (dec i) = CHR ''-'' # dec_nat (nat (- i))"
    using py_strip_id [OF dec_no_space [of i]] by (simp add: dec_def)
  with True show ?thesis by (simp add: py_int_def digits_val_dec_nat)
next
  case False
  then have s: "py_strip (dec i) = dec_nat (nat i)"
    using py_strip_id [OF dec_no_space [of i]] by (simp add: dec_def)
  obtain c cs where c: "dec_nat (nat i) = c # cs"
    by (cases "dec_nat (nat i)") auto
  then have "is_digit c" using dec_nat_digits [of "nat i"] by auto
  then have "c \<noteq> CHR ''-''" "c \<noteq> CHR ''+''" by (auto simp: is_digit_def)
  with False s c show ?thesis using digits_val_dec_nat [of "nat i"] by (simp add: py_int_def)
qed

lemma dec_inj: "dec i = dec j \<longleftrightarrow> i = j"
  by (metis option.inject py_int_dec)

section \<open>Substrings\<close>

text \<open>\<open>s.partition(p)\<close> as an option: the text before and after the first occurrence.\<close>

fun find_sub :: "string \<Rightarrow> string \<Rightarrow> (string \<times> string) option" where
  "find_sub p [] = (if p = [] then Some ([], []) else None)"
| "find_sub p (c # cs) =
     (if starts_with (c # cs) p then Some ([], drop (length p) (c # cs))
      else map_option (\<lambda>(u, v). (c # u, v)) (find_sub p cs))"

text \<open>\<open>s.replace(p, q, 1)\<close> and \<open>s.replace(p, q)\<close> for a non-empty \<open>p\<close>.\<close>

definition replace_first :: "string \<Rightarrow> string \<Rightarrow> string \<Rightarrow> string" where
  "replace_first p q s = (case find_sub p s of None \<Rightarrow> s | Some (u, v) \<Rightarrow> u @ q @ v)"

lemma find_sub_split: "find_sub p s = Some (u, v) \<Longrightarrow> s = u @ p @ v"
proof (induction s arbitrary: u)
  case (Cons c cs)
  then show ?case by (auto simp: starts_with_iff split: if_splits)
qed (auto split: if_splits)

lemma find_sub_None: "find_sub p s = None \<longleftrightarrow> \<not> contains p s"
  by (induction s) auto

lemma find_sub_least: "find_sub p s = Some (u, v) \<Longrightarrow> s = u' @ p @ v' \<Longrightarrow> length u \<le> length u'"
proof (induction s arbitrary: u u')
  case (Cons c cs)
  show ?case
  proof (cases "starts_with (c # cs) p")
    case True
    then have "find_sub p (c # cs) = Some ([], drop (length p) (c # cs))" by simp
    with Cons.prems(1) show ?thesis by (simp del: find_sub.simps)
  next
    case False
    with Cons.prems(1) obtain w where w: "u = c # w" "find_sub p cs = Some (w, v)" by auto
    from False Cons.prems(2) obtain w' where "u' = c # w'" "cs = w' @ p @ v'"
      by (cases u') (auto simp: starts_with_iff)
    with Cons.IH [OF w(2)] w(1) show ?thesis by auto
  qed
qed (auto split: if_splits)

text \<open>The first occurrence, named by having none that starts earlier.\<close>

lemma find_subI:
  assumes "\<And>u' v'. u @ p @ v = u' @ p @ v' \<Longrightarrow> length u \<le> length u'"
  shows "find_sub p (u @ p @ v) = Some (u, v)"
proof -
  obtain u1 v1 where f: "find_sub p (u @ p @ v) = Some (u1, v1)"
    using find_sub_None [of p "u @ p @ v"] by (cases "find_sub p (u @ p @ v)") auto
  from find_sub_split [OF f] have e: "u @ p @ v = u1 @ p @ v1" .
  with assms find_sub_least [OF f refl] have "length u = length u1" by (simp add: le_antisym)
  with e f show ?thesis by simp
qed

function replace_all :: "string \<Rightarrow> string \<Rightarrow> string \<Rightarrow> string" where
  "replace_all p q s =
     (if p = [] then s
      else case find_sub p s of None \<Rightarrow> s | Some (u, v) \<Rightarrow> u @ q @ replace_all p q v)"
  by pat_completeness auto

termination replace_all
proof (relation "measure (\<lambda>(p, q, s). length s)")
  fix p q s u v :: string and x
  assume "p \<noteq> []" "find_sub p s = Some x" "(u, v) = x"
  then have "s = u @ p @ v" using find_sub_split by blast
  with \<open>p \<noteq> []\<close> show "((p, q, v), p, q, s) \<in> measure (\<lambda>(p, q, s). length s)" by simp
qed simp

declare replace_all.simps [simp del]

text \<open>\<open>s.index(p)\<close>, None for \<open>ValueError\<close>.\<close>

definition index_of :: "string \<Rightarrow> string \<Rightarrow> nat option" where
  "index_of p s = map_option (\<lambda>(u, _). length u) (find_sub p s)"

lemma append_longer: "u @ r = x @ s \<Longrightarrow> length u \<le> length x \<Longrightarrow> \<exists>z. x = u @ z \<and> r = z @ s"
  by (metis append_eq_append_conv_if append_eq_conv_conj append_take_drop_id)

text \<open>An occurrence in a concatenation lies in one part or straddles the joint.\<close>

lemma occurrence_cases:
  assumes "x @ y = u @ p @ v"
  obtains (left) w where "x = u @ p @ w" "v = w @ y"
  | (right) w where "y = w @ p @ v" "u = x @ w"
  | (straddle) p1 p2 where "p = p1 @ p2" "p1 \<noteq> []" "p2 \<noteq> []" "x = u @ p1" "y = p2 @ v"
proof -
  from assms consider (a) w where "x = u @ w" "w @ y = p @ v" | (b) w where "x @ w = u" "y = w @ p @ v"
    by (metis append_eq_append_conv2)
  then show thesis
  proof cases
    case a
    from a(2) consider (c) z where "w = p @ z" "z @ y = v" | (d) z where "w @ z = p" "y = z @ v"
      by (metis append_eq_append_conv2)
    then show thesis
    proof cases
      case c
      with a left show ?thesis by simp
    next
      case d
      show ?thesis
      proof (cases "w = [] \<or> z = []")
        case True
        with a d left [of "[]"] right [of "[]"] show ?thesis by auto
      next
        case False
        with a d straddle [of w z] show ?thesis by auto
      qed
    qed
  next
    case b
    with right show ?thesis by simp
  qed
qed

lemma find_sub_swap_tail:
  assumes "find_sub p (u @ p @ r) = Some (u, r)"
  shows "find_sub p (u @ p @ r') = Some (u, r')"
proof (rule find_subI)
  fix u' v'
  assume e: "u @ p @ r' = u' @ p @ v'"
  show "length u \<le> length u'"
  proof (rule ccontr)
    assume "\<not> length u \<le> length u'"
    then have "\<exists>w. u @ p = u' @ p @ w"
    proof -
      from e have "take (length (u @ p)) (u' @ p @ v') = u @ p" by (metis append.assoc append_eq_conv_conj)
      with \<open>\<not> length u \<le> length u'\<close> show ?thesis by (auto simp: not_le intro: sym)
    qed
    then obtain w where "u @ p @ r = u' @ p @ (w @ r)" by (metis append.assoc)
    with find_sub_least [OF assms] \<open>\<not> length u \<le> length u'\<close> show False by blast
  qed
qed

end
