(* ===== verification/Regex.thy ===== *)
theory Regex
  imports Agentd_Base
begin

text \<open>
  The fragment of Python's \<open>re\<close> the sources use: sequences of literals and repeated character
  classes, greedy or lazy, with named groups, matched by backtracking from left to right.
\<close>

datatype rx_atom =
    Lit string
  | Rep "char \<Rightarrow> bool" nat bool "string option"
      \<comment> \<open>class, minimal count, greedy?, group name\<close>
  | One "char \<Rightarrow> bool" "string option"
      \<comment> \<open>one character of a class\<close>
  | Eol \<comment> \<open>\<open>$\<close> under MULTILINE\<close>

type_synonym captures = "(string \<times> string) list"

text \<open>The counts a repetition tries, in order.\<close>

definition counts :: "(char \<Rightarrow> bool) \<Rightarrow> nat \<Rightarrow> bool \<Rightarrow> string \<Rightarrow> nat list" where
  "counts P m greedy s =
     (let ks = [m ..< Suc (length (takeWhile P s))] in if greedy then rev ks else ks)"

fun first_some :: "('a \<Rightarrow> 'b option) \<Rightarrow> 'a list \<Rightarrow> 'b option" where
  "first_some f [] = None"
| "first_some f (x # xs) = (case f x of None \<Rightarrow> first_some f xs | Some y \<Rightarrow> Some y)"

text \<open>\<open>pattern.match\<close> at the start of the string: the groups and the unmatched rest.\<close>

primrec match_at :: "rx_atom list \<Rightarrow> string \<Rightarrow> (captures \<times> string) option" where
  "match_at [] = (\<lambda>s. Some ([], s))"
| "match_at (a # rest) = (\<lambda>s.
     case a of
       Lit l \<Rightarrow> if starts_with s l then match_at rest (drop (length l) s) else None
     | Rep P m greedy g \<Rightarrow>
         first_some (\<lambda>n. map_option
             (\<lambda>(caps, t). (case g of None \<Rightarrow> caps | Some x \<Rightarrow> (x, take n s) # caps, t))
             (match_at rest (drop n s)))
           (counts P m greedy s)
     | One P g \<Rightarrow>
         (case s of
            [] \<Rightarrow> None
          | c # cs \<Rightarrow>
              if P c then map_option (\<lambda>(caps, t). (case g of None \<Rightarrow> caps | Some x \<Rightarrow> (x, [c]) # caps, t))
                (match_at rest cs)
              else None)
     | Eol \<Rightarrow> if s = [] \<or> hd s = CHR 0x0A then match_at rest s else None)"

text \<open>\<open>pattern.search\<close>: text before the leftmost match, the groups, text after it.\<close>

fun rx_search :: "rx_atom list \<Rightarrow> string \<Rightarrow> (string \<times> captures \<times> string) option" where
  "rx_search r [] = map_option (\<lambda>(caps, t). ([], caps, t)) (match_at r [])"
| "rx_search r (c # cs) =
     (case match_at r (c # cs) of
        Some (caps, t) \<Rightarrow> Some ([], caps, t)
      | None \<Rightarrow> map_option (\<lambda>(u, caps, t). (c # u, caps, t)) (rx_search r cs))"

definition rx_found :: "rx_atom list \<Rightarrow> string \<Rightarrow> bool" where
  "rx_found r s \<longleftrightarrow> rx_search r s \<noteq> None"

lemma first_some_SomeD: "first_some f xs = Some y \<Longrightarrow> \<exists>x \<in> set xs. f x = Some y"
  by (induction xs) (auto split: option.splits)

lemma match_Lit [simp]:
  "match_at (Lit l # rest) (l @ s) = match_at rest s"
  by simp

lemma match_Lit_hd:
  "match_at (Lit (c # l) # rest) s = Some x \<Longrightarrow> \<exists>t. s = c # t"
  by (cases s) (auto split: if_splits)

lemma match_Lit_other: "x \<noteq> c \<Longrightarrow> match_at (Lit (c # l) # rest) (x # s) = None"
  by simp

lemma match_Lit_Nil: "match_at (Lit (c # l) # rest) [] = None"
  by simp

text \<open>A greedy repetition takes its longest run when the rest of the pattern matches there.\<close>

lemma match_Rep_longest:
  assumes "\<forall>c \<in> set u. P c" "t = [] \<or> \<not> P (hd t)" "m \<le> length u"
    and "match_at rest t = Some (caps, t')"
  shows "match_at (Rep P m True g # rest) (u @ t) =
    Some (case g of None \<Rightarrow> caps | Some x \<Rightarrow> (x, u) # caps, t')"
proof -
  have "takeWhile P (u @ t) = u"
    using assms(1,2) by (cases t) (auto simp: takeWhile_append1)
  then have "counts P m True (u @ t) = length u # rev [m ..< length u]"
    using assms(3) by (simp add: counts_def)
  with assms(4) show ?thesis by (simp split: option.split)
qed

text \<open>The match never invents text: what it leaves is a suffix.\<close>

lemma match_at_suffix: "match_at r s = Some (caps, t) \<Longrightarrow> \<exists>u. s = u @ t"
proof (induction r arbitrary: s caps t)
  case Nil
  then show ?case by simp
next
  case (Cons a r)
  show ?case
  proof (cases a)
    case (Lit l)
    with Cons.prems have "starts_with s l" "match_at r (drop (length l) s) = Some (caps, t)"
      by (auto split: if_splits)
    then show ?thesis using Cons.IH by (metis append.assoc append_take_drop_id)
  next
    case (Rep P m greedy g)
    with Cons.prems obtain n caps' where "match_at r (drop n s) = Some (caps', t)"
      by (auto dest!: first_some_SomeD)
    then show ?thesis using Cons.IH by (metis append.assoc append_take_drop_id)
  next
    case (One P g)
    with Cons.prems obtain c cs caps' where "s = c # cs" "match_at r cs = Some (caps', t)"
      by (auto split: list.splits if_splits)
    then show ?thesis using Cons.IH by (metis append_Cons)
  next
    case Eol
    with Cons.prems Cons.IH show ?thesis by (auto split: if_splits)
  qed
qed

text \<open>The leftmost occurrence when the pattern's first character is not in the text before it.\<close>

lemma rx_search_skip:
  assumes "match_at (Lit (c # l) # rest) s = Some (caps, t)"
  shows "c \<notin> set u \<Longrightarrow> rx_search (Lit (c # l) # rest) (u @ s) = Some (u, caps, t)"
proof (induction u)
  case Nil
  from assms obtain v where "s = c # v" using match_Lit_hd by blast
  with assms show ?case by (simp del: match_at.simps)
next
  case (Cons x u)
  then have "rx_search (Lit (c # l) # rest) (u @ s) = Some (u, caps, t)" by simp
  moreover have "match_at (Lit (c # l) # rest) (x # (u @ s)) = None"
    using Cons.prems by (intro match_Lit_other) auto
  ultimately show ?case by (simp del: match_at.simps)
qed

lemma rx_search_split:
  "rx_search r s = Some (u, caps, t) \<Longrightarrow> \<exists>v. s = u @ v \<and> match_at r v = Some (caps, t)"
proof (induction r s arbitrary: u caps t rule: rx_search.induct)
  case (1 r)
  then show ?case by auto
next
  case (2 r c cs)
  show ?case
  proof (cases "match_at r (c # cs)")
    case None
    with "2.prems" obtain u' where "u = c # u'" "rx_search r cs = Some (u', caps, t)"
      by auto
    with "2.IH" [OF None] show ?thesis by auto
  next
    case (Some a)
    with "2.prems" show ?thesis by (cases a) auto
  qed
qed

lemma rx_search_NoneI: "c \<notin> set s \<Longrightarrow> rx_search (Lit (c # l) # rest) s = None"
proof (induction s)
  case Nil
  show ?case by simp
next
  case (Cons x s)
  then have "match_at (Lit (c # l) # rest) (x # s) = None"
    by (intro match_Lit_other) auto
  with Cons show ?case by (simp del: match_at.simps)
qed

lemma rx_search_None_absent:
  "\<not> contains l s \<Longrightarrow> rx_search (Lit l # rest) s = None"
proof (induction s)
  case Nil
  then show ?case by (cases l) simp_all
next
  case (Cons c s)
  then show ?case by simp
qed

section \<open>Line anchors\<close>

text \<open>
  A search whose pattern opens with \<open>^\<close> under MULTILINE: only line starts are tried.  \<open>bol\<close> tells
  whether the text starts at one.  The result is the text before, the match, the groups, the rest.
\<close>

abbreviation newline :: char where "newline \<equiv> CHR 0x0A"

definition match_text :: "rx_atom list \<Rightarrow> string \<Rightarrow> (string \<times> captures \<times> string) option" where
  "match_text r s =
     map_option (\<lambda>(caps, t). (take (length s - length t) s, caps, t)) (match_at r s)"

fun bol_search :: "rx_atom list \<Rightarrow> bool \<Rightarrow> string \<Rightarrow> (string \<times> string \<times> captures \<times> string) option" where
  "bol_search r bol [] = (if bol then map_option (\<lambda>(m, caps, t). ([], m, caps, t)) (match_text r []) else None)"
| "bol_search r bol (c # cs) =
     (case if bol then match_text r (c # cs) else None of
        Some (m, caps, t) \<Rightarrow> Some ([], m, caps, t)
      | None \<Rightarrow> map_option (\<lambda>(u, x). (c # u, x)) (bol_search r (c = newline) cs))"

text \<open>\<open>pattern.sub(line, s)\<close> for a pattern that opens with \<open>^\<close> and never matches the empty text.\<close>

function bol_sub :: "rx_atom list \<Rightarrow> string \<Rightarrow> bool \<Rightarrow> string \<Rightarrow> string" where
  "bol_sub r line bol s =
     (case bol_search r bol s of
        None \<Rightarrow> s
      | Some (u, m, caps, t) \<Rightarrow>
          if m = [] then s else u @ line @ bol_sub r line (last m = newline) t)"
  by pat_completeness auto

lemma match_text_split: "match_text r s = Some (m, caps, t) \<Longrightarrow> s = m @ t \<and> match_at r s = Some (caps, t)"
  using match_at_suffix by (fastforce simp: match_text_def)

lemma bol_search_split:
  "bol_search r bol s = Some (u, m, caps, t) \<Longrightarrow> s = u @ m @ t \<and> match_at r (m @ t) = Some (caps, t)"
proof (induction r bol s arbitrary: u rule: bol_search.induct)
  case (1 r bol)
  then show ?case using match_text_split [of r "[]" m caps t] by (auto split: if_splits)
next
  case (2 r bol c cs)
  show ?case
  proof (cases "if bol then match_text r (c # cs) else None")
    case None
    with "2.prems" obtain u' where "u = c # u'" "bol_search r (c = newline) cs = Some (u', m, caps, t)"
      by auto
    with "2.IH" [OF None] show ?thesis by auto
  next
    case (Some a)
    with "2.prems" have "u = []" "match_text r (c # cs) = Some (m, caps, t)"
      by (auto split: prod.splits if_splits)
    with match_text_split [of r "c # cs" m caps t] show ?thesis by auto
  qed
qed

termination bol_sub
proof (relation "measure (\<lambda>(r, line, bol, s). length s)")
  fix r :: "rx_atom list" and line s u m t :: string and bol caps a x y
  assume "bol_search r bol s = Some a" "(u, x) = a" "(m, y) = x" "(caps, t) = y" "m \<noteq> []"
  then show "((r, line, last m = newline, t), r, line, bol, s) \<in> measure (\<lambda>(r, line, bol, s). length s)"
    using bol_search_split [of r bol s u m caps t] by auto
qed simp

declare bol_sub.simps [simp del]
declare match_at.simps(2) [simp del]

text \<open>No line start inside a prefix matches, given the text that follows it.\<close>

fun quiet :: "rx_atom list \<Rightarrow> bool \<Rightarrow> string \<Rightarrow> string \<Rightarrow> bool" where
  "quiet r bol [] s \<longleftrightarrow> True"
| "quiet r bol (c # cs) s \<longleftrightarrow> (bol \<longrightarrow> match_at r (c # cs @ s) = None) \<and> quiet r (c = newline) cs s"

definition bol_after :: "bool \<Rightarrow> string \<Rightarrow> bool" where
  "bol_after bol u = (if u = [] then bol else last u = newline)"

lemma bol_after_simps [simp]:
  "bol_after bol [] = bol" "bol_after bol (c # cs) = bol_after (c = newline) cs"
  by (auto simp: bol_after_def)

lemma match_text_None: "match_text r s = None \<longleftrightarrow> match_at r s = None"
  by (simp add: match_text_def)

lemma quiet_search:
  "quiet r bol b s \<Longrightarrow> bol_search r bol (b @ s) =
    map_option (\<lambda>(u, x). (b @ u, x)) (bol_search r (bol_after bol b) s)"
proof (induction r bol b s rule: quiet.induct)
  case (1 r bol s)
  then show ?case by (cases "bol_search r bol s") auto
next
  case (2 r bol c cs s)
  then have "match_text r (c # cs @ s) = None \<or> \<not> bol" by (auto simp: match_text_None)
  with 2 show ?case by (cases "bol_search r (bol_after (c = newline) cs) s") auto
qed

lemma search_quiet:
  "bol_search r bol s = Some (u, x) \<Longrightarrow> s = u @ v \<Longrightarrow> quiet r bol u v \<and> bol_after bol u"
proof (induction r bol s arbitrary: u rule: bol_search.induct)
  case (1 r bol)
  then show ?case by (auto split: if_splits)
next
  case (2 r bol c cs)
  show ?case
  proof (cases "if bol then match_text r (c # cs) else None")
    case None
    with "2.prems"(1) obtain u' where u: "u = c # u'" "bol_search r (c = newline) cs = Some (u', x)"
      by auto
    with "2.IH" [OF None u(2)] None "2.prems"(2) show ?thesis by (auto simp: match_text_None split: if_splits)
  next
    case (Some a)
    with "2.prems"(1) have "u = []" bol by (auto split: prod.splits if_splits)
    then show ?thesis by simp
  qed
qed

lemma search_None_quiet: "bol_search r bol (u @ v) = None \<Longrightarrow> quiet r bol u v"
  by (induction u arbitrary: bol) (auto simp: match_text_None split: if_splits option.splits)

lemma search_here:
  "match_at r s = Some (caps, t) \<Longrightarrow> bol_search r True s = Some ([], take (length s - length t) s, caps, t)"
  by (cases s) (auto simp: match_text_def)

text \<open>
  Characters a pattern never consumes bound its matches: what follows such a character does not
  matter.
\<close>

fun atom_stops :: "char \<Rightarrow> rx_atom \<Rightarrow> bool" where
  "atom_stops c (Lit l) \<longleftrightarrow> c \<notin> set l"
| "atom_stops c (Rep P m g n) \<longleftrightarrow> \<not> P c"
| "atom_stops c (One P n) \<longleftrightarrow> \<not> P c"
| "atom_stops c Eol \<longleftrightarrow> c \<noteq> newline"

definition stops :: "rx_atom list \<Rightarrow> char \<Rightarrow> bool" where
  "stops r c \<longleftrightarrow> (\<forall>a \<in> set r. atom_stops c a)"

lemma starts_with_stop:
  "c \<notin> set l \<Longrightarrow> starts_with (w @ c # x) l \<longleftrightarrow> starts_with w l"
  by (induction w l rule: starts_with.induct) auto

lemma takeWhile_stop: "\<not> P c \<Longrightarrow> takeWhile P (w @ c # x) = takeWhile P w"
  by (induction w) auto

lemma first_some_cong:
  "(\<And>n. n \<in> set ks \<Longrightarrow> f n = map_option h (g n)) \<Longrightarrow> first_some f ks = map_option h (first_some g ks)"
  by (induction ks) (auto split: option.split)

lemma counts_le: "n \<in> set (counts P m g w) \<Longrightarrow> n \<le> length w"
  using length_takeWhile_le [of P w] by (auto simp: counts_def Let_def split: if_splits)

lemma match_stop:
  "\<exists>R. \<forall>c x. stops r c \<longrightarrow>
     match_at r (w @ c # x) = map_option (\<lambda>(caps, t). (caps, t @ c # x)) R"
proof (induction r arbitrary: w)
  case Nil
  show ?case by (rule exI [of _ "Some ([], w)"]) simp
next
  case (Cons a r)
  then obtain R where R: "\<And>w c x. stops r c \<Longrightarrow>
      match_at r (w @ c # x) = map_option (\<lambda>(caps, t). (caps, t @ c # x)) (R w)"
    by metis
  have r: "stops (a # r) c \<Longrightarrow> stops r c" for c by (simp add: stops_def)
  show ?case
  proof (cases a)
    case (Lit l)
    have "length l \<le> length w" if "starts_with w l" using that by (auto simp: starts_with_iff)
    then show ?thesis using Lit r R
      by (intro exI [of _ "if starts_with w l then R (drop (length l) w) else None"])
         (auto simp: starts_with_stop stops_def match_at.simps(2))
  next
    case (Rep P m g n)
    let ?k = "\<lambda>i (caps, t). (case n of None \<Rightarrow> caps | Some y \<Rightarrow> (y, take i w) # caps, t)"
    have eq: "match_at (a # r) (w @ c # x) = map_option (\<lambda>(caps, t). (caps, t @ c # x))
        (first_some (\<lambda>i. map_option (?k i) (R (drop i w))) (counts P m g w))" if s: "stops (a # r) c" for c x
    proof -
      have "counts P m g (w @ c # x) = counts P m g w"
        using s Rep by (simp add: counts_def takeWhile_stop stops_def)
      then have "match_at (a # r) (w @ c # x) = first_some (\<lambda>i. map_option
          (\<lambda>(caps, t). (case n of None \<Rightarrow> caps | Some y \<Rightarrow> (y, take i (w @ c # x)) # caps, t))
          (match_at r (drop i (w @ c # x)))) (counts P m g w)"
        using Rep by (simp add: match_at.simps(2))
      also have "\<dots> = map_option (\<lambda>(caps, t). (caps, t @ c # x))
          (first_some (\<lambda>i. map_option (?k i) (R (drop i w))) (counts P m g w))"
        using counts_le [of _ P m g w] R [OF r [OF s]]
        by (intro first_some_cong)
           (auto simp: option.map_comp comp_def case_prod_beta intro!: map_option_cong split: option.split)
      finally show ?thesis .
    qed
    then show ?thesis by blast
  next
    case (One P n)
    show ?thesis
    proof (cases w)
      case Nil
      with One show ?thesis by (intro exI [of _ None]) (auto simp: stops_def match_at.simps(2))
    next
      case (Cons d ds)
      with One r R show ?thesis
        by (intro exI [of _ "if P d then map_option (\<lambda>(caps, t). (case n of None \<Rightarrow> caps | Some y \<Rightarrow> (y, [d]) # caps, t))
             (R ds) else None"])
           (auto simp: match_at.simps(2) option.map_comp comp_def case_prod_beta intro!: map_option_cong
             split: option.split)
    qed
  next
    case Eol
    show ?thesis
    proof (cases w)
      case Nil
      with Eol show ?thesis by (intro exI [of _ None]) (auto simp: stops_def match_at.simps(2))
    next
      case (Cons d ds)
      with Eol r R show ?thesis
        by (intro exI [of _ "if d = newline then R w else None"])
           (auto simp: match_at.simps(2) simp flip: append_Cons)
    qed
  qed
qed

lemma match_stop_swap:
  "stops r c \<Longrightarrow> stops r c' \<Longrightarrow> match_at r (w @ c # x) = None \<longleftrightarrow> match_at r (w @ c' # y) = None"
  using match_stop [of r w] by auto

text \<open>A pattern that opens with a literal whose first character none of the rest consumes.\<close>

lemma quiet_swap:
  assumes "r = Lit [d] # r'" "stops r' c" "stops r' c'"
  shows "quiet r bol b (c # x) \<longleftrightarrow> quiet r bol b (c' # y)"
proof (induction b arbitrary: bol)
  case (Cons e b)
  have "match_at r (e # b @ c # x) = None \<longleftrightarrow> match_at r (e # b @ c' # y) = None"
    using match_stop_swap [OF assms(2,3)] by (simp add: assms(1) match_at.simps(2))
  with Cons show ?case by simp
qed simp

end
