(* ===== verification/Routing.thy ===== *)
theory Routing
  imports Regex
begin

text \<open>
  Event routing for one recipient and the provenance, escalation and gateway markers
  (\<open>agentd/src/agentd/routing.py\<close>).  The three marker patterns are terms of \<open>Regex\<close>.
\<close>

section \<open>Markers\<close>

abbreviation not_space :: "char \<Rightarrow> bool" where
  "not_space c \<equiv> \<not> is_space c"

abbreviation ws0 :: rx_atom where "ws0 \<equiv> Rep is_space 0 True None"
abbreviation ws1 :: rx_atom where "ws1 \<equiv> Rep is_space 1 True None"

definition provenance_re :: "rx_atom list" where
  "provenance_re =
    [Lit ''<!--'', ws0, Lit ''agentd:turn'', ws1, Lit ''session='',
     Rep not_space 1 True (Some ''session''), ws1, Lit ''role='', Rep is_word 1 True (Some ''role''),
     ws1, Lit ''turn='', Rep not_space 1 True (Some ''turn''), ws0, Lit ''-->'']"

definition escalation_re :: "rx_atom list" where
  "escalation_re =
    [Lit ''<!--'', ws0, Lit ''agentd:escalation'', ws1, Lit ''session='',
     Rep not_space 1 True (Some ''session''), ws0, Lit ''-->'']"

definition gateway_re :: "rx_atom list" where
  "gateway_re =
    [Lit ''<!--'', ws0, Lit ''agentd:gateway'', ws1, Lit ''session='',
     Rep not_space 1 True (Some ''session''), ws0, Lit ''-->'']"

definition provenance_footer :: "string \<Rightarrow> string \<Rightarrow> string \<Rightarrow> string" where
  "provenance_footer session_key role turn_id =
     ''<!-- agentd:turn session='' @ session_key @ '' role='' @ role @ '' turn='' @ turn_id @ '' -->''"

definition gateway_footer :: "string \<Rightarrow> string" where
  "gateway_footer session_key = ''<!-- agentd:gateway session='' @ session_key @ '' -->''"

definition parse_marker :: "rx_atom list \<Rightarrow> string option \<Rightarrow> captures option" where
  "parse_marker re body =
     (case body of
        None \<Rightarrow> None
      | Some b \<Rightarrow> if b = [] then None else map_option (\<lambda>(_, caps, _). caps) (rx_search re b))"

definition parse_provenance :: "string option \<Rightarrow> captures option" where
  "parse_provenance = parse_marker provenance_re"

definition parse_escalation_marker :: "string option \<Rightarrow> captures option" where
  "parse_escalation_marker = parse_marker escalation_re"

definition parse_gateway_marker :: "string option \<Rightarrow> captures option" where
  "parse_gateway_marker = parse_marker gateway_re"

section \<open>Route decisions\<close>

datatype route_action = DROP | ROUTE | DEFER

record route_decision =
  action :: route_action
  reason :: string
  reset_consec :: bool

definition decide :: "route_action \<Rightarrow> string \<Rightarrow> route_decision" where
  "decide a r = \<lparr>action = a, reason = r, reset_consec = False\<rparr>"

definition opt_str :: "string option \<Rightarrow> string" where
  "opt_str x = (case x of None \<Rightarrow> [] | Some s \<Rightarrow> s)"

text \<open>The classified bot identities, lower-cased, without the empty name.\<close>

definition bots_of :: "string \<Rightarrow> string \<Rightarrow> string list \<Rightarrow> string list" where
  "bots_of recipient other bot_logins =
     filter (\<lambda>b. b \<noteq> []) (map py_lower bot_logins @ [recipient, other])"

definition route_for_recipient ::
  "string option \<Rightarrow> string \<Rightarrow> string \<Rightarrow> string option \<Rightarrow> string \<Rightarrow> string option \<Rightarrow> bool
   \<Rightarrow> string list \<Rightarrow> route_decision" where
  "route_for_recipient sender recipient_login recipient_role other_bot_login owner body
     session_paused bot_logins =
   (let sender_s = py_lower (opt_str sender);
        recipient = py_lower recipient_login;
        owner_s = py_lower owner;
        other = py_lower (opt_str other_bot_login);
        bots = bots_of recipient other bot_logins
    in if sender_s = recipient then decide DROP ''self-echo''
       else if sender_s = owner_s
         then \<lparr>action = ROUTE, reason = ''owner'', reset_consec = True\<rparr>
       else if parse_escalation_marker body \<noteq> None then decide DROP ''gateway escalation comment''
       else if parse_gateway_marker body \<noteq> None then decide DROP ''gateway comment''
       else if session_paused then decide DEFER ''session paused; non-owner''
       else if other \<noteq> [] \<and> sender_s = other then decide ROUTE ''peer-bot''
       else if (case parse_provenance body of
                  None \<Rightarrow> False
                | Some caps \<Rightarrow> caps \<noteq> [] \<and> map_of caps ''role'' = Some recipient_role)
         then decide DROP ''own-artifact provenance''
       else if sender_s \<noteq> [] \<and> sender_s \<notin> set bots then decide ROUTE ''human-or-other''
       else decide DROP ''unclassified sender'')"

section \<open>Marker facts\<close>

lemma ws_single:
  "match_at rest t = Some (caps, t') \<Longrightarrow> t = [] \<or> \<not> is_space (hd t) \<Longrightarrow> m \<le> 1 \<Longrightarrow>
    match_at (Rep is_space m True None # rest) (CHR '' '' # t) = Some (caps, t')"
  using match_Rep_longest [of "[CHR '' '']" is_space t m rest caps t' None] by (simp add: is_space_def)

lemma group_step:
  "match_at rest (CHR '' '' # t) = Some (caps, t') \<Longrightarrow> u \<noteq> [] \<Longrightarrow> \<forall>c \<in> set u. P c \<Longrightarrow>
    \<not> P (CHR '' '') \<Longrightarrow>
    match_at (Rep P 1 True (Some g) # rest) (u @ CHR '' '' # t) = Some ((g, u) # caps, t')"
  using match_Rep_longest [of u P "CHR '' '' # t" 1 rest caps t' "Some g"]
  by (cases u) simp_all

lemma lit_step: "match_at rest t = r \<Longrightarrow> match_at (Lit l # rest) (l @ t) = r"
  by simp

lemma space_not_word [simp]: "\<not> is_word (CHR '' '')"
  by (simp add: is_word_def is_digit_def is_upper_ascii_def is_lower_ascii_def)

lemma space_is_space [simp]: "is_space (CHR '' '')"
  by (simp add: is_space_def)

lemma tail_match:
  "match_at [ws0, Lit ''-->''] (CHR '' '' # ''-->'' @ r) = Some ([], r)"
proof (rule ws_single)
  show "match_at [Lit ''-->''] (''-->'' @ r) = Some ([], r)"
    by (rule lit_step) simp
qed (simp_all add: is_space_def)

lemma match_provenance:
  assumes "sk \<noteq> []" "\<forall>c \<in> set sk. \<not> is_space c" "role \<noteq> []" "\<forall>c \<in> set role. is_word c"
    and "tid \<noteq> []" "\<forall>c \<in> set tid. \<not> is_space c"
  shows "match_at provenance_re (provenance_footer sk role tid @ r) =
    Some ([(''session'', sk), (''role'', role), (''turn'', tid)], r)"
proof -
  have sp: "\<not> is_space (CHR ''t'')" "\<not> is_space (CHR ''r'')" "\<not> is_space (CHR ''s'')" "\<not> is_space (CHR ''a'')"
    by (simp_all add: is_space_def)
  have 1: "match_at [Rep not_space 1 True (Some ''turn''), ws0, Lit ''-->'']
      (tid @ CHR '' '' # ''-->'' @ r) = Some ([(''turn'', tid)], r)"
    using assms(5,6) by (intro group_step tail_match) simp_all
  have 2: "match_at [ws1, Lit ''turn='', Rep not_space 1 True (Some ''turn''), ws0, Lit ''-->'']
      (CHR '' '' # ''turn='' @ tid @ CHR '' '' # ''-->'' @ r) = Some ([(''turn'', tid)], r)"
    by (rule ws_single, rule lit_step, rule 1) (simp_all add: sp)
  have 3: "match_at [Rep is_word 1 True (Some ''role''), ws1, Lit ''turn='',
        Rep not_space 1 True (Some ''turn''), ws0, Lit ''-->'']
      (role @ CHR '' '' # ''turn='' @ tid @ CHR '' '' # ''-->'' @ r) =
      Some ([(''role'', role), (''turn'', tid)], r)"
    using assms(3,4) by (intro group_step 2) simp_all
  have 4: "match_at [ws1, Lit ''role='', Rep is_word 1 True (Some ''role''), ws1, Lit ''turn='',
        Rep not_space 1 True (Some ''turn''), ws0, Lit ''-->'']
      (CHR '' '' # ''role='' @ role @ CHR '' '' # ''turn='' @ tid @ CHR '' '' # ''-->'' @ r) =
      Some ([(''role'', role), (''turn'', tid)], r)"
    by (rule ws_single, rule lit_step, rule 3) (simp_all add: sp)
  have 5: "match_at [Rep not_space 1 True (Some ''session''), ws1, Lit ''role='',
        Rep is_word 1 True (Some ''role''), ws1, Lit ''turn='',
        Rep not_space 1 True (Some ''turn''), ws0, Lit ''-->'']
      (sk @ CHR '' '' # ''role='' @ role @ CHR '' '' # ''turn='' @ tid @ CHR '' '' # ''-->'' @ r) =
      Some ([(''session'', sk), (''role'', role), (''turn'', tid)], r)"
    using assms(1,2) by (intro group_step 4) simp_all
  have "match_at provenance_re
      (''<!--'' @ CHR '' '' # ''agentd:turn'' @ CHR '' '' # ''session='' @ sk @ CHR '' '' # ''role='' @ role @
       CHR '' '' # ''turn='' @ tid @ CHR '' '' # ''-->'' @ r) =
      Some ([(''session'', sk), (''role'', role), (''turn'', tid)], r)"
    unfolding provenance_re_def
    by (rule lit_step, rule ws_single, rule lit_step, rule ws_single, rule lit_step, rule 5)
       (simp_all add: sp)
  then show ?thesis by (simp add: provenance_footer_def)
qed

lemma match_gateway:
  assumes "sk \<noteq> []" "\<forall>c \<in> set sk. \<not> is_space c"
  shows "match_at gateway_re (gateway_footer sk @ r) = Some ([(''session'', sk)], r)"
proof -
  have 1: "match_at [Rep not_space 1 True (Some ''session''), ws0, Lit ''-->'']
      (sk @ CHR '' '' # ''-->'' @ r) = Some ([(''session'', sk)], r)"
    using assms by (intro group_step tail_match) simp_all
  have "match_at gateway_re
      (''<!--'' @ CHR '' '' # ''agentd:gateway'' @ CHR '' '' # ''session='' @ sk @ CHR '' '' # ''-->'' @ r) =
      Some ([(''session'', sk)], r)"
    unfolding gateway_re_def
    by (rule lit_step, rule ws_single, rule lit_step, rule ws_single, rule lit_step, rule 1)
       (simp_all add: is_space_def)
  then show ?thesis by (simp add: gateway_footer_def)
qed

lemma parse_marker_in_body:
  assumes "match_at (Lit (c # l) # rest) s = Some (caps, t)" "c \<notin> set pre"
  shows "parse_marker (Lit (c # l) # rest) (Some (pre @ s)) = Some caps"
proof -
  from assms(1) have "s \<noteq> []" using match_Lit_hd by blast
  with rx_search_skip [OF assms] show ?thesis by (simp add: parse_marker_def)
qed

lemma parse_gateway_in_body:
  assumes "sk \<noteq> []" "\<forall>c \<in> set sk. \<not> is_space c" "CHR ''<'' \<notin> set pre"
  shows "parse_gateway_marker (Some (pre @ gateway_footer sk @ r)) = Some [(''session'', sk)]"
  using parse_marker_in_body [OF match_gateway [OF assms(1,2), of r, unfolded gateway_re_def] assms(3)]
  by (simp add: parse_gateway_marker_def gateway_re_def)

section \<open>Properties\<close>

text \<open>C40: a turn's provenance footer survives posting and reading back: whatever text without an
  opening angle bracket precedes it and whatever follows, \<open>parse_provenance\<close> returns exactly the
  session key, role and turn id that \<open>provenance_footer\<close> wrote.\<close>

theorem provenance_roundtrip:
  assumes "sk \<noteq> []" "\<forall>c \<in> set sk. \<not> is_space c" "role \<noteq> []" "\<forall>c \<in> set role. is_word c"
    and "tid \<noteq> []" "\<forall>c \<in> set tid. \<not> is_space c" "CHR ''<'' \<notin> set pre"
  shows "parse_provenance (Some (pre @ provenance_footer sk role tid @ post)) =
    Some [(''session'', sk), (''role'', role), (''turn'', tid)]"
  using parse_marker_in_body [OF match_provenance [OF assms(1-6), of post, unfolded provenance_re_def] assms(7)]
  by (simp add: parse_provenance_def provenance_re_def)

theorem provenance_roundtrip_witness:
  "parse_provenance (Some (''Done. '' @ provenance_footer ''o/r#7'' ''architect'' ''t-1'' @ ''x'')) =
    Some [(''session'', ''o/r#7''), (''role'', ''architect''), (''turn'', ''t-1'')]"
  by (rule provenance_roundtrip)
     (simp_all add: is_space_def is_word_def is_digit_def is_upper_ascii_def is_lower_ascii_def)

text \<open>While a session is paused only the owner can start a turn: for any other sender the decision
  is a deferral, or a drop for the recipient's own echo and for gateway-marked comments, and never
  resets the agent-turn budget.\<close>

theorem paused_only_owner_routes:
  assumes "py_lower (opt_str sender) \<noteq> py_lower owner"
  shows "action (route_for_recipient sender recipient_login role other owner body True bots) =
      (if py_lower (opt_str sender) = py_lower recipient_login
          \<or> parse_escalation_marker body \<noteq> None \<or> parse_gateway_marker body \<noteq> None
       then DROP else DEFER)
    \<and> \<not> reset_consec (route_for_recipient sender recipient_login role other owner body True bots)"
  using assms by (auto simp: route_for_recipient_def decide_def Let_def)

theorem paused_only_owner_routes_witness:
  "action (route_for_recipient (Some ''grok'') ''claude'' ''architect'' (Some ''grok'') ''Zoe'' None True []) = DEFER"
proof -
  have "py_lower (opt_str (Some ''grok'')) \<noteq> py_lower ''Zoe''"
    by (simp add: py_lower_def opt_str_def lower_char_def is_upper_ascii_def)
  from paused_only_owner_routes [OF this, of "''claude''" "''architect''" "Some ''grok''" None "[]"]
  show ?thesis
    by (simp add: py_lower_def opt_str_def lower_char_def is_upper_ascii_def
      parse_escalation_marker_def parse_gateway_marker_def parse_marker_def)
qed

text \<open>A comment in the gateway's own voice never becomes an agent turn: if the body carries a
  gateway footer and the sender is not the owner, every recipient drops it, paused or not, whoever
  posted it.\<close>

theorem gateway_voice_dropped:
  assumes "py_lower (opt_str sender) \<noteq> py_lower owner"
    and "sk \<noteq> []" "\<forall>c \<in> set sk. \<not> is_space c" "CHR ''<'' \<notin> set pre"
  shows "action (route_for_recipient sender recipient_login role other owner
      (Some (pre @ gateway_footer sk @ post)) paused bots) = DROP"
  using assms(1) parse_gateway_in_body [OF assms(2-4), of post]
  by (simp add: route_for_recipient_def decide_def Let_def)

theorem gateway_voice_dropped_witness:
  "action (route_for_recipient (Some ''gw'') ''claude'' ''architect'' (Some ''grok'') ''Zoe''
      (Some (''hi '' @ gateway_footer ''o/r#7'' @ [])) False []) = DROP"
  by (rule gateway_voice_dropped)
     (simp_all add: py_lower_def opt_str_def lower_char_def is_upper_ascii_def is_space_def)

text \<open>The owner wins over every footer, and only the owner resets the budget.\<close>

lemma owner_routed:
  "py_lower (opt_str sender) = py_lower owner \<Longrightarrow>
   py_lower (opt_str sender) \<noteq> py_lower recipient_login \<Longrightarrow>
   action (route_for_recipient sender recipient_login role other owner body paused bots) = ROUTE
   \<and> reset_consec (route_for_recipient sender recipient_login role other owner body paused bots)"
  by (simp add: route_for_recipient_def Let_def)

lemma reset_only_owner:
  "reset_consec (route_for_recipient sender recipient_login role other owner body paused bots) \<Longrightarrow>
   py_lower (opt_str sender) = py_lower owner"
  by (auto simp: route_for_recipient_def decide_def Let_def split: if_splits)

lemma defer_only_paused:
  "action (route_for_recipient sender recipient_login role other owner body paused bots) = DEFER \<Longrightarrow>
   paused \<and> py_lower (opt_str sender) \<noteq> py_lower owner"
  by (auto simp: route_for_recipient_def decide_def Let_def split: if_splits)

lemma route_paused_owner:
  "action (route_for_recipient sender recipient_login role other owner body True bots) = ROUTE \<Longrightarrow>
   py_lower (opt_str sender) = py_lower owner"
  by (auto simp: route_for_recipient_def decide_def Let_def split: if_splits)

end
