(* ===== verification/Gitops_Names.thy ===== *)
theory Gitops_Names
  imports Agentd_Base
begin

text \<open>
  Names minted and parsed by \<open>agentd/src/agentd/gitops.py\<close>: session keys, project directories and
  the role branches that identify Design and Feature PRs.
\<close>

section \<open>Definitions\<close>

definition session_dir_name :: "string \<Rightarrow> string" where
  "session_dir_name session_key =
     (let (owner_repo, _, num) = partition_at CHR ''#'' session_key;
          (owner, _, repo) = partition_at CHR ''/'' owner_repo
      in owner @ ''__'' @ repo @ ''__'' @ num)"

definition project_key_from_repo :: "string \<Rightarrow> string" where
  "project_key_from_repo repo_full = py_strip repo_full"

definition project_key_from_session :: "string \<Rightarrow> string" where
  "project_key_from_session session_key =
     (let (owner_repo, _, _) = partition_at CHR ''#'' session_key in project_key_from_repo owner_repo)"

definition project_dir_name :: "string \<Rightarrow> string" where
  "project_dir_name repo_full =
     (let (owner, _, repo) = partition_at CHR ''/'' repo_full in owner @ ''__'' @ repo)"

definition role_branch_prefix :: "string \<Rightarrow> string" where
  "role_branch_prefix repo_full = ''agentd/'' @ project_dir_name repo_full @ ''/''"

definition role_branch_name :: "string \<Rightarrow> int \<Rightarrow> string \<Rightarrow> string" where
  "role_branch_name repo_full issue_num role =
     ''agentd/'' @ project_dir_name repo_full @ ''/'' @ dec issue_num @ ''/'' @ role"

definition parse_role_branch :: "string option \<Rightarrow> string \<Rightarrow> (int \<times> string) option" where
  "parse_role_branch head_ref repo_full =
     (case head_ref of
        None \<Rightarrow> None
      | Some h \<Rightarrow>
          if h = [] \<or> repo_full = [] then None
          else if \<not> starts_with h (role_branch_prefix repo_full) then None
          else
            (let rest = drop (length (role_branch_prefix repo_full)) h;
                 (num_s, sep, role) = partition_at CHR ''/'' rest
             in if \<not> sep \<or> role = [] \<or> CHR ''/'' \<in> set role then None
                else (case py_int num_s of None \<Rightarrow> None | Some n \<Rightarrow> Some (n, role))))"

definition is_design_head_ref :: "string option \<Rightarrow> string \<Rightarrow> bool" where
  "is_design_head_ref head_ref repo_full =
     (case parse_role_branch head_ref repo_full of
        None \<Rightarrow> False | Some (_, role) \<Rightarrow> role = ''architect'')"

definition is_feature_head_ref :: "string option \<Rightarrow> string \<Rightarrow> bool" where
  "is_feature_head_ref head_ref repo_full =
     (case parse_role_branch head_ref repo_full of
        None \<Rightarrow> False | Some (_, role) \<Rightarrow> role = ''developer'')"

definition project_path :: "string \<Rightarrow> string \<Rightarrow> string" where
  "project_path root repo_full = root @ ''/projects/'' @ project_dir_name repo_full"

definition issue_session_rel :: "int \<Rightarrow> string" where
  "issue_session_rel issue_num = ''sessions/'' @ dec issue_num"

definition shared_clone_path :: "string \<Rightarrow> string \<Rightarrow> string" where
  "shared_clone_path root repo_full = project_path root repo_full @ ''/repo''"

definition session_key_of :: "string \<Rightarrow> int \<Rightarrow> string" where
  "session_key_of repo issue_num = repo @ ''#'' @ dec issue_num"

section \<open>Facts\<close>

lemma slash_not_in_dec: "CHR ''/'' \<notin> set (dec n)"
  by (auto dest!: dec_chars simp: is_digit_def)

lemma role_branch_name_prefix:
  "role_branch_name repo n role = role_branch_prefix repo @ dec n @ ''/'' @ role"
  by (simp add: role_branch_name_def role_branch_prefix_def)

lemma role_branch_nonempty [simp]: "role_branch_name repo n role \<noteq> []"
  by (simp add: role_branch_name_def)

text \<open>The first double underscore of a directory name ends the owner when owners have none.\<close>

lemma project_dir_name_split:
  assumes "CHR ''/'' \<notin> set owner"
  shows "project_dir_name (owner @ ''/'' @ repo) = owner @ ''__'' @ repo"
  using partition_at_found [OF assms, of repo] by (simp add: project_dir_name_def)

lemma takeWhile_owner:
  "CHR ''_'' \<notin> set owner \<Longrightarrow> takeWhile (\<lambda>c. c \<noteq> CHR ''_'') (owner @ ''__'' @ repo) = owner"
  by (induction owner) auto

section \<open>Properties\<close>

text \<open>Branch names round-trip: the branch minted for an issue and a role parses back to exactly that
  issue number and role under the same repository, for any integer and any role name without a
  slash, so a PR's head ref identifies its session and its author's role.\<close>

theorem role_branch_roundtrip:
  assumes "repo \<noteq> []" "role \<noteq> []" "CHR ''/'' \<notin> set role"
  shows "parse_role_branch (Some (role_branch_name repo n role)) repo = Some (n, role)"
proof -
  have "partition_at CHR ''/'' (dec n @ CHR ''/'' # role) = (dec n, True, role)"
    by (rule partition_at_found [OF slash_not_in_dec])
  with assms show ?thesis
    by (simp add: parse_role_branch_def role_branch_name_prefix py_int_dec)
qed

theorem role_branch_roundtrip_witness:
  "parse_role_branch (Some (role_branch_name ''o/r'' 42 ''architect'')) ''o/r'' = Some (42, ''architect'')"
  by (rule role_branch_roundtrip) simp_all

text \<open>A head ref is never both a Design and a Feature branch, and a ref outside the repository's own
  \<open>agentd/<owner__repo>/\<close> namespace is neither.\<close>

theorem design_feature_exclusive:
  "\<not> (is_design_head_ref h repo \<and> is_feature_head_ref h repo)
   \<and> (is_design_head_ref h repo \<or> is_feature_head_ref h repo \<longrightarrow>
       (\<exists>n rest. h = Some (role_branch_prefix repo @ rest) \<and> parse_role_branch h repo \<noteq> None))"
  by (auto simp: is_design_head_ref_def is_feature_head_ref_def parse_role_branch_def starts_with_iff
      split: option.splits if_splits prod.splits)

theorem design_feature_exclusive_witness:
  "is_design_head_ref (Some ''agentd/o__r/7/architect'') ''o/r'' \<and>
   \<not> is_feature_head_ref (Some ''agentd/o__r/7/architect'') ''o/r''"
proof -
  have d: "is_design_head_ref (Some ''agentd/o__r/7/architect'') ''o/r''"
    by (simp add: is_design_head_ref_def parse_role_branch_def role_branch_prefix_def project_dir_name_def
      py_int_def py_strip_def is_space_def is_digit_def)
  with design_feature_exclusive [of "Some ''agentd/o__r/7/architect''" "''o/r''"] show ?thesis by blast
qed

text \<open>Two repositories never share a project directory, provided owner names hold neither an
  underscore nor a slash (GitHub's rule for logins): the directory name determines owner and
  repository.\<close>

theorem project_dir_injective:
  assumes "CHR ''_'' \<notin> set o1" "CHR ''_'' \<notin> set o2" "CHR ''/'' \<notin> set o1" "CHR ''/'' \<notin> set o2"
    and "project_dir_name (o1 @ ''/'' @ r1) = project_dir_name (o2 @ ''/'' @ r2)"
  shows "o1 = o2 \<and> r1 = r2"
proof -
  from assms have eq: "o1 @ ''__'' @ r1 = o2 @ ''__'' @ r2"
    by (simp add: project_dir_name_split del: append_Cons append_Nil)
  then have "o1 = o2"
    using takeWhile_owner [OF assms(1), of r1] takeWhile_owner [OF assms(2), of r2] by metis
  with eq show ?thesis by simp
qed

theorem project_dir_injective_witness: "''x'' = ''x'' \<and> ''y__z'' = (''y__z'' :: string)"
  by (rule project_dir_injective) simp_all

end
