(* ===== verification/Json.thy ===== *)
theory Json
  imports Agentd_Base
begin

text \<open>
  Python values read out of JSON: the value type, dictionary access, truthiness, \<open>str\<close> and \<open>int\<close>,
  and the two boundary helpers of \<open>agentd/src/agentd/digest.py\<close>.  A stored payload is what
  \<open>json.loads\<close> yields for it, None for a \<open>JSONDecodeError\<close>; JSON floats do not occur in the fields
  the gateway reads.
\<close>

datatype json =
    JNull | JBool bool | JNum int | JStr string | JArr "json list" | JObj "(string \<times> json) list"

type_synonym dict = "(string \<times> json) list"

section \<open>Dictionary access and truthiness\<close>

text \<open>\<open>d.get(k)\<close>: a missing key reads as None.\<close>

definition dget :: "dict \<Rightarrow> string \<Rightarrow> json" where
  "dget d k = (case map_of d k of None \<Rightarrow> JNull | Some v \<Rightarrow> v)"

definition has_key :: "dict \<Rightarrow> string \<Rightarrow> bool" where
  "has_key d k \<longleftrightarrow> map_of d k \<noteq> None"

fun truthy :: "json \<Rightarrow> bool" where
  "truthy JNull = False"
| "truthy (JBool b) = b"
| "truthy (JNum n) = (n \<noteq> 0)"
| "truthy (JStr s) = (s \<noteq> [])"
| "truthy (JArr xs) = (xs \<noteq> [])"
| "truthy (JObj kvs) = (kvs \<noteq> [])"

text \<open>Python's \<open>a or b\<close>.\<close>

definition py_or :: "json \<Rightarrow> json \<Rightarrow> json" where
  "py_or a b = (if truthy a then a else b)"

fun is_obj :: "json \<Rightarrow> bool" where
  "is_obj (JObj d) = True"
| "is_obj _ = False"

text \<open>\<open>json_obj\<close> and \<open>json_str\<close>.\<close>

fun json_obj :: "json \<Rightarrow> dict" where
  "json_obj (JObj d) = d"
| "json_obj _ = []"

fun json_str :: "json \<Rightarrow> string" where
  "json_str (JStr s) = s"
| "json_str _ = []"

section \<open>Conversions\<close>

fun join :: "string \<Rightarrow> string list \<Rightarrow> string" where
  "join sep [] = []"
| "join sep [x] = x"
| "join sep (x # y # ys) = x @ sep @ join sep (y # ys)"

text \<open>
  \<open>repr\<close> of a string without quotes or control characters in it, which holds for the logins, refs,
  kinds and SHAs the messages quote.
\<close>

definition repr_str :: "string \<Rightarrow> string" where
  "repr_str s = CHR 0x27 # s @ [CHR 0x27]"

fun py_repr :: "json \<Rightarrow> string" where
  "py_repr JNull = ''None''"
| "py_repr (JBool b) = (if b then ''True'' else ''False'')"
| "py_repr (JNum n) = dec n"
| "py_repr (JStr s) = repr_str s"
| "py_repr (JArr xs) = CHR ''['' # join '', '' (map py_repr xs) @ '']''"
| "py_repr (JObj kvs) =
     CHR ''{'' # join '', '' (map (\<lambda>(k, v). repr_str k @ '': '' @ py_repr v) kvs) @ ''}''"

definition py_str :: "json \<Rightarrow> string" where
  "py_str j = (case j of JStr s \<Rightarrow> s | _ \<Rightarrow> py_repr j)"

text \<open>\<open>str(x or "")\<close>, the source's usual reading of an optional field.\<close>

definition str_or_empty :: "json \<Rightarrow> string" where
  "str_or_empty j = py_str (py_or j (JStr []))"

text \<open>\<open>int(x)\<close>; None is \<open>TypeError\<close> or \<open>ValueError\<close>.\<close>

fun json_int :: "json \<Rightarrow> int option" where
  "json_int (JNum n) = Some n"
| "json_int (JBool b) = Some (if b then 1 else 0)"
| "json_int (JStr s) = py_int s"
| "json_int _ = None"

lemma dget_Nil [simp]: "dget [] k = JNull"
  by (simp add: dget_def)

lemma dget_Cons [simp]: "dget ((k', v) # d) k = (if k = k' then v else dget d k)"
  by (simp add: dget_def)

lemma has_key_Nil [simp]: "\<not> has_key [] k"
  by (simp add: has_key_def)

lemma has_key_Cons [simp]: "has_key ((k', v) # d) k \<longleftrightarrow> k = k' \<or> has_key d k"
  by (simp add: has_key_def)

lemma str_or_empty_simps [simp]:
  "str_or_empty JNull = []" "str_or_empty (JStr s) = s"
  by (simp_all add: str_or_empty_def py_or_def py_str_def)

text \<open>A nested read, \<open>json_obj(d.get(k)).get(k')\<close>.\<close>

abbreviation dget2 :: "dict \<Rightarrow> string \<Rightarrow> string \<Rightarrow> json" where
  "dget2 d k k' \<equiv> dget (json_obj (dget d k)) k'"

end
