(* ===== verification/Config.thy ===== *)
theory Config
  imports Json
begin

text \<open>
  Configuration (\<open>agentd/src/agentd/config.py\<close>): the properties of \<open>Config\<close> over the dictionary
  \<open>raw\<close> that \<open>yaml.safe_load\<close> returned.  A section read with \<open>raw.get(name, {}).get(...)\<close> raises when
  the section is present and not a mapping; such a property is None.  Paths and the file itself are
  not modelled.
\<close>

text \<open>\<open>raw.get(section, {})\<close> followed by an attribute read.\<close>

definition cfg_section :: "dict \<Rightarrow> string \<Rightarrow> dict option" where
  "cfg_section raw name =
     (if has_key raw name then (case dget raw name of JObj d \<Rightarrow> Some d | _ \<Rightarrow> None) else Some [])"

text \<open>\<open>d.get(k, dflt)\<close>.\<close>

definition dget_default :: "dict \<Rightarrow> string \<Rightarrow> json \<Rightarrow> json" where
  "dget_default d k v = (if has_key d k then dget d k else v)"

definition cfg_str :: "dict \<Rightarrow> string \<Rightarrow> string \<Rightarrow> string \<Rightarrow> string option" where
  "cfg_str raw section k dflt =
     map_option (\<lambda>d. py_str (dget_default d k (JStr dflt))) (cfg_section raw section)"

definition cfg_int :: "dict \<Rightarrow> string \<Rightarrow> string \<Rightarrow> int \<Rightarrow> int option" where
  "cfg_int raw section k dflt =
     Option.bind (cfg_section raw section) (\<lambda>d. json_int (dget_default d k (JNum dflt)))"

definition cfg_owner :: "dict \<Rightarrow> string option" where
  "cfg_owner raw = cfg_str raw ''host'' ''owner'' ''huozhe''"

definition turn_deadline_s :: "dict \<Rightarrow> int option" where
  "turn_deadline_s raw = cfg_int raw ''gateway'' ''turn_deadline_s'' 900"

definition rpc_timeout_grace_s :: "dict \<Rightarrow> int option" where
  "rpc_timeout_grace_s raw = cfg_int raw ''gateway'' ''rpc_timeout_grace_s'' 60"

definition rpc_timeout_s :: "dict \<Rightarrow> int option" where
  "rpc_timeout_s raw =
     Option.bind (turn_deadline_s raw) (\<lambda>d. map_option (\<lambda>g. d + g) (rpc_timeout_grace_s raw))"

definition resume_max_age_s :: "dict \<Rightarrow> int option" where
  "resume_max_age_s raw = cfg_int raw ''gateway'' ''resume_max_age_s'' 3600"

definition intake_mode :: "dict \<Rightarrow> string option" where
  "intake_mode raw = cfg_str raw ''intake'' ''mode'' ''label''"

definition intake_label :: "dict \<Rightarrow> string option" where
  "intake_label raw = cfg_str raw ''intake'' ''label'' ''agentd''"

definition intake_actors :: "dict \<Rightarrow> string option" where
  "intake_actors raw = cfg_str raw ''intake'' ''actors'' ''collaborators''"

definition max_hot_containers :: "dict \<Rightarrow> int option" where
  "max_hot_containers raw = cfg_int raw ''host'' ''max_hot_containers'' 4"

text \<open>\<open>self.raw.get(name) or {}\<close>; a non-mapping that is truthy has no \<open>get\<close> and raises.\<close>

definition cfg_or_empty :: "dict \<Rightarrow> string \<Rightarrow> dict option" where
  "cfg_or_empty raw name =
     (if truthy (dget raw name) then (case dget raw name of JObj d \<Rightarrow> Some d | _ \<Rightarrow> None) else Some [])"

definition silent_turn_limit :: "dict \<Rightarrow> int option" where
  "silent_turn_limit raw =
     Option.bind (cfg_or_empty raw ''budgets'') (\<lambda>b.
       if has_key b ''silent_turn_limit'' then json_int (dget b ''silent_turn_limit'')
       else cfg_int raw ''gateway'' ''silent_turn_limit'' 3)"

text \<open>The outer None is a raised error, the inner one the absent login.\<close>

definition gateway_login :: "dict \<Rightarrow> string option option" where
  "gateway_login raw =
     map_option (\<lambda>gw. if truthy (dget gw ''login'') then Some (py_str (dget gw ''login'')) else None)
       (cfg_or_empty raw ''gateway'')"

definition agent_login :: "dict \<Rightarrow> string \<Rightarrow> json option" where
  "agent_login raw agent_id =
     Option.bind (cfg_or_empty raw ''agents'') (\<lambda>a.
       map_option (\<lambda>e. dget e ''login'') (cfg_or_empty a agent_id))"

text \<open>\<open>agent_models\<close>: the non-empty model and effort of each agent entry.\<close>

definition model_spec :: "dict \<Rightarrow> (string \<times> string) list" where
  "model_spec entry =
     (let model = py_strip (str_or_empty (dget entry ''model''));
          effort = py_strip (str_or_empty (dget entry ''reasoning_effort''))
      in (if model \<noteq> [] then [(''model'', model)] else []) @
         (if effort \<noteq> [] then [(''reasoning_effort'', effort)] else []))"

definition agent_models :: "dict \<Rightarrow> (string \<times> (string \<times> string) list) list option" where
  "agent_models raw =
     map_option (\<lambda>agents. filter (\<lambda>(_, spec). spec \<noteq> [])
         (concat (map (\<lambda>(i, e). case e of JObj d \<Rightarrow> [(i, model_spec d)] | _ \<Rightarrow> []) agents)))
       (cfg_or_empty raw ''agents'')"

definition required_checks :: "dict \<Rightarrow> string \<Rightarrow> string list" where
  "required_checks raw repo =
     (case py_or (dget raw ''repos'') (JObj []) of
        JObj repos \<Rightarrow>
          (case dget repos repo of
             JObj entry \<Rightarrow>
               (case py_or (dget entry ''required_checks'') (JArr []) of
                  JArr cs \<Rightarrow> map py_str (filter (\<lambda>c. py_strip (py_str c) \<noteq> []) cs)
                | _ \<Rightarrow> [])
           | _ \<Rightarrow> [])
      | _ \<Rightarrow> [])"

definition agent_logins :: "dict \<Rightarrow> string list option" where
  "agent_logins raw =
     map_option (\<lambda>agents. concat (map (\<lambda>(_, v).
         case v of JObj d \<Rightarrow> (if has_key d ''login'' then [py_str (dget d ''login'')] else []) | _ \<Rightarrow> [])
       agents)) (cfg_or_empty raw ''agents'')"

definition all_bot_logins :: "dict \<Rightarrow> string list option" where
  "all_bot_logins raw =
     Option.bind (agent_logins raw) (\<lambda>ls.
       map_option (\<lambda>gw. case gw of None \<Rightarrow> ls | Some g \<Rightarrow> if g = [] then ls else ls @ [g]) (gateway_login raw))"

definition archive_days :: "dict \<Rightarrow> int option" where
  "archive_days raw =
     (case py_or (dget raw ''retention'') (JObj []) of
        JObj ret \<Rightarrow> if has_key ret ''archive_days'' then json_int (dget ret ''archive_days'') else Some 30
      | _ \<Rightarrow> Some 30)"

text \<open>The resolved values the session loop reads, in one record.\<close>

record config =
  owner :: string
  deadline_s :: int
  rpc_timeout :: int
  silent_limit :: int
  mode :: string
  label :: string
  actors :: string
  bot_logins :: "string list"
  agent_names :: "string list"
  gw_login :: "string option"
  checks_of :: "string \<Rightarrow> string list"
  arch_default :: string
  dev_default :: string

definition login_or :: "json option \<Rightarrow> string \<Rightarrow> string" where
  "login_or l dflt = (case l of None \<Rightarrow> dflt | Some j \<Rightarrow> if truthy j then py_str j else dflt)"

definition config_of :: "dict \<Rightarrow> config option" where
  "config_of raw =
     (case (cfg_owner raw, turn_deadline_s raw, rpc_timeout_s raw, silent_turn_limit raw,
            intake_mode raw, intake_label raw, intake_actors raw, all_bot_logins raw,
            agent_logins raw, gateway_login raw) of
        (Some ow, Some dl, Some rt, Some sl, Some mo, Some la, Some ac, Some bl, Some al, Some gl) \<Rightarrow>
          Some \<lparr>owner = ow, deadline_s = dl, rpc_timeout = rt, silent_limit = sl, mode = mo,
            label = la, actors = ac, bot_logins = bl, agent_names = al, gw_login = gl,
            checks_of = required_checks raw,
            arch_default = login_or (agent_login raw ''claude'') ''huozheclaude'',
            dev_default = login_or (agent_login raw ''grok'') ''huozhegrok''\<rparr>
      | _ \<Rightarrow> None)"

text \<open>An empty configuration resolves to the documented defaults.\<close>

lemma config_defaults:
  "\<exists>c. config_of [] = Some c \<and> owner c = ''huozhe'' \<and> deadline_s c = 900 \<and> rpc_timeout c = 960 \<and>
     silent_limit c = 3 \<and> mode c = ''label'' \<and> label c = ''agentd'' \<and> actors c = ''collaborators'' \<and>
     bot_logins c = [] \<and> arch_default c = ''huozheclaude'' \<and> dev_default c = ''huozhegrok''"
  by (simp add: config_of_def cfg_owner_def cfg_str_def cfg_int_def cfg_section_def dget_default_def
    turn_deadline_s_def rpc_timeout_s_def rpc_timeout_grace_s_def silent_turn_limit_def
    cfg_or_empty_def intake_mode_def intake_label_def intake_actors_def all_bot_logins_def
    agent_logins_def gateway_login_def agent_login_def login_or_def py_str_def)

end
