(* ===== verification/Intake.thy ===== *)
theory Intake
  imports Config "HOL-Library.Char_ord" "HOL-Library.List_Lexorder"
begin

text \<open>
  The intake gate (\<open>agentd/src/agentd/intake.py\<close>): which \<open>issues\<close> events may form a session.
  \<open>Inl ()\<close> is the \<open>AttributeError\<close> of a payload that is JSON but not an object.
\<close>

record intake_result =
  accepted :: bool
  in_reason :: string

definition collab_assoc :: "string list" where
  "collab_assoc = [''OWNER'', ''MEMBER'', ''COLLABORATOR'']"

definition lab_name :: "json \<Rightarrow> string list" where
  "lab_name lab =
     (case lab of
        JObj d \<Rightarrow> if truthy (dget d ''name'') then [py_str (dget d ''name'')] else []
      | JStr s \<Rightarrow> [s]
      | _ \<Rightarrow> [])"

definition label_names :: "dict \<Rightarrow> dict \<Rightarrow> string \<Rightarrow> string list" where
  "label_names issue data action =
     (case py_or (dget issue ''labels'') (JArr []) of JArr labs \<Rightarrow> concat (map lab_name labs) | _ \<Rightarrow> []) @
     (if action = ''labeled'' then lab_name (dget data ''label'') else [])"

definition evaluate_intake ::
  "string \<Rightarrow> string option \<Rightarrow> json option \<Rightarrow> config \<Rightarrow> unit + intake_result option" where
  "evaluate_intake event action payload cfg =
     (if event \<noteq> ''issues'' then Inr None
      else if action \<notin> Some ` {''opened'', ''reopened'', ''labeled''} then Inr None
      else
        (case payload of
           None \<Rightarrow> Inr (Some \<lparr>accepted = False, in_reason = ''unparseable payload''\<rparr>)
         | Some (JObj data) \<Rightarrow>
             (let issue = json_obj (dget data ''issue'');
                  assoc = str_or_empty (py_or (dget issue ''author_association'') (dget data ''author_association''));
                  names = label_names issue data (the action)
              in if actors cfg = ''collaborators'' \<and> py_upper assoc \<notin> set collab_assoc
                 then Inr (Some \<lparr>accepted = False, in_reason =
                   ''actors:collaborators rejected author_association='' @
                   (if assoc = [] then ''missing'' else assoc)\<rparr>)
                 else if mode cfg = ''label'' \<and> label cfg \<notin> set names
                 then Inr (Some \<lparr>accepted = False, in_reason =
                   ''mode:label requires label '' @ repr_str (label cfg) @ ''; have '' @
                   py_repr (JArr (map JStr (sort (remdups names))))\<rparr>)
                 else Inr (Some \<lparr>accepted = True, in_reason = ''intake pass''\<rparr>))
         | Some _ \<Rightarrow> Inl ()))"

text \<open>Under the default policy an accepted event is an issue opened, reopened or labeled by a
  collaborator and carries the configured label, and nothing else is accepted: comments, pull
  requests, strangers and unlabeled issues never open the gate.\<close>

theorem intake_accepts_only:
  assumes "actors cfg = ''collaborators''" "mode cfg = ''label''"
    and "evaluate_intake event action payload cfg = Inr (Some r)" "accepted r"
  shows "event = ''issues'' \<and> action \<in> {Some ''opened'', Some ''reopened'', Some ''labeled''} \<and>
    (\<exists>data. payload = Some (JObj data) \<and>
       py_upper (str_or_empty (py_or (dget2 data ''issue'' ''author_association'')
         (dget data ''author_association''))) \<in> {''OWNER'', ''MEMBER'', ''COLLABORATOR''} \<and>
       label cfg \<in> set (label_names (json_obj (dget data ''issue'')) data (the action)))"
  using assms
  by (auto simp: evaluate_intake_def Let_def collab_assoc_def split: if_splits option.splits json.splits)

definition example_config :: config where
  "example_config = \<lparr>owner = ''zoe'', deadline_s = 900, rpc_timeout = 960, silent_limit = 3,
     mode = ''label'', label = ''agentd'', actors = ''collaborators'', bot_logins = [''cl'', ''gr'', ''gw''],
     agent_names = [''cl'', ''gr''], gw_login = Some ''gw'', checks_of = (\<lambda>_. []),
     arch_default = ''cl'', dev_default = ''gr''\<rparr>"

definition example_issue :: dict where
  "example_issue = [(''issue'', JObj [(''author_association'', JStr ''owner''),
     (''labels'', JArr [JObj [(''name'', JStr ''agentd'')]])])]"

lemma upper_owner: "py_upper ''owner'' = ''OWNER''"
  by code_simp

theorem intake_accepts_only_witness:
  "label example_config \<in> set (label_names (json_obj (dget example_issue ''issue'')) example_issue ''opened'')"
proof -
  have "evaluate_intake ''issues'' (Some ''opened'') (Some (JObj example_issue)) example_config =
      Inr (Some \<lparr>accepted = True, in_reason = ''intake pass''\<rparr>)"
    by (simp add: evaluate_intake_def example_issue_def example_config_def collab_assoc_def Let_def
      label_names_def lab_name_def py_or_def py_str_def upper_owner)
  from intake_accepts_only [OF _ _ this] show ?thesis by (auto simp: example_config_def)
qed

end
