(* ===== verification/Rows.thy ===== *)
theory Rows
  imports Agentd_Base
begin

text \<open>
  Row lists: a SQLite table as the list of its rows in rowid order, with the statement shapes the
  store uses (UPDATE ... WHERE, SELECT ... WHERE, INSERT OR IGNORE, ON CONFLICT DO UPDATE), and the
  two generic interfaces of the development: a keyed table and a machine with an invariant.
\<close>

section \<open>Statements\<close>

definition upd_where :: "('r \<Rightarrow> bool) \<Rightarrow> ('r \<Rightarrow> 'r) \<Rightarrow> 'r list \<Rightarrow> 'r list" where
  "upd_where P f rows = map (\<lambda>r. if P r then f r else r) rows"

definition rowcount :: "('r \<Rightarrow> bool) \<Rightarrow> 'r list \<Rightarrow> nat" where
  "rowcount P rows = length (filter P rows)"

definition find_key :: "('r \<Rightarrow> 'k) \<Rightarrow> 'k \<Rightarrow> 'r list \<Rightarrow> 'r option" where
  "find_key key k rows = find (\<lambda>r. key r = k) rows"

text \<open>\<open>INSERT OR IGNORE\<close> on a table with primary key \<open>key\<close>.\<close>

definition insert_ignore :: "('r \<Rightarrow> 'k) \<Rightarrow> 'r \<Rightarrow> 'r list \<Rightarrow> 'r list" where
  "insert_ignore key r rows = (if key r \<in> key ` set rows then rows else rows @ [r])"

text \<open>\<open>INSERT ... ON CONFLICT(key) DO UPDATE\<close>: the conflicting row is rewritten in place.\<close>

definition upsert :: "('r \<Rightarrow> 'k) \<Rightarrow> 'r \<Rightarrow> ('r \<Rightarrow> 'r) \<Rightarrow> 'r list \<Rightarrow> 'r list" where
  "upsert key r f rows =
     (if key r \<in> key ` set rows then upd_where (\<lambda>x. key x = key r) f rows else rows @ [r])"

lemma length_upd_where [row_simps, simp]: "length (upd_where P f rows) = length rows"
  by (simp add: upd_where_def)

lemma upd_where_Nil [row_simps, simp]: "upd_where P f [] = []"
  by (simp add: upd_where_def)

lemma upd_where_Cons [row_simps, simp]:
  "upd_where P f (r # rows) = (if P r then f r else r) # upd_where P f rows"
  by (simp add: upd_where_def)

lemma set_upd_where: "set (upd_where P f rows) = (\<lambda>r. if P r then f r else r) ` set rows"
  by (simp add: upd_where_def)

lemma upd_where_none: "\<forall>r \<in> set rows. \<not> P r \<Longrightarrow> upd_where P f rows = rows"
  by (induction rows) auto

lemma map_upd_where: "(\<And>r. P r \<Longrightarrow> g (f r) = g r) \<Longrightarrow> map g (upd_where P f rows) = map g rows"
  by (induction rows) auto

lemma filter_upd_where_other:
  "(\<And>r. P r \<Longrightarrow> \<not> Q r \<and> \<not> Q (f r)) \<Longrightarrow> filter Q (upd_where P f rows) = filter Q rows"
  by (induction rows) auto

lemma find_key_SomeD: "find_key key k rows = Some r \<Longrightarrow> r \<in> set rows \<and> key r = k"
  by (auto simp: find_key_def find_Some_iff)

lemma find_key_None_iff: "find_key key k rows = None \<longleftrightarrow> k \<notin> key ` set rows"
  by (auto simp: find_key_def find_None_iff)

lemma find_key_distinct:
  "distinct (map key rows) \<Longrightarrow> r \<in> set rows \<Longrightarrow> find_key key (key r) rows = Some r"
  by (induction rows) (auto simp: find_key_def)

lemma find_key_Nil [simp]: "find_key key k [] = None"
  by (simp add: find_key_def)

lemma find_key_Cons [simp]:
  "find_key key k (r # rows) = (if key r = k then Some r else find_key key k rows)"
  by (simp add: find_key_def)

lemma find_key_append:
  "find_key key k (xs @ ys) = (case find_key key k xs of None \<Rightarrow> find_key key k ys | Some r \<Rightarrow> Some r)"
  by (induction xs) (auto simp: find_key_def)

section \<open>Tables with a primary key\<close>

text \<open>
  What every row rewriting of the store promises: the primary key is not a column it assigns.  The
  laws of lookups after updates, inserts and upserts follow once here.
\<close>

locale keyed_table =
  fixes key :: "'r \<Rightarrow> 'k"
    and keeps :: "('r \<Rightarrow> 'r) \<Rightarrow> bool"
  assumes keeps_key: "keeps f \<Longrightarrow> key (f r) = key r"
begin

lemma map_key_upd: "keeps f \<Longrightarrow> map key (upd_where P f rows) = map key rows"
  by (rule map_upd_where) (simp add: keeps_key)

lemma distinct_upd: "keeps f \<Longrightarrow> distinct (map key rows) \<Longrightarrow> distinct (map key (upd_where P f rows))"
  by (simp add: map_key_upd)

lemma key_set_upd: "keeps f \<Longrightarrow> key ` set (upd_where P f rows) = key ` set rows"
  using map_key_upd [of f P rows] by (metis list.set_map)

lemma find_upd:
  assumes "keeps f"
  shows "find_key key k (upd_where P f rows) =
    map_option (\<lambda>r. if P r then f r else r) (find_key key k rows)"
  using keeps_key [OF assms] by (induction rows) (auto simp: find_key_def)

lemma find_upd_key:
  "keeps f \<Longrightarrow> find_key key k (upd_where (\<lambda>r. key r = k') f rows) =
    (if k = k' then map_option f (find_key key k rows) else find_key key k rows)"
  by (cases "find_key key k rows") (auto simp: find_upd dest: find_key_SomeD)

lemma distinct_insert_ignore:
  "distinct (map key rows) \<Longrightarrow> distinct (map key (insert_ignore key r rows))"
  by (auto simp: insert_ignore_def)

lemma find_insert_ignore:
  "find_key key k (insert_ignore key r rows) =
    (case find_key key k rows of Some x \<Rightarrow> Some x | None \<Rightarrow> if key r = k then Some r else None)"
proof (cases "find_key key k rows")
  case None
  then have "k \<notin> key ` set rows" by (simp add: find_key_None_iff)
  with None show ?thesis by (auto simp: insert_ignore_def find_key_append)
qed (auto simp: insert_ignore_def find_key_append)

lemma insert_ignore_idem: "insert_ignore key r (insert_ignore key r rows) = insert_ignore key r rows"
  by (auto simp: insert_ignore_def)

lemma distinct_upsert:
  "keeps f \<Longrightarrow> distinct (map key rows) \<Longrightarrow> distinct (map key (upsert key r f rows))"
  by (auto simp: upsert_def map_key_upd)

lemma find_upsert:
  "keeps f \<Longrightarrow> find_key key k (upsert key r f rows) =
    (if k = key r then Some (case find_key key k rows of None \<Rightarrow> r | Some x \<Rightarrow> f x)
     else find_key key k rows)"
proof (cases "find_key key k rows")
  case None
  then have "k \<notin> key ` set rows" by (simp add: find_key_None_iff)
  with None show "keeps f \<Longrightarrow> ?thesis" by (auto simp: upsert_def find_upd_key find_key_append)
next
  case (Some x)
  then have "k \<in> key ` set rows" by (auto dest: find_key_SomeD)
  with Some have "k = key r \<Longrightarrow> key r \<in> key ` set rows" by simp
  with Some show "keeps f \<Longrightarrow> ?thesis" by (auto simp: upsert_def find_upd_key find_key_append simp del: image_iff)
qed

end

section \<open>Machines with an invariant\<close>

locale invariant_machine =
  fixes inv :: "'s \<Rightarrow> bool" and step :: "'e \<Rightarrow> 's \<Rightarrow> 's"
  assumes step_inv: "inv s \<Longrightarrow> inv (step e s)"
begin

lemma run_inv: "inv s \<Longrightarrow> inv (fold step es s)"
  by (induction es arbitrary: s) (auto intro: step_inv)

end

text \<open>A machine some of whose states absorb every event.\<close>

locale absorbing_machine =
  fixes absorbed :: "'s \<Rightarrow> bool" and step :: "'e \<Rightarrow> 's \<Rightarrow> 's"
  assumes absorbed_step: "absorbed s \<Longrightarrow> absorbed (step e s)"

sublocale absorbing_machine \<subseteq> invariant_machine absorbed step
  by unfold_locales (rule absorbed_step)

end
