(* ===== verification/Fsm.thy ===== *)
theory Fsm
  imports Rows
begin

text \<open>
  The session state machine (\<open>agentd/src/agentd/fsm.py\<close>).  The state strings and the normalised
  event kinds are enumerations; \<open>transition\<close> keeps the source's order: escalation, owner reply,
  issue close, then the table.
\<close>

section \<open>States, kinds, transitions\<close>

datatype fsm_state =
    INTAKE | PLANNING | DESIGN_REVIEW | DESIGN_REWORK | DESIGN_APPROVED | IMPLEMENTING
  | PAUSED_HUMAN | FAILED
  | CODE_REVIEW | CODE_REWORK | MERGING | AWAITING_VERIFICATION
  | TEARDOWN | CLOSED

definition design_states :: "fsm_state list" where
  "design_states = [INTAKE, PLANNING, DESIGN_REVIEW, DESIGN_REWORK, DESIGN_APPROVED, IMPLEMENTING,
     PAUSED_HUMAN, FAILED]"

definition code_states :: "fsm_state list" where
  "code_states = [CODE_REVIEW, CODE_REWORK, MERGING, AWAITING_VERIFICATION]"

definition terminal_states :: "fsm_state list" where
  "terminal_states = [TEARDOWN, CLOSED]"

abbreviation is_terminal :: "fsm_state \<Rightarrow> bool" where
  "is_terminal s \<equiv> s \<in> set terminal_states"

text \<open>
  The kinds the source names; every other normalised kind is the string
  \<open>event.action\<close>, kept in \<open>Other_kind\<close>.
\<close>

datatype event_kind =
    K_escalation | K_owner_reply | K_issues_closed | K_session_created | K_issue_opened
  | K_design_pr_opened | K_design_changes_requested | K_design_revised
  | K_design_approved_unverified | K_design_approved | K_design_merged | K_merge_design
  | K_feature_pr_opened | K_code_changes_requested | K_feature_revised
  | K_feature_approved_unverified | K_merge_authorized | K_feature_merged
  | Other_kind string

record fsm_transition =
  new_state :: fsm_state
  freeze_roles :: bool
  tr_note :: string

definition go :: "fsm_state \<Rightarrow> string \<Rightarrow> fsm_transition" where
  "go s n = \<lparr>new_state = s, freeze_roles = False, tr_note = n\<rparr>"

definition transition_rows :: "((fsm_state \<times> event_kind) \<times> fsm_transition) list" where
  "transition_rows =
    [((INTAKE, K_session_created), go PLANNING ''roles resolved''),
     ((PLANNING, K_design_pr_opened),
       \<lparr>new_state = DESIGN_REVIEW, freeze_roles = True,
        tr_note = ''roles freeze at Design PR open''\<rparr>),
     ((DESIGN_REVIEW, K_design_changes_requested), go DESIGN_REWORK []),
     ((DESIGN_REWORK, K_design_revised), go DESIGN_REVIEW []),
     ((DESIGN_REVIEW, K_design_approved), go DESIGN_APPROVED []),
     ((DESIGN_APPROVED, K_design_merged), go IMPLEMENTING []),
     ((IMPLEMENTING, K_feature_pr_opened), go CODE_REVIEW ''Feature PR open (developer branch)''),
     ((CODE_REVIEW, K_code_changes_requested), go CODE_REWORK []),
     ((CODE_REWORK, K_feature_revised), go CODE_REVIEW []),
     ((CODE_REVIEW, K_merge_authorized), go MERGING ''gateway authorized Feature PR merge''),
     ((MERGING, K_feature_merged), go AWAITING_VERIFICATION ''Feature PR merged + branch delete''),
     ((AWAITING_VERIFICATION, K_feature_pr_opened), go IMPLEMENTING ''re-enter for further Feature PR'')]"

definition transition_table :: "fsm_state \<Rightarrow> event_kind \<Rightarrow> fsm_transition option" where
  "transition_table s k = map_of transition_rows (s, k)"

text \<open>\<open>transition(state, event_kind)\<close>; a missing state reads as \<open>INTAKE\<close>.\<close>

definition transition :: "fsm_state option \<Rightarrow> event_kind \<Rightarrow> fsm_transition option" where
  "transition state k =
     (let s = (case state of None \<Rightarrow> INTAKE | Some x \<Rightarrow> x) in
      if k = K_escalation then Some (go PAUSED_HUMAN ''escalate.human'')
      else if k = K_owner_reply \<and> s = PAUSED_HUMAN
        then Some (go PLANNING ''resume from pause (fallback PLANNING)'')
      else if k = K_issues_closed
        then (if is_terminal s then None else Some (go TEARDOWN ''owner closed issue''))
      else transition_table s k)"

definition fsm_step :: "event_kind \<Rightarrow> fsm_state \<Rightarrow> fsm_state" where
  "fsm_step k s = (case transition (Some s) k of None \<Rightarrow> s | Some t \<Rightarrow> new_state t)"

section \<open>The lifecycle order\<close>

text \<open>Position of a state in the lifecycle; the order of the type follows it.\<close>

fun state_rank :: "fsm_state \<Rightarrow> nat" where
  "state_rank INTAKE = 0" | "state_rank PLANNING = 1" | "state_rank DESIGN_REVIEW = 2"
| "state_rank DESIGN_REWORK = 3" | "state_rank DESIGN_APPROVED = 4" | "state_rank IMPLEMENTING = 5"
| "state_rank CODE_REVIEW = 6" | "state_rank CODE_REWORK = 7" | "state_rank MERGING = 8"
| "state_rank AWAITING_VERIFICATION = 9" | "state_rank PAUSED_HUMAN = 10" | "state_rank FAILED = 11"
| "state_rank TEARDOWN = 12" | "state_rank CLOSED = 13"

lemma state_rank_inj: "state_rank a = state_rank b \<Longrightarrow> a = b"
  by (cases a; cases b) simp_all

instantiation fsm_state :: linorder
begin

definition less_eq_fsm_state :: "fsm_state \<Rightarrow> fsm_state \<Rightarrow> bool" where
  "less_eq_fsm_state a b \<longleftrightarrow> state_rank a \<le> state_rank b"

definition less_fsm_state :: "fsm_state \<Rightarrow> fsm_state \<Rightarrow> bool" where
  "less_fsm_state a b \<longleftrightarrow> state_rank a < state_rank b"

instance
  by standard (auto simp: less_eq_fsm_state_def less_fsm_state_def intro: state_rank_inj)

end

section \<open>Facts\<close>

lemma states_partition:
  "set design_states \<union> set code_states \<union> set terminal_states = UNIV"
  "distinct (design_states @ code_states @ terminal_states)"
proof -
  show "set design_states \<union> set code_states \<union> set terminal_states = UNIV"
  proof (rule UNIV_eq_I [symmetric])
    fix s
    show "s \<in> set design_states \<union> set code_states \<union> set terminal_states"
      by (cases s) (simp_all add: design_states_def code_states_def terminal_states_def)
  qed
  show "distinct (design_states @ code_states @ terminal_states)"
    by (simp add: design_states_def code_states_def terminal_states_def)
qed

lemma is_terminal_iff: "is_terminal s \<longleftrightarrow> s = TEARDOWN \<or> s = CLOSED"
  by (auto simp: terminal_states_def)

text \<open>The edges of the table, as triples of state, kind and next state.\<close>

definition fsm_edges :: "(fsm_state \<times> event_kind \<times> fsm_state) list" where
  "fsm_edges = map (\<lambda>((s, k), t). (s, k, new_state t)) transition_rows"

lemma fsm_edges_eq: "fsm_edges =
    [(INTAKE, K_session_created, PLANNING), (PLANNING, K_design_pr_opened, DESIGN_REVIEW),
     (DESIGN_REVIEW, K_design_changes_requested, DESIGN_REWORK),
     (DESIGN_REWORK, K_design_revised, DESIGN_REVIEW),
     (DESIGN_REVIEW, K_design_approved, DESIGN_APPROVED),
     (DESIGN_APPROVED, K_design_merged, IMPLEMENTING),
     (IMPLEMENTING, K_feature_pr_opened, CODE_REVIEW),
     (CODE_REVIEW, K_code_changes_requested, CODE_REWORK),
     (CODE_REWORK, K_feature_revised, CODE_REVIEW), (CODE_REVIEW, K_merge_authorized, MERGING),
     (MERGING, K_feature_merged, AWAITING_VERIFICATION),
     (AWAITING_VERIFICATION, K_feature_pr_opened, IMPLEMENTING)]"
  by (simp add: fsm_edges_def transition_rows_def go_def)

lemma table_edge: "transition_table s k = Some t \<Longrightarrow> (s, k, new_state t) \<in> set fsm_edges"
  by (force simp: transition_table_def fsm_edges_def dest: map_of_SomeD)

lemmas table_SomeE = table_edge [unfolded fsm_edges_eq]

lemma table_None_terminal: "is_terminal s \<Longrightarrow> transition_table s k = None"
  by (cases "transition_table s k") (auto simp: is_terminal_iff dest: table_SomeE)

lemma table_not_special:
  "transition_table s K_escalation = None" "transition_table s K_owner_reply = None"
  "transition_table s K_issues_closed = None" "transition_table s (Other_kind x) = None"
  "transition_table s K_issue_opened = None"
  by (simp_all add: transition_table_def transition_rows_def)

lemma table_PAUSED [simp]: "transition_table PAUSED_HUMAN k = None"
  by (simp add: transition_table_def transition_rows_def)

text \<open>A step either stays, or is one of the three special events, or is an edge of the table.\<close>

lemma fsm_step_cases:
  "fsm_step k s = s
   \<or> (k = K_escalation \<and> fsm_step k s = PAUSED_HUMAN)
   \<or> (k = K_owner_reply \<and> s = PAUSED_HUMAN \<and> fsm_step k s = PLANNING)
   \<or> (k = K_issues_closed \<and> \<not> is_terminal s \<and> fsm_step k s = TEARDOWN)
   \<or> (\<exists>t. transition_table s k = Some t \<and> fsm_step k s = new_state t)"
  by (cases "transition_table s k")
     (auto simp: fsm_step_def transition_def Let_def go_def is_terminal_iff)

text \<open>Which event enters which state: the inversion the session loop's safety rests on.\<close>

lemma enters_MERGING:
  "fsm_step k s = MERGING \<Longrightarrow> s = MERGING \<or> (s = CODE_REVIEW \<and> k = K_merge_authorized)"
  using fsm_step_cases [of k s] by (auto dest: table_SomeE)

lemma enters_AWAITING:
  "fsm_step k s = AWAITING_VERIFICATION \<Longrightarrow>
    s = AWAITING_VERIFICATION \<or> (s = MERGING \<and> k = K_feature_merged)"
  using fsm_step_cases [of k s] by (auto dest: table_SomeE)

lemma enters_DESIGN_APPROVED:
  "fsm_step k s = DESIGN_APPROVED \<Longrightarrow>
    s = DESIGN_APPROVED \<or> (s = DESIGN_REVIEW \<and> k = K_design_approved)"
  using fsm_step_cases [of k s] by (auto dest: table_SomeE)

lemma enters_TEARDOWN:
  "fsm_step k s = TEARDOWN \<Longrightarrow> s = TEARDOWN \<or> (\<not> is_terminal s \<and> k = K_issues_closed)"
  using fsm_step_cases [of k s] by (auto dest: table_SomeE)

lemma never_enters_CLOSED: "fsm_step k s = CLOSED \<Longrightarrow> s = CLOSED"
  using fsm_step_cases [of k s] by (auto dest: table_SomeE)

lemma never_enters_INTAKE_FAILED:
  "fsm_step k s = INTAKE \<Longrightarrow> s = INTAKE" "fsm_step k s = FAILED \<Longrightarrow> s = FAILED"
  using fsm_step_cases [of k s] by (auto dest: table_SomeE)

lemmas enters_simps = enters_MERGING enters_AWAITING enters_DESIGN_APPROVED enters_TEARDOWN

text \<open>Without an escalation event, a terminal state absorbs every event.\<close>

definition fsm_step_quiet :: "event_kind \<Rightarrow> fsm_state \<Rightarrow> fsm_state" where
  "fsm_step_quiet k s = (if k = K_escalation then s else fsm_step k s)"

lemma terminal_absorbs: "is_terminal s \<Longrightarrow> k \<noteq> K_escalation \<Longrightarrow> fsm_step k s = s"
  by (auto simp: fsm_step_def transition_def Let_def table_None_terminal is_terminal_iff)

interpretation fsm_terminal: absorbing_machine is_terminal fsm_step_quiet
  by unfold_locales (auto simp: fsm_step_quiet_def terminal_absorbs)

text \<open>The runs of the machine between two states, as a path relation.\<close>

inductive fsm_reach :: "fsm_state \<Rightarrow> event_kind list \<Rightarrow> fsm_state \<Rightarrow> bool" where
  stay: "fsm_reach s [] s"
| step: "fsm_reach s ks t \<Longrightarrow> transition (Some t) k = Some tr \<Longrightarrow> fsm_reach s (ks @ [k]) (new_state tr)"

inductive_cases fsm_reach_snocE: "fsm_reach s (ks @ [k]) t"

lemma fsm_reach_trans:
  "fsm_reach t js u \<Longrightarrow> fsm_reach s ks t \<Longrightarrow> fsm_reach s (ks @ js) u"
proof (induction rule: fsm_reach.induct)
  case (stay t)
  then show ?case by simp
next
  case (step t js u k tr)
  then have "fsm_reach s ((ks @ js) @ [k]) (new_state tr)"
    by (intro fsm_reach.step) simp_all
  then show ?case by simp
qed

lemma fsm_reach_step1: "transition (Some s) k = Some tr \<Longrightarrow> fsm_reach s [k] (new_state tr)"
  using fsm_reach.step [OF fsm_reach.stay, of s k tr] by simp

text \<open>What a path from \<open>INTAKE\<close> to each state must have passed.\<close>

definition path_ok :: "event_kind list \<Rightarrow> fsm_state \<Rightarrow> bool" where
  "path_ok ks s \<longleftrightarrow>
     (s = DESIGN_APPROVED \<longrightarrow> K_design_approved \<in> set ks) \<and>
     (s \<in> {IMPLEMENTING, CODE_REVIEW, CODE_REWORK, MERGING, AWAITING_VERIFICATION}
        \<longrightarrow> {K_design_approved, K_design_merged} \<subseteq> set ks) \<and>
     (s = MERGING \<longrightarrow> (\<exists>ps. ks = ps @ [K_merge_authorized])) \<and>
     (s = AWAITING_VERIFICATION \<longrightarrow> (\<exists>ps. ks = ps @ [K_merge_authorized, K_feature_merged]))"

lemma path_ok_step:
  assumes "path_ok ks t" "transition (Some t) k = Some tr"
  shows "path_ok (ks @ [k]) (new_state tr)"
proof -
  consider "k = K_escalation" "new_state tr = PAUSED_HUMAN" | "new_state tr = PLANNING"
    | "new_state tr = TEARDOWN" | "transition_table t k = Some tr"
    using assms(2) by (auto simp: transition_def Let_def go_def split: if_splits)
  then show ?thesis
  proof cases
    case 4
    have two: "\<exists>ps. qs @ [K_merge_authorized, K_feature_merged] = ps @ [K_merge_authorized, K_feature_merged]"
      for qs by blast
    from table_SomeE [OF 4] show ?thesis
      using assms(1) unfolding path_ok_def by (simp only: set_simps insert_iff prod.inject) (elim disjE conjE; auto simp: two)
  qed (auto simp: path_ok_def)
qed

lemma path_ok_reach: "fsm_reach s ks t \<Longrightarrow> s = INTAKE \<Longrightarrow> path_ok ks t"
proof (induction rule: fsm_reach.induct)
  case (step s ks t k tr)
  then show ?case by (blast intro: path_ok_step)
qed (simp add: path_ok_def)

text \<open>C6: no session awaits verification without the whole path: every run of the state machine from
  \<open>INTAKE\<close> to \<open>AWAITING_VERIFICATION\<close>, through any pauses, reworks and re-entries, contains the design
  approval and the design merge and ends with the merge authorisation followed at once by the merge.\<close>

theorem awaiting_needs_full_path:
  assumes "fsm_reach INTAKE ks AWAITING_VERIFICATION"
  shows "{K_design_approved, K_design_merged} \<subseteq> set ks \<and>
         (\<exists>ps. ks = ps @ [K_merge_authorized, K_feature_merged])"
  using path_ok_reach [OF assms refl] by (simp add: path_ok_def)

theorem awaiting_needs_full_path_witness:
  "fsm_reach INTAKE [K_session_created, K_design_pr_opened, K_design_approved, K_design_merged,
      K_feature_pr_opened, K_merge_authorized, K_feature_merged] AWAITING_VERIFICATION \<and>
   (\<exists>ps. [K_session_created, K_design_pr_opened, K_design_approved, K_design_merged,
      K_feature_pr_opened, K_merge_authorized, K_feature_merged] = ps @ [K_merge_authorized, K_feature_merged])"
proof -
  have one: "fsm_reach INTAKE (ks @ [k]) u"
    if "fsm_reach INTAKE ks t" "transition (Some t) k = Some tr" "new_state tr = u" for ks k t tr u
    using fsm_reach.step [OF that(1,2)] that(3) by simp
  note e = transition_def transition_table_def transition_rows_def go_def
  have "fsm_reach INTAKE ([] @ [K_session_created]) PLANNING"
    by (rule one [OF fsm_reach.stay, where tr = "go PLANNING ''roles resolved''"]) (simp_all add: e)
  then have "fsm_reach INTAKE [K_session_created] PLANNING" by simp
  from one [OF this, of K_design_pr_opened _ DESIGN_REVIEW]
  have "fsm_reach INTAKE [K_session_created, K_design_pr_opened] DESIGN_REVIEW" by (simp add: e)
  from one [OF this, of K_design_approved _ DESIGN_APPROVED]
  have "fsm_reach INTAKE [K_session_created, K_design_pr_opened, K_design_approved] DESIGN_APPROVED"
    by (simp add: e)
  from one [OF this, of K_design_merged _ IMPLEMENTING]
  have "fsm_reach INTAKE [K_session_created, K_design_pr_opened, K_design_approved, K_design_merged]
      IMPLEMENTING" by (simp add: e)
  from one [OF this, of K_feature_pr_opened _ CODE_REVIEW]
  have "fsm_reach INTAKE [K_session_created, K_design_pr_opened, K_design_approved, K_design_merged,
      K_feature_pr_opened] CODE_REVIEW" by (simp add: e)
  from one [OF this, of K_merge_authorized _ MERGING]
  have "fsm_reach INTAKE [K_session_created, K_design_pr_opened, K_design_approved, K_design_merged,
      K_feature_pr_opened, K_merge_authorized] MERGING" by (simp add: e)
  from one [OF this, of K_feature_merged _ AWAITING_VERIFICATION]
  have r: "fsm_reach INTAKE [K_session_created, K_design_pr_opened, K_design_approved, K_design_merged,
      K_feature_pr_opened, K_merge_authorized, K_feature_merged] AWAITING_VERIFICATION" by (simp add: e)
  then show ?thesis using awaiting_needs_full_path [OF r] by blast
qed

end
