(* ===== verification/Loop_Safety.thy ===== *)
theory Loop_Safety
  imports Json Rows "HOL-Library.Multiset" "HOL-Library.Char_ord" "HOL-Library.List_Lexorder"
begin

text \<open>
  Turn budgets, silent turns and stall detection (\<open>agentd/src/agentd/loop_safety.py\<close>).  The
  dataclasses are records, a method returns the updated record and the escalation text, None for no
  escalation.  SHA-256 is an argument of the fingerprint.
\<close>

section \<open>Turn budget\<close>

record budget_state =
  turn_count :: int
  consec_agent_turns :: int
  review_rounds :: int
  max_turns :: int
  max_consec_agent :: int
  max_review_rounds :: int

definition budget_of :: "int \<Rightarrow> int \<Rightarrow> int \<Rightarrow> budget_state" where
  "budget_of t c r = \<lparr>turn_count = t, consec_agent_turns = c, review_rounds = r,
     max_turns = 40, max_consec_agent = 30, max_review_rounds = 8\<rparr>"

definition after_agent_turn :: "budget_state \<Rightarrow> budget_state" where
  "after_agent_turn b =
     b\<lparr>turn_count := turn_count b + 1, consec_agent_turns := consec_agent_turns b + 1\<rparr>"

definition after_owner :: "budget_state \<Rightarrow> budget_state" where
  "after_owner b = b\<lparr>consec_agent_turns := 0\<rparr>"

definition breach :: "budget_state \<Rightarrow> string option" where
  "breach b =
     (if turn_count b \<ge> max_turns b
      then Some (''turn budget exhausted ('' @ dec (turn_count b) @ ''>='' @ dec (max_turns b) @ '')'')
      else if consec_agent_turns b \<ge> max_consec_agent b
      then Some (''consec agent turns exhausted ('' @ dec (consec_agent_turns b) @ ''>='' @
        dec (max_consec_agent b) @ '')'')
      else if review_rounds b \<ge> max_review_rounds b
      then Some (''review rounds exhausted ('' @ dec (review_rounds b) @ ''>='' @
        dec (max_review_rounds b) @ '')'')
      else None)"

datatype turn_event = Agent_turn | Owner_event

fun budget_step :: "turn_event \<Rightarrow> budget_state \<Rightarrow> budget_state" where
  "budget_step Agent_turn b = after_agent_turn b"
| "budget_step Owner_event b = after_owner b"

section \<open>Silent turns\<close>

datatype silent_mode = Keep | Reset | Inc

definition silent_turn_mode :: "bool \<Rightarrow> string option \<Rightarrow> silent_mode" where
  "silent_turn_mode observed_progress status =
     (if status \<notin> {None, Some ''done'', Some ''changes_requested''} then Keep
      else if observed_progress then Reset else Inc)"

record silent_tracker =
  silent_count :: int
  threshold :: int

definition claimed_kinds :: "json list \<Rightarrow> string list" where
  "claimed_kinds claimed =
     sort (remdups (map (\<lambda>a. py_str (py_or (dget (json_obj a) ''kind'') (JStr ''unknown'')))
       (filter is_obj claimed)))"

definition breach_message :: "silent_tracker \<Rightarrow> json list option \<Rightarrow> bool \<Rightarrow> string option" where
  "breach_message t public_actions window_examined =
     (if silent_count t < threshold t then None
      else let claimed = (case public_actions of None \<Rightarrow> [] | Some xs \<Rightarrow> xs);
               kinds = claimed_kinds claimed in
        if claimed \<noteq> []
        then let tail = (if window_examined then ''but no matching event arrived (P1)''
                         else ''and the turn'' @ [CHR 0x27] @ ''s event window was not examined'') in
          Some (''stall: silent_turns '' @ [em_dash] @ '' '' @ dec (silent_count t) @
            '' consecutive agent turns with no observed GitHub/FSM progress; agent claimed '' @
            ''public_actions='' @ py_repr (JArr (map JStr kinds)) @ '' '' @ tail)
        else
          Some (''stall: silent_turns '' @ [em_dash] @ '' '' @ dec (silent_count t) @
            '' consecutive agent turns with no public_actions claimed and no observed '' @
            ''GitHub/FSM progress''))"

definition silent_after_turn ::
  "silent_tracker \<Rightarrow> json list option \<Rightarrow> bool \<Rightarrow> string option \<Rightarrow> bool
   \<Rightarrow> silent_tracker \<times> string option" where
  "silent_after_turn t public_actions observed_progress status window_examined =
     (case silent_turn_mode observed_progress status of
        Keep \<Rightarrow> (t, None)
      | Reset \<Rightarrow> (t\<lparr>silent_count := 0\<rparr>, None)
      | Inc \<Rightarrow> let t' = t\<lparr>silent_count := silent_count t + 1\<rparr> in
          (t', breach_message t' public_actions window_examined))"

section \<open>Stall tracker\<close>

definition progress_fingerprint ::
  "(string \<Rightarrow> string) \<Rightarrow> string list \<Rightarrow> int \<Rightarrow> string \<Rightarrow> string" where
  "progress_fingerprint sha256 open_thread_ids unresolved_count diff_stat =
     sha256 (join '','' (sort open_thread_ids) @ ''|'' @ dec unresolved_count @ ''|'' @ sha256 diff_stat)"

record stall_tracker =
  last_fp :: "string option"
  fp_repeat :: int
  last_head :: "string option"
  seen_head_change :: bool
  zero_thread_rounds :: int
  fp_threshold :: int
  zero_thread_threshold :: int

text \<open>A fresh tracker, and the one the session loop rebuilds from a session row.\<close>

definition stall_init :: stall_tracker where
  "stall_init = \<lparr>last_fp = None, fp_repeat = 0, last_head = None, seen_head_change = False,
     zero_thread_rounds = 0, fp_threshold = 3, zero_thread_threshold = 3\<rparr>"

definition observe_fingerprint ::
  "stall_tracker \<Rightarrow> string \<Rightarrow> string option \<Rightarrow> stall_tracker \<times> string option" where
  "observe_fingerprint t fp head_sha =
     (case head_sha of
        None \<Rightarrow> (if last_fp t = None then t\<lparr>last_fp := Some fp\<rparr> else t, None)
      | Some h \<Rightarrow>
          if last_head t = None
          then (t\<lparr>last_head := Some h, last_fp := Some fp, fp_repeat := 0\<rparr>, None)
          else
            let t1 = (if Some h \<noteq> last_head t then t\<lparr>seen_head_change := True, last_head := Some h\<rparr> else t)
            in if \<not> seen_head_change t1
               then (t1\<lparr>last_fp := Some fp, fp_repeat := 0\<rparr>, None)
               else
                 let t2 = (if Some fp = last_fp t1 then t1\<lparr>fp_repeat := fp_repeat t1 + 1\<rparr>
                           else t1\<lparr>fp_repeat := 1, last_fp := Some fp\<rparr>)
                 in (t2, if fp_repeat t2 \<ge> fp_threshold t2
                         then Some (''stall: progress fingerprint identical '' @ dec (fp_repeat t2) @
                           '' consecutive turns after a head change'')
                         else None))"

definition observe_review_round :: "stall_tracker \<Rightarrow> int \<Rightarrow> stall_tracker \<times> string option" where
  "observe_review_round t threads_resolved =
     (let t1 = (if threads_resolved \<le> 0 then t\<lparr>zero_thread_rounds := zero_thread_rounds t + 1\<rparr>
                else t\<lparr>zero_thread_rounds := 0\<rparr>)
      in (t1, if zero_thread_rounds t1 \<ge> zero_thread_threshold t1
              then Some (''stall: zero thread progress for '' @ dec (zero_thread_rounds t1) @
                '' review rounds'')
              else None))"

section \<open>Budget facts\<close>

lemma breach_None_iff:
  "breach b = None \<longleftrightarrow> turn_count b < max_turns b \<and> consec_agent_turns b < max_consec_agent b
     \<and> review_rounds b < max_review_rounds b"
  by (auto simp: breach_def)

definition agent_turns :: "turn_event list \<Rightarrow> int" where
  "agent_turns es = int (length (filter (\<lambda>e. e = Agent_turn) es))"

text \<open>Agent turns since the last owner event.\<close>

definition trailing_agent_turns :: "turn_event list \<Rightarrow> int" where
  "trailing_agent_turns es = int (length (takeWhile (\<lambda>e. e = Agent_turn) (rev es)))"

definition budget_ok :: "budget_state \<Rightarrow> bool" where
  "budget_ok b \<longleftrightarrow> 0 \<le> consec_agent_turns b \<and> consec_agent_turns b \<le> turn_count b
     \<and> max_turns b = 40 \<and> max_consec_agent b = 30 \<and> max_review_rounds b = 8"

interpretation budget: invariant_machine budget_ok budget_step
proof
  fix b e
  assume "budget_ok b"
  then show "budget_ok (budget_step e b)"
    by (cases e) (auto simp: budget_ok_def after_agent_turn_def after_owner_def)
qed

lemma budget_run_counts:
  "turn_count (fold budget_step es b) = turn_count b + agent_turns es
   \<and> max_turns (fold budget_step es b) = max_turns b
   \<and> max_consec_agent (fold budget_step es b) = max_consec_agent b
   \<and> trailing_agent_turns es \<le> consec_agent_turns (fold budget_step es b)"
  if "0 \<le> consec_agent_turns b"
proof (induction es rule: rev_induct)
  case Nil
  then show ?case using that by (simp add: agent_turns_def trailing_agent_turns_def)
next
  case (snoc e es)
  then show ?case
    by (cases e) (auto simp: agent_turns_def trailing_agent_turns_def after_agent_turn_def after_owner_def)
qed

text \<open>The budget bounds a runaway loop: whatever the interleaving of agent turns and owner events
  from a fresh session, as long as \<open>breach\<close> stays silent fewer than 40 agent turns have run in all and
  fewer than 30 since the owner last acted.\<close>

theorem budget_bounds_agent_turns:
  assumes "breach (fold budget_step es (budget_of 0 0 r)) = None"
  shows "agent_turns es < 40 \<and> trailing_agent_turns es < 30"
proof -
  have "0 \<le> consec_agent_turns (budget_of 0 0 r)" by (simp add: budget_of_def)
  from budget_run_counts [OF this, of es] assms show ?thesis
    by (auto simp: breach_None_iff budget_of_def)
qed

theorem budget_bounds_agent_turns_witness:
  "agent_turns [Agent_turn, Owner_event, Agent_turn] < 40
   \<and> trailing_agent_turns [Agent_turn, Owner_event, Agent_turn] < 30"
  by (rule budget_bounds_agent_turns [where r = 0])
     (simp add: budget_of_def breach_None_iff after_agent_turn_def after_owner_def)

section \<open>Silent-turn facts\<close>

text \<open>A finished turn as the tracker sees it: whether progress was observed, and its status.\<close>

type_synonym finished_turn = "bool \<times> string option"

abbreviation mode_of :: "finished_turn \<Rightarrow> silent_mode" where
  "mode_of x \<equiv> silent_turn_mode (fst x) (snd x)"

definition silent_step :: "finished_turn \<Rightarrow> silent_tracker \<Rightarrow> silent_tracker" where
  "silent_step x t = fst (silent_after_turn t None (fst x) (snd x) False)"

text \<open>Countable turns without progress since the last observed progress.\<close>

definition silent_run :: "finished_turn list \<Rightarrow> nat" where
  "silent_run xs = length (takeWhile (\<lambda>m. m = Inc) (rev (filter (\<lambda>m. m \<noteq> Keep) (map mode_of xs))))"

lemma silent_step_count:
  "silent_count (silent_step x t) =
     (case mode_of x of Keep \<Rightarrow> silent_count t | Reset \<Rightarrow> 0 | Inc \<Rightarrow> silent_count t + 1)"
  "threshold (silent_step x t) = threshold t"
  by (simp_all add: silent_step_def silent_after_turn_def Let_def split: silent_mode.split)

lemma silent_fold:
  "silent_count t = 0 \<Longrightarrow> silent_count (fold silent_step xs t) = int (silent_run xs)
     \<and> threshold (fold silent_step xs t) = threshold t"
proof (induction xs rule: rev_induct)
  case Nil
  then show ?case by (simp add: silent_run_def)
next
  case (snoc x xs)
  then show ?case
    by (cases "mode_of x") (auto simp: silent_step_count silent_run_def)
qed

text \<open>The silent-turn stall fires exactly when the configured number of countable agent turns in a
  row ended without observed progress: after any history, the turn \<open>x\<close> escalates iff it is
  countable, showed no progress, and the run of such turns it ends is at least the limit; failed and
  timed-out turns neither count nor break the run, and what the agent claimed never matters.\<close>

theorem silent_turn_escalates_iff:
  assumes "silent_count t = 0"
  shows "(snd (silent_after_turn (fold silent_step xs t) claims (fst x) (snd x) w) \<noteq> None) \<longleftrightarrow>
    mode_of x = Inc \<and> threshold t \<le> int (silent_run (xs @ [x]))"
  using silent_fold [OF assms, of xs]
  by (cases "mode_of x")
     (auto simp: silent_after_turn_def breach_message_def Let_def silent_run_def)

theorem silent_turn_escalates_iff_witness:
  "snd (silent_after_turn (fold silent_step [(False, None), (False, Some ''failed''), (False, None)]
      \<lparr>silent_count = 0, threshold = 3\<rparr>) None False (Some ''done'') True) \<noteq> None"
  using silent_turn_escalates_iff [of "\<lparr>silent_count = 0, threshold = 3\<rparr>"
      "[(False, None), (False, Some ''failed''), (False, None)]" None "(False, Some ''done'')" True]
  by (simp add: silent_run_def silent_turn_mode_def)

section \<open>Stall facts\<close>

lemma fingerprint_order_irrelevant:
  "mset xs = mset ys \<Longrightarrow> progress_fingerprint h xs n d = progress_fingerprint h ys n d"
  by (simp add: progress_fingerprint_def) (metis sorted_list_of_multiset_mset)

text \<open>A run of observations with a head: the tracker after it and the last report.\<close>

type_synonym observation = "string \<times> string"

definition stall_step :: "observation \<Rightarrow> stall_tracker \<Rightarrow> stall_tracker" where
  "stall_step x t = fst (observe_fingerprint t (fst x) (Some (snd x)))"

text \<open>How many observations at the end share the last fingerprint, and whether the head moved.\<close>

definition same_fp_suffix :: "observation list \<Rightarrow> nat" where
  "same_fp_suffix xs = length (takeWhile (\<lambda>x. fst x = fst (last xs)) (rev xs))"

definition heads_moved :: "observation list \<Rightarrow> bool" where
  "heads_moved xs \<longleftrightarrow> (\<exists>x \<in> set xs. snd x \<noteq> snd (hd xs))"

definition stall_inv :: "observation list \<Rightarrow> stall_tracker \<Rightarrow> bool" where
  "stall_inv xs t \<longleftrightarrow> fp_threshold t = 3 \<and>
     last_head t = (if xs = [] then None else Some (snd (last xs))) \<and>
     last_fp t = (if xs = [] then None else Some (fst (last xs))) \<and>
     (seen_head_change t \<longleftrightarrow> heads_moved xs) \<and>
     fp_repeat t \<le> int (same_fp_suffix xs)"

lemma same_fp_suffix_snoc:
  "same_fp_suffix (xs @ [x]) =
    (if xs \<noteq> [] \<and> fst (last xs) = fst x then Suc (same_fp_suffix xs) else 1)"
  by (cases xs rule: rev_cases) (auto simp: same_fp_suffix_def)

lemma heads_moved_snoc:
  "heads_moved (xs @ [x]) \<longleftrightarrow> xs \<noteq> [] \<and> (heads_moved xs \<or> snd x \<noteq> snd (last xs))"
  by (cases xs rule: rev_cases) (auto simp: heads_moved_def hd_append)

lemma heads_moved_small [simp]: "\<not> heads_moved []" "\<not> heads_moved [x]"
  by (simp_all add: heads_moved_def)

lemma stall_inv_init: "stall_inv [] stall_init"
  by (simp add: stall_inv_def stall_init_def heads_moved_def same_fp_suffix_def)

lemma stall_inv_step: "stall_inv xs t \<Longrightarrow> stall_inv (xs @ [x]) (stall_step x t)"
  by (cases "xs = []")
     (auto simp: stall_inv_def stall_step_def observe_fingerprint_def Let_def
       same_fp_suffix_snoc heads_moved_snoc)

lemma stall_inv_run: "stall_inv xs (fold stall_step xs stall_init)"
  by (induction xs rule: rev_induct) (simp_all add: stall_inv_init stall_inv_step)

lemma observe_reports_repeat:
  "snd (observe_fingerprint t fp (Some h)) \<noteq> None \<Longrightarrow>
     fp_threshold t \<le> fp_repeat (stall_step (fp, h) t) \<and> seen_head_change (stall_step (fp, h) t)"
  by (auto simp: observe_fingerprint_def stall_step_def Let_def split: if_splits)

text \<open>The fingerprint stall signal has no false alarm: on a tracker kept across turns, a report at
  observation \<open>x\<close> means the head SHA has moved at least once in the history and the last three
  observations, \<open>x\<close> included, carry the same progress fingerprint.\<close>

theorem fingerprint_report_sound:
  assumes "snd (observe_fingerprint (fold stall_step xs stall_init) (fst x) (Some (snd x))) \<noteq> None"
  shows "heads_moved (xs @ [x]) \<and> 3 \<le> same_fp_suffix (xs @ [x])"
proof -
  let ?t = "fold stall_step xs stall_init"
  have r: "fp_threshold ?t \<le> fp_repeat (stall_step x ?t) \<and> seen_head_change (stall_step x ?t)"
    using observe_reports_repeat [of ?t "fst x" "snd x"] assms by simp
  have "stall_inv (xs @ [x]) (stall_step x ?t)"
    by (rule stall_inv_step [OF stall_inv_run])
  moreover have "fp_threshold ?t = 3"
    using stall_inv_run [of xs] by (simp add: stall_inv_def)
  ultimately show ?thesis using r by (auto simp: stall_inv_def)
qed

theorem fingerprint_report_sound_witness:
  "heads_moved [(''f'', ''a''), (''f'', ''b''), (''f'', ''c''), (''f'', ''d'')] \<and>
   3 \<le> same_fp_suffix [(''f'', ''a''), (''f'', ''b''), (''f'', ''c''), (''f'', ''d'')]"
  using fingerprint_report_sound [of "[(''f'', ''a''), (''f'', ''b''), (''f'', ''c'')]" "(''f'', ''d'')"]
  by (simp add: stall_init_def stall_step_def observe_fingerprint_def Let_def)

text \<open>A tracker without a remembered head never reports: the first observation with a head only
  records it and clears the repeat count, and the armed flag never comes on.  The session loop
  rebuilds its tracker from the session row on every review, without a head, so each of its
  observations is this first one.\<close>

theorem rehydrated_fingerprint_dead:
  assumes "last_head t = None"
  shows "snd (observe_fingerprint t fp head) = None \<and>
    seen_head_change (fst (observe_fingerprint t fp head)) = seen_head_change t \<and>
    (head \<noteq> None \<longrightarrow> fp_repeat (fst (observe_fingerprint t fp head)) = 0)"
  using assms by (cases head) (auto simp: observe_fingerprint_def)

theorem rehydrated_fingerprint_dead_witness:
  "snd (observe_fingerprint (stall_init\<lparr>last_fp := Some ''f'', fp_repeat := 9, seen_head_change := True\<rparr>)
     ''f'' (Some ''abc'')) = None"
  using rehydrated_fingerprint_dead
    [of "stall_init\<lparr>last_fp := Some ''f'', fp_repeat := 9, seen_head_change := True\<rparr>" "''f''" "Some ''abc''"]
  by (simp add: stall_init_def)

end
