(* ===== verification/Store.thy ===== *)
theory Store
  imports Fsm Json Loop_Safety
begin

text \<open>
  The SQLite store (\<open>agentd/src/agentd/db.py\<close>, class \<open>Store\<close>): one record per table row, the
  connection as a record of tables in rowid order, one definition per method with the SQL statement's
  meaning written on the row lists.  \<open>now\<close> is \<open>int(time.time())\<close>.  Every method runs under the
  store's lock and commits before it returns, so each is one atomic step.  An \<open>IntegrityError\<close> of
  SQLite (duplicate primary key, missing parent row with \<open>foreign_keys=ON\<close>) and a raised Python
  exception are the \<open>Inl\<close> side of a result.
\<close>

section \<open>Rows\<close>

datatype dstatus = Queued | Deferred | Done | Dropped | Routed

record delivery =
  delivery_id :: string
  d_event :: string
  d_action :: "string option"
  d_repo :: string
  d_issue :: "int option"
  d_sender :: string
  d_received :: int
  d_payload :: "json option"
  d_status :: dstatus
  d_next :: int
  d_defers :: int

record delivery_node =
  node_id :: string
  n_delivery :: string
  n_seen :: int

record breaker_row =
  disk_paused :: bool
  br_reason :: "string option"
  br_updated :: int

record runner_row =
  r_project :: string
  r_container :: "string option"
  r_endpoint :: "string option"
  r_token :: "string option"
  r_tier :: string
  r_seen :: "int option"

record session_row =
  session_key :: string
  s_project :: string
  s_repo :: string
  s_issue :: int
  s_state :: fsm_state
  s_paused :: "string option"
  s_resume :: "fsm_state option"
  s_open_threads :: "string list option"
  s_architect :: string
  s_developer :: string
  s_locked :: bool
  s_design_pr :: "int option"
  s_feature_pr :: "int option"
  s_design_head :: "string option"
  s_feature_head :: "string option"
  s_turns :: int
  s_consec :: int
  s_rounds :: int
  s_fp :: "string option"
  s_fp_repeat :: int
  s_zero_threads :: int
  s_silent :: int
  s_verified :: "int option"
  s_class :: "string option"
  s_closed_esc :: "int option"
  s_created :: int
  s_updated :: int

record turn_row =
  turn_id :: string
  t_session :: string
  t_role :: string
  t_delivery :: "string option"
  t_started :: int
  t_ended :: "int option"
  t_status :: "string option"
  t_summary :: "string option"
  t_actions :: "string option"
  t_resumes :: int

record artifact_row =
  a_id :: nat
  a_session :: string
  a_role :: string
  a_kind :: string
  a_ref :: string
  a_created :: int
  a_removed :: "int option"

record escalation_row =
  e_id :: nat
  e_session :: string
  e_role :: "string option"
  e_reason :: string
  e_comment :: "int option"
  e_opened :: int
  e_resolved :: "int option"

record block_row =
  b_project :: string
  b_reason :: string
  b_session :: "string option"
  b_issue :: "int option"
  b_comment :: "int option"
  b_opened :: int
  b_resolved :: "int option"

record store =
  deliveries :: "delivery list"
  nodes :: "delivery_node list"
  breaker :: breaker_row
  runners :: "runner_row list"
  sessions :: "session_row list"
  turns :: "turn_row list"
  artifacts :: "artifact_row list"
  escalations :: "escalation_row list"
  blocks :: "block_row list"

definition empty_store :: store where
  "empty_store = \<lparr>deliveries = [], nodes = [],
     breaker = \<lparr>disk_paused = False, br_reason = None, br_updated = 0\<rparr>,
     runners = [], sessions = [], turns = [], artifacts = [], escalations = [], blocks = []\<rparr>"

datatype db_error = Integrity_error | Value_error string | Key_error string | Attribute_error

text \<open>The id SQLite gives a new row of an \<open>INTEGER PRIMARY KEY\<close> table.\<close>

definition next_id :: "nat list \<Rightarrow> nat" where
  "next_id ids = Suc (fold max ids 0)"

section \<open>Deliveries\<close>

text \<open>
  \<open>node_ids_from_payload\<close>: the node id of each object on the envelope.  A truthy value that is not
  an object has no \<open>get\<close>: \<open>AttributeError\<close>, None here.
\<close>

fun node_ids_of :: "dict \<Rightarrow> string list \<Rightarrow> string list option" where
  "node_ids_of data [] = Some []"
| "node_ids_of data (k # ks) =
     (case py_or (dget data k) (JObj []) of
        JObj d \<Rightarrow> map_option (\<lambda>rest. if truthy (dget d ''node_id'') then py_str (dget d ''node_id'') # rest else rest)
          (node_ids_of data ks)
      | _ \<Rightarrow> None)"

definition node_ids_from_payload :: "dict \<Rightarrow> string list option" where
  "node_ids_from_payload data = node_ids_of data [''comment'', ''review'', ''pull_request'', ''issue'']"

definition index_nodes :: "string \<Rightarrow> string list \<Rightarrow> int \<Rightarrow> store \<Rightarrow> store" where
  "index_nodes did nids seen st =
     st\<lparr>nodes := fold (\<lambda>nid. insert_ignore node_id \<lparr>node_id = nid, n_delivery = did, n_seen = seen\<rparr>)
        nids (nodes st)\<rparr>"

text \<open>
  \<open>insert_delivery\<close>: \<open>INSERT OR IGNORE\<close>, then the node index of an object payload.  The flag is
  the return value; when indexing raises, the row stays inserted.
\<close>

definition insert_delivery ::
  "int \<Rightarrow> string \<Rightarrow> string \<Rightarrow> string option \<Rightarrow> string option \<Rightarrow> int option \<Rightarrow> string option
   \<Rightarrow> json option \<Rightarrow> dstatus \<Rightarrow> store \<Rightarrow> store \<times> (db_error + bool)" where
  "insert_delivery now did event action repo issue sender payload status st =
     (let row = \<lparr>delivery_id = did, d_event = event, d_action = action,
            d_repo = (case repo of None \<Rightarrow> [] | Some r \<Rightarrow> r), d_issue = issue,
            d_sender = (case sender of None \<Rightarrow> [] | Some s \<Rightarrow> s),
            d_received = now, d_payload = payload, d_status = status, d_next = 0, d_defers = 0\<rparr>;
          inserted = (did \<notin> delivery_id ` set (deliveries st));
          st1 = st\<lparr>deliveries := insert_ignore delivery_id row (deliveries st)\<rparr>
      in if inserted
         then (case payload of
                 Some (JObj data) \<Rightarrow>
                   (case node_ids_from_payload data of
                      None \<Rightarrow> (st1, Inl Attribute_error)
                    | Some nids \<Rightarrow> (index_nodes did nids now st1, Inr True))
               | _ \<Rightarrow> (st1, Inr True))
         else (st1, Inr False))"

definition has_delivery_node :: "string \<Rightarrow> store \<Rightarrow> bool" where
  "has_delivery_node nid st \<longleftrightarrow> nid \<in> node_id ` set (nodes st)"

definition list_queued :: "nat \<Rightarrow> store \<Rightarrow> delivery list" where
  "list_queued limit st =
     take limit (sort_key d_received (filter (\<lambda>d. d_status d = Queued) (deliveries st)))"

definition upd_delivery :: "string \<Rightarrow> (delivery \<Rightarrow> delivery) \<Rightarrow> store \<Rightarrow> store" where
  "upd_delivery did f st =
     st\<lparr>deliveries := upd_where (\<lambda>d. delivery_id d = did) f (deliveries st)\<rparr>"

definition set_delivery_status :: "string \<Rightarrow> dstatus \<Rightarrow> store \<Rightarrow> store" where
  "set_delivery_status did status = upd_delivery did (\<lambda>d. d\<lparr>d_status := status\<rparr>)"

definition queue_depth :: "store \<Rightarrow> nat" where
  "queue_depth st = rowcount (\<lambda>d. d_status d = Queued) (deliveries st)"

definition delivery_count :: "store \<Rightarrow> nat" where
  "delivery_count st = length (deliveries st)"

definition count_by_status :: "store \<Rightarrow> dstatus \<Rightarrow> nat" where
  "count_by_status st s = rowcount (\<lambda>d. d_status d = s) (deliveries st)"

definition deliveries_in_window :: "string \<Rightarrow> int \<Rightarrow> int \<Rightarrow> store \<Rightarrow> delivery list" where
  "deliveries_in_window repo after through st =
     sort_key d_received
       (filter (\<lambda>d. d_repo d = repo \<and> d_received d > after \<and> d_received d \<le> through) (deliveries st))"

definition list_deferred :: "int \<Rightarrow> nat \<Rightarrow> store \<Rightarrow> delivery list" where
  "list_deferred now limit st =
     take limit (sort_key d_received
       (filter (\<lambda>d. d_status d = Deferred \<and> d_next d \<le> now) (deliveries st)))"

text \<open>SQLite's \<open>1 << n\<close>: a negative count shifts right.\<close>

definition shift_one :: "int \<Rightarrow> int" where
  "shift_one n = (if n < 0 then 0 else 2 ^ nat n)"

definition defer_backoff :: "int \<Rightarrow> int" where
  "defer_backoff n = (if n \<ge> 6 then 300 else 5 * shift_one n)"

definition defer_delivery :: "int \<Rightarrow> string \<Rightarrow> store \<Rightarrow> store" where
  "defer_delivery now did =
     upd_delivery did (\<lambda>d. d\<lparr>d_next := now + defer_backoff (d_defers d), d_defers := d_defers d + 1\<rparr>)"

definition defer_delivery_until :: "string \<Rightarrow> int \<Rightarrow> store \<Rightarrow> store" where
  "defer_delivery_until did next_attempt_at =
     upd_delivery did (\<lambda>d. d\<lparr>d_next := next_attempt_at, d_defers := d_defers d + 1\<rparr>)"

definition clear_deferred_clocks :: "store \<Rightarrow> store" where
  "clear_deferred_clocks st =
     st\<lparr>deliveries := upd_where (\<lambda>d. d_status d = Deferred) (\<lambda>d. d\<lparr>d_next := 0, d_defers := 0\<rparr>)
        (deliveries st)\<rparr>"

definition before :: "int option \<Rightarrow> delivery \<Rightarrow> bool" where
  "before cutoff d = (case cutoff of None \<Rightarrow> True | Some c \<Rightarrow> d_received d < c)"

definition count_deferred :: "int option \<Rightarrow> store \<Rightarrow> nat" where
  "count_deferred cutoff st = rowcount (\<lambda>d. d_status d = Deferred \<and> before cutoff d) (deliveries st)"

definition quarantine_deferred :: "int option \<Rightarrow> store \<Rightarrow> store \<times> nat" where
  "quarantine_deferred cutoff st =
     (st\<lparr>deliveries := upd_where (\<lambda>d. d_status d = Deferred \<and> before cutoff d)
          (\<lambda>d. d\<lparr>d_status := Dropped\<rparr>) (deliveries st)\<rparr>,
      rowcount (\<lambda>d. d_status d = Deferred \<and> before cutoff d) (deliveries st))"

definition list_deliveries_for :: "string \<Rightarrow> int list \<Rightarrow> store \<Rightarrow> delivery list" where
  "list_deliveries_for repo nums st =
     (if nums = [] then []
      else sort_key d_received
        (filter (\<lambda>d. d_repo d = repo \<and> (case d_issue d of None \<Rightarrow> False | Some n \<Rightarrow> n \<in> set nums))
          (deliveries st)))"

section \<open>Circuit breaker\<close>

definition is_disk_paused :: "store \<Rightarrow> bool" where
  "is_disk_paused st = disk_paused (breaker st)"

definition set_disk_paused :: "int \<Rightarrow> bool \<Rightarrow> string option \<Rightarrow> store \<Rightarrow> store" where
  "set_disk_paused now paused reason st =
     st\<lparr>breaker := \<lparr>disk_paused = paused, br_reason = reason, br_updated = now\<rparr>\<rparr>"

section \<open>Sessions\<close>

definition list_nonterminal_sessions :: "store \<Rightarrow> session_row list" where
  "list_nonterminal_sessions st = filter (\<lambda>s. s_state s \<notin> {CLOSED, TEARDOWN}) (sessions st)"

definition list_sessions :: "store \<Rightarrow> session_row list" where
  "list_sessions st = sort_key (\<lambda>s. - s_updated s) (sessions st)"

text \<open>
  \<open>get_session\<close>: the session row; the joined runner columns are read with \<open>get_runner\<close> of its
  project.
\<close>

definition get_session :: "string \<Rightarrow> store \<Rightarrow> session_row option" where
  "get_session k st = find_key session_key k (sessions st)"

definition latest_session :: "session_row list \<Rightarrow> session_row option" where
  "latest_session ss = (case sort_key (\<lambda>s. - s_updated s) ss of [] \<Rightarrow> None | s # _ \<Rightarrow> Some s)"

definition get_session_by_design_pr :: "string \<Rightarrow> int \<Rightarrow> store \<Rightarrow> session_row option" where
  "get_session_by_design_pr repo n st =
     latest_session (filter (\<lambda>s. s_repo s = repo \<and> s_design_pr s = Some n) (sessions st))"

definition get_session_by_feature_pr :: "string \<Rightarrow> int \<Rightarrow> store \<Rightarrow> session_row option" where
  "get_session_by_feature_pr repo n st =
     latest_session (filter (\<lambda>s. s_repo s = repo \<and> s_feature_pr s = Some n) (sessions st))"

text \<open>The values \<open>upsert_session\<close> binds; None is an argument left at its default.\<close>

record session_args =
  sa_key :: string
  sa_repo :: string
  sa_issue :: int
  sa_state :: fsm_state
  sa_architect :: string
  sa_developer :: string
  sa_created :: int
  sa_updated :: int
  sa_project :: "string option"
  sa_paused :: "string option"
  sa_locked :: "bool option"
  sa_design_pr :: "int option"
  sa_turns :: "int option"
  sa_consec :: "int option"
  sa_rounds :: "int option"
  sa_fp :: "string option"
  sa_fp_repeat :: "int option"
  sa_zero_threads :: "int option"

definition zero_if_none :: "int option \<Rightarrow> int" where
  "zero_if_none x = (case x of None \<Rightarrow> 0 | Some n \<Rightarrow> n)"

definition coalesce :: "'a option \<Rightarrow> 'a option \<Rightarrow> 'a option" where
  "coalesce a b = (case a of None \<Rightarrow> b | Some x \<Rightarrow> Some x)"

definition args_project :: "session_args \<Rightarrow> string" where
  "args_project a = (case sa_project a of None \<Rightarrow> sa_repo a | Some p \<Rightarrow> if p = [] then sa_repo a else p)"

definition new_session :: "session_args \<Rightarrow> session_row" where
  "new_session a = \<lparr>session_key = sa_key a, s_project = args_project a, s_repo = sa_repo a,
     s_issue = sa_issue a, s_state = sa_state a, s_paused = sa_paused a, s_resume = None,
     s_open_threads = None, s_architect = sa_architect a, s_developer = sa_developer a,
     s_locked = (sa_locked a = Some True), s_design_pr = sa_design_pr a, s_feature_pr = None,
     s_design_head = None, s_feature_head = None, s_turns = zero_if_none (sa_turns a),
     s_consec = zero_if_none (sa_consec a), s_rounds = zero_if_none (sa_rounds a), s_fp = sa_fp a,
     s_fp_repeat = zero_if_none (sa_fp_repeat a), s_zero_threads = zero_if_none (sa_zero_threads a),
     s_silent = 0, s_verified = None, s_class = None, s_closed_esc = None,
     s_created = sa_created a, s_updated = sa_updated a\<rparr>"

definition conflict_session :: "session_args \<Rightarrow> session_row \<Rightarrow> session_row" where
  "conflict_session a s = s\<lparr>s_project := args_project a,
     s_paused := coalesce (sa_paused a) (s_paused s),
     s_design_pr := coalesce (sa_design_pr a) (s_design_pr s),
     s_fp := coalesce (sa_fp a) (s_fp s),
     s_updated := sa_updated a\<rparr>"

definition upsert_session :: "session_args \<Rightarrow> store \<Rightarrow> store" where
  "upsert_session a st =
     st\<lparr>sessions := upsert session_key (new_session a) (conflict_session a) (sessions st)\<rparr>"

text \<open>The columns \<open>update_session_fields\<close> allows; any other keyword raises before the statement.\<close>

datatype session_field =
    F_state fsm_state | F_paused_reason "string option" | F_resume_state "fsm_state option"
  | F_roles_locked bool | F_design_pr "int option" | F_feature_pr "int option"
  | F_design_pr_head "string option" | F_feature_pr_head "string option"
  | F_turn_count int | F_consec_agent_turns int | F_review_rounds int
  | F_progress_fp "string option" | F_progress_repeat int | F_zero_thread_rounds int
  | F_silent_turns int | F_stall_open_threads "string list option" | F_verified_at "int option"
  | F_classification "string option" | F_closed_issue_escalated_at "int option" | F_updated_at int

fun apply_field :: "session_field \<Rightarrow> session_row \<Rightarrow> session_row" where
  "apply_field (F_state v) s = s\<lparr>s_state := v\<rparr>"
| "apply_field (F_paused_reason v) s = s\<lparr>s_paused := v\<rparr>"
| "apply_field (F_resume_state v) s = s\<lparr>s_resume := v\<rparr>"
| "apply_field (F_roles_locked v) s = s\<lparr>s_locked := v\<rparr>"
| "apply_field (F_design_pr v) s = s\<lparr>s_design_pr := v\<rparr>"
| "apply_field (F_feature_pr v) s = s\<lparr>s_feature_pr := v\<rparr>"
| "apply_field (F_design_pr_head v) s = s\<lparr>s_design_head := v\<rparr>"
| "apply_field (F_feature_pr_head v) s = s\<lparr>s_feature_head := v\<rparr>"
| "apply_field (F_turn_count v) s = s\<lparr>s_turns := v\<rparr>"
| "apply_field (F_consec_agent_turns v) s = s\<lparr>s_consec := v\<rparr>"
| "apply_field (F_review_rounds v) s = s\<lparr>s_rounds := v\<rparr>"
| "apply_field (F_progress_fp v) s = s\<lparr>s_fp := v\<rparr>"
| "apply_field (F_progress_repeat v) s = s\<lparr>s_fp_repeat := v\<rparr>"
| "apply_field (F_zero_thread_rounds v) s = s\<lparr>s_zero_threads := v\<rparr>"
| "apply_field (F_silent_turns v) s = s\<lparr>s_silent := v\<rparr>"
| "apply_field (F_stall_open_threads v) s = s\<lparr>s_open_threads := v\<rparr>"
| "apply_field (F_verified_at v) s = s\<lparr>s_verified := v\<rparr>"
| "apply_field (F_classification v) s = s\<lparr>s_class := v\<rparr>"
| "apply_field (F_closed_issue_escalated_at v) s = s\<lparr>s_closed_esc := v\<rparr>"
| "apply_field (F_updated_at v) s = s\<lparr>s_updated := v\<rparr>"

definition upd_session :: "string \<Rightarrow> (session_row \<Rightarrow> session_row) \<Rightarrow> store \<Rightarrow> store" where
  "upd_session k f st =
     st\<lparr>sessions := upd_where (\<lambda>s. session_key s = k) f (sessions st)\<rparr>"

definition is_updated_at :: "session_field \<Rightarrow> bool" where
  "is_updated_at f = (case f of F_updated_at _ \<Rightarrow> True | _ \<Rightarrow> False)"

definition apply_fields :: "int \<Rightarrow> session_field list \<Rightarrow> session_row \<Rightarrow> session_row" where
  "apply_fields now fs s =
     fold apply_field (if list_ex is_updated_at fs then fs else fs @ [F_updated_at now]) s"

definition update_session_fields :: "int \<Rightarrow> string \<Rightarrow> session_field list \<Rightarrow> store \<Rightarrow> store" where
  "update_session_fields now k fs st =
     (if fs = [] then st else upd_session k (apply_fields now fs) st)"

text \<open>\<open>bump_turn_counters\<close>: one statement; a missing session is \<open>KeyError\<close>.\<close>

definition bump_row :: "int \<Rightarrow> silent_mode \<Rightarrow> bool \<Rightarrow> session_row \<Rightarrow> session_row" where
  "bump_row now silent restart_consec s =
     s\<lparr>s_turns := s_turns s + 1,
       s_consec := (if restart_consec then 1 else s_consec s + 1),
       s_silent := (case silent of Reset \<Rightarrow> 0 | Inc \<Rightarrow> s_silent s + 1 | Keep \<Rightarrow> s_silent s),
       s_updated := now\<rparr>"

definition bump_turn_counters ::
  "int \<Rightarrow> string \<Rightarrow> silent_mode \<Rightarrow> bool \<Rightarrow> store \<Rightarrow> store \<times> (db_error + int \<times> int \<times> int)" where
  "bump_turn_counters now k silent restart_consec st =
     (let st' = upd_session k (bump_row now silent restart_consec) st in
      case get_session k st' of
        None \<Rightarrow> (st', Inl (Key_error k))
      | Some s \<Rightarrow> (st', Inr (s_turns s, s_consec s, s_silent s)))"

definition count_project_sessions :: "string \<Rightarrow> store \<Rightarrow> nat" where
  "count_project_sessions pk st = rowcount (\<lambda>s. s_project s = pk) (sessions st)"

definition live_project_keys :: "store \<Rightarrow> string set" where
  "live_project_keys st =
     {s_project s | s. s \<in> set (sessions st) \<and> s_state s \<noteq> CLOSED \<and> s_project s \<noteq> []}"

definition is_live_project :: "string \<Rightarrow> store \<Rightarrow> bool" where
  "is_live_project pk st \<longleftrightarrow>
     pk \<noteq> [] \<and> list_ex (\<lambda>s. s_state s \<noteq> CLOSED \<and> s_project s = pk) (sessions st)"

definition list_live_sessions_with_closed_delivery :: "store \<Rightarrow> (session_row \<times> string) list" where
  "list_live_sessions_with_closed_delivery st =
     concat (map (\<lambda>s. map (\<lambda>d. (s, delivery_id d))
         (filter (\<lambda>d. d_repo d = s_repo s \<and> d_issue d = Some (s_issue s) \<and> d_event d = ''issues'' \<and>
            d_action d = Some ''closed'' \<and> d_status d = Routed) (deliveries st)))
       (sort_key session_key (filter (\<lambda>s. s_state s \<noteq> CLOSED) (sessions st))))"

section \<open>Turns\<close>

definition count_turns :: "string \<Rightarrow> store \<Rightarrow> nat" where
  "count_turns k st = rowcount (\<lambda>t. t_session t = k) (turns st)"

definition list_turns :: "string \<Rightarrow> store \<Rightarrow> turn_row list" where
  "list_turns k st = sort_key t_started (filter (\<lambda>t. t_session t = k) (turns st))"

definition get_turn :: "string \<Rightarrow> store \<Rightarrow> turn_row option" where
  "get_turn tid st = find_key turn_id tid (turns st)"

definition has_session :: "string \<Rightarrow> store \<Rightarrow> bool" where
  "has_session k st \<longleftrightarrow> k \<in> session_key ` set (sessions st)"

definition insert_turn :: "turn_row \<Rightarrow> store \<Rightarrow> store \<times> (db_error + unit)" where
  "insert_turn t st =
     (if turn_id t \<in> turn_id ` set (turns st) \<or> \<not> has_session (t_session t) st
      then (st, Inl Integrity_error)
      else (st\<lparr>turns := turns st @ [t\<lparr>t_actions := None, t_resumes := 0\<rparr>]\<rparr>, Inr ()))"

definition upd_open_turn :: "string \<Rightarrow> (turn_row \<Rightarrow> turn_row) \<Rightarrow> store \<Rightarrow> store" where
  "upd_open_turn tid f st =
     st\<lparr>turns := upd_where (\<lambda>t. turn_id t = tid \<and> t_ended t = None) f (turns st)\<rparr>"

definition finish_turn ::
  "string \<Rightarrow> int \<Rightarrow> string \<Rightarrow> string option \<Rightarrow> string option \<Rightarrow> store \<Rightarrow> store" where
  "finish_turn tid ended_at status summary public_actions =
     upd_open_turn tid (\<lambda>t. t\<lparr>t_ended := Some ended_at, t_status := Some status, t_summary := summary,
       t_actions := coalesce public_actions (t_actions t)\<rparr>)"

definition mark_turn_resuming :: "string \<Rightarrow> store \<Rightarrow> store \<times> int" where
  "mark_turn_resuming tid st =
     (let st' = upd_open_turn tid (\<lambda>t. t\<lparr>t_status := Some ''resuming'', t_resumes := t_resumes t + 1\<rparr>) st
      in (st', case get_turn tid st' of None \<Rightarrow> 0 | Some t \<Rightarrow> t_resumes t))"

definition clear_turn_resuming :: "string \<Rightarrow> store \<Rightarrow> store" where
  "clear_turn_resuming tid st =
     st\<lparr>turns := upd_where (\<lambda>t. turn_id t = tid \<and> t_ended t = None \<and> t_status t = Some ''resuming'')
        (\<lambda>t. t\<lparr>t_status := None\<rparr>) (turns st)\<rparr>"

definition list_open_turns :: "store \<Rightarrow> (turn_row \<times> fsm_state option) list" where
  "list_open_turns st =
     map (\<lambda>t. (t, map_option s_state (get_session (t_session t) st)))
       (sort_key t_started (filter (\<lambda>t. t_ended t = None) (turns st)))"

definition list_resuming_turns :: "store \<Rightarrow> (turn_row \<times> fsm_state option) list" where
  "list_resuming_turns st =
     map (\<lambda>t. (t, map_option s_state (get_session (t_session t) st)))
       (sort_key t_started (filter (\<lambda>t. t_ended t = None \<and> t_status t = Some ''resuming'') (turns st)))"

definition project_has_open_turn :: "int \<Rightarrow> int \<Rightarrow> string \<Rightarrow> store \<Rightarrow> bool" where
  "project_has_open_turn now max_age pk st \<longleftrightarrow> pk \<noteq> [] \<and>
     list_ex (\<lambda>t. t_ended t = None \<and> t_started t > now - max_age \<and>
       (case get_session (t_session t) st of None \<Rightarrow> False | Some s \<Rightarrow> s_project s = pk)) (turns st)"

section \<open>Artifacts\<close>

definition artifact_kinds :: "string list" where
  "artifact_kinds = [''branch'', ''scratch'', ''worktree'']"

definition or_default :: "string \<Rightarrow> string \<Rightarrow> string" where
  "or_default s d = (if s = [] then d else s)"

definition register_artifact ::
  "int \<Rightarrow> string \<Rightarrow> string \<Rightarrow> string \<Rightarrow> string \<Rightarrow> int option \<Rightarrow> store \<Rightarrow> store \<times> (db_error + nat)" where
  "register_artifact now k role kind ref created_at st =
     (let kind_s = or_default kind ''scratch''; ref_s = py_strip ref; role_s = or_default role ''system'' in
      if k = [] \<or> ref_s = []
      then (st, Inl (Value_error ''session_key and ref required for artifact.register''))
      else
        (case find (\<lambda>a. a_session a = k \<and> a_kind a = kind_s \<and> a_ref a = ref_s \<and> a_removed a = None)
             (artifacts st) of
           Some a \<Rightarrow> (st, Inr (a_id a))
         | None \<Rightarrow>
             if \<not> has_session k st then (st, Inl Integrity_error)
             else
               (let i = next_id (map a_id (artifacts st)) in
                (st\<lparr>artifacts := artifacts st @ [\<lparr>a_id = i, a_session = k, a_role = role_s,
                    a_kind = kind_s, a_ref = ref_s,
                    a_created = (case created_at of None \<Rightarrow> now | Some c \<Rightarrow> if c = 0 then now else c),
                    a_removed = None\<rparr>]\<rparr>,
                 Inr i))))"

definition by_created :: "artifact_row list \<Rightarrow> artifact_row list" where
  "by_created as = sort_key a_created (sort_key a_id as)"

definition list_artifacts :: "string \<Rightarrow> bool \<Rightarrow> store \<Rightarrow> artifact_row list" where
  "list_artifacts k open_only st =
     by_created (filter (\<lambda>a. a_session a = k \<and> (open_only \<longrightarrow> a_removed a = None)) (artifacts st))"

definition artifact_matches :: "string \<Rightarrow> string \<Rightarrow> string option \<Rightarrow> artifact_row \<Rightarrow> bool" where
  "artifact_matches k ref kind a \<longleftrightarrow> a_session a = k \<and> a_ref a = ref \<and> a_removed a = None \<and>
     (case kind of None \<Rightarrow> True | Some x \<Rightarrow> x = [] \<or> a_kind a = x)"

definition mark_artifact_removed ::
  "int \<Rightarrow> string \<Rightarrow> string \<Rightarrow> string option \<Rightarrow> int option \<Rightarrow> store \<Rightarrow> store \<times> nat" where
  "mark_artifact_removed now k ref kind removed_at st =
     (let ts = (case removed_at of None \<Rightarrow> now | Some t \<Rightarrow> t) in
      (st\<lparr>artifacts := upd_where (artifact_matches k ref kind) (\<lambda>a. a\<lparr>a_removed := Some ts\<rparr>) (artifacts st)\<rparr>,
       rowcount (artifact_matches k ref kind) (artifacts st)))"

definition count_open_artifacts :: "string \<Rightarrow> store \<Rightarrow> nat" where
  "count_open_artifacts k st = rowcount (\<lambda>a. a_session a = k \<and> a_removed a = None) (artifacts st)"

section \<open>Escalations\<close>

definition open_escalation ::
  "int \<Rightarrow> string \<Rightarrow> string option \<Rightarrow> string \<Rightarrow> int option \<Rightarrow> store \<Rightarrow> store \<times> nat" where
  "open_escalation now k role reason comment st =
     (let i = next_id (map e_id (escalations st)) in
      (st\<lparr>escalations := escalations st @ [\<lparr>e_id = i, e_session = k, e_role = role, e_reason = reason,
          e_comment = comment, e_opened = now, e_resolved = None\<rparr>]\<rparr>, i))"

text \<open>The latest open one; equal times keep the first row.\<close>

definition get_open_escalation :: "string \<Rightarrow> store \<Rightarrow> escalation_row option" where
  "get_open_escalation k st =
     (case sort_key (\<lambda>e. - e_opened e)
        (filter (\<lambda>e. e_session e = k \<and> e_resolved e = None) (escalations st)) of
        [] \<Rightarrow> None | e # _ \<Rightarrow> Some e)"

definition escalation_matches :: "string \<Rightarrow> nat option \<Rightarrow> escalation_row \<Rightarrow> bool" where
  "escalation_matches k eid e \<longleftrightarrow> e_resolved e = None \<and>
     (case eid of Some i \<Rightarrow> e_id e = i | None \<Rightarrow> e_session e = k)"

definition close_escalation ::
  "int \<Rightarrow> string \<Rightarrow> nat option \<Rightarrow> int option \<Rightarrow> store \<Rightarrow> store \<times> nat" where
  "close_escalation now k eid resolved_at st =
     (let ts = (case resolved_at of None \<Rightarrow> now | Some t \<Rightarrow> t) in
      (st\<lparr>escalations := upd_where (escalation_matches k eid) (\<lambda>e. e\<lparr>e_resolved := Some ts\<rparr>) (escalations st)\<rparr>,
       rowcount (escalation_matches k eid) (escalations st)))"

section \<open>Runners\<close>

definition get_runner :: "string \<Rightarrow> store \<Rightarrow> runner_row option" where
  "get_runner pk st = find_key r_project pk (runners st)"

definition get_runner_for_session :: "string \<Rightarrow> store \<Rightarrow> runner_row option" where
  "get_runner_for_session k st =
     (case get_session k st of None \<Rightarrow> None | Some s \<Rightarrow> get_runner (s_project s) st)"

definition upsert_runner ::
  "int \<Rightarrow> string \<Rightarrow> string \<Rightarrow> string \<Rightarrow> string \<Rightarrow> string \<Rightarrow> store \<Rightarrow> store" where
  "upsert_runner now pk container_id endpoint token tier st =
     (let r = \<lparr>r_project = pk, r_container = Some container_id, r_endpoint = Some endpoint,
            r_token = Some token, r_tier = tier, r_seen = Some now\<rparr> in
      st\<lparr>runners := upsert r_project r (\<lambda>x. x\<lparr>r_container := Some container_id, r_endpoint := Some endpoint,
          r_token := Some token, r_tier := tier, r_seen := Some now\<rparr>) (runners st)\<rparr>)"

definition delete_runner :: "string \<Rightarrow> store \<Rightarrow> store \<times> nat" where
  "delete_runner pk st =
     (st\<lparr>runners := filter (\<lambda>r. r_project r \<noteq> pk) (runners st)\<rparr>,
      rowcount (\<lambda>r. r_project r = pk) (runners st))"

definition touch_runner_seen :: "int \<Rightarrow> string \<Rightarrow> int option \<Rightarrow> store \<Rightarrow> store \<times> nat" where
  "touch_runner_seen clock pk now st =
     (let ts = (case now of None \<Rightarrow> clock | Some t \<Rightarrow> t) in
      (st\<lparr>runners := upd_where (\<lambda>r. r_project r = pk) (\<lambda>r. r\<lparr>r_seen := Some ts\<rparr>) (runners st)\<rparr>,
       rowcount (\<lambda>r. r_project r = pk) (runners st)))"

definition count_hot_sessions :: "store \<Rightarrow> nat" where
  "count_hot_sessions st = rowcount (\<lambda>r. r_tier r = ''hot'') (runners st)"

section \<open>Project blocks\<close>

definition get_open_project_block :: "string \<Rightarrow> store \<Rightarrow> block_row option" where
  "get_open_project_block pk st = find (\<lambda>b. b_project b = pk \<and> b_resolved b = None) (blocks st)"

definition open_project_block ::
  "int \<Rightarrow> string \<Rightarrow> string \<Rightarrow> string option \<Rightarrow> int option \<Rightarrow> int option \<Rightarrow> store \<Rightarrow> store" where
  "open_project_block now pk reason session issue comment st =
     (if get_open_project_block pk st \<noteq> None then st
      else
        (let b = \<lparr>b_project = pk, b_reason = reason, b_session = session, b_issue = issue,
               b_comment = comment, b_opened = now, b_resolved = None\<rparr> in
         st\<lparr>blocks := upsert b_project b (\<lambda>x. x\<lparr>b_reason := reason, b_session := session, b_issue := issue,
             b_comment := comment, b_opened := now, b_resolved := None\<rparr>) (blocks st)\<rparr>))"

definition close_project_block :: "int \<Rightarrow> string \<Rightarrow> store \<Rightarrow> store \<times> nat" where
  "close_project_block now pk st =
     (st\<lparr>blocks := upd_where (\<lambda>b. b_project b = pk \<and> b_resolved b = None)
          (\<lambda>b. b\<lparr>b_resolved := Some now\<rparr>) (blocks st)\<rparr>,
      rowcount (\<lambda>b. b_project b = pk \<and> b_resolved b = None) (blocks st))"

definition list_open_project_blocks :: "store \<Rightarrow> block_row list" where
  "list_open_project_blocks st = sort_key b_opened (filter (\<lambda>b. b_resolved b = None) (blocks st))"

end
