(* ===== verification/Store_Facts.thy ===== *)
theory Store_Facts
  imports Store
begin

text \<open>
  What the store promises: key uniqueness and referential integrity as one well-formedness
  predicate kept by every method, lookups after updates (through the keyed-table interface,
  interpreted for each table), the delivery queue's clock, and the ledgers of artifacts,
  escalations and project blocks.
\<close>

section \<open>Well-formedness\<close>

definition wf_store :: "store \<Rightarrow> bool" where
  "wf_store st \<longleftrightarrow>
     distinct (map delivery_id (deliveries st)) \<and>
     distinct (map node_id (nodes st)) \<and>
     distinct (map session_key (sessions st)) \<and>
     distinct (map turn_id (turns st)) \<and>
     distinct (map a_id (artifacts st)) \<and>
     distinct (map e_id (escalations st)) \<and>
     distinct (map r_project (runners st)) \<and>
     distinct (map b_project (blocks st)) \<and>
     (\<forall>t \<in> set (turns st). t_session t \<in> session_key ` set (sessions st)) \<and>
     (\<forall>a \<in> set (artifacts st). a_session a \<in> session_key ` set (sessions st)) \<and>
     (\<forall>d \<in> set (deliveries st). 0 \<le> d_defers d)"

lemma wf_empty: "wf_store empty_store"
  by (simp add: wf_store_def empty_store_def)

section \<open>The keyed tables\<close>

interpretation del_tab: keyed_table delivery_id "\<lambda>f. \<forall>d. delivery_id (f d) = delivery_id d"
  by unfold_locales blast

interpretation ses_tab: keyed_table session_key "\<lambda>f. \<forall>s. session_key (f s) = session_key s"
  by unfold_locales blast

interpretation turn_tab: keyed_table turn_id "\<lambda>f. \<forall>t. turn_id (f t) = turn_id t"
  by unfold_locales blast

interpretation run_tab: keyed_table r_project "\<lambda>f. \<forall>r. r_project (f r) = r_project r"
  by unfold_locales blast

interpretation blk_tab: keyed_table b_project "\<lambda>f. \<forall>b. b_project (f b) = b_project b"
  by unfold_locales blast

interpretation node_tab: keyed_table node_id "\<lambda>f. \<forall>n. node_id (f n) = node_id n"
  by unfold_locales blast

interpretation art_tab: keyed_table a_id "\<lambda>f. \<forall>a. a_id (f a) = a_id a"
  by unfold_locales blast

interpretation esc_tab: keyed_table e_id "\<lambda>f. \<forall>e. e_id (f e) = e_id e"
  by unfold_locales blast

lemma fold_max_bound: "k \<le> fold max ids k \<and> (\<forall>i \<in> set ids. i \<le> fold max ids k)" for k :: nat
proof (induction ids arbitrary: k)
  case (Cons i ids)
  from Cons [of "max i k"] show ?case by auto
qed simp

lemma next_id_fresh: "next_id ids \<notin> set ids"
  using fold_max_bound [of 0 ids] by (fastforce simp: next_id_def)

section \<open>Every method keeps the store well-formed\<close>

lemma apply_field_key [simp]: "session_key (apply_field f s) = session_key s"
  by (cases f) simp_all

lemma fold_apply_field_key [simp]: "session_key (fold apply_field fs s) = session_key s"
  by (induction fs arbitrary: s) simp_all

lemma apply_fields_key [simp]: "session_key (apply_fields now fs s) = session_key s"
  by (simp add: apply_fields_def)

lemma wf_upd_delivery [keeps_wf]:
  assumes "\<And>d. delivery_id (f d) = delivery_id d" "\<And>d. 0 \<le> d_defers d \<Longrightarrow> 0 \<le> d_defers (f d)"
  shows "wf_store st \<Longrightarrow> wf_store (upd_delivery k f st)"
  using assms by (auto simp: wf_store_def upd_delivery_def del_tab.map_key_upd set_upd_where)

lemma wf_upd_session:
  assumes "\<And>s. session_key (f s) = session_key s"
  shows "wf_store st \<Longrightarrow> wf_store (upd_session k f st)"
  using assms ses_tab.key_set_upd [of f "\<lambda>s. session_key s = k" "sessions st"]
  by (simp add: wf_store_def upd_session_def ses_tab.map_key_upd)

lemma wf_set_delivery_status [keeps_wf]: "wf_store st \<Longrightarrow> wf_store (set_delivery_status k v st)"
  by (simp add: set_delivery_status_def wf_upd_delivery)

lemma wf_defer_delivery [keeps_wf]: "wf_store st \<Longrightarrow> wf_store (defer_delivery now k st)"
  by (simp add: defer_delivery_def wf_upd_delivery)

lemma wf_defer_until [keeps_wf]: "wf_store st \<Longrightarrow> wf_store (defer_delivery_until k t st)"
  by (simp add: defer_delivery_until_def wf_upd_delivery)

lemma wf_clear_clocks [keeps_wf]: "wf_store st \<Longrightarrow> wf_store (clear_deferred_clocks st)"
  by (auto simp: wf_store_def clear_deferred_clocks_def del_tab.map_key_upd set_upd_where)

lemma wf_quarantine [keeps_wf]: "wf_store st \<Longrightarrow> wf_store (fst (quarantine_deferred c st))"
  by (auto simp: wf_store_def quarantine_deferred_def del_tab.map_key_upd set_upd_where)

lemma wf_index_nodes: "wf_store st \<Longrightarrow> wf_store (index_nodes did nids t st)"
proof -
  have "distinct (map node_id ns) \<Longrightarrow> distinct (map node_id
      (fold (\<lambda>nid. insert_ignore node_id \<lparr>node_id = nid, n_delivery = did, n_seen = t\<rparr>) nids ns))" for ns
    by (induction nids arbitrary: ns) (simp_all add: node_tab.distinct_insert_ignore)
  then show "wf_store st \<Longrightarrow> ?thesis" by (simp add: wf_store_def index_nodes_def)
qed

lemma wf_insert_delivery [keeps_wf]:
  "wf_store st \<Longrightarrow> wf_store (fst (insert_delivery now did ev ac re is se pl status st))"
proof -
  assume wf: "wf_store st"
  define row where "row = \<lparr>delivery_id = did, d_event = ev, d_action = ac,
            d_repo = (case re of None \<Rightarrow> [] | Some r \<Rightarrow> r), d_issue = is,
            d_sender = (case se of None \<Rightarrow> [] | Some s \<Rightarrow> s),
            d_received = now, d_payload = pl, d_status = status, d_next = 0, d_defers = 0\<rparr>"
  have "wf_store (st\<lparr>deliveries := insert_ignore delivery_id row (deliveries st)\<rparr>)"
    using wf del_tab.distinct_insert_ignore [of "deliveries st" row]
    by (auto simp: wf_store_def insert_ignore_def row_def split: if_splits)
  then show ?thesis
    by (auto simp: insert_delivery_def Let_def row_def [symmetric] wf_index_nodes
        split: option.split json.split)
qed

lemma wf_set_disk_paused [keeps_wf]: "wf_store st \<Longrightarrow> wf_store (set_disk_paused now p r st)"
  by (simp add: wf_store_def set_disk_paused_def)

lemma wf_upsert_session [keeps_wf]: "wf_store st \<Longrightarrow> wf_store (upsert_session a st)"
proof -
  assume wf: "wf_store st"
  have k: "\<forall>s. session_key (conflict_session a s) = session_key s"
    by (simp add: conflict_session_def)
  have "session_key ` set (sessions st) \<subseteq>
      session_key ` set (upsert session_key (new_session a) (conflict_session a) (sessions st))"
    using ses_tab.key_set_upd [OF k] by (auto simp: upsert_def)
  with wf ses_tab.distinct_upsert [OF k] show ?thesis
    by (fastforce simp: wf_store_def upsert_session_def)
qed

lemma wf_update_session [keeps_wf]: "wf_store st \<Longrightarrow> wf_store (update_session_fields now k fs st)"
  by (simp add: update_session_fields_def wf_upd_session)

lemma wf_bump [keeps_wf]: "wf_store st \<Longrightarrow> wf_store (fst (bump_turn_counters now k m r st))"
  by (simp add: bump_turn_counters_def Let_def wf_upd_session bump_row_def split: option.split)

lemma wf_insert_turn [keeps_wf]: "wf_store st \<Longrightarrow> wf_store (fst (insert_turn t st))"
  by (auto simp: wf_store_def insert_turn_def has_session_def)

lemma wf_upd_turns:
  assumes "\<And>t. turn_id (f t) = turn_id t" "\<And>t. t_session (f t) = t_session t"
  shows "wf_store st \<Longrightarrow> wf_store (st\<lparr>turns := upd_where P f (turns st)\<rparr>)"
  using assms by (auto simp: wf_store_def turn_tab.map_key_upd set_upd_where)

lemma wf_finish_turn [keeps_wf]: "wf_store st \<Longrightarrow> wf_store (finish_turn t e s m a st)"
  by (simp add: finish_turn_def upd_open_turn_def wf_upd_turns)

lemma wf_mark_resuming [keeps_wf]: "wf_store st \<Longrightarrow> wf_store (fst (mark_turn_resuming t st))"
  by (simp add: mark_turn_resuming_def upd_open_turn_def Let_def wf_upd_turns)

lemma wf_clear_resuming [keeps_wf]: "wf_store st \<Longrightarrow> wf_store (clear_turn_resuming t st)"
  by (simp add: clear_turn_resuming_def wf_upd_turns)

lemma wf_register_artifact [keeps_wf]:
  "wf_store st \<Longrightarrow> wf_store (fst (register_artifact now k r kd ref c st))"
  using next_id_fresh [of "map a_id (artifacts st)"]
  by (auto simp: wf_store_def register_artifact_def Let_def has_session_def split: option.split)

lemma wf_mark_removed [keeps_wf]:
  "wf_store st \<Longrightarrow> wf_store (fst (mark_artifact_removed now k ref kind r st))"
  by (auto simp: wf_store_def mark_artifact_removed_def Let_def art_tab.map_key_upd set_upd_where)

lemma wf_open_escalation [keeps_wf]: "wf_store st \<Longrightarrow> wf_store (fst (open_escalation now k r m c st))"
  using next_id_fresh [of "map e_id (escalations st)"]
  by (auto simp: wf_store_def open_escalation_def Let_def)

lemma wf_close_escalation [keeps_wf]: "wf_store st \<Longrightarrow> wf_store (fst (close_escalation now k e r st))"
  by (simp add: wf_store_def close_escalation_def Let_def esc_tab.map_key_upd)

lemma wf_upsert_runner [keeps_wf]: "wf_store st \<Longrightarrow> wf_store (upsert_runner now pk c e t ti st)"
  by (simp add: wf_store_def upsert_runner_def Let_def run_tab.distinct_upsert)

lemma wf_delete_runner [keeps_wf]: "wf_store st \<Longrightarrow> wf_store (fst (delete_runner pk st))"
  by (simp add: wf_store_def delete_runner_def distinct_map_filter)

lemma wf_touch_runner [keeps_wf]: "wf_store st \<Longrightarrow> wf_store (fst (touch_runner_seen t pk n st))"
  by (simp add: wf_store_def touch_runner_seen_def Let_def run_tab.map_key_upd)

lemma wf_open_block [keeps_wf]: "wf_store st \<Longrightarrow> wf_store (open_project_block now pk r s i c st)"
  by (simp add: wf_store_def open_project_block_def Let_def blk_tab.distinct_upsert)

lemma wf_close_block [keeps_wf]: "wf_store st \<Longrightarrow> wf_store (fst (close_project_block now pk st))"
  by (simp add: wf_store_def close_project_block_def blk_tab.map_key_upd)

section \<open>Lookups after updates\<close>

lemma get_session_upd [frame_simps]:
  "(\<And>s. session_key (f s) = session_key s) \<Longrightarrow>
    get_session k (upd_session k' f st) =
      (if k = k' then map_option f (get_session k st) else get_session k st)"
  by (simp add: get_session_def upd_session_def ses_tab.find_upd_key)

lemma get_session_upsert [frame_simps]:
  "get_session k (upsert_session a st) =
    (if k = sa_key a then Some (case get_session k st of None \<Rightarrow> new_session a | Some s \<Rightarrow> conflict_session a s)
     else get_session k st)"
proof -
  have k: "\<forall>s. session_key (conflict_session a s) = session_key s"
    by (simp add: conflict_session_def)
  have n: "session_key (new_session a) = sa_key a" by (simp add: new_session_def)
  show ?thesis
    using ses_tab.find_upsert [OF k, of k "new_session a" "sessions st"]
    by (simp add: get_session_def upsert_session_def n)
qed

lemma get_session_update_fields [frame_simps]:
  "get_session k (update_session_fields now k' fs st) =
    (if k = k' \<and> fs \<noteq> [] then map_option (apply_fields now fs) (get_session k st)
     else get_session k st)"
  by (simp add: update_session_fields_def get_session_upd)

text \<open>What each method leaves alone, table by table.\<close>

lemma sessions_frame [frame_simps, simp]:
  "sessions (upd_delivery d g st) = sessions st"
  "sessions (set_delivery_status d v st) = sessions st"
  "sessions (defer_delivery now d st) = sessions st"
  "sessions (defer_delivery_until d at st) = sessions st"
  "sessions (clear_deferred_clocks st) = sessions st"
  "sessions (set_disk_paused now b re st) = sessions st"
  "sessions (finish_turn tid e stt sm ac st) = sessions st"
  "sessions (clear_turn_resuming tid st) = sessions st"
  "sessions (fst (mark_turn_resuming tid st)) = sessions st"
  "sessions (fst (insert_turn trow st)) = sessions st"
  "sessions (fst (register_artifact now k ro kd ref cr st)) = sessions st"
  "sessions (fst (mark_artifact_removed now k ref kindo ra st)) = sessions st"
  "sessions (fst (open_escalation now k roo msg cm st)) = sessions st"
  "sessions (fst (close_escalation now k ei ra st)) = sessions st"
  "sessions (open_project_block now pk msg se is cm st) = sessions st"
  "sessions (fst (close_project_block now pk st)) = sessions st"
  "sessions (upsert_runner now pk ct ep tok tier st) = sessions st"
  "sessions (fst (quarantine_deferred cutoff st)) = sessions st"
  by (simp_all add: upd_delivery_def set_delivery_status_def defer_delivery_def defer_delivery_until_def
    clear_deferred_clocks_def set_disk_paused_def finish_turn_def upd_open_turn_def
    clear_turn_resuming_def mark_turn_resuming_def insert_turn_def register_artifact_def
    mark_artifact_removed_def open_escalation_def close_escalation_def open_project_block_def
    close_project_block_def upsert_runner_def upd_session_def update_session_fields_def
    upsert_session_def bump_turn_counters_def quarantine_deferred_def Let_def
    split: option.split)

lemma deliveries_frame [frame_simps, simp]:
  "deliveries (upd_session k f st) = deliveries st"
  "deliveries (update_session_fields now k fs st) = deliveries st"
  "deliveries (upsert_session sa st) = deliveries st"
  "deliveries (fst (bump_turn_counters now k md rc st)) = deliveries st"
  "deliveries (set_disk_paused now b re st) = deliveries st"
  "deliveries (finish_turn tid e stt sm ac st) = deliveries st"
  "deliveries (clear_turn_resuming tid st) = deliveries st"
  "deliveries (fst (mark_turn_resuming tid st)) = deliveries st"
  "deliveries (fst (insert_turn trow st)) = deliveries st"
  "deliveries (fst (register_artifact now k ro kd ref cr st)) = deliveries st"
  "deliveries (fst (mark_artifact_removed now k ref kindo ra st)) = deliveries st"
  "deliveries (fst (open_escalation now k roo msg cm st)) = deliveries st"
  "deliveries (fst (close_escalation now k ei ra st)) = deliveries st"
  "deliveries (open_project_block now pk msg se is cm st) = deliveries st"
  "deliveries (fst (close_project_block now pk st)) = deliveries st"
  "deliveries (upsert_runner now pk ct ep tok tier st) = deliveries st"
  by (simp_all add: upd_delivery_def set_delivery_status_def defer_delivery_def defer_delivery_until_def
    clear_deferred_clocks_def set_disk_paused_def finish_turn_def upd_open_turn_def
    clear_turn_resuming_def mark_turn_resuming_def insert_turn_def register_artifact_def
    mark_artifact_removed_def open_escalation_def close_escalation_def open_project_block_def
    close_project_block_def upsert_runner_def upd_session_def update_session_fields_def
    upsert_session_def bump_turn_counters_def quarantine_deferred_def Let_def
    split: option.split)

lemma breaker_frame [frame_simps, simp]:
  "breaker (upd_delivery d g st) = breaker st"
  "breaker (set_delivery_status d v st) = breaker st"
  "breaker (defer_delivery now d st) = breaker st"
  "breaker (defer_delivery_until d at st) = breaker st"
  "breaker (clear_deferred_clocks st) = breaker st"
  "breaker (upd_session k f st) = breaker st"
  "breaker (update_session_fields now k fs st) = breaker st"
  "breaker (upsert_session sa st) = breaker st"
  "breaker (fst (bump_turn_counters now k md rc st)) = breaker st"
  "breaker (finish_turn tid e stt sm ac st) = breaker st"
  "breaker (clear_turn_resuming tid st) = breaker st"
  "breaker (fst (mark_turn_resuming tid st)) = breaker st"
  "breaker (fst (insert_turn trow st)) = breaker st"
  "breaker (fst (register_artifact now k ro kd ref cr st)) = breaker st"
  "breaker (fst (mark_artifact_removed now k ref kindo ra st)) = breaker st"
  "breaker (fst (open_escalation now k roo msg cm st)) = breaker st"
  "breaker (fst (close_escalation now k ei ra st)) = breaker st"
  "breaker (open_project_block now pk msg se is cm st) = breaker st"
  "breaker (fst (close_project_block now pk st)) = breaker st"
  "breaker (upsert_runner now pk ct ep tok tier st) = breaker st"
  "breaker (fst (quarantine_deferred cutoff st)) = breaker st"
  by (simp_all add: upd_delivery_def set_delivery_status_def defer_delivery_def defer_delivery_until_def
    clear_deferred_clocks_def set_disk_paused_def finish_turn_def upd_open_turn_def
    clear_turn_resuming_def mark_turn_resuming_def insert_turn_def register_artifact_def
    mark_artifact_removed_def open_escalation_def close_escalation_def open_project_block_def
    close_project_block_def upsert_runner_def upd_session_def update_session_fields_def
    upsert_session_def bump_turn_counters_def quarantine_deferred_def Let_def
    split: option.split)

lemma runners_frame [frame_simps, simp]:
  "runners (upd_delivery d g st) = runners st"
  "runners (set_delivery_status d v st) = runners st"
  "runners (defer_delivery now d st) = runners st"
  "runners (defer_delivery_until d at st) = runners st"
  "runners (clear_deferred_clocks st) = runners st"
  "runners (upd_session k f st) = runners st"
  "runners (update_session_fields now k fs st) = runners st"
  "runners (upsert_session sa st) = runners st"
  "runners (fst (bump_turn_counters now k md rc st)) = runners st"
  "runners (set_disk_paused now b re st) = runners st"
  "runners (finish_turn tid e stt sm ac st) = runners st"
  "runners (clear_turn_resuming tid st) = runners st"
  "runners (fst (mark_turn_resuming tid st)) = runners st"
  "runners (fst (insert_turn trow st)) = runners st"
  "runners (fst (register_artifact now k ro kd ref cr st)) = runners st"
  "runners (fst (mark_artifact_removed now k ref kindo ra st)) = runners st"
  "runners (fst (open_escalation now k roo msg cm st)) = runners st"
  "runners (fst (close_escalation now k ei ra st)) = runners st"
  "runners (open_project_block now pk msg se is cm st) = runners st"
  "runners (fst (close_project_block now pk st)) = runners st"
  "runners (fst (quarantine_deferred cutoff st)) = runners st"
  by (simp_all add: upd_delivery_def set_delivery_status_def defer_delivery_def defer_delivery_until_def
    clear_deferred_clocks_def set_disk_paused_def finish_turn_def upd_open_turn_def
    clear_turn_resuming_def mark_turn_resuming_def insert_turn_def register_artifact_def
    mark_artifact_removed_def open_escalation_def close_escalation_def open_project_block_def
    close_project_block_def upsert_runner_def upd_session_def update_session_fields_def
    upsert_session_def bump_turn_counters_def quarantine_deferred_def Let_def
    split: option.split)

lemma turns_frame [frame_simps, simp]:
  "turns (upd_delivery d g st) = turns st"
  "turns (set_delivery_status d v st) = turns st"
  "turns (defer_delivery now d st) = turns st"
  "turns (defer_delivery_until d at st) = turns st"
  "turns (clear_deferred_clocks st) = turns st"
  "turns (upd_session k f st) = turns st"
  "turns (update_session_fields now k fs st) = turns st"
  "turns (upsert_session sa st) = turns st"
  "turns (fst (bump_turn_counters now k md rc st)) = turns st"
  "turns (set_disk_paused now b re st) = turns st"
  "turns (fst (register_artifact now k ro kd ref cr st)) = turns st"
  "turns (fst (mark_artifact_removed now k ref kindo ra st)) = turns st"
  "turns (fst (open_escalation now k roo msg cm st)) = turns st"
  "turns (fst (close_escalation now k ei ra st)) = turns st"
  "turns (open_project_block now pk msg se is cm st) = turns st"
  "turns (fst (close_project_block now pk st)) = turns st"
  "turns (upsert_runner now pk ct ep tok tier st) = turns st"
  "turns (fst (quarantine_deferred cutoff st)) = turns st"
  by (simp_all add: upd_delivery_def set_delivery_status_def defer_delivery_def defer_delivery_until_def
    clear_deferred_clocks_def set_disk_paused_def finish_turn_def upd_open_turn_def
    clear_turn_resuming_def mark_turn_resuming_def insert_turn_def register_artifact_def
    mark_artifact_removed_def open_escalation_def close_escalation_def open_project_block_def
    close_project_block_def upsert_runner_def upd_session_def update_session_fields_def
    upsert_session_def bump_turn_counters_def quarantine_deferred_def Let_def
    split: option.split)

lemma artifacts_frame [frame_simps, simp]:
  "artifacts (upd_delivery d g st) = artifacts st"
  "artifacts (set_delivery_status d v st) = artifacts st"
  "artifacts (defer_delivery now d st) = artifacts st"
  "artifacts (defer_delivery_until d at st) = artifacts st"
  "artifacts (clear_deferred_clocks st) = artifacts st"
  "artifacts (upd_session k f st) = artifacts st"
  "artifacts (update_session_fields now k fs st) = artifacts st"
  "artifacts (upsert_session sa st) = artifacts st"
  "artifacts (fst (bump_turn_counters now k md rc st)) = artifacts st"
  "artifacts (set_disk_paused now b re st) = artifacts st"
  "artifacts (finish_turn tid e stt sm ac st) = artifacts st"
  "artifacts (clear_turn_resuming tid st) = artifacts st"
  "artifacts (fst (mark_turn_resuming tid st)) = artifacts st"
  "artifacts (fst (insert_turn trow st)) = artifacts st"
  "artifacts (fst (open_escalation now k roo msg cm st)) = artifacts st"
  "artifacts (fst (close_escalation now k ei ra st)) = artifacts st"
  "artifacts (open_project_block now pk msg se is cm st) = artifacts st"
  "artifacts (fst (close_project_block now pk st)) = artifacts st"
  "artifacts (upsert_runner now pk ct ep tok tier st) = artifacts st"
  "artifacts (fst (quarantine_deferred cutoff st)) = artifacts st"
  by (simp_all add: upd_delivery_def set_delivery_status_def defer_delivery_def defer_delivery_until_def
    clear_deferred_clocks_def set_disk_paused_def finish_turn_def upd_open_turn_def
    clear_turn_resuming_def mark_turn_resuming_def insert_turn_def register_artifact_def
    mark_artifact_removed_def open_escalation_def close_escalation_def open_project_block_def
    close_project_block_def upsert_runner_def upd_session_def update_session_fields_def
    upsert_session_def bump_turn_counters_def quarantine_deferred_def Let_def
    split: option.split)

lemma escalations_frame [frame_simps, simp]:
  "escalations (upd_delivery d g st) = escalations st"
  "escalations (set_delivery_status d v st) = escalations st"
  "escalations (defer_delivery now d st) = escalations st"
  "escalations (defer_delivery_until d at st) = escalations st"
  "escalations (clear_deferred_clocks st) = escalations st"
  "escalations (upd_session k f st) = escalations st"
  "escalations (update_session_fields now k fs st) = escalations st"
  "escalations (upsert_session sa st) = escalations st"
  "escalations (fst (bump_turn_counters now k md rc st)) = escalations st"
  "escalations (set_disk_paused now b re st) = escalations st"
  "escalations (finish_turn tid e stt sm ac st) = escalations st"
  "escalations (clear_turn_resuming tid st) = escalations st"
  "escalations (fst (mark_turn_resuming tid st)) = escalations st"
  "escalations (fst (insert_turn trow st)) = escalations st"
  "escalations (fst (register_artifact now k ro kd ref cr st)) = escalations st"
  "escalations (fst (mark_artifact_removed now k ref kindo ra st)) = escalations st"
  "escalations (open_project_block now pk msg se is cm st) = escalations st"
  "escalations (fst (close_project_block now pk st)) = escalations st"
  "escalations (upsert_runner now pk ct ep tok tier st) = escalations st"
  "escalations (fst (quarantine_deferred cutoff st)) = escalations st"
  by (simp_all add: upd_delivery_def set_delivery_status_def defer_delivery_def defer_delivery_until_def
    clear_deferred_clocks_def set_disk_paused_def finish_turn_def upd_open_turn_def
    clear_turn_resuming_def mark_turn_resuming_def insert_turn_def register_artifact_def
    mark_artifact_removed_def open_escalation_def close_escalation_def open_project_block_def
    close_project_block_def upsert_runner_def upd_session_def update_session_fields_def
    upsert_session_def bump_turn_counters_def quarantine_deferred_def Let_def
    split: option.split)

lemma blocks_frame [frame_simps, simp]:
  "blocks (upd_delivery d g st) = blocks st"
  "blocks (set_delivery_status d v st) = blocks st"
  "blocks (defer_delivery now d st) = blocks st"
  "blocks (defer_delivery_until d at st) = blocks st"
  "blocks (clear_deferred_clocks st) = blocks st"
  "blocks (upd_session k f st) = blocks st"
  "blocks (update_session_fields now k fs st) = blocks st"
  "blocks (upsert_session sa st) = blocks st"
  "blocks (fst (bump_turn_counters now k md rc st)) = blocks st"
  "blocks (set_disk_paused now b re st) = blocks st"
  "blocks (finish_turn tid e stt sm ac st) = blocks st"
  "blocks (clear_turn_resuming tid st) = blocks st"
  "blocks (fst (mark_turn_resuming tid st)) = blocks st"
  "blocks (fst (insert_turn trow st)) = blocks st"
  "blocks (fst (register_artifact now k ro kd ref cr st)) = blocks st"
  "blocks (fst (mark_artifact_removed now k ref kindo ra st)) = blocks st"
  "blocks (fst (open_escalation now k roo msg cm st)) = blocks st"
  "blocks (fst (close_escalation now k ei ra st)) = blocks st"
  "blocks (upsert_runner now pk ct ep tok tier st) = blocks st"
  "blocks (fst (quarantine_deferred cutoff st)) = blocks st"
  by (simp_all add: upd_delivery_def set_delivery_status_def defer_delivery_def defer_delivery_until_def
    clear_deferred_clocks_def set_disk_paused_def finish_turn_def upd_open_turn_def
    clear_turn_resuming_def mark_turn_resuming_def insert_turn_def register_artifact_def
    mark_artifact_removed_def open_escalation_def close_escalation_def open_project_block_def
    close_project_block_def upsert_runner_def upd_session_def update_session_fields_def
    upsert_session_def bump_turn_counters_def quarantine_deferred_def Let_def
    split: option.split)

lemma nodes_frame [frame_simps, simp]:
  "nodes (upd_delivery d g st) = nodes st"
  "nodes (set_delivery_status d v st) = nodes st"
  "nodes (defer_delivery now d st) = nodes st"
  "nodes (defer_delivery_until d at st) = nodes st"
  "nodes (clear_deferred_clocks st) = nodes st"
  "nodes (upd_session k h st) = nodes st"
  "nodes (update_session_fields now k flds st) = nodes st"
  "nodes (upsert_session sa st) = nodes st"
  "nodes (fst (bump_turn_counters now k sm rc st)) = nodes st"
  "nodes (finish_turn tid e stt sm2 ac st) = nodes st"
  "nodes (fst (insert_turn trow st)) = nodes st"
  "nodes (fst (register_artifact now k ro kd ref cr st)) = nodes st"
  "nodes (fst (mark_artifact_removed now k ref kindo ra st)) = nodes st"
  "nodes (fst (open_escalation now k roo msg cm st)) = nodes st"
  "nodes (fst (close_escalation now k ei ra st)) = nodes st"
  "nodes (open_project_block now pk msg se is cm st) = nodes st"
  "nodes (fst (close_project_block now pk st)) = nodes st"
  "nodes (upsert_runner now pk ct ep tok tier st) = nodes st"
  by (simp_all add: upd_delivery_def set_delivery_status_def defer_delivery_def defer_delivery_until_def
    clear_deferred_clocks_def finish_turn_def upd_open_turn_def insert_turn_def register_artifact_def
    mark_artifact_removed_def open_escalation_def close_escalation_def open_project_block_def
    close_project_block_def upsert_runner_def upd_session_def update_session_fields_def
    upsert_session_def bump_turn_counters_def Let_def
    split: option.split)

lemma insert_delivery_frame [frame_simps, simp]:
  "sessions (fst (insert_delivery now did ev ac re is se pl v st)) = sessions st"
  "breaker (fst (insert_delivery now did ev ac re is se pl v st)) = breaker st"
  "runners (fst (insert_delivery now did ev ac re is se pl v st)) = runners st"
  "turns (fst (insert_delivery now did ev ac re is se pl v st)) = turns st"
  "artifacts (fst (insert_delivery now did ev ac re is se pl v st)) = artifacts st"
  "escalations (fst (insert_delivery now did ev ac re is se pl v st)) = escalations st"
  "blocks (fst (insert_delivery now did ev ac re is se pl v st)) = blocks st"
  by (simp_all add: insert_delivery_def index_nodes_def Let_def split: option.split json.split)

lemma runner_ops_frame [frame_simps, simp]:
  "turns (fst (delete_runner pk st)) = turns st"
  "artifacts (fst (delete_runner pk st)) = artifacts st"
  "sessions (fst (delete_runner pk st)) = sessions st"
  "deliveries (fst (delete_runner pk st)) = deliveries st"
  "turns (fst (touch_runner_seen t pk n st)) = turns st"
  "artifacts (fst (touch_runner_seen t pk n st)) = artifacts st"
  "sessions (fst (touch_runner_seen t pk n st)) = sessions st"
  "deliveries (fst (touch_runner_seen t pk n st)) = deliveries st"
  by (simp_all add: delete_runner_def touch_runner_seen_def Let_def)

lemma get_session_frame [frame_simps]:
  "sessions st' = sessions st \<Longrightarrow> get_session k st' = get_session k st"
  by (simp add: get_session_def)

definition delivery_of :: "string \<Rightarrow> store \<Rightarrow> delivery option" where
  "delivery_of did st = find_key delivery_id did (deliveries st)"

definition status_of :: "string \<Rightarrow> store \<Rightarrow> dstatus option" where
  "status_of did st = map_option d_status (delivery_of did st)"

lemma delivery_of_upd:
  "(\<And>d. delivery_id (f d) = delivery_id d) \<Longrightarrow>
    delivery_of k (upd_delivery k' f st) =
      (if k = k' then map_option f (delivery_of k st) else delivery_of k st)"
  by (simp add: delivery_of_def upd_delivery_def del_tab.find_upd_key)

lemma status_of_set [frame_simps]:
  "status_of k (set_delivery_status k' v st) =
    (if k = k' then map_option (\<lambda>_. v) (status_of k st) else status_of k st)"
  by (simp add: status_of_def set_delivery_status_def delivery_of_upd option.map_comp comp_def)

lemma status_of_frame: "deliveries st' = deliveries st \<Longrightarrow> status_of k st' = status_of k st"
  by (simp add: status_of_def delivery_of_def)

lemma status_of_defer [frame_simps, simp]:
  "status_of k (defer_delivery now k' st) = status_of k st"
  "status_of k (defer_delivery_until k' t st) = status_of k st"
  by (simp_all add: status_of_def defer_delivery_def defer_delivery_until_def delivery_of_upd
    option.map_comp comp_def)

lemma status_of_clear_clocks [frame_simps, simp]: "status_of k (clear_deferred_clocks st) = status_of k st"
  by (cases "delivery_of k st")
     (auto simp: status_of_def clear_deferred_clocks_def delivery_of_def del_tab.find_upd)

section \<open>The store as a machine\<close>

text \<open>One constructor per mutating method, with the arguments it takes.\<close>

datatype store_call =
    C_insert_delivery int string string "string option" "string option" "int option" "string option"
      "json option" dstatus
  | C_set_delivery_status string dstatus
  | C_defer_delivery int string
  | C_defer_delivery_until string int
  | C_clear_deferred_clocks
  | C_quarantine_deferred "int option"
  | C_set_disk_paused int bool "string option"
  | C_upsert_session session_args
  | C_update_session_fields int string "session_field list"
  | C_bump_turn_counters int string silent_mode bool
  | C_insert_turn turn_row
  | C_finish_turn string int string "string option" "string option"
  | C_mark_turn_resuming string
  | C_clear_turn_resuming string
  | C_register_artifact int string string string string "int option"
  | C_mark_artifact_removed int string string "string option" "int option"
  | C_open_escalation int string "string option" string "int option"
  | C_close_escalation int string "nat option" "int option"
  | C_upsert_runner int string string string string string
  | C_delete_runner string
  | C_touch_runner_seen int string "int option"
  | C_open_project_block int string string "string option" "int option" "int option"
  | C_close_project_block int string

fun exec_call :: "store_call \<Rightarrow> store \<Rightarrow> store" where
  "exec_call (C_insert_delivery n d e a r i s p v) st = fst (insert_delivery n d e a r i s p v st)"
| "exec_call (C_set_delivery_status d v) st = set_delivery_status d v st"
| "exec_call (C_defer_delivery n d) st = defer_delivery n d st"
| "exec_call (C_defer_delivery_until d t) st = defer_delivery_until d t st"
| "exec_call C_clear_deferred_clocks st = clear_deferred_clocks st"
| "exec_call (C_quarantine_deferred c) st = fst (quarantine_deferred c st)"
| "exec_call (C_set_disk_paused n b r) st = set_disk_paused n b r st"
| "exec_call (C_upsert_session a) st = upsert_session a st"
| "exec_call (C_update_session_fields n k fs) st = update_session_fields n k fs st"
| "exec_call (C_bump_turn_counters n k m r) st = fst (bump_turn_counters n k m r st)"
| "exec_call (C_insert_turn t) st = fst (insert_turn t st)"
| "exec_call (C_finish_turn t e s m a) st = finish_turn t e s m a st"
| "exec_call (C_mark_turn_resuming t) st = fst (mark_turn_resuming t st)"
| "exec_call (C_clear_turn_resuming t) st = clear_turn_resuming t st"
| "exec_call (C_register_artifact n k r kd ref c) st = fst (register_artifact n k r kd ref c st)"
| "exec_call (C_mark_artifact_removed n k ref kd r) st = fst (mark_artifact_removed n k ref kd r st)"
| "exec_call (C_open_escalation n k r m c) st = fst (open_escalation n k r m c st)"
| "exec_call (C_close_escalation n k e r) st = fst (close_escalation n k e r st)"
| "exec_call (C_upsert_runner n pk c e t ti) st = upsert_runner n pk c e t ti st"
| "exec_call (C_delete_runner pk) st = fst (delete_runner pk st)"
| "exec_call (C_touch_runner_seen t pk n) st = fst (touch_runner_seen t pk n st)"
| "exec_call (C_open_project_block n pk r s i c) st = open_project_block n pk r s i c st"
| "exec_call (C_close_project_block n pk) st = fst (close_project_block n pk st)"

interpretation store_machine: invariant_machine wf_store exec_call
  by unfold_locales (case_tac e; simp add: keeps_wf)

section \<open>Properties\<close>

text \<open>C23: every sequence of store calls, with any arguments and in any order, starting from an empty
  database keeps the store well-formed: primary keys stay unique in all eight tables, every turn and
  artifact belongs to an existing session, and no delivery has a negative defer count.\<close>

theorem store_calls_keep_wf: "wf_store (fold exec_call calls empty_store)"
  by (rule store_machine.run_inv [OF wf_empty])

text \<open>Webhook redelivery is idempotent: inserting a delivery id that is already in the ledger
  changes nothing and reports that no row was inserted, whatever the second payload says.\<close>

theorem redelivery_ignored:
  assumes "delivery_of did st \<noteq> None"
  shows "insert_delivery now did ev ac re is se pl v st = (st, Inr False)"
proof -
  from assms have "did \<in> delivery_id ` set (deliveries st)"
    by (auto simp: delivery_of_def dest: find_key_SomeD)
  then show ?thesis by (simp add: insert_delivery_def insert_ignore_def Let_def)
qed

theorem redelivery_ignored_witness:
  "insert_delivery 9 ''d1'' ''push'' None None None None None Queued
     (fst (insert_delivery 5 ''d1'' ''ping'' None None None None None Queued empty_store)) =
   (fst (insert_delivery 5 ''d1'' ''ping'' None None None None None Queued empty_store), Inr False)"
  by (rule redelivery_ignored)
     (simp add: insert_delivery_def insert_ignore_def Let_def delivery_of_def empty_store_def)

text \<open>The backoff, with its cap before SQLite's shift could overflow.\<close>

lemma defer_backoff_bounds: "0 \<le> n \<Longrightarrow> 5 \<le> defer_backoff n \<and> defer_backoff n \<le> 300"
proof -
  assume n: "0 \<le> n"
  have "(2::int) ^ nat n \<le> 2 ^ 5" if "n < 6"
    using that by (intro power_increasing) auto
  moreover have "(1::int) \<le> 2 ^ nat n" by simp
  ultimately show ?thesis using n by (auto simp: defer_backoff_def shift_one_def)
qed

lemma defer_backoff_mono: "0 \<le> m \<Longrightarrow> m \<le> n \<Longrightarrow> defer_backoff m \<le> defer_backoff n"
proof -
  assume mn: "0 \<le> m" "m \<le> n"
  show ?thesis
  proof (cases "n \<ge> 6")
    case True
    then show ?thesis using defer_backoff_bounds [OF mn(1)] by (simp add: defer_backoff_def)
  next
    case False
    then have "(2::int) ^ nat m \<le> 2 ^ nat n" using mn by (intro power_increasing) auto
    then show ?thesis using False mn by (simp add: defer_backoff_def shift_one_def)
  qed
qed

lemma in_list_deferred:
  "d \<in> set (list_deferred now lim st) \<Longrightarrow> d \<in> set (deliveries st) \<and> d_status d = Deferred \<and> d_next d \<le> now"
  by (auto simp: list_deferred_def dest: in_set_takeD)

text \<open>A deferred delivery is never picked up early and never waits more than five minutes: after
  \<open>defer_delivery\<close> at time \<open>now\<close> its clock stands between 5 and 300 seconds ahead, growing with each
  deferral, and no drain before that time lists it.\<close>

theorem defer_clock_respected:
  assumes "wf_store st" "delivery_of did st = Some d"
  shows "\<exists>d'. delivery_of did (defer_delivery now did st) = Some d' \<and>
    d_status d' = d_status d \<and> d_defers d' = d_defers d + 1 \<and>
    now + 5 \<le> d_next d' \<and> d_next d' \<le> now + 300 \<and>
    (\<forall>now' lim. now' < d_next d' \<longrightarrow>
       did \<notin> delivery_id ` set (list_deferred now' lim (defer_delivery now did st)))"
proof -
  let ?st = "defer_delivery now did st"
  let ?d = "d\<lparr>d_next := now + defer_backoff (d_defers d), d_defers := d_defers d + 1\<rparr>"
  have d': "delivery_of did ?st = Some ?d"
    using assms(2) by (simp add: defer_delivery_def delivery_of_upd)
  have "0 \<le> d_defers d"
    using assms by (auto simp: wf_store_def delivery_of_def dest!: find_key_SomeD)
  note b = defer_backoff_bounds [OF this]
  have "wf_store ?st" by (rule wf_defer_delivery [OF assms(1)])
  then have dist: "distinct (map delivery_id (deliveries ?st))" by (simp add: wf_store_def)
  have "did \<notin> delivery_id ` set (list_deferred now' lim ?st)" if "now' < d_next ?d" for now' lim
  proof
    assume "did \<in> delivery_id ` set (list_deferred now' lim ?st)"
    then obtain x where x: "x \<in> set (list_deferred now' lim ?st)" "delivery_id x = did" by auto
    then have "x = ?d"
      using find_key_distinct [OF dist] in_list_deferred [OF x(1)] d' by (auto simp: delivery_of_def)
    with in_list_deferred [OF x(1)] that show False by simp
  qed
  with d' b show ?thesis by auto
qed

theorem defer_clock_respected_witness:
  "\<exists>d'. delivery_of ''a'' (defer_delivery 100 ''a''
      (fst (insert_delivery 1 ''a'' ''x'' None None None None None Deferred empty_store))) = Some d'
    \<and> 105 \<le> d_next d'"
proof -
  let ?st = "fst (insert_delivery 1 ''a'' ''x'' None None None None None Deferred empty_store)"
  have "wf_store ?st" by (rule wf_insert_delivery [OF wf_empty])
  moreover obtain d where "delivery_of ''a'' ?st = Some d"
    by (simp add: insert_delivery_def insert_ignore_def Let_def delivery_of_def empty_store_def)
  ultimately show ?thesis using defer_clock_respected [of ?st "''a''" d 100] by auto
qed

text \<open>\<open>upsert_session\<close> on an existing session never rewrites what the loop owns: state, role
  bindings, the role freeze and every loop-safety counter stay as they are, and no other session is
  touched.\<close>

theorem upsert_session_keeps_loop_state:
  assumes "get_session (sa_key a) st = Some s"
  shows "\<exists>s'. get_session (sa_key a) (upsert_session a st) = Some s' \<and>
      s_state s' = s_state s \<and> s_resume s' = s_resume s \<and> s_architect s' = s_architect s \<and>
      s_developer s' = s_developer s \<and> s_locked s' = s_locked s \<and> s_turns s' = s_turns s \<and>
      s_consec s' = s_consec s \<and> s_rounds s' = s_rounds s \<and> s_silent s' = s_silent s \<and>
      s_fp_repeat s' = s_fp_repeat s \<and> s_zero_threads s' = s_zero_threads s \<and>
      (s_design_pr s \<noteq> None \<and> sa_design_pr a = None \<longrightarrow> s_design_pr s' = s_design_pr s)
    \<and> (\<forall>k. k \<noteq> sa_key a \<longrightarrow> get_session k (upsert_session a st) = get_session k st)"
  using assms by (auto simp: get_session_upsert conflict_session_def coalesce_def)

definition example_args :: "fsm_state \<Rightarrow> session_args" where
  "example_args v = \<lparr>sa_key = ''o/r#1'', sa_repo = ''o/r'', sa_issue = 1, sa_state = v,
     sa_architect = ''c'', sa_developer = ''g'', sa_created = 1, sa_updated = 1, sa_project = None,
     sa_paused = None, sa_locked = None, sa_design_pr = None, sa_turns = None, sa_consec = None,
     sa_rounds = None, sa_fp = None, sa_fp_repeat = None, sa_zero_threads = None\<rparr>"

theorem upsert_session_keeps_loop_state_witness:
  "\<exists>s'. get_session ''o/r#1'' (upsert_session (example_args INTAKE)
      (upsert_session (example_args MERGING) empty_store)) = Some s' \<and> s_state s' = MERGING"
proof -
  have "get_session (sa_key (example_args INTAKE)) (upsert_session (example_args MERGING) empty_store) =
      Some (new_session (example_args MERGING))"
    by (simp add: get_session_def upsert_session_def upsert_def empty_store_def new_session_def example_args_def)
  from upsert_session_keeps_loop_state [OF this] show ?thesis
    by (auto simp: example_args_def new_session_def)
qed

text \<open>One finished turn moves the three counters by exactly one statement: the turn count and the
  consecutive count go up by one (or the latter restarts at one on the owner's unpause), the silent
  count is reset, incremented or kept as asked, the returned numbers are the stored ones, and every
  other session and every other column but \<open>updated_at\<close> is unchanged; a missing session is reported
  and nothing is written.\<close>

theorem bump_turn_counters_spec:
  "case get_session k st of
     None \<Rightarrow> bump_turn_counters now k m rc st = (st, Inl (Key_error k))
   | Some s \<Rightarrow> (let s' = bump_row now m rc s in
       snd (bump_turn_counters now k m rc st) = Inr (s_turns s + 1, if rc then 1 else s_consec s + 1,
         case m of Reset \<Rightarrow> 0 | Inc \<Rightarrow> s_silent s + 1 | Keep \<Rightarrow> s_silent s) \<and>
       get_session k (fst (bump_turn_counters now k m rc st)) = Some s' \<and>
       s_state s' = s_state s \<and> s_rounds s' = s_rounds s) \<and>
     (\<forall>j. j \<noteq> k \<longrightarrow> get_session j (fst (bump_turn_counters now k m rc st)) = get_session j st)"
proof (cases "get_session k st")
  case None
  then have "upd_session k f st = st" for f
    unfolding get_session_def find_key_None_iff upd_session_def
    by (subst upd_where_none) auto
  with None show ?thesis by (simp add: bump_turn_counters_def Let_def)
next
  case (Some s)
  have k: "session_key (bump_row now m rc x) = session_key x" for x by (simp add: bump_row_def)
  from Some show ?thesis
    by (simp add: bump_turn_counters_def Let_def get_session_upd [OF k])
       (simp add: bump_row_def)
qed

theorem bump_turn_counters_spec_witness:
  "get_session ''o/r#1'' (fst (bump_turn_counters 5 ''o/r#1'' Inc False
     (upsert_session (example_args MERGING) empty_store))) =
   Some (bump_row 5 Inc False (new_session (example_args MERGING)))"
  using bump_turn_counters_spec [where k = "''o/r#1''" and now = 5 and m = Inc and rc = False
      and st = "upsert_session (example_args MERGING) empty_store"]
  by (simp add: get_session_upsert, simp add: get_session_def empty_store_def example_args_def Let_def)

section \<open>The artifact ledger\<close>

text \<open>Two open rows never name the same artifact of a session.\<close>

definition open_ref :: "artifact_row \<Rightarrow> string \<times> string \<times> string" where
  "open_ref a = (a_session a, a_kind a, a_ref a)"

definition ledger_ok :: "store \<Rightarrow> bool" where
  "ledger_ok st \<longleftrightarrow> distinct (map open_ref (filter (\<lambda>a. a_removed a = None) (artifacts st)))"

lemma find_open_append: "find P (xs @ [x]) = (case find P xs of None \<Rightarrow> if P x then Some x else None | Some y \<Rightarrow> Some y)"
  by (induction xs) auto

lemma ledger_register: "ledger_ok st \<Longrightarrow> ledger_ok (fst (register_artifact now k ro kd ref cr st))"
  by (auto simp: ledger_ok_def register_artifact_def Let_def open_ref_def find_None_iff
      split: option.split)

lemma filter_open_subset:
  "distinct (map g (filter P xs)) \<Longrightarrow> distinct (map g (filter P (upd_where Q f xs)))"
  if "\<And>a. Q a \<Longrightarrow> \<not> P (f a)"
proof (induction xs)
  case (Cons x xs)
  have "set (filter P (upd_where Q f xs)) \<subseteq> set (filter P xs)"
    using that by (auto simp: set_upd_where)
  with Cons that show ?case by (auto split: if_splits)
qed simp

lemma ledger_remove: "ledger_ok st \<Longrightarrow> ledger_ok (fst (mark_artifact_removed now k ref kd ra st))"
  by (simp add: ledger_ok_def mark_artifact_removed_def Let_def filter_open_subset)

lemma ledger_call: "ledger_ok st \<Longrightarrow> ledger_ok (exec_call c st)"
proof -
  have same: "artifacts st' = artifacts st \<Longrightarrow> ledger_ok st \<Longrightarrow> ledger_ok st'" for st'
    by (simp add: ledger_ok_def)
  show "ledger_ok st \<Longrightarrow> ?thesis"
    by (cases c) (simp_all add: ledger_register ledger_remove same)
qed

interpretation ledger_machine: invariant_machine ledger_ok exec_call
  by unfold_locales (rule ledger_call)

text \<open>The cleanup ledger holds each artifact at most once among its open rows, after any sequence
  of store calls; registering it again while it is open returns the existing row's id and writes
  nothing.\<close>

theorem ledger_no_duplicates:
  "ledger_ok (fold exec_call calls empty_store) \<and>
   (case register_artifact now k ro kd ref cr st of
      (st1, Inr i) \<Rightarrow> register_artifact now' k ro' kd ref cr' st1 = (st1, Inr i)
    | (st1, Inl _) \<Rightarrow> st1 = st)"
proof
  show "ledger_ok (fold exec_call calls empty_store)"
    by (rule ledger_machine.run_inv) (simp add: ledger_ok_def empty_store_def)
  show "case register_artifact now k ro kd ref cr st of
      (st1, Inr i) \<Rightarrow> register_artifact now' k ro' kd ref cr' st1 = (st1, Inr i)
    | (st1, Inl _) \<Rightarrow> st1 = st"
    by (auto simp: register_artifact_def Let_def find_open_append split: option.split if_splits)
qed

section \<open>Turn rows\<close>

text \<open>A turn ends once: after a row carries an end time, no store call changes its end time, status,
  summary or actions, so a late resume or a second finish cannot rewrite the outcome.\<close>

theorem ended_turn_immutable:
  assumes "get_turn tid st = Some t" "t_ended t = Some e"
  shows "get_turn tid (exec_call c st) = Some t"
proof -
  have same: "turns st' = turns st \<Longrightarrow> get_turn tid st' = Some t" for st'
    using assms(1) by (simp add: get_turn_def)
  have upd: "get_turn tid (st\<lparr>turns := upd_where P f (turns st)\<rparr>) = Some t"
    if "\<And>x. turn_id (f x) = turn_id x" "\<not> P t" for P f
    using assms(1) that by (simp add: get_turn_def turn_tab.find_upd)
  have ins: "get_turn tid (fst (insert_turn r st)) = Some t" for r
    using assms(1) by (simp add: get_turn_def insert_turn_def find_key_append)
  show ?thesis
    using assms
    by (cases c) (simp_all add: same ins upd finish_turn_def upd_open_turn_def clear_turn_resuming_def
        mark_turn_resuming_def Let_def)
qed

theorem ended_turn_immutable_witness:
  "get_turn ''t'' (exec_call (C_finish_turn ''t'' 9 ''failed'' None None)
     (empty_store\<lparr>turns := [\<lparr>turn_id = ''t'', t_session = ''s'', t_role = ''r'', t_delivery = None,
        t_started = 1, t_ended = Some 2, t_status = Some ''done'', t_summary = None, t_actions = None,
        t_resumes = 0\<rparr>]\<rparr>)) =
   Some \<lparr>turn_id = ''t'', t_session = ''s'', t_role = ''r'', t_delivery = None,
        t_started = 1, t_ended = Some 2, t_status = Some ''done'', t_summary = None, t_actions = None,
        t_resumes = 0\<rparr>"
  by (rule ended_turn_immutable) (simp_all add: get_turn_def)

end
