(* ===== verification/Governor.thy ===== *)
theory Governor
  imports Store_Facts Complex_Main
begin

text \<open>
  The disk circuit breaker (\<open>agentd/src/agentd/governor.py\<close>): one sample cycle over the store's
  durable latch.  The free space is a parameter of each sample (None: unreadable), and so is the
  formatting of the reason; notifications and the trip callback are the returned effects.
\<close>

record governor =
  floor_gb :: rat
  resume_gb :: rat

datatype gov_effect = Notify_trip rat | On_trip

definition sample_once ::
  "(rat \<Rightarrow> string) \<Rightarrow> governor \<Rightarrow> int \<Rightarrow> rat option \<Rightarrow> store \<Rightarrow> store \<times> gov_effect list" where
  "sample_once fmt g now free st =
     (case free of
        None \<Rightarrow> (st, [])
      | Some f \<Rightarrow>
          (let paused = is_disk_paused st in
           if f < floor_gb g \<and> \<not> paused
           then (set_disk_paused now True
                   (Some (''disk '' @ fmt f @ '' GB < floor '' @ fmt (floor_gb g) @ '' GB'')) st,
                 [Notify_trip f, On_trip])
           else if f > resume_gb g \<and> paused
           then (set_disk_paused now False
                   (Some (''disk '' @ fmt f @ '' GB > resume '' @ fmt (resume_gb g) @ '' GB'')) st, [])
           else (st, [])))"

fun sample_run ::
  "(rat \<Rightarrow> string) \<Rightarrow> governor \<Rightarrow> (int \<times> rat option) list \<Rightarrow> store \<Rightarrow> store \<times> gov_effect list" where
  "sample_run fmt g [] st = (st, [])"
| "sample_run fmt g ((now, free) # xs) st =
     (let (st1, e1) = sample_once fmt g now free st; (st2, e2) = sample_run fmt g xs st1
      in (st2, e1 @ e2))"

lemma is_paused_set [simp]: "is_disk_paused (set_disk_paused now b r st) = b"
  by (simp add: is_disk_paused_def set_disk_paused_def)

lemma sample_once_latch:
  "is_disk_paused (fst (sample_once fmt g now free st)) =
    (case free of None \<Rightarrow> is_disk_paused st
     | Some f \<Rightarrow> if is_disk_paused st then \<not> f > resume_gb g else f < floor_gb g)"
  by (auto simp: sample_once_def Let_def split: option.split)

text \<open>Readings inside the hysteresis band, or unreadable.\<close>

definition in_band :: "governor \<Rightarrow> int \<times> rat option \<Rightarrow> bool" where
  "in_band g x = (case snd x of None \<Rightarrow> True | Some f \<Rightarrow> floor_gb g \<le> f \<and> f \<le> resume_gb g)"

lemma sample_once_band: "in_band g (now, free) \<Longrightarrow> sample_once fmt g now free st = (st, [])"
  by (auto simp: sample_once_def in_band_def Let_def split: option.splits)

text \<open>The breaker has hysteresis and signals once per trip: after a sample below the floor the
  latch is on, any number of readings between the floor and the resume level leave it on without a
  second notification, and only a reading above the resume level opens it again.\<close>

theorem breaker_hysteresis:
  assumes "\<forall>x \<in> set xs. in_band g x" "floor_gb g \<le> resume_gb g" "f < floor_gb g" "resume_gb g < f'"
    and "\<not> is_disk_paused st"
  shows "let (st1, e1) = sample_once fmt g t1 (Some f) st;
             (st2, e2) = sample_run fmt g xs st1;
             (st3, e3) = sample_once fmt g t3 (Some f') st2
         in is_disk_paused st1 \<and> e1 = [Notify_trip f, On_trip] \<and> st2 = st1 \<and> e2 = [] \<and>
            \<not> is_disk_paused st3 \<and> e3 = []"
proof -
  have band: "sample_run fmt g ys s = (s, [])" if "\<forall>x \<in> set ys. in_band g x" for ys s
    using that by (induction ys) (auto simp: sample_once_band)
  show ?thesis
    using assms band [OF assms(1)] by (simp add: sample_once_def Let_def)
qed

theorem breaker_hysteresis_witness:
  "is_disk_paused (fst (sample_run (\<lambda>_. []) \<lparr>floor_gb = 15, resume_gb = 20\<rparr> [(2, Some 17), (3, None)]
     (fst (sample_once (\<lambda>_. []) \<lparr>floor_gb = 15, resume_gb = 20\<rparr> 1 (Some 10) empty_store))))"
  using breaker_hysteresis [where xs = "[(2, Some 17), (3, None)]" and g = "\<lparr>floor_gb = 15, resume_gb = 20\<rparr>"
      and f = 10 and f' = 21 and st = empty_store and fmt = "\<lambda>_. []" and ?t1.0 = 1 and ?t3.0 = 4]
  by (simp add: in_band_def is_disk_paused_def empty_store_def Let_def split: prod.splits)

end
