(* ===== verification/Merge_Auth.thy ===== *)
theory Merge_Auth
  imports Json
begin

text \<open>
  Gateway-side verification of privileged transitions (\<open>agentd/src/agentd/verify.py\<close>).  The HTTP
  reads are a parameter \<open>get\<close> from URLs to responses: \<open>Inl\<close> carries the text of a raised exception.
  A check's own exceptions (a review that is not an object, say) are \<open>Inl\<close> results as well, with
  Python's message, so that the source's \<open>try\<close> blocks decide which of them become a verdict.
\<close>

section \<open>Values\<close>

record approval_check =
  ok :: bool
  ac_reason :: string
  transient :: bool
  superseded :: bool

definition refuse :: "string \<Rightarrow> approval_check" where
  "refuse r = \<lparr>ok = False, ac_reason = r, transient = False, superseded = False\<rparr>"

definition retry_later :: "string \<Rightarrow> approval_check" where
  "retry_later r = (refuse r)\<lparr>transient := True\<rparr>"

definition overtaken :: "string \<Rightarrow> approval_check" where
  "overtaken r = (refuse r)\<lparr>superseded := True\<rparr>"

definition approve :: "string \<Rightarrow> approval_check" where
  "approve r = (refuse r)\<lparr>ok := True\<rparr>"

type_synonym 'a exc = "string + 'a"
type_synonym http = "string \<Rightarrow> json exc"

definition bind_exc :: "'a exc \<Rightarrow> ('a \<Rightarrow> 'b exc) \<Rightarrow> 'b exc" where
  "bind_exc m f = (case m of Inl e \<Rightarrow> Inl e | Inr x \<Rightarrow> f x)"

fun py_type :: "json \<Rightarrow> string" where
  "py_type JNull = ''NoneType''" | "py_type (JBool _) = ''bool''" | "py_type (JNum _) = ''int''"
| "py_type (JStr _) = ''str''" | "py_type (JArr _) = ''list''" | "py_type (JObj _) = ''dict''"

definition no_attr :: "json \<Rightarrow> string \<Rightarrow> string" where
  "no_attr j a = repr_str (py_type j) @ '' object has no attribute '' @ repr_str a"

text \<open>The receiver of a \<open>.get\<close>; \<open>(d.get(k) or {})\<close>; \<open>(d.get(k) or "").lower()\<close>.\<close>

definition as_obj :: "json \<Rightarrow> dict exc" where
  "as_obj j = (case j of JObj d \<Rightarrow> Inr d | _ \<Rightarrow> Inl (no_attr j ''get''))"

definition sub_obj :: "dict \<Rightarrow> string \<Rightarrow> dict exc" where
  "sub_obj d k = as_obj (py_or (dget d k) (JObj []))"

definition lower_field :: "dict \<Rightarrow> string \<Rightarrow> string exc" where
  "lower_field d k =
     (case py_or (dget d k) (JStr []) of JStr s \<Rightarrow> Inr (py_lower s) | j \<Rightarrow> Inl (no_attr j ''lower''))"

section \<open>The approver on the live head\<close>

definition verdicts :: "string list" where
  "verdicts = [''APPROVED'', ''CHANGES_REQUESTED'', ''DISMISSED'']"

definition rev_state :: "dict \<Rightarrow> string" where
  "rev_state d = py_upper (str_or_empty (dget d ''state''))"

definition rev_user :: "json \<Rightarrow> (string \<times> dict) exc" where
  "rev_user rv = bind_exc (as_obj rv) (\<lambda>d. bind_exc (sub_obj d ''user'') (\<lambda>u.
     bind_exc (lower_field u ''login'') (\<lambda>user. Inr (user, d))))"

text \<open>The latest verdict of each user, over the reviews in order.\<close>

fun latest_reviews :: "(string \<rightharpoonup> dict) \<Rightarrow> json list \<Rightarrow> (string \<rightharpoonup> dict) exc" where
  "latest_reviews m [] = Inr m"
| "latest_reviews m (rv # revs) =
     (case rev_user rv of
        Inl e \<Rightarrow> Inl e
      | Inr (user, d) \<Rightarrow>
          latest_reviews (if user \<noteq> [] \<and> rev_state d \<in> set verdicts then m(user \<mapsto> d) else m) revs)"

text \<open>\<open>str((pr.get("head") or {}).get("sha") or head_sha)\<close>.\<close>

definition live_head_of :: "dict \<Rightarrow> string \<Rightarrow> string exc" where
  "live_head_of pr head_sha =
     bind_exc (sub_obj pr ''head'') (\<lambda>h. Inr (py_str (py_or (dget h ''sha'') (JStr head_sha))))"

definition judge_review :: "string \<Rightarrow> string \<Rightarrow> dict \<Rightarrow> approval_check" where
  "judge_review login head rv =
     (let st = rev_state rv;
          not_approved = ''latest review from '' @ login @ '' is '' @
            py_repr (dget rv ''state'') @ '', not APPROVED'';
          sha = py_or (dget rv ''commit_id'') (dget rv ''commitId'')
      in if st = ''CHANGES_REQUESTED'' \<or> st = ''DISMISSED'' then overtaken not_approved
         else if st \<noteq> ''APPROVED'' then refuse not_approved
         else if truthy sha \<and> sha \<noteq> JStr head
           then overtaken (''approval is on '' @ take 8 (py_str sha) @ [ellipsis] @
             '' not current head '' @ take 8 head @ [ellipsis])
         else approve ''approved on current head by other role'')"

definition check_approver_on_head :: "json \<Rightarrow> json \<Rightarrow> string \<Rightarrow> string \<Rightarrow> approval_check exc" where
  "check_approver_on_head reviews pr login head_sha =
     bind_exc (as_obj pr) (\<lambda>p. bind_exc (live_head_of p head_sha) (\<lambda>head.
       bind_exc (case reviews of JArr revs \<Rightarrow> latest_reviews Map.empty revs | _ \<Rightarrow> Inr Map.empty) (\<lambda>latest.
         Inr (case latest (py_lower login) of
             None \<Rightarrow> refuse (''no review from expected approver '' @ repr_str login)
           | Some rv \<Rightarrow> judge_review login head rv))))"

section \<open>Required checks\<close>

record check_class =
  all_success :: bool
  pending :: bool
  permanent_fail :: bool
  cc_reason :: string

definition pending_states :: "string list" where
  "pending_states = [''pending'', ''queued'', ''in_progress'', ''waiting'', ''requested'', ''expected'']"

fun runs_by_name :: "(string \<rightharpoonup> string) \<Rightarrow> json list \<Rightarrow> (string \<rightharpoonup> string) exc" where
  "runs_by_name m [] = Inr m"
| "runs_by_name m (run # rs) = bind_exc (as_obj run) (\<lambda>r.
     let name = str_or_empty (dget r ''name'') in
     runs_by_name
       (if name = [] then m
        else if str_or_empty (dget r ''status'') \<noteq> ''completed''
          then m(name \<mapsto> py_lower (py_str (py_or (dget r ''status'') (JStr ''pending''))))
        else m(name \<mapsto> py_lower (str_or_empty (dget r ''conclusion'')))) rs)"

fun statuses_by_name :: "(string \<rightharpoonup> string) \<Rightarrow> json list \<Rightarrow> (string \<rightharpoonup> string) exc" where
  "statuses_by_name m [] = Inr m"
| "statuses_by_name m (st # sts) = bind_exc (as_obj st) (\<lambda>s.
     let ctx = str_or_empty (dget s ''context'') in
     statuses_by_name (if ctx = [] then m else m(ctx \<mapsto> py_lower (str_or_empty (dget s ''state'')))) sts)"

definition list_field :: "json \<Rightarrow> string \<Rightarrow> json list" where
  "list_field j k = (case j of JObj d \<Rightarrow> (case dget d k of JArr xs \<Rightarrow> xs | _ \<Rightarrow> []) | _ \<Rightarrow> [])"

definition checks_by_name :: "json \<Rightarrow> json \<Rightarrow> (string \<rightharpoonup> string) exc" where
  "checks_by_name runs status =
     bind_exc (runs_by_name Map.empty (list_field runs ''check_runs''))
       (\<lambda>m. statuses_by_name m (list_field status ''statuses''))"

definition settle :: "(string \<rightharpoonup> string) \<Rightarrow> string list \<Rightarrow> check_class" where
  "settle by_name wanted =
     (let missing = filter (\<lambda>n. by_name n = None) wanted;
          shown = (\<lambda>n. n @ ''='' @ the (by_name n));
          pend = filter (\<lambda>n. \<exists>s \<in> set pending_states. by_name n = Some s) wanted;
          failed = filter (\<lambda>n. case by_name n of None \<Rightarrow> False
                     | Some s \<Rightarrow> s \<noteq> ''success'' \<and> s \<notin> set pending_states) wanted
      in if failed \<noteq> []
         then \<lparr>all_success = False, pending = False, permanent_fail = True,
               cc_reason = ''required_checks not success: '' @ join '', '' (map shown failed)\<rparr>
         else if missing \<noteq> [] \<or> pend \<noteq> []
         then \<lparr>all_success = False, pending = True, permanent_fail = False,
               cc_reason = ''required_checks still settling ('' @ join ''; ''
                 ((if missing \<noteq> [] then [''missing/not-yet-reported: '' @ join '', '' missing] else []) @
                  (if pend \<noteq> [] then [''pending: '' @ join '', '' (map shown pend)] else [])) @ '')''\<rparr>
         else \<lparr>all_success = True, pending = False, permanent_fail = False,
               cc_reason = ''required_checks all success''\<rparr>)"

definition api :: "string \<Rightarrow> string \<Rightarrow> string" where
  "api repo path = ''https://api.github.com/repos/'' @ repo @ path"

definition classify_required_checks ::
  "http \<Rightarrow> string \<Rightarrow> string \<Rightarrow> string list \<Rightarrow> check_class exc" where
  "classify_required_checks get repo head_sha wanted =
     bind_exc (get (api repo (''/commits/'' @ head_sha @ ''/check-runs''))) (\<lambda>runs.
     bind_exc (get (api repo (''/commits/'' @ head_sha @ ''/status''))) (\<lambda>status.
     bind_exc (checks_by_name runs status) (\<lambda>by_name. Inr (settle by_name wanted))))"

text \<open>
  The unresolved-thread count of a snapshot; None when the fetch raised, returned nothing, or the
  count is not a number.
\<close>

definition observe_unresolved_threads :: "json option exc \<Rightarrow> int option" where
  "observe_unresolved_threads snap =
     (case snap of Inl _ \<Rightarrow> None | Inr None \<Rightarrow> None | Inr (Some n) \<Rightarrow> json_int n)"

section \<open>The two gates\<close>

text \<open>The guards both gates open with, and the two reads of reviews and PR.\<close>

definition gate_guard :: "string option \<Rightarrow> string option \<Rightarrow> int \<Rightarrow> string option" where
  "gate_guard token head_sha pr_number =
     (if token = None \<or> token = Some [] then Some ''no token for GitHub API verification''
      else if head_sha = None \<or> head_sha = Some [] then Some ''missing head_sha for approval verification''
      else if pr_number = 0 then Some ''missing pr_number''
      else None)"

definition fetch_gate :: "http \<Rightarrow> string \<Rightarrow> int \<Rightarrow> (json \<times> json) exc" where
  "fetch_gate get repo n =
     bind_exc (get (api repo (''/pulls/'' @ dec n @ ''/reviews''))) (\<lambda>reviews.
     bind_exc (get (api repo (''/pulls/'' @ dec n))) (\<lambda>pr. Inr (reviews, pr)))"

definition verify_design_approval ::
  "http \<Rightarrow> string \<Rightarrow> int \<Rightarrow> string \<Rightarrow> string option \<Rightarrow> string option \<Rightarrow> approval_check exc" where
  "verify_design_approval get repo pr_number login head_sha token =
     (case gate_guard token head_sha pr_number of
        Some e \<Rightarrow> Inr (refuse e)
      | None \<Rightarrow>
          (case fetch_gate get repo pr_number of
             Inl e \<Rightarrow> Inr (refuse (''GitHub API error: '' @ e))
           | Inr (reviews, pr) \<Rightarrow> check_approver_on_head reviews pr login (the head_sha)))"

text \<open>The part after the approval and the checks: the mergeable state decides.\<close>

definition mergeable_label :: "dict \<Rightarrow> string" where
  "mergeable_label pr =
     (case dget pr ''mergeable_state'' of JNull \<Rightarrow> [] | j \<Rightarrow> py_lower (py_str j))"

definition decide_mergeable ::
  "string \<Rightarrow> string list \<Rightarrow> bool \<Rightarrow> bool \<Rightarrow> string \<Rightarrow> json option exc \<Rightarrow> approval_check" where
  "decide_mergeable ms wanted checks_pending checks_all checks_reason snap =
     (if ms \<in> {[], ''unknown'', ''unstable''}
      then retry_later (''mergeable_state still computing ('' @
             repr_str (if ms = [] then ''null'' else ms) @ '') '' @ [em_dash] @ '' will retry'')
      else if ms = ''dirty''
      then refuse ''mergeable_state is 'dirty' (permanent: conflicts or unmergeable)''
      else if ms = ''blocked''
      then (let unresolved = observe_unresolved_threads snap in
            if (case unresolved of None \<Rightarrow> False | Some n \<Rightarrow> n > 0)
            then refuse (''mergeable_state is 'blocked': '' @ dec (the unresolved) @
                   '' unresolved review thread(s) '' @ [em_dash] @ '' resolve before merge'')
            else if checks_pending \<or> wanted = []
            then retry_later (''mergeable_state is 'blocked' ('' @
                   (if checks_reason = [] then ''settling'' else checks_reason) @ '') '' @ [em_dash] @ '' will retry'')
            else if checks_all
            then refuse (''mergeable_state is 'blocked' with required checks already success '' @
                   ''(permanent: branch protection or review rule)'')
            else retry_later (''mergeable_state is 'blocked' '' @ [em_dash] @ '' will retry''))
      else if ms \<noteq> ''clean''
      then refuse (''mergeable_state is '' @ repr_str ms @ '', want 'clean' (permanent)'')
      else if wanted \<noteq> [] \<and> checks_pending
      then retry_later (checks_reason @ '' '' @ [em_dash] @ '' will retry'')
      else if wanted \<noteq> [] \<and> \<not> checks_all
      then refuse (if checks_reason = [] then ''required_checks not all success'' else checks_reason)
      else if wanted \<noteq> []
      then approve ''approved on current head; required_checks success; mergeable_state=clean''
      else approve ''approved on current head; mergeable_state=clean; no required_checks configured'')"

text \<open>Checks and mergeability of an approved PR.\<close>

definition merge_readiness ::
  "http \<Rightarrow> json option exc \<Rightarrow> string \<Rightarrow> dict \<Rightarrow> string \<Rightarrow> string list \<Rightarrow> approval_check" where
  "merge_readiness get snap repo pr live_head required_checks =
     (let wanted = filter (\<lambda>c. py_strip c \<noteq> []) required_checks;
          ms = mergeable_label pr
      in if wanted = [] then decide_mergeable ms wanted False True [] snap
         else
           (case classify_required_checks get repo live_head wanted of
              Inl e \<Rightarrow> retry_later (''GitHub API error (checks, transient): '' @ e)
            | Inr chk \<Rightarrow>
                if permanent_fail chk \<or> (\<not> all_success chk \<and> \<not> pending chk)
                then refuse (cc_reason chk)
                else decide_mergeable ms wanted (pending chk) (all_success chk) (cc_reason chk) snap))"

definition verify_feature_merge ::
  "http \<Rightarrow> json option exc \<Rightarrow> string \<Rightarrow> int \<Rightarrow> string \<Rightarrow> string option \<Rightarrow> string option \<Rightarrow> string list
   \<Rightarrow> approval_check exc" where
  "verify_feature_merge get snap repo pr_number login head_sha token required_checks =
     (case gate_guard token head_sha pr_number of
        Some e \<Rightarrow> Inr (refuse e)
      | None \<Rightarrow>
          (case fetch_gate get repo pr_number of
             Inl e \<Rightarrow> Inr (retry_later (''GitHub API error (transient): '' @ e))
           | Inr (reviews, pr) \<Rightarrow>
               bind_exc (check_approver_on_head reviews pr login (the head_sha)) (\<lambda>approval.
                 if \<not> ok approval then Inr approval
                 else
                   bind_exc (as_obj pr) (\<lambda>p. bind_exc (live_head_of p (the head_sha)) (\<lambda>live_head.
                     Inr (merge_readiness get snap repo p live_head required_checks))))))"

section \<open>Facts\<close>

lemmas verdict_defs = refuse_def retry_later_def overtaken_def approve_def

lemma verdict_fields [simp]:
  "ok (refuse r) = False" "ok (retry_later r) = False" "ok (overtaken r) = False" "ok (approve r) = True"
  "transient (refuse r) = False" "transient (retry_later r) = True" "transient (overtaken r) = False"
  "transient (approve r) = False" "superseded (refuse r) = False" "superseded (retry_later r) = False"
  "superseded (overtaken r) = True" "superseded (approve r) = False"
  by (simp_all add: verdict_defs)

lemma bind_exc_Inr: "bind_exc m f = Inr y \<longleftrightarrow> (\<exists>x. m = Inr x \<and> f x = Inr y)"
  by (cases m) (simp_all add: bind_exc_def)

text \<open>The verdicts of one user, in the order of the response.\<close>

definition verdicts_of :: "json list \<Rightarrow> string \<Rightarrow> dict list" where
  "verdicts_of revs u = concat (map (\<lambda>rv. case rev_user rv of
      Inr (user, d) \<Rightarrow> if user = u \<and> rev_state d \<in> set verdicts then [d] else []
    | Inl _ \<Rightarrow> []) revs)"

lemma latest_reviews_spec:
  "latest_reviews m revs = Inr m' \<Longrightarrow> u \<noteq> [] \<Longrightarrow>
    m' u = (if verdicts_of revs u = [] then m u else Some (last (verdicts_of revs u)))"
proof (induction m revs rule: latest_reviews.induct)
  case (1 m)
  then show ?case by (simp add: verdicts_of_def)
next
  case (2 m rv revs)
  from "2.prems" obtain user d where r: "rev_user rv = Inr (user, d)"
    by (auto split: sum.splits)
  with 2 show ?case by (auto simp: verdicts_of_def)
qed

text \<open>The latest verdict of a login approves, and names the head or no commit at all.\<close>

definition approved_on :: "json \<Rightarrow> string \<Rightarrow> string \<Rightarrow> bool" where
  "approved_on reviews login head \<longleftrightarrow>
     (\<exists>revs d. reviews = JArr revs \<and> verdicts_of revs (py_lower login) \<noteq> [] \<and>
        d = last (verdicts_of revs (py_lower login)) \<and> rev_state d = ''APPROVED'' \<and>
        (let sha = py_or (dget d ''commit_id'') (dget d ''commitId'') in truthy sha \<longrightarrow> sha = JStr head))"

lemma latest_reviews_nonempty: "latest_reviews m revs = Inr m' \<Longrightarrow> [] \<notin> dom m \<Longrightarrow> [] \<notin> dom m'"
proof (induction m revs rule: latest_reviews.induct)
  case (2 m rv revs)
  then show ?case by (cases "rev_user rv") (force split: if_splits)+
qed simp

lemma judge_review_ok:
  "ok (judge_review login head rv) \<longleftrightarrow> rev_state rv = ''APPROVED'' \<and>
    (let sha = py_or (dget rv ''commit_id'') (dget rv ''commitId'') in truthy sha \<longrightarrow> sha = JStr head)"
  by (auto simp: judge_review_def Let_def)

text \<open>The verdict found by the check is the last one in the response.\<close>

lemma latest_found:
  assumes "(case reviews of JArr revs \<Rightarrow> latest_reviews Map.empty revs | _ \<Rightarrow> Inr Map.empty) = Inr latest"
    and "latest (py_lower login) = Some rv"
  obtains revs where "reviews = JArr revs" "verdicts_of revs (py_lower login) \<noteq> []"
    "rv = last (verdicts_of revs (py_lower login))"
proof -
  from assms obtain revs where revs: "reviews = JArr revs" "latest_reviews Map.empty revs = Inr latest"
    by (cases reviews) auto
  have "py_lower login \<noteq> []"
    using latest_reviews_nonempty [OF revs(2)] assms(2) by (metis domI dom_empty empty_iff)
  with latest_reviews_spec [OF revs(2)] assms(2) have "verdicts_of revs (py_lower login) \<noteq> []"
    "rv = last (verdicts_of revs (py_lower login))"
    by (auto split: if_splits)
  with revs show thesis using that by blast
qed

lemma check_approver_cases:
  assumes "check_approver_on_head reviews pr login head_sha = Inr c"
  obtains p head where "pr = JObj p" "live_head_of p head_sha = Inr head"
      "c = refuse (''no review from expected approver '' @ repr_str login)"
  | p head revs rv where "pr = JObj p" "live_head_of p head_sha = Inr head"
      "reviews = JArr revs" "verdicts_of revs (py_lower login) \<noteq> []"
      "rv = last (verdicts_of revs (py_lower login))" "c = judge_review login head rv"
proof -
  from assms obtain p head latest where
    p: "as_obj pr = Inr p" and h: "live_head_of p head_sha = Inr head" and
    l: "(case reviews of JArr revs \<Rightarrow> latest_reviews Map.empty revs | _ \<Rightarrow> Inr Map.empty) = Inr latest" and
    c: "c = (case latest (py_lower login) of
             None \<Rightarrow> refuse (''no review from expected approver '' @ repr_str login)
           | Some rv \<Rightarrow> judge_review login head rv)"
    by (auto simp only: check_approver_on_head_def bind_exc_Inr sum.inject)
  from p have pr: "pr = JObj p" by (auto simp: as_obj_def split: json.splits)
  show thesis
  proof (cases "latest (py_lower login)")
    case None
    with c pr h that(1) show ?thesis by simp
  next
    case (Some rv)
    from latest_found [OF l Some] c pr h Some that(2) show ?thesis by (metis option.simps(5))
  qed
qed

lemma check_approver_ok:
  assumes "check_approver_on_head reviews pr login head_sha = Inr c" "ok c"
  obtains p head where "pr = JObj p" "live_head_of p head_sha = Inr head" "approved_on reviews login head"
  using assms(1)
proof (cases rule: check_approver_cases)
  case 1
  with assms(2) show ?thesis by simp
next
  case (2 p head revs rv)
  with assms(2) have "approved_on reviews login head"
    by (auto simp: approved_on_def judge_review_ok)
  with 2 that show ?thesis by blast
qed

lemma check_state_cases:
  "\<not> (x = None \<or> (\<exists>s \<in> set pending_states. x = Some s) \<or>
      (case x of None \<Rightarrow> False | Some s \<Rightarrow> s \<noteq> ''success'' \<and> s \<notin> set pending_states)) \<longleftrightarrow> x = Some ''success''"
  by (cases x) (auto simp: pending_states_def)

lemma settle_success: "all_success (settle by_name wanted) \<longleftrightarrow> (\<forall>n \<in> set wanted. by_name n = Some ''success'')"
proof -
  have "all_success (settle by_name wanted) \<longleftrightarrow> (\<forall>n \<in> set wanted. \<not> (by_name n = None \<or>
      (\<exists>s \<in> set pending_states. by_name n = Some s) \<or>
      (case by_name n of None \<Rightarrow> False | Some s \<Rightarrow> s \<noteq> ''success'' \<and> s \<notin> set pending_states)))"
    by (simp add: settle_def Let_def filter_empty_conv) blast
  then show ?thesis by (simp only: check_state_cases)
qed

lemma settle_exclusive: "pending (settle by_name wanted) \<Longrightarrow> \<not> all_success (settle by_name wanted)"
  by (simp add: settle_def Let_def split: if_splits)

lemma decide_mergeable_ok:
  "ok (decide_mergeable ms wanted p a r snap) \<longleftrightarrow> ms = ''clean'' \<and> (wanted = [] \<or> \<not> p \<and> a)"
  by (simp add: decide_mergeable_def Let_def)

lemma gate_guard_None:
  "gate_guard token head_sha n = None \<longleftrightarrow>
    (\<exists>t h. token = Some t \<and> t \<noteq> [] \<and> head_sha = Some h \<and> h \<noteq> [] \<and> n \<noteq> 0)"
  by (cases token; cases head_sha) (auto simp: gate_guard_def)

text \<open>The responses behind a fetched pair.\<close>

lemma fetch_gate_Inr:
  "fetch_gate get repo n = Inr (reviews, pr) \<longleftrightarrow>
    get (api repo (''/pulls/'' @ dec n @ ''/reviews'')) = Inr reviews \<and> get (api repo (''/pulls/'' @ dec n)) = Inr pr"
  by (auto simp: fetch_gate_def bind_exc_Inr)

text \<open>Every named check is reported as a success for the head.\<close>

definition checks_pass :: "http \<Rightarrow> string \<Rightarrow> string \<Rightarrow> string list \<Rightarrow> bool" where
  "checks_pass get repo head required \<longleftrightarrow>
     (\<forall>check \<in> set required. py_strip check \<noteq> [] \<longrightarrow>
        (\<exists>runs status by_name.
           get (api repo (''/commits/'' @ head @ ''/check-runs'')) = Inr runs \<and>
           get (api repo (''/commits/'' @ head @ ''/status'')) = Inr status \<and>
           checks_by_name runs status = Inr by_name \<and> by_name check = Some ''success''))"

lemma merge_readiness_ok:
  assumes "ok (merge_readiness get snap repo pr head required)"
  shows "mergeable_label pr = ''clean'' \<and> checks_pass get repo head required"
proof (cases "filter (\<lambda>c. py_strip c \<noteq> []) required = []")
  case True
  with assms have "mergeable_label pr = ''clean''"
    by (simp add: merge_readiness_def decide_mergeable_ok)
  with True show ?thesis by (simp add: checks_pass_def filter_empty_conv)
next
  case False
  with assms obtain chk where
    c: "classify_required_checks get repo head (filter (\<lambda>c. py_strip c \<noteq> []) required) = Inr chk" and
    d: "mergeable_label pr = ''clean''" "all_success chk"
    by (simp add: merge_readiness_def Let_def decide_mergeable_ok del: filter_empty_conv split: sum.splits if_splits)
  from c d(2) show ?thesis
    using d(1) by (auto simp: checks_pass_def classify_required_checks_def bind_exc_Inr settle_success)
qed

lemma feature_merge_steps:
  "verify_feature_merge get snap repo n login head_sha token required =
    (case gate_guard token head_sha n of
       Some e \<Rightarrow> Inr (refuse e)
     | None \<Rightarrow> (case fetch_gate get repo n of
         Inl e \<Rightarrow> Inr (retry_later (''GitHub API error (transient): '' @ e))
       | Inr (reviews, pr) \<Rightarrow> (case check_approver_on_head reviews pr login (the head_sha) of
           Inl e \<Rightarrow> Inl e
         | Inr a \<Rightarrow> (if ok a
             then (case pr of
                 JObj p \<Rightarrow> (case live_head_of p (the head_sha) of
                   Inl e \<Rightarrow> Inl e | Inr h \<Rightarrow> Inr (merge_readiness get snap repo p h required))
               | _ \<Rightarrow> Inl (no_attr pr ''get''))
             else Inr a))))"
  by (simp add: verify_feature_merge_def bind_exc_def as_obj_def
      split: option.split sum.split prod.split json.split)

lemma feature_merge_ok:
  assumes "verify_feature_merge get snap repo n login head_sha token required = Inr c" "ok c"
  obtains reviews p head where "fetch_gate get repo n = Inr (reviews, JObj p)"
    "live_head_of p (the head_sha) = Inr head" "approved_on reviews login head"
    "ok (merge_readiness get snap repo p head required)"
proof -
  from assms obtain reviews pr a where f: "fetch_gate get repo n = Inr (reviews, pr)" and
    a: "check_approver_on_head reviews pr login (the head_sha) = Inr a" "ok a"
    by (auto simp: feature_merge_steps split: option.splits sum.splits prod.splits if_splits)
  from a obtain p head where "pr = JObj p" "live_head_of p (the head_sha) = Inr head"
    "approved_on reviews login head"
    by (rule check_approver_ok)
  with f a assms show thesis using that by (auto simp: feature_merge_steps split: option.splits)
qed

section \<open>Properties\<close>

text \<open>C5: a Feature PR merge is authorized only when all three conditions of the gate hold of what GitHub
  answered: the latest verdict of the expected approver among the PR's reviews is APPROVED and is
  on the live head (or names no commit), every configured required check is a success on that head,
  and the PR's mergeable state is clean.\<close>

theorem feature_merge_sound:
  assumes "verify_feature_merge get snap repo n login head_sha token required = Inr c" "ok c"
  shows "\<exists>reviews p head. get (api repo (''/pulls/'' @ dec n @ ''/reviews'')) = Inr reviews \<and>
      get (api repo (''/pulls/'' @ dec n)) = Inr (JObj p) \<and>
      live_head_of p (the head_sha) = Inr head \<and> approved_on reviews login head \<and>
      mergeable_label p = ''clean'' \<and> checks_pass get repo head required"
proof -
  from assms obtain reviews p head where
    f: "fetch_gate get repo n = Inr (reviews, JObj p)" and
    h: "live_head_of p (the head_sha) = Inr head" and ap: "approved_on reviews login head" and
    rest: "ok (merge_readiness get snap repo p head required)"
    by (rule feature_merge_ok)
  from merge_readiness_ok [OF rest] f h ap show ?thesis by (auto simp: fetch_gate_Inr)
qed

definition sample_get :: http where
  "sample_get url =
     (if url = api ''o/r'' ''/pulls/7/reviews'' then
        Inr (JArr [JObj [(''user'', JObj [(''login'', JStr ''Cl'')]), (''state'', JStr ''APPROVED''),
                         (''commit_id'', JStr ''abc'')]])
      else if url = api ''o/r'' ''/pulls/7'' then
        Inr (JObj [(''head'', JObj [(''sha'', JStr ''abc'')]), (''mergeable_state'', JStr ''clean'')])
      else Inl ''404'')"

lemma dec_7: "dec 7 = ''7''"
  by code_simp

lemma sample_merge_ok:
  "\<exists>c. verify_feature_merge sample_get (Inr None) ''o/r'' 7 ''cl'' (Some ''abc'') (Some ''t'') [] = Inr c \<and> ok c"
proof -
  have "py_lower ''Cl'' = ''cl''" "py_lower ''cl'' = ''cl''" "py_upper ''APPROVED'' = ''APPROVED''"
    "py_lower ''clean'' = ''clean''"
    by code_simp+
  then show ?thesis
    by (simp add: feature_merge_steps gate_guard_def fetch_gate_def sample_get_def api_def dec_7 bind_exc_def
      check_approver_on_head_def as_obj_def live_head_of_def sub_obj_def py_or_def py_str_def rev_user_def
      lower_field_def rev_state_def verdicts_def judge_review_ok Let_def merge_readiness_def
      decide_mergeable_ok mergeable_label_def)
qed

theorem feature_merge_sound_witness:
  "approved_on (JArr [JObj [(''user'', JObj [(''login'', JStr ''Cl'')]), (''state'', JStr ''APPROVED''),
     (''commit_id'', JStr ''abc'')]]) ''cl'' ''abc''"
proof -
  obtain c where "verify_feature_merge sample_get (Inr None) ''o/r'' 7 ''cl'' (Some ''abc'') (Some ''t'') [] = Inr c"
    "ok c"
    using sample_merge_ok by blast
  from feature_merge_sound [OF this] show ?thesis
    by (auto simp: sample_get_def api_def dec_7 live_head_of_def bind_exc_def sub_obj_def as_obj_def
      py_or_def py_str_def)
qed

text \<open>C22: a Design PR approval is accepted only when, of what GitHub answered, the latest verdict of the expected
  approver among the PR's reviews is APPROVED and is on the live head or names no commit; so a later
  change request or dismissal never passes, and an approval that names another commit than the live
  head never passes.  The live head is the one the PR answer carries; only where that answer has none
  is it the head of the delivery.\<close>

theorem design_approval_sound:
  assumes "verify_design_approval get repo n login head_sha token = Inr c" "ok c"
  shows "\<exists>reviews p head. get (api repo (''/pulls/'' @ dec n @ ''/reviews'')) = Inr reviews \<and>
      get (api repo (''/pulls/'' @ dec n)) = Inr (JObj p) \<and>
      live_head_of p (the head_sha) = Inr head \<and> approved_on reviews login head"
proof -
  from assms obtain reviews pr where f: "fetch_gate get repo n = Inr (reviews, pr)" and
    a: "check_approver_on_head reviews pr login (the head_sha) = Inr c"
    by (auto simp: verify_design_approval_def split: option.splits sum.splits prod.splits)
  from a assms(2) obtain p head where "pr = JObj p" "live_head_of p (the head_sha) = Inr head"
    "approved_on reviews login head"
    by (rule check_approver_ok)
  with f show ?thesis by (auto simp: fetch_gate_Inr)
qed

theorem design_approval_sound_witness:
  "\<exists>head. approved_on (JArr [JObj [(''user'', JObj [(''login'', JStr ''Cl'')]), (''state'', JStr ''APPROVED''),
     (''commit_id'', JStr ''abc'')]]) ''cl'' head"
proof -
  have "py_lower ''Cl'' = ''cl''" "py_lower ''cl'' = ''cl''" "py_upper ''APPROVED'' = ''APPROVED''"
    by code_simp+
  then have "\<exists>c. verify_design_approval sample_get ''o/r'' 7 ''cl'' (Some ''abc'') (Some ''t'') = Inr c \<and> ok c"
    by (simp add: verify_design_approval_def gate_guard_def fetch_gate_def sample_get_def api_def dec_7
      bind_exc_def check_approver_on_head_def as_obj_def live_head_of_def sub_obj_def py_or_def py_str_def
      rev_user_def lower_field_def rev_state_def verdicts_def judge_review_ok Let_def)
  then obtain c where "verify_design_approval sample_get ''o/r'' 7 ''cl'' (Some ''abc'') (Some ''t'') = Inr c" "ok c"
    by blast
  from design_approval_sound [OF this] show ?thesis by (auto simp: sample_get_def api_def dec_7)
qed

text \<open>The kinds of refusal.\<close>

definition one_verdict :: "approval_check \<Rightarrow> bool" where
  "one_verdict c \<longleftrightarrow> \<not> (ok c \<and> transient c) \<and> \<not> (ok c \<and> superseded c) \<and> \<not> (transient c \<and> superseded c)"

lemma one_verdict_simps [simp]:
  "one_verdict (refuse r)" "one_verdict (retry_later r)" "one_verdict (overtaken r)" "one_verdict (approve r)"
  by (simp_all add: one_verdict_def)

lemma decide_mergeable_kinds:
  "one_verdict (decide_mergeable ms w p a r snap) \<and> \<not> superseded (decide_mergeable ms w p a r snap)"
  by (simp add: decide_mergeable_def Let_def)

lemma merge_readiness_kinds:
  "one_verdict (merge_readiness get snap repo pr h required) \<and>
   \<not> superseded (merge_readiness get snap repo pr h required)"
  by (simp add: merge_readiness_def Let_def decide_mergeable_kinds split: sum.split)

lemma judge_review_kinds:
  "one_verdict (judge_review login head rv) \<and> \<not> transient (judge_review login head rv)"
  by (simp add: judge_review_def Let_def)

lemma judge_review_superseded:
  "superseded (judge_review login head rv) \<Longrightarrow> \<not> ok (judge_review login head rv)"
  by (auto simp: judge_review_def Let_def)

text \<open>A refusal of the merge gate is of one kind only, and a delivery is dropped as superseded only on
  evidence: the verdict never is both approved and retryable, approved and superseded, or
  retryable and superseded; and superseded means that the expected approver does have a verdict
  on the PR and the latest one is not an approval of the live head.\<close>

theorem merge_verdict_kinds:
  assumes "verify_feature_merge get snap repo n login head_sha token required = Inr c"
  shows "one_verdict c \<and> (superseded c \<longrightarrow>
    (\<exists>revs p head. get (api repo (''/pulls/'' @ dec n @ ''/reviews'')) = Inr (JArr revs) \<and>
      get (api repo (''/pulls/'' @ dec n)) = Inr (JObj p) \<and> live_head_of p (the head_sha) = Inr head \<and>
      verdicts_of revs (py_lower login) \<noteq> [] \<and> \<not> approved_on (JArr revs) login head))"
proof (cases "\<exists>reviews pr a. fetch_gate get repo n = Inr (reviews, pr) \<and>
    check_approver_on_head reviews pr login (the head_sha) = Inr a \<and> c = a \<and> \<not> ok a")
  case True
  then obtain reviews pr where f: "fetch_gate get repo n = Inr (reviews, pr)" and
    a: "check_approver_on_head reviews pr login (the head_sha) = Inr c" by blast
  from a show ?thesis
  proof (cases rule: check_approver_cases)
    case 1
    then show ?thesis by simp
  next
    case (2 p head revs rv)
    have "superseded c \<Longrightarrow> \<not> approved_on (JArr revs) login head"
      using 2 judge_review_superseded [of login head rv] by (simp add: judge_review_ok approved_on_def)
    with 2 f judge_review_kinds [of login head rv] show ?thesis by (auto simp: fetch_gate_Inr)
  qed
next
  case False
  with assms have "c = refuse (the (gate_guard token head_sha n)) \<or>
      (\<exists>e. c = retry_later e) \<or> (\<exists>p h. c = merge_readiness get snap repo p h required)"
    by (auto simp: feature_merge_steps split: option.splits sum.splits prod.splits json.splits if_splits)
  then show ?thesis using merge_readiness_kinds by auto
qed

theorem merge_verdict_kinds_witness:
  "\<exists>c. verify_feature_merge sample_get (Inr None) ''o/r'' 7 ''cl'' (Some ''abc'') (Some ''t'') [] = Inr c \<and>
     one_verdict c"
  using sample_merge_ok merge_verdict_kinds by blast

section \<open>Branch rules\<close>

record branch_rules =
  br_ok :: bool
  br_why :: string
  approving_count :: "int option"
  last_push :: "bool option"
  dismiss_stale :: "bool option"
  thread_resolution :: "bool option"
  has_checks :: bool

definition rules_refused :: "string \<Rightarrow> bool \<Rightarrow> branch_rules" where
  "rules_refused r checks = \<lparr>br_ok = False, br_why = r, approving_count = None, last_push = None,
     dismiss_stale = None, thread_resolution = None, has_checks = checks\<rparr>"

definition rule_type :: "json \<Rightarrow> string option" where
  "rule_type r = (case r of JObj d \<Rightarrow> Some (str_or_empty (dget d ''type'')) | _ \<Rightarrow> None)"

definition opt_bool :: "json \<Rightarrow> bool option" where
  "opt_bool j = (case j of JNull \<Rightarrow> None | _ \<Rightarrow> Some (truthy j))"

definition rule_params :: "json \<Rightarrow> dict" where
  "rule_params r = json_obj (py_or (dget (json_obj r) ''parameters'') (JObj []))"

definition rule_count :: "json \<Rightarrow> int" where
  "rule_count r =
     (case json_int (py_or (dget (rule_params r) ''required_approving_review_count'') (JNum 0)) of
        None \<Rightarrow> 0 | Some n \<Rightarrow> n)"

definition verify_branch_pull_request_rules ::
  "http \<Rightarrow> string \<Rightarrow> string \<Rightarrow> string option \<Rightarrow> int \<Rightarrow> branch_rules" where
  "verify_branch_pull_request_rules get repo branch token min_reviews =
     (if token = None \<or> token = Some [] then rules_refused ''no token for GitHub rules API'' False
      else if repo = [] \<or> branch = [] then rules_refused ''repo and branch required'' False
      else case get (api repo (''/rules/branches/'' @ branch)) of
        Inl e \<Rightarrow> rules_refused (''GitHub rules API error: '' @ e) False
      | Inr (JArr rules) \<Rightarrow>
          (let pr_rules = filter (\<lambda>r. rule_type r = Some ''pull_request'') rules;
               checks = list_ex (\<lambda>r. rule_type r = Some ''required_status_checks'') rules
           in if pr_rules = []
              then rules_refused (''no pull_request rule on '' @ repo @ ''@'' @ branch) checks
              else
                (let r = last pr_rules; ps = rule_params r; n = rule_count r;
                     lp = dget ps ''require_last_push_approval''
                 in \<lparr>br_ok = \<not> n < min_reviews,
                     br_why =
                       (if n < min_reviews
                        then ''required_approving_review_count='' @ dec n @ '' < '' @ dec min_reviews
                        else ''pull_request rule ok: required_approving_review_count='' @ dec n @
                          '' (>= '' @ dec min_reviews @ ''); require_last_push_approval='' @ py_repr lp @
                          ''; required_status_checks='' @ (if checks then ''yes'' else ''no'')),
                     approving_count = Some n, last_push = opt_bool lp,
                     dismiss_stale = opt_bool (dget ps ''dismiss_stale_reviews_on_push''),
                     thread_resolution = opt_bool (dget ps ''required_review_thread_resolution''),
                     has_checks = checks\<rparr>))
      | Inr j \<Rightarrow> rules_refused (''rules response is not a list: '' @ py_type j) False)"

text \<open>The ruleset assertion passes only when GitHub answered with a list of rules, one of them a
  pull-request rule demanding at least the required number of approving reviews; a missing rule, a
  count that is not a number and an API error all fail it.\<close>

theorem branch_rules_sound:
  assumes "br_ok (verify_branch_pull_request_rules get repo branch token n)"
  shows "\<exists>rules r. get (api repo (''/rules/branches/'' @ branch)) = Inr (JArr rules) \<and>
    r \<in> set rules \<and> rule_type r = Some ''pull_request'' \<and> n \<le> rule_count r \<and>
    approving_count (verify_branch_pull_request_rules get repo branch token n) = Some (rule_count r)"
proof -
  from assms obtain rules where g: "get (api repo (''/rules/branches/'' @ branch)) = Inr (JArr rules)"
    by (auto simp: verify_branch_pull_request_rules_def rules_refused_def split: if_splits sum.splits json.splits)
  let ?prs = "filter (\<lambda>r. rule_type r = Some ''pull_request'') rules"
  from assms g have ne: "?prs \<noteq> []" and c: "n \<le> rule_count (last ?prs)"
    "approving_count (verify_branch_pull_request_rules get repo branch token n) = Some (rule_count (last ?prs))"
    by (auto simp: verify_branch_pull_request_rules_def rules_refused_def Let_def split: if_splits)
  from last_in_set [OF ne] have "last ?prs \<in> set rules" "rule_type (last ?prs) = Some ''pull_request''"
    by auto
  with g c show ?thesis by blast
qed

definition sample_rules :: json where
  "sample_rules = JArr [JObj [(''type'', JStr ''pull_request''),
     (''parameters'', JObj [(''required_approving_review_count'', JNum 2)])]]"

theorem branch_rules_sound_witness:
  "\<exists>r. rule_type r = Some ''pull_request'' \<and> 1 \<le> rule_count r"
proof -
  have "br_ok (verify_branch_pull_request_rules (\<lambda>_. Inr sample_rules) ''o/r'' ''main'' (Some ''t'') 1)"
    by (simp add: verify_branch_pull_request_rules_def sample_rules_def rule_type_def rule_count_def
      rule_params_def py_or_def Let_def str_or_empty_def py_str_def)
  from branch_rules_sound [OF this] show ?thesis by blast
qed

end
