(* ===== verification/Verify_Block.thy ===== *)
theory Verify_Block
  imports Regex Json
begin

text \<open>
  The verification block of a session issue (\<open>agentd/src/agentd/verification.py\<close>): rendering between
  the sentinels, the checkbox line that classifies a close, and the edits the gateway makes to it.
  The block pattern (the two sentinels around a lazy \<open>.*?\<close> under DOTALL) is read as what it
  matches: the leftmost opening sentinel that a closing one follows, up to the first one.
\<close>

section \<open>Sentinels and lines\<close>

definition sentinel_open :: string where
  "sentinel_open = ''<!-- agentd:verification v1 -->''"

definition sentinel_close :: string where
  "sentinel_close = ''<!-- /agentd:verification -->''"

definition checkbox_unchecked :: string where
  "checkbox_unchecked = ''- [ ] Human Verification Complete''"

definition checkbox_checked :: string where
  "checkbox_checked = ''- [x] Human Verification Complete''"

definition box_line :: "bool \<Rightarrow> string" where
  "box_line checked = (if checked then checkbox_checked else checkbox_unchecked)"

definition ordering_line :: string where
  "ordering_line = ''*Tick this box before closing the issue '' @ [em_dash] @
     '' closing with it unticked records the session as `ABANDONED` ('' @ [section_sign] @ ''10.3).*''"

abbreviation nl :: string where "nl \<equiv> [newline]"

definition is_box_char :: "char \<Rightarrow> bool" where
  "is_box_char c \<longleftrightarrow> c = CHR '' '' \<or> c = CHR ''x'' \<or> c = CHR ''X''"

text \<open>The checkbox pattern after its line anchor.\<close>

definition checkbox_tail :: "rx_atom list" where
  "checkbox_tail =
    [Rep is_space 1 True None, Lit ''['', One is_box_char (Some ''box''), Lit '']'',
     Rep is_space 1 True None, Lit ''Human Verification Complete'', Rep is_space 0 True None, Eol]"

definition checkbox_re :: "rx_atom list" where
  "checkbox_re = Lit ''-'' # checkbox_tail"

section \<open>Rendering\<close>

text \<open>\<open>#n\<close> for what \<open>int\<close> accepts, the text itself otherwise.\<close>

definition pr_tag :: "json \<Rightarrow> string" where
  "pr_tag n =
     (case json_int n of
        Some i \<Rightarrow> CHR ''#'' # dec i
      | None \<Rightarrow> (if starts_with (py_str n) ''#'' then py_str n else CHR ''#'' # py_str n))"

definition present_prs :: "json list \<Rightarrow> json list" where
  "present_prs = filter (\<lambda>n. n \<noteq> JNull \<and> n \<noteq> JStr [])"

definition format_merged_prs :: "json list \<Rightarrow> string" where
  "format_merged_prs pr_nums =
     (let seen = rev (remdups (rev (map pr_tag (present_prs pr_nums)))) in
      if seen = [] then ''**Merged PRs:** _(none recorded)_''
      else ''**Merged PRs:** '' @ join '', '' seen)"

datatype not_covered = Nc_none | Nc_text string | Nc_list "string list"

definition none_listed :: string where
  "none_listed = ''**Not covered:** _(none listed '' @ [em_dash] @ '' Architect may refine)_''"

definition format_not_covered :: "not_covered \<Rightarrow> string" where
  "format_not_covered nc =
     (case nc of
        Nc_none \<Rightarrow> none_listed
      | Nc_text s \<Rightarrow>
          (let t = py_strip s in
           if t = [] then none_listed
           else if starts_with (py_lower t) ''**not covered:**'' then t
           else ''**Not covered:** '' @ t)
      | Nc_list xs \<Rightarrow>
          (case filter (\<lambda>l. l \<noteq> []) (map py_strip xs) of
             [] \<Rightarrow> none_listed
           | [l] \<Rightarrow> ''**Not covered:** '' @ l
           | ls \<Rightarrow> ''**Not covered:**'' @ nl @ join nl (map (\<lambda>l. ''- '' @ l) ls)))"

definition default_step_lines :: string where
  "default_step_lines =
     ''1. `git pull origin main`'' @ nl @
     ''2. Run the project's tests and smoke the merged change (see Feature PR).'' @ nl @
     ''3. Confirm the session issue goal is met.''"

text \<open>A leading number with its dot and white space is dropped from a step.\<close>

definition strip_number :: "string \<Rightarrow> string" where
  "strip_number s =
     (case match_at [Rep is_digit 1 True None, Lit ''.'', Rep is_space 0 True None] s of
        None \<Rightarrow> s | Some (_, rest) \<Rightarrow> rest)"

definition numbered :: "int \<times> string \<Rightarrow> string list" where
  "numbered x = (let s = py_strip (snd x) in
     if s = [] then [] else [dec (fst x) @ ''. '' @ strip_number s])"

fun enumerate_from :: "int \<Rightarrow> string list \<Rightarrow> (int \<times> string) list" where
  "enumerate_from i [] = []"
| "enumerate_from i (x # xs) = (i, x) # enumerate_from (i + 1) xs"

definition format_steps :: "string list \<Rightarrow> string" where
  "format_steps steps =
     (let out = concat (map numbered (enumerate_from 1 steps)) in
      if out = [] then default_step_lines else join nl out)"

definition render_verification_block :: "string list \<Rightarrow> json list \<Rightarrow> not_covered \<Rightarrow> bool \<Rightarrow> string" where
  "render_verification_block steps merged_prs nc checked =
     join nl [sentinel_open, ''## Verification Protocol'', [], format_steps steps, [],
       format_merged_prs merged_prs, format_not_covered nc, [], box_line checked, [],
       ordering_line, sentinel_close]"

section \<open>Reading\<close>

text \<open>The text before, the block, the text after.\<close>

definition split_block :: "string \<Rightarrow> (string \<times> string \<times> string) option" where
  "split_block body =
     (case find_sub sentinel_open body of
        None \<Rightarrow> None
      | Some (u, rest) \<Rightarrow>
          map_option (\<lambda>(mid, v). (u, sentinel_open @ mid @ sentinel_close, v)) (find_sub sentinel_close rest))"

definition extract_verification_block :: "string \<Rightarrow> string option" where
  "extract_verification_block body = map_option (\<lambda>(_, b, _). b) (split_block body)"

text \<open>The box character of the first checkbox line.\<close>

definition find_checkbox :: "string \<Rightarrow> string option" where
  "find_checkbox text = Option.bind (bol_search checkbox_re True text) (\<lambda>(_, _, caps, _). map_of caps ''box'')"

definition box_value :: "string option \<Rightarrow> bool option" where
  "box_value box = map_option (\<lambda>b. py_lower b = ''x'') box"

text \<open>
  Without \<open>strict\<close>, a body with no block is searched as it is.  (The source first returns None when
  neither the sentinel nor the start of a checkbox line nor the pattern occurs; the search gives
  None then too.)
\<close>

definition checkbox_is_checked :: "string \<Rightarrow> bool \<Rightarrow> bool option" where
  "checkbox_is_checked block_or_body strict =
     (case extract_verification_block block_or_body of
        None \<Rightarrow> if strict then None else box_value (find_checkbox block_or_body)
      | Some block \<Rightarrow> box_value (find_checkbox block))"

definition classify_at_close :: "string \<Rightarrow> string" where
  "classify_at_close body =
     (if checkbox_is_checked body True = Some True then ''VERIFIED'' else ''ABANDONED'')"

section \<open>Editing\<close>

definition neutralize_bare_verification_ticks :: "string \<Rightarrow> string" where
  "neutralize_bare_verification_ticks body =
     (if extract_verification_block body \<noteq> None then body
      else if bol_search checkbox_re True body = None then body
      else bol_sub checkbox_re checkbox_unchecked True body)"

text \<open>\<open>_CHECKBOX_RE.sub(line, block, count=1)\<close>, or the line inserted before the closing sentinel.\<close>

definition set_box_in_block :: "bool \<Rightarrow> string \<Rightarrow> string" where
  "set_box_in_block checked block =
     (case bol_search checkbox_re True block of
        Some (u, _, _, t) \<Rightarrow> u @ box_line checked @ t
      | None \<Rightarrow> replace_all sentinel_close
          (if \<not> contains ordering_line block
           then box_line checked @ nl @ nl @ ordering_line @ nl @ sentinel_close
           else box_line checked @ nl @ sentinel_close) block)"

definition set_checkbox_in_body :: "string \<Rightarrow> bool \<Rightarrow> string" where
  "set_checkbox_in_body body checked =
     (case extract_verification_block body of
        None \<Rightarrow> body
      | Some block \<Rightarrow> replace_first block (set_box_in_block checked block) body)"

definition sep_before_block :: "string \<Rightarrow> string" where
  "sep_before_block body =
     (if ends_with body (nl @ nl) then [] else if ends_with body nl then nl else nl @ nl)"

definition reinsert_verification_block :: "string \<Rightarrow> string \<Rightarrow> string" where
  "reinsert_verification_block body block =
     (if block = [] \<or> extract_verification_block body \<noteq> None then body
      else
        (let out = (if py_strip body \<noteq> [] then body @ sep_before_block body @ block else block)
         in if ends_with out nl then out else out @ nl))"

definition default_steps_for_session :: "json \<Rightarrow> json \<Rightarrow> string list" where
  "default_steps_for_session design_pr feature_pr =
     (let prs = map pr_tag (present_prs [design_pr, feature_pr]);
          phrase = (if prs = [] then ''the merged Design/Feature PRs'' else join '', '' prs)
      in [''`git pull origin main` '' @ [em_dash] @ '' confirm '' @ phrase @ '' are on `main`.'',
          ''Run the project's test suite / smoke checks for the merged change.'',
          ''Confirm the session issue goal is met in a running environment.''])"

text \<open>The two sentinels are located independently of each other.\<close>

definition upsert_verification_block ::
  "string \<Rightarrow> string list \<Rightarrow> json list \<Rightarrow> not_covered \<Rightarrow> bool option \<Rightarrow> bool \<Rightarrow> string" where
  "upsert_verification_block body steps merged_prs nc checked preserve_checkbox =
     (let existing = extract_verification_block body;
          box = (case checked of
                   Some c \<Rightarrow> c
                 | None \<Rightarrow> (case existing of
                     None \<Rightarrow> False
                   | Some b \<Rightarrow> preserve_checkbox \<and> checkbox_is_checked b False = Some True));
          new_block = render_verification_block steps merged_prs nc box
      in case existing of
           Some _ \<Rightarrow> take (the (index_of sentinel_open body)) body @ new_block @
             drop (the (index_of sentinel_close body) + length sentinel_close) body
         | None \<Rightarrow>
             if py_strip body \<noteq> [] then body @ sep_before_block body @ new_block @ nl
             else new_block @ nl)"

section \<open>The checkbox pattern\<close>

lemma match_ends_at_eol:
  "match_at (r @ [Eol]) s = Some (caps, t) \<Longrightarrow> t = [] \<or> hd t = newline"
proof (induction r arbitrary: s caps)
  case Nil
  then show ?case by (auto simp: match_at.simps(2) split: if_splits)
next
  case (Cons a r)
  then show ?case
    by (cases a) (auto simp: match_at.simps(2) dest!: first_some_SomeD split: if_splits list.splits option.splits)
qed

lemma checkbox_eol: "match_at checkbox_re s = Some (caps, t) \<Longrightarrow> t = [] \<or> hd t = newline"
  using match_ends_at_eol [of "butlast checkbox_re" s caps t] by (simp add: checkbox_re_def checkbox_tail_def)

lemma checkbox_stops: "stops checkbox_tail CHR ''-''" "stops checkbox_tail CHR ''<''"
  by (simp_all add: stops_def checkbox_tail_def is_space_def is_box_char_def)

lemma checkbox_hd: "match_at checkbox_re s = Some x \<Longrightarrow> \<exists>s'. s = CHR ''-'' # s'"
  unfolding checkbox_re_def by (rule match_Lit_hd)

lemma first_some_exists: "k \<in> set ks \<Longrightarrow> f k \<noteq> None \<Longrightarrow> first_some f ks \<noteq> None"
  by (induction ks) (auto split: option.split)

lemma match_trailing:
  assumes "t = [] \<or> hd t = newline"
  shows "\<exists>t'. match_at [Rep is_space 0 True None, Eol] t = Some ([], t')"
proof -
  have "0 \<in> set (counts is_space 0 True t)" by (simp add: counts_def)
  then have "match_at [Rep is_space 0 True None, Eol] t \<noteq> None"
    using assms unfolding match_at.simps(2) rx_atom.case by (intro first_some_exists) (auto simp: match_at.simps(2))
  then obtain caps t' where "match_at [Rep is_space 0 True None, Eol] t = Some (caps, t')" by auto
  moreover have "caps = []"
    using calculation by (auto simp: match_at.simps(2) dest!: first_some_SomeD split: if_splits)
  ultimately show ?thesis by blast
qed

text \<open>A rendered box line at the end of a line matches, and its box is the one rendered.\<close>

lemma match_box_line:
  assumes "t = [] \<or> hd t = newline"
  shows "\<exists>t'. match_at checkbox_re (box_line c @ t) = Some ([(''box'', if c then ''x'' else '' '')], t')"
proof -
  obtain t' where t': "match_at [Rep is_space 0 True None, Eol] t = Some ([], t')"
    using match_trailing [OF assms] by blast
  have "match_at (Lit ''Human Verification Complete'' # [Rep is_space 0 True None, Eol])
      (''Human Verification Complete'' @ t) = Some ([], t')"
    unfolding match_Lit by (rule t')
  then have m: "match_at (Rep is_space 1 True None # Lit ''Human Verification Complete'' # [Rep is_space 0 True None, Eol])
      ('' '' @ ''Human Verification Complete'' @ t) = Some ([], t')"
    by (subst match_Rep_longest) (auto simp: is_space_def)
  let ?b = "if c then CHR ''x'' else CHR '' ''"
  have m2: "match_at (Lit ''['' # One is_box_char (Some ''box'') # Lit '']'' # Rep is_space 1 True None #
        Lit ''Human Verification Complete'' # [Rep is_space 0 True None, Eol])
      (''['' @ ?b # '']'' @ '' '' @ ''Human Verification Complete'' @ t) = Some ([(''box'', [?b])], t')"
    using m by (simp add: match_at.simps(2) [of "Lit _"] match_at.simps(2) [of "One _ _"] is_box_char_def)
  have "match_at checkbox_tail ('' '' @ ''['' @ ?b # '']'' @ '' '' @ ''Human Verification Complete'' @ t) =
      Some ([(''box'', [?b])], t')"
    unfolding checkbox_tail_def by (subst match_Rep_longest [OF _ _ _ m2]) (auto simp: is_space_def)
  then show ?thesis
    by (cases c)
       (simp_all add: checkbox_re_def match_at.simps(2) [of "Lit _"] box_line_def checkbox_checked_def checkbox_unchecked_def)
qed

text \<open>The box a text shows when a rendered line stands at a line start behind a quiet prefix.\<close>

lemma find_box_line:
  assumes "quiet checkbox_re True b (box_line c @ t)" "bol_after True b" "t = [] \<or> hd t = newline"
  shows "box_value (find_checkbox (b @ box_line c @ t)) = Some c"
proof -
  obtain t' where "match_at checkbox_re (box_line c @ t) = Some ([(''box'', if c then ''x'' else '' '')], t')"
    using match_box_line [OF assms(3)] by blast
  from search_here [OF this] assms(1,2) have
    "find_checkbox (b @ box_line c @ t) = Some (if c then ''x'' else '' '')"
    by (simp add: find_checkbox_def quiet_search)
  moreover have "py_lower ''x'' = ''x''" "py_lower '' '' \<noteq> ''x''" by code_simp+
  ultimately show ?thesis by (simp add: box_value_def)
qed

lemma box_line_hd: "\<exists>x. box_line c = CHR ''-'' # x"
  by (simp add: box_line_def checkbox_checked_def checkbox_unchecked_def)

text \<open>What follows a quiet prefix may change, as long as it opens with a character that stops the match.\<close>

lemma quiet_dash:
  assumes "quiet checkbox_re bol b (e # x)" "e = CHR ''-'' \<or> e = CHR ''<''"
  shows "quiet checkbox_re bol b (box_line c @ t)"
proof -
  obtain y where "box_line c = CHR ''-'' # y" using box_line_hd by blast
  moreover have "stops checkbox_tail e" using assms(2) checkbox_stops by auto
  ultimately show ?thesis
    using assms(1) quiet_swap [OF checkbox_re_def _ checkbox_stops(1)] by (metis append_Cons)
qed

section \<open>Blocks in bodies\<close>

text \<open>A block interior: the closing sentinel first occurs right after it.\<close>

definition clean :: "string \<Rightarrow> bool" where
  "clean mid \<longleftrightarrow> find_sub sentinel_close (mid @ sentinel_close) = Some (mid, [])"

lemma split_blockE:
  assumes "split_block body = Some (u, blk, v)"
  obtains mid where "blk = sentinel_open @ mid @ sentinel_close" "body = u @ blk @ v" "clean mid"
    "find_sub sentinel_open body = Some (u, mid @ sentinel_close @ v)"
proof -
  from assms obtain rest mid where f: "find_sub sentinel_open body = Some (u, rest)"
    "find_sub sentinel_close rest = Some (mid, v)" "blk = sentinel_open @ mid @ sentinel_close"
    by (auto simp: split_block_def split: option.splits)
  note r = find_sub_split [OF f(1)] find_sub_split [OF f(2)]
  have "find_sub sentinel_close (mid @ sentinel_close @ []) = Some (mid, [])"
    by (rule find_sub_swap_tail) (use f r in simp)
  then have "clean mid" by (simp add: clean_def)
  with that f r show thesis by simp
qed

lemma split_block_swap:
  assumes "split_block body = Some (u, blk, v)" "clean mid"
  shows "split_block (u @ (sentinel_open @ mid @ sentinel_close) @ v) =
    Some (u, sentinel_open @ mid @ sentinel_close, v)"
proof -
  from assms(1) obtain m where "find_sub sentinel_open body = Some (u, m @ sentinel_close @ v)"
    "body = u @ sentinel_open @ (m @ sentinel_close @ v)"
    by (rule split_blockE) simp
  then have o: "find_sub sentinel_open (u @ sentinel_open @ (mid @ sentinel_close @ v)) =
      Some (u, mid @ sentinel_close @ v)"
    by (metis find_sub_swap_tail)
  have "find_sub sentinel_close (mid @ sentinel_close @ v) = Some (mid, v)"
    by (rule find_sub_swap_tail [of _ _ "[]"]) (use assms(2) in \<open>simp add: clean_def\<close>)
  with o show ?thesis by (simp add: split_block_def)
qed

lemma extract_Some: "extract_verification_block body = Some blk \<longleftrightarrow> (\<exists>u v. split_block body = Some (u, blk, v))"
  by (auto simp: extract_verification_block_def)

lemma extract_None: "extract_verification_block body = None \<longleftrightarrow> split_block body = None"
  by (simp add: extract_verification_block_def)

lemma replace_block:
  assumes "split_block body = Some (u, blk, v)"
  shows "replace_first blk new body = u @ new @ v"
proof -
  from assms obtain mid where m: "blk = sentinel_open @ mid @ sentinel_close" "body = u @ blk @ v"
    "find_sub sentinel_open body = Some (u, mid @ sentinel_close @ v)"
    by (rule split_blockE)
  have "find_sub blk (u @ blk @ v) = Some (u, v)"
  proof (rule find_subI)
    fix u' v'
    assume "u @ blk @ v = u' @ blk @ v'"
    then have "body = u' @ sentinel_open @ (mid @ sentinel_close @ v')" using m by simp
    then show "length u \<le> length u'" by (rule find_sub_least [OF m(3)])
  qed
  with m(2) show ?thesis by (simp add: replace_first_def)
qed

section \<open>Cleanness of edited interiors\<close>

lemma close_facts: "newline \<notin> set sentinel_close" "sentinel_close = CHR ''<'' # tl sentinel_close"
  "CHR ''<'' \<notin> set (tl sentinel_close)" "length sentinel_close = 29"
  by (simp_all add: sentinel_close_def)

lemma clean_iff: "clean Y \<longleftrightarrow> (\<forall>u v. Y @ sentinel_close = u @ sentinel_close @ v \<longrightarrow> length Y \<le> length u)"
proof
  assume "clean Y"
  then show "\<forall>u v. Y @ sentinel_close = u @ sentinel_close @ v \<longrightarrow> length Y \<le> length u"
    unfolding clean_def by (blast dest: find_sub_least)
next
  assume "\<forall>u v. Y @ sentinel_close = u @ sentinel_close @ v \<longrightarrow> length Y \<le> length u"
  then show "clean Y" using find_subI [of Y sentinel_close "[]"] by (simp add: clean_def)
qed

lemma clean_suffix: "clean (X @ Y) \<Longrightarrow> clean Y"
  unfolding clean_iff by (metis append.assoc length_append nat_add_left_cancel_le)

lemma clean_prefix: "clean (X @ Y) \<Longrightarrow> \<not> contains sentinel_close X"
proof
  assume c: "clean (X @ Y)" and "contains sentinel_close X"
  then obtain u v where x: "X = u @ sentinel_close @ v" by (auto simp: contains_iff)
  then have "(X @ Y) @ sentinel_close = u @ sentinel_close @ (v @ Y @ sentinel_close)" by simp
  with c have "length (X @ Y) \<le> length u" unfolding clean_iff by blast
  with x close_facts(4) show False by simp
qed

text \<open>
  Text without an opening angle bracket may be inserted where it cannot complete a closing sentinel
  begun before it.
\<close>

lemma clean_insert:
  assumes "\<not> contains sentinel_close X" "CHR ''<'' \<notin> set w" "clean Y"
    and straddle: "\<And>p1 p2 x v. sentinel_close = p1 @ p2 \<Longrightarrow> p1 \<noteq> [] \<Longrightarrow> p2 \<noteq> [] \<Longrightarrow> X = x @ p1 \<Longrightarrow>
      w @ Y @ sentinel_close = p2 @ v \<Longrightarrow> False"
  shows "clean (X @ w @ Y)"
  unfolding clean_iff
proof (intro allI impI)
  fix u v
  assume "(X @ w @ Y) @ sentinel_close = u @ sentinel_close @ v"
  then have "X @ (w @ Y @ sentinel_close) = u @ sentinel_close @ v" by simp
  then show "length (X @ w @ Y) \<le> length u"
  proof (cases rule: occurrence_cases)
    case (left z)
    with assms(1) show ?thesis by (auto simp: contains_iff)
  next
    case (straddle p1 p2)
    with assms(4) show ?thesis by blast
  next
    case (right z)
    from right(1) have "length w \<le> length z"
    proof -
      from right(1) have "(w @ (Y @ sentinel_close)) ! length z = CHR ''<''"
        using close_facts(2) by (metis append_Cons nth_append_length append.assoc)
      then show ?thesis
        using assms(2) by (metis linorder_not_le nth_append nth_mem)
    qed
    then have "z = w @ drop (length w) z"
      using right(1) by (metis append_eq_append_conv_if append_take_drop_id)
    with right(1) obtain z' where "z = w @ z'" "Y @ sentinel_close = z' @ sentinel_close @ v"
      by (metis append.assoc same_append_eq)
    with assms(3) right(2) show ?thesis unfolding clean_iff by auto
  qed
qed

lemma clean_insert_line:
  assumes "clean (X @ z)" "CHR ''<'' \<notin> set w" "clean Y" "X \<noteq> []" "last X = newline"
  shows "clean (X @ w @ Y)"
proof (rule clean_insert [OF clean_prefix [OF assms(1)] assms(2,3)])
  fix p1 p2 x v
  assume p: "sentinel_close = p1 @ p2" "p1 \<noteq> []" "X = x @ p1"
  then have "last p1 \<in> set sentinel_close" by (metis Un_iff last_in_set set_append)
  with p assms(5) close_facts(1) show False by simp
qed

lemma not_starts_with_nth: "k < length p \<Longrightarrow> k < length w \<Longrightarrow> w ! k \<noteq> p ! k \<Longrightarrow> w @ y \<noteq> p @ v"
  by (metis nth_append)

lemma box_line_no_straddle:
  "\<forall>i \<in> set [1..<29]. \<exists>k \<in> set [0..<31]. k < 29 - i \<and> box_line c ! k \<noteq> drop i sentinel_close ! k"
  by (cases c) (simp_all only: box_line_def if_True if_False, code_simp+)

lemma clean_nil: "clean []"
  by (simp add: clean_iff)

lemma length_box_line: "length (box_line c) = 33"
  by (simp add: box_line_def checkbox_checked_def checkbox_unchecked_def)

lemma no_angle: "CHR ''<'' \<notin> set (box_line c)" "CHR ''<'' \<notin> set ordering_line"
  by (simp_all add: box_line_def checkbox_checked_def checkbox_unchecked_def ordering_line_def em_dash_def
    section_sign_def)

lemma clean_append_line:
  assumes "clean X" "CHR ''<'' \<notin> set w"
  shows "clean (X @ box_line c @ w)"
proof -
  have "clean (X @ (box_line c @ w) @ [])"
  proof (rule clean_insert)
    show "\<not> contains sentinel_close X" using clean_prefix [of X "[]"] assms(1) by simp
    show "CHR ''<'' \<notin> set (box_line c @ w)" using no_angle assms(2) by simp
    show "clean []" by (rule clean_nil)
  next
    fix p1 p2 x v
    assume p: "sentinel_close = p1 @ p2" "p1 \<noteq> []" "p2 \<noteq> []"
      and e: "(box_line c @ w) @ [] @ sentinel_close = p2 @ v"
    have l: "length p1 + length p2 = 29" using p(1) close_facts(4) by (metis length_append)
    with p have "length p1 \<in> set [1..<29]" by (cases p1; cases p2) auto
    then obtain k where k: "k < 29 - length p1" "box_line c ! k \<noteq> drop (length p1) sentinel_close ! k"
      using box_line_no_straddle by blast
    moreover have "drop (length p1) sentinel_close = p2" using p(1) by (metis append_eq_conv_conj)
    ultimately have "box_line c @ (w @ sentinel_close) \<noteq> p2 @ v"
      using p(2) l by (intro not_starts_with_nth [of k]) (auto simp: length_box_line)
    with e show False by simp
  qed
  then show ?thesis by simp
qed

section \<open>Setting the box\<close>

lemma not_in_open: "newline \<notin> set sentinel_open" "sentinel_open \<noteq> []" "CHR ''-'' \<noteq> hd sentinel_open"
  by (simp_all add: sentinel_open_def)

text \<open>Where the checkbox line of a block can be.\<close>

lemma checkbox_in_block:
  assumes "bol_search checkbox_re True (sentinel_open @ mid @ sentinel_close) = Some (U, M, caps, T)"
  obtains b a where "U = sentinel_open @ b" "T = a @ sentinel_close" "mid = b @ M @ a" "b \<noteq> []"
    "last b = newline" "a \<noteq> []" "hd a = newline" "M \<noteq> []" "hd M = CHR ''-''"
proof -
  let ?s = "sentinel_open @ mid @ sentinel_close"
  from bol_search_split [OF assms] have s: "?s = U @ M @ T" and m: "match_at checkbox_re (M @ T) = Some (caps, T)"
    by auto
  have bol: "bol_after True U" using search_quiet [OF assms s] by simp
  from checkbox_hd [OF m] obtain s' where d: "M @ T = CHR ''-'' # s'" by blast
  have eol: "T = [] \<or> hd T = newline" by (rule checkbox_eol [OF m])
  have M: "M \<noteq> []" "hd M = CHR ''-''" using d eol by (auto simp: hd_append split: if_splits) (cases M; force)+
  have "U \<noteq> []"
    using s d not_in_open by (cases U) (auto simp: hd_append dest: arg_cong [of _ _ hd])
  with bol have U: "U \<noteq> []" "last U = newline" by (auto simp: bol_after_def)
  have "length sentinel_open < length U"
  proof (rule ccontr)
    assume "\<not> length sentinel_open < length U"
    with s have "U = take (length U) sentinel_open" by (metis append_eq_append_conv_if linorder_not_le take_all_iff
      order_less_imp_le nat_le_linear)
    with U not_in_open(1) show False by (metis in_set_takeD last_in_set)
  qed
  then obtain b where b: "U = sentinel_open @ b" "b \<noteq> []" "mid @ sentinel_close = b @ M @ T"
    using s by (metis append_Nil2 append_eq_append_conv_if append_take_drop_id less_not_refl same_append_eq
      order_less_imp_le append.assoc)
  have "last b = newline" using U b by simp
  have "length b \<le> length mid"
  proof (rule ccontr)
    assume "\<not> length b \<le> length mid"
    with b(3) obtain c where "b = mid @ c" "c \<noteq> []" "sentinel_close = c @ M @ T"
      by (metis append_eq_append_conv_if append_take_drop_id nat_le_linear same_append_eq append_Nil2 append.assoc)
    then have "newline \<in> set sentinel_close" using \<open>last b = newline\<close> by (metis UnCI last_appendR last_in_set set_append)
    with close_facts(1) show False by simp
  qed
  then obtain w where w: "mid = b @ w" "w @ sentinel_close = M @ T"
    using b(3) by (metis append_eq_append_conv_if append_take_drop_id append.assoc same_append_eq)
  obtain R where R: "\<forall>c x. stops checkbox_tail c \<longrightarrow>
      match_at checkbox_tail (tl w @ c # x) = map_option (\<lambda>(caps, t). (caps, t @ c # x)) R"
    using match_stop by blast
  have wne: "w \<noteq> []"
  proof
    assume "w = []"
    with w(2) d have "hd sentinel_close = CHR ''-''" by (metis append_Nil list.sel(1))
    then show False by (simp add: sentinel_close_def)
  qed
  then have "M @ T = CHR ''-'' # (tl w @ CHR ''<'' # tl sentinel_close)"
    using w(2) d close_facts(2) by (cases w) auto
  with m have "match_at checkbox_tail (tl w @ CHR ''<'' # tl sentinel_close) = Some (caps, T)"
    by (simp add: checkbox_re_def match_at.simps(2) [of "Lit _"])
  then have "map_option (\<lambda>(caps, t). (caps, t @ CHR ''<'' # tl sentinel_close)) R = Some (caps, T)"
    using R checkbox_stops(2) by simp
  then obtain a where "T = a @ CHR ''<'' # tl sentinel_close" by auto
  with close_facts(2) have a: "T = a @ sentinel_close" by metis
  have "a \<noteq> [] \<and> hd a = newline"
    using eol a by (cases a) (auto simp: sentinel_close_def)
  moreover have "w = M @ a" using w(2) a by simp
  ultimately show thesis using that a b w(1) M \<open>last b = newline\<close> by simp
qed

lemma find_close_in_block:
  assumes "clean mid"
  shows "find_sub sentinel_close (sentinel_open @ mid @ sentinel_close) = Some (sentinel_open @ mid, [])"
proof -
  have nc: "\<not> contains sentinel_close sentinel_open" by code_simp
  have ns: "\<forall>i \<in> set [1..<29]. drop (length sentinel_open - i) sentinel_open \<noteq> take i sentinel_close"
    by code_simp
  have "length (sentinel_open @ mid) \<le> length u"
    if e: "sentinel_open @ (mid @ sentinel_close) = u @ sentinel_close @ v" for u v
    using e
  proof (cases rule: occurrence_cases)
    case (left w)
    with nc show ?thesis by (auto simp: contains_iff)
  next
    case (right w)
    with assms show ?thesis unfolding clean_iff by auto
  next
    case (straddle p1 p2)
    have l: "length p1 + length p2 = 29" using straddle(1) close_facts(4) by (metis length_append)
    then have "length p1 \<in> set [1..<29]" using straddle(2,3) by (cases p1; cases p2) auto
    moreover have "drop (length sentinel_open - length p1) sentinel_open = p1" "take (length p1) sentinel_close = p1"
      using straddle(1,4) by (metis append_eq_conv_conj length_append add_diff_cancel_right')+
    ultimately show ?thesis using ns by metis
  qed
  then show ?thesis using find_subI [of "sentinel_open @ mid" sentinel_close "[]"] by simp
qed

lemma replace_all_at_end:
  "p \<noteq> [] \<Longrightarrow> find_sub p s = Some (u, []) \<Longrightarrow> replace_all p q s = u @ q"
  by (simp add: replace_all.simps [of p q s] replace_all.simps [of p q "[]"])

text \<open>The lines an insertion adds after the box line.\<close>

definition after_box :: "string \<Rightarrow> string" where
  "after_box block = (if \<not> contains ordering_line block then nl @ nl @ ordering_line @ nl else nl)"

lemma set_box_insert:
  assumes "clean mid" "bol_search checkbox_re True (sentinel_open @ mid @ sentinel_close) = None"
  shows "set_box_in_block c (sentinel_open @ mid @ sentinel_close) =
    sentinel_open @ (mid @ box_line c @ after_box (sentinel_open @ mid @ sentinel_close)) @ sentinel_close"
proof -
  have "sentinel_close \<noteq> []" by (simp add: sentinel_close_def)
  from replace_all_at_end [OF this find_close_in_block [OF assms(1)]] assms(2) show ?thesis
    by (simp add: set_box_in_block_def after_box_def)
qed

lemma after_box_facts: "CHR ''<'' \<notin> set (after_box block)" "after_box block \<noteq> []" "hd (after_box block) = newline"
  using no_angle by (simp_all add: after_box_def)

text \<open>An inserted line that does not start a line is not found, nor is anything after it.\<close>

lemma no_box_after:
  "bol_search checkbox_re False (box_line c @ after_box block @ sentinel_close) = None"
proof -
  have "bol_search checkbox_re False (box_line c @ (nl @ nl @ ordering_line @ nl) @ sentinel_close) = None" for c
    by (cases c) (simp_all only: box_line_def if_True if_False, code_simp+)
  moreover have "bol_search checkbox_re False (box_line c @ nl @ sentinel_close) = None" for c
    by (cases c) (simp_all only: box_line_def if_True if_False, code_simp+)
  ultimately show ?thesis by (simp add: after_box_def)
qed

definition ends_line :: "string \<Rightarrow> bool" where
  "ends_line s \<longleftrightarrow> s \<noteq> [] \<and> last s = newline"

lemma set_box_spec:
  assumes "clean mid"
  defines "block \<equiv> sentinel_open @ mid @ sentinel_close"
  shows "\<exists>mid'. set_box_in_block c block = sentinel_open @ mid' @ sentinel_close \<and> clean mid' \<and>
    box_value (find_checkbox (set_box_in_block c block)) =
      (if bol_search checkbox_re True block \<noteq> None \<or> ends_line mid then Some c else None)"
proof (cases "bol_search checkbox_re True block")
  case (Some x)
  then obtain U M caps T where S: "bol_search checkbox_re True (sentinel_open @ mid @ sentinel_close) = Some (U, M, caps, T)"
    unfolding block_def by (cases x) auto
  then obtain b a where p: "U = sentinel_open @ b" "T = a @ sentinel_close" "mid = b @ M @ a" "b \<noteq> []"
    "last b = newline" "a \<noteq> []" "hd a = newline" "M \<noteq> []" "hd M = CHR ''-''"
    by (rule checkbox_in_block)
  let ?new = "sentinel_open @ (b @ box_line c @ a) @ sentinel_close"
  have new: "set_box_in_block c block = ?new"
    using S p by (simp add: set_box_in_block_def block_def)
  have "clean (b @ box_line c @ a)"
    using assms(1) p no_angle(1) clean_suffix [of "b @ M" a] by (intro clean_insert_line) auto
  moreover have "quiet checkbox_re True U (CHR ''-'' # (tl M @ T))" "bol_after True U"
    using search_quiet [OF S, of "M @ T"] p by (cases M; simp)+
  then have "box_value (find_checkbox (U @ box_line c @ T)) = Some c"
    using p by (intro find_box_line quiet_dash) auto
  then have "box_value (find_checkbox ?new) = Some c" using p by simp
  ultimately show ?thesis using new Some by auto
next
  case None
  let ?t = "after_box block @ sentinel_close"
  let ?new = "sentinel_open @ (mid @ box_line c @ after_box block) @ sentinel_close"
  have new: "set_box_in_block c block = ?new"
    using set_box_insert [OF assms(1)] None by (simp add: block_def)
  have "clean (mid @ box_line c @ after_box block)"
    by (rule clean_append_line [OF assms(1) after_box_facts(1)])
  moreover have q: "quiet checkbox_re True (sentinel_open @ mid) (box_line c @ ?t)"
  proof (rule quiet_dash)
    show "quiet checkbox_re True (sentinel_open @ mid) (CHR ''<'' # tl sentinel_close)"
      using search_None_quiet [of checkbox_re True "sentinel_open @ mid" sentinel_close] None close_facts(2)
      by (simp add: block_def)
  qed simp
  have "box_value (find_checkbox ?new) = (if ends_line mid then Some c else None)"
  proof (cases "ends_line mid")
    case True
    then have "box_value (find_checkbox ((sentinel_open @ mid) @ box_line c @ ?t)) = Some c"
      using q after_box_facts by (intro find_box_line) (auto simp: bol_after_def ends_line_def hd_append)
    with True show ?thesis by simp
  next
    case False
    then have "\<not> bol_after True (sentinel_open @ mid)"
      using not_in_open(1,2) by (auto simp: bol_after_def ends_line_def last_append dest: last_in_set)
    then have "bol_search checkbox_re True ((sentinel_open @ mid) @ box_line c @ ?t) = None"
      using no_box_after by (simp add: quiet_search [OF q] del: append_assoc)
    with False show ?thesis by (simp add: find_checkbox_def box_value_def)
  qed
  ultimately show ?thesis using new None by auto
qed

section \<open>Bodies\<close>

lemma checkbox_has_box: "match_at checkbox_re s = Some (caps, t) \<Longrightarrow> \<exists>x. map_of caps ''box'' = Some x"
  unfolding checkbox_re_def checkbox_tail_def
  by (auto simp: match_at.simps(2) dest!: first_some_SomeD split: if_splits list.splits)

lemma find_checkbox_None: "find_checkbox s = None \<longleftrightarrow> bol_search checkbox_re True s = None"
proof (cases "bol_search checkbox_re True s")
  case (Some x)
  then obtain U M caps T where b: "bol_search checkbox_re True s = Some (U, M, caps, T)" by (cases x) auto
  with bol_search_split [OF b] checkbox_has_box show ?thesis by (fastforce simp: find_checkbox_def)
qed (simp add: find_checkbox_def)

lemma box_value_None [simp]: "box_value b = None \<longleftrightarrow> b = None"
  by (simp add: box_value_def)

lemma checked_strict:
  "split_block body = Some (u, blk, v) \<Longrightarrow> checkbox_is_checked body True = box_value (find_checkbox blk)"
  "split_block body = None \<Longrightarrow> checkbox_is_checked body True = None"
  by (simp_all add: checkbox_is_checked_def extract_verification_block_def)

lemma set_checkbox_spec:
  assumes "split_block body = Some (u, sentinel_open @ mid @ sentinel_close, v)"
  shows "\<exists>blk'. set_checkbox_in_body body c = u @ blk' @ v \<and>
    split_block (set_checkbox_in_body body c) = Some (u, blk', v) \<and>
    checkbox_is_checked (set_checkbox_in_body body c) True =
      (if checkbox_is_checked body True \<noteq> None \<or> ends_line mid then Some c else None)"
proof -
  let ?blk = "sentinel_open @ mid @ sentinel_close"
  from assms have "clean mid" by (auto elim: split_blockE)
  then obtain mid' where m: "set_box_in_block c ?blk = sentinel_open @ mid' @ sentinel_close" "clean mid'"
    "box_value (find_checkbox (set_box_in_block c ?blk)) =
      (if bol_search checkbox_re True ?blk \<noteq> None \<or> ends_line mid then Some c else None)"
    using set_box_spec [of mid c] by auto
  have s: "set_checkbox_in_body body c = u @ set_box_in_block c ?blk @ v"
    using assms by (simp add: set_checkbox_in_body_def extract_verification_block_def replace_block [OF assms])
  from split_block_swap [OF assms m(2)] s m(1)
  have sp: "split_block (set_checkbox_in_body body c) = Some (u, set_box_in_block c ?blk, v)" by simp
  have "checkbox_is_checked body True \<noteq> None \<longleftrightarrow> bol_search checkbox_re True ?blk \<noteq> None"
    by (simp only: checked_strict(1) [OF assms] box_value_None find_checkbox_None)
  with m(3) have "checkbox_is_checked (set_checkbox_in_body body c) True =
      (if checkbox_is_checked body True \<noteq> None \<or> ends_line mid then Some c else None)"
    by (simp only: checked_strict(1) [OF sp])
  with s sp show ?thesis by blast
qed

text \<open>C21: setting the verification box changes only the block and is read back: the text before and after
  the sentinels stays byte for byte, the sentinels still delimit the edited block, and the strict
  read returns the value set whenever the block had a checkbox line or its closing sentinel starts a
  line.  Only then: a block without the line whose closing sentinel stands in the middle of one gets
  a box that no reader finds.\<close>

theorem set_checkbox_reads_back:
  assumes "split_block body = Some (u, sentinel_open @ mid @ sentinel_close, v)"
  shows "(\<exists>blk'. set_checkbox_in_body body c = u @ blk' @ v \<and>
      split_block (set_checkbox_in_body body c) = Some (u, blk', v)) \<and>
    checkbox_is_checked (set_checkbox_in_body body c) True =
      (if checkbox_is_checked body True \<noteq> None \<or> ends_line mid then Some c else None)"
  using set_checkbox_spec [OF assms] by blast

text \<open>The one-line body whose restored box is lost.\<close>

definition one_line_body :: string where
  "one_line_body = ''see '' @ sentinel_open @ ''steps'' @ sentinel_close"

theorem set_checkbox_reads_back_witness:
  "checkbox_is_checked (set_checkbox_in_body one_line_body True) True = None"
proof -
  have s: "split_block one_line_body = Some (''see '', sentinel_open @ ''steps'' @ sentinel_close, [])"
    by code_simp
  have "checkbox_is_checked one_line_body True = None" by code_simp
  with set_checkbox_reads_back [OF s, of True] show ?thesis by (simp add: ends_line_def)
qed

text \<open>Lowering the box is final for classification: whatever the issue body holds, after the gateway
  sets its box to unchecked the close classifies as ABANDONED, never VERIFIED.\<close>

theorem lowered_box_abandons: "classify_at_close (set_checkbox_in_body body False) = ''ABANDONED''"
proof (cases "split_block body")
  case None
  then show ?thesis
    by (simp add: set_checkbox_in_body_def extract_None [THEN iffD2] classify_at_close_def checked_strict)
next
  case (Some x)
  then obtain u blk v where b: "split_block body = Some (u, blk, v)" by (cases x) auto
  then obtain mid where "blk = sentinel_open @ mid @ sentinel_close" by (rule split_blockE)
  with set_checkbox_spec [of body u mid v False] b show ?thesis
    by (auto simp: classify_at_close_def split: if_splits)
qed

section \<open>Bare ticks\<close>

lemma bol_sub_hd:
  "t = [] \<or> hd t = newline \<Longrightarrow> bol_sub checkbox_re l b t = [] \<or> hd (bol_sub checkbox_re l b t) = newline"
proof (cases "bol_search checkbox_re b t")
  case None
  then show "t = [] \<or> hd t = newline \<Longrightarrow> ?thesis" by (simp add: bol_sub.simps [of checkbox_re l b t])
next
  case (Some x)
  assume t: "t = [] \<or> hd t = newline"
  from Some obtain U M caps T where S: "bol_search checkbox_re b t = Some (U, M, caps, T)" by (cases x) auto
  from bol_search_split [OF S] have e: "t = U @ M @ T" "match_at checkbox_re (M @ T) = Some (caps, T)" by auto
  from checkbox_hd [OF e(2)] t e(1) have "U \<noteq> [] \<and> hd U = newline"
    by (cases U) auto
  with t S show ?thesis by (simp add: bol_sub.simps [of checkbox_re l b t])
qed

lemma match_nonempty:
  assumes "bol_search checkbox_re b t = Some (U, M, caps, T)"
  shows "M \<noteq> [] \<and> hd M = CHR ''-'' \<and> (T = [] \<or> hd T = newline) \<and> t = U @ M @ T"
proof -
  from bol_search_split [OF assms] have e: "t = U @ M @ T" "match_at checkbox_re (M @ T) = Some (caps, T)" by auto
  have "T = [] \<or> hd T = newline" by (rule checkbox_eol [OF e(2)])
  with checkbox_hd [OF e(2)] e(1) show ?thesis by (cases M) auto
qed

text \<open>An agent's bare tick outside the protocol block never counts: after the gateway neutralizes a
  body that has no block, the first checkbox line the lenient reader finds, if any, is unchecked, and
  a body without a checkbox line or with a block is returned unchanged.\<close>

theorem neutralized_reads_unchecked:
  assumes "extract_verification_block body = None"
  shows "(case bol_search checkbox_re True body of
      None \<Rightarrow> neutralize_bare_verification_ticks body = body \<and> find_checkbox body = None
    | Some _ \<Rightarrow> box_value (find_checkbox (neutralize_bare_verification_ticks body)) = Some False)"
proof (cases "bol_search checkbox_re True body")
  case None
  then show ?thesis using assms by (simp add: neutralize_bare_verification_ticks_def find_checkbox_None)
next
  case (Some x)
  then obtain U M caps T where S: "bol_search checkbox_re True body = Some (U, M, caps, T)" by (cases x) auto
  from match_nonempty [OF S] have m: "M \<noteq> []" "hd M = CHR ''-''" "T = [] \<or> hd T = newline" "body = U @ M @ T"
    by auto
  let ?rest = "bol_sub checkbox_re checkbox_unchecked (last M = newline) T"
  have n: "neutralize_bare_verification_ticks body = U @ box_line False @ ?rest"
    using assms S m(1) by (simp add: neutralize_bare_verification_ticks_def bol_sub.simps [of _ _ _ body] box_line_def)
  have "quiet checkbox_re True U (CHR ''-'' # (tl M @ T))" "bol_after True U"
    using search_quiet [OF S m(4)] m(1,2) by (cases M; simp)+
  then have "box_value (find_checkbox (U @ box_line False @ ?rest)) = Some False"
    using bol_sub_hd [OF m(3)] by (intro find_box_line quiet_dash) auto
  with n S show ?thesis by simp
qed

theorem neutralized_reads_unchecked_witness:
  "box_value (find_checkbox (neutralize_bare_verification_ticks (''x'' @ nl @ checkbox_checked))) = Some False"
proof -
  have "extract_verification_block (''x'' @ nl @ checkbox_checked) = None" by code_simp
  moreover have "bol_search checkbox_re True (''x'' @ nl @ checkbox_checked) \<noteq> None" by code_simp
  ultimately show ?thesis
    using neutralized_reads_unchecked [of "''x'' @ nl @ checkbox_checked"] by (auto split: option.splits)
qed

section \<open>Putting a block back\<close>

lemma ends_with_nl: "ends_with s nl \<longleftrightarrow> s \<noteq> [] \<and> last s = newline"
  by (cases s rule: rev_cases) (auto simp: ends_with_def)

lemma sep_ends_line: "py_strip body \<noteq> [] \<Longrightarrow> body @ sep_before_block body \<noteq> [] \<and> last (body @ sep_before_block body) = newline"
  by (cases body rule: rev_cases)
     (auto simp: sep_before_block_def ends_with_nl py_strip_def ends_with_def starts_with_iff)

text \<open>Behind text without an opening sentinel that ends a line, a block is found as it is.\<close>

lemma split_block_after:
  assumes "\<not> contains sentinel_open X" "X = [] \<or> last X = newline" "clean mid"
  shows "split_block (X @ (sentinel_open @ mid @ sentinel_close) @ v) =
    Some (X, sentinel_open @ mid @ sentinel_close, v)"
proof -
  have "find_sub sentinel_open (X @ sentinel_open @ (mid @ sentinel_close @ v)) =
      Some (X, mid @ sentinel_close @ v)"
  proof (rule find_subI)
    fix u w
    assume "X @ sentinel_open @ (mid @ sentinel_close @ v) = u @ sentinel_open @ w"
    then show "length X \<le> length u"
    proof (cases rule: occurrence_cases)
      case (left z)
      with assms(1) show ?thesis by (auto simp: contains_iff)
    next
      case (straddle p1 p2)
      then have "last X \<in> set sentinel_open" by (metis Un_iff last_appendR last_in_set set_append)
      with straddle assms(2) not_in_open(1) show ?thesis by auto
    qed simp
  qed
  moreover have "find_sub sentinel_close (mid @ sentinel_close @ v) = Some (mid, v)"
    by (rule find_sub_swap_tail [of _ _ "[]"]) (use assms(3) in \<open>simp add: clean_def\<close>)
  ultimately show ?thesis by (simp add: split_block_def)
qed

lemma no_open_no_block: "\<not> contains sentinel_open body \<Longrightarrow> split_block body = None"
  by (simp add: split_block_def find_sub_None [THEN iffD2])

text \<open>Appending the separator never completes a sentinel.\<close>

lemma no_open_in_joined:
  assumes "\<not> contains sentinel_open body"
  shows "\<not> contains sentinel_open (body @ sep_before_block body)"
proof
  assume "contains sentinel_open (body @ sep_before_block body)"
  then obtain x y where "body @ sep_before_block body = x @ sentinel_open @ y" by (auto simp: contains_iff)
  then show False
  proof (cases rule: occurrence_cases)
    case (left z)
    with assms show ?thesis by (auto simp: contains_iff)
  next
    case (right z)
    then have "set sentinel_open \<subseteq> set (sep_before_block body)" by auto
    then have "set sentinel_open \<subseteq> {newline}" by (auto simp: sep_before_block_def split: if_splits)
    then show ?thesis by (simp add: sentinel_open_def)
  next
    case (straddle p1 p2)
    then have "set p2 \<subseteq> set (sep_before_block body)" by auto
    then have "set p2 \<subseteq> {newline}" by (auto simp: sep_before_block_def split: if_splits)
    with straddle(3) have "newline \<in> set p2" by (cases p2) auto
    with straddle(1) not_in_open(1) show ?thesis by (metis Un_iff set_append)
  qed
qed

text \<open>A deleted block is put back as it was: when the agent's body holds no opening sentinel any more,
  the reinserted block is found again, unchanged, with the agent's prose in front of it, and the
  strict read returns the reading of that block.\<close>

theorem reinserted_block_found:
  assumes "\<not> contains sentinel_open body" "clean mid"
  shows "\<exists>pre post. split_block (reinsert_verification_block body (sentinel_open @ mid @ sentinel_close)) =
      Some (pre, sentinel_open @ mid @ sentinel_close, post) \<and>
    (py_strip body \<noteq> [] \<longrightarrow> starts_with pre body) \<and>
    checkbox_is_checked (reinsert_verification_block body (sentinel_open @ mid @ sentinel_close)) True =
      box_value (find_checkbox (sentinel_open @ mid @ sentinel_close))"
proof -
  let ?blk = "sentinel_open @ mid @ sentinel_close"
  have e: "extract_verification_block body = None"
    using assms(1) by (simp add: extract_None no_open_no_block)
  define pre where "pre = (if py_strip body \<noteq> [] then body @ sep_before_block body else [])"
  obtain post where r: "reinsert_verification_block body ?blk = pre @ ?blk @ post"
  proof -
    have "reinsert_verification_block body ?blk =
        (if ends_with (pre @ ?blk) nl then pre @ ?blk else (pre @ ?blk) @ nl)"
      using e not_in_open(2) by (simp add: reinsert_verification_block_def pre_def Let_def)
    then show thesis using that [of "[]"] that [of nl] by (simp split: if_splits)
  qed
  have "\<not> contains sentinel_open pre"
    using no_open_in_joined [OF assms(1)] not_in_open(2) by (simp add: pre_def)
  moreover have "pre = [] \<or> last pre = newline" using sep_ends_line by (auto simp: pre_def)
  ultimately have "split_block (reinsert_verification_block body ?blk) = Some (pre, ?blk, post)"
    using split_block_after [OF _ _ assms(2)] r by simp
  then show ?thesis by (auto simp: checked_strict pre_def)
qed

theorem reinserted_block_found_witness:
  "checkbox_is_checked (reinsert_verification_block ''hello'' (sentinel_open @ (nl @ checkbox_checked @ nl) @ sentinel_close)) True = Some True"
proof -
  have "\<not> contains sentinel_open ''hello''" "clean (nl @ checkbox_checked @ nl)"
    "box_value (find_checkbox (sentinel_open @ (nl @ checkbox_checked @ nl) @ sentinel_close)) = Some True"
    by code_simp+
  with reinserted_block_found [of "''hello''" "nl @ checkbox_checked @ nl"] show ?thesis by auto
qed

text \<open>
  An agent that deletes only the closing sentinel and ticks the line in what is left: the gateway sees
  a deleted block and puts the unticked one back behind it.
\<close>

definition orphan_tick :: string where
  "orphan_tick = sentinel_open @ nl @ checkbox_checked @ nl"

definition unticked_block :: string where
  "unticked_block = sentinel_open @ nl @ checkbox_unchecked @ nl @ sentinel_close"

text \<open>Putting the block back does not protect the box when the agent leaves an opening sentinel behind:
  the orphan sentinel and the agent's ticked line swallow the reinserted block, and the strict
  reader, which saw no block before the gateway's edit, reads a tick after it although the reinserted
  block is unticked.\<close>

theorem orphan_sentinel_forges_tick:
  "checkbox_is_checked orphan_tick True = None \<and> checkbox_is_checked unticked_block True = Some False \<and>
   checkbox_is_checked (reinsert_verification_block orphan_tick unticked_block) True = Some True \<and>
   classify_at_close (reinsert_verification_block orphan_tick unticked_block) = ''VERIFIED''"
proof -
  have "checkbox_is_checked orphan_tick True = None" by code_simp
  moreover have "checkbox_is_checked unticked_block True = Some False" by code_simp
  moreover have "checkbox_is_checked (reinsert_verification_block orphan_tick unticked_block) True = Some True"
    by code_simp
  ultimately show ?thesis by (simp add: classify_at_close_def)
qed

section \<open>The scaffold\<close>

text \<open>Text whose lines do not start with a dash is quiet.\<close>

fun dashless :: "bool \<Rightarrow> string \<Rightarrow> bool" where
  "dashless bol [] \<longleftrightarrow> True"
| "dashless bol (c # cs) \<longleftrightarrow> \<not> (bol \<and> c = CHR ''-'') \<and> dashless (c = newline) cs"

lemma dashless_append: "dashless bol (a @ b) \<longleftrightarrow> dashless bol a \<and> dashless (bol_after bol a) b"
  by (induction bol a rule: dashless.induct) auto

lemma dashless_word: "newline \<notin> set w \<Longrightarrow> dashless False w"
  by (induction w) auto

lemma dashless_quiet: "dashless bol b \<Longrightarrow> quiet checkbox_re bol b s"
proof (induction bol b rule: dashless.induct)
  case (2 bol c cs)
  then show ?case using checkbox_hd [of "c # cs @ s"] by (cases "match_at checkbox_re (c # cs @ s)") auto
qed simp

lemma clean_no_angle: "CHR ''<'' \<notin> set mid \<Longrightarrow> clean mid"
  using clean_insert [of "[]" mid "[]"] clean_nil by (simp add: sentinel_close_def)

text \<open>Everything of the block above the box line.\<close>

definition block_head :: "string list \<Rightarrow> json list \<Rightarrow> not_covered \<Rightarrow> string" where
  "block_head steps prs nc = nl @ ''## Verification Protocol'' @ nl @ nl @ format_steps steps @ nl @ nl @
     format_merged_prs prs @ nl @ format_not_covered nc @ nl @ nl"

definition block_tail :: string where
  "block_tail = nl @ nl @ ordering_line @ nl"

lemma render_split:
  "render_verification_block steps prs nc c =
    sentinel_open @ (block_head steps prs nc @ box_line c @ block_tail) @ sentinel_close"
  by (simp add: render_verification_block_def block_head_def block_tail_def)

lemma render_reads:
  assumes "dashless True (block_head steps prs nc)"
  shows "box_value (find_checkbox (render_verification_block steps prs nc c)) = Some c"
proof -
  have o: "dashless True sentinel_open" "\<not> bol_after True sentinel_open" by code_simp+
  have "dashless False (block_head steps prs nc)" using assms by (simp add: block_head_def)
  with o have "dashless True (sentinel_open @ block_head steps prs nc)" by (simp add: dashless_append)
  moreover have "bol_after True (sentinel_open @ block_head steps prs nc)"
    by (simp add: bol_after_def block_head_def)
  ultimately have "box_value (find_checkbox ((sentinel_open @ block_head steps prs nc) @ box_line c @
      (block_tail @ sentinel_close))) = Some c"
    by (intro find_box_line dashless_quiet) (simp_all add: block_tail_def)
  then show ?thesis by (simp add: render_split)
qed

text \<open>A tracked PR column: a number or nothing.\<close>

definition pr_number :: "json \<Rightarrow> bool" where
  "pr_number j \<longleftrightarrow> j = JNull \<or> (\<exists>n. j = JNum n)"

definition plain :: "string \<Rightarrow> bool" where
  "plain s \<longleftrightarrow> newline \<notin> set s \<and> CHR ''<'' \<notin> set s"

lemma plain_append [simp]: "plain (a @ b) \<longleftrightarrow> plain a \<and> plain b"
  by (auto simp: plain_def)

lemma plain_dec: "plain (dec n)"
  by (auto simp: plain_def is_digit_def dest!: dec_chars)

lemma plain_tags: "pr_number d \<Longrightarrow> pr_number f \<Longrightarrow> t \<in> set (map pr_tag (present_prs [d, f])) \<Longrightarrow> plain t"
  using plain_dec by (auto simp: pr_number_def present_prs_def pr_tag_def plain_def)

lemma plain_join: "\<forall>t \<in> set ts. plain t \<Longrightarrow> plain sep \<Longrightarrow> plain (join sep ts)"
  by (induction sep ts rule: join.induct) (auto simp: plain_def)

lemma plain_merged:
  assumes "pr_number d" "pr_number f"
  shows "plain (format_merged_prs (present_prs [d, f]))"
proof -
  let ?ts = "rev (remdups (rev (map pr_tag (present_prs (present_prs [d, f])))))"
  have "present_prs (present_prs [d, f]) = present_prs [d, f]" by (simp add: present_prs_def)
  then have "plain (join '', '' ?ts)"
    using plain_tags [OF assms] by (intro plain_join) (auto simp: plain_def)
  then show ?thesis by (simp add: format_merged_prs_def Let_def) (simp add: plain_def)
qed

lemma strip_keeps: "s \<noteq> [] \<Longrightarrow> \<not> is_space (hd s) \<Longrightarrow> \<not> is_space (last s) \<Longrightarrow> py_strip s = s"
proof -
  assume a: "s \<noteq> []" "\<not> is_space (hd s)" "\<not> is_space (last s)"
  then have "dropWhile is_space s = s" by (auto simp: dropWhile_eq_self_iff)
  moreover have "dropWhile is_space (rev s) = rev s"
    using a by (auto simp: dropWhile_eq_self_iff hd_rev)
  ultimately show ?thesis by (simp add: py_strip_def)
qed

lemma number_keeps: "s \<noteq> [] \<Longrightarrow> \<not> is_digit (hd s) \<Longrightarrow> strip_number s = s"
  by (cases s) (simp_all add: strip_number_def match_at.simps(2) counts_def)

lemma numbered_plain:
  "s \<noteq> [] \<Longrightarrow> \<not> is_space (hd s) \<Longrightarrow> \<not> is_space (last s) \<Longrightarrow> \<not> is_digit (hd s) \<Longrightarrow>
    numbered (i, s) = [dec i @ ''. '' @ s]"
  by (simp add: numbered_def Let_def strip_keeps number_keeps)

text \<open>The three numbered lines of the gateway's own scaffold.\<close>

lemma default_steps_formatted:
  assumes "pr_number d" "pr_number f"
  shows "\<exists>p. plain p \<and> format_steps (default_steps_for_session d f) =
    ''1. `git pull origin main` '' @ [em_dash] @ '' confirm '' @ p @ '' are on `main`.'' @ nl @
    ''2. Run the project's test suite / smoke checks for the merged change.'' @ nl @
    ''3. Confirm the session issue goal is met in a running environment.''"
proof -
  let ?ts = "map pr_tag (present_prs [d, f])"
  define p where "p = (if ?ts = [] then ''the merged Design/Feature PRs'' else join '', '' ?ts)"
  have "plain p"
    using plain_tags [OF assms] by (auto simp: p_def plain_def intro!: plain_join [unfolded plain_def])
  moreover have "dec 1 = ''1''" "dec 2 = ''2''" "dec 3 = ''3''" by code_simp+
  moreover have "default_steps_for_session d f =
      [''`git pull origin main` '' @ [em_dash] @ '' confirm '' @ p @ '' are on `main`.'',
       ''Run the project's test suite / smoke checks for the merged change.'',
       ''Confirm the session issue goal is met in a running environment.'']"
    by (simp add: default_steps_for_session_def p_def Let_def)
  ultimately show ?thesis
    by (intro exI [of _ p]) (simp add: format_steps_def numbered_plain is_space_def is_digit_def)
qed

lemma scaffold_head:
  assumes "pr_number d" "pr_number f"
  defines "h \<equiv> block_head (default_steps_for_session d f) (present_prs [d, f]) Nc_none"
  shows "dashless True h \<and> CHR ''<'' \<notin> set h"
proof -
  obtain p where p: "plain p" "format_steps (default_steps_for_session d f) =
    ''1. `git pull origin main` '' @ [em_dash] @ '' confirm '' @ p @ '' are on `main`.'' @ nl @
    ''2. Run the project's test suite / smoke checks for the merged change.'' @ nl @
    ''3. Confirm the session issue goal is met in a running environment.''"
    using default_steps_formatted [OF assms(1,2)] by blast
  obtain m where m: "format_merged_prs (present_prs [d, f]) = CHR ''*'' # m" "newline \<notin> set m" "CHR ''<'' \<notin> set m"
    using plain_merged [OF assms(1,2)] by (auto simp: format_merged_prs_def Let_def plain_def split: if_splits)
  have dl: "dashless False (w @ x) \<longleftrightarrow> dashless False x" if "newline \<notin> set w" for w x
    using that by (induction w) auto
  have "dashless True h"
    using p m by (simp add: h_def block_head_def plain_def dl format_not_covered_def none_listed_def em_dash_def)
  moreover have "CHR ''<'' \<notin> set h"
    using p m by (simp add: h_def block_head_def plain_def format_not_covered_def none_listed_def em_dash_def)
  ultimately show ?thesis by blast
qed

lemma scaffold_interior:
  assumes "pr_number d" "pr_number f"
  shows "clean (block_head (default_steps_for_session d f) (present_prs [d, f]) Nc_none @ box_line c @ block_tail)"
  using scaffold_head [OF assms] no_angle by (intro clean_no_angle) (auto simp: block_tail_def)

text \<open>The scaffold the gateway writes when a Feature PR merges.\<close>

definition scaffold :: "json \<Rightarrow> json \<Rightarrow> bool \<Rightarrow> string" where
  "scaffold d f c =
     render_verification_block (default_steps_for_session d f) (present_prs [d, f]) Nc_none c"

definition upsert_scaffold :: "string \<Rightarrow> json \<Rightarrow> json \<Rightarrow> string" where
  "upsert_scaffold body d f = upsert_verification_block body (default_steps_for_session d f)
     (present_prs [d, f]) Nc_none None True"

lemma scaffold_form:
  "scaffold d f c = sentinel_open @ (block_head (default_steps_for_session d f) (present_prs [d, f]) Nc_none
     @ box_line c @ block_tail) @ sentinel_close"
  by (simp add: scaffold_def render_split)

lemma scaffold_reads:
  "pr_number d \<Longrightarrow> pr_number f \<Longrightarrow> box_value (find_checkbox (scaffold d f c)) = Some c"
  unfolding scaffold_def by (rule render_reads) (simp add: scaffold_head)

lemma upsert_appends:
  assumes "\<not> contains sentinel_open body" "pr_number d" "pr_number f"
  shows "\<exists>pre. split_block (upsert_scaffold body d f) = Some (pre, scaffold d f False, nl)"
proof -
  have e: "extract_verification_block body = None"
    using assms(1) by (simp add: extract_None no_open_no_block)
  define pre where "pre = (if py_strip body \<noteq> [] then body @ sep_before_block body else [])"
  have u: "upsert_scaffold body d f = pre @ scaffold d f False @ nl"
    using e by (simp add: upsert_scaffold_def upsert_verification_block_def scaffold_def pre_def Let_def)
  have "\<not> contains sentinel_open pre"
    using no_open_in_joined [OF assms(1)] not_in_open(2) by (simp add: pre_def)
  moreover have "pre = [] \<or> last pre = newline" using sep_ends_line by (auto simp: pre_def)
  ultimately show ?thesis
    using split_block_after [OF _ _ scaffold_interior [OF assms(2,3)], of pre False nl] u
    by (auto simp: scaffold_form)
qed

text \<open>The scaffold written at the merge classifies: on an issue body without an opening sentinel it is
  appended with an unticked box, so a close then records ABANDONED, and once the box in it is ticked
  the close records VERIFIED.\<close>

theorem scaffold_classifies:
  assumes "\<not> contains sentinel_open body" "pr_number d" "pr_number f"
  shows "checkbox_is_checked (upsert_scaffold body d f) True = Some False \<and>
    classify_at_close (upsert_scaffold body d f) = ''ABANDONED'' \<and>
    classify_at_close (set_checkbox_in_body (upsert_scaffold body d f) True) = ''VERIFIED''"
proof -
  obtain pre where s: "split_block (upsert_scaffold body d f) = Some (pre, scaffold d f False, nl)"
    using upsert_appends [OF assms] by blast
  then have c: "checkbox_is_checked (upsert_scaffold body d f) True = Some False"
    using assms by (simp add: checked_strict scaffold_reads)
  with set_checkbox_spec [OF s [unfolded scaffold_form], of True] show ?thesis
    by (auto simp: classify_at_close_def)
qed

theorem scaffold_classifies_witness:
  "classify_at_close (set_checkbox_in_body (upsert_scaffold ''hello'' (JNum 3) JNull) True) = ''VERIFIED''"
proof -
  have "\<not> contains sentinel_open ''hello''" by code_simp
  with scaffold_classifies [of "''hello''" "JNum 3" JNull] show ?thesis by (simp add: pr_number_def)
qed

lemma block_of_block:
  assumes "clean mid"
  shows "split_block (sentinel_open @ mid @ sentinel_close) = Some ([], sentinel_open @ mid @ sentinel_close, [])"
  using split_block_after [of "[]" mid "[]"] assms not_in_open(2) by simp

lemma index_of_close:
  assumes "split_block body = Some (u, sentinel_open @ mid @ sentinel_close, v)"
    and "length u \<le> the (index_of sentinel_close body)"
  shows "index_of sentinel_close body = Some (length (u @ sentinel_open @ mid))"
proof -
  from assms(1) have b: "body = u @ (sentinel_open @ mid @ sentinel_close) @ v" "clean mid"
    by (auto elim: split_blockE)
  then have "body = (u @ sentinel_open @ mid) @ sentinel_close @ v" by simp
  then have "contains sentinel_close body" unfolding contains_iff by blast
  then obtain x y where f: "find_sub sentinel_close body = Some (x, y)"
    using find_sub_None [of sentinel_close body] by (cases "find_sub sentinel_close body") auto
  with assms(2) have "length u \<le> length x" by (simp add: index_of_def)
  moreover have "u @ (sentinel_open @ mid @ sentinel_close @ v) = x @ (sentinel_close @ y)"
    using find_sub_split [OF f] b(1) by simp
  ultimately obtain x' where x: "x = u @ x'"
    "sentinel_open @ mid @ sentinel_close @ v = x' @ sentinel_close @ y"
    using append_longer by blast
  have "find_sub sentinel_close (sentinel_open @ mid @ sentinel_close @ v) = Some (sentinel_open @ mid, v)"
    using find_sub_swap_tail [of sentinel_close "sentinel_open @ mid" "[]" v] find_close_in_block [OF b(2)] by simp
  from find_sub_least [OF this x(2)] have "length (u @ sentinel_open @ mid) \<le> length x" using x(1) by simp
  moreover have "length x \<le> length (u @ sentinel_open @ mid)"
    by (rule find_sub_least [OF f, of _ v]) (use b in simp)
  ultimately show ?thesis using f by (simp add: index_of_def)
qed

text \<open>C25: refreshing the scaffold keeps the owner's tick and the prose: on a body whose block's closing
  sentinel is the first one, the text before and after the sentinels is unchanged, and the new
  block's box reads ticked exactly when the old one did.\<close>

theorem scaffold_refresh_keeps_tick:
  assumes "split_block body = Some (u, sentinel_open @ mid @ sentinel_close, v)"
    and "length u \<le> the (index_of sentinel_close body)" "pr_number d" "pr_number f"
  shows "\<exists>blk. upsert_scaffold body d f = u @ blk @ v \<and>
    checkbox_is_checked (upsert_scaffold body d f) True = Some (checkbox_is_checked body True = Some True)"
proof -
  let ?c = "checkbox_is_checked body True = Some True"
  from assms(1) have b: "body = u @ (sentinel_open @ mid @ sentinel_close) @ v" "clean mid"
    and o: "find_sub sentinel_open body = Some (u, mid @ sentinel_close @ v)"
    by (auto elim: split_blockE)
  have "checkbox_is_checked (sentinel_open @ mid @ sentinel_close) False = checkbox_is_checked body True"
    using checked_strict(1) [OF assms(1)] block_of_block [OF b(2)]
    by (simp add: checkbox_is_checked_def extract_verification_block_def)
  moreover have "take (the (index_of sentinel_open body)) body = u"
    using o b(1) by (simp add: index_of_def)
  moreover have "drop (the (index_of sentinel_close body) + length sentinel_close) body = v"
    unfolding index_of_close [OF assms(1,2)] using b(1) by simp
  moreover have "extract_verification_block body = Some (sentinel_open @ mid @ sentinel_close)"
    using assms(1) by (simp add: extract_verification_block_def)
  ultimately have u: "upsert_scaffold body d f = u @ scaffold d f ?c @ v"
    by (simp add: upsert_scaffold_def upsert_verification_block_def scaffold_def Let_def del: append_assoc)
  have "split_block (upsert_scaffold body d f) = Some (u, scaffold d f ?c, v)"
    using split_block_swap [OF assms(1) scaffold_interior [OF assms(3,4)]] u by (simp add: scaffold_form)
  then show ?thesis using u assms(3,4) by (auto simp: checked_strict scaffold_reads)
qed

theorem scaffold_refresh_keeps_tick_witness:
  "checkbox_is_checked (upsert_scaffold (''a'' @ sentinel_open @ (nl @ checkbox_checked @ nl) @ sentinel_close) (JNum 3) JNull) True
     = Some True"
proof -
  let ?b = "''a'' @ sentinel_open @ (nl @ checkbox_checked @ nl) @ sentinel_close"
  have "split_block ?b = Some (''a'', sentinel_open @ (nl @ checkbox_checked @ nl) @ sentinel_close, [])"
    by code_simp
  moreover have "length ''a'' \<le> the (index_of sentinel_close ?b)" by code_simp
  moreover have "checkbox_is_checked ?b True = Some True" by code_simp
  ultimately show ?thesis
    using scaffold_refresh_keeps_tick [of ?b "''a''" "nl @ checkbox_checked @ nl" "[]" "JNum 3" JNull]
    by (simp add: pr_number_def)
qed

text \<open>With a closing sentinel quoted in the prose before the block, the refresh does not replace the
  block: the old block, with its old box, stays behind the new one and the prose between is doubled.\<close>

theorem stray_close_duplicates:
  "upsert_verification_block (sentinel_close @ ''q'' @ unticked_block) steps prs nc checked keep =
    (let box = (case checked of None \<Rightarrow> False | Some c \<Rightarrow> c) in
     sentinel_close @ ''q'' @ render_verification_block steps prs nc box @ ''q'' @ unticked_block)"
proof -
  let ?b = "sentinel_close @ ''q'' @ unticked_block"
  have "extract_verification_block ?b = Some unticked_block" by code_simp
  moreover have "index_of sentinel_open ?b = Some 30" by code_simp
  moreover have "index_of sentinel_close ?b = Some 0" by code_simp
  moreover have "take 30 ?b = sentinel_close @ ''q''" by code_simp
  moreover have "drop (0 + length sentinel_close) ?b = ''q'' @ unticked_block" by code_simp
  moreover have "checkbox_is_checked unticked_block False = Some False" by code_simp
  ultimately show ?thesis
    by (cases checked) (simp_all only: upsert_verification_block_def Let_def option.case option.sel
      option.inject simp_thms append_assoc)
qed

text \<open>Lowering and raising the box of a rendered block is not the inverse of rendering: the pattern's
  trailing white space swallows the blank line after the checkbox, so the edited block differs from
  the block rendered with that box although only the box was to change.\<close>

theorem set_box_eats_blank_line:
  "\<exists>head. unticked_block = head @ nl @ sentinel_close \<and>
    set_checkbox_in_body (head @ nl @ nl @ sentinel_close) False = head @ nl @ sentinel_close"
proof (rule exI [of _ "sentinel_open @ nl @ checkbox_unchecked"], rule conjI)
  show "unticked_block = (sentinel_open @ nl @ checkbox_unchecked) @ nl @ sentinel_close"
    by (simp add: unticked_block_def)
  show "set_checkbox_in_body ((sentinel_open @ nl @ checkbox_unchecked) @ nl @ nl @ sentinel_close) False =
      (sentinel_open @ nl @ checkbox_unchecked) @ nl @ sentinel_close"
    by code_simp
qed

end
