(* ===== verification/Supervisor.thy ===== *)
theory Supervisor
  imports Store_Facts Config Gitops_Names Regex
begin

text \<open>
  The session supervisor (\<open>agentd/src/agentd/supervisor.py\<close>): admission, adoption, promotion and
  creation of a project's runner container, with every store write in the source's order.  What
  docker, git and the runner answer during one \<open>ensure_session\<close> call is the record \<open>host\<close>; the
  checks made on those answers are definitions.
\<close>

datatype sup_exn = Capacity_refusal string | Structural_refusal string | Other_error string

type_synonym 'a sup = "store \<times> (sup_exn + 'a)"

record handle =
  hd_key :: string
  hd_project :: string
  hd_container :: string
  hd_port :: int
  hd_bearer :: string
  hd_endpoint :: string
  hd_tier :: string

record host =
  h_inspect :: "string \<Rightarrow> int \<times> string"
  h_layout :: "sup_exn option"
  h_image :: string
  h_image_present :: bool
  h_ping :: "string \<Rightarrow> string + json"
  h_worktree :: "string \<Rightarrow> string \<Rightarrow> string option"
  h_tokens :: "string option"
  h_start :: "string \<Rightarrow> string + int"
  h_resume :: "string option"
  h_create :: "string + string"
  h_mounts :: "json list"
  h_env :: "string list"
  h_bearer_probe :: "string \<Rightarrow> int \<times> string"
  h_srv_probe :: "string \<times> string"
  h_port :: "string + int"
  h_init :: "string option"
  h_new_bearer :: string

definition and_then :: "'a sup \<Rightarrow> ('a \<Rightarrow> store \<Rightarrow> 'b sup) \<Rightarrow> 'b sup" where
  "and_then m f = (case m of (s, Inl e) \<Rightarrow> (s, Inl e) | (s, Inr x) \<Rightarrow> f x s)"

lemma and_then_simps [simp]:
  "and_then (s, Inr x) f = f x s" "and_then (s, Inl e) f = (s, Inl e)"
  by (simp_all add: and_then_def)

text \<open>The first failing check, in order.\<close>

fun first_error :: "sup_exn option list \<Rightarrow> sup_exn option" where
  "first_error [] = None"
| "first_error (None # es) = first_error es"
| "first_error (Some e # es) = Some e"

definition checked :: "sup_exn option \<Rightarrow> 'a \<Rightarrow> store \<Rightarrow> 'a sup" where
  "checked e x st = (st, case e of None \<Rightarrow> Inr x | Some err \<Rightarrow> Inl err)"

section \<open>Checks on a container\<close>

definition container_name :: "string \<Rightarrow> string" where
  "container_name project_key = ''agentd-'' @ map (\<lambda>c. if c = CHR ''/'' then CHR ''-'' else c) project_key"

definition mount_ok :: "json \<Rightarrow> bool" where
  "mount_ok m \<longleftrightarrow> \<not> contains ''docker.sock'' (str_or_empty (dget (json_obj m) ''Source'')) \<and>
     \<not> contains ''docker.sock'' (str_or_empty (dget (json_obj m) ''Destination''))"

definition assert_no_docker_sock_mount :: "string \<Rightarrow> json list \<Rightarrow> sup_exn option" where
  "assert_no_docker_sock_mount cid mounts =
     map_option (\<lambda>m. Structural_refusal (''FORBIDDEN: docker.sock mount on container '' @ cid @ '': '' @ py_repr m))
       (find (\<lambda>m. \<not> mount_ok m) mounts)"

definition env_allowlist :: "string list" where
  "env_allowlist = [''PATH'', ''HOSTNAME'', ''HOME'', ''TERM'', ''LANG'', ''LC_ALL'', ''DEBIAN_FRONTEND'',
     ''AGENTD_RPC_HOST'', ''AGENTD_RPC_PORT'', ''AGENTD_HOST_ROOT'', ''AGENTD_PROJECT_ROOT'',
     ''AGENTD_SESSION_DIR'', ''AGENTD_GITHUB_API_BASE'', ''AGENTD_ADAPTER'']"

definition secret_stems :: "string list" where
  "secret_stems = [''token'', ''secret'', ''password'', ''bearer'', ''credential'', ''api_key'', ''apikey'',
     ''oauth'']"

definition secret_keys :: "string list" where
  "secret_keys = [''CLAUDE_CODE_OAUTH_TOKEN'', ''ANTHROPIC_API_KEY'', ''ANTHROPIC_AUTH_TOKEN'',
     ''XAI_API_KEY'', ''AGENTD_RUNNER_BEARER'', ''GH_TOKEN'', ''GITHUB_TOKEN'']"

definition env_key :: "string \<Rightarrow> string" where
  "env_key entry = (case partition_at CHR ''='' entry of (k, _, _) \<Rightarrow> k)"

definition env_forbidden :: "string \<Rightarrow> bool" where
  "env_forbidden k \<longleftrightarrow> k \<notin> set env_allowlist \<and>
     \<not> (starts_with k ''GPG_'' \<or> k \<in> {''PWD'', ''SHLVL'', ''_''}) \<and>
     ((\<exists>part \<in> set secret_stems. contains part (py_lower k)) \<or> k \<in> set secret_keys)"

definition assert_no_secrets_in_inspect_env :: "string \<Rightarrow> string list \<Rightarrow> sup_exn option" where
  "assert_no_secrets_in_inspect_env cid env_list =
     (let forbidden = filter env_forbidden (map env_key env_list) in
      if forbidden = [] then None
      else Some (Structural_refusal
        (''FORBIDDEN: secret or credential-shaped env in docker inspect on '' @ cid @ '': '' @
         py_repr (JArr (map JStr (sort (remdups forbidden)))))))"

text \<open>The probe runs as each role; an unreadable bearer makes it exit with 1.\<close>

definition bearer_readable :: "int \<times> string \<Rightarrow> bool" where
  "bearer_readable r \<longleftrightarrow> contains ''READABLE'' (snd r) \<or> fst r = 0"

definition assert_bearer_not_readable_by_roles :: "string \<Rightarrow> (string \<Rightarrow> int \<times> string) \<Rightarrow> sup_exn option" where
  "assert_bearer_not_readable_by_roles cid probe =
     map_option (\<lambda>(uid, label). Structural_refusal
         (''FORBIDDEN: RPC bearer readable as '' @ label @ '' ('' @ uid @ '') on '' @ cid))
       (find (\<lambda>(uid, _). bearer_readable (probe uid)) [(''1001:1001'', ''architect''), (''1002:1002'', ''developer'')])"

text \<open>The stripped, non-empty lines of \<open>out.splitlines()\<close>.\<close>

definition listed_paths :: "string \<Rightarrow> string list" where
  "listed_paths out = filter (\<lambda>l. l \<noteq> []) (map py_strip (splitlines False [] out))"

definition assert_host_secrets_not_mounted :: "string \<times> string \<Rightarrow> sup_exn option" where
  "assert_host_secrets_not_mounted r =
     (let out = fst r @ snd r in
      if contains ''VISIBLE:'' out
      then Some (Structural_refusal (''FORBIDDEN: host secrets visible in container: '' @ repr_str out))
      else map_option (\<lambda>name. Structural_refusal
          (''FORBIDDEN: unexpected path under /srv/agentd: '' @ repr_str name @ '' (full='' @ repr_str out @
           ''). Remove stray paths under the project tree so only repo/, sessions/, home/ remain; '' @
           ''then reply on the issue.''))
        (find (\<lambda>name. name \<notin> {''repo'', ''sessions'', ''home''}) (listed_paths (fst r))))"

definition assert_worktree_usable :: "host \<Rightarrow> string \<Rightarrow> string \<Rightarrow> sup_exn option" where
  "assert_worktree_usable H cid role =
     map_option (\<lambda>e. Other_error (''worktree unusable in container for '' @ role @ '': '' @ e)) (h_worktree H cid role)"

text \<open>\<open>None, None\<close> of the source is None.\<close>

definition inspect_running_and_image :: "int \<times> string \<Rightarrow> (bool \<times> string option) option" where
  "inspect_running_and_image r =
     (if fst r \<noteq> 0 then None
      else (case partition_at CHR 0x09 (py_strip (snd r)) of
        (running_s, sep, img) \<Rightarrow>
          if \<not> sep then None
          else Some (py_lower running_s = ''true'', if img = [] then None else Some img)))"

definition endpoint_of :: "int \<Rightarrow> string" where
  "endpoint_of port = ''127.0.0.1:'' @ dec port"

section \<open>Ledger and rows\<close>

text \<open>The six layout artifacts of a session, in the order they are registered.\<close>

definition layout_artifacts :: "string \<Rightarrow> string \<Rightarrow> int \<Rightarrow> (string \<times> string \<times> string) list" where
  "layout_artifacts root repo issue_num =
     concat (map (\<lambda>role.
         let base = project_path root repo @ ''/'' @ issue_session_rel issue_num @ ''/'' @ role in
         [(role, ''worktree'', base @ ''/worktrees/issue-'' @ dec issue_num),
          (role, ''branch'', role_branch_name repo issue_num role),
          (role, ''scratch'', base @ ''/scratch'')])
       [''architect'', ''developer''])"

fun register_all :: "int \<Rightarrow> string \<Rightarrow> (string \<times> string \<times> string) list \<Rightarrow> store \<Rightarrow> unit sup" where
  "register_all now k [] st = (st, Inr ())"
| "register_all now k ((role, kind, ref) # xs) st =
     (case register_artifact now k role kind ref None st of
        (st', Inl _) \<Rightarrow> (st', Inl (Other_error ''register_artifact''))
      | (st', Inr _) \<Rightarrow> register_all now k xs st')"

record ensure_args =
  en_key :: string
  en_repo :: string
  en_issue :: int
  en_project :: string
  en_architect :: string
  en_developer :: string
  en_root :: string

definition intake_args :: "int \<Rightarrow> ensure_args \<Rightarrow> session_args" where
  "intake_args now a = \<lparr>sa_key = en_key a, sa_repo = en_repo a, sa_issue = en_issue a, sa_state = INTAKE,
     sa_architect = en_architect a, sa_developer = en_developer a, sa_created = now, sa_updated = now,
     sa_project = Some (en_project a), sa_paused = None, sa_locked = None, sa_design_pr = None,
     sa_turns = None, sa_consec = None, sa_rounds = None, sa_fp = None, sa_fp_repeat = None,
     sa_zero_threads = None\<rparr>"

definition register_layout :: "int \<Rightarrow> ensure_args \<Rightarrow> store \<Rightarrow> unit sup" where
  "register_layout now a =
     register_all now (en_key a) (layout_artifacts (en_root a) (en_repo a) (en_issue a))"

definition mk_handle :: "ensure_args \<Rightarrow> string \<Rightarrow> int \<Rightarrow> string \<Rightarrow> string \<Rightarrow> handle" where
  "mk_handle a cid port bearer tier = \<lparr>hd_key = en_key a, hd_project = en_project a, hd_container = cid,
     hd_port = port, hd_bearer = bearer, hd_endpoint = endpoint_of port, hd_tier = tier\<rparr>"

definition opt_string :: "string option \<Rightarrow> string" where
  "opt_string x = (case x of None \<Rightarrow> ''None'' | Some s \<Rightarrow> s)"

text \<open>\<open>_handle_from_runner\<close>: the port is the text after the endpoint's first colon.\<close>

definition handle_from_runner :: "ensure_args \<Rightarrow> runner_row \<Rightarrow> handle option" where
  "handle_from_runner a r =
     (case partition_at CHR '':'' (opt_string (r_endpoint r)) of
        (_, _, port_s) \<Rightarrow> map_option (\<lambda>port. \<lparr>hd_key = en_key a, hd_project = en_project a,
            hd_container = opt_string (r_container r), hd_port = port, hd_bearer = opt_string (r_token r),
            hd_endpoint = opt_string (r_endpoint r),
            hd_tier = (if r_tier r = [] then ''hot'' else r_tier r)\<rparr>) (py_int port_s))"

text \<open>Session row, ledger and runner row of an adopted or created runner.\<close>

definition attach_session :: "int \<Rightarrow> ensure_args \<Rightarrow> handle \<Rightarrow> store \<Rightarrow> handle sup" where
  "attach_session now a h st =
     and_then (register_layout now a (upsert_session (intake_args now a) st))
       (\<lambda>_ s. (upsert_runner now (en_project a) (hd_container h) (hd_endpoint h) (hd_bearer h) ''hot'' s, Inr h))"

section \<open>Admission and attachment\<close>

definition hot_refused :: "int \<Rightarrow> store \<Rightarrow> bool" where
  "hot_refused cap st \<longleftrightarrow> int (count_hot_sessions st) \<ge> cap"

definition capacity_text :: "int \<Rightarrow> store \<Rightarrow> string \<Rightarrow> string" where
  "capacity_text cap st what =
     ''max_hot_containers='' @ dec cap @ '' reached (hot='' @ dec (int (count_hot_sessions st)) @
     ''); refusing '' @ what"

definition promote_hot :: "host \<Rightarrow> int \<Rightarrow> int \<Rightarrow> string \<Rightarrow> store \<Rightarrow> handle sup" where
  "promote_hot H now cap k st =
     (case get_session k st of
        None \<Rightarrow> (st, Inl (Other_error (''unknown session '' @ k)))
      | Some s \<Rightarrow>
          (let pk = or_default (s_project s) (s_repo s) in
           case get_runner pk st of
             None \<Rightarrow> (st, Inl (Other_error (''unknown project runner '' @ pk)))
           | Some r \<Rightarrow>
               if r_tier r \<noteq> ''hot'' \<and> hot_refused cap st
               then (st, Inl (Capacity_refusal (capacity_text cap st (''promote of project '' @ pk))))
               else
                 (case h_start H (opt_string (r_container r)) of
                    Inl e \<Rightarrow> (st, Inl (Other_error e))
                  | Inr port \<Rightarrow>
                      (case first_error [map_option Other_error (h_tokens H), map_option Other_error (h_resume H)] of
                         Some e \<Rightarrow> (st, Inl e)
                       | None \<Rightarrow>
                           (upsert_runner now pk (opt_string (r_container r)) (endpoint_of port)
                              (opt_string (r_token r)) ''hot'' st,
                            Inr \<lparr>hd_key = k, hd_project = pk, hd_container = opt_string (r_container r),
                              hd_port = port, hd_bearer = opt_string (r_token r),
                              hd_endpoint = endpoint_of port, hd_tier = ''hot''\<rparr>)))))"

definition worktrees_usable :: "host \<Rightarrow> string \<Rightarrow> sup_exn option" where
  "worktrees_usable H cid =
     first_error [assert_worktree_usable H cid ''architect'', assert_worktree_usable H cid ''developer'']"

definition promote_existing :: "host \<Rightarrow> int \<Rightarrow> int \<Rightarrow> ensure_args \<Rightarrow> store \<Rightarrow> handle sup" where
  "promote_existing H now cap a st =
     (let st1 = (if get_session (en_key a) st = None then upsert_session (intake_args now a) st else st) in
      and_then (promote_hot H now cap (en_key a) st1) (\<lambda>h.
        \<lambda>s. and_then (checked (worktrees_usable H (hd_container h)) () s) (\<lambda>_.
          \<lambda>s. and_then (register_layout now a s) (\<lambda>_ s. (s, Inr h)))))"

definition image_mismatch :: "host \<Rightarrow> string option \<Rightarrow> sup_exn option" where
  "image_mismatch H img =
     (case img of
        None \<Rightarrow> None
      | Some i \<Rightarrow> if i \<noteq> h_image H then Some (Other_error (''image mismatch '' @ i @ '' != '' @ h_image H)) else None)"

definition adopt_or_promote :: "host \<Rightarrow> int \<Rightarrow> int \<Rightarrow> ensure_args \<Rightarrow> runner_row \<Rightarrow> store \<Rightarrow> handle sup" where
  "adopt_or_promote H now cap a r st =
     (let cid = opt_string (r_container r) in
      case inspect_running_and_image (h_inspect H cid) of
        None \<Rightarrow> (st, Inl (Other_error (''container '' @ cid @ '' gone'')))
      | Some (running, img) \<Rightarrow>
          and_then (checked (h_layout H) () st) (\<lambda>_ st.
            if running
            then
              (case handle_from_runner a r of
                 None \<Rightarrow> (st, Inl (Other_error ''endpoint without a port''))
               | Some h \<Rightarrow>
                   (case h_ping H cid of
                      Inl e \<Rightarrow> (st, Inl (Other_error e))
                    | Inr ping \<Rightarrow>
                        if dget (json_obj ping) ''initialized'' = JBool True
                        then and_then (checked (worktrees_usable H (hd_container h)) () st)
                               (\<lambda>_ s. attach_session now a h s)
                        else and_then (checked (image_mismatch H img) () st)
                               (\<lambda>_ s. promote_existing H now cap a s)))
            else and_then (checked (image_mismatch H img) () st)
                   (\<lambda>_ s. promote_existing H now cap a s)))"

text \<open>Everything a new container must pass before the session is attached to it.\<close>

definition container_checks :: "host \<Rightarrow> string \<Rightarrow> sup_exn option" where
  "container_checks H cid =
     first_error [assert_no_docker_sock_mount cid (h_mounts H),
       assert_no_secrets_in_inspect_env cid (h_env H),
       assert_bearer_not_readable_by_roles cid (h_bearer_probe H),
       assert_host_secrets_not_mounted (h_srv_probe H),
       assert_worktree_usable H cid ''architect'',
       assert_worktree_usable H cid ''developer'']"

definition create_runner :: "host \<Rightarrow> int \<Rightarrow> ensure_args \<Rightarrow> store \<Rightarrow> handle sup" where
  "create_runner H now a st =
     and_then (checked (first_error
         [if h_image_present H then None
          else Some (Structural_refusal (''session-runner image missing: '' @ h_image H @
            ''. Build/load the image on this host, then reply on the issue to retry.'')),
          h_layout H,
          map_option Other_error (h_tokens H),
          if contains ''docker.sock'' (project_path (en_root a) (en_repo a))
          then Some (Structural_refusal ''FORBIDDEN: docker.sock must not appear in create args'') else None]) () st)
       (\<lambda>_ st.
         (case h_create H of
            Inl e \<Rightarrow> (st, Inl (Other_error e))
          | Inr cid \<Rightarrow>
              and_then (checked (container_checks H cid) () st) (\<lambda>_ st.
                (case h_port H of
                   Inl e \<Rightarrow> (st, Inl (Other_error e))
                 | Inr port \<Rightarrow>
                     and_then (checked (map_option Other_error (h_init H)) () st)
                       (\<lambda>_ s. attach_session now a (mk_handle a cid port (h_new_bearer H) ''hot'') s)))))"

definition has_container :: "runner_row option \<Rightarrow> bool" where
  "has_container r = (case r of None \<Rightarrow> False | Some x \<Rightarrow> r_container x \<noteq> None \<and> r_container x \<noteq> Some [])"

definition is_refusal :: "sup_exn \<Rightarrow> bool" where
  "is_refusal e = (case e of Other_error _ \<Rightarrow> False | _ \<Rightarrow> True)"

text \<open>Admission of a new project container, then its creation.\<close>

definition admit_and_create ::
  "host \<Rightarrow> int \<Rightarrow> int \<Rightarrow> ensure_args \<Rightarrow> runner_row option \<Rightarrow> store \<Rightarrow> handle sup" where
  "admit_and_create H now cap a existing st =
     (if hot_refused cap st \<and> \<not> (case existing of None \<Rightarrow> False | Some r \<Rightarrow> r_tier r = ''hot'')
      then (st, Inl (Capacity_refusal (capacity_text cap st
        (''new project '' @ en_project a @ '' for session '' @ en_key a))))
      else create_runner H now a st)"

definition ensure_session_locked ::
  "host \<Rightarrow> int \<Rightarrow> int \<Rightarrow> ensure_args \<Rightarrow> runner_row option \<Rightarrow> store \<Rightarrow> handle sup" where
  "ensure_session_locked H now cap a existing st =
     (if has_container existing
      then (case adopt_or_promote H now cap a (the existing) st of
          (st1, Inr h) \<Rightarrow> (st1, Inr h)
        | (st1, Inl e) \<Rightarrow> if is_refusal e then (st1, Inl e) else admit_and_create H now cap a existing st1)
      else admit_and_create H now cap a existing st)"

text \<open>\<open>ensure_session\<close>: the project key and the logins' defaults, the open-block short-circuit.\<close>

definition ensure_session ::
  "host \<Rightarrow> int \<Rightarrow> int \<Rightarrow> string \<Rightarrow> string \<Rightarrow> string \<Rightarrow> string \<Rightarrow> string \<Rightarrow> int \<Rightarrow> string option \<Rightarrow> string option
   \<Rightarrow> store \<Rightarrow> handle sup" where
  "ensure_session H now cap root arch_dflt dev_dflt k repo issue_num architect_login developer_login st =
     (let pk = project_key_from_repo repo;
          a = \<lparr>en_key = k, en_repo = repo, en_issue = issue_num, en_project = pk,
               en_architect = or_default (case architect_login of None \<Rightarrow> [] | Some l \<Rightarrow> l) arch_dflt,
               en_developer = or_default (case developer_login of None \<Rightarrow> [] | Some l \<Rightarrow> l) dev_dflt,
               en_root = root\<rparr>
      in case get_open_project_block pk st of
           Some b \<Rightarrow> (st, Inl (Structural_refusal (or_default (b_reason b) (''project '' @ pk @ '' blocked''))))
         | None \<Rightarrow> ensure_session_locked H now cap a (get_runner pk st) st)"

definition demote_cold :: "int \<Rightarrow> string \<Rightarrow> store \<Rightarrow> store" where
  "demote_cold now pk st =
     (case get_runner pk st of
        None \<Rightarrow> st
      | Some r \<Rightarrow>
          if r_container r = None \<or> r_container r = Some [] then st
          else upsert_runner now pk (the (r_container r)) (case r_endpoint r of None \<Rightarrow> [] | Some e \<Rightarrow> e)
                 (case r_token r of None \<Rightarrow> [] | Some t \<Rightarrow> t) ''cold'' st)"

section \<open>What an attachment may change\<close>

text \<open>
  The interface of the supervisor's steps: a preorder on stores that every step keeps.  Chains of
  steps then keep it.
\<close>

locale store_preorder =
  fixes R :: "store \<Rightarrow> store \<Rightarrow> bool"
  assumes R_refl: "R st st" and R_trans: "R st st1 \<Longrightarrow> R st1 st2 \<Longrightarrow> R st st2"
begin

lemma and_then_R:
  "R st (fst m) \<Longrightarrow> (\<And>x s. R s (fst (f x s))) \<Longrightarrow> R st (fst (and_then m f))"
  by (cases m) (auto simp: and_then_def split: sum.split intro: R_trans)

lemma checked_R: "R st (fst (checked e x st))"
  by (simp add: checked_def R_refl)

end

definition same_but_project :: "session_row \<Rightarrow> session_row \<Rightarrow> bool" where
  "same_but_project s s' \<longleftrightarrow> s' = s\<lparr>s_project := s_project s', s_updated := s_updated s'\<rparr>"

text \<open>
  Attaching session \<open>k\<close>: only its row, the ledger and the runner rows may change; an existing row
  keeps everything but project and time stamp, a new one is in \<open>INTAKE\<close>.
\<close>

definition attaches :: "string \<Rightarrow> store \<Rightarrow> store \<Rightarrow> bool" where
  "attaches k st st' \<longleftrightarrow>
     deliveries st' = deliveries st \<and> nodes st' = nodes st \<and> breaker st' = breaker st \<and>
     turns st' = turns st \<and> escalations st' = escalations st \<and> blocks st' = blocks st \<and>
     (\<forall>j. j \<noteq> k \<longrightarrow> get_session j st' = get_session j st) \<and>
     (case get_session k st of
        Some s \<Rightarrow> \<exists>s'. get_session k st' = Some s' \<and> same_but_project s s'
      | None \<Rightarrow> (case get_session k st' of None \<Rightarrow> True | Some s' \<Rightarrow> s_state s' = INTAKE \<and> s_paused s' = None)) \<and>
     (wf_store st \<longrightarrow> wf_store st')"

lemma same_but_project_refl: "same_but_project s s"
  by (simp add: same_but_project_def)

lemma same_but_project_trans: "same_but_project a b \<Longrightarrow> same_but_project b c \<Longrightarrow> same_but_project a c"
  unfolding same_but_project_def by (cases a; cases b; cases c) simp

lemma same_but_project_fields:
  "same_but_project s s' \<Longrightarrow> s_state s' = s_state s \<and> s_paused s' = s_paused s \<and> session_key s' = session_key s \<and>
    s_verified s' = s_verified s \<and> s_class s' = s_class s \<and> s_resume s' = s_resume s"
  unfolding same_but_project_def by (cases s; cases s') simp

lemma attaches_refl: "attaches k st st"
  by (auto simp: attaches_def same_but_project_refl split: option.split)

lemma attaches_trans: "attaches k st st1 \<Longrightarrow> attaches k st1 st2 \<Longrightarrow> attaches k st st2"
  by (auto simp: attaches_def split: option.splits intro: same_but_project_trans
      dest: same_but_project_fields)

interpretation att: store_preorder "attaches k" for k
  by unfold_locales (auto intro: attaches_refl attaches_trans)

lemma attaches_upsert_session: "attaches (en_key a) st (upsert_session (intake_args now a) st)"
  by (auto simp: attaches_def get_session_upsert conflict_session_def coalesce_def intake_args_def
      new_session_def same_but_project_def wf_upsert_session split: option.split)

lemma attaches_same_sessions:
  assumes "deliveries st' = deliveries st" "nodes st' = nodes st" "breaker st' = breaker st" "turns st' = turns st"
    "escalations st' = escalations st" "blocks st' = blocks st" "sessions st' = sessions st"
    "wf_store st \<Longrightarrow> wf_store st'"
  shows "attaches k st st'"
proof -
  have "get_session j st' = get_session j st" for j using assms(7) by (rule get_session_frame)
  with assms show ?thesis
    by (auto simp: attaches_def same_but_project_refl split: option.split)
qed

lemma attaches_upsert_runner: "attaches k st (upsert_runner now pk c e t ti st)"
  by (rule attaches_same_sessions) (simp_all add: wf_upsert_runner)

lemma attaches_register_artifact: "attaches k st (fst (register_artifact now j ro kd ref cr st))"
  by (rule attaches_same_sessions) (simp_all add: wf_register_artifact)

lemma attaches_register_all: "attaches k st (fst (register_all now j xs st))"
proof (induction now j xs st rule: register_all.induct)
  case (2 now j role kind ref xs st)
  have r: "attaches k st (fst (register_artifact now j role kind ref None st))"
    by (rule attaches_register_artifact)
  show ?case
  proof (cases "register_artifact now j role kind ref None st")
    case (Pair st' e)
    with r 2 show ?thesis by (cases e) (auto intro: attaches_trans)
  qed
qed (simp add: attaches_refl)

lemmas attach_intros = att.and_then_R att.checked_R attaches_refl attaches_upsert_runner

lemma attaches_register_layout: "attaches k st (fst (register_layout now a st))"
  by (simp add: register_layout_def attaches_register_all)

lemma attaches_attach_session: "attaches (en_key a) st (fst (attach_session now a h st))"
  unfolding attach_session_def
  by (intro att.and_then_R attaches_trans [OF attaches_upsert_session attaches_register_layout])
     (simp add: attaches_upsert_runner)

lemma attaches_promote_hot: "attaches k st (fst (promote_hot H now cap j st))"
  by (simp add: promote_hot_def Let_def attaches_refl attaches_upsert_runner split: option.split sum.split)

lemma attaches_promote_existing: "attaches (en_key a) st (fst (promote_existing H now cap a st))"
proof -
  let ?st1 = "if get_session (en_key a) st = None then upsert_session (intake_args now a) st else st"
  have "attaches (en_key a) st ?st1" by (simp add: attaches_upsert_session attaches_refl)
  then have "attaches (en_key a) st (fst (promote_hot H now cap (en_key a) ?st1))"
    using attaches_promote_hot attaches_trans by blast
  then show ?thesis
    unfolding promote_existing_def Let_def
    by (intro att.and_then_R) (simp_all add: att.checked_R attaches_register_layout attaches_refl)
qed

lemma attaches_adopt: "attaches (en_key a) st (fst (adopt_or_promote H now cap a r st))"
proof -
  have 1: "attaches (en_key a) s (fst (and_then (checked (image_mismatch H img) () s)
      (\<lambda>_ s. promote_existing H now cap a s)))" for s img
    by (intro att.and_then_R att.checked_R attaches_promote_existing)
  have 2: "attaches (en_key a) s (fst (and_then (checked (worktrees_usable H (hd_container h)) () s)
      (\<lambda>_ s. attach_session now a h s)))" for s h
    by (intro att.and_then_R att.checked_R attaches_attach_session)
  show ?thesis
    unfolding adopt_or_promote_def Let_def
    by (auto simp: attaches_refl 1 2 split: option.split sum.split prod.split intro!: att.and_then_R att.checked_R)
qed

lemma attaches_create: "attaches (en_key a) st (fst (create_runner H now a st))"
proof -
  have 1: "attaches (en_key a) s (fst (and_then (checked e () s) (\<lambda>_ s. attach_session now a h s)))" for s e h
    by (intro att.and_then_R att.checked_R attaches_attach_session)
  show ?thesis
    unfolding create_runner_def
    by (auto simp: attaches_refl 1 split: sum.split intro!: att.and_then_R att.checked_R)
qed

lemma attaches_locked: "attaches (en_key a) st (fst (ensure_session_locked H now cap a existing st))"
proof -
  have ad: "attaches (en_key a) s (fst (admit_and_create H now cap a existing s))" for s
    by (simp add: admit_and_create_def attaches_refl attaches_create)
  show ?thesis
  proof (cases "has_container existing")
    case True
    obtain st1 e where p: "adopt_or_promote H now cap a (the existing) st = (st1, e)" by fastforce
    with attaches_adopt [of a st H now cap "the existing"] have "attaches (en_key a) st st1" by simp
    with True p ad show ?thesis
      by (cases e) (auto simp: ensure_session_locked_def intro: attaches_trans)
  next
    case False
    then show ?thesis by (simp add: ensure_session_locked_def ad)
  qed
qed

lemma ensure_attaches: "attaches k st (fst (ensure_session H now cap root ad dd k repo n al dl st))"
proof -
  let ?a = "\<lparr>en_key = k, en_repo = repo, en_issue = n, en_project = project_key_from_repo repo,
      en_architect = or_default (case al of None \<Rightarrow> [] | Some l \<Rightarrow> l) ad,
      en_developer = or_default (case dl of None \<Rightarrow> [] | Some l \<Rightarrow> l) dd, en_root = root\<rparr>"
  have "attaches (en_key ?a) st (fst (ensure_session_locked H now cap ?a e st))" for e by (rule attaches_locked)
  then show ?thesis by (simp add: ensure_session_def Let_def attaches_refl split: option.split)
qed

text \<open>Attaching a session never disturbs the loop: whatever docker answers and however
  \<open>ensure_session\<close> ends, deliveries, turns, escalations, project blocks and every other session stay
  as they are, an existing session keeps its state, pause and counters, and a session it creates is in
  INTAKE and not paused; a well-formed store stays well-formed.\<close>

theorem ensure_session_frame:
  "attaches k st (fst (ensure_session H now cap root ad dd k repo n al dl st))"
  by (rule ensure_attaches)


definition sample_host :: host where
  "sample_host = \<lparr>h_inspect = \<lambda>_. (0, ''true'' @ [CHR 0x09] @ ''img''), h_layout = None, h_image = ''img'',
     h_image_present = True, h_ping = \<lambda>_. Inr (JObj [(''initialized'', JBool True)]),
     h_worktree = \<lambda>_ _. None, h_tokens = None, h_start = \<lambda>_. Inr 7001, h_resume = None,
     h_create = Inr ''c2'', h_mounts = [], h_env = [''PATH=/bin''], h_bearer_probe = \<lambda>_. (1, ''DENIED''),
     h_srv_probe = (''repo'', []), h_port = Inr 7002, h_init = None, h_new_bearer = ''b''\<rparr>"





section \<open>The HOT cap\<close>

definition is_hot :: "string \<Rightarrow> store \<Rightarrow> bool" where
  "is_hot pk st \<longleftrightarrow> (case get_runner pk st of None \<Rightarrow> False | Some r \<Rightarrow> r_tier r = ''hot'')"

lemma rowcount_upd_one:
  "distinct (map key rows) \<Longrightarrow> (\<And>r. key (f r) = key r) \<Longrightarrow> (\<And>r. P (f r)) \<Longrightarrow>
    rowcount P (upd_where (\<lambda>r. key r = k) f rows) =
      (case find_key key k rows of None \<Rightarrow> rowcount P rows
       | Some r \<Rightarrow> if P r then rowcount P rows else Suc (rowcount P rows))"
proof (induction rows)
  case (Cons r rows)
  show ?case
  proof (cases "key r = k")
    case True
    with Cons.prems(1) have "\<forall>x \<in> set rows. key x \<noteq> k" by (auto simp: image_iff)
    then have "upd_where (\<lambda>r. key r = k) f rows = rows" by (rule upd_where_none)
    with True Cons.prems show ?thesis by (simp add: rowcount_def)
  next
    case False
    with Cons show ?thesis by (auto simp: rowcount_def split: option.splits)
  qed
qed (simp add: rowcount_def)

lemma count_hot_upsert:
  assumes "wf_store st"
  shows "count_hot_sessions (upsert_runner now pk c e t ''hot'' st) =
    (if is_hot pk st then count_hot_sessions st else Suc (count_hot_sessions st))"
proof (cases "get_runner pk st")
  case None
  then have "pk \<notin> r_project ` set (runners st)" by (simp add: get_runner_def find_key_None_iff)
  with None show ?thesis
    by (simp add: count_hot_sessions_def upsert_runner_def upsert_def is_hot_def rowcount_def)
next
  case (Some r)
  then have "pk \<in> r_project ` set (runners st)" by (auto simp: get_runner_def dest: find_key_SomeD)
  moreover have "distinct (map r_project (runners st))" using assms by (simp add: wf_store_def)
  ultimately show ?thesis using Some
    by (simp add: count_hot_sessions_def upsert_runner_def upsert_def is_hot_def rowcount_upd_one get_runner_def
        split: option.splits)
qed

lemma is_hot_upsert: "is_hot pk (upsert_runner now pk c e t ''hot'' st)"
  by (simp add: is_hot_def get_runner_def upsert_runner_def run_tab.find_upsert split: option.split)

text \<open>A step that keeps the count of HOT runners under the cap, and a HOT project HOT.\<close>

definition under_cap :: "int \<Rightarrow> string \<Rightarrow> store \<Rightarrow> store \<Rightarrow> bool" where
  "under_cap cap pk st st' \<longleftrightarrow> (wf_store st \<longrightarrow> wf_store st' \<and>
     int (count_hot_sessions st') \<le> max cap (int (count_hot_sessions st)) \<and> (is_hot pk st \<longrightarrow> is_hot pk st'))"

interpretation cap: store_preorder "under_cap cap pk" for cap pk
  by unfold_locales (auto simp: under_cap_def)

lemma under_cap_same_runners:
  "runners st' = runners st \<Longrightarrow> (wf_store st \<Longrightarrow> wf_store st') \<Longrightarrow> under_cap c pk st st'"
  by (simp add: under_cap_def count_hot_sessions_def is_hot_def get_runner_def)

lemma under_cap_upsert_hot:
  "is_hot pk st \<or> int (count_hot_sessions st) < c \<Longrightarrow> under_cap c pk st (upsert_runner now pk cid e t ''hot'' st)"
  by (auto simp: under_cap_def count_hot_upsert is_hot_upsert wf_upsert_runner)

lemma register_all_runners: "runners (fst (register_all now j xs st)) = runners st"
proof (induction now j xs st rule: register_all.induct)
  case (2 now j role kind ref xs st)
  have r: "runners (fst (register_artifact now j role kind ref None st)) = runners st" by simp
  show ?case
  proof (cases "register_artifact now j role kind ref None st")
    case (Pair st' e)
    with r 2 show ?thesis by (cases e) auto
  qed
qed simp

lemma under_cap_register: "under_cap c pk st (fst (register_layout now a st))"
  using attaches_register_layout [of "[]" st now a]
  by (intro under_cap_same_runners) (simp_all add: register_layout_def register_all_runners attaches_def)

lemma under_cap_upsert_session: "under_cap c pk st (upsert_session sa st)"
  by (rule under_cap_same_runners) (simp_all add: wf_upsert_session)

lemma same_runners_hot: "runners st' = runners st \<Longrightarrow> is_hot pk st' = is_hot pk st \<and> count_hot_sessions st' = count_hot_sessions st"
  by (simp add: is_hot_def get_runner_def count_hot_sessions_def)

lemma under_cap_attach:
  assumes "is_hot (en_project a) st \<or> int (count_hot_sessions st) < c"
  shows "under_cap c (en_project a) st (fst (attach_session now a h st))"
proof -
  obtain s1 e where r: "register_layout now a (upsert_session (intake_args now a) st) = (s1, e)" by fastforce
  then have "runners s1 = runners st"
    using register_all_runners [of now "en_key a" "layout_artifacts (en_root a) (en_repo a) (en_issue a)"
        "upsert_session (intake_args now a) st"]
    by (simp add: register_layout_def)
  from same_runners_hot [OF this] assms have "is_hot (en_project a) s1 \<or> int (count_hot_sessions s1) < c" by simp
  then have u: "under_cap c (en_project a) s1 (upsert_runner now (en_project a) (hd_container h) (hd_endpoint h)
      (hd_bearer h) ''hot'' s1)"
    by (rule under_cap_upsert_hot)
  have "under_cap c (en_project a) (upsert_session (intake_args now a) st) s1"
    using r under_cap_register [of c "en_project a" "upsert_session (intake_args now a) st" now a] by simp
  then have s1: "under_cap c (en_project a) st s1" by (rule cap.R_trans [OF under_cap_upsert_session])
  show ?thesis
    using r s1 cap.R_trans [OF s1 u] by (cases e) (simp_all add: attach_session_def and_then_def)
qed

lemma under_cap_promote_hot: "under_cap c pk st (fst (promote_hot H now c j st))"
  if "\<And>s. get_session j st = Some s \<Longrightarrow> or_default (s_project s) (s_repo s) = pk"
proof (cases "get_session j st")
  case None
  then show ?thesis by (simp add: promote_hot_def cap.R_refl)
next
  case (Some s)
  note pk = that [OF Some]
  show ?thesis
  proof (cases "get_runner pk st")
    case None
    with Some pk show ?thesis by (simp add: promote_hot_def cap.R_refl)
  next
    case (Some r)
    then have "r_tier r = ''hot'' \<Longrightarrow> is_hot pk st" by (simp add: is_hot_def)
    then have "under_cap c pk st (upsert_runner now pk x y z ''hot'' st)" if "r_tier r = ''hot'' \<or> \<not> hot_refused c st" for x y z
      using that by (intro under_cap_upsert_hot) (auto simp: hot_refused_def)
    with Some pk \<open>get_session j st = Some s\<close> show ?thesis
      by (auto simp: promote_hot_def Let_def cap.R_refl split: sum.split option.split)
  qed
qed

text \<open>A stored session belongs to the project that its arguments name.\<close>

definition in_project :: "ensure_args \<Rightarrow> store \<Rightarrow> bool" where
  "in_project a st \<longleftrightarrow> en_project a \<noteq> [] \<and>
     (\<forall>s. get_session (en_key a) st = Some s \<longrightarrow> s_project s = en_project a)"

lemma under_cap_promote_existing:
  assumes "in_project a st"
  shows "under_cap c (en_project a) st (fst (promote_existing H now c a st))"
proof -
  let ?st1 = "if get_session (en_key a) st = None then upsert_session (intake_args now a) st else st"
  have "under_cap c (en_project a) st ?st1" by (simp add: cap.R_refl under_cap_upsert_session)
  moreover have "under_cap c (en_project a) ?st1 (fst (promote_hot H now c (en_key a) ?st1))"
  proof (rule under_cap_promote_hot)
    fix s
    assume "get_session (en_key a) ?st1 = Some s"
    with assms show "or_default (s_project s) (s_repo s) = en_project a"
      by (auto simp: in_project_def get_session_upsert intake_args_def new_session_def args_project_def or_default_def
          split: if_splits)
  qed
  ultimately have "under_cap c (en_project a) st (fst (promote_hot H now c (en_key a) ?st1))"
    by (rule cap.R_trans)
  then show ?thesis
    unfolding promote_existing_def Let_def
    by (intro cap.and_then_R) (simp_all add: cap.checked_R under_cap_register cap.R_refl)
qed

text \<open>The runner row of the project is HOT, or its container is not running.\<close>

definition row_true :: "host \<Rightarrow> runner_row \<Rightarrow> bool" where
  "row_true H r \<longleftrightarrow> r_tier r = ''hot'' \<or>
     (case inspect_running_and_image (h_inspect H (opt_string (r_container r))) of
        None \<Rightarrow> True | Some (running, _) \<Rightarrow> \<not> running)"

lemma under_cap_adopt:
  assumes "in_project a st" "get_runner (en_project a) st = Some r" "row_true H r"
  shows "under_cap c (en_project a) st (fst (adopt_or_promote H now c a r st))"
proof (cases "inspect_running_and_image (h_inspect H (opt_string (r_container r)))")
  case None
  then show ?thesis by (simp add: adopt_or_promote_def cap.R_refl)
next
  case (Some x)
  obtain running img where x: "x = (running, img)" by fastforce
  have promote: "under_cap c (en_project a) st (fst (and_then (checked (image_mismatch H img) () st)
      (\<lambda>_ s. promote_existing H now c a s)))"
    using under_cap_promote_existing [OF assms(1)]
    by (simp add: and_then_def checked_def cap.R_refl split: option.split)
  have attach: "under_cap c (en_project a) st (fst (and_then (checked (worktrees_usable H (hd_container h)) () st)
      (\<lambda>_ s. attach_session now a h s)))" if running for h
  proof -
    have "is_hot (en_project a) st" using assms(2,3) Some x that by (auto simp: row_true_def is_hot_def)
    then show ?thesis
      using under_cap_attach by (simp add: and_then_def checked_def cap.R_refl split: option.split)
  qed
  show ?thesis
  proof (cases "h_layout H")
    case None
    then show ?thesis using promote attach Some x
      by (auto simp: adopt_or_promote_def checked_def [of None] cap.R_refl
          split: option.split sum.split)
  next
    case (Some e)
    then show ?thesis using \<open>inspect_running_and_image _ = Some x\<close> x
      by (simp add: adopt_or_promote_def checked_def [of "Some e"] cap.R_refl)
  qed
qed

lemma under_cap_create:
  assumes "is_hot (en_project a) st \<or> int (count_hot_sessions st) < c"
  shows "under_cap c (en_project a) st (fst (create_runner H now a st))"
  using under_cap_attach [OF assms]
  by (simp add: create_runner_def and_then_def checked_def cap.R_refl split: option.split sum.split)

lemma under_cap_admit:
  assumes "\<And>r. existing = Some r \<Longrightarrow> r_tier r = ''hot'' \<Longrightarrow> is_hot (en_project a) st"
  shows "under_cap c (en_project a) st (fst (admit_and_create H now c a existing st))"
proof (cases existing)
  case None
  then show ?thesis using under_cap_create
    by (simp add: admit_and_create_def cap.R_refl hot_refused_def)
next
  case (Some r)
  then show ?thesis using assms [OF Some] under_cap_create [of a st c H now]
    by (auto simp: admit_and_create_def cap.R_refl hot_refused_def)
qed

text \<open>C7: admission keeps the HOT cap: one \<open>ensure_session\<close>, whatever docker answers, never raises the
  number of HOT project containers above the larger of the configured cap and what it was, provided
  the project's own runner row does not call a running container COLD.\<close>

theorem hot_cap_respected:
  assumes "wf_store st" "repo \<noteq> []" "py_strip repo = repo"
    and "\<forall>s. get_session k st = Some s \<longrightarrow> s_project s = repo"
    and "\<forall>r. get_runner repo st = Some r \<longrightarrow> row_true H r"
  shows "int (count_hot_sessions (fst (ensure_session H now c root ad dd k repo n al dl st)))
    \<le> max c (int (count_hot_sessions st))"
proof -
  define a where "a = \<lparr>en_key = k, en_repo = repo, en_issue = n, en_project = project_key_from_repo repo,
      en_architect = or_default (case al of None \<Rightarrow> [] | Some l \<Rightarrow> l) ad,
      en_developer = or_default (case dl of None \<Rightarrow> [] | Some l \<Rightarrow> l) dd, en_root = root\<rparr>"
  have pk: "en_project a = repo" using assms(3) by (simp add: a_def project_key_from_repo_def)
  have ip: "in_project a st" using assms(2,4) pk by (simp add: in_project_def a_def)
  let ?e = "get_runner repo st"
  have "under_cap c (en_project a) st (fst (ensure_session_locked H now c a ?e st))"
  proof (cases "has_container ?e")
    case False
    then show ?thesis
      using under_cap_admit [of ?e a st c H now] pk by (auto simp: ensure_session_locked_def is_hot_def)
  next
    case True
    then obtain r where r: "?e = Some r" by (auto simp: has_container_def split: option.splits)
    obtain st1 e where p: "adopt_or_promote H now c a r st = (st1, e)" by fastforce
    have 1: "under_cap c (en_project a) st st1"
      using under_cap_adopt [OF ip, of r H c now] r assms(5) pk p by simp
    have "is_hot (en_project a) st1" if "r_tier r = ''hot''"
      using 1 that r pk assms(1) by (auto simp: under_cap_def is_hot_def)
    then have 2: "under_cap c (en_project a) st1 (fst (admit_and_create H now c a ?e st1))"
      using r by (intro under_cap_admit) auto
    show ?thesis using True r p 1 cap.R_trans [OF 1 2]
      by (cases e) (auto simp: ensure_session_locked_def)
  qed
  with assms(1) show ?thesis using pk
    by (auto simp: ensure_session_def Let_def under_cap_def a_def project_key_from_repo_def assms(3) split: option.split)
qed

theorem hot_cap_respected_witness:
  "count_hot_sessions (fst (ensure_session sample_host 5 1 ''/r'' ''cl'' ''gr'' ''o/r#1'' ''o/r'' 1 None None empty_store)) \<le> 1"
proof -
  have "py_strip ''o/r'' = ''o/r''" by code_simp
  then show ?thesis
    using hot_cap_respected [of empty_store "''o/r''" "''o/r#1''" sample_host 5 1 "''/r''" "''cl''" "''gr''" 1 None None] wf_empty
    by (simp add: get_session_def get_runner_def empty_store_def count_hot_sessions_def rowcount_def)
qed

text \<open>Two projects, one HOT and one recorded COLD whose container runs.\<close>

definition two_projects :: store where
  "two_projects = upsert_runner 1 ''a/b'' ''c1'' ''h:1'' ''t'' ''hot''
     (upsert_runner 1 ''o/r'' ''c2'' ''h:2'' ''t'' ''cold'' empty_store)"

text \<open>Adopting a running container bypasses admission: with the cap of one used up, a project whose
  row says COLD but whose container is up and initialised is taken over and counted HOT.\<close>

theorem adoption_exceeds_cap:
  "count_hot_sessions two_projects = 1 \<and>
   count_hot_sessions (fst (ensure_session sample_host 5 1 ''/r'' ''cl'' ''gr'' ''o/r#1'' ''o/r'' 1 None None two_projects)) = 2"
  by code_simp

end
