(* ===== verification/Github.thy ===== *)
theory Github
  imports Merge_Auth "HOL-Library.Char_ord" "HOL-Library.List_Lexorder"
begin

text \<open>
  The gateway's own GitHub calls (\<open>agentd/src/agentd/github_write.py\<close> and
  \<open>agentd/src/agentd/github_fetch.py\<close>): the guards, URLs and readings of the answers.  A request
  is a parameter from URL and body to the decoded response, \<open>Inl\<close> the text of a raised exception.
\<close>

type_synonym request = "string \<Rightarrow> json \<Rightarrow> json exc"

section \<open>Writes\<close>

text \<open>The guards every issue call opens with.\<close>

definition issue_guard :: "string option \<Rightarrow> string \<Rightarrow> string \<Rightarrow> int \<Rightarrow> string \<Rightarrow> string option" where
  "issue_guard token dir repo issue_num act =
     (if token = None \<or> token = Some [] then Some (''no token for gateway GitHub '' @ dir)
      else if repo = [] \<or> issue_num = 0 then Some (''repo and issue_num required '' @ act)
      else None)"

definition issue_url :: "string \<Rightarrow> int \<Rightarrow> string" where
  "issue_url repo n = api repo (''/issues/'' @ dec n)"

definition post_issue_comment ::
  "string \<Rightarrow> int \<Rightarrow> string \<Rightarrow> string option \<Rightarrow> request \<Rightarrow> int exc" where
  "post_issue_comment repo n body token post =
     (case issue_guard token ''write'' repo n ''for comment'' of
        Some e \<Rightarrow> Inl e
      | None \<Rightarrow>
          if py_strip body = [] then Inl ''empty comment body''
          else bind_exc (post (issue_url repo n @ ''/comments'') (JObj [(''body'', JStr body)])) (\<lambda>data.
            let cid = (case data of JObj d \<Rightarrow> dget d ''id'' | _ \<Rightarrow> JNull) in
            if \<not> truthy cid then Inl (''GitHub comment response missing id: '' @ py_repr data)
            else (case json_int cid of None \<Rightarrow> Inl ''invalid comment id'' | Some i \<Rightarrow> Inr i)))"

definition reopen_issue :: "string \<Rightarrow> int \<Rightarrow> string option \<Rightarrow> request \<Rightarrow> unit exc" where
  "reopen_issue repo n token patch =
     (case issue_guard token ''write'' repo n ''to reopen'' of
        Some e \<Rightarrow> Inl e
      | None \<Rightarrow> bind_exc (patch (issue_url repo n) (JObj [(''state'', JStr ''open'')])) (\<lambda>_. Inr ()))"

definition patch_issue_body :: "string \<Rightarrow> int \<Rightarrow> string \<Rightarrow> string option \<Rightarrow> request \<Rightarrow> unit exc" where
  "patch_issue_body repo n body token patch =
     (case issue_guard token ''write'' repo n ''to patch issue body'' of
        Some e \<Rightarrow> Inl e
      | None \<Rightarrow> bind_exc (patch (issue_url repo n) (JObj [(''body'', JStr body)])) (\<lambda>_. Inr ()))"

section \<open>Reads\<close>

text \<open>\<open>get_issue\<close>: body and state of the issue.\<close>

definition get_issue :: "string \<Rightarrow> int \<Rightarrow> string option \<Rightarrow> http \<Rightarrow> (string \<times> string) exc" where
  "get_issue repo n token get =
     (case issue_guard token ''read'' repo n ''to read issue'' of
        Some e \<Rightarrow> Inl e
      | None \<Rightarrow> bind_exc (get (issue_url repo n)) (\<lambda>data.
          case data of
            JObj d \<Rightarrow> Inr (json_str (dget d ''body''), str_or_empty (dget d ''state''))
          | _ \<Rightarrow> Inl (''GitHub issue response not an object: '' @ py_repr data)))"

definition get_issue_body :: "string \<Rightarrow> int \<Rightarrow> string option \<Rightarrow> http \<Rightarrow> string exc" where
  "get_issue_body repo n token get = bind_exc (get_issue repo n token get) (\<lambda>(b, _). Inr b)"

text \<open>\<open>fetch_pull\<close>: what the spent gate needs of a pull request.\<close>

record live_pr =
  lp_merged :: bool
  lp_state :: string
  lp_head :: "string option"

definition fetch_pull :: "string \<Rightarrow> int \<Rightarrow> string option \<Rightarrow> http \<Rightarrow> live_pr option" where
  "fetch_pull repo n token get =
     (if token = None \<or> token = Some [] \<or> repo = [] \<or> n = 0 then None
      else
        (case get (api repo (''/pulls/'' @ dec n)) of
           Inr (JObj d) \<Rightarrow>
             (let sha = str_or_empty (dget2 d ''head'' ''sha'') in
              Some \<lparr>lp_merged = truthy (dget d ''merged''), lp_state = str_or_empty (dget d ''state''),
                lp_head = (if sha = [] then None else Some sha)\<rparr>)
         | _ \<Rightarrow> None))"

text \<open>
  \<open>fetch_pr_review_threads\<close>: the open threads, all threads, base and head of the GraphQL answer.  A
  truthy value that is not an object where the source chains \<open>.get\<close> raises \<open>AttributeError\<close>.
\<close>

record thread_snapshot =
  ts_open :: "string list"
  ts_all :: "string list"
  ts_base :: "string option"
  ts_head :: "string option"

definition opt_text :: "json \<Rightarrow> string option" where
  "opt_text j = (if truthy j then Some (py_str j) else None)"

definition thread_nodes :: "json \<Rightarrow> (string \<times> bool) list" where
  "thread_nodes nodes =
     (case nodes of
        JArr ns \<Rightarrow> concat (map (\<lambda>n. case n of
            JObj d \<Rightarrow> if truthy (dget d ''id'') then [(py_str (dget d ''id''), truthy (dget d ''isResolved''))] else []
          | _ \<Rightarrow> []) ns)
      | _ \<Rightarrow> [])"

definition read_threads :: "dict \<Rightarrow> thread_snapshot exc" where
  "read_threads data =
     bind_exc (sub_obj data ''data'') (\<lambda>d.
     bind_exc (sub_obj d ''repository'') (\<lambda>r.
     bind_exc (sub_obj r ''pullRequest'') (\<lambda>pr.
     bind_exc (sub_obj pr ''reviewThreads'') (\<lambda>rt.
       let ns = thread_nodes (py_or (dget rt ''nodes'') (JArr [])) in
       Inr \<lparr>ts_open = map fst (filter (\<lambda>(_, resolved). \<not> resolved) ns), ts_all = map fst ns,
            ts_base = opt_text (dget pr ''baseRefName''), ts_head = opt_text (dget pr ''headRefOid'')\<rparr>))))"

definition threads_request :: "string \<Rightarrow> int \<Rightarrow> json" where
  "threads_request repo n =
     (case partition_at CHR ''/'' repo of
        (ow, _, name) \<Rightarrow> JObj [(''query'', JStr ''reviewThreads''),
          (''variables'', JObj [(''owner'', JStr ow), (''name'', JStr name), (''number'', JNum n)])])"

definition fetch_pr_review_threads ::
  "string \<Rightarrow> int \<Rightarrow> string option \<Rightarrow> request \<Rightarrow> thread_snapshot option exc" where
  "fetch_pr_review_threads repo n token post =
     (if token = None \<or> token = Some [] \<or> repo = [] \<or> n = 0 \<or> CHR ''/'' \<notin> set repo then Inr None
      else
        (case post ''https://api.github.com/graphql'' (threads_request repo n) of
           Inl _ \<Rightarrow> Inr None
         | Inr (JObj data) \<Rightarrow>
             if truthy (dget data ''errors'') then Inr None
             else bind_exc (read_threads data) (\<lambda>s. Inr (Some s))
         | Inr _ \<Rightarrow> Inr None))"

text \<open>\<open>fetch_diff_stat\<close>: one line per file of the compare answer, sorted.\<close>

definition diff_line :: "json \<Rightarrow> string list" where
  "diff_line f =
     (case f of
        JObj d \<Rightarrow> [py_str (dget d ''filename'') @ ''|'' @ py_str (dget d ''status'') @ ''|'' @
          py_str (dget d ''additions'') @ ''+'' @ py_str (dget d ''deletions'') @ ''-'']
      | _ \<Rightarrow> [])"

definition fetch_diff_stat ::
  "string \<Rightarrow> string \<Rightarrow> string \<Rightarrow> string option \<Rightarrow> http \<Rightarrow> string option" where
  "fetch_diff_stat repo base hd_sha token get =
     (if token = None \<or> token = Some [] \<or> repo = [] \<or> base = [] \<or> hd_sha = [] then None
      else
        (case get (api repo (''/compare/'' @ base @ ''...'' @ hd_sha)) of
           Inr (JObj data) \<Rightarrow>
             (let parts = (case py_or (dget data ''files'') (JArr []) of
                    JArr fs \<Rightarrow> concat (map diff_line fs) | _ \<Rightarrow> [])
              in if parts \<noteq> [] then Some (join [CHR 0x0A] (sort parts))
                 else Some (''empty|'' @ py_str (py_or (dget data ''status'') (JStr ''identical'')) @ ''|'' @
                   py_str (dget data ''ahead_by'') @ ''|'' @ py_str (dget data ''behind_by'')))
         | _ \<Rightarrow> None))"

section \<open>The escalation comment\<close>

definition owner_tag :: "string \<Rightarrow> string" where
  "owner_tag ow = (if starts_with ow ''@'' then ow else ''@'' @ ow)"

definition reply_block :: "string \<Rightarrow> string \<Rightarrow> string" where
  "reply_block state role =
     ''- **Any reply from you** '' @ [em_dash] @ '' unpauses the session (returns to `'' @ state @
     ''`), closes this escalation, and injects your comment text into the next agent turn for role `'' @
     role @ ''` (or architect if system-raised).'' @ [CHR 0x0A] @
     ''- **No reply** '' @ [em_dash] @ '' session stays `PAUSED_HUMAN`; non-owner bot activity is '' @
     ''deferred until you answer (P5: this comment is the non-silent signal).''"

definition format_escalation_comment ::
  "string \<Rightarrow> string \<Rightarrow> string \<Rightarrow> string \<Rightarrow> string \<Rightarrow> string option \<Rightarrow> string" where
  "format_escalation_comment ow key state role reason reply_does =
     (let nl = [CHR 0x0A] in
      owner_tag ow @ '' '' @ [em_dash] @ '' **agentd needs a decision** (session paused)'' @ nl @ nl @
      ''| | |'' @ nl @ ''|---|---|'' @ nl @
      ''| **Session** | `'' @ key @ ''` |'' @ nl @
      ''| **State when paused** | `'' @ state @ ''` |'' @ nl @
      ''| **Raised by** | `'' @ role @ ''` |'' @ nl @ nl @
      ''**Question / reason**'' @ nl @ nl @ py_strip reason @ nl @ nl @
      ''**What a reply does**'' @ nl @ nl @
      (case reply_does of None \<Rightarrow> reply_block state role | Some r \<Rightarrow> py_strip r) @ nl @ nl @
      ''<!-- agentd:escalation session='' @ key @ '' -->'' @ nl)"

section \<open>Facts\<close>

text \<open>Without a token no request is made: the answers do not matter.\<close>

lemma no_token_no_write:
  "token = None \<or> token = Some [] \<Longrightarrow> \<exists>e. post_issue_comment repo n body token post = Inl e"
  "token = None \<or> token = Some [] \<Longrightarrow> \<exists>e. reopen_issue repo n token post = Inl e"
  "token = None \<or> token = Some [] \<Longrightarrow> \<exists>e. patch_issue_body repo n body token post = Inl e"
  by (auto simp: post_issue_comment_def reopen_issue_def patch_issue_body_def issue_guard_def)

lemma threads_open_subset:
  "read_threads data = Inr s \<Longrightarrow> set (ts_open s) \<subseteq> set (ts_all s)"
  by (auto simp: read_threads_def bind_exc_def Let_def split: sum.splits)

end
