(* ===== verification/Archive.thy ===== *)
theory Archive
  imports Gitops_Names Routing Json
begin

text \<open>
  The session archive (\<open>agentd/src/agentd/archive.py\<close>): where it lies, what its manifest says, which
  members it leaves out, and the comment that announces it.  The disk steps are in \<open>Loop_Close\<close>.
\<close>

definition archive_rel :: "string \<Rightarrow> int \<Rightarrow> string" where
  "archive_rel repo n = ''archive/'' @ project_dir_name repo @ ''/'' @ dec n @ ''.tar.gz''"

definition archive_tarball_path :: "string \<Rightarrow> string \<Rightarrow> int \<Rightarrow> string" where
  "archive_tarball_path root repo n = root @ ''/'' @ archive_rel repo n"

definition session_dir_path :: "string \<Rightarrow> string \<Rightarrow> int \<Rightarrow> string" where
  "session_dir_path root repo n = project_path root repo @ ''/'' @ issue_session_rel n"

definition opt_num :: "int option \<Rightarrow> json" where
  "opt_num x = (case x of None \<Rightarrow> JNull | Some n \<Rightarrow> JNum n)"

definition build_manifest ::
  "string \<Rightarrow> string \<Rightarrow> string \<Rightarrow> int option \<Rightarrow> int option \<Rightarrow> int \<Rightarrow> int \<Rightarrow> json \<Rightarrow> json" where
  "build_manifest k pk terminal_state design_pr feature_pr turn_count closed_at models =
     JObj [(''session_key'', JStr k), (''project_key'', JStr pk), (''terminal_state'', JStr terminal_state),
       (''design_pr'', opt_num design_pr), (''feature_pr'', opt_num feature_pr),
       (''turn_count'', JNum turn_count), (''closed_at'', JNum closed_at),
       (''models'', py_or models (JObj []))]"

text \<open>A member of the tarball by the parts of its name: issue, role, directory, the rest.\<close>

definition exclude_runtime_dirs :: "string list \<Rightarrow> bool" where
  "exclude_runtime_dirs parts \<longleftrightarrow> length parts \<ge> 3 \<and> parts ! 2 \<in> {''home'', ''xdg'', ''tmp''}"

definition format_completion_summary ::
  "string \<Rightarrow> string \<Rightarrow> int option \<Rightarrow> int option \<Rightarrow> int \<Rightarrow> string \<Rightarrow> string" where
  "format_completion_summary k classification design_pr feature_pr turn_count rel =
     (let pr = (\<lambda>what x. case x of None \<Rightarrow> [] | Some n \<Rightarrow> if n = 0 then [] else [what @ '' PR: #'' @ dec n @ ''.'']) in
      join '' '' ([''Session `'' @ k @ ''` closed as **'' @ classification @ ''**.''] @
        pr ''Design'' design_pr @ pr ''Feature'' feature_pr @ [''Turns: '' @ dec turn_count @ ''.''] @
        (if rel = [] then [] else [''Archive: `'' @ rel @ ''`.''])) @
      [CHR 0x0A, CHR 0x0A] @ gateway_footer k)"

end
