(* ===== verification/Loop_World.thy ===== *)
theory Loop_World
  imports Supervisor Github Routing Intake Verify_Block Archive Complex_Main
begin

text \<open>
  The world of the session loop (\<open>agentd/src/agentd/session_loop.py\<close>): its state (the store and the
  module-level dictionaries), what the outside answers, the requests it sends, and the combinators
  its handlers are written with.  The drain thread is single, so a handler is a state transformer;
  a raised Python exception is \<open>Inl\<close>.  Every answer of the outside, the clock included, is read at
  a tick that never comes back: two reads may differ.
\<close>

section \<open>State, answers, requests\<close>

text \<open>What was sent to the outside, in order.\<close>

datatype effect =
    Sent_comment string int string
  | Sent_reopen string int
  | Sent_patch string int string
  | Sent_turn string string fsm_state string dict
      \<comment> \<open>session key, role, session state, turn id, event\<close>
  | Sent_resume string string fsm_state string dict
  | Sent_teardown string
  | Wrote_manifest string json
  | Wrote_tarball string
  | Purged string

record loop =
  db :: store
  spent :: "(string \<times> int) list"
  merge_tries :: "string \<rightharpoonup> int"
  tries :: "string \<rightharpoonup> int"
  warned :: "string list"
  busy :: "string \<rightharpoonup> rat"
  diffs :: "(string \<times> string) list"
  tick :: nat
  sent :: "effect list"

text \<open>
  The end of a runner call: the decoded result, or an exception with its text, whether it was a
  timeout, and whether the call was already under way.  Before it, notifications arrive and webhooks
  are stored by the other thread.
\<close>

datatype rpc_end = Rpc_result json | Rpc_raised string bool bool

record webhook =
  wh_id :: string
  wh_event :: string
  wh_action :: "string option"
  wh_repo :: "string option"
  wh_issue :: "int option"
  wh_sender :: "string option"
  wh_payload :: "json option"

record rpc_answer =
  rp_notes :: "(string \<times> dict) list"
  rp_arrivals :: "webhook list"
  rp_end :: rpc_end

record env =
  cfg :: config
  e_cap :: int
  e_root :: string
  e_gateway :: "string option"
  e_claude :: "string option"
  e_grok :: "string option"
  e_supervised :: bool
  e_dispatch :: bool
  e_now :: "nat \<Rightarrow> rat"
  e_uuid :: "nat \<Rightarrow> string"
  e_host :: "nat \<Rightarrow> host"
  e_get :: "nat \<Rightarrow> http"
  e_post :: "nat \<Rightarrow> request"
  e_patch :: "nat \<Rightarrow> request"
  e_probe :: "nat \<Rightarrow> runner_row \<Rightarrow> bool"
  e_rpc :: "nat \<Rightarrow> rpc_answer"
  e_gone :: "nat \<Rightarrow> string \<Rightarrow> string \<Rightarrow> bool"
  e_is_dir :: "nat \<Rightarrow> string \<Rightarrow> bool"
  e_is_file :: "nat \<Rightarrow> string \<Rightarrow> bool"
  e_io :: "nat \<Rightarrow> string option"
  e_killed :: "nat \<Rightarrow> string option"
  e_models :: json
  e_sha256 :: "string \<Rightarrow> string"

type_synonym 'a act = "loop \<Rightarrow> loop \<times> (sup_exn + 'a)"

section \<open>Combinators\<close>

definition ret :: "'a \<Rightarrow> 'a act" where
  "ret x = (\<lambda>l. (l, Inr x))"

definition fail :: "sup_exn \<Rightarrow> 'a act" where
  "fail e = (\<lambda>l. (l, Inl e))"

definition bnd :: "'a act \<Rightarrow> ('a \<Rightarrow> 'b act) \<Rightarrow> 'b act" where
  "bnd m f = (\<lambda>l. case m l of (l', Inl e) \<Rightarrow> (l', Inl e) | (l', Inr x) \<Rightarrow> f x l')"

abbreviation seq :: "'a act \<Rightarrow> 'b act \<Rightarrow> 'b act" where
  "seq m k \<equiv> bnd m (\<lambda>_. k)"

definition catch :: "'a act \<Rightarrow> (sup_exn \<Rightarrow> 'a act) \<Rightarrow> 'a act" where
  "catch m h = (\<lambda>l. case m l of (l', Inl e) \<Rightarrow> h e l' | (l', Inr x) \<Rightarrow> (l', Inr x))"

text \<open>A \<open>try\<close> whose exception is looked at: the outcome as a value.\<close>

definition attempt :: "'a act \<Rightarrow> (sup_exn + 'a) act" where
  "attempt m = (\<lambda>l. case m l of (l', r) \<Rightarrow> (l', Inr r))"

definition reads :: "(loop \<Rightarrow> 'a) \<Rightarrow> 'a act" where
  "reads f = (\<lambda>l. (l, Inr (f l)))"

definition modify :: "(loop \<Rightarrow> loop) \<Rightarrow> unit act" where
  "modify f = (\<lambda>l. (f l, Inr ()))"

definition ask :: "(nat \<Rightarrow> 'a) \<Rightarrow> 'a act" where
  "ask f = (\<lambda>l. (l\<lparr>tick := Suc (tick l)\<rparr>, Inr (f (tick l))))"

definition only_if :: "bool \<Rightarrow> unit act \<Rightarrow> unit act" where
  "only_if b m = (if b then m else ret ())"

definition of_exc :: "'a exc \<Rightarrow> 'a act" where
  "of_exc r = (case r of Inl e \<Rightarrow> fail (Other_error e) | Inr x \<Rightarrow> ret x)"

definition need :: "'a option \<Rightarrow> string \<Rightarrow> 'a act" where
  "need x what = (case x of None \<Rightarrow> fail (Other_error what) | Some y \<Rightarrow> ret y)"

fun each :: "('a \<Rightarrow> unit act) \<Rightarrow> 'a list \<Rightarrow> unit act" where
  "each f [] = ret ()"
| "each f (x # xs) = seq (f x) (each f xs)"

text \<open>The clock as \<open>time.time()\<close> and as \<open>int(time.time())\<close>; a statement of the store at the clock's time.\<close>

definition now_f :: "env \<Rightarrow> rat act" where
  "now_f E = ask (e_now E)"

definition now_s :: "env \<Rightarrow> int act" where
  "now_s E = ask (\<lambda>n. \<lfloor>e_now E n\<rfloor>)"

definition on_db :: "(store \<Rightarrow> store) \<Rightarrow> unit act" where
  "on_db f = modify (\<lambda>l. l\<lparr>db := f (db l)\<rparr>)"

definition sql :: "env \<Rightarrow> (int \<Rightarrow> store \<Rightarrow> store) \<Rightarrow> unit act" where
  "sql E f = bnd (now_s E) (\<lambda>t. on_db (f t))"

text \<open>A statement that may raise.\<close>

definition db_text :: "db_error \<Rightarrow> string" where
  "db_text e = (case e of Integrity_error \<Rightarrow> ''IntegrityError'' | Value_error s \<Rightarrow> s | Key_error s \<Rightarrow> s
     | Attribute_error \<Rightarrow> ''AttributeError'')"

definition sql_try :: "env \<Rightarrow> (int \<Rightarrow> store \<Rightarrow> store \<times> (db_error + 'a)) \<Rightarrow> 'a act" where
  "sql_try E f = bnd (now_s E) (\<lambda>t l. case f t (db l) of (st, r) \<Rightarrow> (l\<lparr>db := st\<rparr>,
     case r of Inl e \<Rightarrow> Inl (Other_error (db_text e)) | Inr x \<Rightarrow> Inr x))"

definition from_db :: "(store \<Rightarrow> 'a) \<Rightarrow> 'a act" where
  "from_db f = reads (\<lambda>l. f (db l))"

definition emit :: "effect \<Rightarrow> unit act" where
  "emit e = modify (\<lambda>l. l\<lparr>sent := sent l @ [e]\<rparr>)"

definition set_status :: "string \<Rightarrow> dstatus \<Rightarrow> unit act" where
  "set_status did s = on_db (set_delivery_status did s)"

definition set_fields :: "env \<Rightarrow> string \<Rightarrow> session_field list \<Rightarrow> unit act" where
  "set_fields E k fs = sql E (\<lambda>t. update_session_fields t k fs)"

section \<open>Requests\<close>

text \<open>A request is sent when its guards pass; its answer, or the raised text, is the value.\<close>

definition gh_comment :: "env \<Rightarrow> string \<Rightarrow> int \<Rightarrow> string \<Rightarrow> int exc act" where
  "gh_comment E repo n body =
     seq (only_if (issue_guard (e_gateway E) ''write'' repo n ''for comment'' = None \<and> py_strip body \<noteq> [])
            (emit (Sent_comment repo n body)))
         (ask (\<lambda>i. post_issue_comment repo n body (e_gateway E) (e_post E i)))"

definition gh_reopen :: "env \<Rightarrow> string \<Rightarrow> int \<Rightarrow> unit exc act" where
  "gh_reopen E repo n =
     seq (only_if (issue_guard (e_gateway E) ''write'' repo n ''to reopen'' = None) (emit (Sent_reopen repo n)))
         (ask (\<lambda>i. reopen_issue repo n (e_gateway E) (e_patch E i)))"

definition gh_patch :: "env \<Rightarrow> string option \<Rightarrow> string \<Rightarrow> int \<Rightarrow> string \<Rightarrow> unit exc act" where
  "gh_patch E token repo n body =
     seq (only_if (issue_guard token ''write'' repo n ''to patch issue body'' = None) (emit (Sent_patch repo n body)))
         (ask (\<lambda>i. patch_issue_body repo n body token (e_patch E i)))"

definition gh_body :: "env \<Rightarrow> string option \<Rightarrow> string \<Rightarrow> int \<Rightarrow> string exc act" where
  "gh_body E token repo n = ask (\<lambda>i. get_issue_body repo n token (e_get E i))"

definition gh_issue :: "env \<Rightarrow> string \<Rightarrow> int \<Rightarrow> (string \<times> string) exc act" where
  "gh_issue E repo n = ask (\<lambda>i. get_issue repo n (e_gateway E) (e_get E i))"

text \<open>\<open>_github_api_token\<close>: the gateway credential, an agent's PAT only without one.\<close>

definition present :: "string option \<Rightarrow> bool" where
  "present t \<longleftrightarrow> t \<noteq> None \<and> t \<noteq> Some []"

definition github_api_token :: "env \<Rightarrow> string option" where
  "github_api_token E = (if present (e_gateway E) then e_gateway E
     else if present (e_claude E) then e_claude E else e_grok E)"

text \<open>\<open>supervisor.ensure_session\<close> on the shared store.\<close>

definition ensure_runner ::
  "env \<Rightarrow> string \<Rightarrow> string \<Rightarrow> int \<Rightarrow> string option \<Rightarrow> string option \<Rightarrow> unit act" where
  "ensure_runner E k repo n al dl =
     bnd (ask (e_host E)) (\<lambda>H. bnd (now_s E) (\<lambda>t l.
       case ensure_session H t (e_cap E) (e_root E) (arch_default (cfg E)) (dev_default (cfg E)) k repo n al dl (db l) of
         (st, r) \<Rightarrow> (l\<lparr>db := st\<rparr>, map_sum id (\<lambda>_. ()) r)))"

section \<open>Reasoning about handlers\<close>

text \<open>
  \<open>holds P m Q X\<close>: from a state with \<open>P\<close>, a value comes with \<open>Q\<close> and a raised exception leaves \<open>X\<close>.
  \<open>keeps R m\<close>: whatever happens, the states before and after are related.
\<close>

definition holds :: "(loop \<Rightarrow> bool) \<Rightarrow> 'a act \<Rightarrow> ('a \<Rightarrow> loop \<Rightarrow> bool) \<Rightarrow> (loop \<Rightarrow> bool) \<Rightarrow> bool" where
  "holds P m Q X \<longleftrightarrow> (\<forall>l. P l \<longrightarrow> (case m l of (l', Inr x) \<Rightarrow> Q x l' | (l', Inl _) \<Rightarrow> X l'))"

definition keeps :: "(loop \<Rightarrow> loop \<Rightarrow> bool) \<Rightarrow> 'a act \<Rightarrow> bool" where
  "keeps R m \<longleftrightarrow> (\<forall>l. R l (fst (m l)))"

named_theorems keeps_intros
named_theorems act_defs

lemmas [act_defs] = ret_def fail_def bnd_def catch_def attempt_def reads_def modify_def ask_def only_if_def of_exc_def
  need_def now_f_def now_s_def on_db_def sql_def sql_try_def from_db_def emit_def set_status_def
  set_fields_def gh_comment_def gh_reopen_def gh_patch_def gh_body_def gh_issue_def

lemma keepsD: "keeps R m \<Longrightarrow> m l = (l', r) \<Longrightarrow> R l l'"
  by (metis keeps_def fst_conv)

lemma holdsI: "(\<And>l l' x. P l \<Longrightarrow> m l = (l', Inr x) \<Longrightarrow> Q x l') \<Longrightarrow>
    (\<And>l l' e. P l \<Longrightarrow> m l = (l', Inl e) \<Longrightarrow> X l') \<Longrightarrow> holds P m Q X"
  by (auto simp: holds_def split: prod.split sum.split)

lemma holdsD: "holds P m Q X \<Longrightarrow> P l \<Longrightarrow> m l = (l', Inr x) \<Longrightarrow> Q x l'"
  by (force simp: holds_def)

lemma holdsX: "holds P m Q X \<Longrightarrow> P l \<Longrightarrow> m l = (l', Inl e) \<Longrightarrow> X l'"
  by (force simp: holds_def)

lemma holds_pre: "holds P m Q X \<Longrightarrow> (\<And>l. P' l \<Longrightarrow> P l) \<Longrightarrow> holds P' m Q X"
  by (simp add: holds_def)

lemma holds_post: "holds P m Q X \<Longrightarrow> (\<And>x l. Q x l \<Longrightarrow> Q' x l) \<Longrightarrow> (\<And>l. X l \<Longrightarrow> X' l) \<Longrightarrow> holds P m Q' X'"
  by (force simp: holds_def split: prod.splits sum.splits)

lemma holds_bnd: "holds P m Q X \<Longrightarrow> (\<And>x. holds (Q x) (f x) Q' X) \<Longrightarrow> holds P (bnd m f) Q' X"
  by (fastforce simp: holds_def bnd_def split: prod.splits sum.splits)

lemma holds_catch: "holds P m Q Y \<Longrightarrow> (\<And>e. holds Y (h e) Q X) \<Longrightarrow> holds P (catch m h) Q X"
  by (fastforce simp: holds_def catch_def split: prod.splits sum.splits)

lemma holds_attempt:
  "holds P m Q Y \<Longrightarrow> holds P (attempt m) (\<lambda>r l. case r of Inl _ \<Rightarrow> Y l | Inr x \<Rightarrow> Q x l) X"
  by (fastforce simp: holds_def attempt_def split: prod.splits sum.splits)

lemma holds_ret: "(\<And>l. P l \<Longrightarrow> Q x l) \<Longrightarrow> holds P (ret x) Q X"
  by (simp add: holds_def ret_def)

lemma holds_fail: "(\<And>l. P l \<Longrightarrow> X l) \<Longrightarrow> holds P (fail e) Q X"
  by (simp add: holds_def fail_def)

lemma holds_reads: "holds (\<lambda>l. \<forall>x. x = f l \<longrightarrow> Q x l) (reads f) Q X"
  by (simp add: holds_def reads_def)

lemma holds_if: "(b \<Longrightarrow> holds P m Q X) \<Longrightarrow> (\<not> b \<Longrightarrow> holds P n Q X) \<Longrightarrow> holds P (if b then m else n) Q X"
  by simp

lemma holds_keeps:
  assumes "keeps R m" "\<And>l l'. P l \<Longrightarrow> R l l' \<Longrightarrow> Y l'"
  shows "holds P m (\<lambda>_. Y) Y"
  using assms by (force simp: holds_def keeps_def split: prod.split sum.split)

text \<open>
  The interface of the frame proofs: a preorder on the loop's states that the primitive steps keep.
  What is built from them with the combinators keeps it too.
\<close>

locale loop_frame =
  fixes R :: "loop \<Rightarrow> loop \<Rightarrow> bool"
  assumes R_refl: "R l l" and R_trans: "R l l1 \<Longrightarrow> R l1 l2 \<Longrightarrow> R l l2"
    and R_tick: "R l (l\<lparr>tick := n\<rparr>)"
begin

lemma keeps_ret: "keeps R (ret x)"
  by (simp add: keeps_def ret_def R_refl)

lemma keeps_fail: "keeps R (fail e)"
  by (simp add: keeps_def fail_def R_refl)

lemma keeps_bnd:
  assumes "keeps R m" "\<And>x. keeps R (f x)"
  shows "keeps R (bnd m f)"
  unfolding keeps_def
proof
  fix l
  obtain l' r where m: "m l = (l', r)" by fastforce
  show "R l (fst (bnd m f l))"
  proof (cases r)
    case (Inl e)
    with m keepsD [OF assms(1) m] show ?thesis by (simp add: bnd_def)
  next
    case (Inr x)
    have "R l' (fst (f x l'))" using assms(2) [of x] by (simp add: keeps_def)
    with m Inr R_trans [OF keepsD [OF assms(1) m]] show ?thesis by (simp add: bnd_def)
  qed
qed

lemma keeps_catch:
  assumes "keeps R m" "\<And>e. keeps R (h e)"
  shows "keeps R (catch m h)"
  unfolding keeps_def
proof
  fix l
  obtain l' r where m: "m l = (l', r)" by fastforce
  show "R l (fst (catch m h l))"
  proof (cases r)
    case (Inr x)
    with m keepsD [OF assms(1) m] show ?thesis by (simp add: catch_def)
  next
    case (Inl e)
    have "R l' (fst (h e l'))" using assms(2) [of e] by (simp add: keeps_def)
    with m Inl R_trans [OF keepsD [OF assms(1) m]] show ?thesis by (simp add: catch_def)
  qed
qed

lemma keeps_attempt: "keeps R m \<Longrightarrow> keeps R (attempt m)"
  by (simp add: keeps_def attempt_def split: prod.split) (metis fst_conv)

lemma keeps_reads: "keeps R (reads f)"
  by (simp add: keeps_def reads_def R_refl)

lemma keeps_ask: "keeps R (ask f)"
  by (simp add: keeps_def ask_def R_tick)

lemma keeps_modify: "(\<And>l. R l (f l)) \<Longrightarrow> keeps R (modify f)"
  by (simp add: keeps_def modify_def)

lemma keeps_only_if: "keeps R m \<Longrightarrow> keeps R (only_if b m)"
  by (simp add: only_if_def keeps_ret)

lemma keeps_if: "keeps R m \<Longrightarrow> keeps R n \<Longrightarrow> keeps R (if b then m else n)"
  by simp

lemma keeps_option: "keeps R m \<Longrightarrow> (\<And>x. keeps R (f x)) \<Longrightarrow> keeps R (case v of None \<Rightarrow> m | Some x \<Rightarrow> f x)"
  by (cases v) simp_all

lemma keeps_sum: "(\<And>x. keeps R (g x)) \<Longrightarrow> (\<And>x. keeps R (f x)) \<Longrightarrow> keeps R (case v of Inl x \<Rightarrow> g x | Inr x \<Rightarrow> f x)"
  by (cases v) simp_all

lemma keeps_prod: "(\<And>x y. keeps R (f x y)) \<Longrightarrow> keeps R (case v of (x, y) \<Rightarrow> f x y)"
  by (cases v) simp_all

lemma keeps_of_exc: "keeps R (of_exc r)"
  by (cases r) (simp_all add: of_exc_def keeps_ret keeps_fail)

lemma keeps_need: "keeps R (need x w)"
  by (cases x) (simp_all add: need_def keeps_ret keeps_fail)

lemma keeps_each: "(\<And>x. x \<in> set xs \<Longrightarrow> keeps R (f x)) \<Longrightarrow> keeps R (each f xs)"
  by (induction xs) (auto intro: keeps_ret keeps_bnd)

lemma keeps_from_db: "keeps R (from_db f)"
  by (simp add: from_db_def keeps_reads)

lemma keeps_now: "keeps R (now_f E)" "keeps R (now_s E)"
  by (simp_all add: now_f_def now_s_def keeps_ask)

lemma keeps_sql: "(\<And>t. keeps R (on_db (f t))) \<Longrightarrow> keeps R (sql E f)"
  by (simp add: sql_def keeps_bnd keeps_now)

lemma keeps_gh_reads: "keeps R (gh_body E tk repo n)" "keeps R (gh_issue E repo n)"
  by (simp_all add: gh_body_def gh_issue_def keeps_ask)

lemmas keeps_rules = keeps_ret keeps_fail keeps_bnd keeps_catch keeps_attempt keeps_reads keeps_ask keeps_only_if keeps_if
  keeps_option keeps_sum keeps_prod keeps_of_exc keeps_need keeps_each keeps_from_db keeps_now keeps_sql
  keeps_gh_reads

end

end
