(* ===== verification/Loop_Events.thy ===== *)
theory Loop_Events
  imports Loop_World Store_Facts
begin

text \<open>
  What the session loop reads out of a delivery (\<open>agentd/src/agentd/session_loop.py\<close>, the helpers
  before and after the class's handlers, and \<open>digest.py\<close>): which session it belongs to, which
  normalised kind it is, who its recipient is, and the digest of an agent's turn.
\<close>

section \<open>Payload fields\<close>

definition payload_dict :: "json option \<Rightarrow> dict" where
  "payload_dict raw = (case raw of Some (JObj d) \<Rightarrow> d | _ \<Rightarrow> [])"

definition opt_nonempty :: "string \<Rightarrow> string option" where
  "opt_nonempty s = (if s = [] then None else Some s)"

definition pr_author_login :: "string \<Rightarrow> dict \<Rightarrow> string option" where
  "pr_author_login event data =
     (if event \<in> {''pull_request_review'', ''pull_request_review_comment''}
      then opt_nonempty (str_or_empty (dget2 (json_obj (dget data ''pull_request'')) ''user'' ''login''))
      else if event = ''issue_comment''
      then (let issue = json_obj (dget data ''issue'') in
            if \<not> is_obj (dget issue ''pull_request'') then None
            else opt_nonempty (str_or_empty (dget2 issue ''user'' ''login'')))
      else None)"

definition pr_events :: "string list" where
  "pr_events = [''pull_request'', ''pull_request_review'', ''pull_request_review_comment'',
     ''pull_request_review_thread'']"

definition pr_number_from_payload :: "string \<Rightarrow> dict \<Rightarrow> int \<Rightarrow> int option" where
  "pr_number_from_payload event data issue_num =
     (if event \<in> set pr_events
      then json_int (py_or (dget2 data ''pull_request'' ''number'') (JNum issue_num))
      else if event = ''issue_comment''
      then (let issue = json_obj (dget data ''issue'') in
            if \<not> is_obj (dget issue ''pull_request'') then None else json_int (dget issue ''number''))
      else None)"

definition payload_head_sha :: "dict \<Rightarrow> string option" where
  "payload_head_sha data =
     opt_nonempty (str_or_empty (dget2 (json_obj (dget data ''pull_request'')) ''head'' ''sha''))"

section \<open>The session of a delivery\<close>

definition head_ref_of :: "dict \<Rightarrow> string option" where
  "head_ref_of pr = (let r = dget2 pr ''head'' ''ref'' in if truthy r then Some (py_str r) else None)"

text \<open>The PR number a PR-keyed event carries; None for an event keyed by its issue.\<close>

definition keyed_pr :: "string \<Rightarrow> int \<Rightarrow> dict \<Rightarrow> int option" where
  "keyed_pr event issue_num data =
     (if event = ''issue_comment''
      then (let issue = json_obj (dget data ''issue'') in
            if is_obj (dget issue ''pull_request'') then json_int (dget issue ''number'') else None)
      else if event \<in> set pr_events
      then Some (case json_int (py_or (dget2 data ''pull_request'' ''number'') (JNum issue_num)) of
             None \<Rightarrow> issue_num | Some n \<Rightarrow> n)
      else None)"

definition resolve_session ::
  "string \<Rightarrow> string \<Rightarrow> int \<Rightarrow> dict \<Rightarrow> store \<Rightarrow> int \<times> string \<times> session_row option" where
  "resolve_session event repo issue_num data st =
     (let here = (\<lambda>n. (n, session_key_of repo n, get_session (session_key_of repo n) st));
          row = (\<lambda>s. (s_issue s, session_key s, Some s)) in
      case (if event \<in> set pr_events
            then parse_role_branch (head_ref_of (json_obj (dget data ''pull_request''))) repo else None) of
        Some (n, _) \<Rightarrow> here n
      | None \<Rightarrow>
          (case keyed_pr event issue_num data of
             None \<Rightarrow> here issue_num
           | Some pr \<Rightarrow>
               if get_session (session_key_of repo issue_num) st \<noteq> None then here issue_num
               else (case get_session_by_design_pr repo pr st of
                   Some s \<Rightarrow> row s
                 | None \<Rightarrow> (case get_session_by_feature_pr repo pr st of
                     Some s \<Rightarrow> row s | None \<Rightarrow> here issue_num))))"

section \<open>The kind of a delivery\<close>

text \<open>
  \<open>_is_design_pr\<close> and \<open>_is_feature_pr\<close> on a PR that is an object; another truthy value has no
  \<open>get\<close> and raises.
\<close>

definition is_design_pr :: "string \<Rightarrow> dict \<Rightarrow> bool" where
  "is_design_pr repo pr =
     (let head_ref = str_or_empty (dget2 pr ''head'' ''ref'');
          title = py_lower (str_or_empty (dget pr ''title''));
          title_hit = (contains ''design'' title \<or> contains ''rfc'' title) in
      case parse_role_branch (Some head_ref) repo of
        Some (_, role) \<Rightarrow> if role = ''developer'' then False
          else is_design_head_ref (Some head_ref) repo \<or> title_hit
      | None \<Rightarrow> title_hit)"

definition is_feature_pr :: "string \<Rightarrow> dict \<Rightarrow> bool" where
  "is_feature_pr repo pr = is_feature_head_ref (Some (str_or_empty (dget2 pr ''head'' ''ref''))) repo"

definition plain_kind :: "string \<Rightarrow> string option \<Rightarrow> event_kind" where
  "plain_kind event act =
     Other_kind (event @ ''.'' @ (case act of None \<Rightarrow> ''none'' | Some a \<Rightarrow> or_default a ''none''))"

definition pull_request_kind :: "string \<Rightarrow> string option \<Rightarrow> dict \<Rightarrow> event_kind option" where
  "pull_request_kind repo act pr =
     (let is_design = is_design_pr repo pr; is_feature = is_feature_pr repo pr;
          merged = truthy (dget pr ''merged'') in
      if act = Some ''opened'' \<and> is_design then Some K_design_pr_opened
      else if act = Some ''opened'' \<and> is_feature then Some K_feature_pr_opened
      else if act = Some ''synchronize'' \<and> is_design then Some K_design_revised
      else if act = Some ''synchronize'' \<and> is_feature then Some K_feature_revised
      else if act = Some ''closed'' \<and> merged \<and> is_design then Some K_design_merged
      else if act = Some ''closed'' \<and> merged \<and> is_feature then Some K_feature_merged
      else None)"

definition review_kind :: "string \<Rightarrow> dict \<Rightarrow> dict \<Rightarrow> event_kind option" where
  "review_kind repo review pr =
     (let st = py_upper (str_or_empty (dget review ''state''));
          is_design = is_design_pr repo pr; is_feature = is_feature_pr repo pr in
      if st = ''CHANGES_REQUESTED'' \<and> is_feature then Some K_code_changes_requested
      else if st = ''CHANGES_REQUESTED'' \<and> is_design then Some K_design_changes_requested
      else if st = ''APPROVED'' \<and> is_feature then Some K_feature_approved_unverified
      else if st = ''APPROVED'' \<and> is_design then Some K_design_approved_unverified
      else None)"

definition event_kind_of ::
  "string \<Rightarrow> string \<Rightarrow> string option \<Rightarrow> dict \<Rightarrow> string \<Rightarrow> string \<Rightarrow> event_kind exc" where
  "event_kind_of ow event act data sender repo =
     (let plain = plain_kind event act in
      if event = ''issues'' \<and> act \<in> Some ` {''opened'', ''reopened'', ''labeled''} then Inr K_issue_opened
      else if event = ''pull_request''
      then bind_exc (sub_obj data ''pull_request'') (\<lambda>pr.
             Inr (case pull_request_kind repo act pr of None \<Rightarrow> plain | Some k \<Rightarrow> k))
      else if event = ''pull_request_review''
      then bind_exc (sub_obj data ''review'') (\<lambda>review. bind_exc (sub_obj data ''pull_request'') (\<lambda>pr.
             Inr (case review_kind repo review pr of None \<Rightarrow> plain | Some k \<Rightarrow> k)))
      else if event = ''issue_comment'' \<and> act = Some ''created'' \<and> py_lower sender = py_lower ow
      then Inr K_owner_reply
      else Inr plain)"

definition observed_progress_kinds :: "event_kind list" where
  "observed_progress_kinds = [K_issue_opened, K_design_pr_opened, K_design_revised,
     K_design_changes_requested, K_design_approved, K_design_merged, K_feature_pr_opened,
     K_feature_revised, K_code_changes_requested, K_merge_authorized, K_feature_merged, K_owner_reply]"

definition merge_kinds :: "event_kind list" where
  "merge_kinds = [K_design_merged, K_feature_merged]"

definition pick_recipient :: "event_kind \<Rightarrow> string \<Rightarrow> string \<Rightarrow> string \<Rightarrow> string \<times> string" where
  "pick_recipient kind architect developer sender =
     (if kind \<in> {K_issue_opened, K_design_changes_requested, K_design_approved, K_merge_design,
           K_feature_pr_opened, K_feature_revised, K_feature_merged}
      then (''architect'', architect)
      else if kind \<in> {K_design_pr_opened, K_design_revised, K_design_merged, K_code_changes_requested,
           K_merge_authorized, K_feature_approved_unverified}
      then (''developer'', developer)
      else if py_lower sender = py_lower architect then (''developer'', developer)
      else (''architect'', architect))"

text \<open>\<open>_may_create_session\<close>; the \<open>AttributeError\<close> of a non-object payload is \<open>Inl\<close>.\<close>

definition may_create_session ::
  "config \<Rightarrow> string \<Rightarrow> string option \<Rightarrow> json option \<Rightarrow> bool exc" where
  "may_create_session c event act payload =
     (case evaluate_intake event act payload c of
        Inl _ \<Rightarrow> Inl ''AttributeError''
      | Inr None \<Rightarrow> Inr False
      | Inr (Some r) \<Rightarrow> Inr (accepted r))"

section \<open>Turn statuses and holds\<close>

definition known_turn_statuses :: "string list" where
  "known_turn_statuses = [''done'', ''failed'', ''role_busy'', ''gateway_timeout'', ''needs_human'',
     ''quota_exhausted'']"

definition normalize_turn_status :: "string \<Rightarrow> string" where
  "normalize_turn_status s = (if s \<in> set known_turn_statuses then s else ''failed'')"

definition role_key :: "string \<Rightarrow> string \<Rightarrow> string" where
  "role_key project_key role = project_key @ ''::'' @ role"

definition close_reconcile_prefix :: string where
  "close_reconcile_prefix = ''close-reconcile:''"

definition close_reconcile_held :: "fsm_state \<Rightarrow> session_row \<Rightarrow> bool" where
  "close_reconcile_held state s \<longleftrightarrow>
     state = PAUSED_HUMAN \<and> starts_with (opt_str (s_paused s)) close_reconcile_prefix"

definition is_paused :: "session_row \<Rightarrow> bool" where
  "is_paused s \<longleftrightarrow> s_state s = PAUSED_HUMAN \<or> opt_str (s_paused s) \<noteq> []"

definition is_rpc_timeout :: "string \<Rightarrow> bool \<Rightarrow> bool" where
  "is_rpc_timeout text timeout_error \<longleftrightarrow> timeout_error \<or> contains ''timed out'' (py_lower text)"

text \<open>The head watermark a kind takes, as the column and its writer.\<close>

datatype watermark = Design_head | Feature_head

definition head_wm :: "event_kind \<Rightarrow> watermark option" where
  "head_wm k =
     (if k \<in> {K_design_pr_opened, K_design_revised} then Some Design_head
      else if k \<in> {K_feature_pr_opened, K_feature_revised} then Some Feature_head else None)"

fun wm_value :: "watermark \<Rightarrow> session_row \<Rightarrow> string option" where
  "wm_value Design_head s = s_design_head s"
| "wm_value Feature_head s = s_feature_head s"

fun wm_field :: "watermark \<Rightarrow> string option \<Rightarrow> session_field" where
  "wm_field Design_head v = F_design_pr_head v"
| "wm_field Feature_head v = F_feature_pr_head v"

fun wm_set :: "watermark \<Rightarrow> string option \<Rightarrow> session_row \<Rightarrow> session_row" where
  "wm_set Design_head v s = s\<lparr>s_design_head := v\<rparr>"
| "wm_set Feature_head v s = s\<lparr>s_feature_head := v\<rparr>"

section \<open>The digest\<close>

text \<open>\<open>d[k] = v\<close>: a present key keeps its place.\<close>

fun dset :: "dict \<Rightarrow> string \<Rightarrow> json \<Rightarrow> dict" where
  "dset [] k v = [(k, v)]"
| "dset ((k', v') # d) k v = (if k' = k then (k, v) # d else (k', v') # dset d k v)"

definition opt_json :: "string option \<Rightarrow> json" where
  "opt_json x = (case x of None \<Rightarrow> JNull | Some s \<Rightarrow> JStr s)"

definition len_of :: "json \<Rightarrow> int" where
  "len_of j = (case j of JStr s \<Rightarrow> int (length s) | JArr xs \<Rightarrow> int (length xs) | JObj d \<Rightarrow> int (length d) | _ \<Rightarrow> 0)"

definition digest_pr :: "dict \<Rightarrow> dict" where
  "digest_pr data =
     (case dget data ''pull_request'' of
        JObj pr \<Rightarrow> [(''pr'', dget pr ''number''), (''pr_url'', dget pr ''html_url''),
          (''head_sha'', dget2 pr ''head'' ''sha''), (''head_ref'', dget2 pr ''head'' ''ref''),
          (''title'', dget pr ''title'')]
      | _ \<Rightarrow> [])"

definition digest_issue :: "dict \<Rightarrow> dict" where
  "digest_issue data =
     (case dget data ''issue'' of
        JObj i \<Rightarrow> [(''issue_url'', dget i ''html_url''), (''title'', dget i ''title''),
          (''labels'', JArr (case dget i ''labels'' of
             JArr ls \<Rightarrow> map (\<lambda>x. case x of JObj d \<Rightarrow> dget d ''name'' | _ \<Rightarrow> JStr (py_str x)) ls | _ \<Rightarrow> []))]
      | _ \<Rightarrow> [])"

definition digest_comment :: "dict \<Rightarrow> dict" where
  "digest_comment data =
     (case dget data ''comment'' of
        JObj c \<Rightarrow> [(''comment_id'', dget c ''id''), (''comment_url'', dget c ''html_url''),
          (''comment_chars'', JNum (len_of (py_or (dget c ''body'') (JStr []))))]
      | _ \<Rightarrow> [])"

definition digest_review :: "string \<Rightarrow> dict \<Rightarrow> dict" where
  "digest_review event data =
     (case dget data ''review'' of
        JObj r \<Rightarrow> [(''review_state'', dget r ''state''), (''review_id'', dget r ''id'')] @
          (if event = ''pull_request_review'' \<and> dget r ''id'' \<noteq> JNull
           then [(''review_comments'', JStr (''refs: pulls/{pr}/reviews/'' @ py_str (dget r ''id'') @ ''/comments''))]
           else [])
      | _ \<Rightarrow> [])"

definition digest_stall :: "dict \<Rightarrow> dict" where
  "digest_stall data =
     concat (map (\<lambda>k. if has_key data k then [(k, dget data k)] else [])
       [''open_thread_ids'', ''unresolved_count'', ''threads_resolved'', ''diff_stat''])"

definition build_digest :: "string \<Rightarrow> string option \<Rightarrow> string \<Rightarrow> int \<Rightarrow> string \<Rightarrow> dict \<Rightarrow> dict" where
  "build_digest event act repo issue_num sender data =
     fold (\<lambda>(k, v) d. dset d k v)
       (digest_pr data @ digest_issue data @ digest_comment data @ digest_review event data @ digest_stall data)
       [(''kind'', JStr (case act of None \<Rightarrow> event | Some a \<Rightarrow> if a = [] then event else event @ ''.'' @ a)),
        (''repo'', JStr repo), (''issue'', JNum issue_num), (''actor'', JStr sender)]"

section \<open>Facts\<close>

lemma has_key_dset: "has_key (dset d k v) j \<longleftrightarrow> j = k \<or> has_key d j"
  by (induction d k v rule: dset.induct) auto

lemma dget_dset [simp]: "dget (dset d k v) j = (if j = k then v else dget d j)"
  by (induction d k v rule: dset.induct) auto

lemma latest_session_mem: "latest_session xs = Some s \<Longrightarrow> s \<in> set xs"
  by (auto simp: latest_session_def split: list.splits dest: arg_cong [where f = set])

lemma find_distinct:
  "distinct (map f xs) \<Longrightarrow> x \<in> set xs \<Longrightarrow> find (\<lambda>y. f y = f x) xs = Some x"
  by (induction xs) (auto simp: rev_image_eqI)

lemma get_session_mem:
  assumes "wf_store st" "s \<in> set (sessions st)"
  shows "get_session (session_key s) st = Some s"
  using assms find_distinct [of session_key "sessions st" s]
  by (simp add: wf_store_def get_session_def find_key_def)

text \<open>The row a delivery is resolved to is the row of the key it is resolved to.\<close>

lemma resolve_session_row:
  assumes "resolve_session event repo n data st = (i, k, s)" "wf_store st"
  shows "s = get_session k st"
proof -
  have row: "get_session (session_key r) st = Some r"
    if "Some r = get_session_by_design_pr repo p st \<or> Some r = get_session_by_feature_pr repo p st" for r p
    using that assms(2)
    by (auto simp: get_session_by_design_pr_def get_session_by_feature_pr_def
        dest!: sym [of "Some r"] latest_session_mem intro: get_session_mem)
  from assms(1) show ?thesis
    by (auto simp: resolve_session_def Let_def split: option.splits if_splits prod.splits) (metis row)+
qed

end
