(* ===== verification/Closing_Keywords.thy ===== *)
theory Closing_Keywords
  imports Regex
begin

text \<open>
  Rewriting of GitHub closing keywords aimed at session issues
  (\<open>agentd/src/agentd/closing_keywords.py\<close>).  The pattern's alternations are unfolded, in the order
  the engine tries them, into a list of atom sequences; \<open>IGNORECASE\<close> is on ASCII letters.
\<close>

section \<open>The pattern\<close>

definition ci :: "char \<Rightarrow> rx_atom" where
  "ci c = One (\<lambda>x. lower_char x = c) None"

definition kw_variants :: "(rx_atom list \<times> nat) list" where
  "kw_variants =
     [(map ci ''close'' @ [One (\<lambda>x. lower_char x \<in> {CHR ''s'', CHR ''d''}) None], 6),
      (map ci ''close'', 5),
      (map ci ''fixe'' @ [One (\<lambda>x. lower_char x \<in> {CHR ''s'', CHR ''d''}) None], 5),
      (map ci ''fix'', 3),
      (map ci ''resolve'' @ [One (\<lambda>x. lower_char x \<in> {CHR ''s'', CHR ''d''}) None], 8),
      (map ci ''resolve'', 7)]"

text \<open>\<open>\s*:?\s*\<close>, the colon first.\<close>

definition sep_variants :: "rx_atom list list" where
  "sep_variants =
     [[Rep is_space 0 True (Some ''sep''), One (\<lambda>x. x = CHR '':'') (Some ''sep''), Rep is_space 0 True (Some ''sep'')],
      [Rep is_space 0 True (Some ''sep''), Rep is_space 0 True (Some ''sep'')]]"

definition is_name :: "char \<Rightarrow> bool" where
  "is_name c \<longleftrightarrow> is_word c \<or> c = CHR ''.'' \<or> c = CHR ''-''"

abbreviation name1 :: rx_atom where "name1 \<equiv> Rep is_name 1 True None"
abbreviation digits1 :: rx_atom where "digits1 \<equiv> Rep is_digit 1 True None"

definition url_host :: string where
  "url_host = ''https://github.com/''"

definition ref_variants :: "rx_atom list list" where
  "ref_variants =
     [[Lit ''#'', digits1],
      [name1, Lit ''/'', name1, Lit ''#'', digits1],
      map ci url_host @ [name1, Lit ''/'', name1] @ map ci ''/issues/'' @ [digits1]]"

definition kw_patterns :: "(nat \<times> rx_atom list) list" where
  "kw_patterns = concat (map (\<lambda>(kw, n). concat (map (\<lambda>sp. map (\<lambda>ref. (n, kw @ sp @ ref)) ref_variants)
     sep_variants)) kw_variants)"

text \<open>A match at the start: the groups \<open>sep\<close> and \<open>ref\<close>, the whole match, the rest.\<close>

definition kw_match :: "string \<Rightarrow> (string \<times> string \<times> string \<times> string) option" where
  "kw_match s = first_some (\<lambda>(n, p). map_option (\<lambda>(m, caps, t).
     let k = length (concat (map snd caps)) in (take k (drop n m), drop (n + k) m, m, t)) (match_text p s))
     kw_patterns"

section \<open>The reference and the rewrite\<close>

text \<open>The three \<open>fullmatch\<close> forms of \<open>_issue_num\<close>; a qualified form must name this repository.\<close>

definition whole :: "rx_atom list \<Rightarrow> string \<Rightarrow> captures option" where
  "whole p s = (case match_at p s of Some (caps, []) \<Rightarrow> Some caps | _ \<Rightarrow> None)"

definition named :: "string \<Rightarrow> rx_atom" where
  "named g = Rep is_name 1 True (Some g)"

definition issue_num :: "string \<Rightarrow> string \<Rightarrow> int option" where
  "issue_num ref repo =
     (let dgts = Rep is_digit 1 True (Some ''n'');
          read = (\<lambda>caps. Option.bind (map_of caps ''n'') py_int);
          qualified = (\<lambda>caps. if py_lower (the (map_of caps ''o'') @ ''/'' @ the (map_of caps ''r'')) \<noteq> py_lower repo
            then None else read caps) in
      case whole [Lit ''#'', dgts] ref of
        Some caps \<Rightarrow> read caps
      | None \<Rightarrow>
          (case whole [named ''o'', Lit ''/'', named ''r'', Lit ''#'', dgts] ref of
             Some caps \<Rightarrow> qualified caps
           | None \<Rightarrow>
               (case whole (map ci url_host @ [named ''o'', Lit ''/'', named ''r''] @ map ci ''/issues/'' @ [dgts]) ref of
                  Some caps \<Rightarrow> qualified caps
                | None \<Rightarrow> None)))"

definition aimed :: "int list \<Rightarrow> string \<Rightarrow> string \<Rightarrow> bool" where
  "aimed session_issues repo ref =
     (case issue_num ref repo of None \<Rightarrow> False | Some n \<Rightarrow> n \<in> set session_issues)"

text \<open>
  The scan of \<open>_PAT.sub\<close>: leftmost matches not preceded by a letter.  Each piece is a character kept
  (\<open>Inl\<close>) or a match.
\<close>

definition is_letter :: "char \<Rightarrow> bool" where
  "is_letter c \<longleftrightarrow> is_upper_ascii c \<or> is_lower_ascii c"

lemma kw_match_split: "kw_match s = Some (sp, ref, m, t) \<Longrightarrow> s = m @ t \<and> m \<noteq> []"
proof -
  assume "kw_match s = Some (sp, ref, m, t)"
  then obtain n p caps where p: "(n, p) \<in> set kw_patterns" and m: "match_text p s = Some (m, caps, t)"
    by (auto simp: kw_match_def Let_def dest!: first_some_SomeD)
  have "\<exists>c q. p = ci c # q"
    using p by (auto simp: kw_patterns_def kw_variants_def ref_variants_def sep_variants_def)
  then obtain c q where q: "p = ci c # q" by blast
  from match_text_split [OF m] have s: "s = m @ t" "match_at p s = Some (caps, t)" by auto
  have "length t < length s"
  proof (cases s)
    case Nil
    with s(2) q show ?thesis by (simp add: ci_def match_at.simps(2))
  next
    case (Cons x xs)
    with s(2) q have "match_at q xs = Some (caps, t)"
      by (auto simp: ci_def match_at.simps(2) split: if_splits)
    from match_at_suffix [OF this] Cons show ?thesis by auto
  qed
  with s(1) show ?thesis by auto
qed

function kw_scan :: "bool \<Rightarrow> string \<Rightarrow> (char + (string \<times> string \<times> string)) list" where
  "kw_scan after_letter [] = []"
| "kw_scan after_letter (c # cs) =
     (case if after_letter then None else kw_match (c # cs) of
        None \<Rightarrow> Inl c # kw_scan (is_letter c) cs
      | Some (sp, ref, m, t) \<Rightarrow> Inr (sp, ref, m) # kw_scan (is_letter (last m)) t)"
  by pat_completeness auto

termination kw_scan
proof (relation "measure (length \<circ> snd)")
  fix b c cs a sp y ref z m t
  assume "(if b then None else kw_match (c # cs)) = Some a" "(sp, y) = a" "(ref, z) = y" "(m, t) = z"
  then have "kw_match (c # cs) = Some (sp, ref, m, t)" by (auto split: if_splits)
  note s = kw_match_split [OF this]
  then have "length (c # cs) = length m + length t" by (metis length_append)
  moreover have "length m > 0" using s by simp
  ultimately have "length t < length (c # cs)" by simp
  then show "((is_letter (last m), t), b, c # cs) \<in> measure (length \<circ> snd)" by simp
qed simp_all

definition rewrite_piece :: "int list \<Rightarrow> string \<Rightarrow> char + (string \<times> string \<times> string) \<Rightarrow> string" where
  "rewrite_piece issues repo p =
     (case p of
        Inl c \<Rightarrow> [c]
      | Inr (sp, ref, m) \<Rightarrow> if aimed issues repo ref then ''Refs'' @ sp @ ref else m)"

definition piece_aimed :: "int list \<Rightarrow> string \<Rightarrow> char + (string \<times> string \<times> string) \<Rightarrow> bool" where
  "piece_aimed issues repo p = (case p of Inl _ \<Rightarrow> False | Inr (_, ref, _) \<Rightarrow> aimed issues repo ref)"

definition defuse_closing_keywords :: "string \<Rightarrow> int list \<Rightarrow> string \<Rightarrow> string option" where
  "defuse_closing_keywords body session_issues repo =
     (if body = [] \<or> session_issues = [] then None
      else let ps = kw_scan False body in
        if list_ex (piece_aimed session_issues repo) ps
        then Some (concat (map (rewrite_piece session_issues repo) ps)) else None)"

section \<open>Facts\<close>

definition piece_text :: "char + (string \<times> string \<times> string) \<Rightarrow> string" where
  "piece_text p = (case p of Inl c \<Rightarrow> [c] | Inr (_, _, m) \<Rightarrow> m)"

text \<open>The scan loses nothing: its pieces spell the body.\<close>

lemma kw_scan_spells: "concat (map piece_text (kw_scan b s)) = s"
proof (induction b s rule: kw_scan.induct)
  case (2 b c cs)
  show ?case
  proof (cases "if b then None else kw_match (c # cs)")
    case None
    with 2(1) [OF None] show ?thesis by (simp add: piece_text_def)
  next
    case (Some a)
    then obtain sp ref m t where a: "a = (sp, ref, m, t)" by (cases a)
    with Some have "kw_match (c # cs) = Some (sp, ref, m, t)" by (auto split: if_splits)
    from kw_match_split [OF this] have cs: "c # cs = m @ t" by simp
    have "concat (map piece_text (kw_scan (is_letter (last m)) t)) = t"
      using 2(2) [OF Some] a by blast
    then have "concat (map piece_text (kw_scan b (c # cs))) = m @ t"
      using Some a by (simp add: piece_text_def)
    then show ?thesis by (simp only: cs)
  qed
qed simp

end
