(* ===== verification/Loop_Actions.thy ===== *)
theory Loop_Actions
  imports Loop_Events Closing_Keywords
begin

text \<open>
  The actions of the session loop that several handlers share (\<open>agentd/src/agentd/session_loop.py\<close>):
  escalation, bounded retries, structural refusals, the gates on pull requests, the stall observer
  and the dispatch of one agent turn.
\<close>

section \<open>Escalation and retries\<close>

text \<open>What \<open>get_session(k) or {}\<close> reads as: defaults for every field of a missing row.\<close>

definition blank_session :: "string \<Rightarrow> session_row" where
  "blank_session k = new_session \<lparr>sa_key = k, sa_repo = [], sa_issue = 0, sa_state = PLANNING,
     sa_architect = [], sa_developer = [], sa_created = 0, sa_updated = 0, sa_project = None,
     sa_paused = None, sa_locked = None, sa_design_pr = None, sa_turns = None, sa_consec = None,
     sa_rounds = None, sa_fp = None, sa_fp_repeat = None, sa_zero_threads = None\<rparr>"

definition session_or_blank :: "string \<Rightarrow> store \<Rightarrow> session_row" where
  "session_or_blank k st = (case get_session k st of None \<Rightarrow> blank_session k | Some s \<Rightarrow> s)"

fun state_name :: "fsm_state \<Rightarrow> string" where
  "state_name INTAKE = ''INTAKE''" | "state_name PLANNING = ''PLANNING''"
| "state_name DESIGN_REVIEW = ''DESIGN_REVIEW''" | "state_name DESIGN_REWORK = ''DESIGN_REWORK''"
| "state_name DESIGN_APPROVED = ''DESIGN_APPROVED''" | "state_name IMPLEMENTING = ''IMPLEMENTING''"
| "state_name PAUSED_HUMAN = ''PAUSED_HUMAN''" | "state_name FAILED = ''FAILED''"
| "state_name CODE_REVIEW = ''CODE_REVIEW''" | "state_name CODE_REWORK = ''CODE_REWORK''"
| "state_name MERGING = ''MERGING''" | "state_name AWAITING_VERIFICATION = ''AWAITING_VERIFICATION''"
| "state_name TEARDOWN = ''TEARDOWN''" | "state_name CLOSED = ''CLOSED''"

definition resume_or_planning :: "session_row \<Rightarrow> fsm_state" where
  "resume_or_planning s = (case s_resume s of None \<Rightarrow> PLANNING | Some r \<Rightarrow> r)"

definition paused_from :: "session_row \<Rightarrow> fsm_state" where
  "paused_from s = (if s_state s = PAUSED_HUMAN then resume_or_planning s else s_state s)"

definition escalate :: "env \<Rightarrow> string \<Rightarrow> string \<Rightarrow> string \<Rightarrow> string option \<Rightarrow> bool \<Rightarrow> unit act" where
  "escalate E k role why reply_does hold =
     bnd (from_db (session_or_blank k)) (\<lambda>s.
       if s_state s = CLOSED then ret ()
       else
         bnd (gh_comment E (s_repo s) (s_issue s)
                (format_escalation_comment (owner (cfg E)) k (state_name (paused_from s)) role why reply_does))
           (\<lambda>r.
             let why' = (case r of Inl e \<Rightarrow> why @ '' [comment_post_failed: '' @ e @ '']'' | Inr _ \<Rightarrow> why);
                 cid = (case r of Inl _ \<Rightarrow> None | Inr i \<Rightarrow> Some i);
                 stored = take 500 ((if hold then close_reconcile_prefix else []) @ why') in
             seq (sql E (\<lambda>t st. fst (open_escalation t k (Some role) why' cid st)))
                 (set_fields E k [F_state PAUSED_HUMAN, F_paused_reason (Some stored),
                    F_resume_state (Some (paused_from s))])))"

definition max_attempts :: int where
  "max_attempts = 5"

text \<open>True: stay deferred.  False: exhausted, escalated.\<close>

definition retry_or_give_up :: "env \<Rightarrow> string \<Rightarrow> string \<Rightarrow> string \<Rightarrow> string \<Rightarrow> string \<Rightarrow> bool act" where
  "retry_or_give_up E did k why tag suffix =
     bnd (reads (\<lambda>l. case tries l did of None \<Rightarrow> 1 | Some n \<Rightarrow> n + 1)) (\<lambda>n.
       if n < max_attempts then seq (modify (\<lambda>l. l\<lparr>tries := (tries l)(did \<mapsto> n)\<rparr>)) (ret True)
       else seq (modify (\<lambda>l. l\<lparr>tries := (tries l)(did := None)\<rparr>))
         (seq (escalate E k ''system''
                (tag @ '' still failing after '' @ dec n @ '' attempts: '' @ why @ suffix) None False)
            (ret False)))"

definition dispatch_retry_or_give_up :: "env \<Rightarrow> string \<Rightarrow> string \<Rightarrow> string \<Rightarrow> bool act" where
  "dispatch_retry_or_give_up E did k why = retry_or_give_up E did k why ''dispatch'' []"

definition forget_tries :: "string \<Rightarrow> unit act" where
  "forget_tries did = modify (\<lambda>l. l\<lparr>tries := (tries l)(did := None)\<rparr>)"

section \<open>Structural refusals\<close>

definition paused_args :: "string \<Rightarrow> string \<Rightarrow> int \<Rightarrow> string \<Rightarrow> string \<Rightarrow> string \<Rightarrow> int \<Rightarrow> session_args" where
  "paused_args k repo n why arch dev now = \<lparr>sa_key = k, sa_repo = repo, sa_issue = n,
     sa_state = PAUSED_HUMAN, sa_architect = arch, sa_developer = dev, sa_created = now, sa_updated = now,
     sa_project = Some (project_key_from_repo repo), sa_paused = Some (take 500 why), sa_locked = None,
     sa_design_pr = None, sa_turns = None, sa_consec = None, sa_rounds = None, sa_fp = None,
     sa_fp_repeat = None, sa_zero_threads = None\<rparr>"

definition pause_structurally :: "env \<Rightarrow> string \<Rightarrow> string \<Rightarrow> int \<Rightarrow> string \<Rightarrow> string \<Rightarrow> string \<Rightarrow> unit act" where
  "pause_structurally E k repo n why arch dev =
     bnd (from_db (get_session k)) (\<lambda>s.
       case s of
         None \<Rightarrow> seq (sql E (\<lambda>t. upsert_session (paused_args k repo n why arch dev t)))
                     (set_fields E k [F_resume_state (Some PLANNING)])
       | Some s \<Rightarrow> set_fields E k [F_state PAUSED_HUMAN, F_paused_reason (Some (take 500 why)),
                     F_resume_state (Some (s_state s))])"

definition handle_structural_refusal ::
  "env \<Rightarrow> string \<Rightarrow> string \<Rightarrow> int \<Rightarrow> string \<Rightarrow> string \<Rightarrow> string \<Rightarrow> string \<Rightarrow> unit act" where
  "handle_structural_refusal E k repo n did why arch dev =
     seq (pause_structurally E k repo n why arch dev)
       (bnd (from_db (get_open_project_block (project_key_from_repo repo))) (\<lambda>b.
         if b \<noteq> None then set_status did Done
         else
           seq (escalate E k ''system'' why None False)
             (bnd (from_db (get_open_escalation k)) (\<lambda>esc.
               seq (sql E (\<lambda>t. open_project_block t (project_key_from_repo repo) why (Some k) (Some n)
                      (Option.bind esc e_comment)))
                   (set_status did Done)))))"

section \<open>Pull-request gates\<close>

definition fetch_live_pr :: "env \<Rightarrow> string \<Rightarrow> int \<Rightarrow> live_pr option act" where
  "fetch_live_pr E repo n =
     bnd (reads spent) (\<lambda>seen.
       if (repo, n) \<in> set seen then ret (Some \<lparr>lp_merged = True, lp_state = ''closed'', lp_head = None\<rparr>)
       else if \<not> present (github_api_token E) then ret None
       else bnd (ask (\<lambda>i. fetch_pull repo n (github_api_token E) (e_get E i))) (\<lambda>p.
         seq (only_if (case p of None \<Rightarrow> False | Some x \<Rightarrow> lp_merged x)
                (modify (\<lambda>l. l\<lparr>spent := (repo, n) # spent l\<rparr>)))
             (ret p)))"

definition pr_is_spent :: "env \<Rightarrow> string \<Rightarrow> int \<Rightarrow> live_pr option \<Rightarrow> bool act" where
  "pr_is_spent E repo n live =
     bnd (reads spent) (\<lambda>seen.
       if (repo, n) \<in> set seen then ret True
       else bnd (case live of None \<Rightarrow> fetch_live_pr E repo n | Some p \<Rightarrow> ret (Some p)) (\<lambda>p.
         case p of
           None \<Rightarrow> ret False
         | Some x \<Rightarrow>
             if lp_merged x then seq (modify (\<lambda>l. l\<lparr>spent := (repo, n) # spent l\<rparr>)) (ret True)
             else ret (lp_state x = ''closed'')))"

definition session_issue_nums :: "string \<Rightarrow> store \<Rightarrow> int list" where
  "session_issue_nums repo st =
     filter (\<lambda>n. n \<noteq> 0) (map s_issue (filter (\<lambda>s. s_repo s = repo) (list_sessions st)))"

text \<open>False: the merge is not authorised.\<close>

definition defuse_feature_pr :: "env \<Rightarrow> string \<Rightarrow> string \<Rightarrow> int \<Rightarrow> string \<Rightarrow> bool act" where
  "defuse_feature_pr E k repo pr did =
     (let give_up = (\<lambda>why. seq (escalate E k ''system'' why None False) (seq (set_status did Done) (ret False))) in
      bnd (gh_body E (github_api_token E) repo pr) (\<lambda>r.
        case r of
          Inl _ \<Rightarrow> give_up (''could not read Feature PR #'' @ dec pr @ '' body to defuse closing keywords'')
        | Inr body \<Rightarrow>
            bnd (from_db (session_issue_nums repo)) (\<lambda>nums.
              case defuse_closing_keywords body nums repo of
                None \<Rightarrow> ret True
              | Some rewritten \<Rightarrow>
                  bnd (gh_patch E (github_api_token E) repo pr rewritten) (\<lambda>r.
                    case r of
                      Inr _ \<Rightarrow> ret True
                    | Inl _ \<Rightarrow> give_up (''failed to defuse closing keyword on Feature PR #'' @ dec pr @
                        ''; merge not authorised'')))))"

text \<open>\<open>_ensure_verification_block\<close>: best effort, never raises.\<close>

definition ensure_verification_block :: "env \<Rightarrow> string \<Rightarrow> int \<Rightarrow> json \<Rightarrow> json \<Rightarrow> unit act" where
  "ensure_verification_block E repo n design_pr feature_pr =
     (if \<not> present (e_gateway E) then ret ()
      else bnd (gh_body E (e_gateway E) repo n) (\<lambda>r.
        case r of
          Inl _ \<Rightarrow> ret ()
        | Inr current \<Rightarrow>
            (let new_body = upsert_verification_block current (default_steps_for_session design_pr feature_pr)
                   (filter (\<lambda>p. p \<noteq> JNull \<and> p \<noteq> JStr []) [design_pr, feature_pr]) Nc_none None True in
             if new_body = current \<and> extract_verification_block current \<noteq> None then ret ()
             else bnd (gh_patch E (e_gateway E) repo n new_body) (\<lambda>_. ret ()))))"

section \<open>Stall observation\<close>

text \<open>The tracker \<open>_observe_stall_signals\<close> rebuilds from the session row.\<close>

definition stall_of_row :: "session_row \<Rightarrow> stall_tracker" where
  "stall_of_row s =
     (let raw_fp = opt_str (s_fp s); armed = starts_with raw_fp ''A:'' in
      stall_init\<lparr>last_fp := opt_nonempty (if armed then drop 2 raw_fp else raw_fp),
        fp_repeat := s_fp_repeat s, zero_thread_rounds := s_zero_threads s, seen_head_change := armed\<rparr>)"

definition head_for_diff :: "json \<Rightarrow> thread_snapshot option \<Rightarrow> string" where
  "head_for_diff hd_sha snap =
     (if truthy hd_sha then py_str hd_sha
      else (case snap of None \<Rightarrow> [] | Some s \<Rightarrow> opt_str (ts_head s)))"

text \<open>The compare cache, evicted oldest first above 64 entries.\<close>

definition cache_diff :: "string \<Rightarrow> string \<Rightarrow> (string \<times> string) list \<Rightarrow> (string \<times> string) list" where
  "cache_diff key v c =
     (let c' = filter (\<lambda>(k, _). k \<noteq> key) c @ [(key, v)] in drop (length c' - 64) c')"

definition diff_stat_of :: "env \<Rightarrow> string \<Rightarrow> string \<Rightarrow> string \<Rightarrow> string \<Rightarrow> string option act" where
  "diff_stat_of E repo key base hd_sha =
     bnd (reads (\<lambda>l. map_of (diffs l) key)) (\<lambda>c.
       case c of
         Some d \<Rightarrow> ret (Some d)
       | None \<Rightarrow>
           if hd_sha = [] then ret None
           else bnd (ask (\<lambda>i. fetch_diff_stat repo base hd_sha (github_api_token E) (e_get E i))) (\<lambda>d.
             case d of
               None \<Rightarrow> ret None
             | Some v \<Rightarrow> seq (modify (\<lambda>l. l\<lparr>diffs := cache_diff key v (diffs l)\<rparr>)) (ret (Some v))))"

definition resolved_since :: "session_row \<Rightarrow> thread_snapshot option \<Rightarrow> int" where
  "resolved_since s snap =
     (case (snap, s_open_threads s) of
        (Some t, Some prior) \<Rightarrow> int (length (filter (\<lambda>i. i \<notin> set (ts_open t)) (remdups prior)))
      | _ \<Rightarrow> 0)"

text \<open>Both signals over one observation: the updated tracker and the reason to escalate.\<close>

definition stall_verdict ::
  "(string \<Rightarrow> string) \<Rightarrow> session_row \<Rightarrow> event_kind \<Rightarrow> json \<Rightarrow> thread_snapshot option \<Rightarrow> string option
   \<Rightarrow> stall_tracker \<times> string option" where
  "stall_verdict sha s kind hd_sha snap diff =
     (let t0 = stall_of_row s;
          (t1, why1) = (case (snap, diff) of
             (Some th, Some d) \<Rightarrow> observe_fingerprint t0
                (progress_fingerprint sha (ts_open th) (int (length (ts_open th))) d)
                (if truthy hd_sha then Some (py_str hd_sha) else None)
           | _ \<Rightarrow> (t0, None)) in
      if why1 = None \<and> kind = K_design_changes_requested \<and> snap \<noteq> None
      then observe_review_round t1 (resolved_since s snap) else (t1, why1))"

definition stall_fields ::
  "session_row \<Rightarrow> event_kind \<Rightarrow> thread_snapshot option \<Rightarrow> stall_tracker \<Rightarrow> session_field list" where
  "stall_fields s kind snap t =
     [F_progress_fp (Some (if seen_head_change t then ''A:'' @ (case last_fp t of None \<Rightarrow> ''None'' | Some f \<Rightarrow> f)
        else opt_str (last_fp t))),
      F_progress_repeat (fp_repeat t), F_zero_thread_rounds (zero_thread_rounds t)] @
     (case snap of None \<Rightarrow> [] | Some th \<Rightarrow> [F_stall_open_threads (Some (sort (remdups (ts_open th))))]) @
     (if kind = K_design_changes_requested then [F_review_rounds (s_rounds s + 1)] else [])"

text \<open>True: the session was escalated.\<close>

definition observe_stall_signals ::
  "env \<Rightarrow> string \<Rightarrow> session_row \<Rightarrow> dict \<Rightarrow> event_kind \<Rightarrow> string \<Rightarrow> string \<Rightarrow> bool act" where
  "observe_stall_signals E k s dig kind did repo =
     (let hd_sha = dget dig ''head_sha''; tk = github_api_token E in
      bnd (need (json_int (py_or (py_or (dget dig ''pr'') (opt_num (s_design_pr s))) (JNum 0))) ''ValueError'') (\<lambda>pr.
      bnd (ask (\<lambda>i. fetch_pr_review_threads repo pr tk (e_post E i))) (\<lambda>r.
      bnd (of_exc r) (\<lambda>snap.
        let base = or_default (case snap of None \<Rightarrow> [] | Some t \<Rightarrow> opt_str (ts_base t)) ''main'';
            hd_d = head_for_diff hd_sha snap in
        bnd (diff_stat_of E repo (repo @ ''#'' @ dec pr @ ''@'' @ base @ ''...'' @ hd_d) base hd_d) (\<lambda>diff.
          case stall_verdict (e_sha256 E) s kind hd_sha snap diff of
            (_, Some why) \<Rightarrow> seq (escalate E k ''system'' why None False) (seq (set_status did Done) (ret True))
          | (t, None) \<Rightarrow> seq (set_fields E k (stall_fields s kind snap t)) (ret False))))))"

section \<open>Observed progress\<close>

fun window_progress :: "string \<Rightarrow> string \<Rightarrow> string \<Rightarrow> store \<Rightarrow> delivery list \<Rightarrow> bool exc" where
  "window_progress ow k repo st [] = Inr False"
| "window_progress ow k repo st (d # ds) =
     (let data = payload_dict (d_payload d) in
      case d_issue d of
        None \<Rightarrow> window_progress ow k repo st ds
      | Some n \<Rightarrow>
          if d_event d \<notin> {''issues'', ''issue_comment'', ''pull_request'', ''pull_request_review''}
             \<or> fst (snd (resolve_session (d_event d) repo n data st)) \<noteq> k
          then window_progress ow k repo st ds
          else bind_exc (event_kind_of ow (d_event d) (d_action d) data (d_sender d) repo) (\<lambda>kd.
            if kd \<in> set observed_progress_kinds then Inr True else window_progress ow k repo st ds))"

text \<open>\<open>_observed_progress\<close>: whether progress was observed, and whether the window was examined.\<close>

definition observed_progress ::
  "env \<Rightarrow> string \<Rightarrow> string \<Rightarrow> event_kind \<Rightarrow> string \<Rightarrow> fsm_state \<Rightarrow> (bool \<times> bool) act" where
  "observed_progress E k repo kind turn state_before =
     (if kind \<in> set observed_progress_kinds then ret (True, False)
      else bnd (from_db (\<lambda>st. case get_session k st of None \<Rightarrow> state_before | Some s \<Rightarrow> s_state s)) (\<lambda>after.
        if after \<noteq> state_before then ret (True, False)
        else bnd (from_db (get_turn turn)) (\<lambda>t.
          case Option.bind t (\<lambda>t. map_option (\<lambda>e. (t_started t, e)) (t_ended t)) of
            None \<Rightarrow> ret (False, False)
          | Some (b, e) \<Rightarrow>
              bnd (from_db (\<lambda>st. window_progress (owner (cfg E)) k repo st (deliveries_in_window repo b e st))) (\<lambda>r.
              bnd (of_exc r) (\<lambda>seen. ret (seen, True))))))"

end
