(* ===== verification/Loop_Turns.thy ===== *)
theory Loop_Turns
  imports Loop_Actions
begin

text \<open>
  One agent turn (\<open>agentd/src/agentd/session_loop.py\<close>, \<open>_dispatch_turn\<close>, \<open>_runner_notify\<close>,
  \<open>resume_interrupted_turn\<close>, \<open>process_resuming_turns\<close>): role holds, revival of the runner, the
  runner call with its notifications, and what is recorded of its end.
\<close>

section \<open>Printing actions\<close>

text \<open>\<open>json.dumps\<close> with compact separators.\<close>

definition hex_digit :: "nat \<Rightarrow> char" where
  "hex_digit n = char_of (if n < 10 then 48 + n else 87 + n)"

definition json_char :: "char \<Rightarrow> string" where
  "json_char c =
     (if c = CHR 0x22 then [CHR 0x5C, CHR 0x22]
      else if c = CHR 0x5C then [CHR 0x5C, CHR 0x5C]
      else if c = CHR 0x0A then [CHR 0x5C, CHR ''n'']
      else if c = CHR 0x0D then [CHR 0x5C, CHR ''r'']
      else if c = CHR 0x09 then [CHR 0x5C, CHR ''t'']
      else if c = CHR 0x08 then [CHR 0x5C, CHR ''b'']
      else if c = CHR 0x0C then [CHR 0x5C, CHR ''f'']
      else if code c < 32 \<or> code c \<ge> 127
        then [CHR 0x5C, CHR ''u'', CHR ''0'', CHR ''0'', hex_digit (code c div 16), hex_digit (code c mod 16)]
      else [c])"

definition json_quote :: "string \<Rightarrow> string" where
  "json_quote s = CHR 0x22 # concat (map json_char s) @ [CHR 0x22]"

fun json_text :: "json \<Rightarrow> string" where
  "json_text JNull = ''null''"
| "json_text (JBool b) = (if b then ''true'' else ''false'')"
| "json_text (JNum n) = dec n"
| "json_text (JStr s) = json_quote s"
| "json_text (JArr xs) = CHR ''['' # join '','' (map json_text xs) @ '']''"
| "json_text (JObj kvs) = CHR ''{'' # join '','' (map (\<lambda>(k, v). json_quote k @ '':'' @ json_text v) kvs) @ ''}''"

section \<open>Role holds\<close>

text \<open>\<open>float(retry_after)\<close>: 0 when it is missing or does not convert.\<close>

definition retry_after_s :: "json \<Rightarrow> rat" where
  "retry_after_s j = (case json_int j of None \<Rightarrow> 0 | Some n \<Rightarrow> of_int n)"

definition quota_backoff_s :: rat where
  "quota_backoff_s = 1800"

definition quota_until :: "rat \<Rightarrow> json \<Rightarrow> rat" where
  "quota_until now j = (if retry_after_s j \<le> now then now + quota_backoff_s else retry_after_s j)"

definition hold_role :: "string \<Rightarrow> rat \<Rightarrow> unit act" where
  "hold_role rkey until = modify (\<lambda>l. l\<lparr>busy := (busy l)(rkey \<mapsto> until)\<rparr>)"

definition hold_role_for_quota :: "env \<Rightarrow> string \<Rightarrow> json \<Rightarrow> unit act" where
  "hold_role_for_quota E rkey retry_after =
     bnd (now_f E) (\<lambda>now. hold_role rkey (quota_until now retry_after))"

text \<open>The hold on a role, when it is still running at the clock's time.\<close>

definition held_until :: "env \<Rightarrow> string \<Rightarrow> rat option act" where
  "held_until E rkey =
     bnd (reads (\<lambda>l. busy l rkey)) (\<lambda>b. bnd (now_f E) (\<lambda>now.
       ret (case b of None \<Rightarrow> None | Some u \<Rightarrow> if u > now then Some u else None)))"

section \<open>The runner call\<close>

definition arrive :: "env \<Rightarrow> webhook \<Rightarrow> unit act" where
  "arrive E w = catch
     (seq (sql_try E (\<lambda>t. insert_delivery t (wh_id w) (wh_event w) (wh_action w) (wh_repo w) (wh_issue w)
            (wh_sender w) (wh_payload w) Queued)) (ret ()))
     (\<lambda>_. ret ())"

text \<open>\<open>_on_runner_notify\<close>: only \<open>artifact.register\<close> changes anything.\<close>

definition runner_notify :: "env \<Rightarrow> string \<Rightarrow> string \<Rightarrow> string \<times> dict \<Rightarrow> unit act" where
  "runner_notify E k role m =
     (case m of (meth, params) \<Rightarrow>
       let ref = py_strip (str_or_empty (dget params ''ref'')) in
       if meth \<noteq> ''artifact.register'' \<or> ref = [] then ret ()
       else seq (sql_try E (\<lambda>t. register_artifact t k (py_str (py_or (dget params ''role'') (JStr role)))
              (py_str (py_or (dget params ''kind'') (JStr ''scratch''))) ref None)) (ret ()))"

definition exn_text :: "sup_exn \<Rightarrow> string" where
  "exn_text e = (case e of Capacity_refusal s \<Rightarrow> s | Structural_refusal s \<Rightarrow> s | Other_error s \<Rightarrow> s)"

text \<open>An exception of the notification handler surfaces in the call it interrupts.\<close>

definition run_rpc :: "env \<Rightarrow> string \<Rightarrow> string \<Rightarrow> rpc_end act" where
  "run_rpc E k role =
     bnd (ask (e_rpc E)) (\<lambda>a.
       seq (each (arrive E) (rp_arrivals a))
         (catch (seq (each (runner_notify E k role) (rp_notes a)) (ret (rp_end a)))
           (\<lambda>e. ret (Rpc_raised (exn_text e) False True))))"

text \<open>The artifacts a result reports; a truthy value that cannot be iterated raises.\<close>

definition reported_artifacts :: "dict \<Rightarrow> dict list exc" where
  "reported_artifacts d =
     (case py_or (dget d ''artifacts'') (JArr []) of
        JArr xs \<Rightarrow> Inr (concat (map (\<lambda>x. case x of JObj a \<Rightarrow> if truthy (dget a ''ref'') then [a] else [] | _ \<Rightarrow> []) xs))
      | JNum _ \<Rightarrow> Inl ''TypeError'' | JBool _ \<Rightarrow> Inl ''TypeError''
      | _ \<Rightarrow> Inr [])"

definition register_reported :: "env \<Rightarrow> string \<Rightarrow> string \<Rightarrow> dict \<Rightarrow> unit act" where
  "register_reported E k role d =
     bnd (of_exc (reported_artifacts d)) (each (\<lambda>a.
       seq (sql_try E (\<lambda>t. register_artifact t k role (py_str (py_or (dget a ''kind'') (JStr ''scratch'')))
              (py_str (dget a ''ref'')) None)) (ret ())))"

text \<open>\<open>(result or {}).get\<close>: a truthy result that is not an object raises.\<close>

definition result_dict :: "json \<Rightarrow> dict act" where
  "result_dict j = of_exc (as_obj (py_or j (JObj [])))"

definition public_actions_of :: "dict \<Rightarrow> json list" where
  "public_actions_of d = (case dget d ''public_actions'' of JArr xs \<Rightarrow> xs | _ \<Rightarrow> [])"

section \<open>\<open>_dispatch_turn\<close>\<close>

record turn_result =
  tr_status :: string
  tr_summary :: string
  tr_actions :: "json list"

definition find_runner :: "string \<Rightarrow> string \<Rightarrow> store \<Rightarrow> runner_row option" where
  "find_runner pk k st = coalesce (get_runner pk st) (get_runner_for_session k st)"

definition new_turn :: "string \<Rightarrow> string \<Rightarrow> string \<Rightarrow> string \<Rightarrow> int \<Rightarrow> turn_row" where
  "new_turn turn k role did started = \<lparr>turn_id = turn, t_session = k, t_role = role, t_delivery = Some did,
     t_started = started, t_ended = None, t_status = None, t_summary = None, t_actions = None, t_resumes = 0\<rparr>"

definition io :: "env \<Rightarrow> unit act" where
  "io E = bnd (ask (e_io E)) (\<lambda>e. case e of None \<Rightarrow> ret () | Some t \<Rightarrow> fail (Other_error t))"

text \<open>The runner call raised: record the failure, hold the role when the turn may still be running.\<close>

definition turn_raised ::
  "env \<Rightarrow> string \<Rightarrow> string \<Rightarrow> rat \<Rightarrow> string \<Rightarrow> bool \<Rightarrow> bool \<Rightarrow> turn_result act" where
  "turn_raised E turn rkey started text timeout_error under_way =
     bnd (now_s E) (\<lambda>ended.
       let mid = (under_way \<and> is_rpc_timeout text timeout_error);
           status = (if mid then ''gateway_timeout'' else ''failed'') in
       seq (only_if mid (hold_role rkey (started + of_int (deadline_s (cfg E)))))
         (seq (on_db (finish_turn turn ended status (Some (take 500 text)) (Some ''[]'')))
           (ret \<lparr>tr_status = status, tr_summary = take 500 text, tr_actions = []\<rparr>)))"

definition turn_returned ::
  "env \<Rightarrow> string \<Rightarrow> string \<Rightarrow> string \<Rightarrow> string \<Rightarrow> fsm_state \<Rightarrow> json \<Rightarrow> turn_result act" where
  "turn_returned E k role turn rkey session_state j =
     bnd (now_s E) (\<lambda>ended. bnd (result_dict j) (\<lambda>d.
       let status = normalize_turn_status (py_str (py_or (dget d ''status'') (JStr ''done'')));
           summary = take 2000 (str_or_empty (dget d ''summary''));
           actions = public_actions_of d in
       seq (only_if (status = ''quota_exhausted'') (hold_role_for_quota E rkey (dget d ''retry_after'')))
        (seq (on_db (finish_turn turn ended status (Some summary) (Some (take 8000 (json_text (JArr actions))))))
         (seq (register_reported E k role d)
          (seq (only_if (status = ''needs_human'' \<and> session_state \<noteq> TEARDOWN)
                  (escalate E k role (or_default summary ''needs_human'') None False))
            (ret \<lparr>tr_status = status,
               tr_summary = (if has_key d ''summary'' then str_or_empty (dget d ''summary'') else summary),
               tr_actions = actions\<rparr>))))))"

definition send_turn ::
  "env \<Rightarrow> string \<Rightarrow> string \<Rightarrow> string \<Rightarrow> string \<Rightarrow> dict \<Rightarrow> string \<Rightarrow> fsm_state \<Rightarrow> turn_result act" where
  "send_turn E k role turn did dig rkey session_state =
     seq (io E) (bnd (now_f E) (\<lambda>started.
       seq (sql_try E (\<lambda>_. insert_turn (new_turn turn k role did \<lfloor>started\<rfloor>)))
        (seq (emit (Sent_turn k role session_state turn dig))
         (bnd (run_rpc E k role) (\<lambda>r.
           case r of
             Rpc_raised text timeout_error under_way \<Rightarrow> turn_raised E turn rkey started text timeout_error under_way
           | Rpc_result j \<Rightarrow> turn_returned E k role turn rkey session_state j)))))"

text \<open>\<open>ensure_session\<close> before a turn: refusals propagate, any other exception means no turn.\<close>

definition revive :: "env \<Rightarrow> string \<Rightarrow> session_row \<Rightarrow> int \<Rightarrow> bool act" where
  "revive E k s n =
     (if \<not> e_supervised E then ret True
      else catch (seq (ensure_runner E k (s_repo s) n (opt_nonempty (s_architect s)) (opt_nonempty (s_developer s)))
                   (ret True))
        (\<lambda>e. if is_refusal e then fail e else ret False))"

text \<open>The session row and runner a turn goes to, None for no turn.\<close>

definition turn_target ::
  "env \<Rightarrow> string \<Rightarrow> session_row \<Rightarrow> string \<Rightarrow> int \<Rightarrow> (session_row \<times> runner_row option) option act" where
  "turn_target E k s pk n =
     bnd (from_db (find_runner pk k)) (\<lambda>r.
     bnd (case r of None \<Rightarrow> ret False | Some x \<Rightarrow> ask (\<lambda>i. e_probe E i x)) (\<lambda>up.
       if up then ret (Some (s, r))
       else bnd (revive E k s n) (\<lambda>revived.
         if \<not> revived then ret None
         else bnd (from_db (\<lambda>st.
             let s' = (if e_supervised E then (case get_session k st of None \<Rightarrow> s | Some x \<Rightarrow> x) else s)
             in (s', find_runner (or_default (s_project s') pk) k st))) (\<lambda>x. ret (Some x)))))"

definition project_of :: "session_row \<Rightarrow> string" where
  "project_of s = or_default (s_project s) (project_key_from_repo (s_repo s))"

definition dispatch_turn ::
  "env \<Rightarrow> string \<Rightarrow> string \<Rightarrow> string \<Rightarrow> string \<Rightarrow> dict \<Rightarrow> int \<Rightarrow> turn_result option act" where
  "dispatch_turn E k role turn did dig n =
     bnd (from_db (session_or_blank k)) (\<lambda>s.
       let pk = project_of s; rkey = role_key pk role in
       bnd (held_until E rkey) (\<lambda>held.
         if held \<noteq> None then ret (Some \<lparr>tr_status = ''role_busy'', tr_summary = ''role busy'', tr_actions = []\<rparr>)
         else seq (modify (\<lambda>l. l\<lparr>busy := (busy l)(rkey := None)\<rparr>))
          (bnd (turn_target E k s pk n) (\<lambda>x.
            case x of
              None \<Rightarrow> ret None
            | Some (_, None) \<Rightarrow> ret None
            | Some (s', Some _) \<Rightarrow> bnd (send_turn E k role turn did dig rkey (s_state s')) (\<lambda>r. ret (Some r))))))"

section \<open>Resumed turns\<close>

text \<open>
  \<open>resume_interrupted_turn\<close>: the digest is re-sent; a timed-out call holds the role and raises.
\<close>

definition resume_returned :: "env \<Rightarrow> turn_row \<Rightarrow> json \<Rightarrow> unit act" where
  "resume_returned E t j =
     (let k = t_session t in
      bnd (now_s E) (\<lambda>ended. bnd (result_dict j) (\<lambda>d.
        let status = py_str (py_or (dget d ''status'') (JStr ''done'')) in
        seq (on_db (finish_turn (turn_id t) ended status (Some (take 2000 (str_or_empty (dget d ''summary'')))) None))
         (seq (register_reported E k (t_role t) d)
          (if status \<in> {''gateway_timeout'', ''quota_exhausted'', ''role_busy''} then ret ()
           else bnd (from_db (session_or_blank k)) (\<lambda>s.
             let b = after_agent_turn (budget_of (s_turns s) (s_consec s) (s_rounds s)) in
             set_fields E k [F_turn_count (turn_count b), F_consec_agent_turns (consec_agent_turns b)]))))))"

definition resume_interrupted_turn :: "env \<Rightarrow> turn_row \<Rightarrow> bool act" where
  "resume_interrupted_turn E t =
     bnd (from_db (session_or_blank (t_session t))) (\<lambda>s.
       let pk = or_default (s_project s) (s_repo s); rkey = role_key pk (t_role t) in
       bnd (held_until E rkey) (\<lambda>held.
         if held \<noteq> None then ret False
         else bnd (from_db (get_runner pk)) (\<lambda>r.
           case r of
             None \<Rightarrow> fail (Other_error (''no runner for '' @ pk))
           | Some _ \<Rightarrow>
               seq (io E) (bnd (now_f E) (\<lambda>started.
                 seq (emit (Sent_resume (t_session t) (t_role t) (s_state s) (turn_id t) [(''kind'', JStr ''turn.resume'')]))
                  (bnd (run_rpc E (t_session t) (t_role t)) (\<lambda>e.
                    case e of
                      Rpc_raised text timeout_error under_way \<Rightarrow>
                        seq (only_if (under_way \<and> is_rpc_timeout text timeout_error)
                               (hold_role rkey (started + of_int (deadline_s (cfg E)))))
                          (fail (Other_error text))
                    | Rpc_result j \<Rightarrow> seq (resume_returned E t j) (ret True))))))))"

text \<open>After a failed resume: retire the turn at its second attempt, else drop the mark.\<close>

definition resume_failed :: "env \<Rightarrow> turn_row \<Rightarrow> unit act" where
  "resume_failed E t =
     (if t_resumes t \<ge> 2
      then bnd (now_s E) (\<lambda>now.
        seq (on_db (finish_turn (turn_id t) now ''interrupted'' (Some ''resume failed twice'') None))
          (only_if (t_session t \<noteq> [])
            (escalate E (t_session t) (or_default (t_role t) ''developer'')
              (''interrupted turn '' @ turn_id t @ '' retired after failed resume'') None False)))
      else on_db (clear_turn_resuming (turn_id t)))"

definition resume_one :: "env \<Rightarrow> turn_row \<times> fsm_state option \<Rightarrow> int act" where
  "resume_one E x =
     (case x of (t, state) \<Rightarrow>
       if state \<in> {None, Some PAUSED_HUMAN, Some TEARDOWN, Some CLOSED}
       then seq (on_db (clear_turn_resuming (turn_id t))) (ret 0)
       else catch (bnd (resume_interrupted_turn E t) (\<lambda>ran. ret (if ran then 1 else 0)))
              (\<lambda>_. seq (resume_failed E t) (ret 0)))"

fun sum_acts :: "('a \<Rightarrow> int act) \<Rightarrow> 'a list \<Rightarrow> int act" where
  "sum_acts f [] = ret 0"
| "sum_acts f (x # xs) = bnd (f x) (\<lambda>a. bnd (sum_acts f xs) (\<lambda>b. ret (a + b)))"

definition process_resuming_turns :: "env \<Rightarrow> int act" where
  "process_resuming_turns E = bnd (from_db list_resuming_turns) (sum_acts (resume_one E))"

end
