(* ===== verification/Loop_Close.thy ===== *)
theory Loop_Close
  imports Loop_Turns
begin

text \<open>
  The session issue's own events (\<open>agentd/src/agentd/session_loop.py\<close>): a body edit
  (\<open>_handle_session_issue_edited\<close> and the restore of an agent's edit), a close by anyone
  (\<open>_handle_session_issue_closed\<close>), and the owner's close: grace, classification, teardown turns,
  archive, CLOSED.
\<close>

section \<open>Body edits\<close>

definition right_arrow :: char where
  "right_arrow = CHR 0x84"

definition py_bool :: "bool option \<Rightarrow> string" where
  "py_bool b = (case b of None \<Rightarrow> ''None'' | Some b \<Rightarrow> if b then ''True'' else ''False'')"

definition stamped :: "session_row \<Rightarrow> bool" where
  "stamped s \<longleftrightarrow> s_verified s \<noteq> None \<and> s_verified s \<noteq> Some 0"

text \<open>The composition a branch of the restore selects, and how it rewrites the fetched body.\<close>

datatype edit = Reinsert string | Set_box bool | Neutralize

fun compose :: "edit \<Rightarrow> string \<Rightarrow> string" where
  "compose (Reinsert block) current = reinsert_verification_block current block"
| "compose (Set_box b) current = set_checkbox_in_body current b"
| "compose Neutralize current = neutralize_bare_verification_ticks current"

text \<open>
  The branches B2, B3, B5, restore-up and B4 over the two bodies of the payload; \<open>observed\<close> says
  that \<open>verified_at\<close> is set, the condition of every raise (\<open>_can_raise_checkbox\<close>).
\<close>

definition restore_plan :: "bool \<Rightarrow> string \<Rightarrow> string \<Rightarrow> (edit \<times> string) option" where
  "restore_plan observed before_body body =
     (let was = checkbox_is_checked before_body True; now = checkbox_is_checked body True;
          curr_block = extract_verification_block body;
          bare_tick = (curr_block = None \<and> checkbox_is_checked body False = Some True) in
      case (extract_verification_block before_body, curr_block) of
        (Some block, None) \<Rightarrow>
          Some (Reinsert (if was = Some True \<and> \<not> observed then set_checkbox_in_body block False else block),
            ''verification block removed'')
      | _ \<Rightarrow>
          if now = Some True \<and> was \<noteq> Some True
          then Some (Set_box False, ''checkbox ticked without prior owner tick (was='' @ py_bool was @
            '' '' @ [right_arrow] @ '' now=True)'')
          else if bare_tick
          then Some (Neutralize, ''bare checkbox outside sentinels (no protocol block)'')
          else if was = Some True \<and> now = Some False
          then (if observed then Some (Set_box True, ''checkbox True '' @ [right_arrow] @ '' False'') else None)
          else (case (was, now) of
              (Some w, None) \<Rightarrow> if w \<and> \<not> observed then None
                else Some (Set_box w, ''checkbox line removed (was='' @ py_bool was @ '')'')
            | _ \<Rightarrow> None))"

definition restored_label :: "string \<Rightarrow> string \<Rightarrow> string" where
  "restored_label why restored =
     (let strict_read = checkbox_is_checked restored True;
          st = (if strict_read = None \<and> contains ''bare'' why then checkbox_is_checked restored False
                else strict_read) in
      case st of Some True \<Rightarrow> ''checked'' | Some False \<Rightarrow> ''unchecked'' | None \<Rightarrow> ''block restored'')"

definition restore_warning :: "string \<Rightarrow> string \<Rightarrow> string \<Rightarrow> string \<Rightarrow> string \<Rightarrow> string" where
  "restore_warning ow k sender why restored =
     (let sec = [section_sign]; nl2 = [CHR 0x0A, CHR 0x0A] in
      ''**agentd** restored the '' @ sec @ ''10.1 verification '' @
      (if contains ''block'' why then ''block'' else ''checkbox'') @
      '' after an agent body edit while `AWAITING_VERIFICATION` ('' @ sec @ ''10.2).'' @ nl2 @
      ''Sender: `'' @ sender @ ''`'' @ [CHR 0x0A] @ ''Reason: '' @ why @ [CHR 0x0A] @
      ''Restored to: `'' @ restored_label why restored @ ''` (pre-edit body via `changes.body.from` '' @
      [em_dash] @ '' not local `verified_at`).'' @ nl2 @
      ''Only '' @ (if ow = [] then ''the owner'' else ''@'' @ ow) @ '' may tick the box '' @ [em_dash] @
      '' and only when that login is not also a configured agent identity.'' @ nl2 @ gateway_footer k)"

text \<open>Fetch, sanity floor, box moved since the webhook, compose, patch, comment; nothing raises.\<close>

definition apply_restore ::
  "env \<Rightarrow> string \<Rightarrow> string \<Rightarrow> int \<Rightarrow> string \<Rightarrow> string \<Rightarrow> string \<Rightarrow> string \<Rightarrow> edit \<Rightarrow> string \<Rightarrow> unit act" where
  "apply_restore E k repo n did sender before_body body e why =
     bnd (gh_body E (e_gateway E) repo n) (\<lambda>r.
       case r of
         Inl _ \<Rightarrow> ret ()
       | Inr current \<Rightarrow>
           if 2 * length current < length before_body
           then escalate E k ''system''
             (''verification-block restore aborted: issue body collapsed from '' @
               dec (int (length before_body)) @ '' to '' @ dec (int (length current)) @
               '' characters (sender=`'' @ sender @ ''`). Gateway wrote nothing. Pre-edit body is '' @
               ''recoverable from delivery '' @ did @ '''s stored payload.'') None False
           else if checkbox_is_checked current True \<noteq> checkbox_is_checked body True then ret ()
           else if compose e current = current then ret ()
           else bnd (gh_patch E (e_gateway E) repo n (compose e current)) (\<lambda>r.
             case r of
               Inl _ \<Rightarrow> ret ()
             | Inr _ \<Rightarrow> bnd (gh_comment E repo n
                 (restore_warning (owner (cfg E)) k sender why (compose e current))) (\<lambda>_. ret ())))"

definition restore_agent_verification_edit ::
  "env \<Rightarrow> string \<Rightarrow> string \<Rightarrow> int \<Rightarrow> string \<Rightarrow> string \<Rightarrow> string \<Rightarrow> dict \<Rightarrow> unit act" where
  "restore_agent_verification_edit E k repo n did sender body changes =
     (case dget (json_obj (dget changes ''body'')) ''from'' of
        JStr before_body \<Rightarrow>
          bnd (from_db (\<lambda>st. stamped (session_or_blank k st))) (\<lambda>observed.
            case restore_plan observed before_body body of
              None \<Rightarrow> set_status did Done
            | Some (e, why) \<Rightarrow>
                seq (apply_restore E k repo n did sender before_body body e why) (set_status did Done))
      | _ \<Rightarrow> set_status did Done)"

text \<open>\<open>(changes.get("body") or {}).get("from") or ""\<close>, searched: only a string can be.\<close>

definition edited_from :: "dict \<Rightarrow> string exc" where
  "edited_from changes =
     bind_exc (sub_obj changes ''body'') (\<lambda>b.
       case py_or (dget b ''from'') (JStr []) of JStr s \<Rightarrow> Inr s | _ \<Rightarrow> Inl ''TypeError'')"

definition record_owner_edit :: "env \<Rightarrow> string \<Rightarrow> session_row \<Rightarrow> dict \<Rightarrow> bool option \<Rightarrow> unit act" where
  "record_owner_edit E k s changes have_checked =
     (if have_checked = Some True \<and> \<not> stamped s
      then bnd (now_s E) (\<lambda>t. set_fields E k [F_verified_at (Some t)])
      else if stamped s \<and> have_checked \<noteq> Some True
      then bnd (of_exc (edited_from changes)) (\<lambda>b.
        if checkbox_is_checked b True = Some True then set_fields E k [F_verified_at None] else ret ())
      else ret ())"

definition agent_ids_of :: "config \<Rightarrow> session_row \<Rightarrow> string list" where
  "agent_ids_of c s =
     filter (\<lambda>a. a \<noteq> []) (map py_lower ([s_architect s, s_developer s] @ agent_names c))"

definition handle_session_issue_edited ::
  "env \<Rightarrow> string \<Rightarrow> session_row \<Rightarrow> string \<Rightarrow> int \<Rightarrow> string \<Rightarrow> string \<Rightarrow> dict \<Rightarrow> unit act" where
  "handle_session_issue_edited E k s repo n did sender data =
     (let changes = json_obj (dget data ''changes'');
          body = json_str (dget (json_obj (dget data ''issue'')) ''body'');
          who = py_lower sender; ow = py_lower (owner (cfg E)); gw = py_lower (opt_str (gw_login (cfg E)));
          is_agent = (who \<in> set (agent_ids_of (cfg E) s));
          is_owner = (who = ow \<and> ow \<noteq> []) in
      if \<not> has_key changes ''body'' then set_status did Done
      else if gw \<noteq> [] \<and> who = gw then set_status did Done
      else if is_agent \<and> s_state s = AWAITING_VERIFICATION
      then restore_agent_verification_edit E k repo n did sender body changes
      else seq (only_if (is_owner \<and> \<not> is_agent)
                  (record_owner_edit E k s changes (checkbox_is_checked body True)))
               (set_status did Done))"

section \<open>A close nobody verified\<close>

definition close_grace_s :: int where
  "close_grace_s = 15 * 60"

definition close_grace_elapsed :: "env \<Rightarrow> string \<Rightarrow> int \<Rightarrow> bool act" where
  "close_grace_elapsed E did received_at =
     bnd (now_s E) (\<lambda>now.
       if now - received_at \<le> close_grace_s
       then seq (modify (\<lambda>l. l\<lparr>warned := List.insert did (warned l)\<rparr>)) (ret False)
       else seq (modify (\<lambda>l. l\<lparr>warned := filter (\<lambda>w. w \<noteq> did) (warned l)\<rparr>)) (ret True))"

text \<open>\<open>_lower_close_checkbox\<close>: the note for the comment; nothing raises.\<close>

definition lower_close_checkbox :: "env \<Rightarrow> string \<Rightarrow> int \<Rightarrow> string option \<Rightarrow> string act" where
  "lower_close_checkbox E repo n current =
     bnd (case current of Some b \<Rightarrow> ret (Inr b) | None \<Rightarrow> gh_body E (e_gateway E) repo n) (\<lambda>r.
       case r of
         Inl _ \<Rightarrow> ret (''The checkbox was not lowered (issue body read failed); '' @
           ''untick it by hand before the next close.'')
       | Inr body \<Rightarrow>
           if checkbox_is_checked body True \<noteq> Some True then ret ''The checkbox is already down.''
           else bnd (gh_patch E (e_gateway E) repo n (set_checkbox_in_body body False)) (\<lambda>r.
             case r of
               Inl _ \<Rightarrow> ret (''The checkbox was not lowered (PATCH failed); '' @
                 ''untick it by hand before the next close.'')
             | Inr _ \<Rightarrow> ret ''The checkbox was lowered to `- [ ]`.''))"

definition unverifiable_reason :: "string \<Rightarrow> string \<Rightarrow> string" where
  "unverifiable_reason did box_note =
     ''body was ticked with no owner tick this gateway observed (`verified_at` is NULL). '' @
     ''Nothing was classified and no teardown ran. The issue is still closed; the gateway did not '' @
     ''reopen it. '' @ box_note @ '' Remedy: reopen, tick Human Verification Complete, then close. '' @
     ''The pre-close body is recoverable from delivery `'' @ did @ ''` stored payload.''"

definition unverifiable_reply :: string where
  "unverifiable_reply = ''While the issue is closed, a reply changes nothing.'' @ [CHR 0x0A, CHR 0x0A] @
     ''- **Tick**, then **close** '' @ [em_dash] @ '' records the verification.'' @ [CHR 0x0A] @
     ''- **Reopen** first to continue work. After the issue is open, a reply resumes the session normally.''"

definition reconcile_unverifiable_close ::
  "env \<Rightarrow> string \<Rightarrow> string \<Rightarrow> int \<Rightarrow> string \<Rightarrow> string option \<Rightarrow> unit act" where
  "reconcile_unverifiable_close E k repo n did current =
     bnd (lower_close_checkbox E repo n current) (\<lambda>box_note.
       seq (escalate E k ''system'' (unverifiable_reason did box_note) (Some unverifiable_reply) True)
         (set_status did Done))"

text \<open>\<open>_finish_close_grace\<close>: the body to classify, None when the close is settled without one.\<close>

definition finish_close_grace ::
  "env \<Rightarrow> string \<Rightarrow> string \<Rightarrow> int \<Rightarrow> string \<Rightarrow> string \<Rightarrow> bool \<Rightarrow> string option act" where
  "finish_close_grace E k repo n did payload_body adr17 =
     bnd (gh_issue E repo n) (\<lambda>r.
       case r of
         Inl _ \<Rightarrow> if adr17 then seq (reconcile_unverifiable_close E k repo n did None) (ret None)
           else ret (Some payload_body)
       | Inr (body, state) \<Rightarrow>
           if py_lower state = ''open'' then seq (set_status did Done) (ret None)
           else if adr17 then seq (reconcile_unverifiable_close E k repo n did (Some body)) (ret None)
           else ret (Some body))"

text \<open>\<open>_lift_close_reconcile_hold\<close>: True when the hold was lifted and the delivery is done.\<close>

definition lift_close_reconcile_hold :: "env \<Rightarrow> string \<Rightarrow> session_row \<Rightarrow> string \<Rightarrow> bool act" where
  "lift_close_reconcile_hold E k s did =
     (if \<not> close_reconcile_held (s_state s) s then ret False
      else seq (set_fields E k [F_paused_reason
              (opt_nonempty (drop (length close_reconcile_prefix) (opt_str (s_paused s))))])
        (seq (set_status did Done) (ret True)))"

text \<open>The class of a close, with the session row it was read from; None when nothing is classified.\<close>

definition classify_close ::
  "env \<Rightarrow> string \<Rightarrow> session_row \<Rightarrow> string \<Rightarrow> int \<Rightarrow> string \<Rightarrow> dict \<Rightarrow> int \<Rightarrow> (session_row \<times> string) option act" where
  "classify_close E k s repo n did data received_at =
     (if s_class s \<in> {Some ''VERIFIED'', Some ''ABANDONED''} then ret (Some (s, opt_str (s_class s)))
      else bnd (from_db (\<lambda>st. case get_session k st of None \<Rightarrow> s | Some x \<Rightarrow> x)) (\<lambda>s'.
        let body = json_str (dget (json_obj (dget data ''issue'')) ''body'');
            checked = (checkbox_is_checked body True = Some True) in
        bnd (if checked = stamped s' then ret (Some body)
             else bnd (close_grace_elapsed E did received_at) (\<lambda>elapsed.
               if \<not> elapsed then ret None
               else finish_close_grace E k repo n did body (checked \<and> \<not> stamped s'))) (\<lambda>b.
          case b of
            None \<Rightarrow> ret None
          | Some b \<Rightarrow> seq (set_fields E k [F_classification (Some (classify_at_close b))])
              (ret (Some (s', classify_at_close b))))))"
end
