(* ===== verification/Loop_Teardown.thy ===== *)
theory Loop_Teardown
  imports Loop_Close
begin

text \<open>
  The end of a session (\<open>agentd/src/agentd/session_loop.py\<close>): the teardown turns of the developer
  and the architect, the ledger they must drain, the archive (\<open>archive.py\<close>) and CLOSED; and the
  close handler that leads there.
\<close>

section \<open>Archive, then CLOSED\<close>

text \<open>
  \<open>archive_and_purge\<close>: manifest, tarball, purge, each of which may raise.  A directory that is gone
  already is the recovery of a crash after the purge: the tarball alone decides.
\<close>

definition archive_and_purge ::
  "env \<Rightarrow> string \<Rightarrow> int \<Rightarrow> string \<Rightarrow> string \<Rightarrow> string \<Rightarrow> session_row \<Rightarrow> int \<Rightarrow> string option act" where
  "archive_and_purge E repo n k pk classification s n_turns =
     (let dir = session_dir_path (e_root E) repo n; dest = archive_tarball_path (e_root E) repo n in
      bnd (ask (\<lambda>i. e_is_dir E i dir)) (\<lambda>is_dir.
        if \<not> is_dir then bnd (ask (\<lambda>i. e_is_file E i dest)) (\<lambda>f. ret (if f then Some dest else None))
        else bnd (now_s E) (\<lambda>ts.
          seq (io E)
          (seq (emit (Wrote_manifest dir (build_manifest k pk classification (s_design_pr s) (s_feature_pr s)
                  n_turns ts (e_models E))))
          (seq (io E)
          (seq (emit (Wrote_tarball dest))
          (bnd (ask (\<lambda>i. e_is_dir E i dir)) (\<lambda>there.
            seq (only_if there (seq (emit (Purged dir)) (io E)))
              (ret (Some dest))))))))))"

text \<open>The held agents are killed as the role; a failure never stops the close.\<close>

definition kill_agents :: "env \<Rightarrow> string \<Rightarrow> unit act" where
  "kill_agents E k =
     only_if (e_supervised E) (seq (emit (Sent_teardown k)) (bnd (ask (e_killed E)) (\<lambda>_. ret ())))"

definition archive_and_close ::
  "env \<Rightarrow> string \<Rightarrow> session_row \<Rightarrow> string \<Rightarrow> int \<Rightarrow> string \<Rightarrow> string option act" where
  "archive_and_close E k s repo n classification =
     bnd (from_db (\<lambda>st. (case get_session k st of None \<Rightarrow> s | Some x \<Rightarrow> x, int (count_turns k st)))) (\<lambda>(fresh, turns).
     bnd (archive_and_purge E repo n k (or_default (s_project fresh) (project_key_from_repo repo))
            classification fresh turns) (\<lambda>dest.
       case dest of
         None \<Rightarrow> ret None
       | Some d \<Rightarrow>
           seq (kill_agents E k)
           (seq (set_fields E k [F_state CLOSED, F_paused_reason None])
           (seq (if classification \<noteq> ''VERIFIED'' then ret ()
                 else bnd (gh_comment E repo n (format_completion_summary k classification (s_design_pr fresh)
                        (s_feature_pr fresh) turns (archive_rel repo n))) (\<lambda>_. ret ()))
             (ret (Some d))))))"

section \<open>Teardown turns\<close>

datatype teardown_outcome = Td_clean | Td_defer | Td_exhausted

definition open_artifacts :: "string \<Rightarrow> artifact_row list act" where
  "open_artifacts k = from_db (list_artifacts k True)"

text \<open>\<open>_teardown_retry_or_give_up\<close> and \<open>_teardown_outcome\<close>.\<close>

definition teardown_retry_or_give_up :: "env \<Rightarrow> string \<Rightarrow> string \<Rightarrow> string \<Rightarrow> bool act" where
  "teardown_retry_or_give_up E did k why =
     bnd (open_artifacts k) (\<lambda>leftover.
       let refs = map (\<lambda>a. a_kind a @ '':'' @ a_ref a) leftover in
       retry_or_give_up E did k why ''teardown''
         (''. open artifacts: '' @ py_repr (JArr (map JStr (if refs = [] then [''none''] else refs)))))"

definition teardown_defer :: "env \<Rightarrow> string \<Rightarrow> string \<Rightarrow> string \<Rightarrow> teardown_outcome act" where
  "teardown_defer E did k why =
     bnd (teardown_retry_or_give_up E did k why) (\<lambda>stay. ret (if stay then Td_defer else Td_exhausted))"

text \<open>\<open>_confirm_teardown_artifacts\<close>: a row is closed only when its ref is seen to be gone.\<close>

definition confirm_artifact :: "env \<Rightarrow> string \<Rightarrow> artifact_row \<Rightarrow> unit act" where
  "confirm_artifact E k a =
     (if a_ref a = [] \<or> a_kind a \<notin> {''branch'', ''scratch'', ''worktree''} then ret ()
      else bnd (ask (\<lambda>i. e_gone E i (a_kind a) (a_ref a))) (\<lambda>gone.
        only_if gone (sql E (\<lambda>t st. fst (mark_artifact_removed t k (a_ref a) (Some (a_kind a)) None st)))))"

definition confirm_teardown_artifacts :: "env \<Rightarrow> string \<Rightarrow> unit act" where
  "confirm_teardown_artifacts E k = bnd (open_artifacts k) (each (confirm_artifact E k))"

definition new_turn_id :: "env \<Rightarrow> string act" where
  "new_turn_id E = ask (\<lambda>i. ''t-'' @ e_uuid E i)"

definition no_turn_statuses :: "string set" where
  "no_turn_statuses = {''role_busy'', ''quota_exhausted''}"

text \<open>
  The turns of the roles in order: None when a role is busy, else whether a turn failed and why.
\<close>

fun teardown_turns ::
  "env \<Rightarrow> string \<Rightarrow> int \<Rightarrow> string \<Rightarrow> string \<Rightarrow> string option \<Rightarrow> string list \<Rightarrow> string option option act" where
  "teardown_turns E k n did classification failed [] = ret (Some failed)"
| "teardown_turns E k n did classification failed (role # roles) =
     bnd (new_turn_id E) (\<lambda>turn.
     bnd (dispatch_turn E k role turn did [(''kind'', JStr ''issues_closed''),
            (''classification'', JStr classification), (''session_key'', JStr k), (''issue'', JNum n)] n) (\<lambda>r.
       case r of
         None \<Rightarrow> seq (confirm_teardown_artifacts E k)
             (teardown_turns E k n did classification (Some ''no result'') roles)
       | Some t \<Rightarrow>
           if tr_status t \<in> no_turn_statuses then ret None
           else seq (confirm_teardown_artifacts E k)
             (teardown_turns E k n did classification
               (if tr_status t \<in> {''failed'', ''gateway_timeout''}
                then Some (or_default (tr_summary t) (tr_status t)) else failed) roles)))"

text \<open>The runner the turns need: \<open>Inl\<close> is the reason to try again later.\<close>

definition teardown_runner :: "env \<Rightarrow> string \<Rightarrow> session_row \<Rightarrow> string \<Rightarrow> int \<Rightarrow> (string + unit) act" where
  "teardown_runner E k s repo n =
     bnd (if e_supervised E
          then bnd (attempt (ensure_runner E k repo n (Some (s_architect s)) (Some (s_developer s)))) (\<lambda>r.
            case r of
              Inl (Capacity_refusal e) \<Rightarrow> ret (Inl (''ensure_session capacity: '' @ e))
            | Inl e \<Rightarrow> ret (Inl (''ensure_session failed: '' @ exn_text e))
            | Inr _ \<Rightarrow> seq (set_fields E k [F_state TEARDOWN, F_paused_reason None]) (ret (Inr ())))
          else ret (Inr ())) (\<lambda>r.
       case r of
         Inl e \<Rightarrow> ret (Inl e)
       | Inr _ \<Rightarrow> bnd (from_db (find_runner (or_default (s_project s) (project_key_from_repo repo)) k)) (\<lambda>x.
           ret (if x = None then Inl ''no runner after ensure_session; next drain will retry'' else Inr ())))"

definition run_teardown_turns ::
  "env \<Rightarrow> string \<Rightarrow> session_row \<Rightarrow> string \<Rightarrow> int \<Rightarrow> string \<Rightarrow> string \<Rightarrow> teardown_outcome act" where
  "run_teardown_turns E k s repo n did classification =
     bnd (open_artifacts k) (\<lambda>todo.
       if todo = [] then ret Td_clean
       else bnd (teardown_runner E k s repo n) (\<lambda>r.
         case r of
           Inl why \<Rightarrow> teardown_defer E did k why
         | Inr _ \<Rightarrow> bnd (teardown_turns E k n did classification None [''developer'', ''architect'']) (\<lambda>r.
             case r of
               None \<Rightarrow> ret Td_defer
             | Some (Some why) \<Rightarrow> teardown_defer E did k why
             | Some None \<Rightarrow> bnd (open_artifacts k) (\<lambda>left.
                 if left \<noteq> [] then teardown_defer E did k ''teardown turns ran; ledger still open''
                 else ret Td_clean))))"

section \<open>The owner's close\<close>

definition enter_teardown :: "env \<Rightarrow> string \<Rightarrow> session_row \<Rightarrow> unit act" where
  "enter_teardown E k s =
     (if s_state s = TEARDOWN then ret ()
      else (case transition (Some (s_state s)) K_issues_closed of
          None \<Rightarrow> ret ()
        | Some tr \<Rightarrow> set_fields E k [F_state (new_state tr), F_paused_reason None]))"

definition close_escalations :: "env \<Rightarrow> string \<Rightarrow> unit act" where
  "close_escalations E k = sql E (\<lambda>t st. fst (close_escalation t k None None st))"

definition finish_close :: "env \<Rightarrow> string \<Rightarrow> session_row \<Rightarrow> string \<Rightarrow> int \<Rightarrow> string \<Rightarrow> string \<Rightarrow> unit act" where
  "finish_close E k s repo n did classification =
     bnd (attempt (bnd (archive_and_close E k s repo n classification) (\<lambda>dest.
            if dest = None then fail (Other_error ''no session directory and no tarball; cannot mark CLOSED'')
            else ret ()))) (\<lambda>r.
       case r of
         Inl e \<Rightarrow> bnd (teardown_retry_or_give_up E did k (''archive failed: '' @ exn_text e)) (\<lambda>stay.
             if stay then ret () else set_status did Done)
       | Inr _ \<Rightarrow> seq (forget_tries did) (set_status did Done))"

text \<open>Without turn dispatch an undrained ledger ends the close as exhausted turns do.\<close>

definition teardown_and_close ::
  "env \<Rightarrow> string \<Rightarrow> session_row \<Rightarrow> string \<Rightarrow> int \<Rightarrow> string \<Rightarrow> string \<Rightarrow> unit act" where
  "teardown_and_close E k s repo n did classification =
     bnd (if e_dispatch E then run_teardown_turns E k s repo n did classification else ret Td_exhausted) (\<lambda>out.
       if out = Td_defer then ret ()
       else bnd (open_artifacts k) (\<lambda>left.
         if out = Td_exhausted \<and> left \<noteq> [] then set_status did Done
         else finish_close E k s repo n did classification))"

definition owner_close_teardown ::
  "env \<Rightarrow> string \<Rightarrow> session_row \<Rightarrow> string \<Rightarrow> int \<Rightarrow> string \<Rightarrow> dict \<Rightarrow> int \<Rightarrow> unit act" where
  "owner_close_teardown E k s repo n did data received_at =
     (if s_state s = CLOSED then seq (close_escalations E k) (set_status did Done)
      else bnd (classify_close E k s repo n did data received_at) (\<lambda>c.
        case c of
          None \<Rightarrow> ret ()
        | Some (s', classification) \<Rightarrow>
            seq (close_escalations E k)
            (seq (enter_teardown E k s)
              (teardown_and_close E k s' repo n did classification))))"

section \<open>A close by anyone\<close>

definition stray_close_reason :: "string \<Rightarrow> string \<Rightarrow> string \<Rightarrow> string \<Rightarrow> string" where
  "stray_close_reason who sender k ow =
     [section_sign] @ ''10.3 violation: '' @ who @ '' `'' @ sender @ ''` closed session issue `'' @ k @
     ''`. Only `@'' @ ow @ ''` may close a session issue (issues.closed is the sole teardown trigger). '' @
     ''Gateway reopened the issue; no teardown. Reply after confirming work, or leave paused.''"

definition stray_close ::
  "env \<Rightarrow> string \<Rightarrow> session_row \<Rightarrow> string \<Rightarrow> int \<Rightarrow> string \<Rightarrow> string \<Rightarrow> string list \<Rightarrow> unit act" where
  "stray_close E k s repo n did sender bots =
     (let who = (if py_lower sender \<in> set (map py_lower bots) - {[]} then ''agent'' else ''non-owner'');
          why = stray_close_reason who sender k (owner (cfg E)) in
      bnd (gh_reopen E repo n) (\<lambda>r.
        seq (if is_paused s then ret ()
             else escalate E k ''system''
               (case r of Inl e \<Rightarrow> why @ '' [reopen_failed: '' @ e @ '']'' | Inr _ \<Rightarrow> why) None False)
          (set_status did Done)))"

definition handle_session_issue_closed ::
  "env \<Rightarrow> string \<Rightarrow> session_row \<Rightarrow> string \<Rightarrow> int \<Rightarrow> string \<Rightarrow> string \<Rightarrow> string list \<Rightarrow> dict \<Rightarrow> int \<Rightarrow> unit act" where
  "handle_session_issue_closed E k s repo n did sender bots data received_at =
     (if py_lower sender = py_lower (owner (cfg E))
      then owner_close_teardown E k s repo n did data received_at
      else stray_close E k s repo n did sender bots)"

end
