(* ===== verification/Loop_Gates.thy ===== *)
theory Loop_Gates
  imports Loop_Teardown
begin

text \<open>
  The gates one delivery passes in \<open>_process_one\<close> (\<open>agentd/src/agentd/session_loop.py\<close>) between the
  session row and the turn: approvals and merges, routing, heads, the state machine, spent pull
  requests and holds.  A gate returns None when it has settled the delivery, the early return of
  the source, and the value the next gate needs otherwise.
\<close>

section \<open>A delivery and its session\<close>

record job =
  j_did :: string
  j_event :: string
  j_act :: "string option"
  j_repo :: string
  j_issue :: int
  j_key :: string
  j_row :: session_row
  j_endpoint :: bool
  j_sender :: string
  j_data :: dict
  j_received :: int

definition arch_of :: "env \<Rightarrow> job \<Rightarrow> string" where
  "arch_of E J = or_default (s_architect (j_row J)) (arch_default (cfg E))"

definition dev_of :: "env \<Rightarrow> job \<Rightarrow> string" where
  "dev_of E J = or_default (s_developer (j_row J)) (dev_default (cfg E))"

definition bots_in :: "env \<Rightarrow> job \<Rightarrow> string list" where
  "bots_in E J = [arch_of E J, dev_of E J] @ bot_logins (cfg E)"

definition dispose :: "job \<Rightarrow> dstatus \<Rightarrow> 'a option act" where
  "dispose J s = seq (set_status (j_did J) s) (ret None)"

definition escalate_and_settle :: "env \<Rightarrow> job \<Rightarrow> string \<Rightarrow> 'a option act" where
  "escalate_and_settle E J why = seq (escalate E (j_key J) ''system'' why None False) (dispose J Done)"

definition go_on :: "'a option act \<Rightarrow> ('a \<Rightarrow> 'b option act) \<Rightarrow> 'b option act" where
  "go_on m f = bnd m (\<lambda>x. case x of None \<Rightarrow> ret None | Some y \<Rightarrow> f y)"

section \<open>Events that wake nobody\<close>

definition review_part_events :: "string list" where
  "review_part_events = [''pull_request_review_comment'', ''pull_request_review_thread'']"

definition author_pr_events :: "string list" where
  "author_pr_events = [''pull_request_review'', ''pull_request_review_comment'', ''issue_comment'']"

text \<open>An author's own PR event; a verdict passes.\<close>

definition author_sent :: "string \<Rightarrow> string \<Rightarrow> string \<Rightarrow> dict \<Rightarrow> bool" where
  "author_sent ow event sender data =
     (event \<in> set author_pr_events \<and>
      (case pr_author_login event data of
         None \<Rightarrow> False
       | Some a \<Rightarrow> py_lower sender = py_lower a \<and> py_lower sender \<noteq> py_lower ow \<and>
           \<not> (event = ''pull_request_review'' \<and>
              py_upper (str_or_empty (dget (json_obj (dget data ''review'')) ''state''))
                \<in> {''APPROVED'', ''CHANGES_REQUESTED''})))"

definition wakes_nobody :: "env \<Rightarrow> job \<Rightarrow> bool" where
  "wakes_nobody E J \<longleftrightarrow> j_event J \<in> set review_part_events \<or>
     author_sent (owner (cfg E)) (j_event J) (j_sender J) (j_data J)"

section \<open>Approvals\<close>

text \<open>The PR a verdict is about: \<open>int((dig.get("pr") or tracked) or 0)\<close>.\<close>

definition verdict_pr :: "dict \<Rightarrow> int option \<Rightarrow> int act" where
  "verdict_pr dig tracked =
     need (json_int (py_or (py_or (dget dig ''pr'') (opt_num tracked)) (JNum 0))) ''ValueError''"

definition digest_head :: "dict \<Rightarrow> string option" where
  "digest_head dig = (let h = dget dig ''head_sha'' in if truthy h then Some (py_str h) else None)"

definition agent_token :: "env \<Rightarrow> string option" where
  "agent_token E = (if present (e_claude E) then e_claude E else e_grok E)"

definition settle_design_approval :: "env \<Rightarrow> job \<Rightarrow> dict \<Rightarrow> (event_kind \<times> dict) option act" where
  "settle_design_approval E J dig =
     bnd (verdict_pr dig (s_design_pr (j_row J))) (\<lambda>pr.
     bnd (ask (\<lambda>i. verify_design_approval (e_get E i) (j_repo J) pr (dev_of E J) (digest_head dig) (agent_token E))) (\<lambda>r.
     bnd (of_exc r) (\<lambda>c.
       if ok c then ret (Some (K_design_approved, dset dig ''kind'' (JStr ''design_approved'')))
       else if superseded c then dispose J Dropped
       else escalate_and_settle E J (''unverified design approval: '' @ ac_reason c))))"

definition unresolved_of :: "thread_snapshot option exc \<Rightarrow> json option exc" where
  "unresolved_of r = (case r of
     Inl e \<Rightarrow> Inl e | Inr s \<Rightarrow> Inr (map_option (\<lambda>t. JNum (int (length (ts_open t)))) s))"

definition verify_merge :: "env \<Rightarrow> job \<Rightarrow> dict \<Rightarrow> int \<Rightarrow> approval_check act" where
  "verify_merge E J dig pr =
     (let tk = github_api_token E in
      bnd (ask (\<lambda>i. fetch_pr_review_threads (j_repo J) pr tk (e_post E i))) (\<lambda>snap.
      bnd (ask (\<lambda>i. verify_feature_merge (e_get E i) (unresolved_of snap) (j_repo J) pr (arch_of E J)
             (digest_head dig) tk (checks_of (cfg E) (j_repo J)))) of_exc))"

definition forget_merge_tries :: "string \<Rightarrow> unit act" where
  "forget_merge_tries did = modify (\<lambda>l. l\<lparr>merge_tries := (merge_tries l)(did := None)\<rparr>)"

text \<open>A transient refusal stays deferred four times and escalates at the fifth.\<close>

definition retry_merge :: "env \<Rightarrow> job \<Rightarrow> string \<Rightarrow> 'a option act" where
  "retry_merge E J why =
     bnd (reads (\<lambda>l. case merge_tries l (j_did J) of None \<Rightarrow> 1 | Some n \<Rightarrow> n + 1)) (\<lambda>n.
       if n < max_attempts
       then seq (modify (\<lambda>l. l\<lparr>merge_tries := (merge_tries l)(j_did J \<mapsto> n)\<rparr>)) (ret None)
       else seq (forget_merge_tries (j_did J))
         (escalate_and_settle E J (''feature merge authorization still not ready after '' @ dec n @
            '' attempts (was transient): '' @ why)))"

definition settle_feature_approval :: "env \<Rightarrow> job \<Rightarrow> dict \<Rightarrow> (event_kind \<times> dict) option act" where
  "settle_feature_approval E J dig =
     bnd (verdict_pr dig (s_feature_pr (j_row J))) (\<lambda>pr. bnd (verify_merge E J dig pr) (\<lambda>c.
       if \<not> ok c \<and> \<not> superseded c \<and> transient c then retry_merge E J (ac_reason c)
       else seq (forget_merge_tries (j_did J))
         (if \<not> ok c \<and> superseded c then dispose J Dropped
          else if \<not> ok c then escalate_and_settle E J
            (''unverified feature merge authorization (permanent): '' @ ac_reason c)
          else bnd (defuse_feature_pr E (j_key J) (j_repo J) pr (j_did J)) (\<lambda>defused.
            ret (if defused then Some (K_merge_authorized,
                   dset (dset dig ''kind'' (JStr ''merge_authorized'')) ''merge_auth'' (JStr (ac_reason c)))
                 else None)))))"

section \<open>Merges\<close>

text \<open>Whether the merged PR is the tracked one; \<open>int\<close> of a number that is none raises.\<close>

definition is_tracked :: "int option \<Rightarrow> json \<Rightarrow> bool act" where
  "is_tracked tracked event_pr =
     (case tracked of
        None \<Rightarrow> ret False
      | Some t \<Rightarrow> if t = 0 \<or> \<not> truthy event_pr then ret False
          else bnd (need (json_int event_pr) ''ValueError'') (\<lambda>n. ret (n = t)))"

definition settle_feature_merge :: "env \<Rightarrow> job \<Rightarrow> dict \<Rightarrow> (event_kind \<times> dict) option act" where
  "settle_feature_merge E J dig =
     bnd (is_tracked (s_feature_pr (j_row J)) (dget dig ''pr'')) (\<lambda>mine.
       if \<not> mine then dispose J Dropped
       else seq (sql E (\<lambda>t st. fst (mark_artifact_removed t (j_key J)
                   (role_branch_name (j_repo J) (j_issue J) ''developer'') (Some ''branch'') None st)))
         (if s_state (j_row J) = AWAITING_VERIFICATION then dispose J Done
          else if s_state (j_row J) \<noteq> MERGING
          then escalate_and_settle E J (''unauthorized Feature PR merge: state='' @ state_name (s_state (j_row J)) @
            '' expected MERGING (merged without merge_authorized / '' @ [section_sign] @ ''8.4 bypass)'')
          else ret (Some (K_feature_merged, dig))))"

definition settle_kind :: "env \<Rightarrow> job \<Rightarrow> event_kind \<Rightarrow> dict \<Rightarrow> (event_kind \<times> dict) option act" where
  "settle_kind E J kind dig =
     (if kind = K_design_approved_unverified then settle_design_approval E J dig
      else if kind = K_feature_approved_unverified then settle_feature_approval E J dig
      else if kind = K_design_merged
      then bnd (is_tracked (s_design_pr (j_row J)) (dget dig ''pr'')) (\<lambda>mine.
             if mine then ret (Some (kind, dig)) else dispose J Dropped)
      else if kind = K_feature_merged then settle_feature_merge E J dig
      else ret (Some (kind, dig)))"

section \<open>Routing\<close>

definition comment_body :: "dict \<Rightarrow> json" where
  "comment_body data = (case dget data ''comment'' of JObj c \<Rightarrow> dget c ''body'' | _ \<Rightarrow> JNull)"

definition recipient_of :: "env \<Rightarrow> job \<Rightarrow> event_kind \<Rightarrow> string \<times> string" where
  "recipient_of E J kind = pick_recipient kind (arch_of E J) (dev_of E J) (j_sender J)"

text \<open>
  The decision on the event.  The markers are searched in a body that is a string or empty; on any
  other body the search raises, unless the sender alone decided.
\<close>

definition route_event :: "env \<Rightarrow> job \<Rightarrow> event_kind \<Rightarrow> route_decision exc" where
  "route_event E J kind =
     (case recipient_of E J kind of (role, login) \<Rightarrow>
       let body = comment_body (j_data J);
           d = route_for_recipient (Some (j_sender J)) login role
                 (Some (if role = ''architect'' then dev_of E J else arch_of E J)) (owner (cfg E))
                 (case body of JStr b \<Rightarrow> Some b | _ \<Rightarrow> None) (is_paused (j_row J)) (bots_in E J) in
       if truthy body \<and> (case body of JStr _ \<Rightarrow> False | _ \<Rightarrow> True) \<and> py_lower (j_sender J) \<noteq> py_lower login \<and>
          py_lower (j_sender J) \<noteq> py_lower (owner (cfg E))
       then Inl ''TypeError'' else Inr d)"

section \<open>Heads\<close>

definition payload_sha_of :: "job \<Rightarrow> string option" where
  "payload_sha_of J = (if j_event J = ''pull_request'' then payload_head_sha (j_data J) else None)"

definition pr_of :: "job \<Rightarrow> int option" where
  "pr_of J = pr_number_from_payload (j_event J) (j_data J) (j_issue J)"

definition is_opened :: "event_kind \<Rightarrow> bool" where
  "is_opened kind \<longleftrightarrow> kind \<in> {K_design_pr_opened, K_feature_pr_opened}"

definition tracked_pr :: "event_kind \<Rightarrow> session_row \<Rightarrow> int option" where
  "tracked_pr kind s = (if kind = K_design_pr_opened then s_design_pr s else s_feature_pr s)"

definition live_sha :: "live_pr option \<Rightarrow> string" where
  "live_sha p = (case p of None \<Rightarrow> [] | Some x \<Rightarrow> opt_str (lp_head x))"

text \<open>A PR already tracked, a head already taken, a head no longer live: no turn.  Else the live PR.\<close>

definition stale_head :: "string \<Rightarrow> string \<Rightarrow> live_pr option \<Rightarrow> bool" where
  "stale_head sha stored live \<longleftrightarrow>
     stored \<noteq> [] \<and> sha = stored \<or> live_sha live \<noteq> [] \<and> sha \<noteq> live_sha live"

definition head_gate :: "env \<Rightarrow> job \<Rightarrow> event_kind \<Rightarrow> live_pr option option act" where
  "head_gate E J kind =
     (case pr_of J of
        None \<Rightarrow> ret (Some None)
      | Some n \<Rightarrow>
          if is_opened kind
          then bnd (fetch_live_pr E (j_repo J) n) (\<lambda>live.
            if tracked_pr kind (j_row J) = Some n then dispose J Done else ret (Some live))
          else (case (head_wm kind, payload_sha_of J) of
              (Some w, Some sha) \<Rightarrow>
                bnd (fetch_live_pr E (j_repo J) n) (\<lambda>live.
                  if stale_head sha (opt_str (wm_value w (j_row J))) live then dispose J Done
                  else ret (Some live))
            | _ \<Rightarrow> ret (Some None)))"

section \<open>The state machine\<close>

definition pr_fields :: "event_kind \<Rightarrow> dict \<Rightarrow> session_field list act" where
  "pr_fields kind dig =
     (let pr = dget dig ''pr'' in
      if \<not> is_opened kind \<or> \<not> truthy pr then ret []
      else bnd (need (json_int pr) ''InterfaceError'') (\<lambda>n.
        ret [if kind = K_design_pr_opened then F_design_pr (Some n) else F_feature_pr (Some n)]))"

definition advance :: "env \<Rightarrow> job \<Rightarrow> event_kind \<Rightarrow> dict \<Rightarrow> fsm_state act" where
  "advance E J kind dig =
     (case transition (Some (s_state (j_row J))) kind of
        None \<Rightarrow> ret (s_state (j_row J))
      | Some tr \<Rightarrow>
          bnd (pr_fields kind dig) (\<lambda>fs.
            seq (set_fields E (j_key J)
                  ([F_state (new_state tr)] @ (if freeze_roles tr then [F_roles_locked True] else []) @ fs))
            (seq (if kind = K_feature_merged \<and> new_state tr = AWAITING_VERIFICATION
                  then bnd (from_db (\<lambda>st. case get_session (j_key J) st of None \<Rightarrow> j_row J | Some s \<Rightarrow> s)) (\<lambda>s.
                    ensure_verification_block E (j_repo J) (j_issue J) (opt_num (s_design_pr s))
                      (py_or (opt_num (s_feature_pr s)) (dget dig ''pr'')))
                  else ret ())
              (ret (new_state tr)))))"

section \<open>After the transition\<close>

definition spent_gate :: "env \<Rightarrow> job \<Rightarrow> event_kind \<Rightarrow> live_pr option \<Rightarrow> unit option act" where
  "spent_gate E J kind live =
     (if kind \<in> set merge_kinds then ret (Some ())
      else (case pr_of J of
          None \<Rightarrow> ret (Some ())
        | Some n \<Rightarrow> bnd (pr_is_spent E (j_repo J) n live) (\<lambda>gone.
            if gone then dispose J Done else ret (Some ()))))"

definition stamp_head :: "env \<Rightarrow> job \<Rightarrow> event_kind \<Rightarrow> live_pr option \<Rightarrow> unit act" where
  "stamp_head E J kind live =
     (case head_wm kind of
        None \<Rightarrow> ret ()
      | Some w \<Rightarrow>
          (let sha = (if is_opened kind then or_default (live_sha live) (opt_str (payload_sha_of J))
                      else opt_str (payload_sha_of J)) in
           if sha = [] then ret () else set_fields E (j_key J) [wm_field w (Some sha)]))"

definition hold_gate :: "env \<Rightarrow> job \<Rightarrow> string \<Rightarrow> unit option act" where
  "hold_gate E J role =
     bnd (held_until E (role_key (or_default (s_project (j_row J)) (project_key_from_repo (j_repo J))) role)) (\<lambda>held.
       case held of
         None \<Rightarrow> ret (Some ())
       | Some u \<Rightarrow> seq (on_db (defer_delivery_until (j_did J) \<lfloor>u\<rfloor>)) (ret None))"

definition stall_gate :: "env \<Rightarrow> job \<Rightarrow> event_kind \<Rightarrow> dict \<Rightarrow> unit option act" where
  "stall_gate E J kind dig =
     (if kind \<notin> {K_design_changes_requested, K_design_revised, K_code_changes_requested, K_feature_revised}
      then ret (Some ())
      else bnd (observe_stall_signals E (j_key J) (j_row J) dig kind (j_did J) (j_repo J)) (\<lambda>stalled.
        ret (if stalled then None else Some ())))"

end
