(* ===== verification/Loop_Process.thy ===== *)
theory Loop_Process
  imports Loop_Gates
begin

text \<open>
  One delivery from the queue to its end (\<open>agentd/src/agentd/session_loop.py\<close>): \<open>_process_one\<close>, the
  owner's reply to an escalation (\<open>_resume_from_escalation\<close>) and the drain of the deferred
  deliveries (\<open>process_deferred_batch\<close>).
\<close>

section \<open>The turn\<close>

text \<open>
  The dispatch both paths end in.  None: the delivery stays deferred or was settled by a refusal.
\<close>

definition give_up_dispatch :: "env \<Rightarrow> job \<Rightarrow> string \<Rightarrow> 'a option act" where
  "give_up_dispatch E J why =
     bnd (dispatch_retry_or_give_up E (j_did J) (j_key J) why) (\<lambda>stay.
       if stay then ret None else dispose J Done)"

definition try_turn ::
  "env \<Rightarrow> job \<Rightarrow> string \<Rightarrow> dict \<Rightarrow> string \<Rightarrow> string \<Rightarrow> string \<Rightarrow> string \<Rightarrow> turn_result option act" where
  "try_turn E J role dig turn repo arch dev =
     bnd (attempt (dispatch_turn E (j_key J) role turn (j_did J) dig (j_issue J))) (\<lambda>r.
       case r of
         Inl (Capacity_refusal e) \<Rightarrow> give_up_dispatch E J (''ensure_session capacity: '' @ e)
       | Inl (Structural_refusal e) \<Rightarrow>
           seq (handle_structural_refusal E (j_key J) repo (j_issue J) (j_did J) e arch dev) (ret None)
       | Inl (Other_error e) \<Rightarrow> fail (Other_error e)
       | Inr None \<Rightarrow> give_up_dispatch E J ''no turn after ensure_session''
       | Inr (Some t) \<Rightarrow> seq (forget_tries (j_did J))
           (ret (if tr_status t \<in> no_turn_statuses then None else Some t)))"

text \<open>The counters after a turn; None when the session escalated on silence.\<close>

definition silent_breach :: "env \<Rightarrow> silent_mode \<Rightarrow> int \<Rightarrow> json list \<Rightarrow> bool \<Rightarrow> string option" where
  "silent_breach E md silent actions window =
     (if md = Inc
      then breach_message \<lparr>silent_count = silent, threshold = silent_limit (cfg E)\<rparr> (Some actions) window
      else None)"

definition count_turn ::
  "env \<Rightarrow> job \<Rightarrow> event_kind \<Rightarrow> string \<Rightarrow> turn_result \<Rightarrow> unit option act" where
  "count_turn E J kind turn t =
     (if tr_status t = ''gateway_timeout'' then ret (Some ())
      else
        (let status = opt_nonempty (tr_status t) in
         bnd (if silent_turn_mode False status \<noteq> Keep
              then observed_progress E (j_key J) (j_repo J) kind turn (s_state (j_row J))
              else ret (False, False)) (\<lambda>(observed, window).
         let md = silent_turn_mode observed status in
         bnd (sql_try E (\<lambda>now. bump_turn_counters now (j_key J) md False)) (\<lambda>(_, _, silent).
           case silent_breach E md silent (tr_actions t) window of
             None \<Rightarrow> ret (Some ())
           | Some why \<Rightarrow> escalate_and_settle E J why))))"

definition dispatch_to :: "env \<Rightarrow> job \<Rightarrow> event_kind \<Rightarrow> dict \<Rightarrow> string \<Rightarrow> unit option act" where
  "dispatch_to E J kind dig role =
     go_on
       (if e_dispatch E \<and> e_supervised E
        then bnd (new_turn_id E) (\<lambda>turn.
          go_on (try_turn E J role dig turn (j_repo J) (arch_of E J) (dev_of E J)) (count_turn E J kind turn))
        else ret (Some ()))
       (\<lambda>_. dispose J Routed)"

section \<open>The owner's reply\<close>

definition resume_role :: "escalation_row option \<Rightarrow> string" where
  "resume_role esc =
     (let r = or_default (case esc of None \<Rightarrow> [] | Some e \<Rightarrow> opt_str (e_role e)) ''architect'' in
      if r \<in> {''architect'', ''developer''} then r else ''architect'')"

definition resume_target :: "session_row \<Rightarrow> fsm_state" where
  "resume_target s = (if resume_or_planning s = PAUSED_HUMAN then PLANNING else resume_or_planning s)"

definition reply_digest :: "job \<Rightarrow> dict \<Rightarrow> escalation_row option \<Rightarrow> dict" where
  "reply_digest J dig esc =
     fold (\<lambda>(k, v) d. dset d k v)
       [(''kind'', JStr ''owner_reply''),
        (''owner_reply'', JStr (take 8000 (str_or_empty (comment_body (j_data J))))),
        (''escalation_reason'', JStr (or_default (case esc of None \<Rightarrow> [] | Some e \<Rightarrow> e_reason e)
           (opt_str (s_paused (j_row J))))),
        (''resumed_from'', JStr ''PAUSED_HUMAN''),
        (''resume_state'', JStr (state_name (resume_target (j_row J))))] dig"

text \<open>The escalation closed, the clocks and the project block cleared, the session back in its state.\<close>

definition reopen_session :: "env \<Rightarrow> job \<Rightarrow> unit act" where
  "reopen_session E J =
     (let k = j_key J; s = j_row J; pk = project_of s in
      seq (sql E (\<lambda>t st. fst (close_escalation t k None None st)))
      (seq (on_db clear_deferred_clocks)
      (seq (only_if (pk \<noteq> []) (sql E (\<lambda>t st. fst (close_project_block t pk st))))
        (set_fields E k [F_state (resume_target s), F_paused_reason None, F_resume_state None,
           F_consec_agent_turns 0, F_silent_turns 0]))))"

definition pause_again :: "env \<Rightarrow> job \<Rightarrow> string \<Rightarrow> 'a option act" where
  "pause_again E J why =
     (let s = j_row J in
      seq (handle_structural_refusal E (j_key J) (s_repo s) (j_issue J) (j_did J) why
             (or_default (s_architect s) ''huozheclaude'') (or_default (s_developer s) ''huozhegrok''))
        (ret None))"

text \<open>A session without an endpoint gets its runner back first.\<close>

definition revive_paused :: "env \<Rightarrow> job \<Rightarrow> unit option act" where
  "revive_paused E J =
     (let s = j_row J in
      if \<not> e_supervised E \<or> j_endpoint J then ret (Some ())
      else bnd (attempt (ensure_runner E (j_key J) (s_repo s) (j_issue J) (opt_nonempty (s_architect s))
             (opt_nonempty (s_developer s)))) (\<lambda>r.
        case r of
          Inr _ \<Rightarrow> ret (Some ())
        | Inl (Structural_refusal e) \<Rightarrow> pause_again E J e
        | Inl _ \<Rightarrow> dispose J Deferred))"

definition resume_turn :: "env \<Rightarrow> job \<Rightarrow> string \<Rightarrow> dict \<Rightarrow> unit option act" where
  "resume_turn E J role dig =
     (let s = j_row J in
      if \<not> e_dispatch E \<or> \<not> e_supervised E then ret (Some ())
      else bnd (new_turn_id E) (\<lambda>turn.
        go_on (try_turn E J role dig turn (s_repo s) (or_default (s_architect s) ''huozheclaude'')
                    (or_default (s_developer s) ''huozhegrok'')) (\<lambda>t.
          if tr_status t = ''gateway_timeout'' then ret (Some ())
          else seq (sql_try E (\<lambda>now. bump_turn_counters now (j_key J) Reset True)) (ret (Some ())))))"

definition resume_from_escalation :: "env \<Rightarrow> job \<Rightarrow> dict \<Rightarrow> unit option act" where
  "resume_from_escalation E J dig =
     (if is_terminal (s_state (j_row J)) then dispose J Done
      else bnd (from_db (get_open_escalation (j_key J))) (\<lambda>esc.
        seq (reopen_session E J)
          (go_on (revive_paused E J) (\<lambda>_.
            go_on (resume_turn E J (resume_role esc) (reply_digest J dig esc)) (\<lambda>_.
              dispose J Routed)))))"

section \<open>From the transition to the turn\<close>

definition after_fsm ::
  "env \<Rightarrow> job \<Rightarrow> event_kind \<Rightarrow> dict \<Rightarrow> route_action \<Rightarrow> string \<Rightarrow> live_pr option \<Rightarrow> fsm_state \<Rightarrow> unit option act" where
  "after_fsm E J kind dig act role live state =
     (if is_terminal state then dispose J Done
      else go_on (spent_gate E J kind live) (\<lambda>_.
        seq (stamp_head E J kind live)
          (if close_reconcile_held state (j_row J) then dispose J Done
           else go_on (hold_gate E J role) (\<lambda>_.
             if act = DROP then dispose J Done
             else go_on (stall_gate E J kind dig) (\<lambda>_. dispatch_to E J kind dig role)))))"

definition act_on :: "env \<Rightarrow> job \<Rightarrow> event_kind \<Rightarrow> dict \<Rightarrow> route_decision \<Rightarrow> unit option act" where
  "act_on E J kind dig d =
     (if action d = DEFER
      then (if is_terminal (s_state (j_row J)) then dispose J Done
            else seq (sql E (\<lambda>t. defer_delivery t (j_did J))) (ret None))
      else
        seq (only_if (reset_consec d) (set_fields E (j_key J) [F_consec_agent_turns 0, F_silent_turns 0]))
          (if is_paused (j_row J) \<and> kind = K_owner_reply
           then (if close_reconcile_held (s_state (j_row J)) (j_row J) then dispose J Done
                 else resume_from_escalation E J dig)
           else go_on (head_gate E J kind) (\<lambda>live.
             bnd (advance E J kind dig) (\<lambda>state.
               after_fsm E J kind dig (action d) (fst (recipient_of E J kind)) live state))))"

section \<open>\<open>_process_one\<close>\<close>

definition process_event :: "env \<Rightarrow> job \<Rightarrow> unit option act" where
  "process_event E J =
     (let s = j_row J;
          dig = build_digest (j_event J) (j_act J) (j_repo J) (j_issue J) (j_sender J) (j_data J) in
      case (if is_paused s then None else breach (budget_of (s_turns s) (s_consec s) (s_rounds s))) of
        Some why \<Rightarrow> escalate_and_settle E J why
      | None \<Rightarrow>
          bnd (of_exc (event_kind_of (owner (cfg E)) (j_event J) (j_act J) (j_data J) (j_sender J) (j_repo J))) (\<lambda>kind.
            go_on (settle_kind E J kind dig) (\<lambda>(kind, dig).
              bnd (of_exc (route_event E J kind)) (act_on E J kind dig))))"

text \<open>The events of the issue itself, then everything else.\<close>

definition process_job :: "env \<Rightarrow> job \<Rightarrow> unit option act" where
  "process_job E J =
     (let s = j_row J; is_issue = (\<lambda>a. j_event J = ''issues'' \<and> j_act J = Some a) in
      if wakes_nobody E J then dispose J Done
      else if is_issue ''closed''
      then seq (handle_session_issue_closed E (j_key J) s (j_repo J) (j_issue J) (j_did J) (j_sender J)
             (bots_in E J) (j_data J) (j_received J)) (ret None)
      else if is_issue ''edited''
      then seq (handle_session_issue_edited E (j_key J) s (j_repo J) (j_issue J) (j_did J) (j_sender J) (j_data J))
             (ret None)
      else if is_issue ''reopened''
      then seq (set_fields E (j_key J) [F_closed_issue_escalated_at None])
             (bnd (lift_close_reconcile_hold E (j_key J) s (j_did J)) (\<lambda>lifted.
               if lifted then ret None else process_event E J))
      else process_event E J)"

text \<open>
  A delivery without a session: only an intake-passing issue event makes one.  None when the
  delivery was dropped, settled by a refusal, or left deferred.
\<close>

definition create_session ::
  "env \<Rightarrow> string \<Rightarrow> int \<Rightarrow> string \<Rightarrow> delivery \<Rightarrow> session_row option act" where
  "create_session E repo n k d =
     bnd (of_exc (may_create_session (cfg E) (d_event d) (d_action d) (d_payload d))) (\<lambda>may.
       if \<not> may then seq (set_status (delivery_id d) Dropped) (ret None)
       else if \<not> e_supervised E then ret None
       else bnd (attempt (ensure_runner E k repo n (Some (arch_default (cfg E))) (Some (dev_default (cfg E))))) (\<lambda>r.
         case r of
           Inl (Structural_refusal e) \<Rightarrow>
             seq (handle_structural_refusal E k repo n (delivery_id d) e (arch_default (cfg E)) (dev_default (cfg E)))
               (ret None)
         | Inl _ \<Rightarrow> ret None
         | Inr _ \<Rightarrow>
             bnd (from_db (get_session k)) (\<lambda>s.
               seq (only_if (s \<noteq> None) (seq (set_fields E k [F_state PLANNING])
                      (case transition (Some INTAKE) K_session_created of
                         None \<Rightarrow> ret ()
                       | Some tr \<Rightarrow> set_fields E k [F_state (new_state tr)])))
                 (from_db (get_session k)))))"

text \<open>The join of a session with its runner: whether an endpoint is known.\<close>

definition has_endpoint :: "store \<Rightarrow> session_row \<Rightarrow> bool" where
  "has_endpoint st s = (case get_runner (s_project s) st of None \<Rightarrow> False | Some r \<Rightarrow> present (r_endpoint r))"

definition job_of :: "delivery \<Rightarrow> string \<Rightarrow> int \<Rightarrow> session_row \<Rightarrow> store \<Rightarrow> job" where
  "job_of d k n s st = \<lparr>j_did = delivery_id d, j_event = d_event d, j_act = d_action d, j_repo = d_repo d,
     j_issue = n, j_key = k, j_row = s, j_endpoint = has_endpoint st s, j_sender = d_sender d,
     j_data = payload_dict (d_payload d), j_received = d_received d\<rparr>"

definition process_one :: "env \<Rightarrow> delivery \<Rightarrow> unit act" where
  "process_one E d =
     (case (d_repo d, d_issue d) of
        ([], _) \<Rightarrow> set_status (delivery_id d) Dropped
      | (_, None) \<Rightarrow> set_status (delivery_id d) Dropped
      | (repo, Some num) \<Rightarrow>
          bnd (from_db (resolve_session (d_event d) repo num (payload_dict (d_payload d)))) (\<lambda>(n, k, row).
          bnd (case row of Some s \<Rightarrow> ret (Some s) | None \<Rightarrow> create_session E repo n k d) (\<lambda>row.
            case row of
              None \<Rightarrow> ret ()
            | Some s \<Rightarrow> bnd (from_db (job_of d k n s)) (\<lambda>J. bnd (process_job E J) (\<lambda>_. ret ())))))"

text \<open>The drain: a delivery that raises is logged and left as it is.\<close>

definition process_deferred_batch :: "env \<Rightarrow> nat \<Rightarrow> int act" where
  "process_deferred_batch E limit =
     bnd (now_s E) (\<lambda>now. bnd (from_db (list_deferred now limit)) (sum_acts (\<lambda>d.
       bnd (attempt (process_one E d)) (\<lambda>r. ret (case r of Inl _ \<Rightarrow> 0 | Inr _ \<Rightarrow> 1)))))"

end
