(* ===== verification/Loop_Frame.thy ===== *)
theory Loop_Frame
  imports Loop_Process
begin

text \<open>
  What the handlers may touch.  The calls of one session's handlers are listed once; a relation
  between states that these calls keep is kept by the handlers built from them.  The locales here
  add the steps in order: quiet calls, escalation, the rest of a session's writes.
\<close>

section \<open>The calls\<close>

definition quiet_field :: "session_field \<Rightarrow> bool" where
  "quiet_field f \<longleftrightarrow> (case f of F_state _ \<Rightarrow> False | F_resume_state _ \<Rightarrow> False | _ \<Rightarrow> True)"

text \<open>The store calls on session \<open>k\<close> that leave its state alone.\<close>

inductive quiet_call :: "string \<Rightarrow> (store \<Rightarrow> store) \<Rightarrow> bool" for k where
  q_status: "quiet_call k (set_delivery_status d v)"
| q_defer: "quiet_call k (defer_delivery t d)"
| q_until: "quiet_call k (defer_delivery_until d t)"
| q_clocks: "quiet_call k clear_deferred_clocks"
| q_arrive: "quiet_call k (\<lambda>st. fst (insert_delivery t i ev ac re n se pl v st))"
| q_fields: "list_all quiet_field fs \<Longrightarrow> quiet_call k (update_session_fields t k fs)"
| q_bump: "quiet_call k (\<lambda>st. fst (bump_turn_counters t k md rc st))"
| q_finish: "quiet_call k (finish_turn tid t v sm ac)"
| q_artifact: "quiet_call k (\<lambda>st. fst (register_artifact t k ro kd ref cr st))"
| q_removed: "quiet_call k (\<lambda>st. fst (mark_artifact_removed t k ref kd ts st))"
| q_open: "quiet_call k (\<lambda>st. fst (open_escalation t k ro why cid st))"
| q_close: "quiet_call k (\<lambda>st. fst (close_escalation t k None None st))"
| q_block: "quiet_call k (open_project_block t pk why ses n cid)"
| q_unblock: "quiet_call k (\<lambda>st. fst (close_project_block t pk st))"

text \<open>The requests that are neither an agent's turn nor a step of the archive.\<close>

definition quiet_effect :: "effect \<Rightarrow> bool" where
  "quiet_effect e \<longleftrightarrow> (case e of Sent_comment _ _ _ \<Rightarrow> True | Sent_reopen _ _ \<Rightarrow> True
     | Sent_patch _ _ _ \<Rightarrow> True | _ \<Rightarrow> False)"

text \<open>One step up of an attempt counter, below the limit.\<close>

definition next_try :: "(string \<rightharpoonup> int) \<Rightarrow> string \<Rightarrow> int" where
  "next_try m d = (case m d of None \<Rightarrow> 1 | Some n \<Rightarrow> n + 1)"

inductive memory_step :: "loop \<Rightarrow> loop \<Rightarrow> bool" where
  m_spent: "memory_step l (l\<lparr>spent := x\<rparr>)"
| m_try: "next_try (tries l) d < max_attempts \<Longrightarrow> memory_step l (l\<lparr>tries := (tries l)(d \<mapsto> next_try (tries l) d)\<rparr>)"
| m_forget: "memory_step l (l\<lparr>tries := (tries l)(d := None)\<rparr>)"
| m_merge: "next_try (merge_tries l) d < max_attempts \<Longrightarrow>
    memory_step l (l\<lparr>merge_tries := (merge_tries l)(d \<mapsto> next_try (merge_tries l) d)\<rparr>)"
| m_merge_forget: "memory_step l (l\<lparr>merge_tries := (merge_tries l)(d := None)\<rparr>)"
| m_warned: "memory_step l (l\<lparr>warned := w\<rparr>)"
| m_busy: "memory_step l (l\<lparr>busy := b\<rparr>)"
| m_diffs: "memory_step l (l\<lparr>diffs := c\<rparr>)"
| m_sent: "quiet_effect e \<Longrightarrow> memory_step l (l\<lparr>sent := sent l @ [e]\<rparr>)"

section \<open>What a step returns\<close>

definition results :: "'a act \<Rightarrow> ('a \<Rightarrow> bool) \<Rightarrow> bool" where
  "results m V \<longleftrightarrow> (\<forall>l l' x. m l = (l', Inr x) \<longrightarrow> V x)"

lemma resultsD: "results m V \<Longrightarrow> m l = (l', Inr x) \<Longrightarrow> V x"
  by (simp add: results_def)

lemma results_bnd: "results m U \<Longrightarrow> (\<And>x. U x \<Longrightarrow> results (f x) V) \<Longrightarrow> results (bnd m f) V"
  by (fastforce simp: results_def bnd_def split: prod.splits sum.splits)

lemma results_any: "results m (\<lambda>_. True)"
  by (simp add: results_def)

lemma results_ret: "V x \<Longrightarrow> results (ret x) V"
  by (simp add: results_def ret_def)

lemma results_ask: "(\<And>i. V (f i)) \<Longrightarrow> results (ask f) V"
  by (simp add: results_def ask_def)

lemma results_of_exc: "(\<And>x. r = Inr x \<Longrightarrow> V x) \<Longrightarrow> results (of_exc r) V"
  by (cases r) (simp_all add: of_exc_def results_def ret_def fail_def)

lemma results_seq: "results n V \<Longrightarrow> results (seq m n) V"
  by (rule results_bnd [OF results_any])

lemma bnd_reads: "bnd (reads f) g l = g (f l) l"
  by (simp add: bnd_def reads_def)

lemma bnd_ret: "bnd (ret x) f = f x"
  by (simp add: bnd_def ret_def)

section \<open>Quiet handlers\<close>

locale session_steps = loop_frame R for R :: "loop \<Rightarrow> loop \<Rightarrow> bool" +
  fixes k :: string
  assumes step_db: "quiet_call k f \<Longrightarrow> R l (l\<lparr>db := f (db l)\<rparr>)"
    and step_memory: "memory_step l l' \<Longrightarrow> R l l'"
begin

lemma keeps_bnd_results:
  assumes "keeps R m" "results m V" "\<And>x. V x \<Longrightarrow> keeps R (f x)"
  shows "keeps R (bnd m f)"
  unfolding keeps_def
proof
  fix l
  obtain l' r where m: "m l = (l', r)" by fastforce
  show "R l (fst (bnd m f l))"
  proof (cases r)
    case (Inl e)
    with m keepsD [OF assms(1) m] show ?thesis by (simp add: bnd_def)
  next
    case (Inr x)
    have "R l' (fst (f x l'))" using assms(3) [OF resultsD [OF assms(2)]] m Inr by (simp add: keeps_def)
    with m Inr R_trans [OF keepsD [OF assms(1) m]] show ?thesis by (simp add: bnd_def)
  qed
qed

lemma keeps_on_db: "quiet_call k f \<Longrightarrow> keeps R (on_db f)"
  by (simp add: on_db_def keeps_modify step_db)

lemma keeps_sql_quiet: "(\<And>t. quiet_call k (f t)) \<Longrightarrow> keeps R (sql E f)"
  by (simp add: keeps_sql keeps_on_db)

lemma keeps_sql_try:
  assumes "\<And>t l. R l (l\<lparr>db := fst (f t (db l))\<rparr>)"
  shows "keeps R (sql_try E f)"
  unfolding sql_try_def
proof (intro keeps_bnd keeps_now)
  fix t
  show "keeps R (\<lambda>l. case f t (db l) of (st, r) \<Rightarrow>
     (l\<lparr>db := st\<rparr>, case r of Inl e \<Rightarrow> Inl (Other_error (db_text e)) | Inr x \<Rightarrow> Inr x))"
    using assms [of _ t] by (simp add: keeps_def split: prod.split) (metis fst_conv)
qed

lemma keeps_sql_try_quiet: "(\<And>t. quiet_call k (\<lambda>st. fst (f t st))) \<Longrightarrow> keeps R (sql_try E f)"
  by (rule keeps_sql_try) (rule step_db)

lemma keeps_memory: "(\<And>l. memory_step l (f l)) \<Longrightarrow> keeps R (modify f)"
  by (simp add: keeps_modify step_memory)

lemma keeps_emit: "quiet_effect e \<Longrightarrow> keeps R (emit e)"
  by (simp add: emit_def keeps_memory m_sent)

lemma keeps_status: "keeps R (set_status d v)"
  by (simp add: set_status_def keeps_on_db q_status)

lemma keeps_quiet_fields: "list_all quiet_field fs \<Longrightarrow> keeps R (set_fields E k fs)"
  by (simp add: set_fields_def keeps_sql_quiet q_fields)

lemma keeps_requests:
  "keeps R (gh_comment E repo n body)" "keeps R (gh_reopen E repo n)" "keeps R (gh_patch E tk repo n body)"
  unfolding gh_comment_def gh_reopen_def gh_patch_def
  by (intro keeps_bnd keeps_only_if keeps_emit keeps_ask; simp add: quiet_effect_def)+

lemma keeps_sup_exn:
  "(\<And>e. keeps R (f e)) \<Longrightarrow> (\<And>e. keeps R (g e)) \<Longrightarrow> (\<And>e. keeps R (h e)) \<Longrightarrow>
    keeps R (case x of Capacity_refusal e \<Rightarrow> f e | Structural_refusal e \<Rightarrow> g e | Other_error e \<Rightarrow> h e)"
  by (cases x) simp_all

lemma keeps_json:
  "keeps R a \<Longrightarrow> (\<And>x. keeps R (b x)) \<Longrightarrow> (\<And>x. keeps R (c x)) \<Longrightarrow> (\<And>x. keeps R (d x)) \<Longrightarrow>
    (\<And>x. keeps R (e x)) \<Longrightarrow> (\<And>x. keeps R (f x)) \<Longrightarrow>
    keeps R (case j of JNull \<Rightarrow> a | JBool x \<Rightarrow> b x | JNum x \<Rightarrow> c x | JStr x \<Rightarrow> d x | JArr x \<Rightarrow> e x | JObj x \<Rightarrow> f x)"
  by (cases j) simp_all

lemmas quiet_rules = keeps_rules keeps_status keeps_requests keeps_sup_exn keeps_json

lemma keeps_now_held: "keeps R (held_until E rkey)"
  unfolding held_until_def by (intro quiet_rules)

lemma keeps_hold_role: "keeps R (hold_role rkey u)"
  by (simp add: hold_role_def keeps_memory m_busy)

lemma keeps_forget_tries: "keeps R (forget_tries d)" "keeps R (forget_merge_tries d)"
  by (simp_all add: forget_tries_def forget_merge_tries_def keeps_memory m_forget m_merge_forget)

lemma keeps_fetch_live_pr: "keeps R (fetch_live_pr E repo n)"
  unfolding fetch_live_pr_def by (intro quiet_rules keeps_memory m_spent)

lemma keeps_pr_is_spent: "keeps R (pr_is_spent E repo n live)"
  unfolding pr_is_spent_def by (intro quiet_rules keeps_fetch_live_pr keeps_memory m_spent)

lemma keeps_ensure_block: "keeps R (ensure_verification_block E repo n a b)"
  unfolding ensure_verification_block_def Let_def by (intro quiet_rules)

lemma keeps_diff_stat: "keeps R (diff_stat_of E repo key b h)"
  unfolding diff_stat_of_def by (intro quiet_rules keeps_memory m_diffs)

lemma keeps_observed_progress: "keeps R (observed_progress E j repo kind turn v)"
  unfolding observed_progress_def by (intro quiet_rules)

lemma keeps_quota: "keeps R (hold_role_for_quota E rkey j)"
  unfolding hold_role_for_quota_def by (intro quiet_rules keeps_hold_role)

lemma keeps_arrive: "keeps R (arrive E w)"
  unfolding arrive_def by (intro quiet_rules keeps_sql_try_quiet q_arrive)

lemma keeps_notify: "keeps R (runner_notify E k role m)"
  unfolding runner_notify_def Let_def by (intro quiet_rules keeps_sql_try_quiet q_artifact)

lemma keeps_run_rpc: "keeps R (run_rpc E k role)"
  unfolding run_rpc_def by (intro quiet_rules keeps_arrive keeps_notify)

lemma keeps_register_reported: "keeps R (register_reported E k role d)"
  unfolding register_reported_def by (intro quiet_rules keeps_sql_try_quiet q_artifact)

lemma keeps_result_dict: "keeps R (result_dict j)"
  by (simp add: result_dict_def keeps_of_exc)

lemma keeps_turn_raised: "keeps R (turn_raised E turn rkey started text te uw)"
  unfolding turn_raised_def Let_def by (intro quiet_rules keeps_hold_role keeps_on_db q_finish)

end

section \<open>Handlers that may escalate\<close>

locale pausing = session_steps R k for R :: "loop \<Rightarrow> loop \<Rightarrow> bool" and k :: string +
  assumes keeps_escalate: "keeps R (escalate E k role why reply_does hold)"
begin

lemma keeps_retry: "keeps R (retry_or_give_up E did k why tag suffix)"
  unfolding keeps_def
proof
  fix l :: loop
  let ?n = "next_try (tries l) did"
  have forget: "keeps R (modify (\<lambda>l. l\<lparr>tries := (tries l)(did := None)\<rparr>))"
    by (rule keeps_memory) (rule m_forget)
  have give_up: "keeps R (seq (modify (\<lambda>l. l\<lparr>tries := (tries l)(did := None)\<rparr>))
      (seq (escalate E k ''system'' (tag @ '' still failing after '' @ dec ?n @ '' attempts: '' @ why @ suffix) None False)
        (ret False)))"
    by (intro keeps_bnd forget keeps_escalate keeps_ret)
  show "R l (fst (retry_or_give_up E did k why tag suffix l))"
  proof (cases "?n < max_attempts")
    case True
    then have "retry_or_give_up E did k why tag suffix l = (l\<lparr>tries := (tries l)(did \<mapsto> ?n)\<rparr>, Inr True)"
      by (simp add: retry_or_give_up_def next_try_def bnd_def reads_def modify_def ret_def)
    with step_memory [OF m_try [OF True]] show ?thesis by simp
  next
    case False
    then have "retry_or_give_up E did k why tag suffix l = seq (modify (\<lambda>l. l\<lparr>tries := (tries l)(did := None)\<rparr>))
        (seq (escalate E k ''system'' (tag @ '' still failing after '' @ dec ?n @ '' attempts: '' @ why @ suffix) None False)
          (ret False)) l"
      by (simp add: retry_or_give_up_def next_try_def bnd_reads)
    with give_up show ?thesis by (simp add: keeps_def)
  qed
qed

lemma keeps_dispatch_retry: "keeps R (dispatch_retry_or_give_up E did k why)"
  by (simp add: dispatch_retry_or_give_up_def keeps_retry)

lemma keeps_dispose: "keeps R (dispose J v)"
  unfolding dispose_def by (intro quiet_rules)

lemma keeps_go_on: "keeps R m \<Longrightarrow> (\<And>x. keeps R (f x)) \<Longrightarrow> keeps R (go_on m f)"
  unfolding go_on_def by (intro quiet_rules)

lemma keeps_escalate_settle: "j_key J = k \<Longrightarrow> keeps R (escalate_and_settle E J why)"
  unfolding escalate_and_settle_def by (intro quiet_rules keeps_dispose) (simp add: keeps_escalate)

lemma keeps_retry_merge:
  assumes k: "j_key J = k"
  shows "keeps R (retry_merge E J why :: 'a option act)"
  unfolding keeps_def
proof
  fix l :: loop
  let ?n = "next_try (merge_tries l) (j_did J)"
  let ?more = "seq (forget_merge_tries (j_did J)) (escalate_and_settle E J
      (''feature merge authorization still not ready after '' @ dec ?n @ '' attempts (was transient): '' @ why)) :: 'a option act"
  have more: "keeps R ?more" by (intro keeps_bnd keeps_forget_tries keeps_escalate_settle k)
  show "R l (fst ((retry_merge E J why :: 'a option act) l))"
  proof (cases "?n < max_attempts")
    case True
    then have "(retry_merge E J why :: 'a option act) l =
        (l\<lparr>merge_tries := (merge_tries l)(j_did J \<mapsto> ?n)\<rparr>, Inr None)"
      by (simp add: retry_merge_def next_try_def bnd_def reads_def modify_def ret_def)
    with step_memory [OF m_merge [OF True]] show ?thesis by simp
  next
    case False
    then have "(retry_merge E J why :: 'a option act) l = ?more l"
      by (simp add: retry_merge_def next_try_def bnd_reads)
    with more show ?thesis by (simp add: keeps_def)
  qed
qed

lemma keeps_defuse: "keeps R (defuse_feature_pr E k repo pr did)"
  unfolding defuse_feature_pr_def Let_def by (intro quiet_rules keeps_escalate)

lemma keeps_observe_stall: "keeps R (observe_stall_signals E k s dig kind did repo)"
  unfolding observe_stall_signals_def Let_def
  by (intro quiet_rules keeps_diff_stat keeps_escalate keeps_quiet_fields)
     (simp add: stall_fields_def quiet_field_def split: option.split)

subsection \<open>Edits and closes\<close>

lemma keeps_record_owner: "keeps R (record_owner_edit E k s changes c)"
  unfolding record_owner_edit_def by (intro quiet_rules keeps_quiet_fields) (simp_all add: quiet_field_def)

lemma keeps_apply_restore: "keeps R (apply_restore E k repo n did sender pb body e why)"
  unfolding apply_restore_def by (intro quiet_rules keeps_escalate)

lemma keeps_edited: "keeps R (handle_session_issue_edited E k s repo n did sender data)"
  unfolding handle_session_issue_edited_def restore_agent_verification_edit_def Let_def
  by (intro quiet_rules keeps_apply_restore keeps_record_owner)

lemma keeps_grace: "keeps R (close_grace_elapsed E did t)"
  unfolding close_grace_elapsed_def by (intro quiet_rules keeps_memory m_warned)

lemma keeps_lower_box: "keeps R (lower_close_checkbox E repo n c)"
  unfolding lower_close_checkbox_def by (intro quiet_rules)

lemma keeps_reconcile: "keeps R (reconcile_unverifiable_close E k repo n did c)"
  unfolding reconcile_unverifiable_close_def by (intro quiet_rules keeps_lower_box keeps_escalate)

lemma keeps_finish_grace: "keeps R (finish_close_grace E k repo n did b adr17)"
  unfolding finish_close_grace_def by (intro quiet_rules keeps_reconcile)

lemma keeps_classify_close: "keeps R (classify_close E k s repo n did data t)"
  unfolding classify_close_def Let_def
  by (intro quiet_rules keeps_grace keeps_finish_grace keeps_quiet_fields) (simp add: quiet_field_def)

lemma keeps_lift: "keeps R (lift_close_reconcile_hold E k s did)"
  unfolding lift_close_reconcile_hold_def by (intro quiet_rules keeps_quiet_fields) (simp add: quiet_field_def)

lemma keeps_stray_close: "keeps R (stray_close E k s repo n did sender bots)"
  unfolding stray_close_def Let_def by (intro quiet_rules keeps_escalate)

lemma keeps_close_escalations: "keeps R (close_escalations E k)"
  unfolding close_escalations_def by (intro keeps_sql_quiet q_close)

lemma keeps_confirm: "keeps R (confirm_teardown_artifacts E k)"
  unfolding confirm_teardown_artifacts_def confirm_artifact_def open_artifacts_def
  by (intro quiet_rules keeps_sql_quiet q_removed)

lemma keeps_teardown_defer: "keeps R (teardown_retry_or_give_up E did k why)" "keeps R (teardown_defer E did k why)"
  unfolding teardown_defer_def teardown_retry_or_give_up_def open_artifacts_def Let_def
  by (intro quiet_rules keeps_retry)+

subsection \<open>The gates\<close>

lemma keeps_settle_design: "j_key J = k \<Longrightarrow> keeps R (settle_design_approval E J dig)"
  unfolding settle_design_approval_def verdict_pr_def
  by (intro quiet_rules keeps_dispose keeps_escalate_settle)

lemma keeps_settle_feature: "j_key J = k \<Longrightarrow> keeps R (settle_feature_approval E J dig)"
  unfolding settle_feature_approval_def verdict_pr_def verify_merge_def Let_def
  by (intro quiet_rules keeps_dispose keeps_escalate_settle keeps_retry_merge keeps_forget_tries)
     (simp_all add: keeps_defuse)

lemma keeps_is_tracked: "keeps R (is_tracked t pr)"
  unfolding is_tracked_def by (intro quiet_rules)

lemma keeps_settle_merge: "j_key J = k \<Longrightarrow> keeps R (settle_feature_merge E J dig)"
  unfolding settle_feature_merge_def
  by (intro quiet_rules keeps_is_tracked keeps_dispose keeps_escalate_settle keeps_sql_quiet)
     (simp_all add: q_removed)

lemma keeps_settle_kind: "j_key J = k \<Longrightarrow> keeps R (settle_kind E J kind dig)"
  unfolding settle_kind_def
  by (intro quiet_rules keeps_is_tracked keeps_dispose keeps_settle_design keeps_settle_feature keeps_settle_merge)

lemma keeps_head_gate: "keeps R (head_gate E J kind)"
  unfolding head_gate_def by (intro quiet_rules keeps_fetch_live_pr keeps_dispose)

lemma keeps_spent_gate: "keeps R (spent_gate E J kind live)"
  unfolding spent_gate_def by (intro quiet_rules keeps_pr_is_spent keeps_dispose)

lemma quiet_wm_field: "quiet_field (wm_field w v)"
  by (cases w) (simp_all add: quiet_field_def)

lemma keeps_stamp: "j_key J = k \<Longrightarrow> keeps R (stamp_head E J kind live)"
  unfolding stamp_head_def Let_def by (intro quiet_rules) (simp add: keeps_quiet_fields quiet_wm_field)

lemma keeps_hold_gate: "keeps R (hold_gate E J role)"
  unfolding hold_gate_def by (intro quiet_rules keeps_now_held keeps_on_db q_until)

lemma keeps_stall_gate: "j_key J = k \<Longrightarrow> keeps R (stall_gate E J kind dig)"
  unfolding stall_gate_def by (intro quiet_rules) (simp add: keeps_observe_stall)

lemma keeps_reset: "j_key J = k \<Longrightarrow> keeps R (set_fields E (j_key J) [F_consec_agent_turns 0, F_silent_turns 0])"
  by (simp add: keeps_quiet_fields quiet_field_def)

lemmas gate_rules = quiet_rules keeps_dispose keeps_escalate_settle keeps_settle_kind keeps_head_gate
  keeps_spent_gate keeps_stamp keeps_hold_gate keeps_stall_gate keeps_reset keeps_go_on

subsection \<open>Deliveries that end at a gate\<close>

text \<open>A route that is dropped, or a terminal state: the session gets no turn.\<close>

lemma keeps_after_fsm_quiet:
  assumes "j_key J = k" "act = DROP \<or> is_terminal state"
  shows "keeps R (after_fsm E J kind dig act role live state)"
proof (cases "is_terminal state")
  case True
  then show ?thesis by (simp add: after_fsm_def keeps_dispose)
next
  case False
  with assms(2) have "act = DROP" by simp
  with False assms(1) show ?thesis
    by (simp only: after_fsm_def simp_thms if_False if_True) (intro gate_rules)
qed

end

end
