(* ===== verification/Loop_Drive.thy ===== *)
theory Loop_Drive
  imports Loop_Frame
begin

text \<open>
  Turns and the whole of \<open>process_job\<close> over the locales of \<open>Loop_Frame\<close>: which kinds reach the state
  machine, and what a relation must allow to be kept by one delivery.
\<close>

section \<open>The kinds that reach the state machine\<close>

text \<open>A merge is authorised: the gate passed on some answers of GitHub for this session's Architect.\<close>

definition merge_approved :: "env \<Rightarrow> job \<Rightarrow> bool" where
  "merge_approved E J \<longleftrightarrow> (\<exists>i snap pr hd_sha c.
     verify_feature_merge (e_get E i) snap (j_repo J) pr (arch_of E J) hd_sha (github_api_token E)
       (checks_of (cfg E) (j_repo J)) = Inr c \<and> ok c)"

definition design_was_approved :: "env \<Rightarrow> job \<Rightarrow> bool" where
  "design_was_approved E J \<longleftrightarrow> (\<exists>i pr hd_sha c.
     verify_design_approval (e_get E i) (j_repo J) pr (dev_of E J) hd_sha (agent_token E) = Inr c \<and> ok c)"

definition kind_earned :: "env \<Rightarrow> job \<Rightarrow> event_kind \<Rightarrow> bool" where
  "kind_earned E J kind \<longleftrightarrow> kind \<notin> {K_escalation, K_issues_closed, K_session_created, K_merge_design} \<and>
     (kind = K_merge_authorized \<longrightarrow> merge_approved E J) \<and>
     (kind = K_design_approved \<longrightarrow> design_was_approved E J) \<and>
     (kind = K_feature_merged \<longrightarrow> s_state (j_row J) = MERGING) \<and>
     (kind = K_owner_reply \<longrightarrow> py_lower (j_sender J) = py_lower (owner (cfg E)))"

definition observed_kind :: "env \<Rightarrow> job \<Rightarrow> event_kind \<Rightarrow> bool" where
  "observed_kind E J kind \<longleftrightarrow> kind \<notin> {K_escalation, K_issues_closed, K_session_created, K_merge_design,
     K_merge_authorized, K_design_approved} \<and>
     (kind = K_owner_reply \<longrightarrow> py_lower (j_sender J) = py_lower (owner (cfg E)))"

lemma pull_request_kind_cases:
  "pull_request_kind repo act pr = Some kd \<Longrightarrow> kd \<in> {K_design_pr_opened, K_feature_pr_opened, K_design_revised,
     K_feature_revised, K_design_merged, K_feature_merged}"
  by (auto simp: pull_request_kind_def Let_def split: if_splits)

lemma review_kind_cases:
  "review_kind repo rv pr = Some kd \<Longrightarrow> kd \<in> {K_code_changes_requested, K_design_changes_requested,
     K_feature_approved_unverified, K_design_approved_unverified}"
  by (auto simp: review_kind_def Let_def split: if_splits)

lemma event_kind_cases:
  assumes "event_kind_of ow event act data sender repo = Inr kd"
  shows "kd \<in> {K_issue_opened, K_design_pr_opened, K_feature_pr_opened, K_design_revised, K_feature_revised,
      K_design_merged, K_feature_merged, K_code_changes_requested, K_design_changes_requested,
      K_feature_approved_unverified, K_design_approved_unverified} \<union> range Other_kind \<or>
    kd = K_owner_reply \<and> py_lower sender = py_lower ow"
  using assms
  by (auto simp: event_kind_of_def Let_def bind_exc_def plain_kind_def
      dest: pull_request_kind_cases review_kind_cases split: if_splits sum.splits option.splits)

lemma observed_event_kind:
  "results (of_exc (event_kind_of (owner (cfg E)) (j_event J) (j_act J) (j_data J) (j_sender J) (j_repo J)))
     (observed_kind E J)"
  by (rule results_of_exc) (drule event_kind_cases, auto simp: observed_kind_def)

text \<open>What a gate hands on.\<close>

definition some_earned :: "env \<Rightarrow> job \<Rightarrow> (event_kind \<times> dict) option \<Rightarrow> bool" where
  "some_earned E J x \<longleftrightarrow> (case x of None \<Rightarrow> True | Some (kind, _) \<Rightarrow> kind_earned E J kind)"

lemma some_earned_simps [simp]:
  "some_earned E J None" "some_earned E J (Some (kind, dig)) \<longleftrightarrow> kind_earned E J kind"
  by (simp_all add: some_earned_def)

lemma results_none: "results (dispose J v) (some_earned E J)" "results (escalate_and_settle E J why) (some_earned E J)"
  unfolding dispose_def escalate_and_settle_def by (intro results_seq results_ret; simp)+

lemma results_if: "(b \<Longrightarrow> results m V) \<Longrightarrow> (\<not> b \<Longrightarrow> results n V) \<Longrightarrow> results (if b then m else n) V"
  by simp

lemma results_retry_merge: "results (retry_merge E J why) (some_earned E J)"
  unfolding retry_merge_def
  by (rule results_bnd [OF results_any]) (intro results_if results_seq results_none results_ret; simp)

lemma earned_design: "results (settle_design_approval E J dig) (some_earned E J)"
  unfolding settle_design_approval_def
proof (rule results_bnd [OF results_any])
  fix pr
  let ?ask = "\<lambda>i. verify_design_approval (e_get E i) (j_repo J) pr (dev_of E J) (digest_head dig) (agent_token E)"
  have ask: "results (ask ?ask) (\<lambda>r. \<forall>c. r = Inr c \<longrightarrow> ok c \<longrightarrow> design_was_approved E J)"
    unfolding design_was_approved_def by (rule results_ask) blast
  show "results (bnd (ask ?ask) (\<lambda>r. bnd (of_exc r) (\<lambda>c.
       if ok c then ret (Some (K_design_approved, dset dig ''kind'' (JStr ''design_approved'')))
       else if superseded c then dispose J Dropped
       else escalate_and_settle E J (''unverified design approval: '' @ ac_reason c)))) (some_earned E J)"
  proof (rule results_bnd [OF ask])
    fix r :: "string + approval_check"
    assume r: "\<forall>c. r = Inr c \<longrightarrow> ok c \<longrightarrow> design_was_approved E J"
    have "results (of_exc r) (\<lambda>c. ok c \<longrightarrow> design_was_approved E J)"
      by (rule results_of_exc) (use r in blast)
    then show "results (bnd (of_exc r) (\<lambda>c.
       if ok c then ret (Some (K_design_approved, dset dig ''kind'' (JStr ''design_approved'')))
       else if superseded c then dispose J Dropped
       else escalate_and_settle E J (''unverified design approval: '' @ ac_reason c))) (some_earned E J)"
      by (rule results_bnd) (intro results_if results_none results_ret; simp add: kind_earned_def)
  qed
qed

lemma verify_merge_ok: "results (verify_merge E J dig pr) (\<lambda>c. ok c \<longrightarrow> merge_approved E J)"
  unfolding verify_merge_def Let_def
proof (rule results_bnd [OF results_any])
  fix snap
  let ?ask = "\<lambda>i. verify_feature_merge (e_get E i) (unresolved_of snap) (j_repo J) pr (arch_of E J)
             (digest_head dig) (github_api_token E) (checks_of (cfg E) (j_repo J))"
  have "results (ask ?ask) (\<lambda>r. \<forall>c. r = Inr c \<longrightarrow> ok c \<longrightarrow> merge_approved E J)"
    unfolding merge_approved_def by (rule results_ask) blast
  then show "results (bnd (ask ?ask) of_exc) (\<lambda>c. ok c \<longrightarrow> merge_approved E J)"
    by (rule results_bnd) (rule results_of_exc, blast)
qed

lemma earned_feature: "results (settle_feature_approval E J dig) (some_earned E J)"
  unfolding settle_feature_approval_def
proof (rule results_bnd [OF results_any], rule results_bnd [OF verify_merge_ok])
  fix pr c
  assume c: "ok c \<longrightarrow> merge_approved E J"
  have grant: "results (bnd (defuse_feature_pr E (j_key J) (j_repo J) pr (j_did J)) (\<lambda>defused.
      ret (if defused then Some (K_merge_authorized, d) else None))) (some_earned E J)" if "ok c" for d
    using that c by (intro results_bnd [OF results_any] results_ret) (simp add: kind_earned_def)
  show "results (if \<not> ok c \<and> \<not> superseded c \<and> transient c then retry_merge E J (ac_reason c)
       else seq (forget_merge_tries (j_did J))
         (if \<not> ok c \<and> superseded c then dispose J Dropped
          else if \<not> ok c then escalate_and_settle E J
            (''unverified feature merge authorization (permanent): '' @ ac_reason c)
          else bnd (defuse_feature_pr E (j_key J) (j_repo J) pr (j_did J)) (\<lambda>defused.
            ret (if defused then Some (K_merge_authorized,
                   dset (dset dig ''kind'' (JStr ''merge_authorized'')) ''merge_auth'' (JStr (ac_reason c)))
                 else None)))) (some_earned E J)"
    by (intro results_if results_seq results_retry_merge results_none grant; blast)
qed

lemma earned_merge: "results (settle_feature_merge E J dig) (some_earned E J)"
  unfolding settle_feature_merge_def
  by (rule results_bnd [OF results_any])
     (intro results_if results_seq results_none results_ret; simp add: kind_earned_def)

lemma earned_kind: "observed_kind E J kind \<Longrightarrow> results (settle_kind E J kind dig) (some_earned E J)"
  unfolding settle_kind_def
  by (intro results_if earned_design earned_feature earned_merge results_bnd [OF results_any] results_ret results_none;
      simp add: kind_earned_def observed_kind_def)

section \<open>One delivery, without the turn\<close>

context pausing
begin

lemma keeps_process_event_by:
  assumes k: "j_key J = k"
    and act: "\<And>kind dig d. kind_earned E J kind \<Longrightarrow> route_event E J kind = Inr d \<Longrightarrow> keeps R (act_on E J kind dig d)"
  shows "keeps R (process_event E J)"
proof -
  have route: "keeps R (bnd (of_exc (route_event E J kind)) (act_on E J kind dig))" if "kind_earned E J kind" for kind dig
    by (rule keeps_bnd_results [OF keeps_of_exc, where V = "\<lambda>d. route_event E J kind = Inr d"])
       (auto intro: results_of_exc act that)
  have settled: "keeps R (go_on (settle_kind E J kind dig) (\<lambda>(kind, dig).
      bnd (of_exc (route_event E J kind)) (act_on E J kind dig)))" if "observed_kind E J kind" for kind dig
    unfolding go_on_def
  proof (rule keeps_bnd_results [OF keeps_settle_kind [OF k] earned_kind [OF that]])
    fix x
    assume "some_earned E J x"
    then show "keeps R (case x of None \<Rightarrow> ret None | Some y \<Rightarrow> (case y of (kind, dig) \<Rightarrow>
        bnd (of_exc (route_event E J kind)) (act_on E J kind dig)))"
      using route by (cases x) (auto simp: keeps_ret)
  qed
  have "keeps R (bnd (of_exc (event_kind_of (owner (cfg E)) (j_event J) (j_act J) (j_data J) (j_sender J) (j_repo J)))
      (\<lambda>kind. go_on (settle_kind E J kind dig) (\<lambda>(kind, dig).
        bnd (of_exc (route_event E J kind)) (act_on E J kind dig))))" for dig
    by (rule keeps_bnd_results [OF keeps_of_exc observed_event_kind]) (rule settled)
  then show ?thesis
    unfolding process_event_def Let_def by (intro keeps_option keeps_escalate_settle k)
qed

lemma keeps_process_job:
  assumes k: "j_key J = k" and "keeps R (process_event E J)"
    and "j_event J = ''issues'' \<Longrightarrow> j_act J = Some ''closed'' \<Longrightarrow>
      keeps R (handle_session_issue_closed E k (j_row J) (j_repo J) (j_issue J) (j_did J) (j_sender J)
             (bots_in E J) (j_data J) (j_received J))"
  shows "keeps R (process_job E J)"
proof -
  have edited: "keeps R (handle_session_issue_edited E (j_key J) s repo n did sender data)" for s repo n did sender data
    using k by (simp add: keeps_edited)
  have reopened: "keeps R (seq (set_fields E (j_key J) [F_closed_issue_escalated_at None])
             (bnd (lift_close_reconcile_hold E (j_key J) (j_row J) (j_did J)) (\<lambda>lifted.
               if lifted then ret None else process_event E J)))"
    using k by (intro quiet_rules assms(2)) (simp_all add: keeps_lift keeps_quiet_fields quiet_field_def)
  have closed: "keeps R (seq (handle_session_issue_closed E (j_key J) (j_row J) (j_repo J) (j_issue J) (j_did J)
      (j_sender J) (bots_in E J) (j_data J) (j_received J)) (ret None))"
    if "j_event J = ''issues'' \<and> j_act J = Some ''closed''"
    using assms(3) that k by (simp add: keeps_bnd keeps_ret)
  have if_keeps: "keeps R (if b then m else m')" if "b \<Longrightarrow> keeps R m" "keeps R m'" for b and m m' :: "unit option act"
    using that by simp
  show ?thesis
    unfolding process_job_def Let_def
    by (rule if_keeps [OF keeps_dispose], rule if_keeps [OF closed], assumption,
        rule if_keeps [OF keeps_bnd [OF edited keeps_ret]], rule if_keeps [OF reopened assms(2)])
qed

text \<open>A terminal session: the state machine stands still and nobody is woken.\<close>

lemma terminal_advance:
  assumes "is_terminal (s_state (j_row J))" "kind_earned E J kind"
  shows "advance E J kind dig = ret (s_state (j_row J))"
proof -
  have "transition (Some v) kind = None" if "v \<in> set terminal_states" for v
  proof -
    have v: "v = TEARDOWN \<or> v = CLOSED" using that by (simp add: terminal_states_def)
    then have "transition_table v kind = None" by (elim disjE; simp add: transition_table_def transition_rows_def)
    moreover have "kind \<noteq> K_escalation" "kind \<noteq> K_issues_closed" using assms(2) by (simp_all add: kind_earned_def)
    moreover have "v \<noteq> PAUSED_HUMAN" using v by (elim disjE) simp_all
    ultimately show ?thesis by (simp add: transition_def)
  qed
  then show ?thesis using assms(1) by (simp add: advance_def)
qed

lemma keeps_terminal_event:
  assumes k: "j_key J = k" and t: "is_terminal (s_state (j_row J))"
  shows "keeps R (process_event E J)"
proof (rule keeps_process_event_by [OF k])
  fix kind dig and d :: route_decision
  assume "kind_earned E J kind"
  note still = terminal_advance [OF t this]
  have resume: "keeps R (resume_from_escalation E J dig)"
    using t by (simp add: resume_from_escalation_def keeps_dispose)
  have fsm: "keeps R (bnd (ret (s_state (j_row J)))
      (\<lambda>state. after_fsm E J kind dig (action d) (fst (recipient_of E J kind)) live state))" for live
    using t k by (simp add: bnd_ret keeps_after_fsm_quiet)
  show "keeps R (act_on E J kind dig d)"
    unfolding act_on_def still by (intro gate_rules keeps_sql_quiet q_defer resume fsm k)
qed

text \<open>A paused session and a sender other than the owner: nobody is woken.\<close>

lemma paused_route:
  assumes "is_paused (j_row J)" "py_lower (j_sender J) \<noteq> py_lower (owner (cfg E))" "route_event E J kind = Inr d"
  shows "action d = DROP \<or> action d = DEFER"
proof -
  obtain role login where "recipient_of E J kind = (role, login)" by fastforce
  with assms have "\<exists>other body. d = route_for_recipient (Some (j_sender J)) login role other (owner (cfg E)) body
      True (bots_in E J)"
    by (auto simp: route_event_def Let_def split: if_splits)
  with assms(2) show ?thesis
    by (auto simp: route_for_recipient_def decide_def Let_def opt_str_def split: if_splits)
qed

lemma keeps_paused_event:
  assumes k: "j_key J = k" and p: "is_paused (j_row J)" "py_lower (j_sender J) \<noteq> py_lower (owner (cfg E))"
    and ad: "\<And>kind dig. kind_earned E J kind \<Longrightarrow> keeps R (advance E J kind dig)"
  shows "keeps R (process_event E J)"
proof (rule keeps_process_event_by [OF k])
  fix kind dig and d :: route_decision
  assume kd: "kind_earned E J kind" and d: "route_event E J kind = Inr d"
  with p have "kind \<noteq> K_owner_reply" by (auto simp: kind_earned_def)
  then have act: "act_on E J kind dig d = (if action d = DEFER
      then (if is_terminal (s_state (j_row J)) then dispose J Done
            else seq (sql E (\<lambda>t. defer_delivery t (j_did J))) (ret None))
      else seq (only_if (reset_consec d) (set_fields E (j_key J) [F_consec_agent_turns 0, F_silent_turns 0]))
          (go_on (head_gate E J kind) (\<lambda>live. bnd (advance E J kind dig) (\<lambda>state.
               after_fsm E J kind dig (action d) (fst (recipient_of E J kind)) live state))))"
    by (simp add: act_on_def)
  show "keeps R (act_on E J kind dig d)"
  proof (cases "action d = DEFER")
    case True
    then show ?thesis unfolding act by (simp only: if_True simp_thms) (intro gate_rules keeps_sql_quiet q_defer)
  next
    case False
    with paused_route [OF p d] have drop: "action d = DROP" by simp
    show ?thesis
      unfolding act drop by (simp only: route_action.distinct simp_thms if_False)
        (intro gate_rules ad kd k keeps_after_fsm_quiet; simp)
  qed
qed

end

section \<open>Handlers that wake an agent\<close>

locale driving = pausing R k for R :: "loop \<Rightarrow> loop \<Rightarrow> bool" and k :: string +
  assumes step_attach: "attaches k (db l) st \<Longrightarrow> R l (l\<lparr>db := st\<rparr>)"
    and step_turn: "t_session t = k \<Longrightarrow> R l (l\<lparr>db := fst (insert_turn t (db l))\<rparr>)"
    and step_send: "R l (l\<lparr>sent := sent l @ [Sent_turn k role v turn dig]\<rparr>)"
    and keeps_pause_hard: "keeps R (pause_structurally E k repo n why arch dev)"
begin

lemma keeps_ensure_runner: "keeps R (ensure_runner E k repo n al dl)"
  unfolding ensure_runner_def
proof (intro keeps_bnd keeps_ask keeps_now)
  fix H t
  show "keeps R (\<lambda>l. case ensure_session H t (e_cap E) (e_root E) (arch_default (cfg E)) (dev_default (cfg E))
      k repo n al dl (db l) of (st, r) \<Rightarrow> (l\<lparr>db := st\<rparr>, map_sum id (\<lambda>_. ()) r))"
    using ensure_attaches [THEN step_attach] by (simp add: keeps_def split: prod.split) (metis fst_conv)
qed

lemma keeps_revive: "keeps R (revive E k s n)"
  unfolding revive_def by (intro quiet_rules keeps_ensure_runner)

lemma keeps_turn_target: "keeps R (turn_target E k s pk n)"
  unfolding turn_target_def by (intro quiet_rules keeps_revive)

lemma keeps_turn_returned: "keeps R (turn_returned E k role turn rkey v j)"
  unfolding turn_returned_def Let_def
  by (intro quiet_rules keeps_result_dict keeps_quota keeps_on_db q_finish keeps_register_reported keeps_escalate)

lemma keeps_rpc_end:
  "(\<And>j. keeps R (f j)) \<Longrightarrow> (\<And>a b c. keeps R (g a b c)) \<Longrightarrow>
    keeps R (case x of Rpc_result j \<Rightarrow> f j | Rpc_raised a b c \<Rightarrow> g a b c)"
  by (cases x) simp_all

lemma keeps_send_turn: "keeps R (send_turn E k role turn did dig rkey v)"
  unfolding send_turn_def io_def emit_def
  by (intro quiet_rules keeps_run_rpc keeps_rpc_end keeps_turn_raised keeps_turn_returned keeps_sql_try
      keeps_modify step_send step_turn)
     (simp add: new_turn_def)

lemma keeps_dispatch_turn: "keeps R (dispatch_turn E k role turn did dig n)"
  unfolding dispatch_turn_def Let_def
  by (intro quiet_rules keeps_now_held keeps_memory m_busy keeps_turn_target keeps_send_turn)

lemma keeps_structural: "keeps R (handle_structural_refusal E k repo n did why arch dev)"
  unfolding handle_structural_refusal_def
  by (intro quiet_rules keeps_pause_hard keeps_escalate keeps_sql_quiet q_block)

lemma keeps_give_up: "j_key J = k \<Longrightarrow> keeps R (give_up_dispatch E J why)"
  unfolding give_up_dispatch_def by (intro gate_rules) (simp add: keeps_dispatch_retry)

lemma keeps_try_turn: "j_key J = k \<Longrightarrow> keeps R (try_turn E J role dig turn repo arch dev)"
  unfolding try_turn_def
  by (intro gate_rules keeps_give_up keeps_forget_tries) (simp_all add: keeps_dispatch_turn keeps_structural)

lemma keeps_count_turn: "j_key J = k \<Longrightarrow> keeps R (count_turn E J kind turn t)"
  unfolding count_turn_def Let_def
  by (intro gate_rules keeps_observed_progress keeps_sql_try_quiet) (simp add: q_bump)

lemma keeps_new_turn_id: "keeps R (new_turn_id E)"
  by (simp add: new_turn_id_def keeps_ask)

lemma keeps_dispatch_to: "j_key J = k \<Longrightarrow> keeps R (dispatch_to E J kind dig role)"
  unfolding dispatch_to_def by (intro gate_rules keeps_try_turn keeps_count_turn keeps_new_turn_id)

lemma keeps_after_fsm: "j_key J = k \<Longrightarrow> keeps R (after_fsm E J kind dig act role live state)"
  unfolding after_fsm_def by (intro gate_rules keeps_dispatch_to)

lemma keeps_resume:
  assumes "j_key J = k" "keeps R (reopen_session E J)"
  shows "keeps R (resume_from_escalation E J dig)"
proof -
  have revive: "keeps R (revive_paused E J)"
    using assms(1) unfolding revive_paused_def pause_again_def Let_def
    by (intro gate_rules) (simp_all add: keeps_ensure_runner keeps_structural)
  have "keeps R (resume_turn E J role d)" for role d
    using assms(1) unfolding resume_turn_def Let_def
    by (intro gate_rules keeps_try_turn keeps_new_turn_id keeps_sql_try_quiet) (simp_all add: q_bump)
  with revive assms(2) show ?thesis
    unfolding resume_from_escalation_def by (intro gate_rules)
qed

section \<open>One delivery\<close>

lemma keeps_act_on:
  assumes k: "j_key J = k" and ad: "keeps R (advance E J kind dig)"
    and reopen: "is_paused (j_row J) \<Longrightarrow> kind = K_owner_reply \<Longrightarrow> keeps R (reopen_session E J)"
  shows "keeps R (act_on E J kind dig d)"
proof -
  have resume: "keeps R (if is_paused (j_row J) \<and> kind = K_owner_reply
      then (if close_reconcile_held (s_state (j_row J)) (j_row J) then dispose J Done
            else resume_from_escalation E J dig) else m)" if "keeps R m" for m
    using that reopen k by (simp add: keeps_resume keeps_dispose)
  show ?thesis
    unfolding act_on_def
    by (intro resume gate_rules keeps_after_fsm keeps_sql_quiet q_defer k ad)
qed

lemma keeps_process_event:
  assumes "j_key J = k" "\<And>kind dig. kind_earned E J kind \<Longrightarrow> keeps R (advance E J kind dig)"
    and "is_paused (j_row J) \<Longrightarrow> kind_earned E J K_owner_reply \<Longrightarrow> keeps R (reopen_session E J)"
  shows "keeps R (process_event E J)"
  by (intro keeps_process_event_by keeps_act_on assms) auto

end

end
