(* ===== verification/Loop_Whole.thy ===== *)
theory Loop_Whole
  imports Loop_Drive
begin

text \<open>
  Relations that a whole delivery keeps: the locale of those that allow every field to be written,
  the locale of those that allow a close, and \<open>process_one\<close> and the drain over both.
\<close>

section \<open>Any field\<close>

locale writing = session_steps R k for R :: "loop \<Rightarrow> loop \<Rightarrow> bool" and k :: string +
  assumes step_fields: "R l (l\<lparr>db := update_session_fields t k fs (db l)\<rparr>)"
    and step_upsert: "sa_key a = k \<Longrightarrow> R l (l\<lparr>db := upsert_session a (db l)\<rparr>)"
begin

lemma keeps_fields: "keeps R (set_fields E k fs)"
  by (simp add: set_fields_def keeps_sql on_db_def keeps_modify step_fields)

lemma escalate_kept: "keeps R (escalate E k role why reply_does hold)"
  unfolding escalate_def Let_def by (intro quiet_rules keeps_sql_quiet q_open keeps_fields)

lemma pause_kept: "keeps R (pause_structurally E k repo n why arch dev)"
  unfolding pause_structurally_def
  by (intro quiet_rules keeps_fields) (simp add: on_db_def keeps_modify step_upsert paused_args_def)

lemma advance_kept: "j_key J = k \<Longrightarrow> keeps R (advance E J kind dig)"
  unfolding advance_def pr_fields_def Let_def by (intro quiet_rules keeps_ensure_block) (simp add: keeps_fields)

lemma reopen_kept: "j_key J = k \<Longrightarrow> keeps R (reopen_session E J)"
  unfolding reopen_session_def Let_def
  by (intro quiet_rules keeps_sql_quiet keeps_on_db) (simp_all add: keeps_fields q_close q_clocks q_unblock)

end

sublocale writing \<subseteq> pausing
  by unfold_locales (rule escalate_kept)

section \<open>A close\<close>

locale closing = driving R k for R :: "loop \<Rightarrow> loop \<Rightarrow> bool" and k :: string +
  assumes keeps_to_teardown: "keeps R (set_fields E k [F_state TEARDOWN, F_paused_reason None])"
    and keeps_to_closed: "keeps R (set_fields E k [F_state CLOSED, F_paused_reason None])"
    and step_emit: "R l (l\<lparr>sent := sent l @ [e]\<rparr>)"
begin

lemma keeps_any_emit: "keeps R (emit e)"
  by (simp add: emit_def keeps_modify step_emit)

lemma keeps_archive: "keeps R (archive_and_purge E repo n j pk c s t)"
  unfolding archive_and_purge_def Let_def io_def by (intro quiet_rules keeps_any_emit)

lemma keeps_archive_and_close: "keeps R (archive_and_close E k s repo n c)"
  unfolding archive_and_close_def kill_agents_def
  by (intro quiet_rules keeps_archive keeps_any_emit keeps_to_closed)

lemma keeps_attempt_close: "keeps R (finish_close E k s repo n did c)"
  unfolding finish_close_def
  by (intro quiet_rules keeps_archive_and_close keeps_teardown_defer keeps_forget_tries)

lemma keeps_teardown_turns: "keeps R (teardown_turns E k n did c failed roles)"
proof (induction roles arbitrary: failed)
  case Nil
  show ?case by (simp add: keeps_ret)
next
  case (Cons role roles)
  show ?case
    unfolding teardown_turns.simps
    by (intro quiet_rules keeps_new_turn_id keeps_dispatch_turn keeps_confirm Cons)
qed

lemma keeps_teardown_runner: "keeps R (teardown_runner E k s repo n)"
  unfolding teardown_runner_def by (intro quiet_rules keeps_ensure_runner keeps_to_teardown)

lemma keeps_run_teardown: "keeps R (run_teardown_turns E k s repo n did c)"
  unfolding run_teardown_turns_def open_artifacts_def
  by (intro quiet_rules keeps_teardown_runner keeps_teardown_defer keeps_teardown_turns)

lemma keeps_enter_teardown: "keeps R (enter_teardown E k s)"
proof -
  have "transition (Some v) K_issues_closed = Some tr \<Longrightarrow> new_state tr = TEARDOWN" for v tr
    by (auto simp: transition_def go_def split: if_splits)
  then show ?thesis
    by (auto simp: enter_teardown_def keeps_ret keeps_to_teardown split: option.split)
qed

lemma keeps_owner_close: "keeps R (owner_close_teardown E k s repo n did data t)"
  unfolding owner_close_teardown_def teardown_and_close_def open_artifacts_def
  by (intro quiet_rules keeps_close_escalations keeps_classify_close keeps_enter_teardown keeps_run_teardown
      keeps_attempt_close)

lemma keeps_closed: "keeps R (handle_session_issue_closed E k s repo n did sender bots data t)"
  unfolding handle_session_issue_closed_def by (intro keeps_if keeps_owner_close keeps_stray_close)

end

section \<open>Everything\<close>

locale whole = writing R k for R :: "loop \<Rightarrow> loop \<Rightarrow> bool" and k :: string +
  assumes step_attached: "attaches k (db l) st \<Longrightarrow> R l (l\<lparr>db := st\<rparr>)"
    and step_turn_row: "t_session t = k \<Longrightarrow> R l (l\<lparr>db := fst (insert_turn t (db l))\<rparr>)"
    and step_sent: "R l (l\<lparr>sent := sent l @ [e]\<rparr>)"

sublocale whole \<subseteq> closing
  by unfold_locales (simp_all add: step_attached step_turn_row step_sent pause_kept keeps_fields)

context whole
begin

lemma keeps_job: "j_key J = k \<Longrightarrow> keeps R (process_job E J)"
  by (intro keeps_process_job keeps_process_event reopen_kept advance_kept keeps_closed)

lemma keeps_create: "keeps R (create_session E repo n k d)"
  unfolding create_session_def
  by (intro quiet_rules keeps_ensure_runner keeps_structural keeps_fields)

lemma keeps_rest:
  "keeps R (bnd (case row of Some s \<Rightarrow> ret (Some s) | None \<Rightarrow> create_session E repo n k d) (\<lambda>row.
     case row of None \<Rightarrow> ret ()
     | Some s \<Rightarrow> bnd (from_db (job_of d k n s)) (\<lambda>J. bnd (process_job E J) (\<lambda>_. ret ()))))"
proof -
  have job: "keeps R (bnd (from_db (job_of d k n s)) (\<lambda>J. bnd (process_job E J) (\<lambda>_. ret ())))" for s
  proof (rule keeps_bnd_results [OF keeps_from_db])
    show "results (from_db (job_of d k n s)) (\<lambda>J. j_key J = k)"
      by (auto simp: results_def from_db_def reads_def job_of_def)
  qed (intro keeps_bnd keeps_ret keeps_job)
  show ?thesis
    by (rule keeps_bnd [OF keeps_option [OF keeps_create keeps_ret]], rule keeps_option [OF keeps_ret job])
qed

end

section \<open>\<open>process_one\<close>\<close>

text \<open>The session a delivery goes to.\<close>

definition target_of :: "delivery \<Rightarrow> store \<Rightarrow> (int \<times> string \<times> session_row option) option" where
  "target_of d st = (case d_issue d of
     None \<Rightarrow> None
   | Some num \<Rightarrow> if d_repo d = [] then None
       else Some (resolve_session (d_event d) (d_repo d) num (payload_dict (d_payload d)) st))"

lemma process_one_none: "target_of d (db l) = None \<Longrightarrow> process_one E d l = set_status (delivery_id d) Dropped l"
  by (cases "d_repo d") (auto simp: target_of_def process_one_def split: option.splits)

lemma process_one_at:
  assumes "target_of d (db l) = Some (n, k, row)"
  shows "process_one E d l =
    bnd (case row of Some s \<Rightarrow> ret (Some s) | None \<Rightarrow> create_session E (d_repo d) n k d) (\<lambda>row.
      case row of None \<Rightarrow> ret ()
      | Some s \<Rightarrow> bnd (from_db (job_of d k n s)) (\<lambda>J. bnd (process_job E J) (\<lambda>_. ret ()))) l"
proof -
  obtain num where num: "d_issue d = Some num" and repo: "d_repo d \<noteq> []"
    and r: "resolve_session (d_event d) (d_repo d) num (payload_dict (d_payload d)) (db l) = (n, k, row)"
    using assms by (auto simp: target_of_def split: option.splits if_splits)
  from repo obtain c cs where "d_repo d = c # cs" by (cases "d_repo d") auto
  with num r show ?thesis by (simp add: process_one_def bnd_reads from_db_def cong: option.case_cong)
qed

text \<open>A session that is there: its job runs on the row that was read.\<close>

lemma process_one_job:
  assumes "target_of d (db l) = Some (n, k, Some s)"
  shows "process_one E d l = bnd (process_job E (job_of d k n s (db l))) (\<lambda>_. ret ()) l"
  using process_one_at [OF assms] by (simp add: bnd_ret bnd_reads from_db_def)

lemma process_one_kept:
  assumes whole: "\<And>k. whole R k"
  shows "keeps R (process_one E d)"
  unfolding keeps_def
proof
  fix l
  show "R l (fst (process_one E d l))"
  proof (cases "target_of d (db l)")
    case None
    have "session_steps R []" using whole.axioms(1) [OF whole] writing.axioms(1) by blast
    from session_steps.keeps_status [OF this] have "R l (fst (set_status (delivery_id d) Dropped l))"
      by (simp add: keeps_def)
    with process_one_none [OF None] show ?thesis by simp
  next
    case (Some x)
    obtain n k row where x: "x = (n, k, row)" by (cases x) auto
    show ?thesis
      using whole.keeps_rest [OF whole] process_one_at [OF Some [unfolded x]] by (simp add: keeps_def)
  qed
qed

lemma process_one_kept_at:
  assumes "whole R k" "target_of d (db l) = Some (n, k, row)"
  shows "R l (fst (process_one E d l))"
proof -
  have "R l (fst (bnd (case row of Some s \<Rightarrow> ret (Some s) | None \<Rightarrow> create_session E (d_repo d) n k d) (\<lambda>row.
      case row of None \<Rightarrow> ret ()
      | Some s \<Rightarrow> bnd (from_db (job_of d k n s)) (\<lambda>J. bnd (process_job E J) (\<lambda>_. ret ()))) l))"
    using whole.keeps_rest [OF assms(1)] by (simp add: keeps_def)
  with process_one_at [OF assms(2)] show ?thesis by simp
qed

text \<open>The drain keeps what each delivery keeps.\<close>

context loop_frame
begin

lemma drain_by:
  assumes "\<And>d. keeps R (process_one E d)"
  shows "keeps R (process_deferred_batch E limit)"
proof -
  have "keeps R (sum_acts (\<lambda>d. bnd (attempt (process_one E d)) (\<lambda>r. ret (case r of Inl _ \<Rightarrow> 0 | Inr _ \<Rightarrow> 1))) ds)" for ds
    by (induction ds) (auto intro!: keeps_rules assms)
  then show ?thesis unfolding process_deferred_batch_def by (intro keeps_rules)
qed

end

lemma drain_kept: "(\<And>k. whole R k) \<Longrightarrow> keeps R (process_deferred_batch E limit)"
  by (intro loop_frame.drain_by process_one_kept session_steps.axioms(1) writing.axioms(1) whole.axioms(1))

end
