(* ===== verification/Loop_Theorems.thy ===== *)
theory Loop_Theorems
  imports Loop_Whole
begin

text \<open>
  What the session loop guarantees: the interpretations of the locales of \<open>Loop_Frame\<close>, \<open>Loop_Drive\<close>
  and \<open>Loop_Whole\<close> on the model, and the properties read off them.
\<close>

section \<open>Quiet calls and the session rows\<close>

lemma wf_quiet: "quiet_call k f \<Longrightarrow> wf_store st \<Longrightarrow> wf_store (f st)"
  by (erule quiet_call.cases) (simp_all add: keeps_wf)

lemma quiet_apply_field: "quiet_field f \<Longrightarrow> s_state (apply_field f s) = s_state s \<and> s_resume (apply_field f s) = s_resume s"
  by (cases f) (simp_all add: quiet_field_def)

lemma quiet_fold_fields:
  "list_all quiet_field fs \<Longrightarrow> s_state (fold apply_field fs s) = s_state s \<and> s_resume (fold apply_field fs s) = s_resume s"
  by (induction fs arbitrary: s) (simp_all add: quiet_apply_field)

lemma quiet_apply_fields:
  "list_all quiet_field fs \<Longrightarrow> s_state (apply_fields t fs s) = s_state s \<and> s_resume (apply_fields t fs s) = s_resume s"
  by (simp add: apply_fields_def quiet_fold_fields quiet_field_def)

lemma bump_session:
  "get_session j (fst (bump_turn_counters t k md rc st)) =
    (if j = k then map_option (bump_row t md rc) (get_session k st) else get_session j st)"
proof -
  have row: "session_key (bump_row t md rc s) = session_key s" for s by (simp add: bump_row_def)
  have "fst (bump_turn_counters t k md rc st) = upd_session k (bump_row t md rc) st"
    by (simp add: bump_turn_counters_def Let_def split: option.split)
  then show ?thesis
    by (cases "j = k") (simp_all only: get_session_upd [OF row] if_True if_False refl)
qed

text \<open>The state columns of a session, as the loop reads them.\<close>

definition phase :: "string \<Rightarrow> store \<Rightarrow> (fsm_state \<times> fsm_state option) option" where
  "phase k st = map_option (\<lambda>s. (s_state s, s_resume s)) (get_session k st)"

lemma phase_frame: "sessions st' = sessions st \<Longrightarrow> phase k st' = phase k st"
  using get_session_frame [of st' st k] by (simp add: phase_def)

lemma quiet_cases:
  assumes "quiet_call k f"
  shows "sessions (f st) = sessions st \<or> (\<exists>t fs. f = update_session_fields t k fs \<and> list_all quiet_field fs) \<or>
    (\<exists>t md rc. f = (\<lambda>st. fst (bump_turn_counters t k md rc st)))"
  using assms
proof cases
  case (q_fields fs t)
  then show ?thesis by (intro disjI2 disjI1 exI conjI)
next
  case (q_bump t md rc)
  then show ?thesis by (intro disjI2 exI)
qed simp_all

lemma quiet_sessions:
  assumes "quiet_call k f"
  obtains (same) "\<And>j. get_session j (f st) = get_session j st"
  | (fields) t fs where "f = update_session_fields t k fs" "list_all quiet_field fs"
  | (bump) t md rc where "f = (\<lambda>st. fst (bump_turn_counters t k md rc st))"
  using quiet_cases [OF assms, of st]
proof (elim disjE exE conjE)
  assume "sessions (f st) = sessions st"
  then show thesis by (intro same get_session_frame)
qed (auto intro: fields bump)

lemma phase_update: "j \<noteq> k \<or> list_all quiet_field fs \<Longrightarrow> phase j (update_session_fields t k fs st) = phase j st"
  by (cases "get_session j st") (auto simp: phase_def get_session_update_fields quiet_apply_fields)

lemma bump_row_phase: "s_state (bump_row t md rc s) = s_state s" "s_resume (bump_row t md rc s) = s_resume s"
  by (simp_all add: bump_row_def)

lemma phase_bump: "phase j (fst (bump_turn_counters t k md rc st)) = phase j st"
  by (cases "get_session j st") (auto simp: phase_def bump_session bump_row_phase)

lemma phase_quiet: "quiet_call k f \<Longrightarrow> phase j (f st) = phase j st"
  by (erule quiet_sessions [where st = st]) (simp_all add: phase_update phase_bump, simp add: phase_def)

lemma others_quiet: "quiet_call k f \<Longrightarrow> j \<noteq> k \<Longrightarrow> get_session j (f st) = get_session j st"
  by (erule quiet_sessions [where st = st]) (simp_all add: get_session_update_fields bump_session)

lemma phase_attach:
  assumes "attaches k st st'"
  shows "phase j st' = phase j st \<or> j = k \<and> phase k st = None \<and> (\<exists>r. phase k st' = Some (INTAKE, r))"
proof (cases "j = k")
  case False
  then show ?thesis using assms by (simp add: attaches_def phase_def)
next
  case True
  show ?thesis
  proof (cases "get_session k st")
    case (Some s)
    then obtain s' where "get_session k st' = Some s'" "same_but_project s s'"
      using assms by (auto simp: attaches_def)
    with True Some show ?thesis using same_but_project_fields [of s s'] by (simp add: phase_def)
  next
    case None
    with True assms show ?thesis by (cases "get_session k st'") (auto simp: attaches_def phase_def)
  qed
qed

section \<open>The store stays well-formed\<close>

definition wf_kept :: "loop \<Rightarrow> loop \<Rightarrow> bool" where
  "wf_kept l l' \<longleftrightarrow> (wf_store (db l) \<longrightarrow> wf_store (db l'))"

lemma memory_db [simp]: "memory_step l l' \<Longrightarrow> db l' = db l"
  by (erule memory_step.cases) simp_all

interpretation wf: whole wf_kept k for k
  by unfold_locales (auto simp: wf_kept_def wf_quiet wf_update_session wf_upsert_session wf_insert_turn attaches_def)

section \<open>Other sessions are untouched\<close>

definition only_session :: "string \<Rightarrow> loop \<Rightarrow> loop \<Rightarrow> bool" where
  "only_session k l l' \<longleftrightarrow> (\<forall>j. j \<noteq> k \<longrightarrow> get_session j (db l') = get_session j (db l)) \<and>
     breaker (db l') = breaker (db l)"

lemma breaker_quiet: "quiet_call k f \<Longrightarrow> breaker (f st) = breaker st"
  by (erule quiet_call.cases) simp_all

interpretation only: whole "only_session k" k for k
  by unfold_locales (auto simp: only_session_def others_quiet breaker_quiet get_session_update_fields get_session_upsert
       attaches_def intro: get_session_frame)

section \<open>Attempt counters\<close>

definition attempts_ok :: "(string \<rightharpoonup> int) \<Rightarrow> bool" where
  "attempts_ok m \<longleftrightarrow> (\<forall>d n. m d = Some n \<longrightarrow> 1 \<le> n \<and> n < max_attempts)"

definition counters_ok :: "loop \<Rightarrow> bool" where
  "counters_ok l \<longleftrightarrow> attempts_ok (tries l) \<and> attempts_ok (merge_tries l)"

definition counters_kept :: "loop \<Rightarrow> loop \<Rightarrow> bool" where
  "counters_kept l l' \<longleftrightarrow> (counters_ok l \<longrightarrow> counters_ok l')"

lemma attempts_forget: "attempts_ok m \<Longrightarrow> attempts_ok (m(d := None))"
  by (simp add: attempts_ok_def)

lemma attempts_next: "attempts_ok m \<Longrightarrow> next_try m d < max_attempts \<Longrightarrow> attempts_ok (m(d \<mapsto> next_try m d))"
  by (cases "m d") (fastforce simp: attempts_ok_def next_try_def)+

lemma counters_memory: "memory_step l l' \<Longrightarrow> counters_kept l l'"
  by (erule memory_step.cases)
     (simp_all add: counters_kept_def counters_ok_def attempts_forget attempts_next)

lemma counters_db: "counters_kept l (l\<lparr>db := st\<rparr>)"
  by (simp add: counters_kept_def counters_ok_def)

interpretation counters: whole counters_kept k for k
  by unfold_locales (simp_all add: counters_memory counters_db, simp_all add: counters_kept_def counters_ok_def)

section \<open>Turns\<close>

definition is_turn :: "effect \<Rightarrow> bool" where
  "is_turn e \<longleftrightarrow> (case e of Sent_turn _ _ _ _ _ \<Rightarrow> True | Sent_resume _ _ _ _ _ \<Rightarrow> True | _ \<Rightarrow> False)"

definition no_turn :: "loop \<Rightarrow> loop \<Rightarrow> bool" where
  "no_turn l l' \<longleftrightarrow> (\<exists>new. sent l' = sent l @ new \<and> (\<forall>e \<in> set new. \<not> is_turn e))"

lemma no_turn_same: "sent l' = sent l \<Longrightarrow> no_turn l l'"
  by (simp add: no_turn_def)

lemma no_turn_trans: "no_turn l l1 \<Longrightarrow> no_turn l1 l2 \<Longrightarrow> no_turn l l2"
  by (fastforce simp: no_turn_def)

lemma no_turn_memory: "memory_step l l' \<Longrightarrow> no_turn l l'"
  by (erule memory_step.cases)
     (auto simp: no_turn_same no_turn_def quiet_effect_def is_turn_def split: effect.splits)

interpretation quiet: writing no_turn k for k
  by unfold_locales (auto simp: no_turn_same no_turn_memory intro: no_turn_trans)

section \<open>How a session's state moves\<close>

lemma phase_fields:
  "phase j (update_session_fields t k fs st) =
    (if j = k \<and> fs \<noteq> [] then map_option (\<lambda>s. (s_state (apply_fields t fs s), s_resume (apply_fields t fs s))) (get_session k st)
     else phase j st)"
  by (cases "get_session k st") (auto simp: phase_def get_session_update_fields)

lemma db_comment [simp]: "db (fst (gh_comment E repo n body l)) = db l"
  by (simp add: gh_comment_def bnd_def only_if_def emit_def modify_def ret_def ask_def)

lemma value_comment: "\<exists>r. snd (gh_comment E repo n body l) = Inr r"
  by (simp add: gh_comment_def bnd_def only_if_def emit_def modify_def ret_def ask_def)

lemma db_then_fields:
  "\<exists>t t'. db (fst (seq (sql E f) (set_fields E k fs) l)) = update_session_fields t k fs (f t' (db l))"
  by (auto simp: set_fields_def sql_def now_s_def ask_def on_db_def modify_def bnd_def)

lemma db_escalate:
  "if s_state (session_or_blank k (db l)) = CLOSED then fst (escalate E k role why rd h l) = l
   else \<exists>t t' why' cid stored. db (fst (escalate E k role why rd h l)) =
     update_session_fields t k [F_state PAUSED_HUMAN, F_paused_reason stored,
       F_resume_state (Some (paused_from (session_or_blank k (db l))))]
     (fst (open_escalation t' k (Some role) why' cid (db l)))"
proof (cases "s_state (session_or_blank k (db l)) = CLOSED")
  case True
  then show ?thesis by (simp add: escalate_def from_db_def bnd_reads ret_def)
next
  case False
  define s where "s = session_or_blank k (db l)"
  define body where "body = format_escalation_comment (owner (cfg E)) k (state_name (paused_from s)) role why rd"
  obtain l1 r where c: "gh_comment E (s_repo s) (s_issue s) body l = (l1, Inr r)"
    using value_comment [of E "s_repo s" "s_issue s" body l] by (metis prod.collapse)
  then have db1: "db l1 = db l" by (metis db_comment fst_conv)
  define why' where "why' = (case r of Inl e \<Rightarrow> why @ '' [comment_post_failed: '' @ e @ '']'' | Inr _ \<Rightarrow> why)"
  define cid where "cid = (case r of Inl _ \<Rightarrow> None | Inr i \<Rightarrow> Some i)"
  define stored where "stored = Some (take 500 ((if h then close_reconcile_prefix else []) @ why'))"
  define fs where "fs = [F_state PAUSED_HUMAN, F_paused_reason stored, F_resume_state (Some (paused_from s))]"
  define f where "f = (\<lambda>t st. fst (open_escalation t k (Some role) why' cid st))"
  have "escalate E k role why rd h l = seq (sql E f) (set_fields E k fs) l1"
    using False c
    by (simp only: escalate_def from_db_def bnd_reads s_def [symmetric] if_False body_def [symmetric]
        bnd_def [of "gh_comment _ _ _ _"] prod.case sum.case Let_def f_def fs_def stored_def cid_def why'_def)
  moreover obtain t t' where "db (fst (seq (sql E f) (set_fields E k fs) l1)) = update_session_fields t k fs (f t' (db l1))"
    using db_then_fields by blast
  ultimately have "db (fst (escalate E k role why rd h l)) = update_session_fields t k fs (f t' (db l))"
    using db1 by simp
  with False show ?thesis
    unfolding s_def fs_def f_def by (simp only: if_False) (intro exI, rule refl)
qed

lemma phase_escalate:
  "phase j (db (fst (escalate E k role why rd h l))) =
    (case get_session j (db l) of
       None \<Rightarrow> None
     | Some s \<Rightarrow> if j \<noteq> k \<or> s_state s = CLOSED then Some (s_state s, s_resume s)
         else Some (PAUSED_HUMAN, Some (paused_from s)))"
proof (cases "s_state (session_or_blank k (db l)) = CLOSED")
  case True
  then show ?thesis
    using db_escalate [of k l E role why rd h]
    by (auto simp: phase_def session_or_blank_def blank_session_def new_session_def split: option.split)
next
  case False
  then obtain t t' why' cid stored where db: "db (fst (escalate E k role why rd h l)) =
     update_session_fields t k [F_state PAUSED_HUMAN, F_paused_reason stored,
       F_resume_state (Some (paused_from (session_or_blank k (db l))))]
     (fst (open_escalation t' k (Some role) why' cid (db l)))"
    using db_escalate [of k l E role why rd h] by (simp only: if_False) blast
  have g: "get_session j (fst (open_escalation t' k (Some role) why' cid (db l))) = get_session j (db l)" for j
    by (rule get_session_frame) simp
  show ?thesis
    unfolding db phase_fields
    using False g [of j] g [of k]
    by (cases "get_session j (db l)")
       (auto simp: phase_def apply_fields_def is_updated_at_def session_or_blank_def)
qed

text \<open>A closed session stays closed.\<close>

definition closed_kept :: "string \<Rightarrow> loop \<Rightarrow> loop \<Rightarrow> bool" where
  "closed_kept k l l' \<longleftrightarrow> (\<forall>r. phase k (db l) = Some (CLOSED, r) \<longrightarrow> (\<exists>r'. phase k (db l') = Some (CLOSED, r')))"

interpretation closed: pausing "closed_kept k" k for k
proof unfold_locales
  fix E role why reply_does hold
  show "keeps (closed_kept k) (escalate E k role why reply_does hold)"
    unfolding keeps_def closed_kept_def
  proof (intro allI impI)
    fix l :: loop and r
    assume "phase k (db l) = Some (CLOSED, r)"
    then obtain s where "get_session k (db l) = Some s" "s_state s = CLOSED" by (auto simp: phase_def)
    then show "\<exists>r'. phase k (db (fst (escalate E k role why reply_does hold l))) = Some (CLOSED, r')"
      by (simp add: phase_escalate)
  qed
qed (auto simp: closed_kept_def phase_quiet)

lemma closed_job:
  assumes k: "j_key J = k" and c: "s_state (j_row J) = CLOSED"
  shows "keeps (closed_kept k) (process_job E J)"
proof (rule closed.keeps_process_job [OF k])
  show "keeps (closed_kept k) (process_event E J)"
    by (rule closed.keeps_terminal_event) (simp_all add: k c terminal_states_def)
  show "keeps (closed_kept k) (handle_session_issue_closed E k (j_row J) (j_repo J) (j_issue J) (j_did J) (j_sender J)
      (bots_in E J) (j_data J) (j_received J))"
    unfolding handle_session_issue_closed_def owner_close_teardown_def
    using c by (simp add: closed.keeps_bnd closed.keeps_close_escalations closed.keeps_status closed.keeps_stray_close)
qed

end
