(* ===== verification/Loop_Moves.thy ===== *)
theory Loop_Moves
  imports Loop_Theorems
begin

text \<open>
  How a delivery moves its session's state.  A session is inside a set of states when its state is
  one of them or it is paused from one of them; a delivery enters such a set only by a transition
  of the state machine on an earned kind, or by the owner's reply.
\<close>

section \<open>Entering a set of states\<close>

definition plain_states :: "fsm_state set \<Rightarrow> fsm_state set" where
  "plain_states S = S - {INTAKE, PLANNING, PAUSED_HUMAN}"

definition inside :: "fsm_state set \<Rightarrow> (fsm_state \<times> fsm_state option) option \<Rightarrow> bool" where
  "inside S p \<longleftrightarrow> (case p of None \<Rightarrow> False
     | Some (v, r) \<Rightarrow> v \<in> plain_states S \<or> v = PAUSED_HUMAN \<and> (\<exists>w \<in> plain_states S. r = Some w))"

lemma inside_simps [simp]:
  "\<not> inside S None"
  "inside S (Some (v, r)) \<longleftrightarrow> v \<in> plain_states S \<or> v = PAUSED_HUMAN \<and> (\<exists>w \<in> plain_states S. r = Some w)"
  by (simp_all add: inside_def)

lemma plain_not [simp]: "INTAKE \<notin> plain_states S" "PLANNING \<notin> plain_states S" "PAUSED_HUMAN \<notin> plain_states S"
  by (simp_all add: plain_states_def)

definition entry :: "fsm_state set \<Rightarrow> bool \<Rightarrow> string \<Rightarrow> loop \<Rightarrow> loop \<Rightarrow> bool" where
  "entry S b k l l' \<longleftrightarrow> (inside S (phase k (db l')) \<longrightarrow> inside S (phase k (db l)) \<or> b)"

lemma phase_at: "get_session k st = Some s \<Longrightarrow> phase k st = Some (s_state s, s_resume s)"
  "get_session k st = None \<Longrightarrow> phase k st = None"
  by (simp_all add: phase_def)

lemma entry_same: "phase k (db l') = phase k (db l) \<Longrightarrow> entry S b k l l'"
  by (simp add: entry_def)

lemma entry_outside: "\<not> inside S (phase k (db l')) \<Longrightarrow> entry S b k l l'"
  by (simp add: entry_def)

lemma inside_paused: "inside S (Some (PAUSED_HUMAN, Some (paused_from s))) \<Longrightarrow> inside S (Some (s_state s, s_resume s))"
  by (auto simp: paused_from_def resume_or_planning_def split: if_splits option.splits)

lemma entry_escalate: "keeps (entry S b k) (escalate E k role why reply_does hold)"
  unfolding keeps_def
proof
  fix l :: loop
  show "entry S b k l (fst (escalate E k role why reply_does hold l))"
  proof (cases "get_session k (db l)")
    case (Some s)
    then show ?thesis
      using inside_paused [of S s] by (auto simp: entry_def phase_escalate phase_at)
  qed (simp add: entry_def phase_escalate)
qed

subsection \<open>Writes of the state\<close>

lemma phase_set_fields:
  "\<exists>t. phase k (db (fst (set_fields E k fs l))) = phase k (update_session_fields t k fs (db l))"
  by (auto simp: set_fields_def sql_def now_s_def ask_def on_db_def modify_def bnd_def)

text \<open>A write that starts with the state and does not touch the resume state.\<close>

lemma phase_state_write:
  assumes "list_all quiet_field fs"
  shows "phase k (update_session_fields t k (F_state v # fs) st) = map_option (\<lambda>(_, r). (v, r)) (phase k st)"
  using quiet_apply_fields [OF assms]
  by (cases "get_session k st")
     (simp_all add: phase_fields phase_at apply_fields_def is_updated_at_def quiet_fold_fields assms)

lemma entry_state_write:
  assumes "list_all quiet_field fs" "v \<noteq> PAUSED_HUMAN" "v \<in> plain_states S \<Longrightarrow> b"
  shows "keeps (entry S b k) (set_fields E k (F_state v # fs))"
  unfolding keeps_def
proof
  fix l
  obtain t where t: "phase k (db (fst (set_fields E k (F_state v # fs) l))) =
      phase k (update_session_fields t k (F_state v # fs) (db l))"
    using phase_set_fields by blast
  show "entry S b k l (fst (set_fields E k (F_state v # fs) l))"
    using assms by (cases "phase k (db l)") (auto simp: entry_def t phase_state_write)
qed

text \<open>The structural pause remembers the state it came from.\<close>

lemma phase_pause:
  "phase k (db (fst (pause_structurally E k repo n why arch dev l))) =
    Some (PAUSED_HUMAN, Some (case get_session k (db l) of None \<Rightarrow> PLANNING | Some s \<Rightarrow> s_state s))"
proof (cases "get_session k (db l)")
  case None
  then show ?thesis
    by (simp add: pause_structurally_def set_fields_def sql_def now_s_def ask_def on_db_def modify_def bnd_def
        from_db_def reads_def phase_def get_session_update_fields get_session_upsert paused_args_def new_session_def
        apply_fields_def is_updated_at_def)
next
  case (Some s)
  then show ?thesis
    by (simp add: pause_structurally_def set_fields_def sql_def now_s_def ask_def on_db_def modify_def bnd_def
        from_db_def reads_def phase_def get_session_update_fields apply_fields_def is_updated_at_def)
qed

lemma entry_pause: "keeps (entry S b k) (pause_structurally E k repo n why arch dev)"
  unfolding keeps_def
proof
  fix l
  show "entry S b k l (fst (pause_structurally E k repo n why arch dev l))"
    by (cases "get_session k (db l)") (auto simp: entry_def phase_pause phase_at)
qed

lemma entry_attach: "attaches k (db l) st \<Longrightarrow> entry S b k l (l\<lparr>db := st\<rparr>)"
  using phase_attach [of k "db l" st k] by (auto simp: entry_def)

interpretation entry: driving "entry S b k" k for S b k
proof unfold_locales
  show "keeps (entry S b k) (escalate E k role why reply_does hold)" for E role why reply_does hold
    by (rule entry_escalate)
  show "keeps (entry S b k) (pause_structurally E k repo n why arch dev)" for E repo n why arch dev
    by (rule entry_pause)
  show "attaches k (db l) st \<Longrightarrow> entry S b k l (l\<lparr>db := st\<rparr>)" for l :: loop and st
    by (rule entry_attach)
  show "entry S b k l (l\<lparr>db := fst (insert_turn t (db l))\<rparr>)" for l :: loop and t
    by (rule entry_same, rule phase_frame) simp
qed (auto simp: entry_def phase_quiet)

text \<open>A close writes the two states of the teardown only.\<close>

interpretation close_entry: closing "entry (S - {TEARDOWN, CLOSED}) b k" k for S b k
proof unfold_locales
  let ?S = "S - {TEARDOWN, CLOSED}"
  show "keeps (entry ?S b k) (set_fields E k [F_state TEARDOWN, F_paused_reason None])" for E
    by (rule entry_state_write) (simp_all add: quiet_field_def plain_states_def)
  show "keeps (entry ?S b k) (set_fields E k [F_state CLOSED, F_paused_reason None])" for E
    by (rule entry_state_write) (simp_all add: quiet_field_def plain_states_def)
  show "entry ?S b k l (l\<lparr>sent := sent l @ [e]\<rparr>)" for l :: loop and e
    by (rule entry_same) simp
qed

section \<open>The two ways in\<close>

definition moved_to :: "env \<Rightarrow> job \<Rightarrow> fsm_state \<Rightarrow> bool" where
  "moved_to E J v \<longleftrightarrow>
     (\<exists>kind tr. kind_earned E J kind \<and> transition (Some (s_state (j_row J))) kind = Some tr \<and> new_state tr = v)"

definition resumed_to :: "env \<Rightarrow> job \<Rightarrow> fsm_state \<Rightarrow> bool" where
  "resumed_to E J v \<longleftrightarrow> kind_earned E J K_owner_reply \<and> is_paused (j_row J) \<and> s_resume (j_row J) = Some v"

definition ways_in :: "env \<Rightarrow> job \<Rightarrow> fsm_state set \<Rightarrow> bool" where
  "ways_in E J S \<longleftrightarrow> (\<exists>v \<in> plain_states S. moved_to E J v \<or> resumed_to E J v)"

lemma earned_not_pause: "kind_earned E J kind \<Longrightarrow> transition v kind = Some tr \<Longrightarrow> new_state tr \<noteq> PAUSED_HUMAN"
  by (auto simp: kind_earned_def transition_def transition_table_def transition_rows_def go_def Let_def
      split: if_splits option.splits)

lemma quiet_pr_fields: "results (pr_fields kind dig) (list_all quiet_field)"
  unfolding pr_fields_def Let_def
  by (intro results_if results_bnd [OF results_any] results_ret) (simp_all add: quiet_field_def)

lemma entry_advance:
  assumes k: "j_key J = k" and kd: "kind_earned E J kind" and w: "ways_in E J S \<Longrightarrow> b"
  shows "keeps (entry S b k) (advance E J kind dig)"
proof (cases "transition (Some (s_state (j_row J))) kind")
  case None
  then show ?thesis by (simp add: advance_def entry.keeps_ret)
next
  case (Some tr)
  have to: "b" if "new_state tr \<in> plain_states S"
    using that w kd Some by (auto simp: ways_in_def moved_to_def)
  have state: "keeps (entry S b k) (set_fields E k ([F_state (new_state tr)] @ (if freeze_roles tr then [F_roles_locked True] else []) @ fs))"
    if "list_all quiet_field fs" for fs
    using that earned_not_pause [OF kd Some] to by (auto intro!: entry_state_write simp: quiet_field_def)
  have read: "keeps (entry S b k) (pr_fields kind dig)"
    unfolding pr_fields_def Let_def by (intro entry.quiet_rules)
  show ?thesis
    unfolding advance_def Some option.case k
    by (rule entry.keeps_bnd_results [OF read quiet_pr_fields], rule entry.keeps_bnd [OF state], assumption)
       (intro entry.quiet_rules entry.keeps_ensure_block)
qed

lemma reopen_target:
  "phase k (update_session_fields t k [F_state v, F_paused_reason None, F_resume_state None,
      F_consec_agent_turns 0, F_silent_turns 0] st) = map_option (\<lambda>_. (v, None)) (phase k st)"
  by (cases "get_session k st") (simp_all add: phase_fields phase_at apply_fields_def is_updated_at_def)

lemma entry_reopen:
  assumes k: "j_key J = k" and p: "is_paused (j_row J)" "kind_earned E J K_owner_reply" and w: "ways_in E J S \<Longrightarrow> b"
  shows "keeps (entry S b k) (reopen_session E J)"
proof -
  let ?fs = "[F_state (resume_target (j_row J)), F_paused_reason None, F_resume_state None,
      F_consec_agent_turns 0, F_silent_turns 0]"
  have to: "b" if "resume_target (j_row J) \<in> plain_states S"
    using that w p by (auto simp: ways_in_def resumed_to_def resume_target_def resume_or_planning_def split: option.splits if_splits)
  have up: "resume_target (j_row J) \<noteq> PAUSED_HUMAN" by (simp add: resume_target_def)
  have "keeps (entry S b k) (set_fields E k ?fs)"
    unfolding keeps_def
  proof
    fix l
    obtain t where t: "phase k (db (fst (set_fields E k ?fs l))) = phase k (update_session_fields t k ?fs (db l))"
      using phase_set_fields by blast
    show "entry S b k l (fst (set_fields E k ?fs l))"
      using to up by (cases "phase k (db l)") (auto simp: entry_def t reopen_target)
  qed
  then show ?thesis
    unfolding reopen_session_def Let_def k
    by (intro entry.quiet_rules entry.keeps_sql_quiet entry.keeps_on_db) (simp_all add: q_close q_clocks q_unblock)
qed

lemma entry_event: "j_key J = k \<Longrightarrow> keeps (entry S (ways_in E J S) k) (process_event E J)"
  by (intro entry.keeps_process_event entry_advance entry_reopen)

lemma entry_job: "j_key J = k \<Longrightarrow> keeps (entry (S - {TEARDOWN, CLOSED}) (ways_in E J (S - {TEARDOWN, CLOSED})) k) (process_job E J)"
  by (intro entry.keeps_process_job entry_event close_entry.keeps_closed)

text \<open>The same, for any set, when the delivery is not a close.\<close>

lemma entry_open_job:
  "j_key J = k \<Longrightarrow> \<not> (j_event J = ''issues'' \<and> j_act J = Some ''closed'') \<Longrightarrow>
    keeps (entry S (ways_in E J S) k) (process_job E J)"
  by (intro entry.keeps_process_job entry_event) auto

section \<open>Staying in a set of states\<close>

text \<open>A session in a set of states, or paused, stays so unless the owner replied.\<close>

definition stays :: "fsm_state set \<Rightarrow> bool \<Rightarrow> string \<Rightarrow> loop \<Rightarrow> loop \<Rightarrow> bool" where
  "stays A b k l l' \<longleftrightarrow> (\<forall>v r. phase k (db l) = Some (v, r) \<longrightarrow> v \<in> insert PAUSED_HUMAN A \<longrightarrow>
     b \<or> (\<exists>v' r'. phase k (db l') = Some (v', r') \<and> v' \<in> insert PAUSED_HUMAN A))"

lemma stays_same: "phase k (db l') = phase k (db l) \<Longrightarrow> stays A b k l l'"
  by (simp add: stays_def)

lemma stays_trans: "stays A b k l l1 \<Longrightarrow> stays A b k l1 l2 \<Longrightarrow> stays A b k l l2"
  by (fastforce simp: stays_def)

lemma stays_to: "phase k (db l') = Some (v, r) \<Longrightarrow> v \<in> insert PAUSED_HUMAN A \<Longrightarrow> stays A b k l l'"
  by (simp add: stays_def)

lemma stays_escalate: "keeps (stays A b k) (escalate E k role why reply_does hold)"
  unfolding keeps_def
proof
  fix l :: loop
  show "stays A b k l (fst (escalate E k role why reply_does hold l))"
    by (cases "get_session k (db l)") (auto simp: stays_def phase_escalate phase_at)
qed

lemma stays_pause: "keeps (stays A b k) (pause_structurally E k repo n why arch dev)"
  unfolding keeps_def by (intro allI stays_to [OF phase_pause]) simp

lemma stays_attach: "attaches k (db l) st \<Longrightarrow> stays A b k l (l\<lparr>db := st\<rparr>)"
  using phase_attach [of k "db l" st k] by (auto simp: stays_def)

interpretation stays: driving "stays A b k" k for A b k
proof unfold_locales
  show "stays A b k l l1 \<Longrightarrow> stays A b k l1 l2 \<Longrightarrow> stays A b k l l2" for l l1 l2
    by (rule stays_trans)
  show "keeps (stays A b k) (escalate E k role why reply_does hold)" for E role why reply_does hold
    by (rule stays_escalate)
  show "keeps (stays A b k) (pause_structurally E k repo n why arch dev)" for E repo n why arch dev
    by (rule stays_pause)
  show "attaches k (db l) st \<Longrightarrow> stays A b k l (l\<lparr>db := st\<rparr>)" for l :: loop and st
    by (rule stays_attach)
  show "stays A b k l (l\<lparr>db := fst (insert_turn t (db l))\<rparr>)" for l :: loop and t
    by (rule stays_same, rule phase_frame) simp
  show "quiet_call k f \<Longrightarrow> stays A b k l (l\<lparr>db := f (db l)\<rparr>)" for f and l :: loop
    by (rule stays_same) (simp add: phase_quiet)
qed (auto intro: stays_same)

lemma stays_write:
  assumes "list_all quiet_field fs" "v \<in> insert PAUSED_HUMAN A"
  shows "keeps (stays A b k) (set_fields E k (F_state v # fs))"
  unfolding keeps_def
proof
  fix l
  obtain t where t: "phase k (db (fst (set_fields E k (F_state v # fs) l))) =
      phase k (update_session_fields t k (F_state v # fs) (db l))"
    using phase_set_fields by blast
  show "stays A b k l (fst (set_fields E k (F_state v # fs) l))"
    using assms by (cases "phase k (db l)") (auto simp: stays_def t phase_state_write)
qed

interpretation close_stays: closing "stays (A \<union> {TEARDOWN, CLOSED}) b k" k for A b k
proof unfold_locales
  let ?A = "A \<union> {TEARDOWN, CLOSED}"
  show "keeps (stays ?A b k) (set_fields E k [F_state TEARDOWN, F_paused_reason None])" for E
    by (rule stays_write) (simp_all add: quiet_field_def)
  show "keeps (stays ?A b k) (set_fields E k [F_state CLOSED, F_paused_reason None])" for E
    by (rule stays_write) (simp_all add: quiet_field_def)
  show "stays ?A b k l (l\<lparr>sent := sent l @ [e]\<rparr>)" for l :: loop and e
    by (rule stays_same) simp
qed

text \<open>A session that is paused, or ended, moves by the owner's reply only.\<close>

lemma still_advance:
  assumes "s_state (j_row J) \<in> {PAUSED_HUMAN, TEARDOWN, CLOSED}" "kind_earned E J kind" "kind \<noteq> K_owner_reply"
  shows "advance E J kind dig = ret (s_state (j_row J))"
proof -
  have "transition (Some v) kind = None" if "v \<in> {PAUSED_HUMAN, TEARDOWN, CLOSED}" for v
    using assms(2,3) that
    by (auto simp: kind_earned_def transition_def transition_table_def transition_rows_def terminal_states_def)
  then show ?thesis using assms(1) by (simp add: advance_def)
qed

definition replied :: "env \<Rightarrow> job \<Rightarrow> bool" where
  "replied E J \<longleftrightarrow> is_paused (j_row J) \<and> kind_earned E J K_owner_reply"

lemma stays_if: "b \<Longrightarrow> stays A b k l l'"
  by (simp add: stays_def)

lemma stays_event:
  assumes k: "j_key J = k" and v: "s_state (j_row J) \<in> {PAUSED_HUMAN, TEARDOWN, CLOSED}"
  shows "keeps (stays A (replied E J) k) (process_event E J)"
proof (cases "replied E J")
  case True
  then show ?thesis by (simp add: keeps_def stays_if)
next
  case False
  show ?thesis
  proof (rule stays.keeps_process_event [OF k])
    fix kind dig
    assume kd: "kind_earned E J kind"
    show "keeps (stays A (replied E J) k) (advance E J kind dig)"
    proof (cases "kind = K_owner_reply")
      case True
      with kd False have "\<not> is_paused (j_row J)" by (simp add: replied_def)
      then have "s_state (j_row J) \<in> {TEARDOWN, CLOSED}" using v by (auto simp: is_paused_def)
      then have "transition (Some (s_state (j_row J))) K_owner_reply = None"
        by (auto simp: transition_def transition_table_def transition_rows_def)
      then show ?thesis by (simp add: True advance_def stays.keeps_ret)
    qed (simp add: still_advance [OF v kd] stays.keeps_ret)
  qed (use False in \<open>auto simp: replied_def\<close>)
qed

lemma stays_job:
  assumes k: "j_key J = k" and v: "s_state (j_row J) \<in> {PAUSED_HUMAN, TEARDOWN, CLOSED}"
  shows "keeps (stays (A \<union> {TEARDOWN, CLOSED}) (replied E J) k) (process_job E J)"
  by (intro stays.keeps_process_job stays_event close_stays.keeps_closed assms)

text \<open>Without a close by the owner, a paused session stays paused.\<close>

lemma stays_paused_job:
  assumes k: "j_key J = k" and v: "s_state (j_row J) = PAUSED_HUMAN"
    and who: "py_lower (j_sender J) \<noteq> py_lower (owner (cfg E))"
  shows "keeps (stays {} (replied E J) k) (process_job E J)"
proof (rule stays.keeps_process_job [OF k stays_event [OF k]])
  show "keeps (stays {} (replied E J) k) (handle_session_issue_closed E k (j_row J) (j_repo J) (j_issue J)
      (j_did J) (j_sender J) (bots_in E J) (j_data J) (j_received J))"
    using who unfolding handle_session_issue_closed_def by (simp add: stays.keeps_stray_close)
qed (simp add: v)

end
