(* ===== verification/Loop_Examples.thy ===== *)
theory Loop_Examples
  imports Loop_Moves
begin

text \<open>
  A concrete gateway for the witnesses: every request to the outside fails, turns are not dispatched,
  the clock stands, and the store holds one session on an empty database.
\<close>

definition example_host :: host where
  "example_host = \<lparr>h_inspect = (\<lambda>_. (1, [])), h_layout = None, h_image = ''runner'', h_image_present = True,
     h_ping = (\<lambda>_. Inl ''refused''), h_worktree = (\<lambda>_ _. None), h_tokens = None, h_start = (\<lambda>_. Inl ''no docker''),
     h_resume = None, h_create = Inl ''no docker'', h_mounts = [], h_env = [], h_bearer_probe = (\<lambda>_. (1, [])),
     h_srv_probe = ([], []), h_port = Inl ''none'', h_init = None, h_new_bearer = ''b''\<rparr>"

definition example_env :: "string option \<Rightarrow> http \<Rightarrow> env" where
  "example_env gw get = \<lparr>cfg = example_config, e_cap = 2, e_root = ''/srv'', e_gateway = gw,
     e_claude = None, e_grok = None, e_supervised = True, e_dispatch = False, e_now = (\<lambda>_. 100),
     e_uuid = (\<lambda>_. ''u''), e_host = (\<lambda>_. example_host), e_get = (\<lambda>_. get),
     e_post = (\<lambda>_ _ _. Inl ''offline''), e_patch = (\<lambda>_ _ _. Inl ''offline''), e_probe = (\<lambda>_ _. False),
     e_rpc = (\<lambda>_. \<lparr>rp_notes = [], rp_arrivals = [], rp_end = Rpc_raised ''offline'' False False\<rparr>),
     e_gone = (\<lambda>_ _ _. False), e_is_dir = (\<lambda>_ _. True), e_is_file = (\<lambda>_ _. False), e_io = (\<lambda>_. None),
     e_killed = (\<lambda>_. None), e_models = JNull, e_sha256 = id\<rparr>"

definition offline :: env where
  "offline = example_env None (\<lambda>_. Inl ''offline'')"

definition example_loop :: "store \<Rightarrow> loop" where
  "example_loop st = \<lparr>db = st, spent = [], merge_tries = (\<lambda>_. None), tries = (\<lambda>_. None), warned = [],
     busy = (\<lambda>_. None), diffs = [], tick = 0, sent = []\<rparr>"

definition session_in :: "fsm_state \<Rightarrow> store" where
  "session_in v = upsert_session (example_args v) empty_store"

definition example_row :: "fsm_state \<Rightarrow> session_row" where
  "example_row v = new_session (example_args v)"

lemma get_session_in [simp]: "get_session ''o/r#1'' (session_in v) = Some (example_row v)"
proof -
  have "get_session ''o/r#1'' empty_store = None" by (simp add: get_session_def empty_store_def)
  then show ?thesis by (simp add: session_in_def get_session_upsert example_args_def example_row_def)
qed

lemma example_row_state [simp]: "s_state (example_row v) = v"
  by (simp add: example_row_def new_session_def example_args_def)

lemma wf_session_in: "wf_store (session_in v)"
  by (simp add: session_in_def wf_upsert_session wf_empty)

lemma example_db [simp]: "db (example_loop st) = st"
  by (simp add: example_loop_def)

definition example_delivery :: "string \<Rightarrow> string option \<Rightarrow> string \<Rightarrow> dict \<Rightarrow> delivery" where
  "example_delivery ev act who data = \<lparr>delivery_id = ''d1'', d_event = ev, d_action = act, d_repo = ''o/r'',
     d_issue = Some 1, d_sender = who, d_received = 0, d_payload = Some (JObj data), d_status = Deferred,
     d_next = 0, d_defers = 0\<rparr>"

definition branch_pr :: "string \<Rightarrow> json" where
  "branch_pr role = JObj [(''number'', JNum 7), (''title'', JStr ''a change''),
     (''head'', JObj [(''ref'', JStr (role_branch_name ''o/r'' 1 role)), (''sha'', JStr ''abc'')])]"

definition design_opened :: delivery where
  "design_opened = example_delivery ''pull_request'' (Some ''opened'') ''c'' [(''pull_request'', branch_pr ''architect'')]"

text \<open>The model runs: the Architect's pull request takes the session to the design review.\<close>

lemma target_design_opened: "target_of design_opened (session_in PLANNING) = Some (1, ''o/r#1'', Some (example_row PLANNING))"
  unfolding get_session_in [symmetric] by code_simp

text \<open>GitHub, for a feature PR that the Architect approved on its head.\<close>

definition approved_get :: http where
  "approved_get url =
     (if url = api ''o/r'' ''/pulls/7/reviews'' then
        Inr (JArr [JObj [(''user'', JObj [(''login'', JStr ''c'')]), (''state'', JStr ''APPROVED''),
                         (''commit_id'', JStr ''abc'')]])
      else if url = api ''o/r'' ''/pulls/7'' \<or> url = api ''o/r'' ''/issues/7'' then
        Inr (JObj [(''head'', JObj [(''sha'', JStr ''abc'')]), (''mergeable_state'', JStr ''clean''),
                   (''state'', JStr ''open''), (''body'', JStr [])])
      else Inl ''404'')"

definition online :: env where
  "online = example_env (Some ''t'') approved_get"

definition feature_approved :: delivery where
  "feature_approved = example_delivery ''pull_request_review'' (Some ''submitted'') ''c''
     [(''review'', JObj [(''state'', JStr ''approved'')]), (''pull_request'', branch_pr ''developer'')]"

lemma target_feature_approved:
  "target_of feature_approved (session_in CODE_REVIEW) = Some (1, ''o/r#1'', Some (example_row CODE_REVIEW))"
  unfolding get_session_in [symmetric] by code_simp

lemma feature_approved_moves:
  "phase ''o/r#1'' (db (fst (process_one online feature_approved (example_loop (session_in CODE_REVIEW))))) =
     Some (MERGING, None)"
  by code_simp

lemma design_opened_moves:
  "phase ''o/r#1'' (db (fst (process_one offline design_opened (example_loop (session_in PLANNING))))) =
     Some (DESIGN_REVIEW, None)"
  by code_simp

text \<open>The authorised pull request is merged: the session awaits the owner's verification.\<close>

definition merging_store :: store where
  "merging_store = update_session_fields 1 ''o/r#1'' [F_feature_pr (Some 7)] (session_in MERGING)"

definition merging_row :: session_row where
  "merging_row = the (get_session ''o/r#1'' merging_store)"

definition feature_merged :: delivery where
  "feature_merged = example_delivery ''pull_request'' (Some ''closed'') ''c''
     [(''pull_request'', case branch_pr ''developer'' of JObj d \<Rightarrow> JObj ((''merged'', JBool True) # d) | j \<Rightarrow> j)]"

lemma target_feature_merged: "target_of feature_merged merging_store = Some (1, ''o/r#1'', Some merging_row)"
  by code_simp

lemma feature_merged_moves:
  "phase ''o/r#1'' (db (fst (process_one offline feature_merged (example_loop merging_store)))) =
     Some (AWAITING_VERIFICATION, None)"
  by code_simp

end
