(* ===== verification/Loop_Guarantees.thy ===== *)
theory Loop_Guarantees
  imports Loop_Examples
begin

text \<open>
  What one delivery, and one drain, may do to a session: the properties of the session loop over the
  interpretations of \<open>Loop_Theorems\<close> and \<open>Loop_Moves\<close>.
\<close>

section \<open>From the job to the delivery\<close>

lemma fst_bnd_ret: "fst (bnd m (\<lambda>_. ret ()) l) = fst (m l)"
  by (simp add: bnd_def ret_def split: prod.split sum.split)

lemma process_one_state:
  "target_of d (db l) = Some (n, k, Some s) \<Longrightarrow> fst (process_one E d l) = fst (process_job E (job_of d k n s (db l)) l)"
  by (simp add: process_one_job fst_bnd_ret)

lemma target_row:
  assumes "target_of d st = Some (n, k, row)" "wf_store st"
  shows "get_session k st = row"
  using assms by (auto simp: target_of_def split: option.splits if_splits intro: resolve_session_row [symmetric])

lemma job_of_simps [simp]:
  "j_key (job_of d k n s st) = k" "j_row (job_of d k n s st) = s" "j_sender (job_of d k n s st) = d_sender d"
  by (simp_all add: job_of_def)

section \<open>The state machine is obeyed\<close>

lemma delivery_moves:
  assumes wf: "wf_store (db l)" and t: "target_of d (db l) = Some (n, k, Some s)"
    and after: "get_session k (db (fst (process_one E d l))) = Some s'"
    and v: "s_state s' \<notin> {INTAKE, PLANNING, PAUSED_HUMAN, TEARDOWN, CLOSED}"
  shows "s_state s' = s_state s \<or> moved_to E (job_of d k n s (db l)) (s_state s') \<or>
    resumed_to E (job_of d k n s (db l)) (s_state s')"
proof -
  define J where "J = job_of d k n s (db l)"
  have k: "j_key J = k" and row: "j_row J = s" by (simp_all add: J_def)
  have eq: "fst (process_one E d l) = fst (process_job E J l)" using process_one_state [OF t] by (simp add: J_def)
  have before: "phase k (db l) = Some (s_state s, s_resume s)" using target_row [OF t wf] by (simp add: phase_at)
  have now: "phase k (db (fst (process_job E J l))) = Some (s_state s', s_resume s')"
    using after by (simp add: eq phase_at)
  have self: "{s_state s'} - {TEARDOWN, CLOSED} = {s_state s'}" "s_state s' \<in> plain_states {s_state s'}"
    using v by (auto simp: plain_states_def)
  have "entry {s_state s'} (ways_in E J {s_state s'}) k l (fst (process_job E J l))"
    using entry_job [OF k, of "{s_state s'}" E] by (simp only: self keeps_def)
  then consider "s_state s' = s_state s" | "s_state s = PAUSED_HUMAN" "s_resume s = Some (s_state s')"
    | "ways_in E J {s_state s'}"
    using self(2) by (auto simp: entry_def now before plain_states_def)
  then show ?thesis
  proof cases
    case 2
    have "stays {TEARDOWN, CLOSED} (replied E J) k l (fst (process_job E J l))"
      using stays_job [OF k, of "{}" E] 2 row by (simp add: keeps_def)
    then have "replied E J" using 2 v by (auto simp: stays_def before now)
    with 2 row show ?thesis by (simp add: resumed_to_def replied_def J_def)
  qed (auto simp: ways_in_def plain_states_def J_def)
qed

text \<open>C1: one delivery moves its session into a state of the lifecycle proper only by a transition of
  the state machine from the state of the row, on a kind that its evidence earned (a merge is
  authorised by the live review gate, a design approval by its own, a merge counts in MERGING only),
  or by the owner's reply to the escalation that paused it there.\<close>

theorem delivery_moves_by_fsm:
  assumes "wf_store (db l)" "target_of d (db l) = Some (n, k, Some s)"
    and "get_session k (db (fst (process_one E d l))) = Some s'"
    and "s_state s' \<notin> {INTAKE, PLANNING, PAUSED_HUMAN, TEARDOWN, CLOSED}" "s_state s' \<noteq> s_state s"
  shows "(\<exists>kind tr. kind_earned E (job_of d k n s (db l)) kind \<and> transition (Some (s_state s)) kind = Some tr \<and>
      new_state tr = s_state s') \<or>
    py_lower (d_sender d) = py_lower (owner (cfg E)) \<and> is_paused s \<and> s_resume s = Some (s_state s')"
  using delivery_moves [OF assms(1-4)] assms(5) by (auto simp: moved_to_def resumed_to_def kind_earned_def)

theorem delivery_moves_by_fsm_witness:
  "\<exists>kind tr. kind_earned offline (job_of design_opened ''o/r#1'' 1 (example_row PLANNING) (session_in PLANNING)) kind \<and>
     transition (Some PLANNING) kind = Some tr \<and> new_state tr = DESIGN_REVIEW"
proof -
  obtain s' where s': "get_session ''o/r#1'' (db (fst (process_one offline design_opened
      (example_loop (session_in PLANNING))))) = Some s'" "s_state s' = DESIGN_REVIEW"
    using design_opened_moves by (auto simp: phase_def)
  have who: "py_lower (d_sender design_opened) \<noteq> py_lower (owner (cfg offline))" by code_simp
  have "target_of design_opened (db (example_loop (session_in PLANNING))) = Some (1, ''o/r#1'', Some (example_row PLANNING))"
    using target_design_opened by simp
  from delivery_moves_by_fsm [OF _ this s'(1)] s' who wf_session_in show ?thesis by auto
qed

lemma into_merging:
  "transition (Some v) kind = Some tr \<Longrightarrow> new_state tr = MERGING \<Longrightarrow> v = CODE_REVIEW \<and> kind = K_merge_authorized"
  by (auto simp: transition_def transition_table_def transition_rows_def go_def split: if_splits)

lemma into_verification:
  "transition (Some v) kind = Some tr \<Longrightarrow> new_state tr = AWAITING_VERIFICATION \<Longrightarrow> v = MERGING \<and> kind = K_feature_merged"
  by (auto simp: transition_def transition_table_def transition_rows_def go_def split: if_splits)

text \<open>C2: a session comes to MERGING only from CODE_REVIEW and only when the merge gate passed on GitHub's
  answers for this session's Architect, or by the owner's reply to an escalation raised in MERGING.\<close>

theorem merging_needs_approval:
  assumes "wf_store (db l)" "target_of d (db l) = Some (n, k, Some s)" "s_state s \<noteq> MERGING"
    and "get_session k (db (fst (process_one E d l))) = Some s'" "s_state s' = MERGING"
  shows "s_state s = CODE_REVIEW \<and> merge_approved E (job_of d k n s (db l)) \<or>
    py_lower (d_sender d) = py_lower (owner (cfg E)) \<and> is_paused s \<and> s_resume s = Some MERGING"
proof -
  have "moved_to E (job_of d k n s (db l)) MERGING \<or> resumed_to E (job_of d k n s (db l)) MERGING"
    using delivery_moves [OF assms(1,2,4)] assms(3,5) by auto
  then show ?thesis
    by (auto simp: moved_to_def resumed_to_def kind_earned_def dest: into_merging)
qed

theorem merging_needs_approval_witness:
  "merge_approved online (job_of feature_approved ''o/r#1'' 1 (example_row CODE_REVIEW) (session_in CODE_REVIEW))"
proof -
  obtain s' where s': "get_session ''o/r#1'' (db (fst (process_one online feature_approved
      (example_loop (session_in CODE_REVIEW))))) = Some s'" "s_state s' = MERGING"
    using feature_approved_moves by (auto simp: phase_def)
  have who: "py_lower (d_sender feature_approved) \<noteq> py_lower (owner (cfg online))" by code_simp
  have "target_of feature_approved (db (example_loop (session_in CODE_REVIEW))) =
      Some (1, ''o/r#1'', Some (example_row CODE_REVIEW))"
    using target_feature_approved by simp
  from merging_needs_approval [OF _ this _ s'] who wf_session_in show ?thesis by auto
qed

text \<open>C13: a session comes to AWAITING_VERIFICATION only from MERGING, so a feature PR merged without the
  gateway's authorisation never counts; or by the owner's reply to an escalation raised there.\<close>

theorem verification_follows_merging:
  assumes "wf_store (db l)" "target_of d (db l) = Some (n, k, Some s)" "s_state s \<noteq> AWAITING_VERIFICATION"
    and "get_session k (db (fst (process_one E d l))) = Some s'" "s_state s' = AWAITING_VERIFICATION"
  shows "s_state s = MERGING \<or>
    py_lower (d_sender d) = py_lower (owner (cfg E)) \<and> is_paused s \<and> s_resume s = Some AWAITING_VERIFICATION"
proof -
  have "moved_to E (job_of d k n s (db l)) AWAITING_VERIFICATION \<or>
      resumed_to E (job_of d k n s (db l)) AWAITING_VERIFICATION"
    using delivery_moves [OF assms(1,2,4)] assms(3,5) by auto
  then show ?thesis
    by (auto simp: moved_to_def resumed_to_def kind_earned_def dest: into_verification)
qed

theorem verification_follows_merging_witness:
  "\<exists>s'. get_session ''o/r#1'' (db (fst (process_one offline feature_merged (example_loop merging_store)))) = Some s' \<and>
     s_state s' = AWAITING_VERIFICATION \<and> s_state merging_row = MERGING"
proof -
  obtain s' where s': "get_session ''o/r#1'' (db (fst (process_one offline feature_merged (example_loop merging_store)))) = Some s'"
      "s_state s' = AWAITING_VERIFICATION"
    using feature_merged_moves by (auto simp: phase_def)
  have "s_state merging_row \<noteq> AWAITING_VERIFICATION" "\<not> is_paused merging_row" by code_simp+
  moreover have "target_of feature_merged (db (example_loop merging_store)) = Some (1, ''o/r#1'', Some merging_row)"
    using target_feature_merged by simp
  moreover have "wf_store (db (example_loop merging_store))" by (simp add: merging_store_def wf_update_session wf_session_in)
  ultimately show ?thesis using verification_follows_merging [OF _ _ _ s'] s' by auto
qed

section \<open>Waiting sessions\<close>

text \<open>C4: while a session is paused, a delivery whose sender is not the owner leaves it paused and sends
  no turn to any agent, whatever the delivery is (a stray close included).\<close>

theorem paused_waits_for_owner:
  assumes "wf_store (db l)" "target_of d (db l) = Some (n, k, Some s)" "s_state s = PAUSED_HUMAN"
    and "py_lower (d_sender d) \<noteq> py_lower (owner (cfg E))"
  shows "(\<exists>s'. get_session k (db (fst (process_one E d l))) = Some s' \<and> s_state s' = PAUSED_HUMAN) \<and>
    (\<exists>new. sent (fst (process_one E d l)) = sent l @ new \<and> (\<forall>e \<in> set new. \<not> is_turn e))"
proof -
  define J where "J = job_of d k n s (db l)"
  have k: "j_key J = k" and row: "j_row J = s" and who: "py_lower (j_sender J) \<noteq> py_lower (owner (cfg E))"
    using assms(4) by (simp_all add: J_def)
  have eq: "fst (process_one E d l) = fst (process_job E J l)" using process_one_state [OF assms(2)] by (simp add: J_def)
  have before: "phase k (db l) = Some (PAUSED_HUMAN, s_resume s)"
    using target_row [OF assms(2,1)] assms(3) by (simp add: phase_at)
  have "\<not> replied E J" using who by (simp add: replied_def kind_earned_def)
  moreover have "stays {} (replied E J) k l (fst (process_job E J l))"
    using stays_paused_job [OF k _ who] row assms(3) by (simp add: keeps_def)
  ultimately have "\<exists>r. phase k (db (fst (process_job E J l))) = Some (PAUSED_HUMAN, r)"
    by (auto simp: stays_def before)
  moreover have "keeps no_turn (process_job E J)"
  proof (rule quiet.keeps_process_job [OF k])
    show "keeps no_turn (process_event E J)"
      using assms(3) who row by (intro quiet.keeps_paused_event [OF k] quiet.advance_kept k) (simp_all add: is_paused_def)
    show "keeps no_turn (handle_session_issue_closed E k (j_row J) (j_repo J) (j_issue J) (j_did J) (j_sender J)
        (bots_in E J) (j_data J) (j_received J))"
      using who unfolding handle_session_issue_closed_def by (simp add: quiet.keeps_stray_close)
  qed
  ultimately show ?thesis unfolding eq by (auto simp: phase_def keeps_def no_turn_def)
qed

theorem paused_waits_for_owner_witness:
  "\<exists>s'. get_session ''o/r#1'' (db (fst (process_one offline design_opened (example_loop (session_in PAUSED_HUMAN))))) = Some s' \<and>
    s_state s' = PAUSED_HUMAN"
proof -
  have "target_of design_opened (db (example_loop (session_in PAUSED_HUMAN))) = Some (1, ''o/r#1'', Some (example_row PAUSED_HUMAN))"
    unfolding example_db get_session_in [symmetric] by code_simp
  moreover have "py_lower (d_sender design_opened) \<noteq> py_lower (owner (cfg offline))" by code_simp
  ultimately show ?thesis
    using paused_waits_for_owner [of "example_loop (session_in PAUSED_HUMAN)"] wf_session_in by simp
qed

text \<open>C12: a session in TEARDOWN or CLOSED gets no turn from any delivery but the owner's close, whose
  teardown turns are the only ones left.\<close>

theorem ended_gets_no_turn:
  assumes "target_of d (db l) = Some (n, k, Some s)" "s_state s \<in> {TEARDOWN, CLOSED}"
    and "\<not> (d_event d = ''issues'' \<and> d_action d = Some ''closed'' \<and> py_lower (d_sender d) = py_lower (owner (cfg E)))"
  shows "\<exists>new. sent (fst (process_one E d l)) = sent l @ new \<and> (\<forall>e \<in> set new. \<not> is_turn e)"
proof -
  define J where "J = job_of d k n s (db l)"
  have k: "j_key J = k" and row: "j_row J = s" by (simp_all add: J_def)
  have eq: "fst (process_one E d l) = fst (process_job E J l)" using process_one_state [OF assms(1)] by (simp add: J_def)
  have "keeps no_turn (process_job E J)"
  proof (rule quiet.keeps_process_job [OF k])
    show "keeps no_turn (process_event E J)"
      using assms(2) row by (intro quiet.keeps_terminal_event [OF k]) (simp add: terminal_states_def)
    assume "j_event J = ''issues''" "j_act J = Some ''closed''"
    then have "py_lower (j_sender J) \<noteq> py_lower (owner (cfg E))" using assms(3) by (simp add: J_def job_of_def)
    then show "keeps no_turn (handle_session_issue_closed E k (j_row J) (j_repo J) (j_issue J) (j_did J) (j_sender J)
        (bots_in E J) (j_data J) (j_received J))"
      unfolding handle_session_issue_closed_def by (simp add: quiet.keeps_stray_close)
  qed
  then show ?thesis unfolding eq by (simp add: keeps_def no_turn_def)
qed

theorem ended_gets_no_turn_witness:
  "\<exists>new. sent (fst (process_one offline design_opened (example_loop (session_in TEARDOWN)))) = new \<and> (\<forall>e \<in> set new. \<not> is_turn e)"
proof -
  have "target_of design_opened (db (example_loop (session_in TEARDOWN))) = Some (1, ''o/r#1'', Some (example_row TEARDOWN))"
    unfolding example_db get_session_in [symmetric] by code_simp
  then show ?thesis
    using ended_gets_no_turn [of design_opened "example_loop (session_in TEARDOWN)"]
    by (simp add: example_loop_def design_opened_def example_delivery_def)
qed

end
