(* ===== verification/Loop_Limits.thy ===== *)
theory Loop_Limits
  imports Loop_Guarantees
begin

text \<open>
  The session loop's bounds and ends: what every drain keeps, which sessions are final, how often a
  delivery is retried, how the owner's reply ends a pause, and the order of the archive.
\<close>

section \<open>What every drain keeps\<close>

text \<open>No drain, whatever the outside answers and wherever a handler raises, breaks the store's
  well-formedness: keys stay unique and every turn and artifact row has its session.\<close>

theorem drain_keeps_wf: "wf_store (db l) \<Longrightarrow> wf_store (db (fst (process_deferred_batch E limit l)))"
  using drain_kept [of wf_kept E limit] wf.whole_axioms by (simp add: keeps_def wf_kept_def)

theorem drain_keeps_wf_witness: "wf_store (db (fst (process_deferred_batch online 5 (example_loop merging_store))))"
  using drain_keeps_wf [of "example_loop merging_store"] by (simp add: merging_store_def wf_update_session wf_session_in)

text \<open>No delivery is retried without end: after any drain both attempt counters of every delivery
  are below five again, the fifth failure having escalated.\<close>

theorem drain_bounds_attempts:
  assumes "counters_ok l"
  shows "counters_ok (fst (process_deferred_batch E limit l))"
  using drain_kept [of counters_kept E limit] counters.whole_axioms assms by (simp add: keeps_def counters_kept_def)

theorem drain_bounds_attempts_witness: "counters_ok (fst (process_deferred_batch offline 5 (example_loop merging_store)))"
  by (rule drain_bounds_attempts) (simp add: counters_ok_def attempts_ok_def example_loop_def)

text \<open>C29: a delivery touches one session: every other session's row and the disk breaker are left as
  they are, even when the handler raises half way.\<close>

theorem delivery_touches_one_session:
  assumes "target_of d (db l) = Some (n, k, row)" "j \<noteq> k"
  shows "get_session j (db (fst (process_one E d l))) = get_session j (db l) \<and>
    breaker (db (fst (process_one E d l))) = breaker (db l)"
  using process_one_kept_at [OF only.whole_axioms assms(1), of E] assms(2) by (simp add: only_session_def)

theorem delivery_touches_one_session_witness:
  "get_session ''o/r#2'' (db (fst (process_one offline feature_merged (example_loop merging_store)))) =
     get_session ''o/r#2'' merging_store"
  using delivery_touches_one_session [of feature_merged "example_loop merging_store"] target_feature_merged by simp

section \<open>Closed sessions\<close>

definition stays_closed :: "string \<Rightarrow> loop \<Rightarrow> loop \<Rightarrow> bool" where
  "stays_closed k l l' \<longleftrightarrow> wf_kept l l' \<and> (wf_store (db l) \<longrightarrow> closed_kept k l l')"

interpretation stays_closed: loop_frame "stays_closed k" for k
  by unfold_locales (auto simp: stays_closed_def wf_kept_def closed_kept_def)

lemma closed_same: "phase k (db l') = phase k (db l) \<Longrightarrow> closed_kept k l l'"
  by (simp add: closed_kept_def)

lemma closed_delivery:
  assumes wf: "wf_store (db l)"
  shows "closed_kept k l (fst (process_one E d l))"
proof (cases "target_of d (db l)")
  case None
  have "keeps (closed_kept k) (set_status (delivery_id d) Dropped)" by (rule closed.keeps_status)
  then show ?thesis by (simp add: process_one_none [OF None] keeps_def)
next
  case (Some x)
  obtain n j row where x: "x = (n, j, row)" by (cases x) auto
  show ?thesis
  proof (cases "j = k")
    case False
    from process_one_kept_at [OF only.whole_axioms Some [unfolded x], of E] False
    have "get_session k (db (fst (process_one E d l))) = get_session k (db l)" by (simp add: only_session_def)
    then show ?thesis by (intro closed_same) (simp add: phase_def)
  next
    case True
    have t: "target_of d (db l) = Some (n, k, row)" using Some x True by simp
    have row: "get_session k (db l) = row" by (rule target_row [OF t wf])
    show ?thesis
    proof (cases "\<exists>s. row = Some s \<and> s_state s = CLOSED")
      case False
      with row show ?thesis by (auto simp: closed_kept_def phase_def)
    next
      case True
      then obtain s where s: "row = Some s" "s_state s = CLOSED" by blast
      have "keeps (closed_kept k) (process_job E (job_of d k n s (db l)))" by (rule closed_job) (simp_all add: s)
      then show ?thesis using process_one_state [OF t [unfolded s(1)]] by (simp add: keeps_def)
    qed
  qed
qed

text \<open>CLOSED is final: no sequence of deliveries in a drain, the owner's close and replies included,
  takes a closed session out of CLOSED.\<close>

theorem closed_is_final:
  assumes "wf_store (db l)" "get_session k (db l) = Some s" "s_state s = CLOSED"
  shows "\<exists>s'. get_session k (db (fst (process_deferred_batch E limit l))) = Some s' \<and> s_state s' = CLOSED"
proof -
  have "keeps (stays_closed k) (process_one E d)" for d
    using process_one_kept [of wf_kept E d] wf.whole_axioms closed_delivery by (simp add: keeps_def stays_closed_def)
  from stays_closed.drain_by [OF this] have "stays_closed k l (fst (process_deferred_batch E limit l))"
    by (simp add: keeps_def)
  then show ?thesis using assms by (auto simp: stays_closed_def closed_kept_def phase_def)
qed

theorem closed_is_final_witness:
  "\<exists>s'. get_session ''o/r#1'' (db (fst (process_deferred_batch online 5 (example_loop (session_in CLOSED))))) = Some s' \<and>
    s_state s' = CLOSED"
  using closed_is_final [of "example_loop (session_in CLOSED)"] wf_session_in by simp

section \<open>The drain ends\<close>

text \<open>The deliveries of a drain one after the other, each with its outcome, whatever the ones before it raised.\<close>

inductive drain_run :: "env \<Rightarrow> delivery list \<Rightarrow> (sup_exn + unit) list \<Rightarrow> loop \<Rightarrow> loop \<Rightarrow> bool" for E where
  ended: "drain_run E [] [] l l"
| one: "process_one E d l = (l1, r) \<Longrightarrow> drain_run E ds rs l1 l2 \<Longrightarrow> drain_run E (d # ds) (r # rs) l l2"

inductive_simps drain_run_simps [simp]: "drain_run E [] rs l l'" "drain_run E (d # ds) rs l l'"

definition processed :: "(sup_exn + unit) list \<Rightarrow> int" where
  "processed rs = int (length (filter (\<lambda>r. r = Inr ()) rs))"

lemma drain_run_length: "drain_run E ds rs l l' \<Longrightarrow> length rs = length ds"
  by (induction rule: drain_run.induct) simp_all

lemma sum_runs:
  "\<exists>rs l'. drain_run E ds rs l l' \<and>
     sum_acts (\<lambda>d. bnd (attempt (process_one E d)) (\<lambda>r. ret (case r of Inl _ \<Rightarrow> 0 | Inr _ \<Rightarrow> 1))) ds l = (l', Inr (processed rs))"
proof (induction ds arbitrary: l)
  case Nil
  show ?case by (simp add: ret_def processed_def)
next
  case (Cons d ds)
  obtain l1 r where one: "process_one E d l = (l1, r)" by (cases "process_one E d l")
  obtain rs l2 where "drain_run E ds rs l1 l2" "sum_acts (\<lambda>d. bnd (attempt (process_one E d))
      (\<lambda>r. ret (case r of Inl _ \<Rightarrow> 0 | Inr _ \<Rightarrow> 1))) ds l1 = (l2, Inr (processed rs))"
    using Cons by blast
  with one show ?case
    by (intro exI [of _ "r # rs"] exI [of _ l2])
       (auto simp: bnd_def attempt_def ret_def processed_def split: sum.split)
qed

text \<open>C15: a drain always ends and never raises.  It takes the deferred deliveries that are due, oldest first and
  at most \<open>limit\<close> of them, runs every one of them in that order although others before it raised, and
  reports exactly the number of those that did not raise.\<close>

theorem drain_always_reports:
  "\<exists>ds rs l'. ds = take limit (sort_key d_received
       (filter (\<lambda>d. d_status d = Deferred \<and> d_next d \<le> \<lfloor>e_now E (tick l)\<rfloor>) (deliveries (db l)))) \<and>
     drain_run E ds rs (l\<lparr>tick := Suc (tick l)\<rparr>) l' \<and> length rs = length ds \<and>
     process_deferred_batch E limit l = (l', Inr (int (length (filter (\<lambda>r. r = Inr ()) rs))))"
proof -
  define l1 where "l1 = l\<lparr>tick := Suc (tick l)\<rparr>"
  define ds where "ds = list_deferred \<lfloor>e_now E (tick l)\<rfloor> limit (db l)"
  obtain rs l' where run: "drain_run E ds rs l1 l'"
    and out: "sum_acts (\<lambda>d. bnd (attempt (process_one E d)) (\<lambda>r. ret (case r of Inl _ \<Rightarrow> 0 | Inr _ \<Rightarrow> 1))) ds l1 =
      (l', Inr (processed rs))"
    using sum_runs by blast
  from out have "process_deferred_batch E limit l = (l', Inr (processed rs))"
    by (simp add: process_deferred_batch_def now_s_def ask_def bnd_def from_db_def reads_def l1_def ds_def)
  with run show ?thesis
    by (intro exI [of _ ds] exI [of _ rs] exI [of _ l'])
       (simp add: ds_def list_deferred_def l1_def processed_def drain_run_length [OF run])
qed

section \<open>Retries\<close>

lemma escalate_value: "\<exists>l'. escalate E k role why rd h l = (l', Inr ())"
proof (cases "s_state (session_or_blank k (db l)) = CLOSED")
  case True
  then show ?thesis by (simp add: escalate_def from_db_def bnd_reads ret_def)
next
  case False
  define body where "body = format_escalation_comment (owner (cfg E)) k
    (state_name (paused_from (session_or_blank k (db l)))) role why rd"
  obtain l1 r where c: "gh_comment E (s_repo (session_or_blank k (db l))) (s_issue (session_or_blank k (db l))) body l = (l1, Inr r)"
    using value_comment by (metis prod.collapse)
  have go: "\<exists>l'. seq (sql E f) (set_fields E k fs) l1 = (l', Inr ())" for f fs
    by (simp add: set_fields_def sql_def now_s_def ask_def on_db_def modify_def bnd_def)
  show ?thesis
    using False c go
    by (simp only: escalate_def from_db_def bnd_reads if_False body_def [symmetric] bnd_def [of "gh_comment _ _ _ _"]
        prod.case sum.case Let_def)
qed

text \<open>What an escalation of a live session writes and sends: its comment when the token and the issue allow one,
  an open row with its reason, and the pause.\<close>

definition escalation_comment :: "env \<Rightarrow> string \<Rightarrow> session_row \<Rightarrow> string \<Rightarrow> string \<Rightarrow> string option \<Rightarrow> effect list" where
  "escalation_comment E k s role why rd =
     (let body = format_escalation_comment (owner (cfg E)) k (state_name (paused_from s)) role why rd in
      if issue_guard (e_gateway E) ''write'' (s_repo s) (s_issue s) ''for comment'' = None \<and> py_strip body \<noteq> []
      then [Sent_comment (s_repo s) (s_issue s) body] else [])"

lemma comment_sent:
  "sent (fst (gh_comment E repo n body l)) = sent l @
     (if issue_guard (e_gateway E) ''write'' repo n ''for comment'' = None \<and> py_strip body \<noteq> [] then [Sent_comment repo n body] else [])"
  by (simp add: gh_comment_def bnd_def only_if_def emit_def modify_def ret_def ask_def)

lemma sent_then_fields: "sent (fst (seq (sql E f) (set_fields E k fs) l)) = sent l"
  by (simp add: set_fields_def sql_def now_s_def ask_def on_db_def modify_def bnd_def)

lemma escalate_live:
  assumes s: "get_session k (db l) = Some s" "s_state s \<noteq> CLOSED"
  shows "\<exists>l' t t' tail cid. escalate E k role why rd h l = (l', Inr ()) \<and>
     db l' = update_session_fields t k [F_state PAUSED_HUMAN,
         F_paused_reason (Some (take 500 ((if h then close_reconcile_prefix else []) @ why @ tail))), F_resume_state (Some (paused_from s))]
       (fst (open_escalation t' k (Some role) (why @ tail) cid (db l))) \<and>
     sent l' = sent l @ escalation_comment E k s role why rd"
proof -
  define body where "body = format_escalation_comment (owner (cfg E)) k (state_name (paused_from s)) role why rd"
  obtain l1 r where c: "gh_comment E (s_repo s) (s_issue s) body l = (l1, Inr r)"
    using value_comment [of E "s_repo s" "s_issue s" body l] by (metis prod.collapse)
  have "db l1 = db l" using db_comment [of E "s_repo s" "s_issue s" body l] c by simp
  moreover have "sent l1 = sent l @ escalation_comment E k s role why rd"
    using comment_sent [of E "s_repo s" "s_issue s" body l] c
    by (simp only: escalation_comment_def Let_def body_def [symmetric] fst_conv)
  ultimately have l1: "db l1 = db l" "sent l1 = sent l @ escalation_comment E k s role why rd" by simp_all
  define tail where "tail = (case r of Inl e \<Rightarrow> '' [comment_post_failed: '' @ e @ '']'' | Inr _ \<Rightarrow> [])"
  define cid where "cid = (case r of Inl _ \<Rightarrow> None | Inr i \<Rightarrow> Some i)"
  define fs where "fs = [F_state PAUSED_HUMAN, F_paused_reason (Some (take 500 ((if h then close_reconcile_prefix else []) @ why @ tail))),
    F_resume_state (Some (paused_from s))]"
  define f where "f = (\<lambda>t st. fst (open_escalation t k (Some role) (why @ tail) cid st))"
  have "session_or_blank k (db l) = s" using s(1) by (simp add: session_or_blank_def)
  moreover have "(case r of Inl e \<Rightarrow> why @ '' [comment_post_failed: '' @ e @ '']'' | Inr _ \<Rightarrow> why) = why @ tail"
    by (simp add: tail_def split: sum.split)
  ultimately have e: "escalate E k role why rd h l = seq (sql E f) (set_fields E k fs) l1"
    using s(2) c
    by (simp only: escalate_def from_db_def bnd_reads if_False body_def [symmetric]
        bnd_def [of "gh_comment _ _ _ _"] prod.case sum.case Let_def f_def fs_def cid_def)
  obtain t t' where d: "db (fst (seq (sql E f) (set_fields E k fs) l1)) = update_session_fields t k fs (f t' (db l))"
    using db_then_fields l1(1) by metis
  have "snd (seq (sql E f) (set_fields E k fs) l1) = Inr ()"
    by (simp add: set_fields_def sql_def now_s_def ask_def on_db_def modify_def bnd_def)
  with d e l1(2) sent_then_fields [of E f k fs l1] show ?thesis
    unfolding fs_def f_def by (metis prod.collapse)
qed

text \<open>A failed dispatch: \<open>why\<close> is the reason, the value says whether the handler goes on.\<close>

definition failed :: "env \<Rightarrow> job \<Rightarrow> string \<Rightarrow> unit option act" where
  "failed E J why = give_up_dispatch E J why"

lemma failed_early:
  "next_try (tries l) (j_did J) < max_attempts \<Longrightarrow>
    failed E J why l = (l\<lparr>tries := (tries l)(j_did J \<mapsto> next_try (tries l) (j_did J))\<rparr>, Inr None)"
  by (simp add: failed_def give_up_dispatch_def dispatch_retry_or_give_up_def retry_or_give_up_def next_try_def bnd_def reads_def
      modify_def ret_def)

lemma failed_count:
  "int (length whys) \<le> max_attempts - next_try (tries l) (j_did J) \<Longrightarrow>
    (let l' = fold (\<lambda>w l. fst (failed E J w l)) whys l in
     next_try (tries l') (j_did J) = next_try (tries l) (j_did J) + int (length whys) \<and> db l' = db l \<and> sent l' = sent l)"
proof (induction whys arbitrary: l)
  case (Cons w ws)
  then have "fst (failed E J w l) = l\<lparr>tries := (tries l)(j_did J \<mapsto> next_try (tries l) (j_did J))\<rparr>"
    by (simp add: failed_early)
  with Cons.IH [of "fst (failed E J w l)"] Cons.prems show ?case
    by (simp add: next_try_def Let_def)
qed simp

lemma settled_rows: "\<forall>d \<in> set (deliveries (set_delivery_status did v st)). delivery_id d = did \<longrightarrow> d_status d = v"
proof
  fix d assume d: "d \<in> set (deliveries (set_delivery_status did v st))"
  have "deliveries (set_delivery_status did v st) = map (\<lambda>r. if delivery_id r = did then r\<lparr>d_status := v\<rparr> else r) (deliveries st)"
    by (simp add: set_delivery_status_def upd_delivery_def upd_where_def)
  with d have "d \<in> (\<lambda>r. if delivery_id r = did then r\<lparr>d_status := v\<rparr> else r) ` set (deliveries st)" by (simp only: set_map)
  then obtain x where "d = (if delivery_id x = did then x\<lparr>d_status := v\<rparr> else x)" by (rule imageE)
  then show "delivery_id d = did \<longrightarrow> d_status d = v" by (cases "delivery_id x = did") simp_all
qed

text \<open>The state after the failure that gives up.\<close>

definition given_up :: "env \<Rightarrow> job \<Rightarrow> session_row \<Rightarrow> string \<Rightarrow> loop \<Rightarrow> loop \<Rightarrow> bool" where
  "given_up E J s why l l' \<longleftrightarrow>
     (\<exists>s'. get_session (j_key J) (db l') = Some s' \<and> s_state s' = PAUSED_HUMAN \<and> s_resume s' = Some (paused_from s)) \<and>
     (\<exists>e. escalations (db l') = escalations (db l) @ [e] \<and> e_session e = j_key J \<and> e_resolved e = None \<and>
        starts_with (e_reason e) (''dispatch still failing after 5 attempts: '' @ why)) \<and>
     sent l' = sent l @ escalation_comment E (j_key J) s ''system'' (''dispatch still failing after 5 attempts: '' @ why) None \<and>
     (\<forall>d \<in> set (deliveries (db l')). delivery_id d = j_did J \<longrightarrow> d_status d = Done) \<and>
     tries l' (j_did J) = None"

lemma escalate_tries: "tries (fst (escalate E k role why rd h l)) = tries l"
proof (cases "s_state (session_or_blank k (db l)) = CLOSED")
  case True
  then show ?thesis by (simp add: escalate_def from_db_def bnd_reads ret_def)
next
  case False
  have "tries (fst (gh_comment E repo n body l)) = tries l" for repo n body
    by (simp add: gh_comment_def bnd_def only_if_def emit_def modify_def ret_def ask_def)
  moreover have "tries (fst (seq (sql E f) (set_fields E k fs) l)) = tries l" for f fs l
    by (simp add: set_fields_def sql_def now_s_def ask_def on_db_def modify_def bnd_def)
  ultimately show ?thesis
    using False value_comment
    by (simp add: escalate_def from_db_def bnd_reads Let_def bnd_def [of "gh_comment _ _ _ _"] split: prod.split sum.split)
       (metis fst_conv snd_conv sum.distinct(1))
qed

lemma failed_last:
  assumes "next_try (tries l) (j_did J) = max_attempts" "get_session (j_key J) (db l) = Some s" "s_state s \<noteq> CLOSED"
  shows "given_up E J s why l (fst (failed E J why l)) \<and> snd (failed E J why l) = Inr None"
proof -
  let ?k = "j_key J" and ?why = "''dispatch still failing after 5 attempts: '' @ why"
  define l0 where "l0 = l\<lparr>tries := (tries l)(j_did J := None)\<rparr>"
  obtain l1 t t' tail cid where e: "escalate E ?k ''system'' ?why None False l0 = (l1, Inr ())"
    and d: "db l1 = update_session_fields t ?k [F_state PAUSED_HUMAN, F_paused_reason (Some (take 500 (?why @ tail))), F_resume_state (Some (paused_from s))]
       (fst (open_escalation t' ?k (Some ''system'') (?why @ tail) cid (db l0)))"
    and c: "sent l1 = sent l0 @ escalation_comment E ?k s ''system'' ?why None"
    using escalate_live [of ?k l0 s E "''system''" ?why None False] assms(2,3) by (auto simp: l0_def)
  have "dec max_attempts = ''5''" by code_simp
  then have f: "failed E J why l = (l1\<lparr>db := set_delivery_status (j_did J) Done (db l1)\<rparr>, Inr None)"
    using assms(1) e
    by (simp add: failed_def give_up_dispatch_def dispatch_retry_or_give_up_def retry_or_give_up_def next_try_def bnd_def reads_def
        modify_def ret_def l0_def dispose_def set_status_def on_db_def)
  have "get_session ?k (db l1) = Some (apply_fields t [F_state PAUSED_HUMAN, F_paused_reason (Some (take 500 (?why @ tail))),
      F_resume_state (Some (paused_from s))] s)"
    using assms(2) get_session_frame [of "fst (open_escalation t' ?k (Some ''system'') (?why @ tail) cid (db l0))" "db l0" ?k]
    by (simp add: d get_session_update_fields l0_def)
  moreover have "escalations (db l1) = escalations (db l) @ [\<lparr>e_id = next_id (map e_id (escalations (db l))), e_session = ?k,
      e_role = Some ''system'', e_reason = ?why @ tail, e_comment = cid, e_opened = t', e_resolved = None\<rparr>]"
    by (simp add: d l0_def open_escalation_def update_session_fields_def upd_session_def Let_def)
  moreover have "tries l1 = tries l0" using escalate_tries [of E ?k "''system''" ?why None False l0] e by simp
  ultimately show ?thesis
    using settled_rows c
    by (auto simp: f given_up_def l0_def apply_fields_def is_updated_at_def set_delivery_status_def upd_delivery_def get_session_def
        simp del: append_assoc append_Cons)
qed

text \<open>C16: a dispatch that keeps failing ends, and loudly.  Of its first failures at most four are only counted: the store
  is left as it is and nothing is sent.  The next one gives up: whatever the reasons, the session is paused for the owner
  with its state to resume from, one open escalation that names the last reason is added and commented on the issue
  (when the token and the issue allow a comment), the delivery is settled as done, and its counter is forgotten.\<close>

theorem retries_end:
  assumes "counters_ok l" "length whys = 4" "get_session (j_key J) (db l) = Some s" "s_state s \<noteq> CLOSED"
  shows "\<exists>m l1. m \<le> 4 \<and> l1 = fold (\<lambda>w l. fst (failed E J w l)) (take m whys) l \<and> db l1 = db l \<and> sent l1 = sent l \<and>
    given_up E J s why l1 (fst (failed E J why l1)) \<and> snd (failed E J why l1) = Inr None"
proof -
  define m where "m = nat (max_attempts - next_try (tries l) (j_did J))"
  define l1 where "l1 = fold (\<lambda>w l. fst (failed E J w l)) (take m whys) l"
  have low: "1 \<le> next_try (tries l) (j_did J) \<and> next_try (tries l) (j_did J) \<le> max_attempts"
    using assms(1)
    by (cases "tries l (j_did J)") (fastforce simp: counters_ok_def attempts_ok_def next_try_def max_attempts_def)+
  then have m: "m \<le> 4" "int m = max_attempts - next_try (tries l) (j_did J)" by (simp_all add: m_def max_attempts_def nat_le_iff)
  with failed_count [of "take m whys" l J E] assms(2)
  have l1: "next_try (tries l1) (j_did J) = max_attempts" "db l1 = db l" "sent l1 = sent l"
    by (simp_all add: Let_def l1_def)
  then show ?thesis using failed_last [of l1 J s E why] assms(3,4) m(1) l1_def by metis
qed

definition stuck_job :: job where
  "stuck_job = job_of feature_merged ''o/r#1'' 1 (the (get_session ''o/r#1'' (session_in PLANNING))) (session_in PLANNING)"

theorem retries_end_witness:
  "\<exists>m l1. m \<le> 4 \<and> l1 = fold (\<lambda>w l. fst (failed offline stuck_job w l)) (take m (replicate 4 ''down'')) (example_loop (session_in PLANNING)) \<and>
     sent l1 = [] \<and> snd (failed offline stuck_job ''down'' l1) = Inr None"
proof -
  have "counters_ok (example_loop (session_in PLANNING))"
    by (simp add: counters_ok_def attempts_ok_def example_loop_def)
  moreover have "get_session (j_key stuck_job) (db (example_loop (session_in PLANNING))) =
      Some (the (get_session ''o/r#1'' (session_in PLANNING)))"
    "s_state (the (get_session ''o/r#1'' (session_in PLANNING))) \<noteq> CLOSED"
    by (simp_all add: stuck_job_def job_of_def)
  moreover have "sent (example_loop (session_in PLANNING)) = []" by (simp add: example_loop_def)
  ultimately show ?thesis
    using retries_end [of "example_loop (session_in PLANNING)" "replicate 4 ''down''" stuck_job
        "the (get_session ''o/r#1'' (session_in PLANNING))" offline "''down''"] by auto
qed

end
