(* ===== verification/Loop_Endings.thy ===== *)
theory Loop_Endings
  imports Loop_Limits "HOL-Library.Sublist"
begin

text \<open>
  How pauses and sessions end: the restore of an agent's edit, the class of a close, the archive, the
  owner's reply, and the budget that is looked at before the state.
\<close>

section \<open>The verification box\<close>

lemma lowered_block:
  assumes "extract_verification_block body = Some blk"
  shows "box_value (find_checkbox (set_checkbox_in_body blk False)) \<noteq> Some True"
proof -
  from assms obtain u v where "split_block body = Some (u, blk, v)" by (auto simp: extract_Some)
  then obtain mid where m: "blk = sentinel_open @ mid @ sentinel_close" "clean mid" by (rule split_blockE)
  then have s: "split_block blk = Some ([], blk, [])" using block_of_block by simp
  then have "set_checkbox_in_body blk False = set_box_in_block False blk"
    using replace_block [OF s] by (simp add: set_checkbox_in_body_def extract_verification_block_def)
  moreover obtain q where "box_value (find_checkbox (set_box_in_block False blk)) = (if q then Some False else None)"
    using set_box_spec [OF m(2), of False] m(1) by blast
  ultimately show ?thesis by (simp split: if_split)
qed

lemma no_straddle:
  assumes "newline \<notin> set p" "p \<noteq> []" "\<not> contains p x" "\<not> contains p y"
    "x = [] \<or> last x = newline \<or> y = [] \<or> hd y = newline"
  shows "\<not> contains p (x @ y)"
proof
  assume "contains p (x @ y)"
  then obtain u v where "x @ y = u @ p @ v" by (auto simp: contains_iff)
  then show False
  proof (cases rule: occurrence_cases)
    case (straddle p1 p2)
    then have "last x \<in> set p" "hd y \<in> set p" "x \<noteq> []" "y \<noteq> []" by (cases p1 rule: rev_cases; cases p2; simp)+
    with assms(1,5) show ?thesis by auto
  qed (use assms(3,4) in \<open>auto simp: contains_iff\<close>)
qed

lemma contains_inside: "contains p x \<Longrightarrow> contains p (u @ x @ v)"
  unfolding contains_iff by (metis append_assoc)

text \<open>Neutralising ticks never completes an opening sentinel.\<close>

lemma neutral_opens_nothing:
  "\<not> contains sentinel_open s \<Longrightarrow> \<not> contains sentinel_open (bol_sub checkbox_re checkbox_unchecked bol s) \<and>
    (s = [] \<or> hd s = newline \<longrightarrow> bol_sub checkbox_re checkbox_unchecked bol s = [] \<or>
       hd (bol_sub checkbox_re checkbox_unchecked bol s) = newline)"
proof (induction s arbitrary: bol rule: length_induct)
  case (1 s)
  show ?case
  proof (cases "bol_search checkbox_re bol s")
    case None
    then show ?thesis using "1.prems" by (subst (1 2 3) bol_sub.simps) auto
  next
    case (Some x)
    obtain u m caps t where x: "x = (u, m, caps, t)" by (cases x) auto
    from bol_search_split [OF Some [unfolded x]] have s: "s = u @ m @ t" and m: "match_at checkbox_re (m @ t) = Some (caps, t)"
      by auto
    obtain y where d: "m @ t = CHR ''-'' # y" using checkbox_hd [OF m] by blast
    have t: "t = [] \<or> hd t = newline" by (rule checkbox_eol [OF m])
    with d have "m \<noteq> []" by auto
    then have short: "length t < length s" using s by simp
    define rest where "rest = bol_sub checkbox_re checkbox_unchecked (last m = newline) t"
    have out: "bol_sub checkbox_re checkbox_unchecked bol s = u @ checkbox_unchecked @ rest"
      using \<open>m \<noteq> []\<close> by (subst bol_sub.simps) (simp add: Some x rest_def)
    have no: "\<not> contains sentinel_open u" "\<not> contains sentinel_open t"
      using "1.prems" s contains_inside [of sentinel_open u "[]" "m @ t"] contains_inside [of sentinel_open t "u @ m" "[]"] by auto
    with "1.IH" short t have rest: "\<not> contains sentinel_open rest" "rest = [] \<or> hd rest = newline"
      unfolding rest_def by blast+
    have "\<not> contains sentinel_open checkbox_unchecked" by code_simp
    with rest have line: "\<not> contains sentinel_open (checkbox_unchecked @ rest)"
      using not_in_open(1,2) by (intro no_straddle) auto
    have "bol_after bol u" using search_quiet [OF Some [unfolded x] s] by simp
    then have "u = [] \<or> last u = newline" by (auto simp: bol_after_def split: if_splits)
    then have "\<not> contains sentinel_open (u @ checkbox_unchecked @ rest)"
      by (intro no_straddle [OF not_in_open(1,2) no(1) line]) auto
    moreover have "u \<noteq> []" if "s = [] \<or> hd s = newline"
      using that s d by (cases u) auto
    ultimately show ?thesis using out s by auto
  qed
qed

text \<open>A lowered or unticked block, put back behind text without an opening sentinel, reads unticked.\<close>

lemma reinserted_unticked:
  assumes blk: "blk = sentinel_open @ mid @ sentinel_close" "clean mid" "box_value (find_checkbox blk) \<noteq> Some True"
    and no: "\<not> contains sentinel_open current"
  shows "checkbox_is_checked (reinsert_verification_block current blk) True \<noteq> Some True"
proof -
  define X where "X = (if py_strip current \<noteq> [] then current @ sep_before_block current else [])"
  have e: "extract_verification_block current = None" using no by (simp add: extract_None no_open_no_block)
  have "blk \<noteq> []" using blk(1) not_in_open(2) by simp
  then have "reinsert_verification_block current blk = (if ends_with (X @ blk) nl then X @ blk else (X @ blk) @ nl)"
    using e by (simp add: reinsert_verification_block_def X_def Let_def)
  then obtain v where out: "reinsert_verification_block current blk = X @ blk @ v"
    by (intro that [of "if ends_with (X @ blk) nl then [] else nl"]) simp
  have "\<not> contains sentinel_open X" using no_open_in_joined [OF no] not_in_open(2) by (simp add: X_def)
  moreover have "X = [] \<or> last X = newline" using sep_ends_line by (auto simp: X_def)
  ultimately have "split_block (X @ blk @ v) = Some (X, blk, v)"
    using split_block_after [OF _ _ blk(2), of X v] blk(1) by simp
  then show ?thesis using blk(3) out by (simp add: checked_strict)
qed

text \<open>An opening sentinel that an agent left without its block.\<close>

definition orphan_open :: "string \<Rightarrow> bool" where
  "orphan_open body \<longleftrightarrow> contains sentinel_open body \<and> extract_verification_block body = None"

lemma restored_unticked:
  assumes plan: "restore_plan False before_body body = Some (e, why)"
    and "compose e current \<noteq> current" "\<not> orphan_open current"
  shows "checkbox_is_checked (compose e current) True \<noteq> Some True"
proof (cases "\<exists>blk. extract_verification_block before_body = Some blk \<and> extract_verification_block body = None")
  case True
  then obtain blk where b: "extract_verification_block before_body = Some blk" "extract_verification_block body = None"
    by blast
  then obtain u v where s: "split_block before_body = Some (u, blk, v)" by (auto simp: extract_Some)
  then obtain mid where m: "blk = sentinel_open @ mid @ sentinel_close" "clean mid" by (rule split_blockE)
  define b' where "b' = (if checkbox_is_checked before_body True = Some True then set_checkbox_in_body blk False else blk)"
  have e: "e = Reinsert b'"
    using plan b by (simp add: restore_plan_def Let_def b'_def split: if_splits)
  have "box_value (find_checkbox b') \<noteq> Some True"
    using lowered_block [OF b(1)] checked_strict(1) [OF s] by (auto simp: b'_def)
  moreover have "\<exists>mid'. b' = sentinel_open @ mid' @ sentinel_close \<and> clean mid'"
  proof (cases "checkbox_is_checked before_body True = Some True")
    case True
    have "split_block blk = Some ([], sentinel_open @ mid @ sentinel_close, [])" using block_of_block [OF m(2)] m(1) by simp
    from set_checkbox_spec [OF this, of False] obtain blk' where "set_checkbox_in_body blk False = [] @ blk' @ []"
      "split_block (set_checkbox_in_body blk False) = Some ([], blk', [])" by blast
    then show ?thesis using True by (auto simp: b'_def elim: split_blockE)
  qed (use m in \<open>auto simp: b'_def\<close>)
  moreover have "extract_verification_block current = None"
    using assms(2) e by (auto simp: reinsert_verification_block_def split: if_splits)
  ultimately show ?thesis
    using reinserted_unticked assms(3) unfolding e orphan_open_def by auto
next
  case False
  then have kind: "\<And>b. e \<noteq> Reinsert b" "e \<noteq> Set_box True"
    using plan by (auto simp: restore_plan_def Let_def split: option.splits if_splits)
  show ?thesis
  proof (cases e)
    case (Set_box b)
    with kind(2) have "e = Set_box False" by (cases b) auto
    then show ?thesis using lowered_box_abandons [of current] by (auto simp: classify_at_close_def split: if_splits)
  next
    case Neutralize
    have none: "extract_verification_block current = None"
      using assms(2) Neutralize by (auto simp: neutralize_bare_verification_ticks_def split: if_splits)
    with assms(3) have "\<not> contains sentinel_open current" by (simp add: orphan_open_def)
    from neutral_opens_nothing [OF this, of True] none
    have "\<not> contains sentinel_open (neutralize_bare_verification_ticks current)"
      using \<open>\<not> contains sentinel_open current\<close> by (simp add: neutralize_bare_verification_ticks_def)
    then have "extract_verification_block (neutralize_bare_verification_ticks current) = None"
      by (simp add: extract_None no_open_no_block)
    then show ?thesis using Neutralize by (simp add: checkbox_is_checked_def)
  qed (use kind(1) in blast)
qed

text \<open>The patches among the effects.\<close>

definition patches :: "effect list \<Rightarrow> string list" where
  "patches es = concat (map (\<lambda>e. case e of Sent_patch _ _ t \<Rightarrow> [t] | _ \<Rightarrow> []) es)"

lemma patches_append [simp]: "patches (es @ fs) = patches es @ patches fs"
  by (simp add: patches_def)

lemma comment_patches: "patches (sent (fst (gh_comment E repo n body l))) = patches (sent l)"
  by (simp add: comment_sent) (simp add: patches_def)

lemma patch_effect:
  obtains l2 r where "gh_patch E token repo n body l1 = (l2, Inr r)" "sent l2 = sent l1 \<or> sent l2 = sent l1 @ [Sent_patch repo n body]"
  by (cases "issue_guard token ''write'' repo n ''to patch issue body'' = None")
     (simp_all add: gh_patch_def only_if_def emit_def modify_def ret_def ask_def bnd_def)

lemma escalate_patches: "patches (sent (fst (escalate E k role why rd h l))) = patches (sent l)"
proof (cases "s_state (session_or_blank k (db l)) = CLOSED")
  case True
  then show ?thesis by (simp add: escalate_def from_db_def bnd_reads ret_def)
next
  case False
  then show ?thesis
    using comment_patches value_comment sent_then_fields
    by (simp add: escalate_def from_db_def bnd_reads Let_def bnd_def [of "gh_comment _ _ _ _"] split: prod.split sum.split)
       (metis fst_conv snd_conv sum.distinct(1))
qed

text \<open>C28: the restore of an agent's edit never raises the verification box on its own.  Without an owner's tick that the
  gateway recorded (\<open>verified_at\<close>), every body it patches reads unticked (or holds no box in a block), whichever branch
  it takes and whatever the two bodies of the payload hold, as long as the body it fetched has no opening sentinel left without its
  block.  That exception is real: behind such an orphan the unticked block it appends is read with the agent's own tick
  (\<open>Verify_Block.orphan_sentinel_forges_tick\<close>).\<close>

theorem restore_never_raises:
  assumes "\<not> stamped (session_or_blank k (db l))"
    and "\<And>current. get_issue_body repo n (e_gateway E) (e_get E (tick l)) = Inr current \<Longrightarrow> \<not> orphan_open current"
  shows "\<exists>new. patches (sent (fst (restore_agent_verification_edit E k repo n did sender body changes l))) = patches (sent l) @ new \<and>
    list_all (\<lambda>t. checkbox_is_checked t True \<noteq> Some True) new"
proof -
  let ?ok = "list_all (\<lambda>t. checkbox_is_checked t True \<noteq> Some True)"
  define go :: "loop \<Rightarrow> bool" where "go l' \<longleftrightarrow> (\<exists>new. patches (sent l') = patches (sent l) @ new \<and> ?ok new)" for l'
  have same: "go l'" if "patches (sent l') = patches (sent l)" for l' using that by (simp add: go_def)
  have apply_ok: "go (fst (apply_restore E k repo n did sender before_body body e why l))"
    if plan: "restore_plan False before_body body = Some (e, why)" for before_body e why
  proof -
    define l1 where "l1 = l\<lparr>tick := Suc (tick l)\<rparr>"
    have s1: "sent l1 = sent l" by (simp add: l1_def)
    have fetch: "gh_body E (e_gateway E) repo n l = (l1, Inr (get_issue_body repo n (e_gateway E) (e_get E (tick l))))"
      by (simp add: gh_body_def ask_def l1_def)
    show ?thesis
    proof (cases "get_issue_body repo n (e_gateway E) (e_get E (tick l))")
      case (Inl x)
      then show ?thesis by (intro same) (simp add: apply_restore_def bnd_def [of "gh_body _ _ _ _"] fetch ret_def s1)
    next
      case (Inr current)
      have patched: "go (fst (bnd (gh_patch E (e_gateway E) repo n (compose e current)) f l1))"
        if f: "\<And>r l'. patches (sent (fst (f r l'))) = patches (sent l')" and "compose e current \<noteq> current" for f
      proof -
        have "checkbox_is_checked (compose e current) True \<noteq> Some True"
          using restored_unticked [OF plan that(2)] assms(2) [OF Inr] by simp
        moreover obtain l2 r where "gh_patch E (e_gateway E) repo n (compose e current) l1 = (l2, Inr r)"
          "sent l2 = sent l1 \<or> sent l2 = sent l1 @ [Sent_patch repo n (compose e current)]"
          by (rule patch_effect)
        ultimately show ?thesis
          using f [of r l2] s1 by (auto simp: go_def bnd_def patches_def)
      qed
      have quiet: "patches (sent (fst (bnd (gh_comment E repo n w) (\<lambda>_. ret ()) l'))) = patches (sent l')" for l' w
      proof -
        obtain l2 v where c: "gh_comment E repo n w l' = (l2, v)" by (cases "gh_comment E repo n w l'")
        then have "patches (sent l2) = patches (sent l')" using comment_patches [of E repo n w l'] by simp
        with c show ?thesis by (simp add: bnd_def ret_def split: sum.split)
      qed
      define again where "again = (\<lambda>r :: unit exc. case r of Inl _ \<Rightarrow> ret ()
          | Inr _ \<Rightarrow> bnd (gh_comment E repo n (restore_warning (owner (cfg E)) k sender why (compose e current))) (\<lambda>_. ret ()))"
      have again: "patches (sent (fst (again r l'))) = patches (sent l')" for r l'
        by (cases r) (simp_all add: again_def quiet, simp add: ret_def)
      define collapsed where "collapsed = ''verification-block restore aborted: issue body collapsed from '' @
               dec (int (length before_body)) @ '' to '' @ dec (int (length current)) @
               '' characters (sender=`'' @ sender @ ''`). Gateway wrote nothing. Pre-edit body is '' @
               ''recoverable from delivery '' @ did @ '''s stored payload.''"
      have "apply_restore E k repo n did sender before_body body e why l =
          (if 2 * length current < length before_body then escalate E k ''system'' collapsed None False
           else if checkbox_is_checked current True \<noteq> checkbox_is_checked body True then ret ()
           else if compose e current = current then ret ()
           else bnd (gh_patch E (e_gateway E) repo n (compose e current)) again) l1"
        by (simp only: apply_restore_def bnd_def [of "gh_body _ _ _ _"] fetch Inr prod.case sum.case collapsed_def again_def)
      then show ?thesis
        using same escalate_patches s1 patched [OF again] by (simp add: ret_def split: if_split)
    qed
  qed
  have settle: "sent (fst (set_status did v l')) = sent l'" for v l'
    by (simp add: set_status_def on_db_def modify_def)
  have after: "go (fst (seq m (set_status did Done) l))" if "go (fst (m l))" for m :: "unit act"
    using that settle by (cases "m l"; cases "snd (m l)") (auto simp: go_def bnd_def split: sum.split)
  have "go (fst (restore_agent_verification_edit E k repo n did sender body changes l))"
    using assms(1) apply_ok after settle same
    by (auto simp: restore_agent_verification_edit_def from_db_def bnd_reads split: json.split option.split)
  then show ?thesis unfolding go_def .
qed

definition edited_body :: string where
  "edited_body = ''The goal, the plan and the notes of the review, without the steps to verify''"

definition restoring :: env where
  "restoring = example_env (Some ''t'') (\<lambda>_. Inr (JObj [(''body'', JStr edited_body)]))"

definition ticked_before :: dict where
  "ticked_before = [(''body'', JObj [(''from'', JStr (sentinel_open @ nl @ checkbox_checked @ nl @ sentinel_close))])]"

theorem restore_never_raises_witness:
  "\<exists>new. new \<noteq> [] \<and> list_all (\<lambda>t. checkbox_is_checked t True \<noteq> Some True) new \<and>
     patches (sent (fst (restore_agent_verification_edit restoring ''o/r#1'' ''o/r'' 1 ''d1'' ''bot'' edited_body ticked_before
       (example_loop (session_in AWAITING_VERIFICATION))))) = new"
proof -
  let ?l = "example_loop (session_in AWAITING_VERIFICATION)"
  have "\<not> stamped (session_or_blank ''o/r#1'' (db ?l))" by code_simp
  moreover have "get_issue_body ''o/r'' 1 (e_gateway restoring) (e_get restoring (tick ?l)) = Inr edited_body" by code_simp
  moreover have "\<not> orphan_open edited_body" by code_simp
  moreover have "sent ?l = []" "patches [] = []" by (simp_all add: example_loop_def patches_def)
  moreover have "patches (sent (fst (restore_agent_verification_edit restoring ''o/r#1'' ''o/r'' 1 ''d1'' ''bot'' edited_body
      ticked_before ?l))) \<noteq> []"
    by code_simp
  ultimately show ?thesis
    using restore_never_raises [of "''o/r#1''" ?l "''o/r''" 1 restoring "''d1''" "''bot''" edited_body ticked_before] by auto
qed

lemma unticked_abandons: "checkbox_is_checked b True \<noteq> Some True \<Longrightarrow> classify_at_close b = ''ABANDONED''"
  by (simp add: classify_at_close_def)

lemma grace_result:
  "results (finish_close_grace E k repo n did body True) (\<lambda>b. b = None)"
  unfolding finish_close_grace_def
  by (rule results_bnd [OF results_any])
     (auto intro!: results_seq results_ret split: sum.split prod.split)

text \<open>C26: a close is classified VERIFIED only with the owner's tick on record: unless the row carried a
  class already, the session row read at the close has \<open>verified_at\<close> set.\<close>

theorem verified_close_needs_stamp:
  assumes "snd (classify_close E k s repo n did data received l) = Inr (Some (s', ''VERIFIED''))"
    and "s_class s \<notin> {Some ''VERIFIED'', Some ''ABANDONED''}"
  shows "stamped s' \<and> s' = (case get_session k (db l) of None \<Rightarrow> s | Some x \<Rightarrow> x)"
proof -
  define x where "x = (case get_session k (db l) of None \<Rightarrow> s | Some x \<Rightarrow> x)"
  define body where "body = json_str (dget (json_obj (dget data ''issue'')) ''body'')"
  define checked where "checked = (checkbox_is_checked body True = Some True)"
  define pick where "pick = (if checked = stamped x then ret (Some body)
     else bnd (close_grace_elapsed E did received) (\<lambda>elapsed.
       if \<not> elapsed then ret None else finish_close_grace E k repo n did body (checked \<and> \<not> stamped x)))"
  define rest where "rest = (\<lambda>b. case b of None \<Rightarrow> ret None
     | Some b \<Rightarrow> seq (set_fields E k [F_classification (Some (classify_at_close b))]) (ret (Some (x, classify_at_close b))))"
  have eq: "classify_close E k s repo n did data received l = bnd pick rest l"
    using assms(2)
    by (simp only: classify_close_def if_False from_db_def bnd_reads x_def [symmetric] Let_def body_def [symmetric]
        checked_def [symmetric] pick_def rest_def)
  have "results pick (\<lambda>b. stamped x \<or> b = None \<or> b = Some body \<and> \<not> checked)"
  proof (cases "stamped x")
    case True
    then show ?thesis by (simp add: results_def)
  next
    case False
    show ?thesis
    proof (cases checked)
      case True
      then have "pick = bnd (close_grace_elapsed E did received) (\<lambda>elapsed.
          if \<not> elapsed then ret None else finish_close_grace E k repo n did body True)"
        using False by (simp add: pick_def cong: if_cong)
      moreover have "results (bnd (close_grace_elapsed E did received) (\<lambda>elapsed.
          if \<not> elapsed then ret None else finish_close_grace E k repo n did body True)) (\<lambda>b. b = None)"
        by (intro results_bnd [OF results_any] results_if results_ret grace_result) simp
      ultimately show ?thesis by (simp add: results_def)
    qed (use False in \<open>simp add: pick_def results_def ret_def\<close>)
  qed
  then have "results (bnd pick rest) (\<lambda>r. \<forall>c. r = Some c \<longrightarrow> fst c = x \<and> (snd c = ''VERIFIED'' \<longrightarrow> stamped x))"
  proof (rule results_bnd)
    fix b
    assume b: "stamped x \<or> b = None \<or> b = Some body \<and> \<not> checked"
    have "stamped x \<or> classify_at_close b' = ''ABANDONED''" if "b = Some b'" for b'
      using b that by (auto simp: checked_def intro: unticked_abandons)
    then show "results (rest b) (\<lambda>r. \<forall>c. r = Some c \<longrightarrow> fst c = x \<and> (snd c = ''VERIFIED'' \<longrightarrow> stamped x))"
      unfolding rest_def by (cases b) (auto intro!: results_seq results_ret)
  qed
  with assms(1) show ?thesis unfolding eq by (auto simp: results_def x_def) (metis prod.collapse fst_conv snd_conv)+
qed

definition stamped_row :: session_row where
  "stamped_row = (example_row AWAITING_VERIFICATION)\<lparr>s_verified := Some 5\<rparr>"

definition ticked_issue :: dict where
  "ticked_issue = [(''issue'', JObj [(''body'', JStr (sentinel_open @ nl @ checkbox_checked @ nl @ sentinel_close))])]"

theorem verified_close_needs_stamp_witness: "stamped stamped_row"
proof -
  have "snd (classify_close offline ''o/r#1'' stamped_row ''o/r'' 1 ''d1'' ticked_issue 0 (example_loop empty_store)) =
      Inr (Some (stamped_row, ''VERIFIED''))"
    by code_simp
  moreover have "s_class stamped_row \<notin> {Some ''VERIFIED'', Some ''ABANDONED''}" by code_simp
  ultimately show ?thesis using verified_close_needs_stamp by blast
qed

section \<open>The archive\<close>

lemma archive_sent:
  "\<exists>new. sent (fst (archive_and_purge E repo n k pk c s t l)) = sent l @ new \<and>
     prefix new [Wrote_manifest (session_dir_path (e_root E) repo n)
         (build_manifest k pk c (s_design_pr s) (s_feature_pr s) t \<lfloor>e_now E (Suc (tick l))\<rfloor> (e_models E)),
       Wrote_tarball (archive_tarball_path (e_root E) repo n), Purged (session_dir_path (e_root E) repo n)]"
  by (simp add: archive_and_purge_def Let_def act_defs io_def prefix_def split: option.split)

text \<open>C27: the archive never loses a session directory: whatever fails on the way, the directory is purged
  only after the manifest and the tarball were written, in this order, and each at most once.\<close>

theorem purge_only_after_tarball:
  "\<exists>new. sent (fst (archive_and_purge E repo n k pk c s t l)) = sent l @ new \<and>
     (Purged p \<in> set new \<longrightarrow> (\<exists>m. new = [Wrote_manifest p m, Wrote_tarball (archive_tarball_path (e_root E) repo n), Purged p]))"
proof -
  obtain new m where "sent (fst (archive_and_purge E repo n k pk c s t l)) = sent l @ new"
    "prefix new [Wrote_manifest (session_dir_path (e_root E) repo n) m,
       Wrote_tarball (archive_tarball_path (e_root E) repo n), Purged (session_dir_path (e_root E) repo n)]"
    using archive_sent by blast
  then show ?thesis by (auto simp: prefix_Cons)
qed

theorem purge_only_after_tarball_witness:
  "\<exists>m. sent (fst (archive_and_purge offline ''o/r'' 1 ''o/r#1'' ''p'' ''ABANDONED'' (example_row TEARDOWN) 0
     (example_loop (session_in TEARDOWN)))) =
   [Wrote_manifest (session_dir_path ''/srv'' ''o/r'' 1) m, Wrote_tarball (archive_tarball_path ''/srv'' ''o/r'' 1),
    Purged (session_dir_path ''/srv'' ''o/r'' 1)]"
proof -
  let ?l = "fst (archive_and_purge offline ''o/r'' 1 ''o/r#1'' ''p'' ''ABANDONED'' (example_row TEARDOWN) 0
     (example_loop (session_in TEARDOWN)))"
  have "Purged (session_dir_path ''/srv'' ''o/r'' 1) \<in> set (sent ?l)" by code_simp
  moreover have "sent (example_loop (session_in TEARDOWN)) = []" "e_root offline = ''/srv''"
    by (simp_all add: example_loop_def offline_def example_env_def)
  ultimately show ?thesis
    using purge_only_after_tarball [of offline "''o/r''" 1 "''o/r#1''" "''p''" "''ABANDONED''" "example_row TEARDOWN" 0
        "example_loop (session_in TEARDOWN)" "session_dir_path ''/srv'' ''o/r'' 1"] by auto
qed

section \<open>The owner's reply\<close>

lemma reopen_store:
  "\<exists>t1 t2 t3. db (fst (reopen_session E J l)) = update_session_fields t3 (j_key J)
     [F_state (resume_target (j_row J)), F_paused_reason None, F_resume_state None, F_consec_agent_turns 0, F_silent_turns 0]
     ((if project_of (j_row J) \<noteq> [] then \<lambda>st. fst (close_project_block t2 (project_of (j_row J)) st) else id)
        (clear_deferred_clocks (fst (close_escalation t1 (j_key J) None None (db l)))))"
proof (cases "project_of (j_row J) = []")
  case True
  then show ?thesis by (simp add: reopen_session_def Let_def act_defs) (intro exI, rule refl)
next
  case False
  then show ?thesis by (simp add: reopen_session_def Let_def act_defs) (intro exI, rule refl)
qed

lemma no_open_after_close:
  "escalations st = escalations (fst (close_escalation t k None None st0)) \<Longrightarrow> get_open_escalation k st = None"
proof -
  assume e: "escalations st = escalations (fst (close_escalation t k None None st0))"
  have "filter (\<lambda>e. e_session e = k \<and> e_resolved e = None)
      (upd_where (escalation_matches k None) (\<lambda>e. e\<lparr>e_resolved := Some t\<rparr>) xs) = []" for xs :: "escalation_row list"
    by (induction xs) (simp_all add: upd_where_def escalation_matches_def)
  then have "filter (\<lambda>e. e_session e = k \<and> e_resolved e = None) (escalations st) = []"
    by (simp add: e close_escalation_def Let_def)
  then show ?thesis by (simp add: get_open_escalation_def)
qed

text \<open>The owner's reply always ends the pause: the session is back in the state it was paused from (never
  in PAUSED_HUMAN itself), no escalation of it stays open, and every deferred delivery is due at once.\<close>

theorem owner_reply_reopens:
  assumes "get_session (j_key J) (db l) = Some s" "st = db (fst (reopen_session E J l))"
  shows "phase (j_key J) st = Some (resume_target (j_row J), None) \<and> resume_target (j_row J) \<noteq> PAUSED_HUMAN \<and>
    get_open_escalation (j_key J) st = None \<and>
    (\<forall>d \<in> set (deliveries st). d_status d = Deferred \<longrightarrow> d_next d = 0)"
proof -
  define f where "f = (\<lambda>t st. (if project_of (j_row J) \<noteq> [] then \<lambda>st. fst (close_project_block t (project_of (j_row J)) st) else id) st)"
  obtain t1 t2 t3 where st: "st = update_session_fields t3 (j_key J)
     [F_state (resume_target (j_row J)), F_paused_reason None, F_resume_state None, F_consec_agent_turns 0, F_silent_turns 0]
     (f t2 (clear_deferred_clocks (fst (close_escalation t1 (j_key J) None None (db l)))))"
    using reopen_store [of E J l] assms(2) unfolding f_def by blast
  have f: "sessions (f t x) = sessions x" "escalations (f t x) = escalations x" "deliveries (f t x) = deliveries x" for t x
    by (simp_all add: f_def)
  have "get_session (j_key J) (f t2 (clear_deferred_clocks (fst (close_escalation t1 (j_key J) None None (db l))))) = Some s"
    using assms(1) by (subst get_session_frame) (simp_all add: f)
  then have "phase (j_key J) st = Some (resume_target (j_row J), None)" by (simp add: st reopen_target phase_at)
  moreover have "get_open_escalation (j_key J) st = None"
    by (rule no_open_after_close [where t = t1]) (simp add: st f)
  moreover have "d_next d = 0" if "d \<in> set (deliveries st)" "d_status d = Deferred" for d
    using that by (auto simp: st f clear_deferred_clocks_def upd_where_def)
  ultimately show ?thesis by (simp add: resume_target_def)
qed

definition paused_store :: store where
  "paused_store = update_session_fields 1 ''o/r#1'' [F_state PAUSED_HUMAN, F_resume_state (Some CODE_REVIEW)] (session_in CODE_REVIEW)"

definition reply_job :: job where
  "reply_job = job_of (example_delivery ''issue_comment'' (Some ''created'') ''zoe'' []) ''o/r#1'' 1
     (the (get_session ''o/r#1'' paused_store)) paused_store"

theorem owner_reply_reopens_witness:
  "phase ''o/r#1'' (db (fst (reopen_session offline reply_job (example_loop paused_store)))) = Some (CODE_REVIEW, None)"
proof -
  have "j_key reply_job = ''o/r#1''" "resume_target (j_row reply_job) = CODE_REVIEW" by code_simp+
  moreover have "\<exists>s. get_session ''o/r#1'' paused_store = Some s"
    by (simp add: paused_store_def get_session_update_fields)
  ultimately show ?thesis
    using owner_reply_reopens [of reply_job "example_loop paused_store"] by (metis example_db)
qed

section \<open>Budgets before states\<close>

text \<open>The budget is looked at before the state: a session in TEARDOWN whose budget is exhausted is
  pulled back to PAUSED_HUMAN by the next event on its closed issue, although the loop means a
  terminating session not to escalate.\<close>

theorem budget_pauses_teardown:
  assumes "j_row J = s" "get_session (j_key J) (db l) = Some s" "s_state s = TEARDOWN" "opt_str (s_paused s) = []"
    and "breach (budget_of (s_turns s) (s_consec s) (s_rounds s)) = Some why"
    and "\<not> wakes_nobody E J" "j_event J \<noteq> ''issues''"
  shows "phase (j_key J) (db (fst (process_job E J l))) = Some (PAUSED_HUMAN, Some TEARDOWN)"
proof -
  have "\<not> is_paused s" using assms(3,4) by (simp add: is_paused_def)
  then have "process_job E J = escalate_and_settle E J why"
    using assms by (simp add: process_job_def process_event_def Let_def)
  moreover have "phase (j_key J) (db (fst (escalate_and_settle E J why l))) =
      phase (j_key J) (db (fst (escalate E (j_key J) ''system'' why None False l)))"
  proof -
    obtain l' where l': "escalate E (j_key J) ''system'' why None False l = (l', Inr ())" using escalate_value by blast
    have "phase (j_key J) (set_delivery_status (j_did J) Done (db l')) = phase (j_key J) (db l')"
      by (rule phase_quiet [OF q_status])
    with l' show ?thesis
      by (simp add: escalate_and_settle_def dispose_def set_status_def on_db_def modify_def ret_def bnd_def)
  qed
  ultimately show ?thesis using assms(1-3) by (simp add: phase_escalate paused_from_def)
qed

definition spent_store :: store where
  "spent_store = update_session_fields 1 ''o/r#1'' [F_turn_count 40] (session_in TEARDOWN)"

definition late_job :: job where
  "late_job = job_of (example_delivery ''issue_comment'' (Some ''created'') ''amy'' []) ''o/r#1'' 1
     (the (get_session ''o/r#1'' spent_store)) spent_store"

theorem budget_pauses_teardown_witness:
  "phase ''o/r#1'' (db (fst (process_job offline late_job (example_loop spent_store)))) = Some (PAUSED_HUMAN, Some TEARDOWN)"
proof -
  let ?s = "the (get_session ''o/r#1'' spent_store)"
  have j: "j_row late_job = ?s" "j_key late_job = ''o/r#1''" "j_event late_job \<noteq> ''issues''"
    by (simp_all add: late_job_def job_of_def example_delivery_def)
  have s: "s_state ?s = TEARDOWN" "opt_str (s_paused ?s) = []" "\<not> wakes_nobody offline late_job" by code_simp+
  obtain why where w: "breach (budget_of (s_turns ?s) (s_consec ?s) (s_rounds ?s)) = Some why"
    by (rule that) code_simp
  have "get_session ''o/r#1'' spent_store = Some ?s" by (simp add: spent_store_def get_session_update_fields)
  then show ?thesis
    using budget_pauses_teardown [OF j(1) _ s(1,2) w s(3) j(3), of "example_loop spent_store"] j(2) by simp
qed

section \<open>Two ways to count\<close>

text \<open>The loop counts a turn with one statement of the store, the budget and silent-turn modules with their
  own trackers; both agree: after the statement the row reads as \<open>after_agent_turn\<close> of the budget and as
  \<open>silent_after_turn\<close> of the tracker, and the loop escalates exactly the message of the tracker.\<close>

theorem turn_counting_agrees:
  assumes "get_session k st = Some s"
  shows "\<exists>s'. get_session k (fst (bump_turn_counters now k (silent_turn_mode observed status) False st)) = Some s' \<and>
    budget_of (s_turns s') (s_consec s') (s_rounds s') = after_agent_turn (budget_of (s_turns s) (s_consec s) (s_rounds s)) \<and>
    (\<lparr>silent_count = s_silent s', threshold = silent_limit (cfg E)\<rparr>,
      silent_breach E (silent_turn_mode observed status) (s_silent s') actions examined) =
     silent_after_turn \<lparr>silent_count = s_silent s, threshold = silent_limit (cfg E)\<rparr> (Some actions) observed status examined"
proof (intro exI conjI)
  let ?m = "silent_turn_mode observed status"
  let ?s' = "bump_row now ?m False s"
  show "get_session k (fst (bump_turn_counters now k ?m False st)) = Some ?s'" using assms by (simp add: bump_session)
  show "budget_of (s_turns ?s') (s_consec ?s') (s_rounds ?s') = after_agent_turn (budget_of (s_turns s) (s_consec s) (s_rounds s))"
    by (simp add: bump_row_def budget_of_def after_agent_turn_def)
  show "(\<lparr>silent_count = s_silent ?s', threshold = silent_limit (cfg E)\<rparr>,
      silent_breach E ?m (s_silent ?s') actions examined) =
     silent_after_turn \<lparr>silent_count = s_silent s, threshold = silent_limit (cfg E)\<rparr> (Some actions) observed status examined"
    by (cases ?m) (simp_all add: bump_row_def silent_after_turn_def silent_breach_def Let_def)
qed

theorem turn_counting_agrees_witness:
  "\<exists>s'. get_session ''o/r#1'' (fst (bump_turn_counters 5 ''o/r#1'' (silent_turn_mode False (Some ''done'')) False (session_in PLANNING))) = Some s' \<and>
     silent_breach offline (silent_turn_mode False (Some ''done'')) (s_silent s') [] False =
       snd (silent_after_turn \<lparr>silent_count = s_silent (example_row PLANNING), threshold = silent_limit (cfg offline)\<rparr> (Some []) False (Some ''done'') False)"
proof -
  obtain s' where s': "get_session ''o/r#1'' (fst (bump_turn_counters 5 ''o/r#1'' (silent_turn_mode False (Some ''done'')) False (session_in PLANNING))) = Some s'"
    "(\<lparr>silent_count = s_silent s', threshold = silent_limit (cfg offline)\<rparr>,
      silent_breach offline (silent_turn_mode False (Some ''done'')) (s_silent s') [] False) =
     silent_after_turn \<lparr>silent_count = s_silent (example_row PLANNING), threshold = silent_limit (cfg offline)\<rparr> (Some []) False (Some ''done'') False"
    using turn_counting_agrees [of "''o/r#1''" "session_in PLANNING" "example_row PLANNING" 5 False "Some ''done''" offline "[]" False]
    by auto
  then show ?thesis by (metis snd_conv)
qed

end
