(* ===== verification/Dispatcher.thy ===== *)
theory Dispatcher
  imports Loop_Limits
begin

text \<open>
  The dispatcher thread (\<open>agentd/src/agentd/dispatcher.py\<close>): the scan of the queued deliveries through the
  intake gate, then the session loop's turn resumes and its drain of the deferred deliveries.  The
  threads beside it speak through \<open>signals\<close>: the stop event, and what the governor wrote to the
  breaker in the meantime.
\<close>

record signals =
  stopping :: "nat \<Rightarrow> bool"
  governed :: "nat \<Rightarrow> (int \<times> bool \<times> string option) option"

text \<open>The governor's thread commits on its own between two statements of this one.\<close>

definition meanwhile :: "signals \<Rightarrow> unit act" where
  "meanwhile S = bnd (ask (governed S)) (\<lambda>w. case w of None \<Rightarrow> ret () | Some (t, p, r) \<Rightarrow> on_db (set_disk_paused t p r))"

definition breaker_open :: "signals \<Rightarrow> bool act" where
  "breaker_open S = seq (meanwhile S) (from_db is_disk_paused)"

text \<open>\<open>_handle\<close>: a ping is done; an intake decision parks or drops; anything else is parked.\<close>

definition handle_queued :: "env \<Rightarrow> delivery \<Rightarrow> unit act" where
  "handle_queued E d =
     (if d_event d = ''ping'' then set_status (delivery_id d) Done
      else
        (case evaluate_intake (d_event d) (d_action d) (d_payload d) (cfg E) of
           Inl _ \<Rightarrow> fail (Other_error ''AttributeError'')
         | Inr (Some r) \<Rightarrow> set_status (delivery_id d) (if accepted r then Deferred else Dropped)
         | Inr None \<Rightarrow> set_status (delivery_id d) Deferred))"

fun handle_rows :: "env \<Rightarrow> signals \<Rightarrow> delivery list \<Rightarrow> int act" where
  "handle_rows E S [] = ret 0"
| "handle_rows E S (d # ds) =
     bnd (breaker_open S) (\<lambda>paused. bnd (ask (stopping S)) (\<lambda>stop.
       if paused \<or> stop then ret 0
       else seq (handle_queued E d) (bnd (handle_rows E S ds) (\<lambda>n. ret (n + 1)))))"

text \<open>The session loop's share; an exception is logged and what was counted before it stays.\<close>

definition drain_sessions :: "env \<Rightarrow> int \<Rightarrow> int act" where
  "drain_sessions E n =
     bnd (attempt (process_resuming_turns E)) (\<lambda>r. case r of
       Inl _ \<Rightarrow> ret n
     | Inr a \<Rightarrow> bnd (attempt (process_deferred_batch E 20)) (\<lambda>r. case r of
           Inl _ \<Rightarrow> ret (n + a)
         | Inr b \<Rightarrow> ret (n + a + b)))"

definition drain_once :: "env \<Rightarrow> signals \<Rightarrow> bool \<Rightarrow> int act" where
  "drain_once E S looped =
     bnd (breaker_open S) (\<lambda>paused.
       if paused then ret 0
       else bnd (from_db (list_queued 100)) (\<lambda>rows. bnd (handle_rows E S rows) (\<lambda>n.
         if \<not> looped then ret n
         else bnd (breaker_open S) (\<lambda>paused. if paused then ret n else drain_sessions E n))))"

text \<open>\<open>_loop\<close>: the rounds of the thread until it is stopped; a drain that raises is logged.\<close>

fun dispatcher_loop :: "env \<Rightarrow> signals \<Rightarrow> bool \<Rightarrow> nat \<Rightarrow> unit act" where
  "dispatcher_loop E S looped 0 = ret ()"
| "dispatcher_loop E S looped (Suc rounds) =
     bnd (ask (stopping S)) (\<lambda>stop.
       if stop then ret ()
       else seq (attempt (drain_once E S looped)) (dispatcher_loop E S looped rounds))"

section \<open>Frames\<close>

context loop_frame
begin

lemma dispatcher_by:
  assumes status: "\<And>did v. keeps R (set_status did v)" and flag: "\<And>t p r. keeps R (on_db (set_disk_paused t p r))"
    and resume: "keeps R (process_resuming_turns E)" and drain: "keeps R (process_deferred_batch E 20)"
  shows "keeps R (drain_once E S looped)" "keeps R (dispatcher_loop E S looped n)"
proof -
  have breaker: "keeps R (breaker_open S)"
    unfolding breaker_open_def meanwhile_def by (intro keeps_rules flag)
  have handle: "keeps R (handle_queued E d)" for d
    unfolding handle_queued_def by (intro keeps_rules status)
  have rows: "keeps R (handle_rows E S ds)" for ds
    by (induction ds) (auto intro!: keeps_rules breaker handle)
  have sessions: "keeps R (drain_sessions E n)" for n
    unfolding drain_sessions_def by (intro keeps_rules resume drain)
  show once: "keeps R (drain_once E S looped)"
    unfolding drain_once_def by (intro keeps_rules breaker rows sessions)
  show "keeps R (dispatcher_loop E S looped n)"
    by (induction n) (auto intro!: keeps_rules once)
qed

end


lemma keeps_modify_db: "(\<And>l. R l (l\<lparr>db := f (db l)\<rparr>)) \<Longrightarrow> keeps R (on_db f)"
  by (simp add: keeps_def on_db_def modify_def)

lemma keeps_emit_any: "(\<And>l. R l (l\<lparr>sent := sent l @ [e]\<rparr>)) \<Longrightarrow> keeps R (emit e)"
  by (simp add: keeps_def emit_def modify_def)

context loop_frame
begin

lemma sum_by: "(\<And>x. keeps R (f x)) \<Longrightarrow> keeps R (sum_acts f xs)"
  by (induction xs) (auto intro!: keeps_rules)

lemma resumes_by: "(\<And>x. keeps R (resume_one E x)) \<Longrightarrow> keeps R (process_resuming_turns E)"
  unfolding process_resuming_turns_def by (intro keeps_rules sum_by)

end

text \<open>A resumed turn writes on its own session, and drops its mark.\<close>

context pausing
begin

lemma keeps_resumed:
  assumes k: "t_session t = k" and clear: "\<And>i. keeps R (on_db (clear_turn_resuming i))"
    and sent: "\<And>e. keeps R (emit e)"
  shows "keeps R (resume_one E (t, v))"
proof -
  have returned: "keeps R (resume_returned E t j)" for j
    unfolding resume_returned_def Let_def result_dict_def k
    by (intro quiet_rules keeps_on_db q_finish keeps_register_reported keeps_quiet_fields) (simp add: quiet_field_def)
  have interrupted: "keeps R (resume_interrupted_turn E t)"
  proof -
    have ended: "keeps R (case e of
         Rpc_raised text timeout_error under_way \<Rightarrow>
           seq (only_if (under_way \<and> is_rpc_timeout text timeout_error) (hold_role rkey u)) (fail (Other_error text))
       | Rpc_result j \<Rightarrow> seq (resume_returned E t j) (ret True))" for e rkey u
      by (cases e) (simp_all add: keeps_bnd keeps_only_if keeps_hold_role keeps_fail keeps_ret returned)
    show ?thesis
      unfolding resume_interrupted_turn_def Let_def k io_def
      by (intro quiet_rules keeps_now_held sent keeps_run_rpc ended)
  qed
  have failed: "keeps R (resume_failed E t)"
    unfolding resume_failed_def k by (intro quiet_rules keeps_on_db q_finish keeps_escalate clear)
  show ?thesis
    unfolding resume_one_def prod.case by (intro quiet_rules clear interrupted failed)
qed

end


section \<open>What the thread keeps\<close>

lemma wf_clear: "wf_kept l (l\<lparr>db := clear_turn_resuming i (db l)\<rparr>)"
  by (simp add: wf_kept_def wf_clear_resuming)

lemma resumed_wf: "keeps wf_kept (resume_one E x)"
proof (cases x)
  case (Pair t v)
  then show ?thesis by (simp add: wf.keeps_resumed keeps_modify_db wf.keeps_any_emit wf_clear)
qed

lemma only_clear: "only_session k l (l\<lparr>db := clear_turn_resuming i (db l)\<rparr>)"
  by (simp add: only_session_def get_session_def)

lemma resumed_only: "keeps (only_session (t_session t)) (resume_one E (t, v))"
  by (rule only.keeps_resumed [OF refl] keeps_modify_db only.keeps_any_emit only_clear)+

lemma resumed_closed: "keeps (closed_kept (t_session t)) (resume_one E (t, v))"
  by (rule closed.keeps_resumed [OF refl] keeps_modify_db keeps_emit_any closed_same | simp add: phase_def get_session_def)+

lemma resumed_stays: "keeps (stays_closed k) (resume_one E x)"
proof (cases x)
  case (Pair t v)
  have "closed_kept k l (fst (resume_one E (t, v) l))" for l
  proof (cases "t_session t = k")
    case True
    with resumed_closed [of t E v] show ?thesis by (simp add: keeps_def)
  next
    case False
    with resumed_only [of t E v] have "get_session k (db (fst (resume_one E (t, v) l))) = get_session k (db l)"
      by (simp add: keeps_def only_session_def)
    then show ?thesis by (intro closed_same) (simp add: phase_def)
  qed
  with resumed_wf [of E x] Pair show ?thesis by (simp add: keeps_def stays_closed_def)
qed

text \<open>Whatever the outside answers and whatever its handlers raise, the dispatcher thread keeps the store
  well-formed for as long as it runs: scans, resumed turns and drains in any number of rounds.\<close>

theorem dispatcher_keeps_wf:
  assumes "wf_store (db l)"
  shows "wf_store (db (fst (dispatcher_loop E S looped rounds l)))"
proof -
  have "keeps wf_kept (dispatcher_loop E S looped rounds)"
    using drain_kept [of wf_kept E 20] wf.whole_axioms
    by (intro wf.dispatcher_by wf.keeps_status wf.resumes_by resumed_wf keeps_modify_db)
       (auto simp: wf_kept_def wf_set_disk_paused)
  with assms show ?thesis by (simp add: keeps_def wf_kept_def)
qed

text \<open>C3: CLOSED is final: no number of rounds of the dispatcher, with its scans, resumed turns and
  deliveries, the owner's close and replies included, takes a closed session out of CLOSED.\<close>

theorem closed_for_good:
  assumes "wf_store (db l)" "get_session k (db l) = Some s" "s_state s = CLOSED"
  shows "\<exists>s'. get_session k (db (fst (dispatcher_loop E S looped rounds l))) = Some s' \<and> s_state s' = CLOSED"
proof -
  have delivery: "keeps (stays_closed k) (process_one E d)" for d
    using process_one_kept [of wf_kept E d] wf.whole_axioms closed_delivery by (simp add: keeps_def stays_closed_def)
  have status: "stays_closed k l (l\<lparr>db := set_delivery_status d v (db l)\<rparr>)" for l d v
    by (simp add: stays_closed_def wf_kept_def wf_set_delivery_status closed_same phase_def get_session_def)
  have flag: "stays_closed k l (l\<lparr>db := set_disk_paused t p r (db l)\<rparr>)" for l t p r
    by (simp add: stays_closed_def wf_kept_def wf_set_disk_paused closed_same phase_def get_session_def)
  have "keeps (stays_closed k) (dispatcher_loop E S looped rounds)"
    by (intro stays_closed.dispatcher_by stays_closed.resumes_by stays_closed.drain_by resumed_stays delivery)
       (simp_all add: set_status_def keeps_modify_db status flag)
  then have "stays_closed k l (fst (dispatcher_loop E S looped rounds l))" by (simp add: keeps_def)
  then show ?thesis using assms by (auto simp: stays_closed_def closed_kept_def phase_def)
qed

theorem dispatcher_keeps_wf_witness:
  "wf_store (db (fst (dispatcher_loop online \<lparr>stopping = (\<lambda>_. False), governed = (\<lambda>_. None)\<rparr> True 3
     (example_loop (session_in CODE_REVIEW)))))"
  by (rule dispatcher_keeps_wf) (simp add: wf_session_in)

theorem closed_for_good_witness:
  "\<exists>s'. get_session ''o/r#1'' (db (fst (dispatcher_loop online \<lparr>stopping = (\<lambda>_. False), governed = (\<lambda>_. None)\<rparr> True 3
     (example_loop (session_in CLOSED))))) = Some s' \<and> s_state s' = CLOSED"
  using closed_for_good [of "example_loop (session_in CLOSED)"] wf_session_in by simp

section \<open>The breaker\<close>

definition frozen :: "loop \<Rightarrow> loop \<Rightarrow> bool" where
  "frozen l l' \<longleftrightarrow> is_disk_paused (db l') \<and> (db l')\<lparr>breaker := breaker (db l)\<rparr> = db l \<and> sent l' = sent l"

lemma frozen_trans: "frozen l l1 \<Longrightarrow> frozen l1 l2 \<Longrightarrow> frozen l l2"
  unfolding frozen_def by (metis store.surjective store.update_convs(3))

lemma open_stays:
  assumes "is_disk_paused (db l)" "\<And>n t r. governed S n \<noteq> Some (t, False, r)"
  shows "\<exists>l'. breaker_open S l = (l', Inr True) \<and> frozen l l'"
proof (cases "governed S (tick l)")
  case None
  with assms(1) show ?thesis by (simp add: breaker_open_def meanwhile_def act_defs is_disk_paused_def frozen_def)
next
  case (Some w)
  obtain t p r where "w = (t, p, r)" by (cases w)
  with Some assms(2) [of "tick l"] assms(1) show ?thesis
    by (cases p) (simp_all add: breaker_open_def meanwhile_def act_defs is_disk_paused_def set_disk_paused_def frozen_def)
qed

lemma frozen_drain:
  assumes "is_disk_paused (db l)" "\<And>n t r. governed S n \<noteq> Some (t, False, r)"
  shows "\<exists>l'. drain_once E S looped l = (l', Inr 0) \<and> frozen l l'"
  using open_stays [of l S] assms by (fastforce simp: drain_once_def bnd_def ret_def)

lemma frozen_rows:
  assumes "is_disk_paused (db l)" "\<And>n t r. governed S n \<noteq> Some (t, False, r)"
  shows "frozen l (fst (handle_rows E S ds l)) \<and> snd (handle_rows E S ds l) = Inr 0"
proof (cases ds)
  case Nil
  with assms show ?thesis by (simp add: ret_def frozen_def)
next
  case (Cons d rest)
  obtain l' where "breaker_open S l = (l', Inr True)" "frozen l l'" using open_stays [OF assms] by blast
  with Cons show ?thesis by (simp add: bnd_def ret_def ask_def frozen_def)
qed

text \<open>C36: while the disk breaker is open the dispatcher does nothing at all: in any number of rounds no
  row of any table but the breaker's own changes and nothing is sent, whatever is queued.\<close>

theorem open_breaker_freezes:
  assumes "is_disk_paused (db l)" "\<And>n t r. governed S n \<noteq> Some (t, False, r)"
  shows "frozen l (fst (dispatcher_loop E S looped rounds l))"
  using assms(1)
proof (induction rounds arbitrary: l)
  case 0
  then show ?case by (simp add: ret_def frozen_def)
next
  case (Suc n)
  let ?l = "l\<lparr>tick := Suc (tick l)\<rparr>"
  have f: "frozen l ?l" using Suc.prems by (simp add: frozen_def)
  obtain l' where d: "drain_once E S looped ?l = (l', Inr 0)" "frozen ?l l'"
    using frozen_drain [OF _ assms(2), of ?l E looped] Suc.prems by auto
  then have "frozen l' (fst (dispatcher_loop E S looped n l'))" by (intro Suc.IH) (simp add: frozen_def)
  then have "frozen l (fst (dispatcher_loop E S looped n l'))" by (rule frozen_trans [OF frozen_trans [OF f d(2)]])
  with d(1) f show ?case by (simp add: bnd_def ask_def attempt_def ret_def)
qed

definition full_disk :: store where
  "full_disk = set_disk_paused 5 True None (fst (insert_delivery 1 ''d'' ''ping'' None None None None None Queued empty_store))"

theorem open_breaker_freezes_witness:
  "frozen (example_loop full_disk)
     (fst (dispatcher_loop online \<lparr>stopping = (\<lambda>_. False), governed = (\<lambda>_. None)\<rparr> True 3 (example_loop full_disk)))"
  by (rule open_breaker_freezes) (simp_all add: full_disk_def is_disk_paused_def set_disk_paused_def)

section \<open>The scan\<close>

text \<open>What the intake gate makes of a queued delivery; None where it raises.\<close>

definition scan_verdict :: "config \<Rightarrow> delivery \<Rightarrow> dstatus option" where
  "scan_verdict c d =
     (if d_event d = ''ping'' then Some Done
      else case evaluate_intake (d_event d) (d_action d) (d_payload d) c of
        Inl _ \<Rightarrow> None
      | Inr None \<Rightarrow> Some Deferred
      | Inr (Some r) \<Rightarrow> Some (if accepted r then Deferred else Dropped))"

lemma handle_verdict:
  "handle_queued E d l = (case scan_verdict (cfg E) d of
     None \<Rightarrow> (l, Inl (Other_error ''AttributeError''))
   | Some v \<Rightarrow> (l\<lparr>db := set_delivery_status (delivery_id d) v (db l)\<rparr>, Inr ()))"
  by (auto simp: handle_queued_def scan_verdict_def set_status_def on_db_def modify_def fail_def
      split: sum.split option.split)

definition settle_rows :: "config \<Rightarrow> delivery list \<Rightarrow> store \<Rightarrow> store" where
  "settle_rows c ds = fold (\<lambda>d. set_delivery_status (delivery_id d) (the (scan_verdict c d))) ds"

lemma never_routed: "scan_verdict c d \<noteq> Some Routed \<and> scan_verdict c d \<noteq> Some Queued"
  by (auto simp: scan_verdict_def split: sum.split option.split)

text \<open>C37: the scan implements its specification: undisturbed, it gives every row of the batch the verdict of
  the intake gate (a ping is done, what the gate refuses is dropped, the rest is parked as deferred and
  nothing is ever marked routed), in order, counts them, and sends nothing.\<close>

theorem scan_settles:
  assumes "\<not> is_disk_paused (db l)" "\<And>n. governed S n = None" "\<And>n. \<not> stopping S n"
    and "\<And>d. d \<in> set ds \<Longrightarrow> scan_verdict (cfg E) d \<noteq> None"
  shows "\<exists>l'. handle_rows E S ds l = (l', Inr (int (length ds))) \<and> db l' = settle_rows (cfg E) ds (db l) \<and>
    sent l' = sent l"
  using assms(1,4)
proof (induction ds arbitrary: l)
  case Nil
  then show ?case by (simp add: ret_def settle_rows_def)
next
  case (Cons d ds)
  obtain v where v: "scan_verdict (cfg E) d = Some v" using Cons.prems(2) [of d] by auto
  let ?l = "l\<lparr>tick := Suc (Suc (tick l)), db := set_delivery_status (delivery_id d) v (db l)\<rparr>"
  have "\<exists>l'. handle_rows E S ds ?l = (l', Inr (int (length ds))) \<and> db l' = settle_rows (cfg E) ds (db ?l) \<and>
      sent l' = sent ?l"
    by (rule Cons.IH) (use Cons.prems in \<open>auto simp: is_disk_paused_def\<close>)
  then obtain l' where "handle_rows E S ds ?l = (l', Inr (int (length ds)))" "sent l' = sent l"
    "db l' = settle_rows (cfg E) ds (set_delivery_status (delivery_id d) v (db l))" by auto
  then show ?case
    using Cons.prems(1) assms(2,3) v
    by (simp add: breaker_open_def meanwhile_def bnd_def ask_def ret_def from_db_def reads_def handle_verdict settle_rows_def)
qed

theorem scan_settles_witness:
  "\<exists>l'. handle_rows online \<lparr>stopping = (\<lambda>_. False), governed = (\<lambda>_. None)\<rparr> [design_opened] (example_loop (session_in PLANNING)) =
       (l', Inr 1) \<and> db l' = settle_rows (cfg online) [design_opened] (session_in PLANNING)"
proof -
  have "\<not> is_disk_paused (session_in PLANNING)" "scan_verdict (cfg online) design_opened \<noteq> None" by code_simp+
  with scan_settles [of "example_loop (session_in PLANNING)" "\<lparr>stopping = (\<lambda>_. False), governed = (\<lambda>_. None)\<rparr>"
    "[design_opened]" online] show ?thesis by auto
qed

end
