(* ===== verification/Snapshot.thy ===== *)
theory Snapshot
  imports Github
begin

text \<open>
  What the reconciler's sweep reads from GitHub (\<open>fetch_session_snapshot\<close> and \<open>fetch_open_prs_by_head\<close>
  of \<open>agentd/src/agentd/github_fetch.py\<close>), with the timestamps it parses there and in docker's
  inventory (\<open>_parse_started_at\<close> of \<open>agentd/src/agentd/reconciler.py\<close>).
\<close>

section \<open>Timestamps\<close>

definition num_at :: "nat \<Rightarrow> nat \<Rightarrow> string \<Rightarrow> int option" where
  "num_at i n s = (let w = take n (drop i s) in
     if length w = n \<and> list_all is_digit w then digits_val 0 False w else None)"

definition char_at :: "nat \<Rightarrow> char \<Rightarrow> string \<Rightarrow> bool" where
  "char_at i c s \<longleftrightarrow> take 1 (drop i s) = [c]"

text \<open>Days since 1970-01-01 in the proleptic Gregorian calendar.\<close>

definition days_from_civil :: "int \<Rightarrow> int \<Rightarrow> int \<Rightarrow> int" where
  "days_from_civil y m d =
     (let y' = (if m \<le> 2 then y - 1 else y); era = y' div 400; yoe = y' - era * 400;
          doy = (153 * (if m > 2 then m - 3 else m + 9) + 2) div 5 + d - 1;
          doe = yoe * 365 + yoe div 4 - yoe div 100 + doy
      in era * 146097 + doe - 719468)"

definition days_in_month :: "int \<Rightarrow> int \<Rightarrow> int" where
  "days_in_month y m =
     (if m = 2 then (if y mod 4 = 0 \<and> (y mod 100 \<noteq> 0 \<or> y mod 400 = 0) then 29 else 28)
      else if m \<in> {4, 6, 9, 11} then 30 else 31)"

text \<open>
  \<open>int(datetime.fromisoformat(s).timestamp())\<close> on the shape GitHub and docker write,
  \<open>YYYY-MM-DDTHH:MM:SS[.f+](+|-)HH:MM\<close>; other shapes the standard library takes are the
  parameter \<open>other\<close>.  None is \<open>ValueError\<close>; \<open>int\<close> cuts towards zero.
\<close>

definition epoch_of :: "int list \<Rightarrow> bool \<Rightarrow> int \<Rightarrow> int option" where
  "epoch_of parts frac sign =
     (case parts of
        [y, mo, d, h, mi, s, th, tm] \<Rightarrow>
          if 1 \<le> y \<and> 1 \<le> mo \<and> mo \<le> 12 \<and> 1 \<le> d \<and> d \<le> days_in_month y mo \<and> h \<le> 23 \<and> mi \<le> 59 \<and> s \<le> 59
             \<and> th \<le> 23 \<and> tm \<le> 59
          then (let t = days_from_civil y mo d * 86400 + h * 3600 + mi * 60 + s - sign * (th * 3600 + tm * 60)
                in Some (if t < 0 \<and> frac then t + 1 else t))
          else None
      | _ \<Rightarrow> None)"

definition iso_timestamp :: "(string \<Rightarrow> int option) \<Rightarrow> string \<Rightarrow> int option" where
  "iso_timestamp other s =
     (let rest = drop 19 s;
          digits = (if char_at 0 CHR ''.'' rest then takeWhile is_digit (drop 1 rest) else []);
          tz = (if char_at 0 CHR ''.'' rest then drop (1 + length digits) rest else rest);
          dated = char_at 4 CHR ''-'' s \<and> char_at 7 CHR ''-'' s \<and> char_at 10 CHR ''T'' s \<and> char_at 13 CHR '':'' s \<and>
            char_at 16 CHR '':'' s;
          zoned = length tz = 6 \<and> (char_at 0 CHR ''+'' tz \<or> char_at 0 CHR ''-'' tz) \<and> char_at 3 CHR '':'' tz \<and>
            (char_at 0 CHR ''.'' rest \<longrightarrow> digits \<noteq> [])
      in case those [num_at 0 4 s, num_at 5 2 s, num_at 8 2 s, num_at 11 2 s, num_at 14 2 s, num_at 17 2 s,
                     num_at 1 2 tz, num_at 4 2 tz] of
           Some parts \<Rightarrow> if dated \<and> zoned
             then epoch_of parts (list_ex (\<lambda>c. c \<noteq> CHR ''0'') (take 6 digits)) (if char_at 0 CHR ''-'' tz then -1 else 1)
             else other s
         | None \<Rightarrow> other s)"

definition iso_to_epoch :: "(string \<Rightarrow> int option) \<Rightarrow> string \<Rightarrow> int option" where
  "iso_to_epoch other raw =
     (let s = py_strip raw in if s = [] then None else iso_timestamp other (replace_all ''Z'' ''+00:00'' s))"

text \<open>Docker's fraction has nine digits, or none: it is padded and cut to six.\<close>

definition six_digits :: "string \<Rightarrow> string" where
  "six_digits s =
     (case partition_at CHR ''.'' s of
        (_, False, _) \<Rightarrow> s
      | (hd_s, True, tail) \<Rightarrow>
          let cut_at = (\<lambda>c. case partition_at c tail of (f, _, z) \<Rightarrow> (f, c # z));
              (frac, tz) = (if CHR ''+'' \<in> set tail then cut_at CHR ''+''
                else if CHR ''-'' \<in> set (drop 1 tail) then cut_at CHR ''-'' else (tail, ''+00:00''))
          in hd_s @ ''.'' @ take 6 (frac @ ''000000'') @ tz)"

definition parse_started_at :: "(string \<Rightarrow> int option) \<Rightarrow> string \<Rightarrow> int" where
  "parse_started_at other raw =
     (let s = py_strip raw in
      if s = [] then 0
      else case iso_timestamp other (six_digits (replace_all ''Z'' ''+00:00'' s)) of None \<Rightarrow> 0 | Some t \<Rightarrow> t)"

section \<open>The snapshot\<close>

datatype sweep_node =
    Comment_node (nd_id: string) (nd_created: "int option") (nd_author: string) (nd_body: string)
  | Pr_node (nd_id: string) (nd_created: "int option") (nd_author: string) (nd_merged: bool) (nd_number: int)
      (nd_ref: string) (nd_sha: string) (nd_title: string)
  | Review_node (nd_id: string) (nd_created: "int option") (nd_author: string) (nd_pr_author: string)
      (nd_verdict: string) (nd_number: int) (nd_ref: string) (nd_title: string)

record snapshot =
  sn_state :: string
  sn_body :: string
  sn_node_id :: string
  sn_title :: string
  sn_url :: string
  sn_labels :: "json list"
  sn_nodes :: "sweep_node list"
  sn_feature_merged :: bool
  sn_design_merged :: bool
  sn_feature_sha :: string
  sn_design_sha :: string

fun collect :: "('a \<Rightarrow> 'b list exc) \<Rightarrow> 'a list \<Rightarrow> 'b list exc" where
  "collect f [] = Inr []"
| "collect f (x # xs) = bind_exc (f x) (\<lambda>ys. bind_exc (collect f xs) (\<lambda>zs. Inr (ys @ zs)))"

text \<open>\<open>(d.get("user") or {}).get("login")\<close>; a truthy user that is not an object raises.\<close>

definition login_of :: "dict \<Rightarrow> string exc" where
  "login_of d = bind_exc (sub_obj d ''user'') (\<lambda>u. Inr (str_or_empty (dget u ''login'')))"

definition comment_node :: "(string \<Rightarrow> int option) \<Rightarrow> json \<Rightarrow> sweep_node list exc" where
  "comment_node other c =
     (case c of
        JObj d \<Rightarrow> if \<not> truthy (dget d ''node_id'') then Inr []
          else bind_exc (login_of d) (\<lambda>who.
            Inr [Comment_node (py_str (dget d ''node_id'')) (iso_to_epoch other (str_or_empty (dget d ''created_at'')))
                   who (str_or_empty (dget d ''body''))])
      | _ \<Rightarrow> Inr [])"

definition review_node ::
  "(string \<Rightarrow> int option) \<Rightarrow> dict \<Rightarrow> int \<Rightarrow> string \<Rightarrow> string \<Rightarrow> json \<Rightarrow> sweep_node list exc" where
  "review_node other pr n ref title review =
     (case review of
        JObj d \<Rightarrow> if \<not> truthy (dget d ''node_id'') \<or> \<not> truthy (dget d ''submitted_at'') then Inr []
          else bind_exc (login_of d) (\<lambda>who. bind_exc (login_of pr) (\<lambda>author.
            Inr [Review_node (py_str (dget d ''node_id'')) (iso_to_epoch other (str_or_empty (dget d ''submitted_at'')))
                   who author (str_or_empty (dget d ''state'')) n ref title]))
      | _ \<Rightarrow> Inr [])"

text \<open>\<open>_add_pr\<close>: the nodes of one pull request, whether it is merged, and its head.\<close>

definition add_pr ::
  "(string \<Rightarrow> int option) \<Rightarrow> http \<Rightarrow> string \<Rightarrow> int option \<Rightarrow> (sweep_node list \<times> bool \<times> string) exc" where
  "add_pr other get repo num =
     (case num of
        None \<Rightarrow> Inr ([], False, [])
      | Some n \<Rightarrow>
          if n = 0 then Inr ([], False, [])
          else (case get (api repo (''/pulls/'' @ dec n)) of
              Inr (JObj pr) \<Rightarrow>
                let merged = truthy (dget pr ''merged''); h = json_obj (dget pr ''head'');
                    ref = str_or_empty (dget h ''ref''); sha = str_or_empty (dget h ''sha'');
                    title = str_or_empty (dget pr ''title'') in
                if \<not> truthy (dget pr ''node_id'') then Inr ([], merged, sha)
                else bind_exc (login_of pr) (\<lambda>who.
                  bind_exc (case get (api repo (''/pulls/'' @ dec n @ ''/reviews?per_page=100'')) of
                        Inr (JArr revs) \<Rightarrow> collect (review_node other pr n ref title) revs
                      | _ \<Rightarrow> Inr []) (\<lambda>reviews.
                    Inr (Pr_node (py_str (dget pr ''node_id''))
                           (iso_to_epoch other (str_or_empty (dget pr ''created_at''))) who merged n ref sha title # reviews,
                         merged, sha)))
            | _ \<Rightarrow> Inr ([], False, [])))"

text \<open>Python's \<open>list(x)\<close>.\<close>

definition py_list :: "json \<Rightarrow> json list exc" where
  "py_list j =
     (case j of
        JArr xs \<Rightarrow> Inr xs
      | JStr s \<Rightarrow> Inr (map (\<lambda>c. JStr [c]) s)
      | JObj d \<Rightarrow> Inr (map (JStr \<circ> fst) d)
      | _ \<Rightarrow> Inl (''object is not iterable''))"

definition read_snapshot ::
  "(string \<Rightarrow> int option) \<Rightarrow> http \<Rightarrow> string \<Rightarrow> dict \<Rightarrow> json \<Rightarrow> int option \<Rightarrow> int option \<Rightarrow> snapshot exc" where
  "read_snapshot other get repo issue comments feature design =
     bind_exc (case comments of JArr cs \<Rightarrow> collect (comment_node other) cs | _ \<Rightarrow> Inr []) (\<lambda>talk.
     bind_exc (add_pr other get repo feature) (\<lambda>(fs, f_merged, f_sha).
     bind_exc (add_pr other get repo design) (\<lambda>(ds, d_merged, d_sha).
     bind_exc (py_list (py_or (dget issue ''labels'') (JArr []))) (\<lambda>labels.
       Inr \<lparr>sn_state = str_or_empty (dget issue ''state''), sn_body = json_str (dget issue ''body''),
            sn_node_id = str_or_empty (dget issue ''node_id''), sn_title = str_or_empty (dget issue ''title''),
            sn_url = str_or_empty (dget issue ''html_url''), sn_labels = labels, sn_nodes = talk @ fs @ ds,
            sn_feature_merged = f_merged, sn_design_merged = d_merged,
            sn_feature_sha = f_sha, sn_design_sha = d_sha\<rparr>))))"

definition fetch_session_snapshot ::
  "(string \<Rightarrow> int option) \<Rightarrow> http \<Rightarrow> string option \<Rightarrow> string \<Rightarrow> int \<Rightarrow> int option \<Rightarrow> int option \<Rightarrow> snapshot option exc" where
  "fetch_session_snapshot other get token repo n feature design =
     (if token = None \<or> token = Some [] \<or> repo = [] \<or> n = 0 then Inr None
      else (case (get (api repo (''/issues/'' @ dec n)),
                  get (api repo (''/issues/'' @ dec n @ ''/comments?per_page=100''))) of
          (Inr (JObj issue), Inr comments) \<Rightarrow>
            bind_exc (read_snapshot other get repo issue comments feature design) (\<lambda>s. Inr (Some s))
        | _ \<Rightarrow> Inr None))"

section \<open>Open pull requests of a branch\<close>

definition hex_upper :: "nat \<Rightarrow> char" where
  "hex_upper n = (if n < 10 then char_of (48 + n) else char_of (55 + n))"

definition percent :: "nat \<Rightarrow> string" where
  "percent n = [CHR ''%'', hex_upper (n div 16), hex_upper (n mod 16)]"

text \<open>\<open>urllib.parse.quote(s, safe=":")\<close>, UTF-8 bytes escaped.\<close>

definition quote_char :: "char \<Rightarrow> string" where
  "quote_char c =
     (if is_digit c \<or> is_upper_ascii c \<or> is_lower_ascii c \<or> c \<in> set ''_.-~:'' then [c]
      else if code c < 128 then percent (code c)
      else percent (192 + code c div 64) @ percent (128 + code c mod 64))"

definition url_quote :: "string \<Rightarrow> string" where
  "url_quote s = concat (map quote_char s)"

definition fetch_open_prs_by_head :: "http \<Rightarrow> string option \<Rightarrow> string \<Rightarrow> string \<Rightarrow> dict list" where
  "fetch_open_prs_by_head get token repo hd_ref =
     (if token = None \<or> token = Some [] \<or> repo = [] \<or> hd_ref = [] then []
      else (case get (api repo (''/pulls?state=open&head='' @ url_quote hd_ref @ ''&per_page=100'')) of
          Inr (JArr ps) \<Rightarrow> concat (map (\<lambda>p. case p of JObj d \<Rightarrow> [d] | _ \<Rightarrow> []) ps)
        | _ \<Rightarrow> []))"

section \<open>Facts\<close>

lemma docker_clock:
  "parse_started_at (\<lambda>_. None) ''2024-03-01T12:30:05.123456789Z'' = 1709296205"
  "parse_started_at (\<lambda>_. None) ''0001-01-01T00:00:00Z'' = -62135596800"
  "iso_to_epoch (\<lambda>_. None) ''2024-03-01T14:30:05+02:00'' = Some 1709296205"
  by code_simp+

text \<open>A token is what every sweep read needs.\<close>

lemma no_token_no_sweep:
  "token = None \<or> token = Some [] \<Longrightarrow> fetch_session_snapshot other get token repo n f d = Inr None"
  "token = None \<or> token = Some [] \<Longrightarrow> fetch_open_prs_by_head get token repo h = []"
  by (auto simp: fetch_session_snapshot_def fetch_open_prs_by_head_def)

lemma collect_ids:
  "collect f xs = Inr ys \<Longrightarrow> (\<And>x zs. f x = Inr zs \<Longrightarrow> \<forall>z \<in> set zs. P z) \<Longrightarrow> \<forall>y \<in> set ys. P y"
  by (induction xs arbitrary: ys) (fastforce simp: bind_exc_def split: sum.splits)+

end
