(* ===== verification/Rpc_Client.thy ===== *)
theory Rpc_Client
  imports Store Merge_Auth
begin

text \<open>
  The gateway's client of a runner (\<open>agentd/src/agentd/rpc_client.py\<close>): the frame loop of
  \<open>RunnerClient.call\<close>, connecting, and the probe both the supervisor and the reconciler use.  A
  connection is the list of what its reads yield; its end is the peer's close.
\<close>

datatype rx = Line json | Bad_line string | Timed_out

datatype reply = Reply json | Rpc_error int string | Transport string

text \<open>Python's \<open>==\<close> of a request id with a decoded value: True is 1.\<close>

definition same_id :: "int \<Rightarrow> json \<Rightarrow> bool" where
  "same_id n j = (case j of JNum m \<Rightarrow> m = n | JBool b \<Rightarrow> (if b then 1 else 0) = n | _ \<Rightarrow> False)"

definition dget_or :: "dict \<Rightarrow> string \<Rightarrow> json \<Rightarrow> json" where
  "dget_or d k v = (if has_key d k then dget d k else v)"

text \<open>The error object of a response; one that is not an object has no \<open>get\<close>.\<close>

definition error_reply :: "json \<Rightarrow> reply" where
  "error_reply j =
     (case j of
        JObj e \<Rightarrow> (case json_int (dget_or e ''code'' (JNum (-1))) of
            None \<Rightarrow> Transport ''invalid error code''
          | Some c \<Rightarrow> Rpc_error c (py_str (dget_or e ''message'' (JStr []))))
      | _ \<Rightarrow> Transport (no_attr j ''get''))"

text \<open>
  The loop of \<open>call\<close>: notifications go to the handler, replies of other calls are discarded.  The
  result: the notifications, the reply, and what is left to read.
\<close>

fun read_reply :: "int \<Rightarrow> rx list \<Rightarrow> (string \<times> dict) list \<times> reply \<times> rx list" where
  "read_reply n [] = ([], Transport ''RPC connection closed'', [])"
| "read_reply n (Timed_out # xs) = ([], Transport ''timed out'', xs)"
| "read_reply n (Bad_line e # xs) = ([], Transport e, xs)"
| "read_reply n (Line j # xs) =
     (case j of
        JObj d \<Rightarrow>
          if dget d ''id'' = JNull \<and> truthy (dget d ''method'')
          then (case read_reply n xs of (ns, r, rest) \<Rightarrow>
                  ((str_or_empty (dget d ''method''), json_obj (dget d ''params'')) # ns, r, rest))
          else if \<not> same_id n (dget d ''id'') \<and> dget d ''id'' \<noteq> JNull then read_reply n xs
          else if truthy (dget d ''error'') then ([], error_reply (dget d ''error''), xs)
          else ([], Reply (dget d ''result''), xs)
      | _ \<Rightarrow> ([], Transport (no_attr j ''get''), xs))"

text \<open>\<open>connect\<close> and one call: the attach frame is the first; None is a socket that did not open.\<close>

definition attach_and_call :: "int \<Rightarrow> rx list option \<Rightarrow> reply" where
  "attach_and_call n conn =
     (case conn of
        None \<Rightarrow> Transport ''connect''
      | Some xs \<Rightarrow> (case read_reply n xs of
            (_, Reply _, rest) \<Rightarrow> fst (snd (read_reply (n + 1) rest))
          | (_, r, _) \<Rightarrow> r))"

record probe_result =
  serviceable :: bool
  pr_reason :: string
  pr_payload :: "dict option"

definition unserviceable :: "string \<Rightarrow> probe_result" where
  "unserviceable why = \<lparr>serviceable = False, pr_reason = why, pr_payload = None\<rparr>"

definition judge_ping :: "reply \<Rightarrow> probe_result" where
  "judge_ping r =
     (case r of
        Rpc_error c _ \<Rightarrow> unserviceable (if c = -32001 then ''unauthorized'' else ''unreachable'')
      | Transport _ \<Rightarrow> unserviceable ''unreachable''
      | Reply (JObj d) \<Rightarrow>
          if dget d ''initialized'' = JBool True
          then \<lparr>serviceable = True, pr_reason = ''attached'', pr_payload = Some d\<rparr>
          else \<lparr>serviceable = False, pr_reason = ''uninitialised'', pr_payload = Some d\<rparr>
      | Reply _ \<Rightarrow> unserviceable ''uninitialised'')"

text \<open>\<open>probe_runner\<close>: the network answers for host, port and bearer; \<open>n\<close> is the next request id.\<close>

definition probe_runner ::
  "int \<Rightarrow> (string \<Rightarrow> int \<Rightarrow> string \<Rightarrow> rx list option) \<Rightarrow> runner_row \<Rightarrow> probe_result" where
  "probe_runner n net r =
     (case partition_at CHR '':'' (case r_endpoint r of None \<Rightarrow> [] | Some e \<Rightarrow> e) of
        (host, _, port_s) \<Rightarrow>
          let token = (case r_token r of None \<Rightarrow> [] | Some t \<Rightarrow> t) in
          if host = [] \<or> port_s = [] \<or> token = [] then unserviceable ''no_endpoint''
          else (case py_int port_s of
              None \<Rightarrow> unserviceable ''no_endpoint''
            | Some port \<Rightarrow> judge_ping (attach_and_call n (net host port token))))"

section \<open>Facts\<close>

text \<open>A line that belongs to another call.\<close>

definition foreign :: "int \<Rightarrow> rx \<Rightarrow> bool" where
  "foreign n x = (case x of Line (JObj d) \<Rightarrow> dget d ''id'' \<noteq> JNull \<and> \<not> same_id n (dget d ''id'') | _ \<Rightarrow> False)"

text \<open>C38: late replies of earlier calls never answer a later one: any number of them before the own reply
  leaves the call's outcome, its notifications and the rest of the stream as they are.\<close>

theorem late_replies_discarded: "\<forall>x \<in> set late. foreign n x \<Longrightarrow> read_reply n (late @ xs) = read_reply n xs"
  by (induction late) (auto simp: foreign_def split: rx.splits json.splits)

theorem late_replies_discarded_witness:
  "fst (snd (read_reply 4 [Line (JObj [(''id'', JNum 3), (''result'', JStr ''late'')]),
     Line (JObj [(''id'', JNum 4), (''result'', JStr ''mine'')])])) = Reply (JStr ''mine'')"
  using late_replies_discarded [of "[Line (JObj [(''id'', JNum 3), (''result'', JStr ''late'')])]" 4
    "[Line (JObj [(''id'', JNum 4), (''result'', JStr ''mine'')])]"]
  by (simp add: foreign_def same_id_def)

text \<open>What a call returns was sent by the peer as the result of that call (or of no call: id null).\<close>

lemma reply_from_peer:
  "fst (snd (read_reply n xs)) = Reply v \<Longrightarrow>
    \<exists>d. Line (JObj d) \<in> set xs \<and> (same_id n (dget d ''id'') \<or> dget d ''id'' = JNull) \<and>
      \<not> truthy (dget d ''error'') \<and> dget d ''result'' = v"
proof (induction n xs rule: read_reply.induct)
  case (4 n j xs)
  then show ?case by (cases j) (auto simp: error_reply_def split: if_splits prod.splits json.splits option.splits)
qed simp_all

text \<open>A runner is called serviceable only when its row names a host, a numeric port and a token, the
  attach with that token was answered without an error, and the ping's answer says initialized.\<close>

theorem serviceable_means_attached:
  assumes "serviceable (probe_runner n net r)"
  shows "\<exists>host port token xs v told rest d. r_endpoint r = Some (host @ '':'' @ port) \<and> r_token r = Some token \<and>
    token \<noteq> [] \<and> py_int port \<noteq> None \<and> net host (the (py_int port)) token = Some xs \<and>
    read_reply n xs = (told, Reply v, rest) \<and> fst (snd (read_reply (n + 1) rest)) = Reply (JObj d) \<and>
    dget d ''initialized'' = JBool True"
proof -
  obtain host sep port where p: "partition_at CHR '':'' (case r_endpoint r of None \<Rightarrow> [] | Some e \<Rightarrow> e) = (host, sep, port)"
    by (cases "partition_at CHR '':'' (case r_endpoint r of None \<Rightarrow> [] | Some e \<Rightarrow> e)")
  obtain token pn where t: "r_token r = Some token" "token \<noteq> []" "host \<noteq> []" "port \<noteq> []" "py_int port = Some pn"
    and s: "serviceable (judge_ping (attach_and_call n (net host pn token)))"
    using assms p by (auto simp: probe_runner_def unserviceable_def Let_def split: option.splits if_splits)
  obtain d where d: "attach_and_call n (net host pn token) = Reply (JObj d)" "dget d ''initialized'' = JBool True"
    using s by (auto simp: judge_ping_def unserviceable_def split: reply.splits json.splits if_splits)
  obtain xs told v rest where x: "net host pn token = Some xs" "read_reply n xs = (told, Reply v, rest)"
    "fst (snd (read_reply (n + 1) rest)) = Reply (JObj d)"
    using d(1) by (auto simp: attach_and_call_def split: option.splits prod.splits reply.splits)
  obtain e where e: "r_endpoint r = Some e" using p t(3) by (cases "r_endpoint r") auto
  have "e = host @ '':'' @ port" using p e t(4) by (cases sep) (auto dest: partition_at_Some partition_at_None)
  with e t d x show ?thesis by (metis option.sel option.distinct(1))
qed

definition pinged :: "string \<Rightarrow> int \<Rightarrow> string \<Rightarrow> rx list option" where
  "pinged host port bearer = Some [Line (JObj [(''id'', JNum 1), (''result'', JObj [])]),
     Line (JObj [(''id'', JNum 2), (''result'', JObj [(''initialized'', JBool True)])])]"

definition live_runner :: runner_row where
  "live_runner = \<lparr>r_project = ''o/r'', r_container = Some ''c1'', r_endpoint = Some ''127.0.0.1:40'',
     r_token = Some ''b'', r_tier = ''hot'', r_seen = None\<rparr>"

theorem serviceable_means_attached_witness: "r_token live_runner \<noteq> None"
proof -
  have "serviceable (probe_runner 1 pinged live_runner)" by code_simp
  from serviceable_means_attached [OF this] show ?thesis by auto
qed

end
