(* ===== verification/Sweep.thy ===== *)
theory Sweep
  imports Dispatcher Snapshot Rpc_Client
begin

text \<open>
  The reconciler's sweep of GitHub (\<open>_sweep_github\<close> of \<open>agentd/src/agentd/reconciler.py\<close>): what webhooks
  missed is read off the issue and its pull requests, written to the session, or put into the queue as
  a synthesised delivery.  \<open>sess\<close> is the dictionary the sweep works on: it is changed beside the store.
\<close>

section \<open>Wiring and report\<close>

record container =
  ct_id :: string
  ct_project :: string
  ct_started :: int
  ct_running :: bool

text \<open>
  What the reconciler is constructed with.  \<open>w_env\<close> is the session loop's world, whose escalation it
  uses when there is a loop; None is a raised exception; \<open>w_flying\<close> is \<open>_inflight_turn_ids\<close> at a tick.
\<close>

record watch =
  w_env :: env
  w_loop :: bool
  w_sweeps :: bool
  w_lists_prs :: bool
  w_iso :: "string \<Rightarrow> int option"
  w_max_age :: int
  w_flying :: "nat \<Rightarrow> string \<Rightarrow> bool"
  w_containers :: "nat \<Rightarrow> container list option"
  w_probe :: "nat \<Rightarrow> runner_row \<Rightarrow> probe_result option"

record entry =
  x_id :: string
  x_project :: string
  x_age :: int
  x_reason :: string

text \<open>\<open>removed\<close> lists the containers for which \<open>docker rm -f\<close> was called.\<close>

record report =
  orphans :: "entry list"
  spared :: "entry list"
  removed :: "entry list"
  cleared_rows :: "(string \<times> string) list"
  missing_runners :: "entry list"
  stale_runners :: "(string \<times> string) list"
  open_turns :: "(turn_row \<times> fsm_state option) list"
  closed_live :: "(session_row \<times> string \<times> nat) list"
  nodes_seen :: nat
  synthesized :: int
  capped :: int
  adopted :: int
  escalated :: int
  holds_lifted :: int
  retired :: int
  resumed :: int
  attached :: "(string \<times> string \<times> string \<times> dict) list"
  unattached :: "(string \<times> string \<times> string) list"
  probe_skipped :: "(string \<times> string) list"
  inventory_error :: bool

section \<open>Synthesised deliveries\<close>

text \<open>None: the insertion raised.\<close>

definition enqueue ::
  "watch \<Rightarrow> string \<Rightarrow> string \<Rightarrow> string \<Rightarrow> session_row \<Rightarrow> string \<Rightarrow> dict \<Rightarrow> bool option act" where
  "enqueue W did event act sess author payload =
     bnd (attempt (sql_try (w_env W) (\<lambda>t. insert_delivery t did event (Some act) (Some (s_repo sess)) (Some (s_issue sess))
            (Some author) (Some (JObj payload)) Queued)))
       (\<lambda>r. ret (case r of Inl _ \<Rightarrow> None | Inr b \<Rightarrow> Some b))"

definition who_from :: "string \<Rightarrow> string \<Rightarrow> dict" where
  "who_from author repo = [(''sender'', JObj [(''login'', JStr author)]), (''repository'', JObj [(''full_name'', JStr repo)])]"

definition login_obj :: "string \<Rightarrow> json" where
  "login_obj author = JObj [(''login'', JStr author)]"

definition pull_url :: "string \<Rightarrow> int \<Rightarrow> string" where
  "pull_url repo n = ''https://github.com/'' @ repo @ ''/pull/'' @ dec n"

text \<open>\<open>_synthesize_synchronize\<close>: author, node id, title and ref come from the PR's node in the snapshot.\<close>

definition pr_node_of :: "int \<Rightarrow> sweep_node list \<Rightarrow> string \<times> string \<times> string \<times> string" where
  "pr_node_of n ns =
     (case find (\<lambda>x. case x of Pr_node _ _ _ _ m _ _ _ \<Rightarrow> m = n | _ \<Rightarrow> False) ns of
        Some (Pr_node i _ who _ _ ref _ title) \<Rightarrow> (i, who, ref, title)
      | _ \<Rightarrow> ([], [], [], []))"

definition synchronize_payload :: "string \<Rightarrow> int \<Rightarrow> string \<Rightarrow> sweep_node list \<Rightarrow> dict" where
  "synchronize_payload repo n sha ns =
     (case pr_node_of n ns of (i, who, ref, title) \<Rightarrow>
        [(''action'', JStr ''synchronize''),
         (''pull_request'', JObj [(''node_id'', JStr i), (''number'', JNum n), (''merged'', JBool False),
            (''title'', JStr title), (''html_url'', JStr (pull_url repo n)), (''user'', login_obj who),
            (''head'', JObj [(''ref'', JStr ref), (''sha'', JStr sha)])])] @ who_from who repo)"

definition synthesize_synchronize :: "watch \<Rightarrow> session_row \<Rightarrow> snapshot \<Rightarrow> int \<Rightarrow> string \<Rightarrow> bool option act" where
  "synthesize_synchronize W sess snap n sha =
     enqueue W (''recon:sync:'' @ dec n @ '':'' @ sha) ''pull_request'' ''synchronize'' sess
       (fst (snd (pr_node_of n (sn_nodes snap)))) (synchronize_payload (s_repo sess) n sha (sn_nodes snap))"

text \<open>\<open>_synthesize_opened\<close> of a listed pull request with its number.\<close>

definition opened_payload :: "string \<Rightarrow> int \<Rightarrow> dict \<Rightarrow> dict" where
  "opened_payload repo n pr =
     (let h = json_obj (dget pr ''head''); who = str_or_empty (dget2 pr ''user'' ''login'') in
      [(''action'', JStr ''opened''),
       (''pull_request'', JObj [(''node_id'', JStr (str_or_empty (dget pr ''node_id''))), (''number'', JNum n),
          (''merged'', JBool False), (''title'', JStr (str_or_empty (dget pr ''title''))),
          (''html_url'', JStr (py_str (py_or (dget pr ''html_url'') (JStr (pull_url repo n))))),
          (''user'', login_obj who),
          (''head'', JObj [(''ref'', JStr (str_or_empty (dget h ''ref''))), (''sha'', JStr (str_or_empty (dget h ''sha'')))])])]
      @ who_from who repo)"

definition synthesize_opened :: "watch \<Rightarrow> session_row \<Rightarrow> int \<Rightarrow> dict \<Rightarrow> bool option act" where
  "synthesize_opened W sess n pr =
     enqueue W (''recon:open:'' @ dec n @ '':'' @ str_or_empty (dget2 pr ''head'' ''sha'')) ''pull_request'' ''opened'' sess
       (str_or_empty (dget2 pr ''user'' ''login'')) (opened_payload (s_repo sess) n pr)"

text \<open>\<open>_synthesize_node\<close>: event, action and payload of a node.\<close>

fun node_delivery :: "string \<Rightarrow> int \<Rightarrow> snapshot \<Rightarrow> sweep_node \<Rightarrow> string \<times> string \<times> dict" where
  "node_delivery repo n snap (Comment_node i _ who body) =
     (''issue_comment'', ''created'',
      [(''action'', JStr ''created''),
       (''issue'', JObj [(''number'', JNum n), (''node_id'', JStr (sn_node_id snap)), (''state'', JStr (sn_state snap)),
          (''title'', JStr (sn_title snap)), (''html_url'', JStr (sn_url snap)), (''labels'', JArr (sn_labels snap))]),
       (''comment'', JObj [(''node_id'', JStr i), (''body'', JStr body), (''user'', login_obj who)])] @ who_from who repo)"
| "node_delivery repo n snap (Pr_node i _ who merged m ref sha title) =
     (''pull_request'', ''opened'',
      [(''action'', JStr ''opened''),
       (''pull_request'', JObj [(''node_id'', JStr i), (''number'', JNum m), (''merged'', JBool merged),
          (''title'', JStr title), (''user'', login_obj who),
          (''head'', JObj [(''ref'', JStr ref), (''sha'', JStr sha)])])] @ who_from who repo)"
| "node_delivery repo n snap (Review_node i _ who author verdict m ref title) =
     (''pull_request_review'', ''submitted'',
      [(''action'', JStr ''submitted''),
       (''review'', JObj [(''node_id'', JStr i), (''state'', JStr verdict), (''user'', login_obj who)]),
       (''pull_request'', JObj [(''number'', JNum m), (''title'', JStr title), (''head'', JObj [(''ref'', JStr ref)]),
          (''user'', login_obj author)])] @ who_from who repo)"

definition synthesize_node :: "watch \<Rightarrow> session_row \<Rightarrow> snapshot \<Rightarrow> sweep_node \<Rightarrow> bool option act" where
  "synthesize_node W sess snap node =
     (case node_delivery (s_repo sess) (s_issue sess) snap node of (event, act, payload) \<Rightarrow>
        enqueue W (''recon:'' @ nd_id node) event act sess (nd_author node) payload)"

section \<open>One session\<close>

text \<open>
  The sweep of a session threads the dictionary, the report, and what is left of the synthesis cap;
  None there once the session raised.
\<close>

type_synonym pass = "session_row \<times> report \<times> int option"

definition step :: "(session_row \<Rightarrow> report \<Rightarrow> int \<Rightarrow> pass act) \<Rightarrow> pass \<Rightarrow> pass act" where
  "step f x = (case x of (s, rep, None) \<Rightarrow> ret x | (s, rep, Some rem) \<Rightarrow> f s rep rem)"

text \<open>A synthesis: counted, and taken from the cap, when it was inserted.\<close>

definition counted :: "session_row \<Rightarrow> report \<Rightarrow> int \<Rightarrow> bool option \<Rightarrow> pass act" where
  "counted s rep rem inserted =
     ret (case inserted of
        None \<Rightarrow> (s, rep, None)
      | Some True \<Rightarrow> (s, rep\<lparr>synthesized := synthesized rep + 1\<rparr>, Some (rem - 1))
      | Some False \<Rightarrow> (s, rep, Some rem))"

definition set_on :: "int option \<Rightarrow> bool" where
  "set_on x \<longleftrightarrow> x \<noteq> None \<and> x \<noteq> Some 0"

definition sweep_reply :: string where
  "sweep_reply = ''- **Reopen the issue** '' @ [em_dash] @ '' lifts this hold (ADR-18); the session stays paused until you reply.'' @
     [CHR 0x0A] @ ''- **Reply after reopen** '' @ [em_dash] @ '' resumes through '' @ [section_sign] @ ''8.5.'' @ [CHR 0x0A] @
     ''- **No reply** '' @ [em_dash] @ '' session stays live and paused; nothing is classified.''"

text \<open>The escalation the app wires in: none without a session loop.  The flag: it raised.\<close>

definition watch_escalate :: "watch \<Rightarrow> string \<Rightarrow> string \<Rightarrow> bool \<Rightarrow> bool act" where
  "watch_escalate W k why hold =
     bnd (attempt (only_if (w_loop W) (escalate (w_env W) k ''system'' why (Some sweep_reply) hold)))
       (\<lambda>r. ret (case r of Inl _ \<Rightarrow> True | Inr _ \<Rightarrow> False))"

definition on_open_issue :: "watch \<Rightarrow> bool \<Rightarrow> session_row \<Rightarrow> report \<Rightarrow> int \<Rightarrow> pass act" where
  "on_open_issue W dry s rep rem =
     (let k = session_key s; held = close_reconcile_held (s_state s) s;
          stripped = opt_nonempty (drop (length close_reconcile_prefix) (opt_str (s_paused s)));
          rep' = rep\<lparr>holds_lifted := holds_lifted rep + 1\<rparr> in
      bnd (if set_on (s_closed_esc s) \<and> \<not> dry
           then seq (set_fields (w_env W) k [F_closed_issue_escalated_at None]) (ret (s\<lparr>s_closed_esc := None\<rparr>))
           else ret s) (\<lambda>s.
        if \<not> held then ret (s, rep, Some rem)
        else if dry then ret (s, rep', Some rem)
        else seq (set_fields (w_env W) k [F_paused_reason stripped]) (ret (s\<lparr>s_paused := stripped\<rparr>, rep', Some rem))))"

definition on_closed_issue :: "watch \<Rightarrow> bool \<Rightarrow> session_row \<Rightarrow> report \<Rightarrow> int \<Rightarrow> pass act" where
  "on_closed_issue W dry s rep rem =
     (let k = session_key s; rep' = rep\<lparr>escalated := escalated rep + 1\<rparr> in
      if set_on (s_closed_esc s) then ret (s, rep, Some rem)
      else if dry then ret (s, rep', Some rem)
      else bnd (now_s (w_env W)) (\<lambda>noted.
        seq (set_fields (w_env W) k [F_closed_issue_escalated_at (Some noted)])
          (bnd (watch_escalate W k (''GitHub issue is closed; session is still '' @ state_name (s_state s) @
                  '' (reconcile sweep). Nothing classified; session left live.'') True) (\<lambda>raised.
            ret (s\<lparr>s_closed_esc := Some noted\<rparr>, rep', if raised then None else Some rem)))))"

definition on_issue_state :: "watch \<Rightarrow> bool \<Rightarrow> snapshot \<Rightarrow> session_row \<Rightarrow> report \<Rightarrow> int \<Rightarrow> pass act" where
  "on_issue_state W dry snap s rep rem =
     (if sn_state snap = ''open'' then on_open_issue W dry s rep rem
      else if sn_state snap = ''closed'' then on_closed_issue W dry s rep rem
      else ret (s, rep, Some rem))"

definition adopt_forward :: "watch \<Rightarrow> bool \<Rightarrow> event_kind \<Rightarrow> session_row \<Rightarrow> report \<Rightarrow> int \<Rightarrow> pass act" where
  "adopt_forward W dry kind s rep rem =
     (case transition (Some (s_state s)) kind of
        None \<Rightarrow> ret (s, rep, Some rem)
      | Some tr \<Rightarrow>
          let rep' = rep\<lparr>adopted := adopted rep + 1\<rparr> in
          if dry then ret (s, rep', Some rem)
          else seq (set_fields (w_env W) (session_key s) [F_state (new_state tr)])
                 (ret (s\<lparr>s_state := new_state tr\<rparr>, rep', Some rem)))"

text \<open>The two halves of the loop, named by the head column they watch.\<close>

fun tracked_pr :: "watermark \<Rightarrow> session_row \<Rightarrow> int option" where
  "tracked_pr Design_head s = s_design_pr s"
| "tracked_pr Feature_head s = s_feature_pr s"

fun merged_of :: "watermark \<Rightarrow> snapshot \<Rightarrow> bool" where
  "merged_of Design_head n = sn_design_merged n"
| "merged_of Feature_head n = sn_feature_merged n"

fun sha_of :: "watermark \<Rightarrow> snapshot \<Rightarrow> string" where
  "sha_of Design_head n = sn_design_sha n"
| "sha_of Feature_head n = sn_feature_sha n"

fun rework_of :: "watermark \<Rightarrow> fsm_state" where
  "rework_of Design_head = DESIGN_REWORK"
| "rework_of Feature_head = CODE_REWORK"

text \<open>One half of \<open>_synth_head_drift\<close>.\<close>

definition head_drift :: "watch \<Rightarrow> bool \<Rightarrow> snapshot \<Rightarrow> watermark \<Rightarrow> session_row \<Rightarrow> report \<Rightarrow> int \<Rightarrow> pass act" where
  "head_drift W dry snap wm s rep rem =
     (let live = sha_of wm snap; stored = opt_str (wm_value wm s) in
      if merged_of wm snap \<or> \<not> set_on (tracked_pr wm s) \<or> live = [] \<or> stored = live then ret (s, rep, Some rem)
      else if stored = [] \<and> s_state s \<noteq> rework_of wm
      then (if dry then ret (s, rep, Some rem)
            else seq (set_fields (w_env W) (session_key s) [wm_field wm (Some live)])
                   (ret (wm_set wm (Some live) s, rep, Some rem)))
      else if rem \<le> 0 then ret (s, rep\<lparr>capped := capped rep + 1\<rparr>, Some rem)
      else if dry then counted s rep rem (Some True)
      else bnd (synthesize_synchronize W s snap (the (tracked_pr wm s)) live) (counted s rep rem))"

text \<open>The PRs of a role's branch that belong to the session; None where \<open>int\<close> of a number raises.\<close>

fun role_of :: "watermark \<Rightarrow> string" where
  "role_of Design_head = ''architect''"
| "role_of Feature_head = ''developer''"

fun opened_kind :: "watermark \<Rightarrow> event_kind" where
  "opened_kind Design_head = K_design_pr_opened"
| "opened_kind Feature_head = K_feature_pr_opened"

fun owns_ref :: "watermark \<Rightarrow> string \<Rightarrow> string \<Rightarrow> bool" where
  "owns_ref Design_head h repo = is_design_head_ref (Some h) repo"
| "owns_ref Feature_head h repo = is_feature_head_ref (Some h) repo"

definition matches_branch :: "watermark \<Rightarrow> string \<Rightarrow> int \<Rightarrow> dict \<Rightarrow> bool" where
  "matches_branch wm repo n pr =
     (let h = str_or_empty (dget2 pr ''head'' ''ref'') in
      \<not> truthy (dget pr ''merged'') \<and> py_str (py_or (dget pr ''state'') (JStr ''open'')) = ''open'' \<and>
      owns_ref wm h repo \<and> (case parse_role_branch (Some h) repo of None \<Rightarrow> False | Some (m, _) \<Rightarrow> m = n))"

definition pr_number_of :: "dict \<Rightarrow> int option" where
  "pr_number_of pr = json_int (py_or (dget pr ''number'') (JNum 0))"

definition lowest_pr :: "dict list \<Rightarrow> (int \<times> dict) option" where
  "lowest_pr prs =
     (case those (map pr_number_of prs) of
        None \<Rightarrow> None
      | Some ns \<Rightarrow> (case sort_key fst (zip ns prs) of [] \<Rightarrow> None | x # _ \<Rightarrow> Some x))"

text \<open>One half of \<open>_synth_untracked_opened\<close>.\<close>

definition untracked_opened :: "watch \<Rightarrow> bool \<Rightarrow> watermark \<Rightarrow> session_row \<Rightarrow> report \<Rightarrow> int \<Rightarrow> pass act" where
  "untracked_opened W dry wm s rep rem =
     (let repo = s_repo s; n = s_issue s in
      if \<not> w_lists_prs W \<or> repo = [] \<or> n = 0 \<or> set_on (tracked_pr wm s) \<or>
         transition (Some (s_state s)) (opened_kind wm) = None then ret (s, rep, Some rem)
      else if rem \<le> 0 then ret (s, rep\<lparr>capped := capped rep + 1\<rparr>, Some rem)
      else bnd (ask (\<lambda>i. fetch_open_prs_by_head (e_get (w_env W) i) (e_gateway (w_env W)) repo
             (fst (partition_at CHR ''/'' repo) @ '':'' @ role_branch_name repo n (role_of wm)))) (\<lambda>listed.
        let own = filter (matches_branch wm repo n) listed in
        if own = [] then ret (s, rep, Some rem)
        else (case lowest_pr own of
            None \<Rightarrow> ret (s, rep, None)
          | Some (m, pr) \<Rightarrow>
              if dry then counted s rep rem (Some True)
              else bnd (synthesize_opened W s m pr) (counted s rep rem))))"

text \<open>The nodes no delivery is known for.\<close>

definition sweep_node :: "watch \<Rightarrow> bool \<Rightarrow> snapshot \<Rightarrow> sweep_node \<Rightarrow> session_row \<Rightarrow> report \<Rightarrow> int \<Rightarrow> pass act" where
  "sweep_node W dry snap node s rep rem =
     bnd (from_db (has_delivery_node (nd_id node))) (\<lambda>known.
       if nd_id node = [] \<or> (case nd_created node of None \<Rightarrow> False | Some t \<Rightarrow> t < s_created s) \<or> known
       then ret (s, rep, Some rem)
       else if rem \<le> 0 then ret (s, rep\<lparr>capped := capped rep + 1\<rparr>, Some rem)
       else
         (let rep' = rep\<lparr>synthesized := synthesized rep + 1\<rparr> in
          if dry then ret (s, rep', Some (rem - 1))
          else bnd (synthesize_node W s snap node) (\<lambda>r.
            ret (s, rep', case r of None \<Rightarrow> None | Some _ \<Rightarrow> Some (rem - 1)))))"

fun sweep_nodes :: "watch \<Rightarrow> bool \<Rightarrow> snapshot \<Rightarrow> sweep_node list \<Rightarrow> pass \<Rightarrow> pass act" where
  "sweep_nodes W dry snap [] x = ret x"
| "sweep_nodes W dry snap (n # ns) x = bnd (step (sweep_node W dry snap n) x) (sweep_nodes W dry snap ns)"

fun steps :: "(session_row \<Rightarrow> report \<Rightarrow> int \<Rightarrow> pass act) list \<Rightarrow> pass \<Rightarrow> pass act" where
  "steps [] x = ret x"
| "steps (f # fs) x = bnd (step f x) (steps fs)"

text \<open>\<open>_apply_snapshot\<close>.  The body's drift is only logged.\<close>

definition seen_nodes :: "snapshot \<Rightarrow> session_row \<Rightarrow> report \<Rightarrow> int \<Rightarrow> pass act" where
  "seen_nodes snap s rep rem = ret (s, rep\<lparr>nodes_seen := nodes_seen rep + length (sn_nodes snap)\<rparr>, Some rem)"

definition if_merged :: "bool \<Rightarrow> (session_row \<Rightarrow> report \<Rightarrow> int \<Rightarrow> pass act) \<Rightarrow> session_row \<Rightarrow> report \<Rightarrow> int \<Rightarrow> pass act" where
  "if_merged b f s rep rem = (if b then f s rep rem else ret (s, rep, Some rem))"

definition apply_snapshot :: "watch \<Rightarrow> bool \<Rightarrow> snapshot \<Rightarrow> session_row \<Rightarrow> report \<Rightarrow> int \<Rightarrow> pass act" where
  "apply_snapshot W dry snap s rep rem =
     bnd (steps
        [on_issue_state W dry snap,
         if_merged (sn_feature_merged snap) (adopt_forward W dry K_feature_merged),
         if_merged (sn_design_merged snap) (adopt_forward W dry K_design_merged),
         head_drift W dry snap Design_head, head_drift W dry snap Feature_head,
         untracked_opened W dry Design_head, untracked_opened W dry Feature_head,
         seen_nodes snap] (s, rep, Some rem))
       (sweep_nodes W dry snap (sn_nodes snap))"

section \<open>All sessions\<close>

text \<open>A session that raises is logged; what it took from the cap before is not taken.\<close>

definition sweep_session :: "watch \<Rightarrow> bool \<Rightarrow> session_row \<Rightarrow> report \<Rightarrow> int \<Rightarrow> (report \<times> int) act" where
  "sweep_session W dry s rep rem =
     bnd (ask (\<lambda>i. fetch_session_snapshot (w_iso W) (e_get (w_env W) i) (e_gateway (w_env W)) (s_repo s) (s_issue s)
            (s_feature_pr s) (s_design_pr s))) (\<lambda>r.
       case r of
         Inl _ \<Rightarrow> ret (rep, rem)
       | Inr None \<Rightarrow> ret (rep, rem)
       | Inr (Some snap) \<Rightarrow> bnd (apply_snapshot W dry snap s rep rem) (\<lambda>(_, rep', left).
           ret (rep', case left of None \<Rightarrow> rem | Some n \<Rightarrow> n)))"

fun sweep_sessions :: "watch \<Rightarrow> bool \<Rightarrow> session_row list \<Rightarrow> report \<times> int \<Rightarrow> (report \<times> int) act" where
  "sweep_sessions W dry [] x = ret x"
| "sweep_sessions W dry (s # ss) x = bnd (sweep_session W dry s (fst x) (snd x)) (sweep_sessions W dry ss)"

definition synthesis_cap :: int where
  "synthesis_cap = 50"

definition sweep_github :: "watch \<Rightarrow> bool \<Rightarrow> report \<Rightarrow> report act" where
  "sweep_github W dry rep =
     (if \<not> w_sweeps W then ret rep
      else bnd (from_db list_nonterminal_sessions) (\<lambda>ss.
        bnd (sweep_sessions W dry ss (rep, synthesis_cap)) (\<lambda>x. ret (fst x))))"

end
