(* ===== verification/Sweep_Facts.thy ===== *)
theory Sweep_Facts
  imports Sweep
begin

text \<open>
  What the sweep of GitHub keeps and bounds: a dry run, well-formedness, the ends of sessions, the
  synthesis cap, and two behaviours that break the sweep's own contract.
\<close>

section \<open>Frames\<close>

text \<open>The columns the sweep writes: never a terminal state.\<close>

definition sweep_field :: "session_field \<Rightarrow> bool" where
  "sweep_field f \<longleftrightarrow> (case f of F_state v \<Rightarrow> \<not> is_terminal v | F_paused_reason _ \<Rightarrow> True
     | F_closed_issue_escalated_at _ \<Rightarrow> True | F_design_pr_head _ \<Rightarrow> True | F_feature_pr_head _ \<Rightarrow> True | _ \<Rightarrow> False)"

lemma adopted_state: "transition (Some v) K_feature_merged = Some tr \<Longrightarrow> new_state tr = AWAITING_VERIFICATION \<and> v = MERGING"
  "transition (Some v) K_design_merged = Some tr \<Longrightarrow> new_state tr = IMPLEMENTING \<and> v = DESIGN_APPROVED"
  by (auto simp: transition_def transition_table_def transition_rows_def go_def split: if_splits)

lemma wm_sweep_field: "sweep_field (wm_field wm v)"
  by (cases wm) (simp_all add: sweep_field_def)

lemma adopted_sweep_field:
  "k \<in> {K_feature_merged, K_design_merged} \<Longrightarrow> transition (Some v) k = Some tr \<Longrightarrow> sweep_field (F_state (new_state tr))"
  using adopted_state [of v tr] by (auto simp: sweep_field_def terminal_states_def)

context loop_frame
begin

lemma keeps_step: "(\<And>s rep rem. keeps R (f s rep rem)) \<Longrightarrow> keeps R (step f x)"
  by (cases x rule: prod_cases3) (auto simp: step_def keeps_ret split: option.split)

lemma keeps_steps: "(\<And>f s rep rem. f \<in> set fs \<Longrightarrow> keeps R (f s rep rem)) \<Longrightarrow> keeps R (steps fs x)"
  by (induction fs arbitrary: x) (auto intro!: keeps_rules keeps_step)

lemma sweep_by:
  assumes field: "\<And>k f. \<not> dry \<Longrightarrow> sweep_field f \<Longrightarrow> keeps R (set_fields (w_env W) k [f])"
    and esc: "\<And>k why h. \<not> dry \<Longrightarrow> keeps R (watch_escalate W k why h)"
    and enq: "\<And>did ev act s who p. \<not> dry \<Longrightarrow> keeps R (enqueue W did ev act s who p)"
  shows "keeps R (sweep_github W dry rep)"
proof -
  have opened: "keeps R (on_open_issue W dry s rep rem)" for s rep rem
    unfolding on_open_issue_def Let_def
    by (cases dry) (simp_all add: keeps_rules field sweep_field_def)
  have closed: "keeps R (on_closed_issue W dry s rep rem)" for s rep rem
    unfolding on_closed_issue_def Let_def
    by (cases dry) (simp_all add: keeps_rules field esc sweep_field_def)
  have adopt: "keeps R (adopt_forward W dry k s rep rem)" if "k \<in> {K_feature_merged, K_design_merged}" for k s rep rem
    using adopted_sweep_field [OF that, of "s_state s"]
    by (cases dry) (auto simp: adopt_forward_def Let_def intro!: keeps_rules field split: option.split)
  have counted: "keeps R (counted s rep rem b)" for s rep rem b
    by (simp add: counted_def keeps_ret)
  have drift: "keeps R (head_drift W dry snap wm s rep rem)" for snap wm s rep rem
    unfolding head_drift_def Let_def synthesize_synchronize_def
    by (cases dry) (simp_all add: keeps_rules field counted enq wm_sweep_field)
  have untracked: "keeps R (untracked_opened W dry wm s rep rem)" for wm s rep rem
    unfolding untracked_opened_def Let_def synthesize_opened_def
    by (cases dry) (simp_all add: keeps_rules counted enq)
  have node: "keeps R (sweep_node W dry snap n s rep rem)" for snap n s rep rem
    unfolding sweep_node_def synthesize_node_def Let_def
    by (cases dry) (simp_all add: keeps_rules enq)
  have nodes: "keeps R (sweep_nodes W dry snap ns x)" for snap ns x
    by (induction ns arbitrary: x) (auto intro!: keeps_rules keeps_step node)
  have apply1: "keeps R (apply_snapshot W dry snap s rep rem)" for snap s rep rem
    unfolding apply_snapshot_def
    by (intro keeps_bnd keeps_steps nodes)
       (auto simp: on_issue_state_def if_merged_def seen_nodes_def intro!: keeps_rules opened closed adopt drift untracked)
  have session: "keeps R (sweep_session W dry s rep rem)" for s rep rem
    unfolding sweep_session_def by (intro keeps_rules apply1)
  have all: "keeps R (sweep_sessions W dry ss x)" for ss x
    by (induction ss arbitrary: x) (auto intro!: keeps_rules session)
  show ?thesis
    unfolding sweep_github_def by (intro keeps_rules all)
qed

end


section \<open>A dry run\<close>

definition untouched :: "loop \<Rightarrow> loop \<Rightarrow> bool" where
  "untouched l l' \<longleftrightarrow> db l' = db l \<and> sent l' = sent l"

interpretation untouched: loop_frame untouched
  by unfold_locales (simp_all add: untouched_def)

text \<open>A dry sweep reads GitHub and reports, but leaves every table as it is and sends nothing.\<close>

theorem dry_sweep_is_pure:
  "db (fst (sweep_github W True rep l)) = db l \<and> sent (fst (sweep_github W True rep l)) = sent l"
  using untouched.sweep_by [of True W rep] by (simp add: keeps_def untouched_def)

section \<open>What the sweep keeps\<close>

lemma enqueue_state:
  "fst (enqueue W did ev act s who p l) = l\<lparr>tick := Suc (tick l), db := fst (insert_delivery \<lfloor>e_now (w_env W) (tick l)\<rfloor>
     did ev (Some act) (Some (s_repo s)) (Some (s_issue s)) (Some who) (Some (JObj p)) Queued (db l))\<rparr>"
  by (auto simp: enqueue_def attempt_def sql_try_def now_s_def ask_def bnd_def ret_def split: prod.split sum.split)

lemma enqueue_keeps:
  assumes "\<And>l t i. R l (l\<lparr>tick := i, db := fst (insert_delivery t did ev (Some act) (Some (s_repo s))
     (Some (s_issue s)) (Some who) (Some (JObj p)) Queued (db l))\<rparr>)"
  shows "keeps R (enqueue W did ev act s who p)"
  using assms by (simp add: keeps_def enqueue_state)

lemma watch_escalate_keeps: "loop_frame R \<Longrightarrow> keeps R (escalate (w_env W) k ''system'' why (Some sweep_reply) h) \<Longrightarrow>
    keeps R (watch_escalate W k why h)"
  unfolding watch_escalate_def
  by (intro loop_frame.keeps_bnd loop_frame.keeps_attempt loop_frame.keeps_only_if loop_frame.keeps_ret)

theorem sweep_keeps_wf:
  assumes "wf_store (db l)"
  shows "wf_store (db (fst (sweep_github W dry rep l)))"
proof -
  have "keeps wf_kept (sweep_github W dry rep)"
    by (intro wf.sweep_by wf.keeps_fields watch_escalate_keeps wf.escalate_kept wf.loop_frame_axioms enqueue_keeps)
       (simp add: wf_kept_def wf_insert_delivery)
  with assms show ?thesis by (simp add: keeps_def wf_kept_def)
qed

text \<open>No session enters a terminal state.\<close>

definition no_end :: "loop \<Rightarrow> loop \<Rightarrow> bool" where
  "no_end l l' \<longleftrightarrow> (\<forall>k s'. get_session k (db l') = Some s' \<and> is_terminal (s_state s') \<longrightarrow>
     (\<exists>s. get_session k (db l) = Some s \<and> s_state s = s_state s'))"

interpretation no_end: loop_frame no_end
proof unfold_locales
  fix l l1 l2 assume a: "no_end l l1" "no_end l1 l2"
  show "no_end l l2"
    unfolding no_end_def
  proof (intro allI impI)
    fix k s' assume "get_session k (db l2) = Some s' \<and> is_terminal (s_state s')"
    with a(2) obtain s1 where "get_session k (db l1) = Some s1" "s_state s1 = s_state s'" "is_terminal (s_state s1)"
      unfolding no_end_def by metis
    with a(1) show "\<exists>s. get_session k (db l) = Some s \<and> s_state s = s_state s'" unfolding no_end_def by metis
  qed
qed (auto simp: no_end_def)

lemma no_end_phase:
  assumes "\<And>k v r. phase k (db l') = Some (v, r) \<Longrightarrow> is_terminal v \<Longrightarrow> \<exists>r'. phase k (db l) = Some (v, r')"
  shows "no_end l l'"
  unfolding no_end_def
proof (intro allI impI)
  fix k s' assume s: "get_session k (db l') = Some s' \<and> is_terminal (s_state s')"
  then obtain r' where "phase k (db l) = Some (s_state s', r')"
    using assms [of k "s_state s'" "s_resume s'"] by (auto simp: phase_def)
  then show "\<exists>s. get_session k (db l) = Some s \<and> s_state s = s_state s'" by (auto simp: phase_def)
qed

lemma sweep_field_state: "sweep_field f \<Longrightarrow> is_terminal (s_state (apply_fields t [f] s)) \<Longrightarrow> s_state (apply_fields t [f] s) = s_state s"
  by (cases f) (auto simp: sweep_field_def apply_fields_def is_updated_at_def)

lemma no_end_fields: "sweep_field f \<Longrightarrow> keeps no_end (set_fields E k [f])"
  unfolding set_fields_def sql_def
proof (intro no_end.keeps_bnd no_end.keeps_now keeps_modify_db no_end_phase)
  fix x l k' v r
  assume f: "sweep_field f" and p: "phase k' (db (l\<lparr>db := update_session_fields x k [f] (db l)\<rparr>)) = Some (v, r)" "is_terminal v"
  show "\<exists>r'. phase k' (db l) = Some (v, r')"
  proof (cases "k' = k")
    case True
    with p(1) obtain s where s: "get_session k (db l) = Some s" "v = s_state (apply_fields x [f] s)" by (auto simp: phase_fields)
    with sweep_field_state [OF f, of x s] p(2) True show ?thesis by (auto simp: phase_def)
  qed (use p in \<open>simp add: phase_fields\<close>)
qed

lemma no_end_escalate: "keeps no_end (escalate E k role why rd h)"
  unfolding keeps_def
proof (intro allI no_end_phase)
  fix l k' v r
  assume p: "phase k' (db (fst (escalate E k role why rd h l))) = Some (v, r)" and v: "is_terminal v"
  show "\<exists>r'. phase k' (db l) = Some (v, r')"
    using p [unfolded phase_escalate] v
    by (cases "get_session k' (db l)") (auto simp: phase_def [of _ "db l"] terminal_states_def split: if_splits)
qed

text \<open>C34: the sweep never ends a session: whatever GitHub says, a closed issue included, no session enters
  TEARDOWN or CLOSED; a close is the owner's.\<close>

theorem sweep_never_ends:
  assumes "get_session k (db (fst (sweep_github W dry rep l))) = Some s'" "s_state s' \<in> {TEARDOWN, CLOSED}"
  shows "\<exists>s. get_session k (db l) = Some s \<and> s_state s = s_state s'"
proof -
  have "keeps no_end (sweep_github W dry rep)"
    by (intro no_end.sweep_by no_end_fields watch_escalate_keeps no_end_escalate no_end.loop_frame_axioms enqueue_keeps)
       (auto simp: no_end_def get_session_def)
  with assms show ?thesis by (auto simp: keeps_def no_end_def terminal_states_def)
qed


section \<open>The cap\<close>

text \<open>\<open>runs Q m V\<close>: from a queue in \<open>Q\<close> the act \<open>m\<close> completes, with a value and a queue in \<open>V\<close>.\<close>

definition runs :: "(delivery list \<Rightarrow> bool) \<Rightarrow> 'a act \<Rightarrow> ('a \<Rightarrow> delivery list \<Rightarrow> bool) \<Rightarrow> bool" where
  "runs Q m V \<longleftrightarrow> (\<forall>l. Q (deliveries (db l)) \<longrightarrow> (\<exists>l' x. m l = (l', Inr x) \<and> V x (deliveries (db l'))))"

lemma runs_bnd:
  assumes "runs Q m U" "\<And>x. runs (U x) (f x) V"
  shows "runs Q (bnd m f) V"
  unfolding runs_def
proof (intro allI impI)
  fix l :: loop assume "Q (deliveries (db l))"
  then obtain l' x where m: "m l = (l', Inr x)" "U x (deliveries (db l'))" using assms(1) unfolding runs_def by blast
  obtain l'' y where "f x l' = (l'', Inr y)" "V y (deliveries (db l''))" using assms(2) m(2) unfolding runs_def by blast
  with m show "\<exists>l' x. bnd m f l = (l', Inr x) \<and> V x (deliveries (db l'))" by (auto simp: bnd_def)
qed

lemma runs_ret: "(\<And>ds. Q ds \<Longrightarrow> V x ds) \<Longrightarrow> runs Q (ret x) V"
  by (simp add: runs_def ret_def)

lemma runs_if: "(b \<Longrightarrow> runs Q m V) \<Longrightarrow> (\<not> b \<Longrightarrow> runs Q n V) \<Longrightarrow> runs Q (if b then m else n) V"
  by simp

text \<open>Acts that leave the queue alone.\<close>

definition calm :: "'a act \<Rightarrow> ('a \<Rightarrow> bool) \<Rightarrow> bool" where
  "calm m U \<longleftrightarrow> (\<forall>l :: loop. \<exists>l' x. m l = (l', Inr x) \<and> deliveries (db l') = deliveries (db l) \<and> U x)"

lemma runs_calm: "calm m U \<Longrightarrow> (\<And>x. U x \<Longrightarrow> runs Q (f x) V) \<Longrightarrow> runs Q (bnd m f) V"
proof (rule runs_bnd [where U = "\<lambda>x ds. Q ds \<and> U x"])
  assume "calm m U"
  then show "runs Q m (\<lambda>x ds. Q ds \<and> U x)" unfolding calm_def runs_def by metis
qed (auto simp: runs_def)

lemma calm_ret: "U x \<Longrightarrow> calm (ret x) U"
  by (simp add: calm_def ret_def)

lemma calm_seq:
  assumes "calm m U" "calm n V"
  shows "calm (seq m n) V"
  unfolding calm_def
proof
  fix l :: loop
  obtain l1 x where m: "m l = (l1, Inr x)" "deliveries (db l1) = deliveries (db l)" using assms(1) unfolding calm_def by blast
  obtain l2 y where "n l1 = (l2, Inr y)" "deliveries (db l2) = deliveries (db l1)" "V y" using assms(2) unfolding calm_def by blast
  with m show "\<exists>l' x. seq m n l = (l', Inr x) \<and> deliveries (db l') = deliveries (db l) \<and> V x" by (simp add: bnd_def)
qed

lemma calm_reads:
  "calm (ask f) (\<lambda>x. \<exists>i. x = f i)" "calm (now_s E) (\<lambda>_. True)" "calm (from_db g) (\<lambda>_. True)"
  by (auto simp: calm_def ask_def now_s_def from_db_def reads_def)

lemma calm_fields: "calm (set_fields E k fs) (\<lambda>_. True)"
  by (simp add: calm_def set_fields_def sql_def now_s_def ask_def on_db_def modify_def bnd_def update_session_fields_def
      upd_session_def)

lemma escalate_queue: "deliveries (db (fst (escalate E k role why rd h l))) = deliveries (db l)"
proof (cases "s_state (session_or_blank k (db l)) = CLOSED")
  case True
  then show ?thesis using db_escalate [of k l E role why rd h] by simp
next
  case False
  then obtain t t' why' cid stored where "db (fst (escalate E k role why rd h l)) =
     update_session_fields t k [F_state PAUSED_HUMAN, F_paused_reason stored,
       F_resume_state (Some (paused_from (session_or_blank k (db l))))]
     (fst (open_escalation t' k (Some role) why' cid (db l)))"
    using db_escalate [of k l E role why rd h] by (simp only: if_False) blast
  then show ?thesis by (simp add: update_session_fields_def upd_session_def open_escalation_def Let_def)
qed

lemma calm_escalate: "calm (watch_escalate W k why h) (\<lambda>raised. \<not> raised)"
  unfolding calm_def
proof
  fix l :: loop
  show "\<exists>l' x. watch_escalate W k why h l = (l', Inr x) \<and> deliveries (db l') = deliveries (db l) \<and> \<not> x"
    using escalate_value [of "w_env W" k "''system''" why "Some sweep_reply" h l]
      escalate_queue [of "w_env W" k "''system''" why "Some sweep_reply" h l]
    by (auto simp: watch_escalate_def attempt_def only_if_def bnd_def ret_def)
qed

text \<open>A synthesis adds one queued row under its own id, or none.\<close>

definition sweep_row :: "delivery \<Rightarrow> bool" where
  "sweep_row d \<longleftrightarrow> d_status d = Queued \<and> starts_with (delivery_id d) ''recon:''"

definition grown :: "delivery list \<Rightarrow> bool option \<Rightarrow> delivery list \<Rightarrow> bool" where
  "grown ds r ds' \<longleftrightarrow> (case r of None \<Rightarrow> False | Some True \<Rightarrow> \<exists>d. ds' = ds @ [d] \<and> sweep_row d | Some False \<Rightarrow> ds' = ds)"

lemma enqueue_grows:
  assumes "node_ids_from_payload p \<noteq> None" "starts_with did ''recon:''"
  shows "runs (\<lambda>ds. ds = ds0) (enqueue W did ev act s who p) (grown ds0)"
  using assms
  by (auto simp: runs_def enqueue_def attempt_def sql_try_def now_s_def ask_def bnd_def ret_def insert_delivery_def Let_def
      grown_def insert_ignore_def index_nodes_def sweep_row_def)

lemma payload_nodes:
  "node_ids_from_payload (synchronize_payload repo n sha ns) \<noteq> None"
  "node_ids_from_payload (opened_payload repo n pr) \<noteq> None"
  "node_ids_from_payload (snd (snd (node_delivery repo n snap node))) \<noteq> None"
proof -
  show "node_ids_from_payload (synchronize_payload repo n sha ns) \<noteq> None"
    by (cases "pr_node_of n ns") (simp add: node_ids_from_payload_def synchronize_payload_def who_from_def py_or_def)
  show "node_ids_from_payload (opened_payload repo n pr) \<noteq> None"
    by (simp add: node_ids_from_payload_def opened_payload_def who_from_def py_or_def Let_def)
  show "node_ids_from_payload (snd (snd (node_delivery repo n snap node))) \<noteq> None"
    by (cases node) (simp_all add: node_ids_from_payload_def who_from_def py_or_def login_obj_def)
qed

lemma synthesis_grows:
  "runs (\<lambda>ds. ds = ds0) (synthesize_synchronize W s snap n sha) (grown ds0)"
  "runs (\<lambda>ds. ds = ds0) (synthesize_opened W s n pr) (grown ds0)"
  "runs (\<lambda>ds. ds = ds0) (synthesize_node W s snap node) (grown ds0)"
proof -
  show "runs (\<lambda>ds. ds = ds0) (synthesize_synchronize W s snap n sha) (grown ds0)"
    unfolding synthesize_synchronize_def by (rule enqueue_grows [OF payload_nodes(1)]) simp
  show "runs (\<lambda>ds. ds = ds0) (synthesize_opened W s n pr) (grown ds0)"
    unfolding synthesize_opened_def by (rule enqueue_grows [OF payload_nodes(2)]) simp
  obtain ev act p where n: "node_delivery (s_repo s) (s_issue s) snap node = (ev, act, p)" by (rule prod_cases3)
  show "runs (\<lambda>ds. ds = ds0) (synthesize_node W s snap node) (grown ds0)"
    using payload_nodes(3) [of "s_repo s" "s_issue s" snap node]
    unfolding synthesize_node_def n prod.case snd_conv by (rule enqueue_grows) simp
qed

text \<open>What is counted and what is left of the cap add up to \<open>c\<close>, and every new row since the queue \<open>ds0\<close> and
  the count \<open>n0\<close> is counted.\<close>

definition rows_paid :: "delivery list \<Rightarrow> int \<Rightarrow> int \<Rightarrow> report \<Rightarrow> int \<Rightarrow> delivery list \<Rightarrow> bool" where
  "rows_paid ds0 n0 c rep rem ds \<longleftrightarrow> 0 \<le> rem \<and> synthesized rep + rem = c \<and>
     (\<exists>new. ds = ds0 @ new \<and> list_all sweep_row new \<and> int (length new) \<le> synthesized rep - n0)"

lemma rows_paid_same: "rows_paid ds0 n0 c rep rem ds \<Longrightarrow> synthesized rep' = synthesized rep \<Longrightarrow> rows_paid ds0 n0 c rep' rem ds"
  by (simp add: rows_paid_def)

lemma rows_paid_more:
  fixes rep rep' :: report
  assumes "rows_paid ds0 n0 c rep rem ds" "0 < rem" "grown ds r ds'" "synthesized rep' = synthesized rep + 1"
  shows "rows_paid ds0 n0 c rep' (rem - 1) ds'"
proof -
  obtain new where n: "ds = ds0 @ new" "list_all sweep_row new" "int (length new) \<le> synthesized rep - n0"
    using assms(1) unfolding rows_paid_def by blast
  from assms(3) have "ds' = ds \<or> (\<exists>d. ds' = ds @ [d] \<and> sweep_row d)" by (auto simp: grown_def split: option.splits bool.splits)
  with n have "\<exists>new. ds' = ds0 @ new \<and> list_all sweep_row new \<and> int (length new) \<le> synthesized rep + 1 - n0" by fastforce
  with assms(1,2,4) show ?thesis by (simp add: rows_paid_def)
qed

definition paid :: "delivery list \<Rightarrow> int \<Rightarrow> int \<Rightarrow> pass \<Rightarrow> delivery list \<Rightarrow> bool" where
  "paid ds0 n0 c x ds \<longleftrightarrow> (case x of (_, rep, Some rem) \<Rightarrow> rows_paid ds0 n0 c rep rem ds | _ \<Rightarrow> False)"

definition payer :: "(session_row \<Rightarrow> report \<Rightarrow> int \<Rightarrow> pass act) \<Rightarrow> bool" where
  "payer f \<longleftrightarrow> (\<forall>ds0 n0 c s rep rem. runs (rows_paid ds0 n0 c rep rem) (f s rep rem) (paid ds0 n0 c))"

lemma paid_step: "payer f \<Longrightarrow> runs (paid ds0 n0 c x) (step f x) (paid ds0 n0 c)"
  by (cases x rule: prod_cases3) (auto simp: paid_def payer_def step_def runs_def split: option.splits)

lemma paid_steps: "list_all payer fs \<Longrightarrow> runs (paid ds0 n0 c x) (steps fs x) (paid ds0 n0 c)"
  by (induction fs arbitrary: x) (auto intro: runs_ret runs_bnd paid_step)

lemma paid_now: "rows_paid ds0 n0 c rep rem ds \<Longrightarrow> synthesized rep' = synthesized rep \<Longrightarrow> paid ds0 n0 c (s, rep', Some rem) ds"
  by (simp add: paid_def rows_paid_same)

lemma paid_counted:
  assumes "\<And>ds0. runs (\<lambda>ds. ds = ds0) m (grown ds0)" "0 < rem"
  shows "runs (rows_paid ds0 n0 c rep rem) (bnd m (counted s rep rem)) (paid ds0 n0 c)"
proof (rule runs_bnd [where U = "\<lambda>r ds. \<exists>ds1. rows_paid ds0 n0 c rep rem ds1 \<and> grown ds1 r ds"])
  show "runs (rows_paid ds0 n0 c rep rem) m (\<lambda>r ds. \<exists>ds1. rows_paid ds0 n0 c rep rem ds1 \<and> grown ds1 r ds)"
    using assms(1) unfolding runs_def by blast
  fix r
  show "runs (\<lambda>ds. \<exists>ds1. rows_paid ds0 n0 c rep rem ds1 \<and> grown ds1 r ds) (counted s rep rem r) (paid ds0 n0 c)"
    unfolding counted_def
  proof (rule runs_ret)
    fix ds assume "\<exists>ds1. rows_paid ds0 n0 c rep rem ds1 \<and> grown ds1 r ds"
    then obtain ds1 where d: "rows_paid ds0 n0 c rep rem ds1" "grown ds1 r ds" by blast
    consider "r = Some True" | "r = Some False" "ds = ds1" using d(2) by (cases r) (auto simp: grown_def split: bool.splits)
    then show "paid ds0 n0 c (case r of None \<Rightarrow> (s, rep, None)
        | Some True \<Rightarrow> (s, rep\<lparr>synthesized := synthesized rep + 1\<rparr>, Some (rem - 1)) | Some False \<Rightarrow> (s, rep, Some rem)) ds"
      using rows_paid_more [OF d(1) assms(2) d(2)] d(1) by cases (simp_all add: paid_def)
  qed
qed

text \<open>In a dry run a synthesis is counted without a row.\<close>

lemma paid_dry: "0 < rem \<Longrightarrow> runs (rows_paid ds0 n0 c rep rem) (counted s rep rem (Some True)) (paid ds0 n0 c)"
  unfolding counted_def
  by (rule runs_ret) (auto simp: paid_def intro: rows_paid_more [where r = "Some False"] simp: grown_def)

lemma payer_issue: "payer (on_issue_state W dry snap)"
proof -
  have "runs (rows_paid ds0 n0 c rep rem) (on_open_issue W dry s rep rem) (paid ds0 n0 c)" for ds0 n0 c s rep rem
  proof -
    have "calm (if set_on (s_closed_esc s) \<and> \<not> dry
         then seq (set_fields (w_env W) (session_key s) [F_closed_issue_escalated_at None]) (ret (s\<lparr>s_closed_esc := None\<rparr>)) else ret s)
       (\<lambda>_. True)"
      using calm_fields [of "w_env W" "session_key s" "[F_closed_issue_escalated_at None]"]
      by (cases "set_on (s_closed_esc s) \<and> \<not> dry") (auto intro: calm_seq simp: calm_ret)
    then show ?thesis
      unfolding on_open_issue_def Let_def
      by (rule runs_calm) (auto intro!: runs_ret runs_calm [OF calm_fields] paid_now)
  qed
  moreover have "runs (rows_paid ds0 n0 c rep rem) (on_closed_issue W dry s rep rem) (paid ds0 n0 c)" for ds0 n0 c s rep rem
    unfolding on_closed_issue_def Let_def
    by (intro runs_if runs_ret runs_calm [OF calm_reads(2)] runs_calm [OF calm_fields] runs_calm [OF calm_escalate])
       (auto intro: paid_now)
  ultimately show ?thesis by (auto simp: payer_def on_issue_state_def intro!: runs_ret paid_now)
qed

lemma payer_adopt: "payer (if_merged b (adopt_forward W dry kind))"
  by (auto simp: payer_def if_merged_def adopt_forward_def Let_def split: option.split
      intro!: runs_ret runs_calm [OF calm_fields] paid_now)

lemma payer_drift: "payer (head_drift W dry snap wm)"
  unfolding payer_def head_drift_def Let_def
  by (intro allI runs_if runs_ret runs_calm [OF calm_fields] paid_counted synthesis_grows paid_dry) (auto intro: paid_now)

lemma payer_node: "payer (sweep_node W dry snap node)"
  unfolding payer_def
proof (intro allI)
  fix ds0 :: "delivery list" and n0 c rem :: int and s :: session_row and rep :: report
  let ?rep = "rep\<lparr>synthesized := synthesized rep + 1\<rparr>"
  have dry: "runs (rows_paid ds0 n0 c rep rem) (ret (s, ?rep, Some (rem - 1))) (paid ds0 n0 c)" if "0 < rem"
    using that by (intro runs_ret) (auto simp: paid_def grown_def intro: rows_paid_more [where r = "Some False"])
  have real: "runs (rows_paid ds0 n0 c rep rem) (bnd (synthesize_node W s snap node)
      (\<lambda>r. ret (s, ?rep, case r of None \<Rightarrow> None | Some _ \<Rightarrow> Some (rem - 1)))) (paid ds0 n0 c)" if "0 < rem"
  proof (rule runs_bnd [where U = "\<lambda>r ds. \<exists>ds1. rows_paid ds0 n0 c rep rem ds1 \<and> grown ds1 r ds"])
    show "runs (rows_paid ds0 n0 c rep rem) (synthesize_node W s snap node)
        (\<lambda>r ds. \<exists>ds1. rows_paid ds0 n0 c rep rem ds1 \<and> grown ds1 r ds)"
      using synthesis_grows(3) [of _ W s snap node] unfolding runs_def by blast
    fix r
    show "runs (\<lambda>ds. \<exists>ds1. rows_paid ds0 n0 c rep rem ds1 \<and> grown ds1 r ds)
        (ret (s, ?rep, case r of None \<Rightarrow> None | Some _ \<Rightarrow> Some (rem - 1))) (paid ds0 n0 c)"
      using rows_paid_more [OF _ that, of ds0 n0 c rep _ r _ ?rep]
      by (cases r) (auto intro!: runs_ret simp: paid_def grown_def)
  qed
  show "runs (rows_paid ds0 n0 c rep rem) (sweep_node W dry snap node s rep rem) (paid ds0 n0 c)"
    unfolding sweep_node_def Let_def
    by (intro runs_calm [OF calm_reads(3)] runs_if runs_ret dry real) (auto intro: paid_now)
qed

text \<open>GitHub's pull requests are numbered.\<close>

definition numbered_prs :: "watch \<Rightarrow> bool" where
  "numbered_prs W \<longleftrightarrow> (\<forall>i url ps d. e_get (w_env W) i url = Inr (JArr ps) \<and> JObj d \<in> set ps \<longrightarrow> pr_number_of d \<noteq> None)"

lemma those_Some: "(\<forall>x \<in> set xs. f x \<noteq> None) \<Longrightarrow> \<exists>ys. those (map f xs) = Some ys \<and> length ys = length xs"
  by (induction xs) auto

lemma lowest_found: "xs \<noteq> [] \<Longrightarrow> (\<forall>x \<in> set xs. pr_number_of x \<noteq> None) \<Longrightarrow> lowest_pr xs \<noteq> None"
proof -
  assume x: "xs \<noteq> []" "\<forall>x \<in> set xs. pr_number_of x \<noteq> None"
  then obtain ys where y: "those (map pr_number_of xs) = Some ys" "length ys = length xs" using those_Some by blast
  then have "length (sort_key fst (zip ys xs)) = length xs" by (simp only: length_sort length_zip min.idem)
  then have "sort_key fst (zip ys xs) \<noteq> []" using x(1) by (metis length_0_conv)
  with y(1) show "lowest_pr xs \<noteq> None" by (auto simp: lowest_pr_def split: list.split)
qed

lemma listed_from:
  assumes "p \<in> set (fetch_open_prs_by_head get token repo h)"
  shows "\<exists>url ps. get url = Inr (JArr ps) \<and> JObj p \<in> set ps"
proof -
  define url where "url = api repo (''/pulls?state=open&head='' @ url_quote h @ ''&per_page=100'')"
  have "\<exists>ps. Inr (JArr ps) = get url \<and> JObj p \<in> set ps"
    using assms unfolding fetch_open_prs_by_head_def url_def [symmetric] by (simp split: if_splits sum.splits json.splits)
  then show ?thesis by metis
qed

lemma listed_numbered:
  "numbered_prs W \<Longrightarrow> p \<in> set (fetch_open_prs_by_head (e_get (w_env W) i) token repo h) \<Longrightarrow> pr_number_of p \<noteq> None"
  using listed_from [of p "e_get (w_env W) i"] unfolding numbered_prs_def by blast

lemma payer_untracked:
  assumes "numbered_prs W"
  shows "payer (untracked_opened W dry wm)"
  unfolding payer_def untracked_opened_def Let_def
proof (intro allI runs_if runs_ret runs_calm [OF calm_reads(1)])
  fix ds0 n0 c listed and s :: session_row and rem :: int and rep :: report
  let ?own = "filter (matches_branch wm (s_repo s) (s_issue s)) listed"
  assume rem: "\<not> rem \<le> 0" and own: "?own \<noteq> []"
    and l: "\<exists>i. listed = fetch_open_prs_by_head (e_get (w_env W) i) (e_gateway (w_env W)) (s_repo s)
      (fst (partition_at CHR ''/'' (s_repo s)) @ '':'' @ role_branch_name (s_repo s) (s_issue s) (role_of wm))"
  have "\<forall>x \<in> set ?own. pr_number_of x \<noteq> None" using l listed_numbered [OF assms] by auto
  with own lowest_found obtain m pr where m: "lowest_pr ?own = Some (m, pr)" by fastforce
  show "runs (rows_paid ds0 n0 c rep rem) (case lowest_pr ?own of None \<Rightarrow> ret (s, rep, None)
     | Some (m, pr) \<Rightarrow> if dry then counted s rep rem (Some True)
         else bnd (synthesize_opened W s m pr) (counted s rep rem)) (paid ds0 n0 c)"
    using rem by (simp add: m paid_counted synthesis_grows paid_dry)
qed (auto intro: paid_now)

lemma payer_list:
  assumes "numbered_prs W"
  shows "list_all payer [on_issue_state W dry snap,
         if_merged (sn_feature_merged snap) (adopt_forward W dry K_feature_merged),
         if_merged (sn_design_merged snap) (adopt_forward W dry K_design_merged),
         head_drift W dry snap Design_head, head_drift W dry snap Feature_head,
         untracked_opened W dry Design_head, untracked_opened W dry Feature_head, seen_nodes snap]"
proof -
  have "payer (seen_nodes snap)" by (auto simp: payer_def seen_nodes_def intro!: runs_ret paid_now)
  then show ?thesis by (simp add: payer_issue payer_adopt payer_drift payer_untracked assms)
qed

lemma paid_nodes: "runs (paid ds0 n0 c x) (sweep_nodes W dry snap ns x) (paid ds0 n0 c)"
proof (induction ns arbitrary: x)
  case Nil
  then show ?case by (simp add: runs_ret)
next
  case (Cons n ns)
  show ?case unfolding sweep_nodes.simps by (rule runs_bnd [OF paid_step [OF payer_node] Cons.IH])
qed

lemma paid_apply:
  assumes "numbered_prs W"
  shows "runs (rows_paid ds0 n0 c rep rem) (apply_snapshot W dry snap s rep rem) (paid ds0 n0 c)"
proof -
  have e: "rows_paid ds0 n0 c rep rem = paid ds0 n0 c (s, rep, Some rem)" by (simp add: paid_def fun_eq_iff)
  show ?thesis
    unfolding apply_snapshot_def e by (rule runs_bnd [OF paid_steps [OF payer_list [OF assms]] paid_nodes])
qed

lemma paid_session:
  assumes "numbered_prs W"
  shows "runs (rows_paid ds0 n0 c rep rem) (sweep_session W dry s rep rem) (\<lambda>y. rows_paid ds0 n0 c (fst y) (snd y))"
  unfolding sweep_session_def
proof (rule runs_calm [OF calm_reads(1)])
  fix r :: "snapshot option exc"
  have "runs (rows_paid ds0 n0 c rep rem) (bnd (apply_snapshot W dry snap s rep rem) (\<lambda>(_, rep', left).
         ret (rep', case left of None \<Rightarrow> rem | Some n \<Rightarrow> n))) (\<lambda>y. rows_paid ds0 n0 c (fst y) (snd y))" for snap
    by (rule runs_bnd [OF paid_apply [OF assms]]) (auto simp: paid_def intro!: runs_ret split: option.splits)
  then show "runs (rows_paid ds0 n0 c rep rem) (case r of Inl _ \<Rightarrow> ret (rep, rem) | Inr None \<Rightarrow> ret (rep, rem)
     | Inr (Some snap) \<Rightarrow> bnd (apply_snapshot W dry snap s rep rem) (\<lambda>(_, rep', left).
         ret (rep', case left of None \<Rightarrow> rem | Some n \<Rightarrow> n))) (\<lambda>y. rows_paid ds0 n0 c (fst y) (snd y))"
    by (auto intro!: runs_ret split: sum.split option.split)
qed

lemma paid_sessions:
  assumes "numbered_prs W"
  shows "runs (rows_paid ds0 n0 c (fst x) (snd x)) (sweep_sessions W dry ss x) (\<lambda>y. rows_paid ds0 n0 c (fst y) (snd y))"
proof (induction ss arbitrary: x)
  case Nil
  then show ?case by (simp add: runs_ret)
next
  case (Cons s ss)
  show ?case unfolding sweep_sessions.simps by (rule runs_bnd [OF paid_session [OF assms] Cons.IH])
qed

subsection \<open>A larger cap\<close>

text \<open>\<open>wide f\<close>: as long as \<open>f\<close> reports nothing as capped, it does the same with more of the cap left.\<close>

definition wide :: "(pass \<Rightarrow> pass act) \<Rightarrow> bool" where
  "wide f \<longleftrightarrow> (\<forall>s rep l. f (s, rep, None) l = (l, Inr (s, rep, None))) \<and>
     (\<forall>s rep rem l s' rep' rem' l'. f (s, rep, Some rem) l = (l', Inr (s', rep', Some rem')) \<and> 0 \<le> rem \<longrightarrow>
        0 \<le> rem' \<and> capped rep \<le> capped rep' \<and>
        (capped rep' = capped rep \<longrightarrow> (\<forall>more \<ge> 0. f (s, rep, Some (rem + more)) l = (l', Inr (s', rep', Some (rem' + more))))))"

definition wide_step :: "(session_row \<Rightarrow> report \<Rightarrow> int \<Rightarrow> pass act) \<Rightarrow> bool" where
  "wide_step f \<longleftrightarrow> (\<forall>s rep rem l s' rep' rem' l'. f s rep rem l = (l', Inr (s', rep', Some rem')) \<and> 0 \<le> rem \<longrightarrow>
     0 \<le> rem' \<and> capped rep \<le> capped rep' \<and>
     (capped rep' = capped rep \<longrightarrow> (\<forall>more \<ge> 0. f s rep (rem + more) l = (l', Inr (s', rep', Some (rem' + more))))))"

lemma wide_of_step: "wide_step f \<Longrightarrow> wide (step f)"
  by (simp add: wide_def wide_step_def step_def ret_def)

lemma bnd_value: "bnd m f l = (l2, Inr y) \<Longrightarrow> \<exists>l1 x. m l = (l1, Inr x) \<and> f x l1 = (l2, Inr y)"
  by (auto simp: bnd_def split: prod.splits sum.splits)

lemma wide_bnd:
  assumes f: "wide f" and g: "wide g"
  shows "wide (\<lambda>x. bnd (f x) g)"
  unfolding wide_def
proof (intro conjI allI impI)
  fix s rep l
  show "bnd (f (s, rep, None)) g l = (l, Inr (s, rep, None))"
    using f g by (simp add: wide_def bnd_def)
next
  fix s and rep :: report and rem l s' and rep' :: report and rem' l'
  assume a: "bnd (f (s, rep, Some rem)) g l = (l', Inr (s', rep', Some rem')) \<and> 0 \<le> rem"
  then obtain l1 s1 rep1 o1 where m: "f (s, rep, Some rem) l = (l1, Inr (s1, rep1, o1))"
    "g (s1, rep1, o1) l1 = (l', Inr (s', rep', Some rem'))"
    using bnd_value [of "f (s, rep, Some rem)" g l l'] by (metis prod.collapse)
  with g obtain rem1 where o1: "o1 = Some rem1" by (cases o1) (auto simp: wide_def)
  from f a m(1) o1 have 1: "0 \<le> rem1" "capped rep \<le> capped rep1"
    "capped rep1 = capped rep \<Longrightarrow> 0 \<le> more \<Longrightarrow> f (s, rep, Some (rem + more)) l = (l1, Inr (s1, rep1, Some (rem1 + more)))" for more
    unfolding wide_def by blast+
  from g m(2) o1 1(1) have 2: "0 \<le> rem'" "capped rep1 \<le> capped rep'"
    "capped rep' = capped rep1 \<Longrightarrow> 0 \<le> more \<Longrightarrow> g (s1, rep1, Some (rem1 + more)) l1 = (l', Inr (s', rep', Some (rem' + more)))" for more
    unfolding wide_def by blast+
  show "0 \<le> rem'" by (rule 2(1))
  show "capped rep \<le> capped rep'" using 1(2) 2(2) by simp
  fix more :: int
  assume "capped rep' = capped rep" "0 \<le> more"
  with 1 2 show "bnd (f (s, rep, Some (rem + more))) g l = (l', Inr (s', rep', Some (rem' + more)))"
    by (simp add: bnd_def)
qed

lemma wide_ret: "wide ret"
  by (simp add: wide_def ret_def)

lemma steps_then: "steps [] = ret" "steps (f # fs) = (\<lambda>x. bnd (step f x) (steps fs))"
  by (simp_all add: fun_eq_iff)

lemma nodes_then: "sweep_nodes W dry snap [] = ret"
  "sweep_nodes W dry snap (n # ns) = (\<lambda>x. bnd (step (sweep_node W dry snap n) x) (sweep_nodes W dry snap ns))"
  by (simp_all add: fun_eq_iff)

lemma wide_steps: "list_all wide_step fs \<Longrightarrow> wide (steps fs)"
  by (induction fs) (simp_all add: steps_then wide_ret wide_bnd wide_of_step del: steps.simps)

lemma wide_open: "wide_step (on_open_issue W dry)"
  by (auto simp: wide_step_def on_open_issue_def Let_def bnd_def ret_def split: if_splits prod.splits sum.splits)

lemma wide_closed: "wide_step (on_closed_issue W dry)"
  by (auto simp: wide_step_def on_closed_issue_def Let_def bnd_def ret_def split: if_splits prod.splits sum.splits)

lemma wide_issue: "wide_step (on_issue_state W dry snap)"
proof -
  consider "on_issue_state W dry snap = on_open_issue W dry" | "on_issue_state W dry snap = on_closed_issue W dry"
    | "on_issue_state W dry snap = (\<lambda>s rep rem. ret (s, rep, Some rem))"
    by (cases "sn_state snap = ''open''"; cases "sn_state snap = ''closed''") (auto simp: on_issue_state_def fun_eq_iff)
  then show ?thesis
    by cases (simp_all add: wide_open wide_closed, simp add: wide_step_def ret_def)
qed

lemma wide_adopt: "wide_step (if_merged b (adopt_forward W dry kind))"
  by (auto simp: wide_step_def if_merged_def adopt_forward_def Let_def bnd_def ret_def split: if_splits option.splits prod.splits sum.splits)

lemma wide_seen: "wide_step (seen_nodes snap)"
  by (simp add: wide_step_def seen_nodes_def ret_def)

lemma wide_drift: "wide_step (head_drift W dry snap wm)"
  by (auto simp: wide_step_def head_drift_def Let_def bnd_def ret_def counted_def
      split: if_splits option.splits prod.splits sum.splits bool.splits)

lemma wide_untracked: "wide_step (untracked_opened W dry wm)"
  by (auto simp: wide_step_def untracked_opened_def Let_def bnd_def ret_def counted_def ask_def
      split: if_splits option.splits prod.splits sum.splits bool.splits)

lemma wide_node: "wide_step (sweep_node W dry snap node)"
  by (auto simp: wide_step_def sweep_node_def Let_def bnd_def ret_def from_db_def reads_def
      split: if_splits option.splits prod.splits sum.splits)

lemma wide_nodes: "wide (sweep_nodes W dry snap ns)"
  by (induction ns) (simp_all add: nodes_then wide_ret wide_bnd wide_of_step wide_node del: sweep_nodes.simps)

lemma wide_apply:
  assumes "apply_snapshot W dry snap s rep rem l = (l', Inr (s', rep', Some rem'))" "0 \<le> rem"
  shows "0 \<le> rem' \<and> capped rep \<le> capped rep' \<and> (capped rep' = capped rep \<longrightarrow>
    (\<forall>more \<ge> 0. apply_snapshot W dry snap s rep (rem + more) l = (l', Inr (s', rep', Some (rem' + more)))))"
proof -
  have "wide (\<lambda>x. bnd (steps [on_issue_state W dry snap,
         if_merged (sn_feature_merged snap) (adopt_forward W dry K_feature_merged),
         if_merged (sn_design_merged snap) (adopt_forward W dry K_design_merged),
         head_drift W dry snap Design_head, head_drift W dry snap Feature_head,
         untracked_opened W dry Design_head, untracked_opened W dry Feature_head, seen_nodes snap] x) (sweep_nodes W dry snap (sn_nodes snap)))"
    by (intro wide_bnd wide_nodes wide_steps) (simp add: wide_issue wide_adopt wide_drift wide_untracked wide_seen)
  with assms show ?thesis unfolding wide_def apply_snapshot_def by blast
qed

lemma rows_paid_start: "0 \<le> rem \<Longrightarrow> rows_paid ds (synthesized rep) (synthesized rep + rem) rep rem ds"
  by (simp add: rows_paid_def)

lemma apply_finishes:
  assumes "numbered_prs W" "0 \<le> rem"
  shows "\<exists>l' s' rep' rem'. apply_snapshot W dry snap s rep rem l = (l', Inr (s', rep', Some rem'))"
proof -
  obtain l' x where "apply_snapshot W dry snap s rep rem l = (l', Inr x)"
      "paid (deliveries (db l)) (synthesized rep) (synthesized rep + rem) x (deliveries (db l'))"
    using paid_apply [OF assms(1)] rows_paid_start [OF assms(2)] unfolding runs_def by blast
  then show ?thesis by (cases x rule: prod_cases3) (auto simp: paid_def split: option.splits)
qed

lemma wide_session:
  assumes "numbered_prs W" "sweep_session W dry s rep rem l = (l', Inr (rep', rem'))" "0 \<le> rem"
  shows "0 \<le> rem' \<and> capped rep \<le> capped rep' \<and> (capped rep' = capped rep \<longrightarrow>
    (\<forall>more \<ge> 0. sweep_session W dry s rep (rem + more) l = (l', Inr (rep', rem' + more))))"
proof -
  define r where "r = fetch_session_snapshot (w_iso W) (e_get (w_env W) (tick l)) (e_gateway (w_env W)) (s_repo s) (s_issue s)
      (s_feature_pr s) (s_design_pr s)"
  define l0 where "l0 = l\<lparr>tick := Suc (tick l)\<rparr>"
  have run: "sweep_session W dry s rep n l = (case r of Inl _ \<Rightarrow> ret (rep, n) | Inr None \<Rightarrow> ret (rep, n)
     | Inr (Some snap) \<Rightarrow> bnd (apply_snapshot W dry snap s rep n) (\<lambda>(_, rep', left).
         ret (rep', case left of None \<Rightarrow> n | Some m \<Rightarrow> m))) l0" for n
    by (simp add: sweep_session_def ask_def bnd_def [of "\<lambda>l. (l\<lparr>tick := Suc (tick l)\<rparr>, _ l)"] r_def l0_def)
  show ?thesis
  proof (cases "\<exists>snap. r = Inr (Some snap)")
    case False
    then have "sweep_session W dry s rep n l = (l0, Inr (rep, n))" for n
      by (auto simp: run ret_def split: sum.split option.split)
    with assms(2,3) show ?thesis by simp
  next
    case True
    then obtain snap where snap: "r = Inr (Some snap)" by blast
    obtain l2 s2 rep2 rem2 where a: "apply_snapshot W dry snap s rep rem l0 = (l2, Inr (s2, rep2, Some rem2))"
      using apply_finishes [OF assms(1,3)] by blast
    with run [of rem] assms(2) snap have "l' = l2" "rep' = rep2" "rem' = rem2" by (simp_all add: bnd_def ret_def)
    with wide_apply [OF a assms(3)] show ?thesis by (simp add: run snap bnd_def ret_def)
  qed
qed

lemma wide_sessions:
  assumes "numbered_prs W"
  shows "sweep_sessions W dry ss (rep, rem) l = (l', Inr (rep', rem')) \<Longrightarrow> 0 \<le> rem \<Longrightarrow>
    capped rep \<le> capped rep' \<and> (capped rep' = capped rep \<longrightarrow>
      (\<forall>more \<ge> 0. sweep_sessions W dry ss (rep, rem + more) l = (l', Inr (rep', rem' + more))))"
proof (induction ss arbitrary: rep rem l)
  case Nil
  then show ?case by (simp add: ret_def)
next
  case (Cons s ss)
  from Cons.prems(1) obtain l1 rep1 rem1 where s: "sweep_session W dry s rep rem l = (l1, Inr (rep1, rem1))"
    and ss: "sweep_sessions W dry ss (rep1, rem1) l1 = (l', Inr (rep', rem'))"
    using bnd_value [of "sweep_session W dry s rep rem" "sweep_sessions W dry ss" l l'] by fastforce
  note 1 = wide_session [OF assms s Cons.prems(2)]
  then have 2: "capped rep1 \<le> capped rep' \<and> (capped rep' = capped rep1 \<longrightarrow>
      (\<forall>more \<ge> 0. sweep_sessions W dry ss (rep1, rem1 + more) l1 = (l', Inr (rep', rem' + more))))"
    by (intro Cons.IH [OF ss]) simp
  show ?case
  proof (intro conjI impI allI)
    show "capped rep \<le> capped rep'" using 1 2 by simp
    fix more :: int assume c: "capped rep' = capped rep" "0 \<le> more"
    with 1 2 have "capped rep1 = capped rep" by simp
    with 1 2 c show "sweep_sessions W dry (s # ss) (rep, rem + more) l = (l', Inr (rep', rem' + more))"
      by (simp add: bnd_def)
  qed
qed

text \<open>The sweep under another cap.\<close>

definition sweep_upto :: "int \<Rightarrow> watch \<Rightarrow> bool \<Rightarrow> report \<Rightarrow> report act" where
  "sweep_upto c W dry rep =
     (if \<not> w_sweeps W then ret rep
      else bnd (from_db list_nonterminal_sessions) (\<lambda>ss. bnd (sweep_sessions W dry ss (rep, c)) (\<lambda>x. ret (fst x))))"

lemma sweep_at_cap: "sweep_github W dry rep = sweep_upto synthesis_cap W dry rep"
  by (simp add: sweep_github_def sweep_upto_def)

text \<open>C35: when every pull request that GitHub lists has a number, one sweep completes however many sessions and nodes GitHub
  shows.  It adds at most fifty deliveries to the queue, all of them queued and under ids of its own, changes no other, and
  counts every one it adds.  What the cap withholds is reported: if the counter of capped events did not rise, the sweep did,
  wrote and counted exactly what it does under any larger cap.\<close>

theorem sweep_capped:
  assumes "numbered_prs W"
  shows "\<exists>l' rep' new. sweep_github W dry rep l = (l', Inr rep') \<and>
    deliveries (db l') = deliveries (db l) @ new \<and> list_all sweep_row new \<and>
    int (length new) \<le> synthesized rep' - synthesized rep \<and> synthesized rep' - synthesized rep \<le> 50 \<and>
    capped rep \<le> capped rep' \<and>
    (capped rep' = capped rep \<longrightarrow> (\<forall>c \<ge> 50. sweep_upto c W dry rep l = (l', Inr rep')))"
proof (cases "w_sweeps W")
  case False
  then show ?thesis by (simp add: sweep_github_def sweep_upto_def ret_def)
next
  case True
  let ?ss = "list_nonterminal_sessions (db l)"
  have run: "sweep_upto c W dry rep l = bnd (sweep_sessions W dry ?ss (rep, c)) (\<lambda>x. ret (fst x)) l" for c
    using True by (simp add: sweep_upto_def from_db_def reads_def bnd_def)
  obtain l' rep' rem' where s: "sweep_sessions W dry ?ss (rep, 50) l = (l', Inr (rep', rem'))"
    and p: "rows_paid (deliveries (db l)) (synthesized rep) (synthesized rep + 50) rep' rem' (deliveries (db l'))"
  proof -
    have "rows_paid (deliveries (db l)) (synthesized rep) (synthesized rep + 50) rep 50 (deliveries (db l))"
      by (rule rows_paid_start) simp
    with paid_sessions [OF assms, of "deliveries (db l)" "synthesized rep" "synthesized rep + 50" "(rep, 50)" dry ?ss]
    obtain l' y where "sweep_sessions W dry ?ss (rep, 50) l = (l', Inr y)"
      "rows_paid (deliveries (db l)) (synthesized rep) (synthesized rep + 50) (fst y) (snd y) (deliveries (db l'))"
      unfolding runs_def fst_conv snd_conv by blast
    then show ?thesis by (intro that [of l' "fst y" "snd y"]) simp_all
  qed
  from s have out: "sweep_github W dry rep l = (l', Inr rep')"
    by (simp add: sweep_at_cap run synthesis_cap_def bnd_def ret_def)
  have w: "capped rep \<le> capped rep'"
    "capped rep' = capped rep \<Longrightarrow> 0 \<le> more \<Longrightarrow> sweep_sessions W dry ?ss (rep, 50 + more) l = (l', Inr (rep', rem' + more))" for more
    using wide_sessions [OF assms s] by simp_all
  have "sweep_upto c W dry rep l = (l', Inr rep')" if "capped rep' = capped rep" "50 \<le> c" for c
    using w(2) [of "c - 50"] that by (simp add: run bnd_def ret_def)
  with out w(1) p show ?thesis by (auto simp: rows_paid_def)
qed


section \<open>Once per event\<close>

lemma indexed_kept: "nid \<in> node_id ` set ns \<Longrightarrow>
    nid \<in> node_id ` set (fold (\<lambda>x. insert_ignore node_id \<lparr>node_id = x, n_delivery = d, n_seen = t\<rparr>) xs ns)"
  by (induction xs arbitrary: ns) (auto simp: insert_ignore_def)

lemma indexed: "nid \<in> set xs \<Longrightarrow>
    nid \<in> node_id ` set (fold (\<lambda>x. insert_ignore node_id \<lparr>node_id = x, n_delivery = d, n_seen = t\<rparr>) xs ns)"
proof (induction xs arbitrary: ns)
  case (Cons x xs)
  show ?case
  proof (cases "nid = x")
    case True
    then have "nid \<in> node_id ` set (insert_ignore node_id \<lparr>node_id = x, n_delivery = d, n_seen = t\<rparr> ns)"
      by (auto simp: insert_ignore_def)
    then show ?thesis using indexed_kept by simp
  qed (use Cons in simp)
qed simp

lemma own_node_indexed: "nd_id node \<noteq> [] \<Longrightarrow>
    \<exists>nids. node_ids_from_payload (snd (snd (node_delivery repo n snap node))) = Some nids \<and> nd_id node \<in> set nids"
  by (cases node) (simp_all add: node_ids_from_payload_def who_from_def py_or_def login_obj_def py_str_def)

lemma synthesized_known:
  assumes "nd_id node \<noteq> []" "''recon:'' @ nd_id node \<notin> delivery_id ` set (deliveries (db l))"
  shows "has_delivery_node (nd_id node) (db (fst (synthesize_node W s snap node l)))"
proof -
  obtain ev act p where n: "node_delivery (s_repo s) (s_issue s) snap node = (ev, act, p)" by (rule prod_cases3)
  obtain nids where "node_ids_from_payload p = Some nids" "nd_id node \<in> set nids"
    using own_node_indexed [OF assms(1), of "s_repo s" "s_issue s" snap] n by auto
  then show ?thesis
    using assms(2)
    by (simp add: synthesize_node_def n enqueue_state insert_delivery_def Let_def has_delivery_node_def index_nodes_def indexed)
qed

text \<open>A missed event is synthesised once: after a sweep put a node's delivery into the queue, the next
  sweep sees the node as known and neither counts nor inserts it again.\<close>

theorem synthesised_once:
  assumes "nd_id node \<noteq> []" "''recon:'' @ nd_id node \<notin> delivery_id ` set (deliveries (db l))" "0 < rem"
    and "sweep_node W False snap node s rep rem l = (l1, Inr (s1, rep1, Some rem1))"
  shows "\<exists>l2. sweep_node W False snap' node s rep1 rem1 l1 = (l2, Inr (s, rep1, Some rem1)) \<and> db l2 = db l1"
proof (cases "(case nd_created node of None \<Rightarrow> False | Some t \<Rightarrow> t < s_created s) \<or> has_delivery_node (nd_id node) (db l)")
  case True
  with assms(4) have "l1 = l" by (auto simp: sweep_node_def from_db_def bnd_reads ret_def)
  with True show ?thesis by (auto simp: sweep_node_def from_db_def bnd_reads ret_def)
next
  case False
  with assms(1,3) have "sweep_node W False snap node s rep rem l = bnd (synthesize_node W s snap node) (\<lambda>r.
      ret (s, rep\<lparr>synthesized := synthesized rep + 1\<rparr>, case r of None \<Rightarrow> None | Some _ \<Rightarrow> Some (rem - 1))) l"
    by (simp add: sweep_node_def from_db_def bnd_reads)
  with assms(4) have "l1 = fst (synthesize_node W s snap node l)"
    by (auto simp: bnd_def ret_def split: prod.splits sum.splits)
  then have "has_delivery_node (nd_id node) (db l1)" using synthesized_known [OF assms(1,2)] by simp
  then show ?thesis by (simp add: sweep_node_def from_db_def bnd_reads ret_def)
qed

section \<open>Two divergences\<close>

text \<open>The delivery id of a head drift is made of the pull request and the head alone.  When a head was
  synthesised once, a later return to that head (a force-push back) is never reported: every sweep sees
  the drift, inserts nothing, and leaves the stale watermark.
\<close>

theorem drift_back_ignored:
  assumes "\<not> merged_of wm snap" "tracked_pr wm s = Some n" "n \<noteq> 0" "wm_value wm s = Some old" "old \<noteq> []"
    and "sha_of wm snap \<noteq> []" "sha_of wm snap \<noteq> old" "0 < rem"
    and "''recon:sync:'' @ dec n @ '':'' @ sha_of wm snap \<in> delivery_id ` set (deliveries (db l))"
  shows "\<exists>l'. head_drift W False snap wm s rep rem l = (l', Inr (s, rep, Some rem)) \<and> db l' = db l"
proof -
  define did where "did = ''recon:sync:'' @ dec n @ '':'' @ sha_of wm snap"
  have "\<exists>l'. synthesize_synchronize W s snap n (sha_of wm snap) l = (l', Inr (Some False)) \<and> db l' = db l"
    using assms(9) unfolding synthesize_synchronize_def did_def [symmetric]
    by (simp add: enqueue_def attempt_def sql_try_def now_s_def ask_def bnd_def ret_def insert_delivery_def insert_ignore_def)
  moreover have "head_drift W False snap wm s rep rem = bnd (synthesize_synchronize W s snap n (sha_of wm snap)) (counted s rep rem)"
    using assms(1-8) by (simp add: head_drift_def set_on_def opt_str_def)
  ultimately show ?thesis by (auto simp: bnd_def counted_def ret_def)
qed

definition swept_get :: http where
  "swept_get url =
     (if url = api ''o/r'' ''/issues/1'' then Inr (JObj [(''state'', JStr ''closed'')])
      else if url = api ''o/r'' ''/issues/1/comments?per_page=100'' then Inr (JArr [])
      else if url = api ''o/r'' ''/pulls/7'' then Inr (JObj [(''merged'', JBool True)])
      else Inl ''404'')"

definition watching :: "http \<Rightarrow> watch" where
  "watching get = \<lparr>w_env = example_env (Some ''t'') get, w_loop = True, w_sweeps = True, w_lists_prs = True,
     w_iso = (\<lambda>_. None), w_max_age = 3600, w_flying = (\<lambda>_ _. False), w_containers = (\<lambda>_. Some []), w_probe = (\<lambda>_ _. None)\<rparr>"

definition no_report :: report where
  "no_report = \<lparr>orphans = [], spared = [], removed = [], cleared_rows = [], missing_runners = [], stale_runners = [],
     open_turns = [], closed_live = [], nodes_seen = 0, synthesized = 0, capped = 0, adopted = 0, escalated = 0,
     holds_lifted = 0, retired = 0, resumed = 0, attached = [], unattached = [], probe_skipped = [], inventory_error = False\<rparr>"

text \<open>The columns of a pause: where the session is, why it paused, and where it resumes.\<close>

definition pause_of :: "string \<Rightarrow> store \<Rightarrow> (fsm_state \<times> string option \<times> fsm_state option) option" where
  "pause_of k st = map_option (\<lambda>s. (s_state s, s_paused s, s_resume s)) (get_session k st)"

definition pause_kept :: "string \<Rightarrow> loop \<Rightarrow> loop \<Rightarrow> bool" where
  "pause_kept k l l' \<longleftrightarrow> pause_of k (db l') = pause_of k (db l)"

interpretation pause_kept: loop_frame "pause_kept k" for k
  by unfold_locales (auto simp: pause_kept_def)

lemma pause_of_fields: "pause_of j (update_session_fields t k fs st) =
    (if j = k \<and> fs \<noteq> [] then map_option (\<lambda>s. (s_state (apply_fields t fs s), s_paused (apply_fields t fs s), s_resume (apply_fields t fs s)))
       (get_session k st) else pause_of j st)"
  by (cases "get_session k st") (auto simp: pause_of_def get_session_update_fields)

lemma set_fields_db: "\<exists>t l'. set_fields E k fs l = (l', Inr ()) \<and> db l' = update_session_fields t k fs (db l)"
  by (simp add: set_fields_def sql_def now_s_def ask_def on_db_def modify_def bnd_def) blast

lemma pause_kept_wm: "keeps (pause_kept j) (set_fields E k [wm_field wm v])"
  unfolding keeps_def pause_kept_def
proof
  fix l
  obtain t l' where "set_fields E k [wm_field wm v] l = (l', Inr ())" "db l' = update_session_fields t k [wm_field wm v] (db l)"
    using set_fields_db by blast
  then show "pause_of j (db (fst (set_fields E k [wm_field wm v] l))) = pause_of j (db l)"
    by (cases wm; cases "get_session k (db l)")
       (auto simp: pause_of_fields pause_of_def [of k "db l"] apply_fields_def is_updated_at_def)
qed

lemma pause_kept_enqueue: "keeps (pause_kept k) (enqueue W did ev act s who p)"
  by (rule enqueue_keeps) (simp add: pause_kept_def pause_of_def get_session_def)

text \<open>What follows the two adoptions in a sweep of a session leaves the pause alone.\<close>

lemma pause_kept_rest:
  "keeps (pause_kept k) (bnd (steps [head_drift W dry snap Design_head, head_drift W dry snap Feature_head,
     untracked_opened W dry Design_head, untracked_opened W dry Feature_head, seen_nodes snap] x) (sweep_nodes W dry snap ns))"
proof -
  have counted: "keeps (pause_kept k) (counted s rep rem b)" for s rep rem b
    by (simp add: counted_def pause_kept.keeps_ret)
  have drift: "keeps (pause_kept k) (head_drift W dry snap wm s rep rem)" for wm s rep rem
    unfolding head_drift_def Let_def synthesize_synchronize_def
    by (cases dry) (simp_all add: pause_kept.keeps_rules pause_kept_wm counted pause_kept_enqueue)
  have untracked: "keeps (pause_kept k) (untracked_opened W dry wm s rep rem)" for wm s rep rem
    unfolding untracked_opened_def Let_def synthesize_opened_def
    by (cases dry) (simp_all add: pause_kept.keeps_rules counted pause_kept_enqueue)
  have node: "keeps (pause_kept k) (sweep_node W dry snap n s rep rem)" for n s rep rem
    unfolding sweep_node_def synthesize_node_def Let_def
    by (cases dry) (simp_all add: pause_kept.keeps_rules pause_kept_enqueue)
  have nodes: "keeps (pause_kept k) (sweep_nodes W dry snap ns x)" for x
    by (induction ns arbitrary: x) (auto intro!: pause_kept.keeps_rules pause_kept.keeps_step node)
  show ?thesis
    by (intro pause_kept.keeps_bnd pause_kept.keeps_steps nodes)
       (auto simp: seen_nodes_def intro!: pause_kept.keeps_rules drift untracked)
qed

lemma steps_first: "f s rep rem l = (l', Inr x) \<Longrightarrow> steps (f # fs) (s, rep, Some rem) l = steps fs x l'"
  by (simp add: step_def bnd_def)

lemma same_start: "m l = m' l' \<Longrightarrow> bnd m f l = bnd m' f l'"
  by (simp add: bnd_def)

lemma escalate_pause:
  assumes "get_session k (db l) = Some s" "s_state s = MERGING"
  shows "\<exists>l' tail. escalate E k role why rd True l = (l', Inr ()) \<and>
    pause_of k (db l') = Some (PAUSED_HUMAN, Some (take 500 (close_reconcile_prefix @ why @ tail)), Some MERGING)"
proof -
  have live: "s_state s \<noteq> CLOSED" using assms(2) by simp
  obtain l' t t' tail cid where e: "escalate E k role why rd True l = (l', Inr ())"
    and d: "db l' = update_session_fields t k [F_state PAUSED_HUMAN, F_paused_reason (Some (take 500 (close_reconcile_prefix @ why @ tail))),
       F_resume_state (Some (paused_from s))] (fst (open_escalation t' k (Some role) (why @ tail) cid (db l)))"
    using escalate_live [OF assms(1) live, of E role why rd True, unfolded if_True] by (elim exE conjE) (rule that)
  have "get_session k (fst (open_escalation t' k (Some role) (why @ tail) cid (db l))) = Some s"
    using assms(1) get_session_frame [of "fst (open_escalation t' k (Some role) (why @ tail) cid (db l))" "db l" k] by simp
  then have "pause_of k (db l') = Some (PAUSED_HUMAN, Some (take 500 (close_reconcile_prefix @ why @ tail)), Some MERGING)"
    by (simp add: d pause_of_fields apply_fields_def is_updated_at_def paused_from_def assms(2))
  with e show ?thesis by blast
qed

text \<open>C39: a pull request that merges and closes its issue at once.  When the sweep applies a snapshot that shows the
  issue closed and the Feature PR merged to a session in MERGING (no escalation of a closed issue yet, the session loop
  attached), then whatever else the snapshot, the store and the outside hold, the session ends in AWAITING_VERIFICATION although
  the same step paused it: the reason of the hold is left in its row without the hold, and MERGING as the state to resume from.\<close>

theorem sweep_overwrites_pause:
  assumes "get_session k (db l) = Some s" "session_key s = k" "s_state s = MERGING" "\<not> set_on (s_closed_esc s)"
    and "sn_state snap = ''closed''" "sn_feature_merged snap" "w_loop W"
  shows "\<exists>s' why. get_session k (db (fst (apply_snapshot W False snap s rep rem l))) = Some s' \<and>
    s_state s' = AWAITING_VERIFICATION \<and> s_paused s' = Some (take 500 (close_reconcile_prefix @ why)) \<and>
    s_resume s' = Some MERGING \<and> \<not> close_reconcile_held (s_state s') s'"
proof -
  let ?E = "w_env W" and ?why = "''GitHub issue is closed; session is still '' @ state_name (s_state s) @
                  '' (reconcile sweep). Nothing classified; session left live.''"
  define noted where "noted = \<lfloor>e_now ?E (tick l)\<rfloor>"
  define s1 where "s1 = s\<lparr>s_closed_esc := Some noted\<rparr>"
  define rep1 where "rep1 = rep\<lparr>escalated := escalated rep + 1\<rparr>"
  obtain t l2 where f: "set_fields ?E k [F_closed_issue_escalated_at (Some noted)] (l\<lparr>tick := Suc (tick l)\<rparr>) = (l2, Inr ())"
    "db l2 = update_session_fields t k [F_closed_issue_escalated_at (Some noted)] (db l)"
    using set_fields_db [of ?E k "[F_closed_issue_escalated_at (Some noted)]" "l\<lparr>tick := Suc (tick l)\<rparr>"] by auto
  have "get_session k (db l2) = Some (apply_fields t [F_closed_issue_escalated_at (Some noted)] s)"
    "s_state (apply_fields t [F_closed_issue_escalated_at (Some noted)] s) = MERGING"
    using assms(1,3) by (simp_all add: f get_session_update_fields apply_fields_def is_updated_at_def)
  from escalate_pause [OF this, of ?E "''system''" ?why "Some sweep_reply"]
  obtain l3 tail where e: "escalate ?E k ''system'' ?why (Some sweep_reply) True l2 = (l3, Inr ())"
    "pause_of k (db l3) = Some (PAUSED_HUMAN, Some (take 500 (close_reconcile_prefix @ ?why @ tail)), Some MERGING)"
    by blast
  have first: "on_issue_state W False snap s rep rem l = (l3, Inr (s1, rep1, Some rem))"
    using assms(2,4,5,7) f(1) e(1)
    by (simp add: on_issue_state_def on_closed_issue_def watch_escalate_def only_if_def attempt_def bnd_def ret_def now_s_def ask_def
        noted_def s1_def rep1_def)
  obtain tr where tr: "transition (Some MERGING) K_feature_merged = Some tr" "new_state tr = AWAITING_VERIFICATION"
    by (simp add: transition_def transition_table_def transition_rows_def go_def)
  have end_of: "transition (Some AWAITING_VERIFICATION) K_design_merged = None"
    by (simp add: transition_def transition_table_def transition_rows_def go_def)
  obtain t' l4 where g: "set_fields ?E k [F_state AWAITING_VERIFICATION] l3 = (l4, Inr ())"
    "db l4 = update_session_fields t' k [F_state AWAITING_VERIFICATION] (db l3)"
    using set_fields_db [of ?E k "[F_state AWAITING_VERIFICATION]" l3] by blast
  define s2 where "s2 = s1\<lparr>s_state := AWAITING_VERIFICATION\<rparr>"
  define rep2 where "rep2 = rep1\<lparr>adopted := adopted rep1 + 1\<rparr>"
  have second: "if_merged (sn_feature_merged snap) (adopt_forward W False K_feature_merged) s1 rep1 rem l3 = (l4, Inr (s2, rep2, Some rem))"
    using assms(2,3,6) tr g(1) by (simp add: if_merged_def adopt_forward_def bnd_def ret_def s1_def s2_def rep2_def)
  have third: "if_merged (sn_design_merged snap) (adopt_forward W False K_design_merged) s2 rep2 rem l4 = (l4, Inr (s2, rep2, Some rem))"
    by (simp add: if_merged_def adopt_forward_def ret_def s2_def end_of)
  have "pause_of k (db l4) = Some (AWAITING_VERIFICATION, Some (take 500 (close_reconcile_prefix @ ?why @ tail)), Some MERGING)"
    using e(2) by (auto simp: g(2) pause_of_fields apply_fields_def is_updated_at_def) (auto simp: pause_of_def)
  moreover have "apply_snapshot W False snap s rep rem l = bnd (steps [head_drift W False snap Design_head,
       head_drift W False snap Feature_head, untracked_opened W False Design_head, untracked_opened W False Feature_head,
       seen_nodes snap] (s2, rep2, Some rem)) (sweep_nodes W False snap (sn_nodes snap)) l4"
    unfolding apply_snapshot_def
    by (rule same_start) (simp only:
        steps_first [where f = "on_issue_state W False snap", OF first]
        steps_first [where f = "if_merged (sn_feature_merged snap) (adopt_forward W False K_feature_merged)", OF second]
        steps_first [where f = "if_merged (sn_design_merged snap) (adopt_forward W False K_design_merged)", OF third])
  ultimately have "\<exists>l4 x why. apply_snapshot W False snap s rep rem l = bnd (steps [head_drift W False snap Design_head,
       head_drift W False snap Feature_head, untracked_opened W False Design_head, untracked_opened W False Feature_head,
       seen_nodes snap] x) (sweep_nodes W False snap (sn_nodes snap)) l4 \<and>
     pause_of k (db l4) = Some (AWAITING_VERIFICATION, Some (take 500 (close_reconcile_prefix @ why)), Some MERGING)"
    by blast
  then obtain l4 x why where a: "apply_snapshot W False snap s rep rem l = bnd (steps [head_drift W False snap Design_head,
       head_drift W False snap Feature_head, untracked_opened W False Design_head, untracked_opened W False Feature_head,
       seen_nodes snap] x) (sweep_nodes W False snap (sn_nodes snap)) l4"
    and p: "pause_of k (db l4) = Some (AWAITING_VERIFICATION, Some (take 500 (close_reconcile_prefix @ why)), Some MERGING)"
    by blast
  have "pause_of k (db (fst (apply_snapshot W False snap s rep rem l))) = pause_of k (db l4)"
    unfolding a using pause_kept_rest [of k W False snap x "sn_nodes snap"] by (simp add: keeps_def pause_kept_def)
  with p obtain s' where "get_session k (db (fst (apply_snapshot W False snap s rep rem l))) = Some s'"
    "s_state s' = AWAITING_VERIFICATION" "s_paused s' = Some (take 500 (close_reconcile_prefix @ why))" "s_resume s' = Some MERGING"
    by (auto simp: pause_of_def simp del: take_append)
  then show ?thesis by (intro exI [of _ s'] exI [of _ why]) (simp add: close_reconcile_held_def)
qed

definition merged_and_closed :: snapshot where
  "merged_and_closed = \<lparr>sn_state = ''closed'', sn_body = [], sn_node_id = [], sn_title = [], sn_url = [], sn_labels = [],
     sn_nodes = [], sn_feature_merged = True, sn_design_merged = False, sn_feature_sha = [], sn_design_sha = []\<rparr>"

theorem sweep_overwrites_pause_witness:
  "\<exists>s'. get_session ''o/r#1'' (db (fst (apply_snapshot (watching swept_get) False merged_and_closed (example_row MERGING) no_report 50
       (example_loop (session_in MERGING))))) = Some s' \<and> s_state s' = AWAITING_VERIFICATION \<and> s_resume s' = Some MERGING"
proof -
  have "session_key (example_row MERGING) = ''o/r#1''" "s_state (example_row MERGING) = MERGING"
    "\<not> set_on (s_closed_esc (example_row MERGING))"
    by code_simp+
  with sweep_overwrites_pause [of "''o/r#1''" "example_loop (session_in MERGING)" "example_row MERGING" merged_and_closed
      "watching swept_get" no_report 50]
  show ?thesis by (auto simp: merged_and_closed_def watching_def)
qed


section \<open>Witnesses\<close>

theorem sweep_never_ends_witness:
  "\<exists>s. get_session ''o/r#1'' (session_in CLOSED) = Some s \<and> s_state s = CLOSED"
proof -
  define st where "st = db (fst (sweep_github (watching swept_get) False no_report (example_loop (session_in CLOSED))))"
  have "map_option s_state (get_session ''o/r#1'' st) = Some CLOSED" unfolding st_def by code_simp
  then obtain s' where "get_session ''o/r#1'' st = Some s'" "s_state s' = CLOSED" by auto
  with sweep_never_ends [of "''o/r#1''" "watching swept_get" False no_report "example_loop (session_in CLOSED)" s']
  show ?thesis by (simp add: st_def)
qed

theorem sweep_capped_witness:
  "\<exists>l' rep' new. sweep_github (watching swept_get) False no_report (example_loop (session_in MERGING)) = (l', Inr rep') \<and>
     deliveries (db l') = deliveries (session_in MERGING) @ new \<and> int (length new) \<le> synthesized rep' \<and> synthesized rep' \<le> 50"
proof -
  have "numbered_prs (watching swept_get)"
    by (auto simp: numbered_prs_def watching_def example_env_def swept_get_def split: if_splits)
  from sweep_capped [OF this, of False no_report "example_loop (session_in MERGING)"]
  show ?thesis by (auto simp: no_report_def)
qed

definition missed_comment :: sweep_node where
  "missed_comment = Comment_node ''C_1'' None ''z'' ''hello''"

definition open_snapshot :: snapshot where
  "open_snapshot = \<lparr>sn_state = ''open'', sn_body = [], sn_node_id = ''I_1'', sn_title = [], sn_url = [], sn_labels = [],
     sn_nodes = [missed_comment], sn_feature_merged = False, sn_design_merged = False, sn_feature_sha = ''a'', sn_design_sha = []\<rparr>"

theorem synthesised_once_witness:
  "\<exists>l1 rep1 rem1 l2. sweep_node (watching swept_get) False open_snapshot missed_comment merging_row no_report 50 (example_loop merging_store)
       = (l1, Inr (merging_row, rep1, Some rem1)) \<and>
     sweep_node (watching swept_get) False open_snapshot missed_comment merging_row rep1 rem1 l1 = (l2, Inr (merging_row, rep1, Some rem1))"
proof -
  obtain l1 s1 rep1 left where s: "sweep_node (watching swept_get) False open_snapshot missed_comment merging_row no_report 50
      (example_loop merging_store) = (l1, Inr (s1, rep1, left))" "s1 = merging_row" "left \<noteq> None"
  proof -
    have "case sweep_node (watching swept_get) False open_snapshot missed_comment merging_row no_report 50
      (example_loop merging_store) of (_, Inr (s, _, left)) \<Rightarrow> s = merging_row \<and> left \<noteq> None | _ \<Rightarrow> False" by code_simp
    with that show thesis by (auto split: prod.splits sum.splits)
  qed
  then obtain rem1 where r: "left = Some rem1" by auto
  have "''recon:'' @ nd_id missed_comment \<notin> delivery_id ` set (deliveries merging_store)" by code_simp
  with synthesised_once [OF _ _ _ s(1) [unfolded r], of open_snapshot] s r show ?thesis
    by (fastforce simp: missed_comment_def)
qed

definition drifted_back :: store where
  "drifted_back = fst (insert_delivery 1 ''recon:sync:7:a'' ''pull_request'' (Some ''synchronize'') (Some ''o/r'') (Some 1) (Some [])
     None Done (update_session_fields 1 ''o/r#1'' [F_feature_pr_head (Some ''b'')] merging_store))"

theorem drift_back_ignored_witness:
  "\<exists>l'. head_drift (watching swept_get) False open_snapshot Feature_head (merging_row\<lparr>s_feature_head := Some ''b''\<rparr>) no_report 50
     (example_loop drifted_back) = (l', Inr (merging_row\<lparr>s_feature_head := Some ''b''\<rparr>, no_report, Some 50)) \<and> db l' = drifted_back"
proof -
  let ?s = "merging_row\<lparr>s_feature_head := Some ''b''\<rparr>"
  have d: "''recon:sync:'' @ dec 7 @ '':'' @ sha_of Feature_head open_snapshot \<in> delivery_id ` set (deliveries drifted_back)"
    and p: "tracked_pr Feature_head ?s = Some 7" by code_simp+
  show ?thesis
    using drift_back_ignored [of Feature_head open_snapshot ?s 7 "''b''" 50 "example_loop drifted_back" "watching swept_get" no_report] d p
    by (simp add: open_snapshot_def)
qed

end
