(* ===== verification/Reconciler.thy ===== *)
theory Reconciler
  imports Sweep_Facts
begin

text \<open>
  The reconciler (\<open>agentd/src/agentd/reconciler.py\<close>): docker's inventory against the runner rows, the
  probes of attached runners, the sweep of GitHub, and the open turns left by an interrupted process.
\<close>

section \<open>Inventory\<close>

text \<open>\<open>str.split()\<close>.\<close>

fun split_ws :: "string \<Rightarrow> string \<Rightarrow> string list" where
  "split_ws acc [] = (if acc = [] then [] else [acc])"
| "split_ws acc (c # cs) =
     (if is_space c then (if acc = [] then split_ws [] cs else acc # split_ws [] cs) else split_ws (acc @ [c]) cs)"

definition read_container :: "(string \<Rightarrow> int option) \<Rightarrow> json \<Rightarrow> container exc" where
  "read_container other j =
     bind_exc (as_obj j) (\<lambda>d. bind_exc (sub_obj d ''Config'') (\<lambda>conf. bind_exc (sub_obj conf ''Labels'') (\<lambda>labels.
     bind_exc (sub_obj d ''State'') (\<lambda>state.
       Inr \<lparr>ct_id = str_or_empty (dget d ''Id''), ct_project = str_or_empty (dget labels ''agentd.project''),
            ct_started = parse_started_at other (str_or_empty (dget state ''StartedAt'')),
            ct_running = truthy (dget state ''Running'')\<rparr>))))"

text \<open>\<open>list_managed_containers\<close>: exit status and output of \<open>docker ps\<close> and of \<open>docker inspect\<close>.\<close>

definition list_managed_containers ::
  "(string \<Rightarrow> int option) \<Rightarrow> int \<times> string \<Rightarrow> (string list \<Rightarrow> int \<times> json exc) \<Rightarrow> container list exc" where
  "list_managed_containers other ps inspect =
     (let ids = split_ws [] (snd ps) in
      if fst ps \<noteq> 0 then Inl ''docker ps failed''
      else if ids = [] then Inr []
      else if fst (inspect ids) \<noteq> 0 then Inl ''docker inspect failed''
      else bind_exc (snd (inspect ids)) (\<lambda>data. bind_exc (py_list data)
             (collect (\<lambda>j. bind_exc (read_container other j) (\<lambda>c. Inr [c])))))"

definition cid_match :: "string \<Rightarrow> string \<Rightarrow> bool" where
  "cid_match a b \<longleftrightarrow> a \<noteq> [] \<and> b \<noteq> [] \<and> (a = b \<or> starts_with a b \<or> starts_with b a)"

section \<open>Containers\<close>

datatype fate = Keep_it | Spare_it | Remove_it | Tokenless

definition age_floor :: int where
  "age_floor = 600"

definition inflight_age :: int where
  "inflight_age = 900"

definition decide_container ::
  "string \<Rightarrow> int \<Rightarrow> int \<Rightarrow> bool \<Rightarrow> bool \<Rightarrow> runner_row option \<Rightarrow> fate \<times> string" where
  "decide_container cid age started live inflight runner =
     (let young = started \<le> 0 \<or> age < age_floor in
      if live \<and> (case runner of None \<Rightarrow> False | Some r \<Rightarrow> cid_match (opt_str (r_container r)) cid)
      then (Keep_it, ''live runner'')
      else if young then (Spare_it, ''age < 10m'')
      else if inflight then (Spare_it, ''open turn'')
      else if live \<and> runner = None then (Tokenless, ''no runners row'')
      else if live then (Remove_it, ''extra container'')
      else (Remove_it, ''no live session''))"

text \<open>What the pass knows when it begins.\<close>

definition decide_in :: "store \<Rightarrow> int \<Rightarrow> container \<Rightarrow> fate \<times> string" where
  "decide_in st now c =
     (let pk = ct_project c in
      decide_container (ct_id c) (now - ct_started c) (ct_started c) (is_live_project pk st)
        (project_has_open_turn now inflight_age pk st) (if pk = [] then None else get_runner pk st))"

text \<open>The dictionary of probe targets: the first container of a project.\<close>

definition setdefault :: "string \<Rightarrow> container \<Rightarrow> (string \<times> container) list \<Rightarrow> (string \<times> container) list" where
  "setdefault pk c ts = (if pk = [] \<or> pk \<in> fst ` set ts then ts else ts @ [(pk, c)])"

definition judge_container ::
  "store \<Rightarrow> int \<Rightarrow> bool \<Rightarrow> container \<Rightarrow> report \<times> (string \<times> container) list \<Rightarrow> report \<times> (string \<times> container) list" where
  "judge_container st now dry c x =
     (let (rep, ts) = x; (f, why) = decide_in st now c;
          e = \<lparr>x_id = ct_id c, x_project = ct_project c, x_age = now - ct_started c, x_reason = why\<rparr>;
          gone = (\<lambda>r. if dry then r else r\<lparr>removed := removed r @ [e]\<rparr>) in
      case f of
        Keep_it \<Rightarrow> (rep, setdefault (ct_project c) c ts)
      | Spare_it \<Rightarrow> (rep\<lparr>spared := spared rep @ [e]\<rparr>, ts)
      | Remove_it \<Rightarrow> (gone (rep\<lparr>orphans := orphans rep @ [e]\<rparr>), ts)
      | Tokenless \<Rightarrow> (gone (rep\<lparr>missing_runners := missing_runners rep @ [e]\<rparr>), ts))"

section \<open>Stale rows\<close>

fun clear_stale :: "bool \<Rightarrow> string list \<Rightarrow> runner_row list \<Rightarrow> report \<Rightarrow> report act" where
  "clear_stale dry seen [] rep = ret rep"
| "clear_stale dry seen (r # rs) rep =
     (let rid = opt_str (r_container r); row = (r_project r, rid) in
      if rid = [] \<or> list_ex (cid_match rid) seen then clear_stale dry seen rs rep
      else (let rep' = rep\<lparr>stale_runners := stale_runners rep @ [row]\<rparr> in
        if dry then clear_stale dry seen rs rep'
        else seq (on_db (\<lambda>st. fst (delete_runner (r_project r) st)))
               (clear_stale dry seen rs (rep'\<lparr>cleared_rows := cleared_rows rep' @ [row]\<rparr>))))"

section \<open>Probes\<close>

definition record_unattached :: "report \<Rightarrow> string \<Rightarrow> string \<Rightarrow> string \<Rightarrow> report" where
  "record_unattached rep pk cid why = rep\<lparr>unattached := unattached rep @ [(pk, cid, why)]\<rparr>"

text \<open>One target: at most one write, the time the runner was seen.\<close>

definition probe_target :: "watch \<Rightarrow> bool \<Rightarrow> store \<Rightarrow> int \<Rightarrow> string \<times> container \<Rightarrow> report \<Rightarrow> report act" where
  "probe_target W dry st now x rep =
     (case x of (pk, c) \<Rightarrow>
       if project_has_open_turn now inflight_age pk st
       then ret (rep\<lparr>probe_skipped := probe_skipped rep @ [(pk, ct_id c)]\<rparr>)
       else (case get_runner pk st of
           None \<Rightarrow> ret rep
         | Some r \<Rightarrow>
             if \<not> ct_running c then ret (record_unattached rep pk (ct_id c) ''stopped'')
             else bnd (ask (\<lambda>i. w_probe W i r)) (\<lambda>p. case p of
                 None \<Rightarrow> ret (record_unattached rep pk (ct_id c) ''probe_error'')
               | Some p \<Rightarrow>
                   if \<not> serviceable p then ret (record_unattached rep pk (ct_id c) (pr_reason p))
                   else (let d = (case pr_payload p of None \<Rightarrow> [] | Some d \<Rightarrow> d);
                             shown = map (\<lambda>k. (k, dget d k)) [''rss_bytes'', ''cli_rss_kb'', ''rss_peak_bytes'', ''sampled_at''] in
                     seq (only_if (\<not> dry) (sql (w_env W) (\<lambda>t st. fst (touch_runner_seen t pk (Some now) st))))
                       (ret (rep\<lparr>attached := attached rep @ [(pk, ct_id c, pr_reason p, shown)]\<rparr>))))))"

fun probe_attachments :: "watch \<Rightarrow> bool \<Rightarrow> store \<Rightarrow> int \<Rightarrow> (string \<times> container) list \<Rightarrow> report \<Rightarrow> report act" where
  "probe_attachments W dry st now [] rep = ret rep"
| "probe_attachments W dry st now (x # xs) rep =
     bnd (probe_target W dry st now x rep) (probe_attachments W dry st now xs)"

section \<open>Open turns\<close>

definition non_running :: "fsm_state list" where
  "non_running = [PAUSED_HUMAN, TEARDOWN, CLOSED]"

definition resume_max_attempts :: int where
  "resume_max_attempts = 2"

text \<open>\<open>_retire_turn\<close>; the notice is a log line.\<close>

definition retire_turn :: "watch \<Rightarrow> turn_row \<Rightarrow> string \<Rightarrow> bool \<Rightarrow> unit act" where
  "retire_turn W t why escalates =
     (let k = t_session t in
      bnd (now_s (w_env W)) (\<lambda>ended.
        seq (on_db (finish_turn (turn_id t) ended ''interrupted'' (Some (take 500 why)) None))
          (only_if (escalates \<and> k \<noteq> [])
             (bnd (watch_escalate W k (''interrupted turn '' @ turn_id t @ '' retired after failed resume: '' @ why) False)
                (\<lambda>_. ret ())))))"

definition turn_age :: "watch \<Rightarrow> int \<Rightarrow> turn_row \<Rightarrow> int" where
  "turn_age W now t = (if t_started t > 0 then now - t_started t else w_max_age W + 1)"

definition retire_reason :: "watch \<Rightarrow> int \<Rightarrow> turn_row \<Rightarrow> fsm_state option \<Rightarrow> string" where
  "retire_reason W now t state =
     (if state = None \<or> state \<in> Some ` set non_running
      then ''session '' @ (case state of None \<Rightarrow> ''unknown'' | Some v \<Rightarrow> state_name v) @ '' is not running''
      else ''age '' @ dec (turn_age W now t) @ ''s >= resume_max_age_s '' @ dec (w_max_age W))"

definition apply_open_turn :: "watch \<Rightarrow> bool \<Rightarrow> int \<Rightarrow> turn_row \<times> fsm_state option \<Rightarrow> report \<Rightarrow> report act" where
  "apply_open_turn W dry now x rep =
     (case x of (t, state) \<Rightarrow>
        let gone = rep\<lparr>retired := retired rep + 1\<rparr>; again = rep\<lparr>resumed := resumed rep + 1\<rparr> in
        bnd (ask (\<lambda>i. w_flying W i (turn_id t))) (\<lambda>flying.
          if flying then ret rep
          else if state = None \<or> state \<in> Some ` set non_running \<or> turn_age W now t \<ge> w_max_age W
          then (if dry then ret gone else seq (retire_turn W t (retire_reason W now t state) False) (ret gone))
          else if t_status t = Some ''resuming'' then ret rep
          else if t_resumes t \<ge> resume_max_attempts
          then (if dry then ret gone else seq (retire_turn W t ''resume failed twice'' True) (ret gone))
          else if dry then ret again
          else seq (on_db (\<lambda>st. fst (mark_turn_resuming (turn_id t) st))) (ret again)))"

fun apply_open_turns :: "watch \<Rightarrow> bool \<Rightarrow> int \<Rightarrow> (turn_row \<times> fsm_state option) list \<Rightarrow> report \<Rightarrow> report act" where
  "apply_open_turns W dry now [] rep = ret rep"
| "apply_open_turns W dry now (x # xs) rep =
     (if turn_id (fst x) = [] then apply_open_turns W dry now xs rep
      else bnd (apply_open_turn W dry now x rep) (apply_open_turns W dry now xs))"

definition handle_open_turns :: "watch \<Rightarrow> bool \<Rightarrow> report \<Rightarrow> report act" where
  "handle_open_turns W dry rep =
     bnd (now_s (w_env W)) (\<lambda>now. bnd (from_db list_open_turns) (\<lambda>ts.
       bnd (apply_open_turns W dry now ts rep) (\<lambda>rep.
         bnd (from_db list_open_turns) (\<lambda>ts. ret (rep\<lparr>open_turns := ts\<rparr>)))))"

section \<open>The pass\<close>

definition closed_live_rows :: "store \<Rightarrow> (session_row \<times> string \<times> nat) list" where
  "closed_live_rows st =
     map (\<lambda>(s, d). (s, d, count_open_artifacts (session_key s) st)) (list_live_sessions_with_closed_delivery st)"

definition first_report :: "store \<Rightarrow> report" where
  "first_report st = \<lparr>orphans = [], spared = [], removed = [], cleared_rows = [], missing_runners = [], stale_runners = [],
     open_turns = list_open_turns st, closed_live = closed_live_rows st, nodes_seen = 0, synthesized = 0, capped = 0,
     adopted = 0, escalated = 0, holds_lifted = 0, retired = 0, resumed = 0, attached = [], unattached = [],
     probe_skipped = [], inventory_error = False\<rparr>"

definition sweep_and_turns :: "watch \<Rightarrow> bool \<Rightarrow> report \<Rightarrow> report act" where
  "sweep_and_turns W dry rep = bnd (sweep_github W dry rep) (handle_open_turns W dry)"

definition reconcile_containers :: "watch \<Rightarrow> bool \<Rightarrow> container list \<Rightarrow> report \<Rightarrow> report act" where
  "reconcile_containers W dry cs rep =
     bnd (now_s (w_env W)) (\<lambda>now. bnd (from_db id) (\<lambda>st.
       case fold (judge_container st now dry) cs (rep, []) of (rep, targets) \<Rightarrow>
         bnd (clear_stale dry (filter (\<lambda>i. i \<noteq> []) (map ct_id cs)) (runners st) rep)
           (probe_attachments W dry st now targets)))"

text \<open>\<open>reconcile_once\<close>: without an inventory nothing is removed, cleared or probed.\<close>

definition reconcile_once :: "watch \<Rightarrow> bool \<Rightarrow> report act" where
  "reconcile_once W dry =
     bnd (from_db first_report) (\<lambda>rep. bnd (ask (w_containers W)) (\<lambda>inv.
       case inv of
         None \<Rightarrow> sweep_and_turns W dry (rep\<lparr>inventory_error := True\<rparr>)
       | Some cs \<Rightarrow> bnd (reconcile_containers W dry cs rep) (sweep_and_turns W dry)))"

end
