(* ===== verification/Reconcile_Facts.thy ===== *)
theory Reconcile_Facts
  imports Reconciler
begin

text \<open>
  What a reconcile pass may remove, what it keeps, and how often it hands an interrupted turn back.
\<close>

section \<open>Containers\<close>

lemma decide_fate:
  "fst (decide_container cid age started live inflight runner) \<in> {Remove_it, Tokenless} \<Longrightarrow>
    0 < started \<and> age_floor \<le> age \<and> \<not> inflight \<and>
    \<not> (live \<and> (case runner of None \<Rightarrow> False | Some r \<Rightarrow> cid_match (opt_str (r_container r)) cid))"
  by (auto simp: decide_container_def Let_def split: if_splits option.splits)

text \<open>A container that the pass may remove.\<close>

definition removable :: "store \<Rightarrow> int \<Rightarrow> container \<Rightarrow> bool" where
  "removable st now c \<longleftrightarrow> 0 < ct_started c \<and> ct_started c + 600 \<le> now \<and>
     \<not> project_has_open_turn now 900 (ct_project c) st \<and>
     \<not> (is_live_project (ct_project c) st \<and> (\<exists>r. get_runner (ct_project c) st = Some r \<and> cid_match (opt_str (r_container r)) (ct_id c)))"

lemma decide_removable:
  assumes "fst (decide_in st now c) \<in> {Remove_it, Tokenless}"
  shows "removable st now c"
proof -
  let ?r = "if ct_project c = [] then None else get_runner (ct_project c) st"
  have f: "0 < ct_started c \<and> 600 \<le> now - ct_started c \<and> \<not> project_has_open_turn now 900 (ct_project c) st \<and>
      \<not> (is_live_project (ct_project c) st \<and> (case ?r of None \<Rightarrow> False | Some r \<Rightarrow> cid_match (opt_str (r_container r)) (ct_id c)))"
    using decide_fate [OF assms [unfolded decide_in_def Let_def]] by (simp only: age_floor_def inflight_age_def simp_thms)
  have "\<not> (is_live_project (ct_project c) st \<and> (\<exists>r. get_runner (ct_project c) st = Some r \<and> cid_match (opt_str (r_container r)) (ct_id c)))"
  proof
    assume a: "is_live_project (ct_project c) st \<and> (\<exists>r. get_runner (ct_project c) st = Some r \<and> cid_match (opt_str (r_container r)) (ct_id c))"
    then have "ct_project c \<noteq> []" by (simp add: is_live_project_def)
    with a f show False by auto
  qed
  with f show ?thesis by (simp add: removable_def)
qed

lemma judged_removals:
  assumes "x \<in> set (removed (fst (fold (judge_container st now dry) cs (rep, ts))))"
  shows "x \<in> set (removed rep) \<or> (\<not> dry \<and> (\<exists>c \<in> set cs. removable st now c \<and> x_id x = ct_id c))"
  using assms
proof (induction cs arbitrary: rep ts)
  case (Cons c cs)
  obtain rep1 ts1 where j: "judge_container st now dry c (rep, ts) = (rep1, ts1)" by fastforce
  have one: "y \<in> set (removed rep) \<or> (\<not> dry \<and> removable st now c \<and> x_id y = ct_id c)" if "y \<in> set (removed rep1)" for y
    using j that decide_removable [of st now c]
    by (cases "decide_in st now c") (auto simp: judge_container_def Let_def split: fate.splits if_splits)
  from Cons.IH [of rep1 ts1] Cons.prems j one show ?case by auto
qed simp

lemma stale_removed: "results (clear_stale dry seen rs rep) (\<lambda>rep'. removed rep' = removed rep)"
proof (induction rs arbitrary: rep)
  case (Cons r rs)
  have "results (clear_stale dry seen rs rep1) (\<lambda>rep'. removed rep' = removed rep)" if "removed rep1 = removed rep" for rep1
    using Cons [of rep1] that by simp
  then show ?case by (auto simp: Let_def intro!: results_if results_seq)
qed (simp add: results_ret)

lemma probe_removed: "results (probe_attachments W dry st now xs rep) (\<lambda>rep'. removed rep' = removed rep)"
proof (induction xs arbitrary: rep)
  case (Cons x xs)
  have "results (probe_target W dry st now x rep) (\<lambda>rep'. removed rep' = removed rep)"
    by (cases x) (auto simp: probe_target_def record_unattached_def Let_def
        intro!: results_ret results_seq results_bnd [OF results_any] split: option.split)
  then show ?case
    by (simp only: probe_attachments.simps) (rule results_bnd, assumption, metis Cons)
qed (simp add: results_ret)

text \<open>C31: no container is removed that a live project's runner row names, that started less than ten
  minutes ago or has no start time, or whose project has an open turn that was started less than fifteen
  minutes ago; a dry run removes none.  An open turn older than that does not protect its container: the
  age bound of ADR-20.\<close>

theorem removals_are_safe:
  assumes "reconcile_containers W dry cs rep l = (l', Inr rep')" "x \<in> set (removed rep')" "x \<notin> set (removed rep)"
  shows "\<not> dry \<and> (\<exists>c \<in> set cs. x_id x = ct_id c \<and> removable (db l) \<lfloor>e_now (w_env W) (tick l)\<rfloor> c)"
proof -
  let ?now = "\<lfloor>e_now (w_env W) (tick l)\<rfloor>"
  obtain rep1 ts where j: "fold (judge_container (db l) ?now dry) cs (rep, []) = (rep1, ts)" by fastforce
  have A: "results (bnd (clear_stale dry seen rs rep1) (probe_attachments W dry (db l) ?now ts)) (\<lambda>rep'. removed rep' = removed rep1)"
    for seen rs
    by (rule results_bnd [OF stale_removed]) (metis probe_removed)
  have "reconcile_containers W dry cs rep l =
      bnd (clear_stale dry (filter (\<lambda>i. i \<noteq> []) (map ct_id cs)) (runners (db l)) rep1)
        (probe_attachments W dry (db l) ?now ts) (l\<lparr>tick := Suc (tick l)\<rparr>)"
    using j by (simp add: reconcile_containers_def now_s_def ask_def bnd_def from_db_def reads_def)
  from resultsD [OF A this [symmetric, THEN trans, OF assms(1)]] have "removed rep' = removed rep1" .
  with assms(2) j have "x \<in> set (removed (fst (fold (judge_container (db l) ?now dry) cs (rep, []))))" by simp
  from judged_removals [OF this] assms(3) show ?thesis by blast
qed


section \<open>Frames\<close>

context loop_frame
begin

lemma keeps_given: "(b \<Longrightarrow> keeps R m) \<Longrightarrow> (\<not> b \<Longrightarrow> keeps R n) \<Longrightarrow> keeps R (if b then m else n)"
  by simp

lemma turns_by:
  assumes esc: "\<And>k why h. \<not> dry \<Longrightarrow> keeps R (watch_escalate W k why h)"
    and fin: "\<And>i e m s. \<not> dry \<Longrightarrow> keeps R (on_db (finish_turn i e m s None))"
    and mark: "\<And>t :: turn_row. \<not> dry \<Longrightarrow> t_resumes t < 2 \<Longrightarrow> keeps R (on_db (\<lambda>st. fst (mark_turn_resuming (turn_id t) st)))"
  shows "keeps R (handle_open_turns W dry rep)"
proof -
  have one: "keeps R (apply_open_turn W dry now x rep)" for now x rep
  proof (cases x)
    case (Pair t v)
    have retire: "keeps R (retire_turn W t why b)" if "\<not> dry" for why b
      unfolding retire_turn_def Let_def using that by (intro keeps_rules fin esc)
    show ?thesis
      unfolding apply_open_turn_def Let_def Pair prod.case resume_max_attempts_def
      by (intro keeps_bnd keeps_ask keeps_given keeps_ret retire mark) simp_all
  qed
  have "keeps R (apply_open_turns W dry now xs rep)" for now xs rep
    by (induction xs arbitrary: rep) (auto intro!: keeps_rules one)
  then show ?thesis unfolding handle_open_turns_def by (intro keeps_rules)
qed

lemma reconcile_by:
  assumes field: "\<And>k f. \<not> dry \<Longrightarrow> sweep_field f \<Longrightarrow> keeps R (set_fields (w_env W) k [f])"
    and esc: "\<And>k why h. \<not> dry \<Longrightarrow> keeps R (watch_escalate W k why h)"
    and enq: "\<And>did ev act s who p. \<not> dry \<Longrightarrow> keeps R (enqueue W did ev act s who p)"
    and turns: "\<And>rep. keeps R (handle_open_turns W dry rep)"
    and del: "\<And>pk. \<not> dry \<Longrightarrow> keeps R (on_db (\<lambda>st. fst (delete_runner pk st)))"
    and touch: "\<And>t pk now. \<not> dry \<Longrightarrow> keeps R (on_db (\<lambda>st. fst (touch_runner_seen t pk now st)))"
  shows "keeps R (reconcile_once W dry)"
proof -
  have stale: "keeps R (clear_stale dry seen rs rep)" for seen rs rep
    by (induction rs arbitrary: rep; cases dry) (simp_all add: keeps_rules del Let_def)
  have target: "keeps R (probe_target W dry st now x rep)" for st now x rep
  proof (cases x)
    case (Pair pk c)
    have "keeps R (only_if (\<not> dry) (sql (w_env W) (\<lambda>t st. fst (touch_runner_seen t pk (Some now) st))))"
      by (cases dry) (simp_all add: only_if_def keeps_ret keeps_sql touch)
    then show ?thesis unfolding Pair probe_target_def prod.case Let_def
      by (intro keeps_ret keeps_bnd keeps_ask keeps_if keeps_option)
  qed
  have probes: "keeps R (probe_attachments W dry st now xs rep)" for st now xs rep
    by (induction xs arbitrary: rep) (auto intro!: keeps_rules target)
  have sweep: "keeps R (sweep_github W dry rep)" for rep
    by (rule sweep_by) (simp_all add: field esc enq)
  have rest: "keeps R (sweep_and_turns W dry rep)" for rep
    unfolding sweep_and_turns_def by (intro keeps_rules sweep turns)
  have containers: "keeps R (reconcile_containers W dry cs rep)" for cs rep
    unfolding reconcile_containers_def by (intro keeps_rules stale probes)
  show ?thesis
    unfolding reconcile_once_def by (intro keeps_rules containers rest)
qed

end

text \<open>A dry reconcile pass changes no row of any table and sends nothing.\<close>

theorem dry_reconcile_is_pure:
  "db (fst (reconcile_once W True l)) = db l \<and> sent (fst (reconcile_once W True l)) = sent l"
  using untouched.reconcile_by [of True W, OF _ _ _ untouched.turns_by] by (simp add: keeps_def untouched_def)

lemma keeps_escalate_by: "(\<And>E k role why rd h. keeps R (escalate E k role why rd h)) \<Longrightarrow> loop_frame R \<Longrightarrow> keeps R (watch_escalate W k why h)"
  by (intro watch_escalate_keeps)

lemma reconcile_wf: "keeps wf_kept (reconcile_once W dry)"
  by (intro wf.reconcile_by wf.turns_by wf.keeps_fields keeps_escalate_by wf.escalate_kept wf.loop_frame_axioms enqueue_keeps
        wf.keeps_on_db q_finish keeps_modify_db)
     (auto simp: wf_kept_def wf_insert_delivery wf_mark_resuming wf_delete_runner wf_touch_runner)

section \<open>Resumed at most twice\<close>

definition resumes_ok :: "store \<Rightarrow> bool" where
  "resumes_ok st \<longleftrightarrow> (\<forall>t \<in> set (turns st). t_resumes t \<le> 2)"

definition resumes_kept :: "loop \<Rightarrow> loop \<Rightarrow> bool" where
  "resumes_kept l l' \<longleftrightarrow> (resumes_ok (db l) \<longrightarrow> resumes_ok (db l'))"

lemma resumes_set: "resumes_ok st \<longleftrightarrow> list_all (\<lambda>t. t_resumes t \<le> 2) (turns st)"
  by (simp add: resumes_ok_def list_all_iff)

lemma resumes_upd: "(\<And>t. t_resumes (f t) = t_resumes t) \<Longrightarrow>
    list_all (\<lambda>t. t_resumes t \<le> 2) (upd_where P f ts) = list_all (\<lambda>t. t_resumes t \<le> 2) ts"
  by (induction ts) simp_all

lemma resumes_finish [simp]: "resumes_ok (finish_turn i e v s a st) = resumes_ok st"
  by (simp add: resumes_set finish_turn_def upd_open_turn_def resumes_upd)

lemma resumes_clear [simp]: "resumes_ok (clear_turn_resuming i st) = resumes_ok st"
  by (simp add: resumes_set clear_turn_resuming_def resumes_upd)

lemma resumes_quiet: "quiet_call k f \<Longrightarrow> resumes_ok st \<Longrightarrow> resumes_ok (f st)"
  by (erule quiet_call.cases) (simp_all, simp_all add: resumes_set)

lemma resumes_insert: "resumes_ok st \<Longrightarrow> resumes_ok (fst (insert_turn t st))"
  by (simp add: insert_turn_def resumes_set)

lemma resumes_attach: "attaches k st st' \<Longrightarrow> resumes_ok st \<Longrightarrow> resumes_ok st'"
  by (simp add: attaches_def resumes_set)

interpretation resumes: whole resumes_kept k for k
  by unfold_locales
     (simp_all add: resumes_kept_def resumes_quiet resumes_insert resumes_attach, simp_all add: resumes_set)

text \<open>The ids and attempts of all turns.\<close>

definition attempts_of :: "loop \<Rightarrow> (string \<times> int) list" where
  "attempts_of l = map (\<lambda>t. (turn_id t, t_resumes t)) (turns (db l))"

definition same_attempts :: "loop \<Rightarrow> loop \<Rightarrow> bool" where
  "same_attempts l l' \<longleftrightarrow> attempts_of l' = attempts_of l"

lemma attempts_upd: "(\<And>t. turn_id (f t) = turn_id t \<and> t_resumes (f t) = t_resumes t) \<Longrightarrow>
    map (\<lambda>t. (turn_id t, t_resumes t)) (upd_where P f ts) = map (\<lambda>t. (turn_id t, t_resumes t)) ts"
  by (induction ts) simp_all

lemma attempts_quiet: "quiet_call k f \<Longrightarrow> same_attempts l (l\<lparr>db := f (db l)\<rparr>)"
  by (erule quiet_call.cases) (simp_all add: same_attempts_def attempts_of_def finish_turn_def upd_open_turn_def attempts_upd)

interpretation same_attempts: writing same_attempts k for k
  by unfold_locales (simp_all add: attempts_quiet, simp_all add: same_attempts_def attempts_of_def)

lemma retire_attempts: "keeps same_attempts (retire_turn W t why b)"
  unfolding retire_turn_def Let_def
  by (intro same_attempts.keeps_rules keeps_escalate_by same_attempts.escalate_kept same_attempts.loop_frame_axioms
        same_attempts.keeps_on_db q_finish)

lemma marked_attempts:
  "(i, n') \<in> set (attempts_of (l\<lparr>db := fst (mark_turn_resuming tid (db l))\<rparr>)) \<Longrightarrow>
    (i, n') \<in> set (attempts_of l) \<or> (i = tid \<and> (i, n' - 1) \<in> set (attempts_of l))"
  by (auto simp: attempts_of_def mark_turn_resuming_def upd_open_turn_def set_upd_where Let_def image_iff split: if_splits)

lemma run_simps:
  "bnd (ask f) g l = g (f (tick l)) (l\<lparr>tick := Suc (tick l)\<rparr>)" "fst (ret x l) = l"
  "fst (seq (on_db h) (ret x) l) = l\<lparr>db := h (db l)\<rparr>"
  by (simp_all add: bnd_def ask_def ret_def on_db_def modify_def)

lemma open_turn_attempts:
  assumes "(i, n') \<in> set (attempts_of (fst (apply_open_turn W dry now (t, v) rep l)))"
  shows "(i, n') \<in> set (attempts_of l) \<or> (t_resumes t < 2 \<and> i = turn_id t \<and> (i, n' - 1) \<in> set (attempts_of l))"
proof -
  let ?l = "l\<lparr>tick := Suc (tick l)\<rparr>"
  have a: "attempts_of ?l = attempts_of l" by (simp add: attempts_of_def)
  have r: "attempts_of (fst (seq (retire_turn W t why b) (ret x) ?l)) = attempts_of l" for why b and x :: report
  proof -
    have "keeps same_attempts (seq (retire_turn W t why b) (ret x))"
      by (intro same_attempts.keeps_bnd retire_attempts same_attempts.keeps_ret)
    then have "same_attempts ?l (fst (seq (retire_turn W t why b) (ret x) ?l))" by (simp only: keeps_def)
    with a show ?thesis by (simp add: same_attempts_def)
  qed
  show ?thesis
    using assms r marked_attempts [where i=i and n'=n' and l="?l" and tid="turn_id t"] a
    unfolding apply_open_turn_def Let_def prod.case resume_max_attempts_def
    by (auto simp: run_simps split: if_splits)
qed


text \<open>The attempts of the turns still ahead are those the list was read with.\<close>

lemma open_turns_bounded:
  assumes "distinct (map (\<lambda>x. turn_id (fst x)) xs)" "\<forall>(i, n) \<in> set (attempts_of l). n \<le> 2"
    and "\<forall>x \<in> set xs. \<forall>(i, n) \<in> set (attempts_of l). i = turn_id (fst x) \<longrightarrow> n = t_resumes (fst x)"
  shows "\<forall>(i, n) \<in> set (attempts_of (fst (apply_open_turns W dry now xs rep l))). n \<le> 2"
  using assms
proof (induction xs arbitrary: rep l)
  case Nil
  then show ?case by (simp add: ret_def)
next
  case (Cons x xs)
  show ?case
  proof (cases "turn_id (fst x) = []")
    case True
    with Cons show ?thesis by simp
  next
    case False
    obtain t v where x: "x = (t, v)" by (cases x)
    obtain l1 r where r: "apply_open_turn W dry now x rep l = (l1, r)" by fastforce
    have new: "(i, n) \<in> set (attempts_of l) \<or> (i = turn_id t \<and> n \<le> 2)" if "(i, n) \<in> set (attempts_of l1)" for i n
      using open_turn_attempts [of i n W dry now t v rep l] that r x Cons.prems(3) by fastforce
    show ?thesis
    proof (cases r)
      case (Inl e)
      have "\<forall>(i, n) \<in> set (attempts_of l1). n \<le> 2" using new Cons.prems(2) by fastforce
      with r False Inl show ?thesis by (simp add: bnd_def)
    next
      case (Inr rep1)
      have "\<forall>(i, n) \<in> set (attempts_of (fst (apply_open_turns W dry now xs rep1 l1))). n \<le> 2"
      proof (rule Cons.IH)
        show "\<forall>x \<in> set xs. \<forall>(i, n) \<in> set (attempts_of l1). i = turn_id (fst x) \<longrightarrow> n = t_resumes (fst x)"
        proof (clarify)
          fix a b i n assume y: "(a, b) \<in> set xs" and n: "(turn_id (fst (a, b)), n) \<in> set (attempts_of l1)"
          then have "turn_id a \<noteq> turn_id t" using Cons.prems(1) x by force
          with new [OF n] have "(turn_id a, n) \<in> set (attempts_of l)" by simp
          with Cons.prems(3) y show "n = t_resumes (fst (a, b))" by fastforce
        qed
        show "\<forall>(i, n) \<in> set (attempts_of l1). n \<le> 2" using new Cons.prems(2) by fastforce
        show "distinct (map (\<lambda>x. turn_id (fst x)) xs)" using Cons.prems(1) by simp
      qed
      with r Inr False show ?thesis by (simp add: bnd_def)
    qed
  qed
qed

lemma resumes_attempts: "resumes_ok (db l) \<longleftrightarrow> (\<forall>(i, n) \<in> set (attempts_of l). n \<le> 2)"
  by (auto simp: resumes_ok_def attempts_of_def)

lemma handled_turns_bounded:
  assumes "wf_store (db l)" "resumes_ok (db l)"
  shows "resumes_ok (db (fst (handle_open_turns W dry rep l)))"
proof -
  let ?now = "\<lfloor>e_now (w_env W) (tick l)\<rfloor>"
  let ?l = "l\<lparr>tick := Suc (tick l)\<rparr>"
  obtain l1 r where r: "apply_open_turns W dry ?now (list_open_turns (db l)) rep ?l = (l1, r)" by fastforce
  have ts: "distinct (map turn_id (turns (db l)))" using assms(1) by (simp add: wf_store_def)
  have "distinct (map (\<lambda>x. turn_id (fst x)) (list_open_turns (db l)))"
    using ts by (simp add: list_open_turns_def comp_def distinct_map inj_on_def)
  moreover have "n = t_resumes (fst x)" if "x \<in> set (list_open_turns (db l))" "(i, n) \<in> set (attempts_of ?l)"
    "i = turn_id (fst x)" for x i n
    using that ts by (auto simp: list_open_turns_def attempts_of_def distinct_map dest: inj_onD)
  moreover have "\<forall>(i, n) \<in> set (attempts_of ?l). n \<le> 2" using assms(2) resumes_attempts [of ?l] by simp
  ultimately have "\<forall>(i, n) \<in> set (attempts_of (fst (apply_open_turns W dry ?now (list_open_turns (db l)) rep ?l))). n \<le> 2"
    by (intro open_turns_bounded) blast+
  then have "\<forall>(i, n) \<in> set (attempts_of l1). n \<le> 2" using r by simp
  then show ?thesis
    using r by (cases r) (simp_all add: handle_open_turns_def now_s_def run_simps from_db_def bnd_reads,
      simp_all add: bnd_def reads_def ret_def resumes_attempts)
qed

definition steady :: "loop \<Rightarrow> loop \<Rightarrow> bool" where
  "steady l l' \<longleftrightarrow> (wf_store (db l) \<and> resumes_ok (db l) \<longrightarrow> wf_store (db l') \<and> resumes_ok (db l'))"

interpretation steady: loop_frame steady
  by unfold_locales (auto simp: steady_def)

lemma steady_both: "keeps wf_kept m \<Longrightarrow> keeps resumes_kept m \<Longrightarrow> keeps steady m"
  by (simp add: keeps_def wf_kept_def resumes_kept_def steady_def)

lemma escalate_steady: "keeps steady (escalate E k role why rd h)"
  by (intro steady_both wf.escalate_kept resumes.escalate_kept)

lemma reconcile_steady: "keeps steady (reconcile_once W dry)"
proof (rule steady.reconcile_by)
  fix rep
  have "keeps wf_kept (handle_open_turns W dry rep)"
    by (intro wf.turns_by keeps_escalate_by wf.escalate_kept wf.loop_frame_axioms wf.keeps_on_db q_finish keeps_modify_db)
       (simp add: wf_kept_def wf_mark_resuming)
  then show "keeps steady (handle_open_turns W dry rep)"
    by (simp add: keeps_def steady_def wf_kept_def handled_turns_bounded)
next
  fix did ev act s who p
  show "keeps steady (enqueue W did ev act s who p)"
    by (rule enqueue_keeps) (simp add: steady_def wf_insert_delivery resumes_set)
next
  show "keeps steady (watch_escalate W k why h)" for k why h
    by (intro keeps_escalate_by escalate_steady steady.loop_frame_axioms)
  show "keeps steady (set_fields (w_env W) k [f])" for k f
    by (intro steady_both wf.keeps_fields resumes.keeps_fields)
qed (rule keeps_modify_db, simp add: steady_def wf_delete_runner wf_touch_runner resumes_set)+

lemma dispatcher_steady: "keeps steady (dispatcher_loop E S looped n)"
proof (rule steady_both)
  show "keeps wf_kept (dispatcher_loop E S looped n)" using dispatcher_keeps_wf by (simp add: keeps_def wf_kept_def)
  have turn: "keeps resumes_kept (resume_one E x)" for x
    by (cases x) (auto intro!: resumes.keeps_resumed [OF refl] keeps_modify_db resumes.keeps_any_emit simp: resumes_kept_def)
  show "keeps resumes_kept (dispatcher_loop E S looped n)"
    using drain_kept [of resumes_kept E 20] resumes.whole_axioms
    by (intro resumes.dispatcher_by resumes.keeps_status resumes.resumes_by turn keeps_modify_db)
       (simp_all add: resumes_kept_def resumes_set)
qed

text \<open>The two threads of the gateway that work on the store, in any order.\<close>

datatype thread_step = Dispatcher_rounds signals bool nat | Reconcile_pass watch bool

fun run_step :: "env \<Rightarrow> thread_step \<Rightarrow> loop \<Rightarrow> loop" where
  "run_step E (Dispatcher_rounds S looped n) l = fst (dispatcher_loop E S looped n l)"
| "run_step E (Reconcile_pass W dry) l = fst (reconcile_once W dry l)"

lemma step_steady: "steady l (run_step E x l)"
  using dispatcher_steady reconcile_steady by (cases x) (simp_all add: keeps_def)

interpretation threads: invariant_machine "\<lambda>l. wf_store (db l) \<and> resumes_ok (db l)" "run_step E" for E
  using step_steady by unfold_locales (auto simp: steady_def)

text \<open>C30: however dispatcher rounds and reconcile passes alternate, and whatever docker, GitHub and the runners
  answer, the store stays well-formed and no turn is ever handed back for a third resume.\<close>

theorem resumed_at_most_twice:
  assumes "wf_store (db l)" "\<forall>t \<in> set (turns (db l)). t_resumes t \<le> 2"
  shows "wf_store (db (fold (run_step E) xs l)) \<and> (\<forall>t \<in> set (turns (db (fold (run_step E) xs l))). t_resumes t \<le> 2)"
  using threads.run_inv [of l E xs] assms by (simp add: resumes_ok_def)


section \<open>Runner rows\<close>

definition rows_stay :: "loop \<Rightarrow> loop \<Rightarrow> bool" where
  "rows_stay l l' \<longleftrightarrow> (\<forall>r' \<in> set (runners (db l')). \<exists>r \<in> set (runners (db l)). r' = r\<lparr>r_seen := r_seen r'\<rparr>)"

lemma rows_same: "runners (db l') = runners (db l) \<Longrightarrow> rows_stay l l'"
  unfolding rows_stay_def
proof
  fix r' assume "runners (db l') = runners (db l)" "r' \<in> set (runners (db l'))"
  then have "r' \<in> set (runners (db l))" by simp
  then show "\<exists>r \<in> set (runners (db l)). r' = r\<lparr>r_seen := r_seen r'\<rparr>" by (rule bexI [rotated]) simp
qed

lemma rows_trans: "rows_stay l l1 \<Longrightarrow> rows_stay l1 l2 \<Longrightarrow> rows_stay l l2"
  unfolding rows_stay_def
proof
  fix r2 assume a: "\<forall>r' \<in> set (runners (db l1)). \<exists>r \<in> set (runners (db l)). r' = r\<lparr>r_seen := r_seen r'\<rparr>"
    "\<forall>r' \<in> set (runners (db l2)). \<exists>r \<in> set (runners (db l1)). r' = r\<lparr>r_seen := r_seen r'\<rparr>" "r2 \<in> set (runners (db l2))"
  then obtain r1 where r1: "r1 \<in> set (runners (db l1))" "r2 = r1\<lparr>r_seen := r_seen r2\<rparr>" by blast
  with a(1) obtain r where r: "r \<in> set (runners (db l))" "r1 = r\<lparr>r_seen := r_seen r1\<rparr>" by blast
  have "r2 = r\<lparr>r_seen := r_seen r2\<rparr>" using r1(2) r(2) by (cases r; cases r1; cases r2) simp
  with r(1) show "\<exists>r \<in> set (runners (db l)). r2 = r\<lparr>r_seen := r_seen r2\<rparr>" by blast
qed

lemma runners_quiet: "quiet_call k f \<Longrightarrow> runners (f st) = runners st"
  by (erule quiet_call.cases) simp_all

interpretation rows_stay: writing rows_stay k for k
  by unfold_locales (auto intro: rows_same rows_trans simp: runners_quiet)

lemma rows_deleted: "rows_stay l (l\<lparr>db := fst (delete_runner pk (db l))\<rparr>)"
  unfolding rows_stay_def
proof
  fix r' assume "r' \<in> set (runners (db (l\<lparr>db := fst (delete_runner pk (db l))\<rparr>)))"
  then have "r' \<in> set (runners (db l))" by (simp add: delete_runner_def)
  then show "\<exists>r \<in> set (runners (db l)). r' = r\<lparr>r_seen := r_seen r'\<rparr>" by (rule bexI [rotated]) simp
qed

lemma rows_touched: "rows_stay l (l\<lparr>db := fst (touch_runner_seen t pk now (db l))\<rparr>)"
  unfolding rows_stay_def
proof
  fix r' assume "r' \<in> set (runners (db (l\<lparr>db := fst (touch_runner_seen t pk now (db l))\<rparr>)))"
  then obtain r where r: "r \<in> set (runners (db l))" "r' = r \<or> (\<exists>x. r' = r\<lparr>r_seen := x\<rparr>)"
    by (auto simp: touch_runner_seen_def Let_def set_upd_where)
  then have "r' = r\<lparr>r_seen := r_seen r'\<rparr>" by auto
  with r(1) show "\<exists>r \<in> set (runners (db l)). r' = r\<lparr>r_seen := r_seen r'\<rparr>" by (rule bexI [rotated])
qed

text \<open>The reconciler attaches and records but never repairs: every runner row after a pass is a row from
  before it, with at most the time it was last seen changed; tier, endpoint, token and container stay.\<close>

theorem runners_only_stamped:
  assumes "r' \<in> set (runners (db (fst (reconcile_once W dry l))))"
  shows "\<exists>r \<in> set (runners (db l)). r' = r\<lparr>r_seen := r_seen r'\<rparr>"
proof -
  have "keeps rows_stay (reconcile_once W dry)"
    by (intro rows_stay.reconcile_by rows_stay.turns_by rows_stay.keeps_fields keeps_escalate_by rows_stay.escalate_kept
          rows_stay.loop_frame_axioms rows_stay.keeps_on_db q_finish keeps_modify_db rows_deleted rows_touched
          enqueue_keeps)
       (simp_all add: rows_same)
  with assms show ?thesis by (simp add: keeps_def rows_stay_def)
qed

section \<open>Witnesses\<close>

definition two_containers :: "container list" where
  "two_containers = [\<lparr>ct_id = ''c1'', ct_project = ''o/r'', ct_started = 1, ct_running = True\<rparr>,
     \<lparr>ct_id = ''c2'', ct_project = ''o/r'', ct_started = 1, ct_running = True\<rparr>]"

definition patrol :: watch where
  "patrol = (watching swept_get)\<lparr>w_env := (example_env (Some ''t'') swept_get)\<lparr>e_now := (\<lambda>_. 5000)\<rparr>,
     w_containers := (\<lambda>_. Some two_containers),
     w_probe := (\<lambda>_ _. Some \<lparr>serviceable = True, pr_reason = ''attached'', pr_payload = None\<rparr>)\<rparr>"

definition patrolled :: store where
  "patrolled = upsert_runner 1 ''o/r'' ''c1'' ''127.0.0.1:1'' ''b'' ''hot'' (session_in CODE_REVIEW)"

theorem removals_are_safe_witness:
  "\<exists>c \<in> set two_containers. ct_id c = ''c2'' \<and> removable patrolled 5000 c"
proof -
  obtain l' rep' where r: "reconcile_containers patrol False two_containers no_report (example_loop patrolled) = (l', Inr rep')"
    "map x_id (removed rep') = [''c2'']"
  proof -
    have "case reconcile_containers patrol False two_containers no_report (example_loop patrolled) of
      (_, Inr rep) \<Rightarrow> map x_id (removed rep) = [''c2''] | _ \<Rightarrow> False" by code_simp
    with that show thesis by (auto split: prod.splits sum.splits)
  qed
  then obtain x where x: "x \<in> set (removed rep')" "x_id x = ''c2''" by (cases "removed rep'") auto
  have "x \<notin> set (removed no_report)" by (simp add: no_report_def)
  from removals_are_safe [OF r(1) x(1) this] x(2) show ?thesis
    by (auto simp: patrol_def example_env_def)
qed

theorem runners_only_stamped_witness:
  "\<exists>r \<in> set (runners patrolled). r_tier r = ''hot''"
proof -
  have "map (\<lambda>r. (r_tier r, r_seen r)) (runners (db (fst (reconcile_once patrol False (example_loop patrolled))))) =
      [(''hot'', Some 5000)]" by code_simp
  then obtain r' where "r' \<in> set (runners (db (fst (reconcile_once patrol False (example_loop patrolled)))))" "r_tier r' = ''hot''"
    by fastforce
  with runners_only_stamped [of r' patrol False "example_loop patrolled"] show ?thesis
    by (metis example_db runner_row.select_convs(5) runner_row.surjective runner_row.update_convs(6))
qed

definition left_open :: store where
  "left_open = fst (insert_turn \<lparr>turn_id = ''t1'', t_session = ''o/r#1'', t_role = ''developer'', t_delivery = None,
     t_started = 4000, t_ended = None, t_status = None, t_summary = None, t_actions = None, t_resumes = 0\<rparr> (session_in IMPLEMENTING))"

definition quiet_patrol :: watch where
  "quiet_patrol = patrol\<lparr>w_sweeps := False\<rparr>"

lemma marked_once: "map t_resumes (turns (db (fst (reconcile_once quiet_patrol False (example_loop left_open))))) = [1]"
  by code_simp

theorem resumed_at_most_twice_witness:
  "list_all (\<lambda>t. t_resumes t \<le> 2) (turns (db (fold (run_step online) [Reconcile_pass quiet_patrol False,
     Dispatcher_rounds \<lparr>stopping = (\<lambda>_. False), governed = (\<lambda>_. None)\<rparr> True 2, Reconcile_pass quiet_patrol False]
     (example_loop left_open))))"
proof -
  have "wf_store left_open" by (simp add: left_open_def wf_insert_turn wf_session_in)
  moreover have "\<forall>t \<in> set (turns left_open). t_resumes t \<le> 2" by code_simp
  ultimately show ?thesis unfolding list_all_iff by (intro conjunct2 [OF resumed_at_most_twice]) simp_all
qed

end
