(* ===== verification/Runner_Actions.thy ===== *)
theory Runner_Actions
  imports Json
begin

text \<open>
  What an agent's tool calls did to GitHub, read off the vendors' streams
  (\<open>agentd/docker/session-runner/agentd_runner/public_actions.py\<close>).  The patterns ignore case: they are
  matched on the lowered text.  \<open>before\<close> is the character left of a position, for \<open>\b\<close> and \<open>(?<!\w)\<close>.
\<close>

section \<open>Patterns\<close>

definition ends_word :: "string \<Rightarrow> bool" where
  "ends_word s \<longleftrightarrow> s = [] \<or> \<not> is_word (hd s)"

definition no_word_before :: "char option \<Rightarrow> bool" where
  "no_word_before c = (case c of None \<Rightarrow> True | Some c \<Rightarrow> \<not> is_word c)"

text \<open>Words with \<open>\s+\<close> between them, from the start of the string: what is left.\<close>

fun words_at :: "string list \<Rightarrow> string \<Rightarrow> string option" where
  "words_at [] s = Some s"
| "words_at [w] s = (if starts_with s w then Some (drop (length w) s) else None)"
| "words_at (w # ws) s =
     (if starts_with s w \<and> drop (length w) s \<noteq> [] \<and> is_space (hd (drop (length w) s))
      then words_at ws (dropWhile is_space (drop (length w) s)) else None)"

text \<open>\<open>\bw1\s+w2...\b\<close>, anywhere.\<close>

fun word_search :: "string list \<Rightarrow> char option \<Rightarrow> string \<Rightarrow> bool" where
  "word_search ws prev [] = False"
| "word_search ws prev (c # cs) =
     ((no_word_before prev \<and> (case words_at ws (c # cs) of None \<Rightarrow> False | Some t \<Rightarrow> ends_word t))
      \<or> word_search ws (Some c) cs)"

text \<open>A flag: whether a word character may precede it, its text, and whether \<open>=\<close> or a space must follow.\<close>

type_synonym flag = "bool \<times> string \<times> bool"

definition flag_at :: "char option \<Rightarrow> string \<Rightarrow> flag \<Rightarrow> bool" where
  "flag_at prev s f =
     (case f of (free, w, valued) \<Rightarrow>
        (free \<or> no_word_before prev) \<and> starts_with s w \<and>
        (let t = drop (length w) s in
         if valued then t \<noteq> [] \<and> (hd t = CHR ''='' \<or> is_space (hd t)) else ends_word t))"

fun flag_search :: "flag list \<Rightarrow> char option \<Rightarrow> string \<Rightarrow> bool" where
  "flag_search fs prev [] = False"
| "flag_search fs prev (c # cs) = (list_ex (flag_at prev (c # cs)) fs \<or> flag_search fs (Some c) cs)"

definition gh_patterns :: "(string list \<times> string) list" where
  "gh_patterns =
    [([''gh'', ''pr'', ''create''], ''pr_opened''), ([''gh'', ''pr'', ''edit''], ''pr_edit''),
     ([''gh'', ''pr'', ''merge''], ''merge''), ([''gh'', ''pr'', ''close''], ''pr_close''),
     ([''gh'', ''pr'', ''ready''], ''pr_ready''), ([''gh'', ''pr'', ''review''], ''review''),
     ([''gh'', ''pr'', ''comment''], ''comment''), ([''gh'', ''issue'', ''comment''], ''comment''),
     ([''gh'', ''issue'', ''create''], ''issue_create''), ([''gh'', ''issue'', ''edit''], ''issue_edit''),
     ([''gh'', ''issue'', ''close''], ''issue_close'')]"

definition gh_api_body :: "flag list" where
  "gh_api_body = [(False, ''-f'', True), (True, ''--raw-field'', False), (True, ''--field'', False), (True, ''--input'', False)]"

definition curl_body :: "flag list" where
  "curl_body = [(False, ''-d'', True), (False, ''--data'', False), (False, ''--data-raw'', False),
     (False, ''--data-binary'', False), (False, ''--data-urlencode'', False), (False, ''--json'', False),
     (False, ''-t'', True), (False, ''--upload-file'', False)]"

definition http_verbs :: "string list" where
  "http_verbs = [''get'', ''post'', ''put'', ''patch'', ''delete'', ''head'', ''options'']"

definition write_methods :: "string list" where
  "write_methods = [''POST'', ''PATCH'', ''PUT'', ''DELETE'']"

definition read_methods :: "string list" where
  "read_methods = [''GET'', ''HEAD'', ''OPTIONS'']"

text \<open>\<open>_HTTP_METHOD\<close> at the start of the string: the verb and the length of the match.\<close>

definition method_at :: "string \<Rightarrow> (string \<times> nat) option" where
  "method_at s =
     (case find (starts_with s) [''-x'', ''--method'', ''--request''] of
        None \<Rightarrow> None
      | Some p \<Rightarrow>
          let t = drop (length p) s; u = dropWhile is_space t in
          if t = u then None
          else (case find (\<lambda>v. starts_with u v \<and> ends_word (drop (length v) u)) http_verbs of
              None \<Rightarrow> None
            | Some v \<Rightarrow> Some (py_upper v, length s - length u + length v)))"

text \<open>\<open>finditer\<close>: the matches from left to right, each search starting where the last match ended.\<close>

fun methods_from :: "nat \<Rightarrow> string \<Rightarrow> string list" where
  "methods_from skip [] = []"
| "methods_from (Suc skip) (c # cs) = methods_from skip cs"
| "methods_from 0 (c # cs) =
     (case method_at (c # cs) of
        None \<Rightarrow> methods_from 0 cs
      | Some (v, n) \<Rightarrow> v # methods_from (n - 1) cs)"

definition explicit_http_methods :: "string \<Rightarrow> string list" where
  "explicit_http_methods text = methods_from 0 (py_lower text)"

text \<open>An explicit read method dominates; without a method, a body flag means POST.\<close>

definition is_write_call :: "flag list \<Rightarrow> string \<Rightarrow> bool" where
  "is_write_call body text =
     (let ms = explicit_http_methods text in
      if ms \<noteq> [] then \<not> list_ex (\<lambda>m. m \<in> set read_methods) ms \<and> list_ex (\<lambda>m. m \<in> set write_methods) ms
      else flag_search body None (py_lower text))"

definition gh_api_is_write :: "string \<Rightarrow> bool" where
  "gh_api_is_write = is_write_call gh_api_body"

definition curl_github_is_write :: "string \<Rightarrow> bool" where
  "curl_github_is_write = is_write_call curl_body"

section \<open>Commands and tools\<close>

definition shell_action :: "string \<Rightarrow> string \<Rightarrow> dict" where
  "shell_action kind text = [(''kind'', JStr kind), (''tool'', JStr ''Bash''), (''command'', JStr (take 500 text))]"

definition classify_shell_command :: "string \<Rightarrow> dict option" where
  "classify_shell_command cmd =
     (let text = py_strip cmd; low = py_lower text in
      if text = [] then None
      else (case find (\<lambda>(p, _). word_search p None low) gh_patterns of
          Some (_, kind) \<Rightarrow> Some (shell_action kind text)
        | None \<Rightarrow>
            if word_search [''gh'', ''api''] None low \<and> gh_api_is_write text then Some (shell_action ''api_write'' text)
            else if word_search [''git'', ''push''] None low then Some (shell_action ''push'' text)
            else if contains ''api.github.com'' low \<and> curl_github_is_write text then Some (shell_action ''api_write'' text)
            else None))"

text \<open>\<open>act[k] = v\<close>.\<close>

fun dput :: "dict \<Rightarrow> string \<Rightarrow> json \<Rightarrow> dict" where
  "dput [] k v = [(k, v)]"
| "dput ((k', v') # d) k v = (if k' = k then (k, v) # d else (k', v') # dput d k v)"

definition clip_value :: "json \<Rightarrow> json" where
  "clip_value v =
     (case v of
        JStr s \<Rightarrow> JStr (take 200 s) | JNum _ \<Rightarrow> v | JBool _ \<Rightarrow> v | JNull \<Rightarrow> v
      | _ \<Rightarrow> JStr (take 200 (py_str v)))"

definition clip_input :: "dict \<Rightarrow> dict" where
  "clip_input inp = map (\<lambda>(k, v). (k, clip_value v)) (take 12 inp)"

fun first_command :: "string \<Rightarrow> dict \<Rightarrow> string list \<Rightarrow> dict option" where
  "first_command tool d [] = None"
| "first_command tool d (k # ks) =
     (case dget d k of
        JStr s \<Rightarrow> (case classify_shell_command s of
            Some act \<Rightarrow> Some (dput act ''tool'' (JStr tool))
          | None \<Rightarrow> first_command tool d ks)
      | _ \<Rightarrow> first_command tool d ks)"

definition tool_action :: "string \<Rightarrow> string \<Rightarrow> dict \<Rightarrow> dict" where
  "tool_action kind tool inp = [(''kind'', JStr kind), (''tool'', JStr tool), (''input'', JObj (clip_input inp))]"

definition named_tool :: "string \<Rightarrow> dict \<Rightarrow> dict option" where
  "named_tool tool inp =
     (let low = py_lower tool;
          url = str_or_empty (py_or (dget inp ''url'') (dget inp ''path''));
          meth = py_upper (str_or_empty (py_or (dget inp ''method'') (dget inp ''http_method''))) in
      if list_ex (\<lambda>x. contains x low) [''create_pull_request'', ''create_pr'', ''pull_request_create'', ''createpullrequest'']
      then Some (tool_action ''pr_opened'' tool inp)
      else if list_ex (\<lambda>x. contains x low) [''create_issue_comment'', ''add_issue_comment'',
                ''pull_request_review_comment'', ''create_review'', ''submit_review'']
      then Some (tool_action (if contains ''review'' low then ''review'' else ''comment'') tool inp)
      else if contains ''merge'' low \<and> (contains ''pr'' low \<or> contains ''pull'' low)
      then Some (tool_action ''merge'' tool inp)
      else if contains ''api.github.com'' (py_lower url) \<and> meth \<in> set write_methods
      then Some [(''kind'', JStr ''api_write''), (''tool'', JStr tool), (''method'', JStr meth), (''url'', JStr (take 300 url))]
      else None)"

definition classify_tool_use :: "string \<Rightarrow> json \<Rightarrow> dict option" where
  "classify_tool_use name input =
     (let tool = py_strip name; inp = json_obj input in
      if tool = [] then None
      else (case first_command tool inp [''command'', ''cmd'', ''script''] of
          Some act \<Rightarrow> Some act
        | None \<Rightarrow> (case first_command tool (json_obj (dget inp ''args'')) [''command'', ''cmd''] of
              Some act \<Rightarrow> Some act
            | None \<Rightarrow> named_tool tool inp)))"

section \<open>Streams\<close>

definition tool_block :: "dict \<Rightarrow> dict list" where
  "tool_block block =
     (if dget block ''type'' \<noteq> JStr ''tool_use'' then []
      else (case classify_tool_use (str_or_empty (dget block ''name'')) (dget block ''input'') of
          None \<Rightarrow> []
        | Some act \<Rightarrow> [if truthy (dget block ''id'') then dput act ''tool_use_id'' (JStr (py_str (dget block ''id''))) else act]))"

definition from_claude_message_content :: "json \<Rightarrow> dict list" where
  "from_claude_message_content content =
     (case content of JArr bs \<Rightarrow> concat (map (\<lambda>b. case b of JObj d \<Rightarrow> tool_block d | _ \<Rightarrow> []) bs) | _ \<Rightarrow> [])"

definition from_claude_stream_obj :: "dict \<Rightarrow> dict list" where
  "from_claude_stream_obj obj =
     (if dget obj ''type'' = JStr ''assistant''
      then from_claude_message_content (dget (json_obj (dget obj ''message'')) ''content'')
      else if dget obj ''type'' = JStr ''content_block_start'' then tool_block (json_obj (dget obj ''content_block''))
      else [])"

definition py_ors :: "json list \<Rightarrow> json" where
  "py_ors js = foldr py_or js JNull"

definition from_grok_session_update :: "dict \<Rightarrow> dict list" where
  "from_grok_session_update u =
     (let kind = str_or_empty (py_or (dget u ''sessionUpdate'') (dget u ''session_update''));
          name = py_str (py_or (py_ors [dget u ''title'', dget u ''toolName'', dget u ''name'', dget u ''kind'']) (JStr ''tool''));
          raw = py_or (py_ors [dget u ''rawInput'', dget u ''raw_input'', dget u ''input'', dget u ''arguments'']) (JObj []);
          cid = py_or (dget u ''toolCallId'') (dget u ''tool_call_id'');
          title = str_or_empty (dget u ''title'') in
      if kind \<notin> set [''tool_call'', ''tool_call_update'', ''toolCall'', ''toolCallUpdate''] then []
      else (case classify_tool_use name raw of
          Some act \<Rightarrow> [if truthy cid then dput act ''tool_call_id'' (JStr (py_str cid)) else act]
        | None \<Rightarrow> (case (if title = [] then None else classify_shell_command title) of
              None \<Rightarrow> []
            | Some act \<Rightarrow> [dput act ''tool'' (JStr name)])))"

definition action_key :: "dict \<Rightarrow> string" where
  "action_key a =
     str_or_empty (py_or (dget a ''tool_use_id'') (dget a ''tool_call_id'')) @ ''|'' @ str_or_empty (dget a ''kind'') @ ''|'' @
     take 120 (str_or_empty (py_or (dget a ''command'') (dget a ''tool'')))"

fun dedupe_from :: "string list \<Rightarrow> dict list \<Rightarrow> dict list" where
  "dedupe_from seen [] = []"
| "dedupe_from seen (a # as) =
     (if action_key a \<in> set seen then dedupe_from seen as else a # dedupe_from (action_key a # seen) as)"

definition dedupe_actions :: "dict list \<Rightarrow> dict list" where
  "dedupe_actions = dedupe_from []"

section \<open>Facts\<close>

lemma shell_examples:
  "map_option (\<lambda>a. dget a ''kind'') (classify_shell_command ''gh  pr edit'') = Some (JStr ''pr_edit'')"
  "classify_shell_command ''gh api x'' = None"
  by code_simp+

lemma dedupe_from_keys:
  "distinct (map action_key (dedupe_from seen as)) \<and> set (map action_key (dedupe_from seen as)) = set (map action_key as) - set seen"
  by (induction as arbitrary: seen) auto

lemma dedupe_from_set: "set (dedupe_from seen as) \<subseteq> set as"
  by (induction as arbitrary: seen) auto

lemma dedupe_from_id: "distinct (map action_key as) \<Longrightarrow> set (map action_key as) \<inter> set seen = {} \<Longrightarrow> dedupe_from seen as = as"
  by (induction as arbitrary: seen) auto

text \<open>The reported actions are the observed ones, each key once: nothing is invented, no kind of action
  is lost, no key is reported twice, and doing it again changes nothing.\<close>

theorem dedupe_actions_spec:
  "set (dedupe_actions as) \<subseteq> set as \<and> action_key ` set (dedupe_actions as) = action_key ` set as \<and>
   distinct (map action_key (dedupe_actions as)) \<and> dedupe_actions (dedupe_actions as) = dedupe_actions as"
  using dedupe_from_keys [of "[]" as] dedupe_from_set [of "[]" as]
    dedupe_from_id [of "dedupe_from [] as" "[]"]
  by (auto simp: dedupe_actions_def)

text \<open>An explicit read method makes a call a read, whatever body flags or other verbs it has.\<close>

theorem explicit_read_is_no_write:
  assumes "m \<in> set (explicit_http_methods cmd)" "m \<in> {''GET'', ''HEAD'', ''OPTIONS''}"
  shows "\<not> gh_api_is_write cmd \<and> \<not> curl_github_is_write cmd"
  using assms by (auto simp: gh_api_is_write_def curl_github_is_write_def is_write_call_def Let_def read_methods_def list_ex_iff)

theorem explicit_read_is_no_write_witness: "\<not> gh_api_is_write ''gh api --method GET /x -f a=b -X POST''"
proof -
  have "''GET'' \<in> set (explicit_http_methods ''gh api --method GET /x -f a=b -X POST'')" by code_simp
  with explicit_read_is_no_write show ?thesis by blast
qed

end
