(* ===== verification/Runner_Quota.thy ===== *)
theory Runner_Quota
  imports Json Complex_Main
begin

text \<open>
  Vendor quota recognition (\<open>agentd/docker/session-runner/agentd_runner/quota.py\<close>): redaction of a failed
  envelope, the reset instant in vendor prose, and when a result is a quota hit.  The time zone database
  is a parameter; \<open>now\<close> is a number of whole microseconds.
\<close>

section \<open>Redaction\<close>

definition redact_keys :: "string list" where
  "redact_keys = [''prompt'', ''message'', ''content'', ''messages'']"

fun redact_envelope :: "json \<Rightarrow> json" where
  "redact_envelope (JObj d) =
     JObj (map (\<lambda>(k, v). (k, if py_lower k \<in> set redact_keys then JStr ''<redacted>'' else redact_envelope v)) d)"
| "redact_envelope (JArr xs) = JArr (take 20 (map redact_envelope xs))"
| "redact_envelope (JStr s) = JStr (if length s > 800 then take 800 s @ [ellipsis] else s)"
| "redact_envelope j = j"

section \<open>The reset instant\<close>

text \<open>The first position of a string at which \<open>f\<close> matches.\<close>

fun first_match :: "(string \<Rightarrow> 'a option) \<Rightarrow> string \<Rightarrow> 'a option" where
  "first_match f [] = None"
| "first_match f (c # cs) = (case f (c # cs) of Some x \<Rightarrow> Some x | None \<Rightarrow> first_match f cs)"

text \<open>\<open>w\s+\<close>, ignoring case: the rest.\<close>

definition word_gap :: "string \<Rightarrow> string \<Rightarrow> string option" where
  "word_gap w s =
     (let t = drop (length w) s in
      if starts_with (py_lower s) w \<and> t \<noteq> [] \<and> is_space (hd t) then Some (dropWhile is_space t) else None)"

definition time_units :: "string list" where
  "time_units = [''h'', ''hours'', ''hour'', ''m'', ''min'', ''minutes'', ''minute'']"

text \<open>\<open>_RESET_IN\<close>: the number and the lowered unit.\<close>

definition reset_in_at :: "string \<Rightarrow> (int \<times> string) option" where
  "reset_in_at s =
     (case word_gap ''resets'' s of
        None \<Rightarrow> None
      | Some t \<Rightarrow> (case word_gap ''in'' t of
            None \<Rightarrow> None
          | Some u \<Rightarrow>
              let digits = takeWhile is_digit u;
                  rest = py_lower (dropWhile is_space (dropWhile is_digit u)) in
              (case (digits_val 0 False digits, find (\<lambda>w. starts_with rest w \<and>
                    (drop (length w) rest = [] \<or> \<not> is_word (hd (drop (length w) rest)))) time_units) of
                 (Some n, Some w) \<Rightarrow> Some (n, w)
               | _ \<Rightarrow> None)))"

text \<open>\<open>_RESET_CLOCK\<close>: hour, minute, am or pm, and the zone in parentheses.\<close>

definition zone_at :: "string \<Rightarrow> string option" where
  "zone_at s =
     (case s of
        [] \<Rightarrow> None
      | c # t \<Rightarrow> (case partition_at CHR '')'' t of
            (name, found, _) \<Rightarrow> if c = CHR ''('' \<and> found \<and> name \<noteq> [] then Some name else None))"

definition reset_clock_at :: "string \<Rightarrow> (int \<times> int \<times> string \<times> string option) option" where
  "reset_clock_at s =
     (case word_gap ''resets'' s of
        None \<Rightarrow> None
      | Some t \<Rightarrow>
          let h = takeWhile is_digit t; u = dropWhile is_digit t; m = take 2 (drop 1 u);
              rest = dropWhile is_space (drop 3 u);
              half = (if starts_with (py_lower rest) ''am'' \<or> starts_with (py_lower rest) ''pm''
                then py_lower (take 2 rest) else []) in
          if length h \<in> {1, 2} \<and> starts_with u '':'' \<and> length m = 2 \<and> list_all is_digit m
          then (case (digits_val 0 False h, digits_val 0 False m) of
              (Some hour, Some minute) \<Rightarrow>
                Some (hour, minute, half, zone_at (dropWhile is_space (drop (length half) rest)))
            | _ \<Rightarrow> None)
          else None)"

text \<open>
  What \<open>ZoneInfo\<close> answers for a name: the clocks of a zone (epoch seconds to local seconds and the fold,
  and back), no such zone, or \<open>ValueError\<close> for a malformed key.
\<close>

datatype zone = Zone "int \<Rightarrow> int \<times> bool" "int \<Rightarrow> bool \<Rightarrow> int" | No_zone | Bad_key

definition utc :: zone where
  "utc = Zone (\<lambda>e. (e, False)) (\<lambda>t _. t)"

definition zone_named :: "(string \<Rightarrow> zone) \<Rightarrow> string \<Rightarrow> zone" where
  "zone_named tzdb name = (if py_upper name = ''UTC'' then utc else (case tzdb name of No_zone \<Rightarrow> utc | z \<Rightarrow> z))"

definition full_hour :: "int \<Rightarrow> string \<Rightarrow> int" where
  "full_hour hour half =
     (if half = ''pm'' \<and> hour \<noteq> 12 then hour + 12 else if half = ''am'' \<and> hour = 12 then 0 else hour)"

text \<open>The next time the zone's clock shows \<open>hour:minute\<close>.\<close>

definition next_clock :: "zone \<Rightarrow> rat \<Rightarrow> int \<Rightarrow> int \<Rightarrow> string + int" where
  "next_clock z now hour minute =
     (case z of
        Zone local epoch \<Rightarrow>
          if hour > 23 then Inl ''hour must be in 0..23''
          else if minute > 59 then Inl ''minute must be in 0..59''
          else
            (let (t, fold) = local \<lfloor>now\<rfloor>; c = t div 86400 * 86400 + hour * 3600 + minute * 60 in
             Inr (if of_int (epoch c fold) \<le> now then epoch (c + 86400) fold else epoch c fold))
      | _ \<Rightarrow> Inl ''ZoneInfo keys must be normalized relative paths'')"

definition parse_reset_epoch :: "(string \<Rightarrow> zone) \<Rightarrow> string \<Rightarrow> rat \<Rightarrow> string + int option" where
  "parse_reset_epoch tzdb text now =
     (case first_match reset_in_at text of
        Some (n, w) \<Rightarrow>
          let t = now + of_int (n * (if starts_with w ''h'' then 3600 else 60)) in
          Inr (Some (if t < 0 then \<lceil>t\<rceil> else \<lfloor>t\<rfloor>))
      | None \<Rightarrow> (case first_match reset_clock_at text of
            None \<Rightarrow> Inr None
          | Some (hour, minute, half, z) \<Rightarrow>
              map_sum id Some (next_clock (zone_named tzdb (py_strip (case z of None \<Rightarrow> ''UTC'' | Some n \<Rightarrow> n))) now
                (full_hour hour half) minute)))"

section \<open>Classification\<close>

definition vendor_prose :: "string \<Rightarrow> bool" where
  "vendor_prose text =
     (let low = py_lower text in
      list_ex (\<lambda>p. contains p low) [''session limit'', ''usage limit''] \<and> contains ''resets'' low)"

definition grok_stop_quota :: "string list" where
  "grok_stop_quota = [''rate_limited'', ''quota'', ''quota_exceeded'', ''resource_exhausted'']"

text \<open>The fragment of a quota hit, or the \<open>ValueError\<close> of its clock.\<close>

definition quota_fragment :: "(string \<Rightarrow> zone) \<Rightarrow> rat \<Rightarrow> string \<Rightarrow> string \<Rightarrow> string + dict option" where
  "quota_fragment tzdb now prose summary =
     map_sum id (\<lambda>reset. Some [(''status'', JStr ''quota_exhausted''),
       (''retry_after'', case reset of None \<Rightarrow> JNull | Some t \<Rightarrow> JNum t), (''summary'', JStr (take 4000 summary))])
       (parse_reset_epoch tzdb prose now)"

definition error_text :: "json \<Rightarrow> string" where
  "error_text e =
     (case e of
        JNull \<Rightarrow> []
      | JObj d \<Rightarrow> py_str (if truthy (dget d ''message'') then dget d ''message'' else e)
      | _ \<Rightarrow> py_str e)"

definition classify_quota ::
  "(string \<Rightarrow> zone) \<Rightarrow> rat \<Rightarrow> string \<Rightarrow> string \<Rightarrow> json \<Rightarrow> string + dict option" where
  "classify_quota tzdb now text stop_reason e =
     (let err = error_text e; stop = py_lower stop_reason;
          first = (\<lambda>xs. case filter (\<lambda>x. x \<noteq> []) xs of [] \<Rightarrow> [] | x # _ \<Rightarrow> x) in
      if stop \<in> set grok_stop_quota
      then quota_fragment tzdb now (join '' '' (filter (\<lambda>p. p \<noteq> []) [text, err]))
             (first [text, err, stop_reason, ''quota exhausted''])
      else if e \<noteq> JNull \<and> vendor_prose err then quota_fragment tzdb now err (first [err, ''quota exhausted''])
      else if e = JNull \<and> stop = [] \<and> vendor_prose text then quota_fragment tzdb now text (first [text, ''quota exhausted''])
      else Inr None)"

section \<open>Facts\<close>

text \<open>The live sample of the source's comment, 2026-01-01T08:00Z, and the hours of a phrase.\<close>

lemma quota_samples:
  "parse_reset_epoch (\<lambda>_. No_zone) ''limit - resets 9:30am (UTC)'' 1767254400 = Inr (Some 1767259800)"
  "parse_reset_epoch (\<lambda>_. No_zone) ''resets  in 2 hours'' 1767254400 = Inr (Some 1767261600)"
  "parse_reset_epoch (\<lambda>_. No_zone) ''resets 0:05'' 1767254400 = Inr (Some 1767312300)"
  by code_simp+


text \<open>Every value under a sensitive key, at any depth, is the placeholder.\<close>

fun hides_prompts :: "json \<Rightarrow> bool" where
  "hides_prompts (JObj d) = list_all (\<lambda>(k, v). if py_lower k \<in> set redact_keys then v = JStr ''<redacted>'' else hides_prompts v) d"
| "hides_prompts (JArr xs) = list_all hides_prompts xs"
| "hides_prompts j = True"

text \<open>A logged envelope never carries a prompt: whatever the vendor's frame is, each value under a prompt,
  message, content or messages key, in any case and at any depth, is replaced.\<close>

theorem redacted_hides_prompts: "hides_prompts (redact_envelope j)"
proof (induction j rule: redact_envelope.induct)
  case (1 d)
  then show ?case by (fastforce simp: list_all_iff)
next
  case (2 xs)
  then show ?case using in_set_takeD by (fastforce simp: list_all_iff)
qed simp_all

text \<open>The clock of a zone whose offset does not change.\<close>

definition fixed_offset :: "int \<Rightarrow> zone" where
  "fixed_offset off = Zone (\<lambda>e. (e + off, False)) (\<lambda>t _. t - off)"

lemma utc_fixed: "utc = fixed_offset 0"
  by (simp add: utc_def fixed_offset_def)

lemma day_start: "t - 86400 < t div 86400 * 86400 \<and> t div 86400 * 86400 \<le> (t :: int)"
  by presburger

lemma next_clock_day:
  assumes "next_clock (fixed_offset off) now hour minute = Inr t" "0 \<le> hour" "0 \<le> minute"
  shows "now < of_int t \<and> of_int t \<le> now + 86400"
proof -
  define c where "c = (\<lfloor>now\<rfloor> + off) div 86400 * 86400 + hour * 3600 + minute * 60 - off"
  have hm: "hour \<le> 23" "minute \<le> 59" using assms(1) by (auto simp: next_clock_def fixed_offset_def split: if_splits)
  have t: "t = (if of_int c \<le> now then c + 86400 else c)"
    using assms(1) hm by (auto simp: next_clock_def fixed_offset_def c_def)
  have lo: "\<lfloor>now\<rfloor> - 86400 < c" and hi: "c < \<lfloor>now\<rfloor> + 86400"
    using day_start [of "\<lfloor>now\<rfloor> + off"] assms(2,3) hm by (simp_all add: c_def)
  show ?thesis
  proof (cases "of_int c \<le> now")
    case True
    have "now < of_int (\<lfloor>now\<rfloor> + 1)" by linarith
    also have "\<dots> \<le> of_int (c + 86400)" using lo by (simp only: of_int_le_iff)
    finally show ?thesis using True t by simp
  next
    case False
    have "of_int c \<le> (of_int (\<lfloor>now\<rfloor> + 86400) :: rat)" using hi by (simp only: of_int_le_iff)
    also have "\<dots> \<le> now + 86400" by simp
    finally show ?thesis using False t by simp
  qed
qed

lemma digits_val_nonneg: "digits_val acc p s = Some v \<Longrightarrow> 0 \<le> acc \<Longrightarrow> 0 \<le> v"
  by (induction acc p s rule: digits_val.induct) (auto split: if_splits)

lemma reset_clock_nonneg: "reset_clock_at s = Some (hour, minute, half, z) \<Longrightarrow> 0 \<le> hour \<and> 0 \<le> minute"
  using digits_val_nonneg by (fastforce simp: reset_clock_at_def Let_def split: option.splits if_splits)

lemma first_match_at: "first_match f s = Some x \<Longrightarrow> \<exists>t. f t = Some x"
  by (induction s) (auto split: option.splits)

text \<open>The retry time read from a vendor's clock is the next such time of day: later than now and at most a
  day ahead, in every zone whose offset stays, so a quota hold never lies in the past and never
  outlasts a day.\<close>

theorem retry_within_a_day:
  assumes "parse_reset_epoch tzdb text now = Inr (Some t)" "first_match reset_in_at text = None"
    and "\<And>name. \<exists>off. zone_named tzdb name = fixed_offset off"
  shows "now < of_int t \<and> of_int t \<le> now + 86400"
proof -
  obtain hour minute half z where m: "first_match reset_clock_at text = Some (hour, minute, half, z)"
    and c: "next_clock (zone_named tzdb (py_strip (case z of None \<Rightarrow> ''UTC'' | Some n \<Rightarrow> n))) now (full_hour hour half) minute = Inr t"
    using assms(1,2) by (auto simp: parse_reset_epoch_def map_sum_def split: option.splits sum.splits prod.splits)
  have "0 \<le> full_hour hour half" "0 \<le> minute"
    using first_match_at [OF m] reset_clock_nonneg by (auto simp: full_hour_def)
  with c assms(3) show ?thesis using next_clock_day by metis
qed

theorem retry_within_a_day_witness:
  "(1767254400 :: rat) < of_int 1767312300 \<and> of_int 1767312300 \<le> (1767254400 :: rat) + 86400"
proof (rule retry_within_a_day)
  show "parse_reset_epoch (\<lambda>_. No_zone) ''resets 0:05'' 1767254400 = Inr (Some 1767312300)" by (rule quota_samples)
  show "first_match reset_in_at ''resets 0:05'' = None" by code_simp
  show "\<exists>off. zone_named (\<lambda>_. No_zone) name = fixed_offset off" for name
    by (auto simp: zone_named_def utc_fixed)
qed

text \<open>A pure stop reason or an error the vendor's channels do not explain is never called a quota hit, and
  the agent's own text counts only when no error and no stop reason came with it.\<close>

theorem quota_needs_vendor_channel:
  assumes "classify_quota tzdb now text stop_reason e \<noteq> Inr None"
  shows "py_lower stop_reason \<in> {''rate_limited'', ''quota'', ''quota_exceeded'', ''resource_exhausted''} \<or>
    (e \<noteq> JNull \<and> vendor_prose (error_text e)) \<or> (e = JNull \<and> stop_reason = [] \<and> vendor_prose text)"
  using assms by (auto simp: classify_quota_def Let_def grok_stop_quota_def split: if_splits)

theorem quota_needs_vendor_channel_witness:
  "vendor_prose ''session limit resets''"
  using quota_needs_vendor_channel [of "\<lambda>_. No_zone" 0 "''session limit resets''" "[]" JNull]
proof -
  have "classify_quota (\<lambda>_. No_zone) 0 ''session limit resets'' [] JNull \<noteq> Inr None" by code_simp
  from quota_needs_vendor_channel [OF this] show ?thesis by auto
qed

text \<open>A clock no day has (a 24-hour time with pm, or a minute past 59) makes the classification raise
  instead of reporting the quota hit, so the caller reports a failed turn and no hold.\<close>

theorem odd_clock_hides_quota:
  assumes "vendor_prose text" "first_match reset_in_at text = None"
    and "first_match reset_clock_at text = Some (hour, minute, half, z)" "z = None"
    and "full_hour hour half > 23 \<or> minute > 59"
  shows "\<exists>msg. classify_quota tzdb now text [] JNull = Inl msg"
proof -
  have "py_strip ''UTC'' = ''UTC''" "py_upper ''UTC'' = ''UTC''" by code_simp+
  moreover have "text \<noteq> []" using assms(3) by auto
  ultimately show ?thesis
    using assms by (auto simp: classify_quota_def error_text_def grok_stop_quota_def quota_fragment_def
      parse_reset_epoch_def zone_named_def next_clock_def utc_def Let_def)
qed

theorem odd_clock_hides_quota_witness:
  "\<exists>msg. classify_quota (\<lambda>_. No_zone) 0 ''session limit resets 13:30pm'' [] JNull = Inl msg"
proof (rule odd_clock_hides_quota)
  show "first_match reset_clock_at ''session limit resets 13:30pm'' = Some (13, 30, ''pm'', None)" by code_simp
qed (simp_all add: full_hour_def, code_simp+)

end
