(* ===== verification/Runner_World.thy ===== *)
theory Runner_World
  imports Runner_Quota
begin

text \<open>
  The process a session runner holds for a role (\<open>LiveCliSession\<close> of
  \<open>agentd/docker/session-runner/agentd_runner/cli_session.py\<close>): its state, the operating system around it,
  and how its process group is killed and its orphans are reaped.  Every answer of the system is read at
  a tick that never returns.  The session's lock makes each method one run of these steps.
\<close>

section \<open>State\<close>

text \<open>A \<open>Popen\<close>: its pid and the exit code once it is known.\<close>

record process =
  pid :: int
  exit_code :: "int option"

text \<open>A line of the vendor's stream with what \<open>json.loads\<close> makes of it; None in a queue is the end of file.\<close>

datatype line = Text (raw: string) (decoded: "json option")

record cli =
  c_role :: string
  c_adapter :: string
  c_uid :: int
  c_home :: string
  c_tmp :: string
  c_xdg :: string
  c_cwd :: string
  c_model :: "string option"
  c_effort :: "string option"
  c_proc :: "process option"
  c_claude :: "string option"
  c_acp :: "string option"
  c_rpc :: int
  c_rss :: int
  c_stderr :: bool
  c_queue :: "line option list option"
  c_resumed :: bool

text \<open>The session at work, the tick, and what it did so far; a signal names the uid it was sent as.\<close>

record runner =
  self :: cli
  ticks :: nat
  signalled :: "(int \<times> int \<times> int option) list"
  spawned :: "(string list \<times> (string \<times> string) list) list"
  written :: "json list"
  reaped :: "int list"
  told :: "(string \<times> string) list"

datatype pgid_answer = Group int | No_such_process | Os_error string

text \<open>\<open>Refused_args\<close>: one of the three exceptions after which the other privilege drop is tried.\<close>

datatype spawn_answer = Spawned int | Refused_args string | Spawn_error string

record sys =
  y_clock :: "nat \<Rightarrow> rat"
  y_mono :: "nat \<Rightarrow> rat"
  y_root :: bool
  y_me :: int
  y_own_group :: int
  y_procfs :: bool
  y_status :: "nat \<Rightarrow> int \<Rightarrow> string list option"
  y_list :: "nat \<Rightarrow> (string \<times> string list option) list option"
  y_poll :: "nat \<Rightarrow> int \<Rightarrow> int option"
  y_wait :: "nat \<Rightarrow> int \<Rightarrow> int option"
  y_getpgid :: "nat \<Rightarrow> int \<Rightarrow> pgid_answer"
  y_killpg :: "nat \<Rightarrow> int \<Rightarrow> int \<Rightarrow> int"
  y_errname :: "int \<Rightarrow> string"
  y_reap :: "nat \<Rightarrow> int \<Rightarrow> bool"
  y_siblings :: "nat \<Rightarrow> int list"
  y_dirs :: "nat \<Rightarrow> string option"
  y_open :: "nat \<Rightarrow> string option"
  y_popen :: "nat \<Rightarrow> bool \<Rightarrow> string list \<Rightarrow> spawn_answer"
  y_write :: "nat \<Rightarrow> string option"
  y_out :: "nat \<Rightarrow> line option list"
  y_stderr :: "nat \<Rightarrow> string"
  y_which :: "string \<Rightarrow> string option"
  y_environ :: "(string \<times> string) list"
  y_tzdb :: "string \<Rightarrow> zone"
  y_listens :: bool
  y_fuel :: nat

section \<open>Steps\<close>

text \<open>\<open>TimeoutError\<close>, any other exception, and a loop that used up its rounds, which is not Python's.\<close>

datatype stop = Deadline string | Raised string | Out_of_rounds

type_synonym 'a op = "runner \<Rightarrow> runner \<times> (stop + 'a)"

definition give :: "'a \<Rightarrow> 'a op" where
  "give x r = (r, Inr x)"

definition throw :: "stop \<Rightarrow> 'a op" where
  "throw e r = (r, Inl e)"

definition chain :: "'a op \<Rightarrow> ('a \<Rightarrow> 'b op) \<Rightarrow> 'b op" where
  "chain m f r = (case m r of (r', Inl e) \<Rightarrow> (r', Inl e) | (r', Inr x) \<Rightarrow> f x r')"

abbreviation also_do :: "unit op \<Rightarrow> 'b op \<Rightarrow> 'b op" where
  "also_do m n \<equiv> chain m (\<lambda>_. n)"

definition answer :: "(nat \<Rightarrow> 'a) \<Rightarrow> 'a op" where
  "answer f r = (r\<lparr>ticks := Suc (ticks r)\<rparr>, Inr (f (ticks r)))"

definition get_self :: "(cli \<Rightarrow> 'a) \<Rightarrow> 'a op" where
  "get_self f r = (r, Inr (f (self r)))"

definition put_self :: "(cli \<Rightarrow> cli) \<Rightarrow> unit op" where
  "put_self f r = (r\<lparr>self := f (self r)\<rparr>, Inr ())"

definition record_act :: "(runner \<Rightarrow> runner) \<Rightarrow> unit op" where
  "record_act f r = (f r, Inr ())"

definition provided :: "bool \<Rightarrow> unit op \<Rightarrow> unit op" where
  "provided b m = (if b then m else give ())"

text \<open>The \<open>try\<close> of the source: what Python raises is a value, a loop out of rounds stays one.\<close>

definition trying :: "'a op \<Rightarrow> (stop + 'a) op" where
  "trying m r =
     (case m r of
        (r', Inl Out_of_rounds) \<Rightarrow> (r', Inl Out_of_rounds)
      | (r', x) \<Rightarrow> (r', Inr x))"

text \<open>A loop: a step goes on with a new state or ends with a value.\<close>

fun rounds :: "('s \<Rightarrow> ('s + 'a) op) \<Rightarrow> nat \<Rightarrow> 's \<Rightarrow> 'a op" where
  "rounds f 0 s = throw Out_of_rounds"
| "rounds f (Suc n) s = chain (f s) (\<lambda>y. case y of Inl s' \<Rightarrow> rounds f n s' | Inr x \<Rightarrow> give x)"

definition again :: "'s \<Rightarrow> ('s + 'a) op" where
  "again s = give (Inl s)"

definition finish :: "'a \<Rightarrow> ('s + 'a) op" where
  "finish x = give (Inr x)"

definition of_result :: "string + 'a \<Rightarrow> 'a op" where
  "of_result x = (case x of Inl e \<Rightarrow> throw (Raised e) | Inr v \<Rightarrow> give v)"

fun stop_text :: "stop \<Rightarrow> string" where
  "stop_text (Deadline s) = s"
| "stop_text (Raised s) = s"
| "stop_text Out_of_rounds = []"

section \<open>The process\<close>

definition the_pid :: "int op" where
  "the_pid = chain (get_self c_proc) (\<lambda>p. case p of None \<Rightarrow> throw (Raised ''AssertionError'') | Some p \<Rightarrow> give (pid p))"

definition keep_code :: "int option \<Rightarrow> unit op" where
  "keep_code rcode = put_self (\<lambda>c. c\<lparr>c_proc := map_option (\<lambda>p. p\<lparr>exit_code := rcode\<rparr>) (c_proc c)\<rparr>)"

text \<open>\<open>Popen.poll\<close> and \<open>Popen.wait\<close>: a known exit code is kept.\<close>

definition poll_by :: "(nat \<Rightarrow> int \<Rightarrow> int option) \<Rightarrow> int option op" where
  "poll_by f =
     chain (get_self c_proc) (\<lambda>p. case p of
       None \<Rightarrow> throw (Raised ''AttributeError'')
     | Some p \<Rightarrow> (case exit_code p of
           Some n \<Rightarrow> give (Some n)
         | None \<Rightarrow> chain (answer (\<lambda>i. f i (pid p))) (\<lambda>rcode. also_do (keep_code rcode) (give rcode))))"

definition poll :: "sys \<Rightarrow> int option op" where
  "poll S = poll_by (y_poll S)"

definition is_alive :: "sys \<Rightarrow> bool op" where
  "is_alive S = chain (get_self c_proc) (\<lambda>p. if p = None then give False else chain (poll S) (\<lambda>rcode. give (rcode = None)))"

text \<open>The second word of a status line; \<open>split()[1]\<close> raises without one.\<close>

definition second_word :: "string \<Rightarrow> string option" where
  "second_word s =
     (let t = dropWhile is_space (dropWhile (\<lambda>c. \<not> is_space c) (dropWhile is_space s)) in
      if t = [] then None else Some (takeWhile (\<lambda>c. \<not> is_space c) t))"

text \<open>The scan of a status file for two fields, up to where both are known.  None is \<open>IndexError\<close>.\<close>

fun scan_status :: "string \<Rightarrow> string \<Rightarrow> string list \<Rightarrow> string \<times> string \<Rightarrow> (string \<times> string) option" where
  "scan_status k1 k2 [] x = Some x"
| "scan_status k1 k2 (l # ls) (a, b) =
     (let go = (\<lambda>x. if fst x \<noteq> [] \<and> snd x \<noteq> [] then Some x else scan_status k1 k2 ls x) in
      if starts_with l k1 then (case second_word l of None \<Rightarrow> None | Some w \<Rightarrow> go (w, b))
      else if starts_with l k2 then (case second_word l of None \<Rightarrow> None | Some w \<Rightarrow> go (a, w))
      else go (a, b))"

definition pid_of_entry :: "string \<Rightarrow> int option" where
  "pid_of_entry e = (if e \<noteq> [] \<and> list_all is_digit e then digits_val 0 False e else None)"

text \<open>The processes of a listing whose two fields satisfy \<open>P\<close>; an unreadable status is skipped.\<close>

fun pids_with ::
  "string \<Rightarrow> (string \<Rightarrow> string \<Rightarrow> bool) \<Rightarrow> int list \<Rightarrow> (string \<times> string list option) list \<Rightarrow> string + int list" where
  "pids_with k P spare [] = Inr []"
| "pids_with k P spare ((e, status) # es) =
     (case (pid_of_entry e, status) of
        (Some p, Some ls) \<Rightarrow>
          if p \<in> set spare then pids_with k P spare es
          else (case scan_status ''State:'' k ls ([], []) of
              None \<Rightarrow> Inl ''list index out of range''
            | Some (a, b) \<Rightarrow> map_sum id (\<lambda>ps. if P a b then p # ps else ps) (pids_with k P spare es))
      | _ \<Rightarrow> pids_with k P spare es)"

text \<open>\<open>_live_pgid_members\<close>.\<close>

definition live_members :: "sys \<Rightarrow> int \<Rightarrow> int list op" where
  "live_members S pgid =
     chain (answer (y_list S)) (\<lambda>es. case es of
       None \<Rightarrow> give []
     | Some es \<Rightarrow> of_result (pids_with ''NSpgid:'' (\<lambda>state g. g = dec pgid \<and> state \<noteq> ''Z'') [] es))"

text \<open>\<open>_is_our_child\<close>: None when unknowable.\<close>

definition is_our_child :: "sys \<Rightarrow> int \<Rightarrow> bool option op" where
  "is_our_child S p =
     (if \<not> y_procfs S then give None
      else chain (answer (\<lambda>i. y_status S i p)) (\<lambda>ls. case ls of
          None \<Rightarrow> give (Some False)
        | Some ls \<Rightarrow> (case find (\<lambda>l. starts_with l ''PPid:'') ls of
              None \<Rightarrow> give (Some False)
            | Some l \<Rightarrow> (case second_word l of
                  None \<Rightarrow> throw (Raised ''list index out of range'')
                | Some w \<Rightarrow> give (Some (w = dec (y_me S)))))))"

section \<open>Killing\<close>

text \<open>\<open>_killpg_as_role\<close> from a forked helper when the runner is root, \<open>_kill_group_direct\<close> otherwise.\<close>

definition killpg :: "sys \<Rightarrow> int \<Rightarrow> int \<Rightarrow> int op" where
  "killpg S pgid sig =
     chain (get_self c_uid) (\<lambda>uid.
       also_do (record_act (\<lambda>r. r\<lparr>signalled := signalled r @ [(pgid, sig, if y_root S then Some uid else None)]\<rparr>))
         (answer (\<lambda>i. y_killpg S i pgid sig)))"

definition sig_term :: int where "sig_term = 15"
definition sig_kill :: int where "sig_kill = 9"
definition esrch :: int where "esrch = 3"

definition show_pids :: "int list \<Rightarrow> string" where
  "show_pids ps = py_repr (JArr (map JNum ps))"

text \<open>The loop over SIGTERM and SIGKILL.\<close>

fun escalate_signals :: "sys \<Rightarrow> int \<Rightarrow> int list \<Rightarrow> string option op" where
  "escalate_signals S pgid [] =
     chain (live_members S pgid) (\<lambda>left.
       give (if left = [] then None
             else Some (''group '' @ dec pgid @ '' still has live members after SIGKILL: '' @ show_pids left)))"
| "escalate_signals S pgid (sig # sigs) =
     chain (killpg S pgid sig) (\<lambda>rc. chain (get_self c_uid) (\<lambda>uid.
       if rc \<noteq> 0 \<and> rc \<noteq> esrch
       then give (Some (''killpg('' @ dec pgid @ '', '' @ dec sig @ '') as uid '' @ dec uid @ '' failed: errno '' @ dec rc @
              '' ('' @ y_errname S rc @ '')''))
       else chain (poll_by (y_wait S)) (\<lambda>rcode.
         if rcode = None then escalate_signals S pgid sigs
         else chain (live_members S pgid) (\<lambda>left.
           if left = [] then give None else escalate_signals S pgid sigs))))"

definition kill_group :: "sys \<Rightarrow> int \<Rightarrow> string option op" where
  "kill_group S p =
     chain (answer (\<lambda>i. y_getpgid S i p)) (\<lambda>g. case g of
       No_such_process \<Rightarrow> give None
     | Os_error e \<Rightarrow> give (Some (''getpgid('' @ dec p @ ''): '' @ e))
     | Group pgid \<Rightarrow>
         if pgid \<noteq> p
         then give (Some (''refusing killpg('' @ dec pgid @ ''): cli pid '' @ dec p @ '' does not lead its own group '' @
                [em_dash] @ '' spawn lost start_new_session=True''))
         else if pgid \<le> 1 \<or> pgid = y_own_group S
         then give (Some (''refusing killpg('' @ dec pgid @ ''): that is the runner's or init's group '' @ [em_dash] @
                '' killing it would signal the runner''))
         else chain (is_our_child S p) (\<lambda>owned.
           if owned = Some False
           then give (Some (''refusing killpg('' @ dec pgid @ ''): pid '' @ dec p @
                  '' is not our child (/proc says its parent is not '' @ dec (y_me S) @ '')''))
           else escalate_signals S pgid [sig_term, sig_kill]))"

definition forget_dead :: "unit op" where
  "forget_dead = put_self (\<lambda>c. c\<lparr>c_proc := None, c_queue := None, c_stderr := False\<rparr>)"

fun reap_each :: "sys \<Rightarrow> int list \<Rightarrow> unit op" where
  "reap_each S [] = give ()"
| "reap_each S (p # ps) =
     chain (answer (\<lambda>i. y_reap S i p)) (\<lambda>done.
       also_do (provided done (record_act (\<lambda>r. r\<lparr>reaped := reaped r @ [p]\<rparr>))) (reap_each S ps))"

text \<open>\<open>reap_orphans(_tracked_pids())\<close>: the siblings' pids and the own one are never taken.\<close>

definition reap_orphans :: "sys \<Rightarrow> unit op" where
  "reap_orphans S =
     chain (answer (y_siblings S)) (\<lambda>others. chain (get_self c_proc) (\<lambda>p.
       chain (answer (y_list S)) (\<lambda>es. case es of
         None \<Rightarrow> give ()
       | Some es \<Rightarrow>
           let tracked = others @ (case p of None \<Rightarrow> [] | Some p \<Rightarrow> [pid p]) in
           chain (of_result (pids_with ''PPid:'' (\<lambda>state parent. state = ''Z'' \<and> parent = dec (y_me S)) tracked es))
             (reap_each S))))"

text \<open>\<open>_kill_unlocked\<close>: None on success.\<close>

definition kill_leftovers :: "sys \<Rightarrow> int \<Rightarrow> string option op" where
  "kill_leftovers S p =
     chain (live_members S p) (\<lambda>left.
       if left = [] then give None
       else chain (killpg S p sig_kill) (\<lambda>rc. chain (live_members S p) (\<lambda>still.
         give (if still = [] then None
               else Some (''cli exited leaving group '' @ dec p @ '' alive (errno '' @ dec rc @ ''): '' @ show_pids still)))))"

definition kill_unlocked :: "sys \<Rightarrow> string option op" where
  "kill_unlocked S =
     chain (get_self c_proc) (\<lambda>p. case p of
       None \<Rightarrow> also_do (put_self (\<lambda>c. c\<lparr>c_stderr := False\<rparr>)) (give None)
     | Some p \<Rightarrow> chain (poll S) (\<lambda>rcode.
         if rcode \<noteq> None
         then chain (kill_leftovers S (pid p)) (\<lambda>why. also_do forget_dead
           (also_do (provided (why = None) (reap_orphans S)) (give why)))
         else chain (kill_group S (pid p)) (\<lambda>why.
           if why \<noteq> None then give why
           else also_do forget_dead (also_do (reap_orphans S) (give None)))))"

end
