(* ===== verification/Runner_Cli.thy ===== *)
theory Runner_Cli
  imports Runner_World Runner_Actions Rpc_Client
begin

text \<open>
  The long-lived CLI of a role (\<open>agentd/docker/session-runner/agentd_runner/cli_session.py\<close>): its spawn,
  the ACP handshake, and a turn over the pipe for each vendor.  Every loop takes the rounds \<open>y_fuel\<close>
  allows: they are as many as there are lines and empty reads before the deadline.
\<close>

section \<open>Environment and commands\<close>

definition env_get :: "sys \<Rightarrow> string \<Rightarrow> string" where
  "env_get S k = (case map_of (y_environ S) k of None \<Rightarrow> [] | Some v \<Rightarrow> v)"

text \<open>Python's \<open>a or b\<close> of strings.\<close>

fun first_of :: "string list \<Rightarrow> string" where
  "first_of [] = []"
| "first_of (x # xs) = (if x = [] then first_of xs else x)"

definition project_root :: "sys \<Rightarrow> string" where
  "project_root S = first_of [env_get S ''AGENTD_PROJECT_ROOT'', env_get S ''AGENTD_HOST_ROOT'', ''/srv/agentd'']"

definition use_oneshot :: "sys \<Rightarrow> string \<Rightarrow> bool" where
  "use_oneshot S adapter =
     (adapter \<in> set [''mock'', ''script''] \<or>
      py_lower (py_strip (env_get S ''AGENTD_CLI_MODE'')) \<in> set [''oneshot'', ''one-shot'', ''p'', ''-p''])"

fun env_put :: "(string \<times> string) list \<Rightarrow> string \<Rightarrow> string \<Rightarrow> (string \<times> string) list" where
  "env_put [] k v = [(k, v)]"
| "env_put ((k', v') # e) k v = (if k' = k then (k, v) # e else (k', v') # env_put e k v)"

definition secret_vars :: "string list" where
  "secret_vars = [''GH_TOKEN'', ''GITHUB_TOKEN'', ''CLAUDE_CODE_OAUTH_TOKEN'']"

definition role_env :: "sys \<Rightarrow> cli \<Rightarrow> (string \<times> string) list" where
  "role_env S c =
     filter (\<lambda>(k, v). k \<notin> set secret_vars)
       (fold (\<lambda>(k, v) e. env_put e k v)
          [(''HOME'', c_home c), (''TMPDIR'', c_tmp c), (''XDG_CACHE_HOME'', c_xdg c @ ''/cache''),
           (''XDG_CONFIG_HOME'', c_xdg c @ ''/config''), (''XDG_DATA_HOME'', c_xdg c @ ''/data''),
           (''PATH'', case map_of (y_environ S) ''PATH'' of None \<Rightarrow> ''/usr/local/bin:/usr/bin:/bin'' | Some v \<Rightarrow> v)]
          (y_environ S))"

definition secrets_script :: string where
  "secrets_script = concat (map (\<lambda>l. l @ [CHR 0x0A])
     [''set -e'', ''ROLE=\"$1\"; shift'', ''TOK=\"/run/agent/${ROLE}/token\"'', ''if [ -r \"$TOK\" ]; then'',
      ''  export GH_TOKEN=\"$(cat \"$TOK\")\"'', ''  export GITHUB_TOKEN=\"$GH_TOKEN\"'', ''fi'',
      ''OAUTH=\"/run/agent/${ROLE}/claude_oauth_token\"'', ''if [ -r \"$OAUTH\" ]; then'',
      ''  export CLAUDE_CODE_OAUTH_TOKEN=\"$(cat \"$OAUTH\")\"'', ''fi'', ''exec \"$@\"''])"

definition wrap_with_role_secrets :: "string \<Rightarrow> string list \<Rightarrow> string + string list" where
  "wrap_with_role_secrets role cmd =
     (if role \<notin> set [''architect'', ''developer''] then Inl (''unknown role '' @ repr_str role)
      else Inr ([''bash'', ''-c'', secrets_script, ''role-secret-wrap'', role] @ cmd))"

text \<open>An optional setting: None and the empty string are not set.\<close>

definition set_opt :: "string option \<Rightarrow> bool" where
  "set_opt x \<longleftrightarrow> x \<noteq> None \<and> x \<noteq> Some []"

definition claude_efforts :: "string list" where
  "claude_efforts = [''low'', ''medium'', ''high'', ''xhigh'', ''max'']"

definition binary_of :: "sys \<Rightarrow> string \<Rightarrow> string \<Rightarrow> string" where
  "binary_of S name var = first_of [case y_which S name of None \<Rightarrow> [] | Some p \<Rightarrow> p, env_get S var, name]"

definition claude_cmd :: "sys \<Rightarrow> bool \<Rightarrow> cli \<Rightarrow> string + string list" where
  "claude_cmd S continue c =
     (let cmd = [binary_of S ''claude'' ''CLAUDE_BIN'', ''--input-format'', ''stream-json'', ''--output-format'', ''stream-json'',
            ''--verbose'', ''--dangerously-skip-permissions''] @
          (if \<not> continue then [] else if set_opt (c_claude c) then [''--resume'', the (c_claude c)] else [''-c'']) @
          (if set_opt (c_model c) then [''--model'', the (c_model c)] else []) in
      if \<not> set_opt (c_effort c) then Inr cmd
      else if the (c_effort c) \<notin> set claude_efforts
      then Inl (''unknown claude reasoning_effort '' @ repr_str (the (c_effort c)) @ ''; valid: high, low, max, medium, xhigh'')
      else Inr (cmd @ [''--effort'', the (c_effort c)]))"

definition grok_cmd :: "sys \<Rightarrow> cli \<Rightarrow> string list" where
  "grok_cmd S c =
     [binary_of S ''grok'' ''GROK_BIN'', ''agent''] @
     (if set_opt (c_model c) then [''-m'', the (c_model c)] else []) @
     (if set_opt (c_effort c) then [''--reasoning-effort'', the (c_effort c)] else []) @ [''stdio'']"

definition is_claude :: "string \<Rightarrow> bool" where
  "is_claude a \<longleftrightarrow> a \<in> set [''claude-code'', ''claude'']"

definition is_grok :: "string \<Rightarrow> bool" where
  "is_grok a \<longleftrightarrow> a \<in> set [''grok-cli'', ''grok'']"

definition vendor_cmd :: "sys \<Rightarrow> bool \<Rightarrow> cli \<Rightarrow> string + string list" where
  "vendor_cmd S continue c =
     (if is_claude (c_adapter c) then claude_cmd S continue c
      else if is_grok (c_adapter c) then Inr (grok_cmd S c)
      else Inl (''no long-lived spawn for adapter '' @ repr_str (c_adapter c)))"

section \<open>Frames\<close>

definition is_jsonrpc_response :: "dict \<Rightarrow> bool" where
  "is_jsonrpc_response d \<longleftrightarrow> \<not> has_key d ''method'' \<and> (has_key d ''result'' \<or> has_key d ''error'')"

definition is_jsonrpc_request :: "dict \<Rightarrow> bool" where
  "is_jsonrpc_request d \<longleftrightarrow>
     truthy (dget d ''method'') \<and> has_key d ''id'' \<and> \<not> has_key d ''result'' \<and> \<not> has_key d ''error''"

definition raw_field :: "string \<Rightarrow> string" where
  "raw_field l = ''raw='' @ repr_str (if length l \<le> 200 then l else take 200 l @ [ellipsis])"

definition frame_fields :: "line \<Rightarrow> string" where
  "frame_fields l =
     (case decoded l of
        Some (JObj d) \<Rightarrow>
          (case filter (has_key d) [''type'', ''subtype'', ''is_error'', ''session_id'', ''method'', ''id''] of
             [] \<Rightarrow> ''type=absent''
           | ks \<Rightarrow> join '' '' (map (\<lambda>k. k @ ''='' @ py_repr (dget d k)) ks))
      | _ \<Rightarrow> raw_field (raw l))"

definition is_bare_notification :: "line \<Rightarrow> bool" where
  "is_bare_notification l =
     (case decoded l of
        Some (JObj d) \<Rightarrow> \<not> has_key d ''id'' \<and> \<not> has_key d ''type'' \<and>
          (case dget d ''method'' of JStr _ \<Rightarrow> True | _ \<Rightarrow> False)
      | _ \<Rightarrow> False)"

text \<open>The offered ids; a number cannot be iterated, the members of other values are no objects.\<close>

definition option_ids :: "dict \<Rightarrow> string list exc" where
  "option_ids params =
     (case py_or (dget params ''options'') (JArr []) of
        JArr xs \<Rightarrow> Inr (concat (map (\<lambda>j. case j of
            JObj d \<Rightarrow> if truthy (dget d ''optionId'') then [py_str (dget d ''optionId'')] else []
          | _ \<Rightarrow> []) xs))
      | JNum _ \<Rightarrow> Inl ''object is not iterable''
      | JBool _ \<Rightarrow> Inl ''object is not iterable''
      | _ \<Rightarrow> Inr [])"

definition preferred_options :: "string list" where
  "preferred_options = [''allow_always'', ''allow-always'', ''allow-edits-session'', ''allow_once'', ''allow-once'']"

definition is_allow :: "string \<Rightarrow> bool" where
  "is_allow oid \<longleftrightarrow> contains ''allow'' (py_lower oid) \<and> \<not> contains ''reject'' (py_lower oid)"

definition pick_option :: "string list \<Rightarrow> string option" where
  "pick_option ids =
     (case find (\<lambda>p. p \<in> set ids) preferred_options of
        Some p \<Rightarrow> Some p
      | None \<Rightarrow> (case find is_allow ids of
            Some oid \<Rightarrow> Some oid
          | None \<Rightarrow> (case ids of [] \<Rightarrow> None | oid # _ \<Rightarrow> Some oid)))"

definition pick_permission_option :: "dict \<Rightarrow> string option exc" where
  "pick_permission_option params = bind_exc (option_ids params) (\<lambda>ids. Inr (pick_option ids))"

section \<open>The stream\<close>

text \<open>\<open>_drain_stdout_unlocked\<close>: everything up to an end of file; the lines that are logged loud.\<close>

fun drain_queue :: "line option list \<Rightarrow> line list \<times> line option list" where
  "drain_queue [] = ([], [])"
| "drain_queue (None # q) = ([], q @ [None])"
| "drain_queue (Some l # q) = (case drain_queue q of (ls, q') \<Rightarrow> (l # ls, q'))"

definition put_queue :: "line option list \<Rightarrow> unit op" where
  "put_queue q = put_self (\<lambda>c. c\<lparr>c_queue := Some q\<rparr>)"

definition drain_stdout :: "sys \<Rightarrow> (nat \<times> string list) op" where
  "drain_stdout S =
     chain (get_self c_queue) (\<lambda>q. case q of
       None \<Rightarrow> give (0, [])
     | Some q \<Rightarrow> chain (answer (y_out S)) (\<lambda>new.
         case drain_queue (q @ new) of (ls, q') \<Rightarrow>
           also_do (put_queue q') (give (length ls, map frame_fields (filter (\<lambda>l. \<not> is_bare_notification l) ls)))))"

text \<open>\<open>_readline_timeout\<close>: what arrives in time; an end of file stays for later readers.\<close>

definition read_line :: "sys \<Rightarrow> line option op" where
  "read_line S =
     chain (get_self c_queue) (\<lambda>q. case q of
       None \<Rightarrow> give None
     | Some q \<Rightarrow> chain (answer (y_out S)) (\<lambda>new.
         case q @ new of
           [] \<Rightarrow> also_do (put_queue []) (give None)
         | None # rest \<Rightarrow> also_do (put_queue (rest @ [None])) (give None)
         | Some l # rest \<Rightarrow> also_do (put_queue rest) (give (Some l))))"

definition write_json :: "sys \<Rightarrow> dict \<Rightarrow> unit op" where
  "write_json S d =
     chain the_pid (\<lambda>_. chain (answer (y_write S)) (\<lambda>e. case e of
       Some msg \<Rightarrow> throw (Raised msg)
     | None \<Rightarrow> record_act (\<lambda>r. r\<lparr>written := written r @ [JObj d]\<rparr>)))"

definition emit_progress :: "sys \<Rightarrow> string \<Rightarrow> unit op" where
  "emit_progress S chunk =
     provided (y_listens S \<and> chunk \<noteq> [])
       (record_act (\<lambda>r. r\<lparr>told := told r @ [(c_role (self r), take 2000 chunk)]\<rparr>))"

definition stderr_tail :: "sys \<Rightarrow> string op" where
  "stderr_tail S = answer (\<lambda>i. drop (length (y_stderr S i) - 500) (y_stderr S i))"

definition sample_rss :: "sys \<Rightarrow> unit op" where
  "sample_rss S =
     chain (get_self c_proc) (\<lambda>p. case p of
       None \<Rightarrow> give ()
     | Some p \<Rightarrow> chain (answer (\<lambda>i. y_status S i (pid p))) (\<lambda>ls.
         case (case ls of None \<Rightarrow> None | Some ls \<Rightarrow> find (\<lambda>l. starts_with l ''VmRSS:'') ls) of
           None \<Rightarrow> give ()
         | Some l \<Rightarrow> (case (case second_word l of None \<Rightarrow> None | Some w \<Rightarrow> py_int w) of
               None \<Rightarrow> give ()
             | Some kb \<Rightarrow> put_self (\<lambda>c. c\<lparr>c_rss := kb\<rparr>))))"

section \<open>ACP\<close>

definition rpc_frame :: "string \<Rightarrow> json \<Rightarrow> json \<Rightarrow> dict" where
  "rpc_frame key rid x = [(''jsonrpc'', JStr ''2.0''), (''id'', rid), (key, x)]"

definition acp_error :: "int \<Rightarrow> string \<Rightarrow> json" where
  "acp_error n msg = JObj [(''code'', JNum n), (''message'', JStr msg)]"

text \<open>\<open>_handle_acp_server_request\<close>.\<close>

definition acp_reply :: "dict \<Rightarrow> dict option exc" where
  "acp_reply d =
     (let meth = str_or_empty (dget d ''method''); rid = dget d ''id'' in
      if meth = ''session/request_permission''
      then bind_exc (pick_permission_option (json_obj (dget d ''params''))) (\<lambda>pick. Inr (Some (case pick of
          None \<Rightarrow> rpc_frame ''error'' rid (acp_error (-32602) ''no permission options offered'')
        | Some oid \<Rightarrow> rpc_frame ''result'' rid
            (JObj [(''outcome'', JObj [(''outcome'', JStr ''selected''), (''optionId'', JStr oid)])]))))
      else if starts_with meth ''fs/'' \<or> starts_with meth ''terminal/''
      then Inr (Some (rpc_frame ''error'' rid (acp_error (-32601) (''client capability not offered: '' @ meth))))
      else if rid \<noteq> JNull then Inr (Some (rpc_frame ''error'' rid (acp_error (-32601) (''method not found: '' @ meth))))
      else Inr None)"

definition answer_request :: "sys \<Rightarrow> dict \<Rightarrow> unit op" where
  "answer_request S d = chain (of_result (acp_reply d)) (\<lambda>a. case a of None \<Rightarrow> give () | Some a \<Rightarrow> write_json S a)"

text \<open>\<open>_read_jsonrpc_result\<close>: None when the process ended or time is up.\<close>

definition read_step :: "sys \<Rightarrow> rat \<Rightarrow> int \<Rightarrow> unit \<Rightarrow> (unit + dict option) op" where
  "read_step S deadline mid u =
     chain (answer (y_clock S)) (\<lambda>t.
       if deadline \<le> t then finish None
       else chain (poll S) (\<lambda>rc.
         if rc \<noteq> None then finish None
         else chain (read_line S) (\<lambda>l.
           case (case l of None \<Rightarrow> None | Some l \<Rightarrow> decoded l) of
             Some (JObj d) \<Rightarrow>
               if is_jsonrpc_request d then also_do (answer_request S d) (again ())
               else if is_jsonrpc_response d \<and> same_id mid (dget d ''id'') then finish (Some d)
               else again ()
           | _ \<Rightarrow> again ())))"

definition read_result :: "sys \<Rightarrow> int \<Rightarrow> rat \<Rightarrow> dict option op" where
  "read_result S mid timeout_s =
     chain (answer (y_clock S)) (\<lambda>t. rounds (read_step S (t + timeout_s) mid) (y_fuel S) ())"

definition next_id :: "int op" where
  "next_id = also_do (put_self (\<lambda>c. c\<lparr>c_rpc := c_rpc c + 1\<rparr>)) (get_self c_rpc)"

definition acp_call :: "sys \<Rightarrow> string \<Rightarrow> dict \<Rightarrow> dict option op" where
  "acp_call S meth params =
     chain next_id (\<lambda>i.
       also_do (write_json S [(''jsonrpc'', JStr ''2.0''), (''id'', JNum i), (''method'', JStr meth), (''params'', JObj params)])
         (read_result S i 30))"

definition init_params :: dict where
  "init_params =
     [(''protocolVersion'', JNum 1),
      (''clientCapabilities'', JObj [(''fs'', JObj [(''readTextFile'', JBool False), (''writeTextFile'', JBool False)]),
         (''terminal'', JBool False)]),
      (''clientInfo'', JObj [(''name'', JStr ''agentd-runner''), (''version'', JStr ''1.1.1'')])]"

definition acp_initialize :: "sys \<Rightarrow> unit op" where
  "acp_initialize S =
     chain (acp_call S ''initialize'' init_params) (\<lambda>a. case a of
       None \<Rightarrow> throw (Raised ''grok ACP initialize timed out'')
     | Some d \<Rightarrow>
         if truthy (dget d ''error'') then throw (Raised (''grok ACP initialize error: '' @ py_repr (dget d ''error'')))
         else chain (get_self c_cwd) (\<lambda>cwd.
           chain (acp_call S ''session/new'' [(''cwd'', JStr cwd), (''mcpServers'', JArr [])]) (\<lambda>b.
             chain (of_result (sub_obj (case b of None \<Rightarrow> [] | Some d \<Rightarrow> d) ''result'')) (\<lambda>res.
               if \<not> truthy (dget res ''sessionId'')
               then throw (Raised (''grok ACP session/new failed: '' @ (case b of None \<Rightarrow> ''None'' | Some d \<Rightarrow> py_repr (JObj d))))
               else put_self (\<lambda>c. c\<lparr>c_acp := Some (py_str (dget res ''sessionId''))\<rparr>)))))"

section \<open>Spawn\<close>

definition popen :: "sys \<Rightarrow> string list \<Rightarrow> unit op" where
  "popen S cmd =
     (let started = (\<lambda>p. put_self (\<lambda>c. c\<lparr>c_proc := Some \<lparr>pid = p, exit_code = None\<rparr>\<rparr>));
          note_it = record_act (\<lambda>r. r\<lparr>spawned := spawned r @ [(cmd, role_env S (self r))]\<rparr>) in
      chain (answer (\<lambda>i. y_popen S i (y_root S) cmd)) (\<lambda>a. case a of
        Spawned p \<Rightarrow> also_do note_it (started p)
      | Spawn_error e \<Rightarrow> throw (Raised e)
      | Refused_args _ \<Rightarrow> chain (answer (\<lambda>i. y_popen S i False cmd)) (\<lambda>a. case a of
            Spawned p \<Rightarrow> also_do note_it (started p)
          | Spawn_error e \<Rightarrow> throw (Raised e)
          | Refused_args e \<Rightarrow> throw (Raised e))))"

text \<open>\<open>_await_liveness\<close>.\<close>

definition await_step :: "sys \<Rightarrow> rat \<Rightarrow> unit \<Rightarrow> (unit + bool) op" where
  "await_step S deadline u =
     chain (poll S) (\<lambda>rc.
       if rc \<noteq> None then finish False
       else chain (answer (y_mono S)) (\<lambda>t. if deadline \<le> t then finish True else again ()))"

definition await_liveness :: "sys \<Rightarrow> rat \<Rightarrow> bool op" where
  "await_liveness S timeout_s =
     chain (answer (y_mono S)) (\<lambda>t. rounds (await_step S (t + timeout_s)) (y_fuel S) ())"

definition spawn_liveness_s :: rat where
  "spawn_liveness_s = 3 / 4"

definition must_not :: "(nat \<Rightarrow> string option) \<Rightarrow> unit op" where
  "must_not f = chain (answer f) (\<lambda>e. case e of None \<Rightarrow> give () | Some msg \<Rightarrow> throw (Raised msg))"

definition role_cmd :: "string + string list \<Rightarrow> string list op" where
  "role_cmd x = chain (of_result x) (\<lambda>cmd. chain (get_self c_role) (\<lambda>role. of_result (wrap_with_role_secrets role cmd)))"

text \<open>A resumed CLI that dies at once is started again with \<open>-c\<close>; any other early death raises.\<close>

definition retry_without_resume :: "sys \<Rightarrow> unit op" where
  "retry_without_resume S =
     also_do (put_self (\<lambda>c. c\<lparr>c_claude := None\<rparr>))
       (chain (get_self (claude_cmd S True)) (\<lambda>x. chain (role_cmd x) (\<lambda>cmd.
         also_do (popen S cmd) (also_do (put_self (\<lambda>c. c\<lparr>c_resumed := False\<rparr>))
           (chain (await_liveness S spawn_liveness_s) (\<lambda>up.
             if up then give ()
             else chain (stderr_tail S) (\<lambda>tail. throw (Raised (''claude died after -c fallback: '' @ tail)))))))))"

definition spawn_unlocked :: "sys \<Rightarrow> bool \<Rightarrow> unit op" where
  "spawn_unlocked S continue =
     also_do (must_not (y_dirs S)) (also_do (put_self (\<lambda>c. c\<lparr>c_acp := None, c_rpc := 1000\<rparr>))
     (chain (get_self (vendor_cmd S continue)) (\<lambda>x. chain (role_cmd x) (\<lambda>cmd.
       also_do (put_self (\<lambda>c. c\<lparr>c_stderr := False\<rparr>)) (also_do (must_not (y_open S))
       (also_do (put_self (\<lambda>c. c\<lparr>c_stderr := True\<rparr>))
       (chain (get_self (\<lambda>c. continue \<and> is_claude (c_adapter c) \<and> set_opt (c_claude c))) (\<lambda>resume.
         also_do (popen S cmd) (also_do (put_self (\<lambda>c. c\<lparr>c_resumed := resume\<rparr>))
         (also_do (chain (await_liveness S spawn_liveness_s) (\<lambda>up.
            if up then give ()
            else chain (stderr_tail S) (\<lambda>tail.
              if resume then retry_without_resume S
              else throw (Raised (''cli died 0.75s after spawn: '' @ tail)))))
         (also_do (reap_orphans S) (also_do (put_queue [])
         (chain (get_self (\<lambda>c. is_grok (c_adapter c))) (\<lambda>grok.
           also_do (provided grok (acp_initialize S)) (sample_rss S)))))))))))))))"

definition ensure_spawned :: "sys \<Rightarrow> bool \<Rightarrow> unit op" where
  "ensure_spawned S continue =
     chain (is_alive S) (\<lambda>up. if up then give () else spawn_unlocked S continue)"

definition respawn :: "sys \<Rightarrow> bool \<Rightarrow> unit op" where
  "respawn S continue = chain (kill_unlocked S) (\<lambda>_. spawn_unlocked S continue)"

definition respawn_after_error :: "sys \<Rightarrow> unit op" where
  "respawn_after_error S = chain (trying (respawn S True)) (\<lambda>_. give ())"

end
