(* ===== verification/Runner_Live.thy ===== *)
theory Runner_Live
  imports Runner_Cli
begin

text \<open>
  Turns over the long-lived CLI, and the registry of one session per role
  (\<open>agentd/docker/session-runner/agentd_runner/cli_session.py\<close>, from \<open>turn\<close> to \<open>rss_snapshot\<close>).
\<close>

section \<open>Claude\<close>

definition acted :: "dict \<Rightarrow> dict list \<Rightarrow> dict" where
  "acted d acts = d @ [(''public_actions'', JArr (map JObj acts)), (''artifacts'', JArr [])]"

definition failed :: "string \<Rightarrow> dict" where
  "failed why = acted [(''status'', JStr ''failed''), (''summary'', JStr why)] []"

text \<open>The texts of an assistant frame, in order.\<close>

definition claude_texts :: "dict \<Rightarrow> string list exc" where
  "claude_texts d =
     (if dget d ''type'' \<noteq> JStr ''assistant'' then Inr []
      else bind_exc (sub_obj d ''message'') (\<lambda>m. Inr
        (case dget m ''content'' of
           JArr xs \<Rightarrow> concat (map (\<lambda>c. case c of
               JObj b \<Rightarrow> if dget b ''type'' = JStr ''text'' then [str_or_empty (dget b ''text'')] else []
             | _ \<Rightarrow> []) xs)
         | JStr s \<Rightarrow> [s]
         | _ \<Rightarrow> [])))"

definition note_claude_id :: "dict \<Rightarrow> unit op" where
  "note_claude_id d =
     provided (truthy (dget d ''session_id'')) (put_self (\<lambda>c. c\<lparr>c_claude := Some (py_str (dget d ''session_id''))\<rparr>))"

text \<open>The frames of a turn up to its result, with the texts and the actions seen on the way.\<close>

type_synonym seen = "string list \<times> dict list"

definition claude_step :: "sys \<Rightarrow> rat \<Rightarrow> seen \<Rightarrow> (seen + dict \<times> seen) op" where
  "claude_step S deadline x =
     chain (answer (y_clock S)) (\<lambda>t.
       if deadline \<le> t then throw (Deadline ''claude turn deadline'')
       else chain (poll S) (\<lambda>rc.
         if rc \<noteq> None
         then chain (get_self c_resumed) (\<lambda>resumed.
           also_do (provided resumed (put_self (\<lambda>c. c\<lparr>c_claude := None\<rparr>)))
             (chain (stderr_tail S) (\<lambda>tail. throw (Raised (''claude exited early: '' @ tail)))))
         else chain (read_line S) (\<lambda>l.
           case (case l of None \<Rightarrow> None | Some l \<Rightarrow> decoded l) of
             Some (JObj d) \<Rightarrow>
               also_do (note_claude_id d)
               (chain (of_result (claude_texts d)) (\<lambda>extra.
                 also_do (emit_progress S (concat extra))
                 (let x' = (fst x @ extra, snd x @ from_claude_stream_obj d) in
                  if dget d ''type'' = JStr ''result'' then finish (d, x') else again x')))
           | _ \<Rightarrow> again x)))"

definition claude_result :: "sys \<Rightarrow> dict \<Rightarrow> string list \<Rightarrow> dict list \<Rightarrow> dict op" where
  "claude_result S d texts acts =
     (let summary = take 4000 (py_str (py_or (dget d ''result'') (JStr (concat texts))));
          done = acted [(''status'', JStr (if truthy (dget d ''is_error'') then ''failed'' else ''done'')), (''summary'', JStr summary)]
            (dedupe_actions acts) in
      if \<not> truthy (dget d ''is_error'') then give done
      else also_do (respawn_after_error S)
        (chain (answer (y_clock S)) (\<lambda>now.
          chain (of_result (classify_quota (y_tzdb S) now summary [] JNull)) (\<lambda>quota.
            give (case quota of None \<Rightarrow> done | Some q \<Rightarrow> acted q (dedupe_actions acts))))))"

definition claude_message :: "string \<Rightarrow> cli \<Rightarrow> dict" where
  "claude_message prompt c =
     [(''type'', JStr ''user''), (''message'', JObj [(''role'', JStr ''user''), (''content'', JStr prompt)])] @
     (if set_opt (c_claude c) then [(''session_id'', JStr (the (c_claude c)))] else [])"

definition claude_turn :: "sys \<Rightarrow> string \<Rightarrow> int \<Rightarrow> dict op" where
  "claude_turn S prompt deadline_s =
     chain the_pid (\<lambda>_. (chain (get_self (claude_message prompt)) (\<lambda>msg.
       chain (drain_stdout S) (\<lambda>_. also_do (write_json S msg)
         (chain (answer (y_clock S)) (\<lambda>t.
           chain (rounds (claude_step S (t + of_int deadline_s)) (y_fuel S) ([], [])) (\<lambda>(d, texts, acts).
             claude_result S d texts acts)))))))"

section \<open>Grok\<close>

definition grok_update :: "dict \<Rightarrow> dict exc" where
  "grok_update d = bind_exc (sub_obj d ''params'') (\<lambda>p. Inr (json_obj (dget p ''update'')))"

definition grok_chunk :: "dict \<Rightarrow> string list exc" where
  "grok_chunk u =
     (if dget u ''sessionUpdate'' \<noteq> JStr ''agent_message_chunk'' then Inr []
      else bind_exc (sub_obj u ''content'') (\<lambda>c. Inr [str_or_empty (dget c ''text'')]))"

definition grok_step :: "sys \<Rightarrow> rat \<Rightarrow> int \<Rightarrow> seen \<Rightarrow> (seen + dict \<times> seen) op" where
  "grok_step S deadline mid x =
     chain (answer (y_clock S)) (\<lambda>t.
       if deadline \<le> t then throw (Deadline ''grok turn deadline'')
       else chain (poll S) (\<lambda>rc.
         if rc \<noteq> None
         then chain (stderr_tail S) (\<lambda>tail. throw (Raised (''grok exited early: '' @ tail)))
         else chain (read_line S) (\<lambda>l.
           case (case l of None \<Rightarrow> None | Some l \<Rightarrow> decoded l) of
             Some (JObj d) \<Rightarrow>
               if dget d ''method'' = JStr ''session/update''
               then chain (of_result (grok_update d)) (\<lambda>u. chain (of_result (grok_chunk u)) (\<lambda>extra.
                 also_do (emit_progress S (concat extra))
                   (again (fst x @ extra, snd x @ from_grok_session_update u))))
               else if is_jsonrpc_request d
               then also_do (answer_request S d) (again x)
               else if is_jsonrpc_response d \<and> same_id mid (dget d ''id'') then finish (d, x)
               else again x
           | _ \<Rightarrow> again x)))"

definition quota_or :: "sys \<Rightarrow> string \<Rightarrow> json \<Rightarrow> dict list \<Rightarrow> dict \<Rightarrow> dict \<Rightarrow> dict op" where
  "quota_or S stop_reason e acts extra other =
     chain (answer (y_clock S)) (\<lambda>now. chain (of_result (classify_quota (y_tzdb S) now [] stop_reason e)) (\<lambda>quota.
       give (case quota of None \<Rightarrow> other | Some q \<Rightarrow> acted q acts @ extra)))"

text \<open>The stop reason drives the status: a cancelled turn never looks done, nor does one without text.\<close>

definition grok_result :: "sys \<Rightarrow> dict \<Rightarrow> string list \<Rightarrow> dict list \<Rightarrow> dict op" where
  "grok_result S d chunks seen =
     (let acts = dedupe_actions seen; outcome = (\<lambda>status summary stop_reason.
        acted [(''status'', JStr status), (''summary'', JStr (take 4000 summary))] acts @ [(''stop_reason'', JStr stop_reason)]) in
      if truthy (dget d ''error'')
      then quota_or S [] (dget d ''error'') acts []
             (acted [(''status'', JStr ''failed''), (''summary'', JStr (take 800 (py_str (dget d ''error''))))] acts)
      else chain (of_result (sub_obj d ''result'')) (\<lambda>res.
        let stop_reason = str_or_empty (dget res ''stopReason''); said = concat chunks;
            text = py_strip (if said = [] then take 4000 (str_or_empty (dget res ''text'')) else said) in
        if stop_reason \<noteq> [] \<and> stop_reason \<noteq> ''end_turn''
        then quota_or S stop_reason JNull acts [(''stop_reason'', JStr stop_reason)]
               (outcome (if stop_reason \<in> set [''refusal'', ''rejected''] then ''needs_human'' else ''failed'')
                  (first_of [text, ''grok stopReason='' @ stop_reason]) stop_reason)
        else give (if text = [] then outcome ''failed'' ''empty agent result (no text after end_turn)'' ''end_turn''
             else outcome ''done'' text ''end_turn'')))"

definition prompt_params :: "string \<Rightarrow> cli \<Rightarrow> dict" where
  "prompt_params prompt c =
     [(''sessionId'', case c_acp c of None \<Rightarrow> JNull | Some s \<Rightarrow> JStr s),
      (''prompt'', JArr [JObj [(''type'', JStr ''text''), (''text'', JStr prompt)]])]"

definition grok_turn :: "sys \<Rightarrow> string \<Rightarrow> int \<Rightarrow> dict op" where
  "grok_turn S prompt deadline_s =
     chain the_pid (\<lambda>_. (chain (get_self c_acp) (\<lambda>acp.
       also_do (provided (\<not> set_opt acp) (acp_initialize S))
       (chain next_id (\<lambda>mid. chain (get_self (prompt_params prompt)) (\<lambda>params.
         chain (drain_stdout S) (\<lambda>_. also_do
           (write_json S [(''jsonrpc'', JStr ''2.0''), (''id'', JNum mid), (''method'', JStr ''session/prompt''),
              (''params'', JObj params)])
           (chain (answer (y_clock S)) (\<lambda>t.
             chain (rounds (grok_step S (t + of_int deadline_s) mid) (y_fuel S) ([], [])) (\<lambda>(d, chunks, acts).
               grok_result S d chunks acts))))))))))"

section \<open>A turn\<close>

definition deadline_summary :: "int \<Rightarrow> string option \<Rightarrow> string" where
  "deadline_summary n why =
     ''turn deadline exceeded after '' @ dec n @ ''s; '' @
     (case why of None \<Rightarrow> ''cli killed'' | Some w \<Rightarrow> ''CLI COULD NOT BE KILLED: '' @ w)"

definition vendor_turn :: "sys \<Rightarrow> string \<Rightarrow> int \<Rightarrow> dict op" where
  "vendor_turn S prompt deadline_s =
     chain (get_self c_adapter) (\<lambda>a. if is_claude a then claude_turn S prompt deadline_s else grok_turn S prompt deadline_s)"

definition end_turn :: "sys \<Rightarrow> int \<Rightarrow> stop + dict \<Rightarrow> dict op" where
  "end_turn S deadline_s x =
     (case x of
        Inl (Deadline _) \<Rightarrow> chain (kill_unlocked S) (\<lambda>why. give (failed (deadline_summary deadline_s why)))
      | Inl e \<Rightarrow> give (failed (''live turn error: '' @ stop_text e))
      | Inr d \<Rightarrow> also_do (sample_rss S) (also_do (reap_orphans S) (chain (get_self c_rss) (\<lambda>kb.
          give (d @ [(''cli_rss_kb'', JNum kb), (''live_session'', JBool True)])))))"

definition turn :: "sys \<Rightarrow> string \<Rightarrow> int \<Rightarrow> dict op" where
  "turn S prompt deadline_s =
     chain (trying (ensure_spawned S True)) (\<lambda>x. case x of
       Inl e \<Rightarrow> give (failed (''cli respawn failed: '' @ stop_text e))
     | Inr _ \<Rightarrow> chain (trying (vendor_turn S prompt deadline_s)) (end_turn S deadline_s))"

section \<open>The registry\<close>

type_synonym registry = "(string \<times> cli) list"

fun register :: "string \<Rightarrow> cli \<Rightarrow> registry \<Rightarrow> registry" where
  "register k c [] = [(k, c)]"
| "register k c ((k', c') # rs) = (if k' = k then (k, c) # rs else (k', c') # register k c rs)"

text \<open>\<open>LiveCliSession(...)\<close> with the arguments of \<open>get_or_create_session\<close>.\<close>

record session_args =
  l_role :: string
  l_adapter :: string
  l_uid :: int
  l_home :: string
  l_tmp :: string
  l_xdg :: string
  l_cwd :: string
  l_model :: "string option"
  l_effort :: "string option"

definition new_cli :: "session_args \<Rightarrow> cli" where
  "new_cli a =
     \<lparr>c_role = l_role a, c_adapter = l_adapter a, c_uid = l_uid a, c_home = l_home a, c_tmp = l_tmp a, c_xdg = l_xdg a,
      c_cwd = l_cwd a, c_model = l_model a, c_effort = l_effort a, c_proc = None, c_claude = None, c_acp = None,
      c_rpc = 1000, c_rss = 0, c_stderr = False, c_queue = None, c_resumed = False\<rparr>"

definition load_self :: "cli \<Rightarrow> unit op" where
  "load_self c = put_self (\<lambda>_. c)"

text \<open>\<open>get_or_create_session\<close>: the session is loaded as the one at work; what \<open>shutdown\<close> says is not read.\<close>

definition get_or_create_session :: "sys \<Rightarrow> session_args \<Rightarrow> registry \<Rightarrow> registry op" where
  "get_or_create_session S a reg =
     (let fresh = also_do (load_self (new_cli a)) (give (register (l_role a) (new_cli a) reg)) in
      case map_of reg (l_role a) of
        None \<Rightarrow> fresh
      | Some c \<Rightarrow>
          also_do (load_self c)
          (chain (if c_adapter c = l_adapter a \<and> c_model c = l_model a \<and> c_effort c = l_effort a
                  then is_alive S else give False) (\<lambda>usable.
            if usable then chain (get_self id) (\<lambda>c. give (register (l_role a) c reg))
            else chain (kill_unlocked S) (\<lambda>_. fresh))))"

text \<open>\<open>shutdown_all\<close>: the roles whose CLI could not be killed; the registry is empty afterwards.\<close>

fun shutdown_each :: "sys \<Rightarrow> registry \<Rightarrow> string list op" where
  "shutdown_each S [] = give []"
| "shutdown_each S ((k, c) # reg) =
     also_do (load_self c) (chain (kill_unlocked S) (\<lambda>why. chain (shutdown_each S reg) (\<lambda>extra.
       give (case why of None \<Rightarrow> extra | Some w \<Rightarrow> (c_role c @ '': '' @ w) # extra))))"

definition shutdown_all :: "sys \<Rightarrow> registry \<Rightarrow> (string list \<times> registry) op" where
  "shutdown_all S reg = chain (shutdown_each S reg) (\<lambda>fs. give (fs, []))"

fun rss_snapshot :: "sys \<Rightarrow> registry \<Rightarrow> registry op" where
  "rss_snapshot S [] = give []"
| "rss_snapshot S ((k, c) # reg) =
     also_do (load_self c) (also_do (sample_rss S) (chain (get_self id) (\<lambda>c.
       chain (rss_snapshot S reg) (\<lambda>extra. give ((k, c) # extra)))))"

end
