(* ===== verification/Runner_Frame.thy ===== *)
theory Runner_Frame
  imports Runner_Live
begin

text \<open>
  What every method of a live CLI keeps: the frame of a relation between the states before and after, the
  rounds of the loops, and the freedom from exceptions.
\<close>

named_theorems stays_rules \<open>operations that keep a relation\<close>
named_theorems settles_rules \<open>operations that need finitely many rounds\<close>

section \<open>Relations between before and after\<close>

definition stays :: "(runner \<Rightarrow> runner \<Rightarrow> bool) \<Rightarrow> 'a op \<Rightarrow> bool" where
  "stays R m \<longleftrightarrow> (\<forall>r. R r (fst (m r)))"

text \<open>What a method may do to its session beside spawning and killing.\<close>

definition tame :: "(cli \<Rightarrow> cli) \<Rightarrow> bool" where
  "tame f \<longleftrightarrow> (\<forall>c. c_role (f c) = c_role c \<and> c_adapter (f c) = c_adapter c \<and> c_uid (f c) = c_uid c \<and>
     c_model (f c) = c_model c \<and> c_effort (f c) = c_effort c \<and>
     map_option pid (c_proc (f c)) = map_option pid (c_proc c))"

locale op_frame =
  fixes R :: "runner \<Rightarrow> runner \<Rightarrow> bool"
  assumes R_refl: "R r r"
    and R_trans: "R a b \<Longrightarrow> R b c \<Longrightarrow> R a c"
    and R_tick: "R r (r\<lparr>ticks := Suc (ticks r)\<rparr>)"
    and R_tame: "tame f \<Longrightarrow> R r (r\<lparr>self := f (self r)\<rparr>)"
    and R_written: "R r (r\<lparr>written := ws\<rparr>)"
    and R_reaped: "R r (r\<lparr>reaped := ps\<rparr>)"
    and R_told: "R r (r\<lparr>told := ts\<rparr>)"
begin

lemma stays_give [stays_rules]: "stays R (give x)"
  by (simp add: stays_def give_def R_refl)

lemma stays_throw [stays_rules]: "stays R (throw e)"
  by (simp add: stays_def throw_def R_refl)

lemma stays_answer [stays_rules]: "stays R (answer f)"
  by (simp add: stays_def answer_def R_tick)

lemma stays_get [stays_rules]: "stays R (get_self f)"
  by (simp add: stays_def get_self_def R_refl)

lemma stays_put: "tame f \<Longrightarrow> stays R (put_self f)"
  by (simp add: stays_def put_self_def R_tame)

lemma stays_chain [stays_rules]: "stays R m \<Longrightarrow> (\<And>x. stays R (f x)) \<Longrightarrow> stays R (chain m f)"
  by (auto simp: stays_def chain_def split: prod.splits sum.splits) (metis R_trans fst_conv)+

lemma stays_trying [stays_rules]: "stays R m \<Longrightarrow> stays R (trying m)"
  by (auto simp: stays_def trying_def split: prod.splits sum.splits stop.splits) (metis fst_conv)+

lemma stays_provided [stays_rules]: "stays R m \<Longrightarrow> stays R (provided b m)"
  by (simp add: provided_def stays_give)

lemma stays_of_result [stays_rules]: "stays R (of_result x)"
  by (simp add: of_result_def stays_give stays_throw split: sum.split)

lemma stays_branch [stays_rules]: "(b \<Longrightarrow> stays R m) \<Longrightarrow> (\<not> b \<Longrightarrow> stays R n) \<Longrightarrow> stays R (if b then m else n)"
  by simp

lemma stays_option [stays_rules]:
  "(x = None \<Longrightarrow> stays R m) \<Longrightarrow> (\<And>y. x = Some y \<Longrightarrow> stays R (f y)) \<Longrightarrow> stays R (case x of None \<Rightarrow> m | Some y \<Rightarrow> f y)"
  by (cases x) auto

lemma stays_sum [stays_rules]:
  "(\<And>y. stays R (f y)) \<Longrightarrow> (\<And>y. stays R (g y)) \<Longrightarrow> stays R (case x of Inl y \<Rightarrow> f y | Inr y \<Rightarrow> g y)"
  by (cases x) auto

lemma stays_prod [stays_rules]: "(\<And>a b. stays R (f a b)) \<Longrightarrow> stays R (case x of (a, b) \<Rightarrow> f a b)"
  by (cases x) auto

lemma stays_json [stays_rules]:
  assumes "stays R a" "\<And>x. stays R (b x)" "\<And>x. stays R (c x)" "\<And>x. stays R (d x)" "\<And>x. stays R (e x)" "\<And>x. stays R (f x)"
  shows "stays R (case j of JNull \<Rightarrow> a | JBool x \<Rightarrow> b x | JNum x \<Rightarrow> c x | JStr x \<Rightarrow> d x | JArr x \<Rightarrow> e x | JObj x \<Rightarrow> f x)"
  using assms by (cases j) auto

lemma stays_rounds: "(\<And>s. stays R (f s)) \<Longrightarrow> stays R (rounds f n s)"
  by (induction n arbitrary: s) (auto intro!: stays_rules)

text \<open>The updates the methods make.\<close>

lemma stays_updates [stays_rules]:
  "stays R (put_queue q)" "stays R (keep_code rc)" "stays R next_id" "stays R (note_claude_id d)"
  "stays R (put_self (\<lambda>c. c\<lparr>c_stderr := b\<rparr>))" "stays R (put_self (\<lambda>c. c\<lparr>c_claude := k\<rparr>))"
  "stays R (put_self (\<lambda>c. c\<lparr>c_acp := k\<rparr>))" "stays R (put_self (\<lambda>c. c\<lparr>c_resumed := b\<rparr>))"
  "stays R (put_self (\<lambda>c. c\<lparr>c_acp := k, c_rpc := n\<rparr>))" "stays R (put_self (\<lambda>c. c\<lparr>c_rss := n\<rparr>))"
  unfolding put_queue_def keep_code_def next_id_def note_claude_id_def
  by (intro stays_rules stays_put; simp add: tame_def option.map_comp comp_def)+

lemma stays_pid [stays_rules]: "stays R the_pid"
  unfolding the_pid_def by (intro stays_rules)

lemma stays_poll_by [stays_rules]: "stays R (poll_by f)"
  unfolding poll_by_def by (intro stays_rules)

lemma stays_poll [stays_rules]: "stays R (poll S)" "stays R (is_alive S)"
  unfolding poll_def is_alive_def by (intro stays_rules)+

lemma stays_members [stays_rules]: "stays R (live_members S p)" "stays R (is_our_child S p)"
  unfolding live_members_def is_our_child_def by (intro stays_rules)+

lemma stays_acts [stays_rules]:
  "stays R (record_act (\<lambda>r. r\<lparr>written := f r\<rparr>))" "stays R (record_act (\<lambda>r. r\<lparr>reaped := g r\<rparr>))"
  "stays R (record_act (\<lambda>r. r\<lparr>told := h r\<rparr>))"
  by (simp_all add: stays_def record_act_def R_written R_reaped R_told)

lemma stays_reap_each: "stays R (reap_each S ps)"
  by (induction ps) (auto intro!: stays_rules)

lemma stays_reap [stays_rules]: "stays R (reap_orphans S)"
  unfolding reap_orphans_def Let_def by (intro stays_rules stays_reap_each)

lemma stays_drain [stays_rules]: "stays R (drain_stdout S)"
  unfolding drain_stdout_def by (intro stays_rules)

lemma stays_read_line [stays_rules]: "stays R (read_line S)"
proof -
  have "stays R (case y of [] \<Rightarrow> also_do (put_queue []) (give None)
      | None # rest \<Rightarrow> also_do (put_queue (rest @ [None])) (give None)
      | Some l # rest \<Rightarrow> also_do (put_queue rest) (give (Some l)))" for y
    by (auto intro!: stays_rules split: list.split option.split)
  then show ?thesis unfolding read_line_def by (intro stays_rules)
qed

lemma stays_write_json [stays_rules]: "stays R (write_json S d)"
  unfolding write_json_def by (intro stays_rules)

lemma stays_effects [stays_rules]:
  "stays R (emit_progress S chunk)" "stays R (stderr_tail S)" "stays R (must_not f')"
  unfolding emit_progress_def stderr_tail_def must_not_def by (intro stays_rules)+

lemma stays_role_cmd: "stays R (role_cmd x)"
  unfolding role_cmd_def by (intro stays_rules)

lemma stays_rss [stays_rules]: "stays R (sample_rss S)"
  unfolding sample_rss_def by (intro stays_rules)

lemma stays_answer_request [stays_rules]: "stays R (answer_request S d)"
  unfolding answer_request_def by (intro stays_rules)

end

section \<open>Relations every method keeps\<close>

text \<open>A command as the runner starts it: the wrapper that reads a role's secrets after the privilege drop.\<close>

definition wrapped :: "string list \<Rightarrow> bool" where
  "wrapped cmd \<longleftrightarrow> (\<exists>role vendor. wrap_with_role_secrets role vendor = Inr cmd)"

locale cli_frame = op_frame +
  fixes S :: sys
  assumes R_popen: "wrapped cmd \<Longrightarrow> stays R (popen S cmd)"
    and R_kill: "stays R (kill_unlocked S)"
begin

lemma stays_chain_val:
  "stays R m \<Longrightarrow> (\<And>x r. snd (m r) = Inr x \<Longrightarrow> stays R (f x)) \<Longrightarrow> stays R (chain m f)"
proof -
  assume m: "stays R m" and f: "\<And>x r. snd (m r) = Inr x \<Longrightarrow> stays R (f x)"
  have "R r (fst (chain m f r))" for r
  proof (cases "snd (m r)")
    case (Inl e)
    with m show ?thesis by (cases "m r") (auto simp: stays_def chain_def dest: spec [of _ r])
  next
    case (Inr x)
    then have "fst (chain m f r) = fst (f x (fst (m r)))" by (cases "m r") (simp add: chain_def)
    with m f [OF Inr] show ?thesis using R_trans unfolding stays_def by metis
  qed
  then show ?thesis by (simp add: stays_def)
qed

lemma role_cmd_wrapped: "snd (role_cmd x r) = Inr cmd \<Longrightarrow> wrapped cmd"
  by (auto simp: role_cmd_def wrapped_def of_result_def chain_def get_self_def give_def throw_def split: sum.splits)

lemma stays_popen: "(\<And>cmd. stays R (popen S cmd) \<Longrightarrow> stays R (f cmd)) \<Longrightarrow> stays R (chain (role_cmd x) f)"
  by (rule stays_chain_val [OF stays_role_cmd]) (metis R_popen role_cmd_wrapped)

lemma stays_calls: "stays R (read_result S mid t)" "stays R (await_liveness S t)" "stays R (acp_call S meth params)"
proof -
  show call: "stays R (read_result S mid t)" for mid t
    unfolding read_result_def read_step_def again_def finish_def
    by (intro stays_rules stays_rounds)
  show "stays R (await_liveness S t)"
    unfolding await_liveness_def await_step_def again_def finish_def by (intro stays_rules stays_rounds)
  show "stays R (acp_call S meth params)" unfolding acp_call_def by (intro stays_rules call)
qed

lemma stays_initialize: "stays R (acp_initialize S)"
  unfolding acp_initialize_def by (intro stays_rules stays_calls)

lemma stays_retry: "stays R (retry_without_resume S)"
  unfolding retry_without_resume_def
  by (rule stays_chain, (intro stays_rules)[1], rule stays_chain, (intro stays_rules)[1], rule stays_popen, intro stays_rules stays_calls)

lemma stays_spawn: "stays R (spawn_unlocked S continue)"
  unfolding spawn_unlocked_def
  by (rule stays_chain, (intro stays_rules)[1], rule stays_chain, (intro stays_rules)[1], rule stays_chain, (intro stays_rules)[1],
      rule stays_popen, intro stays_rules stays_calls stays_initialize stays_retry)

lemma stays_ensure: "stays R (ensure_spawned S continue)" "stays R (respawn_after_error S)"
  unfolding ensure_spawned_def respawn_after_error_def respawn_def by (intro stays_rules stays_spawn R_kill)+

lemma stays_claude_step: "stays R (claude_step S deadline x)"
  unfolding claude_step_def again_def finish_def Let_def
  by (intro stays_rules)

lemma stays_grok_step: "stays R (grok_step S deadline mid x)"
  unfolding grok_step_def again_def finish_def
  by (intro stays_rules)

lemma stays_turns: "stays R (claude_turn S prompt n)" "stays R (grok_turn S prompt n)"
proof -
  have "stays R (claude_result S d texts acts)" for d texts acts
    unfolding claude_result_def Let_def by (intro stays_rules stays_ensure)
  then show "stays R (claude_turn S prompt n)"
    unfolding claude_turn_def by (intro stays_rules stays_rounds stays_claude_step)
  have "stays R (quota_or S stop_reason e acts extra other)" for stop_reason e acts extra other
    unfolding quota_or_def by (intro stays_rules)
  then have "stays R (grok_result S d chunks seen)" for d chunks seen
    unfolding grok_result_def Let_def by (intro stays_rules)
  then show "stays R (grok_turn S prompt n)"
    unfolding grok_turn_def by (intro stays_rules stays_rounds stays_grok_step stays_initialize)
qed

theorem stays_turn: "stays R (turn S prompt n)"
proof -
  have "stays R (vendor_turn S prompt n)"
    unfolding vendor_turn_def by (intro stays_rules stays_turns)
  moreover have "stays R (end_turn S n x)" for x
    unfolding end_turn_def by (auto intro!: stays_rules R_kill split: sum.split stop.split)
  ultimately show ?thesis unfolding turn_def by (intro stays_rules stays_ensure)
qed

end

end
