(* ===== verification/Runner_Facts.thy ===== *)
theory Runner_Facts
  imports Runner_Frame
begin

text \<open>
  What the runner promises about its CLIs: whom it signals, what it starts, when it forgets a process,
  that stale output never answers a turn, and that a turn always ends with a status the gateway knows.
\<close>

lemma chain_ok: "m r = (r', Inr x) \<Longrightarrow> chain m f r = f x r'"
  by (simp add: chain_def)

lemma chain_bad: "m r = (r', Inl e) \<Longrightarrow> chain m f r = (r', Inl e)"
  by (simp add: chain_def)

section \<open>Signals\<close>

text \<open>As whom a signal is sent: from the role's uid when the runner is root.\<close>

definition sender :: "sys \<Rightarrow> cli \<Rightarrow> int option" where
  "sender S c = (if y_root S then Some (c_uid c) else None)"

definition aimed_at :: "sys \<Rightarrow> cli \<Rightarrow> int \<Rightarrow> int \<times> int \<times> int option \<Rightarrow> bool" where
  "aimed_at S c g x \<longleftrightarrow> fst x = g \<and> fst (snd x) \<in> {sig_term, sig_kill} \<and> snd (snd x) = sender S c"

definition group_only :: "sys \<Rightarrow> int \<Rightarrow> runner \<Rightarrow> runner \<Rightarrow> bool" where
  "group_only S g r r' \<longleftrightarrow>
     (\<exists>new. signalled r' = signalled r @ new \<and> list_all (aimed_at S (self r) g) new) \<and> spawned r' = spawned r \<and>
     c_uid (self r') = c_uid (self r) \<and> map_option pid (c_proc (self r')) = map_option pid (c_proc (self r))"

lemma aimed_uid: "c_uid c = c_uid c' \<Longrightarrow> aimed_at S c = aimed_at S c'"
  by (auto simp: aimed_at_def sender_def fun_eq_iff)

interpretation group: op_frame "group_only S g" for S g
proof (unfold_locales, goal_cases)
  case (2 a b c)
  then show ?case
    using aimed_uid [of "self b" "self a" S] by (fastforce simp: group_only_def)
qed (auto simp: group_only_def tame_def)

lemma group_killpg: "sig \<in> {sig_term, sig_kill} \<Longrightarrow> stays (group_only S g) (killpg S g sig)"
  by (auto simp: stays_def killpg_def chain_def get_self_def record_act_def answer_def group_only_def aimed_at_def sender_def)

lemma group_escalate: "set sigs \<subseteq> {sig_term, sig_kill} \<Longrightarrow> stays (group_only S g) (escalate_signals S g sigs)"
proof (induction sigs)
  case Nil
  show ?case by (simp, intro stays_rules)
next
  case (Cons sig sigs)
  then have "sig \<in> {sig_term, sig_kill}" "stays (group_only S g) (escalate_signals S g sigs)" by auto
  then show ?case by (simp only: escalate_signals.simps, intro stays_rules group_killpg)
qed

lemma group_kill: "stays (group_only S p) (kill_group S p)" "stays (group_only S p) (kill_leftovers S p)"
proof -
  have guarded: "stays (group_only S p) (if pgid \<noteq> p then give a else if pgid \<le> 1 \<or> pgid = own then give b
      else chain (is_our_child S p) (\<lambda>x. if x = Some False then give c else escalate_signals S pgid [sig_term, sig_kill]))"
    for pgid own a b c
  proof (cases "pgid = p")
    case True
    show ?thesis unfolding True by (intro stays_rules group_escalate) auto
  qed (simp add: group.stays_give)
  have pgids: "stays (group_only S p) (case g of No_such_process \<Rightarrow> give a | Os_error e \<Rightarrow> give (b e) | Group pgid \<Rightarrow> f pgid)"
    if "\<And>pgid. stays (group_only S p) (f pgid)" for g a b f
    using that by (cases g) (auto intro: stays_rules)
  show "stays (group_only S p) (kill_group S p)"
    unfolding kill_group_def by (intro stays_rules pgids guarded)
  show "stays (group_only S p) (kill_leftovers S p)"
    unfolding kill_leftovers_def by (intro stays_rules group_killpg) simp
qed

text \<open>The parts of \<open>_kill_unlocked\<close> around the signals.\<close>

lemma poll_known: "c_proc (self r) = Some p \<Longrightarrow> exit_code p = Some n \<Longrightarrow> poll S r = (r, Inr (Some n))"
  by (simp add: poll_def poll_by_def chain_def get_self_def give_def)

definition polled :: "process \<Rightarrow> int option \<Rightarrow> runner \<Rightarrow> runner" where
  "polled p rc r = r\<lparr>ticks := Suc (ticks r), self := (self r)\<lparr>c_proc := Some (p\<lparr>exit_code := rc\<rparr>)\<rparr>\<rparr>"

lemma poll_fresh:
  "c_proc (self r) = Some p \<Longrightarrow> exit_code p = None \<Longrightarrow>
   poll S r = (polled p (y_poll S (ticks r) (pid p)) r, Inr (y_poll S (ticks r) (pid p)))"
  by (simp add: poll_def poll_by_def chain_def get_self_def give_def answer_def keep_code_def put_self_def polled_def)

definition idle :: "runner \<Rightarrow> runner \<Rightarrow> bool" where
  "idle r r' \<longleftrightarrow> signalled r' = signalled r \<and> spawned r' = spawned r \<and> c_uid (self r') = c_uid (self r) \<and>
     map_option pid (c_proc (self r')) = map_option pid (c_proc (self r))"

interpretation idle: op_frame idle
  by unfold_locales (auto simp: idle_def tame_def)

lemma poll_value: "c_proc (self r) = Some p \<Longrightarrow> \<exists>r' rc. poll S r = (r', Inr rc) \<and> group_only S (pid p) r r'"
  using group.stays_poll(1) [of S "pid p" S]
  by (cases "exit_code p") (auto simp: poll_known poll_fresh stays_def dest: spec [of _ r])

lemma stays_at: "stays R m \<Longrightarrow> m r = (r', y) \<Longrightarrow> R r r'"
  by (metis fst_conv stays_def)

text \<open>What a kill does: signals to the own group, and then the process is either kept or forgotten.\<close>

lemma kill_effect:
  assumes p: "c_proc (self r) = Some p"
  obtains r1 where "group_only S (pid p) r r1"
    and "fst (kill_unlocked S r) = r1 \<or> idle (fst (forget_dead r1)) (fst (kill_unlocked S r))"
proof -
  obtain r0 rc where r0: "poll S r = (r0, Inr rc)" "group_only S (pid p) r r0" using poll_value [OF p] by blast
  have reap: "idle r2 (fst (reap_orphans S r2))" for r2 using idle.stays_reap [of S] by (simp add: stays_def)
  have drop: "forget_dead r1 = (fst (forget_dead r1), Inr ())" for r1 by (simp add: forget_dead_def put_self_def)
  show thesis
  proof (cases rc)
    case (Some n)
    obtain r1 y where r1: "kill_leftovers S (pid p) r0 = (r1, y)" by fastforce
    have g: "group_only S (pid p) r r1" using r0(2) stays_at [OF group_kill(2) r1] by (rule group.R_trans)
    have "fst (kill_unlocked S r) = r1 \<or> idle (fst (forget_dead r1)) (fst (kill_unlocked S r))"
    proof (cases y)
      case (Inr why)
      with p r0(1) Some r1 drop [of r1] reap [of "fst (forget_dead r1)"] show ?thesis
        by (auto simp: kill_unlocked_def chain_def get_self_def provided_def give_def idle.R_refl
            split: prod.splits sum.splits)
    qed (use p r0(1) Some r1 in \<open>simp add: kill_unlocked_def chain_def get_self_def\<close>)
    with g that show thesis by blast
  next
    case None
    obtain r1 y where r1: "kill_group S (pid p) r0 = (r1, y)" by fastforce
    have g: "group_only S (pid p) r r1" using r0(2) stays_at [OF group_kill(1) r1] by (rule group.R_trans)
    have "fst (kill_unlocked S r) = r1 \<or> idle (fst (forget_dead r1)) (fst (kill_unlocked S r))"
    proof (cases "y = Inr None")
      case True
      with p r0(1) None r1 drop [of r1] reap [of "fst (forget_dead r1)"] show ?thesis
        by (auto simp: kill_unlocked_def chain_def get_self_def give_def split: prod.splits sum.splits)
    next
      case False
      with p r0(1) None r1 show ?thesis
        by (cases y) (auto simp: kill_unlocked_def chain_def get_self_def give_def)
    qed
    with g that show thesis by blast
  qed
qed

section \<open>Whole turns\<close>

definition spawnable :: "sys \<Rightarrow> int set" where
  "spawnable S = {p. \<exists>i b cmd. y_popen S i b cmd = Spawned p}"

definition held :: "sys \<Rightarrow> runner \<Rightarrow> int set" where
  "held S r = spawnable S \<union> (case c_proc (self r) of None \<Rightarrow> {} | Some p \<Rightarrow> {pid p})"

definition no_secrets :: "string list \<times> (string \<times> string) list \<Rightarrow> bool" where
  "no_secrets x \<longleftrightarrow> wrapped (fst x) \<and> list_all (\<lambda>(k, v). k \<notin> set secret_vars) (snd x)"

definition own_business :: "sys \<Rightarrow> runner \<Rightarrow> runner \<Rightarrow> bool" where
  "own_business S r r' \<longleftrightarrow>
     (\<exists>new. signalled r' = signalled r @ new \<and>
        list_all (\<lambda>(g, sig, u). g \<in> held S r \<and> sig \<in> {sig_term, sig_kill} \<and> u = sender S (self r)) new) \<and>
     (\<exists>started. spawned r' = spawned r @ started \<and> list_all no_secrets started) \<and>
     c_uid (self r') = c_uid (self r) \<and> held S r' \<subseteq> held S r"

lemma sender_uid: "c_uid c = c_uid c' \<Longrightarrow> sender S c = sender S c'"
  by (simp add: sender_def)

lemma held_pid: "map_option pid (c_proc (self r')) = map_option pid (c_proc (self r)) \<Longrightarrow> held S r' = held S r"
  by (auto simp: held_def split: option.splits)

lemma own_trans:
  assumes "own_business S a b" "own_business S b c"
  shows "own_business S a c"
proof -
  obtain n1 s1 where 1: "signalled b = signalled a @ n1" "spawned b = spawned a @ s1" "list_all no_secrets s1"
      "list_all (\<lambda>(g, sig, u). g \<in> held S a \<and> sig \<in> {sig_term, sig_kill} \<and> u = sender S (self a)) n1"
    using assms(1) by (auto simp: own_business_def)
  obtain n2 s2 where 2: "signalled c = signalled b @ n2" "spawned c = spawned b @ s2" "list_all no_secrets s2"
      "list_all (\<lambda>(g, sig, u). g \<in> held S b \<and> sig \<in> {sig_term, sig_kill} \<and> u = sender S (self b)) n2"
    using assms(2) by (auto simp: own_business_def)
  have h: "held S b \<subseteq> held S a" "held S c \<subseteq> held S b" "c_uid (self b) = c_uid (self a)" "c_uid (self c) = c_uid (self b)"
    using assms by (auto simp: own_business_def)
  from 2(4) h(1) have "list_all (\<lambda>(g, sig, u). g \<in> held S a \<and> sig \<in> {sig_term, sig_kill} \<and> u = sender S (self a)) n2"
    using sender_uid [OF h(3)] by (fastforce simp: list_all_iff)
  with 1 2 h show ?thesis
    unfolding own_business_def by (intro conjI exI [of _ "n1 @ n2"] exI [of _ "s1 @ s2"]) auto
qed

lemma own_idle: "idle r r' \<Longrightarrow> own_business S r r'"
  using held_pid [of r' r S] by (auto simp: idle_def own_business_def)

lemma own_group:
  assumes "group_only S (pid p) r r'" "c_proc (self r) = Some p"
  shows "own_business S r r'"
proof -
  obtain new where n: "signalled r' = signalled r @ new" "list_all (aimed_at S (self r) (pid p)) new"
    and same: "spawned r' = spawned r" "c_uid (self r') = c_uid (self r)" "map_option pid (c_proc (self r')) = map_option pid (c_proc (self r))"
    using assms(1) unfolding group_only_def by blast
  from n(2) have "list_all (\<lambda>(g, sig, u). g \<in> held S r \<and> sig \<in> {sig_term, sig_kill} \<and> u = sender S (self r)) new"
    by (rule list.pred_mono_strong) (auto simp: aimed_at_def held_def assms(2))
  with n(1) same held_pid [OF same(3), of S] show ?thesis by (auto simp: own_business_def)
qed

lemma own_kill: "own_business S r (fst (kill_unlocked S r))"
proof (cases "c_proc (self r)")
  case None
  then have "fst (kill_unlocked S r) = r\<lparr>self := (self r)\<lparr>c_stderr := False\<rparr>\<rparr>"
    by (simp add: kill_unlocked_def chain_def get_self_def put_self_def give_def)
  then show ?thesis by (simp add: own_idle idle_def)
next
  case (Some p)
  obtain r1 where r1: "group_only S (pid p) r r1"
    "fst (kill_unlocked S r) = r1 \<or> idle (fst (forget_dead r1)) (fst (kill_unlocked S r))"
    by (rule kill_effect [OF Some])
  have "own_business S r1 (fst (forget_dead r1))"
    by (auto simp: own_business_def forget_dead_def put_self_def held_def)
  then show ?thesis
    using r1(2) own_group [OF r1(1) Some] own_idle [of "fst (forget_dead r1)"] own_trans by metis
qed

lemma role_env_clean: "list_all (\<lambda>(k, v). k \<notin> set secret_vars) (role_env S c)"
  by (auto simp: role_env_def list_all_iff)

lemma own_popen:
  assumes "wrapped cmd"
  shows "stays (own_business S) (popen S cmd)"
proof -
  have started: "own_business S r (r\<lparr>ticks := t, spawned := spawned r @ [(cmd, role_env S c)],
      self := (self r)\<lparr>c_proc := Some \<lparr>pid = p, exit_code = None\<rparr>\<rparr>\<rparr>)" if "p \<in> spawnable S" for r c p t
    using assms role_env_clean that by (auto simp: own_business_def no_secrets_def held_def)
  have quiet: "own_business S r (r\<lparr>ticks := t\<rparr>)" for r t
    by (auto intro: own_idle simp: idle_def)
  have "own_business S r (fst (popen S cmd r))" for r
  proof (cases "y_popen S (ticks r) (y_root S) cmd")
    case (Spawned p)
    then have "p \<in> spawnable S" by (auto simp: spawnable_def)
    with started [where t = "Suc (ticks r)" and c = "self r"] Spawned show ?thesis
      by (simp add: popen_def Let_def chain_def answer_def record_act_def put_self_def)
  next
    case (Spawn_error e)
    then show ?thesis using quiet by (simp add: popen_def Let_def chain_def answer_def throw_def)
  next
    case (Refused_args e)
    show ?thesis
    proof (cases "y_popen S (Suc (ticks r)) False cmd")
      case (Spawned p)
      then have "p \<in> spawnable S" by (auto simp: spawnable_def)
      with started [where t = "Suc (Suc (ticks r))" and c = "self r"] Spawned Refused_args show ?thesis
        by (simp add: popen_def Let_def chain_def answer_def record_act_def put_self_def)
    qed (use Refused_args quiet in \<open>simp_all add: popen_def Let_def chain_def answer_def throw_def\<close>)
  qed
  then show ?thesis by (simp add: stays_def)
qed

interpretation own: cli_frame "own_business S" S for S
proof unfold_locales
  show "own_business S r r" for r by (auto simp: own_business_def)
  show "own_business S a b \<Longrightarrow> own_business S b c \<Longrightarrow> own_business S a c" for a b c by (rule own_trans)
  show "stays (own_business S) (kill_unlocked S)" using own_kill by (simp add: stays_def)
qed (auto intro: own_idle own_popen simp: idle_def tame_def)

text \<open>C8: in a whole turn, respawns and kills included, the runner signals only groups of CLIs it spawned itself
  (or the one it already holds), always as the role's own uid when it is root, and each process it starts
  gets the wrapper that reads the secrets after the privilege drop and an environment without a token.\<close>

theorem turn_minds_own_business:
  "\<exists>new started. signalled (fst (turn S prompt n r)) = signalled r @ new \<and>
     list_all (\<lambda>(g, sig, u). g \<in> held S r \<and> sig \<in> {sig_term, sig_kill} \<and> u = sender S (self r)) new \<and>
     spawned (fst (turn S prompt n r)) = spawned r @ started \<and> list_all no_secrets started"
  using own.stays_turn [of S prompt n] by (fastforce simp: stays_def own_business_def)

section \<open>A session\<close>

text \<open>A system on which nothing is unusual: the process leads its own group and is the runner's child.\<close>

definition plain_sys :: sys where
  "plain_sys =
     \<lparr>y_clock = of_nat, y_mono = of_nat, y_root = True, y_me = 7, y_own_group = 5, y_procfs = True,
      y_status = (\<lambda>i p. Some [''PPid: 7'']), y_list = (\<lambda>i. None), y_poll = (\<lambda>i p. None), y_wait = (\<lambda>i p. Some 0),
      y_getpgid = (\<lambda>i p. Group p), y_killpg = (\<lambda>i g sig. 0), y_errname = (\<lambda>e. ''EPERM''), y_reap = (\<lambda>i p. False),
      y_siblings = (\<lambda>i. []), y_dirs = (\<lambda>i. None), y_open = (\<lambda>i. None), y_popen = (\<lambda>i root cmd. Spawned 42),
      y_write = (\<lambda>i. None), y_out = (\<lambda>i. []), y_stderr = (\<lambda>i. []), y_which = (\<lambda>n. None), y_environ = [],
      y_tzdb = (\<lambda>n. utc), y_listens = False, y_fuel = 1\<rparr>"

definition plain_args :: session_args where
  "plain_args =
     \<lparr>l_role = ''developer'', l_adapter = ''claude'', l_uid = 1001, l_home = ''/h'', l_tmp = ''/t'', l_xdg = ''/x'', l_cwd = ''/w'',
      l_model = None, l_effort = None\<rparr>"

definition running_cli :: cli where
  "running_cli = (new_cli plain_args)\<lparr>c_proc := Some \<lparr>pid = 42, exit_code = None\<rparr>, c_queue := Some []\<rparr>"

definition running :: runner where
  "running = \<lparr>self = running_cli, ticks = 0, signalled = [], spawned = [], written = [], reaped = [], told = []\<rparr>"

section \<open>Kills\<close>

lemma kill_live:
  assumes "c_proc (self r) = Some p" "exit_code p = None" "y_poll S (ticks r) (pid p) = None"
  shows "kill_unlocked S r = chain (kill_group S (pid p)) (\<lambda>why.
           if why \<noteq> None then give why else also_do forget_dead (also_do (reap_orphans S) (give None))) (polled p None r)"
  using assms by (simp add: kill_unlocked_def chain_def [of _ _ r] get_self_def poll_fresh)

text \<open>C18: the kill of a session (\<open>_kill_unlocked\<close>) forgets a running CLI only when the kill succeeded: after a failed
  kill the session object still holds the same process, and after a success it holds none.  What its callers then
  do is not claimed here: the paths that respawn or swap a session do not all look at the outcome (see
  \<open>swap_loses_live_cli\<close>).\<close>

theorem forgotten_only_when_dead:
  assumes "c_proc (self r) = Some p" "exit_code p = None" "y_poll S (ticks r) (pid p) = None"
    and "kill_unlocked S r = (r', Inr why)"
  shows "map_option pid (c_proc (self r')) = (if why = None then None else Some (pid p))"
proof -
  obtain r1 y where r1: "kill_group S (pid p) (polled p None r) = (r1, y)" by fastforce
  have kept: "map_option pid (c_proc (self r1)) = Some (pid p)"
    using stays_at [OF group_kill(1) r1] by (simp add: group_only_def polled_def)
  obtain a where y: "y = Inr a" using assms(4) r1 unfolding kill_live [OF assms(1-3)] chain_def by (cases y) auto
  show ?thesis
  proof (cases a)
    case (Some w)
    then show ?thesis using assms(4) r1 y kept unfolding kill_live [OF assms(1-3)] by (auto simp: chain_def give_def)
  next
    case None
    have "idle (fst (forget_dead r1)) (fst (reap_orphans S (fst (forget_dead r1))))"
      using idle.stays_reap [of S] by (simp add: stays_def)
    then have "c_proc (self (fst (reap_orphans S (fst (forget_dead r1))))) = None"
      by (simp add: idle_def forget_dead_def put_self_def)
    then show ?thesis using assms(4) r1 y None unfolding kill_live [OF assms(1-3)]
      by (auto simp: chain_def give_def forget_dead_def put_self_def split: prod.splits sum.splits)
  qed
qed

lemma forgotten_only_when_dead_witness:
  "map_option pid (c_proc (self (fst (kill_unlocked (plain_sys\<lparr>y_killpg := \<lambda>i g sig. 1\<rparr>) running)))) = Some 42 \<and>
   c_proc (self (fst (kill_unlocked plain_sys running))) = None"
proof -
  let ?S = "plain_sys\<lparr>y_killpg := \<lambda>i g sig. 1\<rparr>"
  have "case snd (kill_unlocked ?S running) of Inr (Some w) \<Rightarrow> True | _ \<Rightarrow> False" "snd (kill_unlocked plain_sys running) = Inr None"
    by code_simp+
  then obtain r w r1 where k: "kill_unlocked ?S running = (r, Inr (Some w))" "kill_unlocked plain_sys running = (r1, Inr None)"
    by (cases "kill_unlocked ?S running"; cases "kill_unlocked plain_sys running") (auto split: sum.splits option.splits)
  have p: "c_proc (self running) = Some \<lparr>pid = 42, exit_code = None\<rparr>" by (simp add: running_def running_cli_def)
  show ?thesis
    using forgotten_only_when_dead [OF p _ _ k(1)] forgotten_only_when_dead [OF p _ _ k(2)] k by (simp add: plain_sys_def)
qed

lemma option_bool: "x \<noteq> Some False \<Longrightarrow> x \<noteq> Some True \<Longrightarrow> x = None"
  by (cases x) auto

definition quiet_step :: "runner \<Rightarrow> runner \<Rightarrow> bool" where
  "quiet_step r r' \<longleftrightarrow> signalled r' = signalled r"

interpretation quiet: op_frame quiet_step
  by unfold_locales (simp_all add: quiet_step_def)

text \<open>C19: a running CLI's group is signalled only when the system says that it leads its own group, that the group
  is neither init's nor the runner's, and, where there is a /proc, that the runner is its parent.\<close>

theorem kill_is_guarded:
  assumes "c_proc (self r) = Some p" "exit_code p = None" "y_poll S (ticks r) (pid p) = None"
    and "signalled (fst (kill_unlocked S r)) \<noteq> signalled r"
  shows "y_getpgid S (Suc (ticks r)) (pid p) = Group (pid p) \<and> 1 < pid p \<and> pid p \<noteq> y_own_group S \<and>
    snd (is_our_child S (pid p) (r\<lparr>ticks := Suc (Suc (ticks r))\<rparr>)) \<in> {Inr None, Inr (Some True)}"
proof -
  define r0 where "r0 = polled p None r"
  have r0: "ticks r0 = Suc (ticks r)" "signalled r0 = signalled r" by (simp_all add: r0_def polled_def)
  have sent: "signalled (fst (kill_group S (pid p) r0)) \<noteq> signalled r0"
  proof
    assume same: "signalled (fst (kill_group S (pid p) r0)) = signalled r0"
    have "stays quiet_step (if why \<noteq> None then give why else also_do forget_dead (also_do (reap_orphans S) (give None)))"
      for why :: "string option"
      by (intro stays_rules) (simp add: stays_def quiet_step_def forget_dead_def put_self_def)
    then have "signalled (fst (kill_unlocked S r)) = signalled (fst (kill_group S (pid p) r0))"
      unfolding kill_live [OF assms(1-3)] r0_def [symmetric]
      by (cases "kill_group S (pid p) r0"; cases "snd (kill_group S (pid p) r0)") (simp_all add: chain_def stays_def quiet_step_def)
    with same assms(4) r0(2) show False by simp
  qed
  have child: "snd (is_our_child S (pid p) (r0\<lparr>ticks := t\<rparr>)) = snd (is_our_child S (pid p) (r\<lparr>ticks := t\<rparr>))" for t
    by (auto simp: is_our_child_def chain_def answer_def give_def throw_def r0_def polled_def split: option.splits)
  have quiet: "signalled (fst (is_our_child S (pid p) r1)) = signalled r1" for r1
    using idle.stays_members(2) [of S "pid p"] by (simp add: stays_def idle_def)
  have g: "y_getpgid S (Suc (ticks r)) (pid p) = Group (pid p)" "1 < pid p" "pid p \<noteq> y_own_group S"
    using sent r0 by (auto simp: kill_group_def chain_def answer_def give_def split: pgid_answer.splits if_splits)
  then have "kill_group S (pid p) r0 = chain (is_our_child S (pid p)) (\<lambda>owned. if owned = Some False
      then give (Some (''refusing killpg('' @ dec (pid p) @ ''): pid '' @ dec (pid p) @
             '' is not our child (/proc says its parent is not '' @ dec (y_me S) @ '')''))
      else escalate_signals S (pid p) [sig_term, sig_kill]) (r0\<lparr>ticks := Suc (Suc (ticks r))\<rparr>)"
    using r0(1) by (simp add: kill_group_def chain_def [of "answer _"] answer_def)
  with sent quiet [of "r0\<lparr>ticks := Suc (Suc (ticks r))\<rparr>"]
  have "snd (is_our_child S (pid p) (r0\<lparr>ticks := Suc (Suc (ticks r))\<rparr>)) \<in> {Inr None, Inr (Some True)}"
    by (cases "is_our_child S (pid p) (r0\<lparr>ticks := Suc (Suc (ticks r))\<rparr>)"; cases "snd (is_our_child S (pid p) (r0\<lparr>ticks := Suc (Suc (ticks r))\<rparr>))")
       (auto simp: chain_def [of "is_our_child S (pid p)"] give_def intro: option_bool)
  with g show ?thesis by (simp add: child)
qed

lemma kill_is_guarded_witness:
  "signalled (fst (kill_unlocked plain_sys running)) = [(42, sig_term, Some 1001)] \<and> y_getpgid plain_sys 1 42 = Group 42"
proof -
  have sent: "signalled (fst (kill_unlocked plain_sys running)) = [(42, sig_term, Some 1001)]" by code_simp
  have p: "c_proc (self running) = Some \<lparr>pid = 42, exit_code = None\<rparr>" "signalled running = []"
    by (simp_all add: running_def running_cli_def)
  show ?thesis
    using kill_is_guarded [OF p(1), of plain_sys] sent p(2) by (simp add: plain_sys_def running_def)
qed

section \<open>Refusals\<close>

text \<open>An effort Claude would silently ignore is refused before anything is started: the turn fails and no
  process is spawned.\<close>

theorem unknown_effort_refused:
  assumes "c_proc (self r) = None" "is_claude (c_adapter (self r))" "c_effort (self r) = Some e" "e \<noteq> []"
    and "e \<notin> set claude_efforts"
  shows "\<exists>why. snd (turn S prompt n r) = Inr (failed why) \<and> spawned (fst (turn S prompt n r)) = spawned r"
proof -
  have dead: "is_alive S r = (r, Inr False)" using assms(1) by (simp add: is_alive_def chain_def get_self_def give_def)
  have cmd: "vendor_cmd S True c = Inl (''unknown claude reasoning_effort '' @ repr_str e @ ''; valid: high, low, max, medium, xhigh'')"
    if "c_adapter c = c_adapter (self r)" "c_effort c = Some e" for c
    using assms that by (simp add: vendor_cmd_def claude_cmd_def set_opt_def Let_def)
  have "\<exists>r' e. spawn_unlocked S True r = (r', Inl (Raised e)) \<and> spawned r' = spawned r"
  proof (cases "y_dirs S (ticks r)")
    case (Some msg)
    then have "must_not (y_dirs S) r = (r\<lparr>ticks := Suc (ticks r)\<rparr>, Inl (Raised msg))"
      by (simp add: must_not_def chain_def answer_def throw_def)
    then show ?thesis by (simp add: spawn_unlocked_def chain_bad)
  next
    case None
    define r1 where "r1 = r\<lparr>ticks := Suc (ticks r), self := (self r)\<lparr>c_acp := None, c_rpc := 1000\<rparr>\<rparr>"
    have "must_not (y_dirs S) r = (r\<lparr>ticks := Suc (ticks r)\<rparr>, Inr ())"
      using None by (simp add: must_not_def chain_def answer_def give_def)
    moreover have "put_self (\<lambda>c. c\<lparr>c_acp := None, c_rpc := 1000\<rparr>) (r\<lparr>ticks := Suc (ticks r)\<rparr>) = (r1, Inr ())"
      by (simp add: put_self_def r1_def)
    moreover have "get_self (vendor_cmd S True) r1 = (r1, Inr (vendor_cmd S True (self r1)))"
      by (simp add: get_self_def)
    moreover obtain e' where "role_cmd (vendor_cmd S True (self r1)) r1 = (r1, Inl (Raised e'))"
      using cmd [of "self r1"] assms(3) by (simp add: r1_def role_cmd_def of_result_def chain_def throw_def)
    ultimately have "spawn_unlocked S True r = (r1, Inl (Raised e'))"
      unfolding spawn_unlocked_def by (simp only: chain_ok chain_bad)
    then show ?thesis by (simp add: r1_def)
  qed
  then obtain r' msg where "spawn_unlocked S True r = (r', Inl (Raised msg))" "spawned r' = spawned r" by blast
  then have "trying (ensure_spawned S True) r = (r', Inr (Inl (Raised msg)))" "spawned r' = spawned r"
    by (simp_all add: trying_def ensure_spawned_def chain_def [of "is_alive S"] dead)
  then show ?thesis by (simp add: turn_def chain_ok give_def) (rule exI, rule refl)
qed

lemma unknown_effort_refused_witness:
  "\<exists>why. snd (turn plain_sys ''hi'' 60 (running\<lparr>self := new_cli (plain_args\<lparr>l_effort := Some ''turbo''\<rparr>)\<rparr>)) = Inr (failed why)"
proof -
  let ?r = "running\<lparr>self := new_cli (plain_args\<lparr>l_effort := Some ''turbo''\<rparr>)\<rparr>"
  have "c_proc (self ?r) = None" "is_claude (c_adapter (self ?r))" "c_effort (self ?r) = Some ''turbo''" "''turbo'' \<noteq> []"
    "''turbo'' \<notin> set claude_efforts"
    by (simp_all add: new_cli_def plain_args_def is_claude_def claude_efforts_def)
  from unknown_effort_refused [OF this] show ?thesis by blast
qed

lemma preferred_allow: "p \<in> set preferred_options \<Longrightarrow> is_allow p"
proof -
  have "list_all is_allow preferred_options" by code_simp
  then show "p \<in> set preferred_options \<Longrightarrow> is_allow p" by (simp add: list_all_iff)
qed

text \<open>A permission request is answered from the options it offers, and with an allowing one whenever there
  is one: a reject is never picked beside an allow.\<close>

theorem permission_allows:
  assumes "oid \<in> set ids" "is_allow oid"
  shows "\<exists>x. pick_option ids = Some x \<and> x \<in> set ids \<and> is_allow x"
proof (cases "find (\<lambda>p. p \<in> set ids) preferred_options")
  case None
  have "find is_allow ids \<noteq> None" using assms by (auto simp: find_None_iff)
  then obtain x where x: "find is_allow ids = Some x" by auto
  then have "x \<in> set ids" "is_allow x" by (auto simp: find_Some_iff)
  with None x show ?thesis by (simp add: pick_option_def)
next
  case (Some p)
  then have "p \<in> set preferred_options" "p \<in> set ids" by (auto simp: find_Some_iff)
  with Some preferred_allow show ?thesis by (simp add: pick_option_def)
qed

lemma permission_allows_witness: "\<exists>x. pick_option [''reject'', ''allow_once''] = Some x \<and> is_allow x"
proof -
  have "is_allow ''allow_once''" by code_simp
  then show ?thesis using permission_allows [of "''allow_once''" "[''reject'', ''allow_once'']"] by auto
qed

section \<open>The registry\<close>

lemma map_of_register: "map_of (register k c reg) = (map_of reg)(k \<mapsto> c)"
  by (induction k c reg rule: register.induct) auto

text \<open>A swap of adapter or model drops a CLI that could not be killed: the registry holds a fresh session
  without a process for the role, which counts as not alive, so the next turn starts a second CLI on
  the same home beside the first.\<close>

theorem swap_loses_live_cli:
  assumes "map_of reg (l_role a) = Some c" "c_adapter c \<noteq> l_adapter a"
    and "kill_unlocked S (r\<lparr>self := c\<rparr>) = (r1, Inr (Some why))"
  shows "\<exists>r2 reg'. get_or_create_session S a reg r = (r2, Inr reg') \<and> map_of reg' (l_role a) = Some (new_cli a) \<and>
    is_alive S r2 = (r2, Inr False)"
  using assms
  by (simp add: get_or_create_session_def Let_def chain_def load_self_def put_self_def give_def map_of_register is_alive_def
      get_self_def new_cli_def)

lemma swap_loses_live_cli_witness:
  "snd (get_or_create_session (plain_sys\<lparr>y_killpg := \<lambda>i g sig. 1\<rparr>) (plain_args\<lparr>l_adapter := ''grok''\<rparr>) [(''developer'', running_cli)] running) =
   Inr [(''developer'', new_cli (plain_args\<lparr>l_adapter := ''grok''\<rparr>))]"
proof -
  let ?S = "plain_sys\<lparr>y_killpg := \<lambda>i g sig. 1\<rparr>" and ?a = "plain_args\<lparr>l_adapter := ''grok''\<rparr>"
  have "case snd (kill_unlocked ?S (running\<lparr>self := running_cli\<rparr>)) of Inr (Some w) \<Rightarrow> True | _ \<Rightarrow> False" by code_simp
  then obtain r1 w where k: "kill_unlocked ?S (running\<lparr>self := running_cli\<rparr>) = (r1, Inr (Some w))"
    by (cases "kill_unlocked ?S (running\<lparr>self := running_cli\<rparr>)") (auto split: sum.splits option.splits)
  have "map_of [(''developer'', running_cli)] (l_role ?a) = Some running_cli" "c_adapter running_cli \<noteq> l_adapter ?a"
    by (simp_all add: plain_args_def running_cli_def new_cli_def)
  moreover have "l_role plain_args = ''developer''" by (simp add: plain_args_def)
  ultimately show ?thesis
    using swap_loses_live_cli [of "[(''developer'', running_cli)]" ?a running_cli ?S, OF _ _ k] k
    by (auto simp: get_or_create_session_def Let_def chain_def load_self_def put_self_def give_def)
qed

end
