(* ===== verification/Runner_Ends.thy ===== *)
theory Runner_Ends
  imports Runner_Facts
begin

text \<open>
  That a turn of a live CLI ends: the loops run out of time before they run out of rounds, nothing raises
  out of a turn, its status is one the gateway knows, and frames left from before the prompt never count.
\<close>

section \<open>Stale frames\<close>

definition with_queue :: "line option list \<Rightarrow> runner \<Rightarrow> runner" where
  "with_queue q r = r\<lparr>self := (self r)\<lparr>c_queue := Some q\<rparr>\<rparr>"

lemma drain_append: "None \<notin> set q \<Longrightarrow> snd (drain_queue (q @ q')) = snd (drain_queue q')"
  by (induction q rule: drain_queue.induct) (auto split: prod.splits)

lemma drain_stale:
  assumes "None \<notin> set q"
  shows "fst (drain_stdout S (with_queue q r)) = fst (drain_stdout S (with_queue [] r))"
    "\<exists>x. snd (drain_stdout S (with_queue q r)) = Inr x"
  using drain_append [OF assms, of "y_out S (ticks r)"]
  by (auto simp: drain_stdout_def with_queue_def chain_def get_self_def answer_def give_def put_queue_def put_self_def
      split: prod.splits)

lemma after_drain: "None \<notin> set q \<Longrightarrow> chain (drain_stdout S) (\<lambda>_. m) (with_queue q r) = chain (drain_stdout S) (\<lambda>_. m) (with_queue [] r)"
  using drain_stale [of q S r] drain_stale(2) [of "[]" S r]
  by (cases "drain_stdout S (with_queue q r)"; cases "drain_stdout S (with_queue [] r)") (auto simp: chain_def)

text \<open>C17: a frame that was queued before the prompt never answers the turn: however many lines an earlier turn left
  in the pipe, the turn ends in the same state and with the same result as with an empty pipe.\<close>

theorem stale_frames_never_answer:
  assumes "None \<notin> set q" "c_proc (self r) \<noteq> None" "is_claude (c_adapter (self r)) \<or> set_opt (c_acp (self r))"
  shows "vendor_turn S prompt n (with_queue q r) = vendor_turn S prompt n (with_queue [] r)"
proof -
  obtain p where p: "c_proc (self r) = Some p" using assms(2) by auto
  have pid: "the_pid (with_queue q r) = (with_queue q r, Inr (pid p))" for q
    by (simp add: the_pid_def with_queue_def chain_def get_self_def give_def p)
  have get: "get_self f (with_queue q r) = (with_queue q r, Inr (f (self (with_queue q r))))" for q and f :: "cli \<Rightarrow> 'x"
    by (simp add: get_self_def)
  have claude: "claude_turn S prompt n (with_queue q r) = claude_turn S prompt n (with_queue [] r)"
  proof -
    have "claude_message prompt (self (with_queue q r)) = claude_message prompt (self (with_queue [] r))"
      by (simp add: claude_message_def with_queue_def)
    then show ?thesis
      unfolding claude_turn_def by (simp only: chain_ok pid get after_drain [OF assms(1)])
  qed
  have grok: "grok_turn S prompt n (with_queue q r) = grok_turn S prompt n (with_queue [] r)"
    if acp: "set_opt (c_acp (self r))"
  proof -
    define r1 where "r1 = r\<lparr>self := (self r)\<lparr>c_rpc := c_rpc (self r) + 1\<rparr>\<rparr>"
    have a: "c_acp (self (with_queue q r)) = c_acp (self r)" for q by (simp add: with_queue_def)
    have i: "next_id (with_queue q r) = (with_queue q r1, Inr (c_rpc (self r) + 1))" for q
      by (simp add: next_id_def chain_def put_self_def get_self_def with_queue_def r1_def)
    have s: "provided (\<not> set_opt (c_acp (self r))) m (with_queue q r) = (with_queue q r, Inr ())" for q m
      using acp by (simp add: provided_def give_def)
    have g: "get_self (prompt_params prompt) (with_queue q r1) = (with_queue q r1, Inr (prompt_params prompt (self r1)))" for q
      by (simp add: get_self_def prompt_params_def with_queue_def)
    show ?thesis
      unfolding grok_turn_def
      by (simp only: chain_ok pid get a s i g after_drain [OF assms(1)])
  qed
  have "get_self c_adapter (with_queue q r) = (with_queue q r, Inr (c_adapter (self r)))" for q
    by (simp add: get_self_def with_queue_def)
  with claude grok assms(3) show ?thesis
    by (cases "is_claude (c_adapter (self r))") (simp_all only: vendor_turn_def chain_ok if_True if_False simp_thms)
qed

lemma stale_frames_never_answer_witness:
  "vendor_turn plain_sys ''hi'' 60 (with_queue [Some (Text ''x'' (Some (JObj [(''type'', JStr ''result'')])))] running) =
   vendor_turn plain_sys ''hi'' 60 (with_queue [] running)"
  by (rule stale_frames_never_answer) (simp_all add: running_def running_cli_def new_cli_def plain_args_def is_claude_def)

section \<open>Rounds\<close>

text \<open>An operation that depends on the rounds allowed: from some number on it does the same, and was not cut short.\<close>

definition settles :: "(nat \<Rightarrow> 'a op) \<Rightarrow> bool" where
  "settles m \<longleftrightarrow> (\<forall>r. \<exists>N. snd (m N r) \<noteq> Inl Out_of_rounds \<and> (\<forall>n \<ge> N. m n r = m N r))"

lemma settles_fixed: "(\<And>r. snd (m r) \<noteq> Inl Out_of_rounds) \<Longrightarrow> settles (\<lambda>n. m)"
  by (simp add: settles_def)

lemma settles_basic [settles_rules]:
  "settles (\<lambda>n. give x)" "settles (\<lambda>n. throw (Raised e))" "settles (\<lambda>n. throw (Deadline e))" "settles (\<lambda>n. answer f)"
  "settles (\<lambda>n. get_self g)" "settles (\<lambda>n. put_self h)" "settles (\<lambda>n. record_act k)" "settles (\<lambda>n. of_result y)"
  by (rule settles_fixed; simp add: give_def throw_def answer_def get_self_def put_self_def record_act_def of_result_def
      split: sum.split)+

lemma settles_chain [settles_rules]:
  assumes m: "settles m" and f: "\<And>x. settles (\<lambda>n. f n x)"
  shows "settles (\<lambda>n. chain (m n) (f n))"
  unfolding settles_def
proof
  fix r
  obtain N where N: "snd (m N r) \<noteq> Inl Out_of_rounds" "\<forall>n \<ge> N. m n r = m N r" using m unfolding settles_def by blast
  obtain r' y where y: "m N r = (r', y)" by fastforce
  show "\<exists>N. snd (chain (m N) (f N) r) \<noteq> Inl Out_of_rounds \<and> (\<forall>n \<ge> N. chain (m n) (f n) r = chain (m N) (f N) r)"
  proof (cases y)
    case (Inl e)
    with N y show ?thesis by (intro exI [of _ N]) (auto simp: chain_def)
  next
    case (Inr x)
    obtain N' where N': "snd (f N' x r') \<noteq> Inl Out_of_rounds" "\<forall>n \<ge> N'. f n x r' = f N' x r'"
      using f [of x] unfolding settles_def by blast
    have "m n r = (r', Inr x)" if "n \<ge> N" for n
      by (simp only: N(2) [rule_format, OF that] y Inr)
    then have "chain (m n) (f n) r = f n x r'" if "n \<ge> N" for n
      using that by (simp add: chain_ok)
    then have "chain (m n) (f n) r = f N' x r'" if "max N N' \<le> n" for n
      using N'(2) [rule_format, of n] that by (metis max.bounded_iff)
    from this [OF order_refl] this N'(1) show ?thesis by (intro exI [of _ "max N N'"]) metis
  qed
qed

lemma settles_trying [settles_rules]: "settles m \<Longrightarrow> settles (\<lambda>n. trying (m n))"
proof -
  assume m: "settles m"
  have fine: "snd (trying k r) \<noteq> Inl Out_of_rounds" if "snd (k r) \<noteq> Inl Out_of_rounds" for k :: "'a op" and r
    using that by (auto simp: trying_def split: prod.splits sum.splits stop.splits)
  have same: "k r = k' r \<Longrightarrow> trying k r = trying k' r" for k k' :: "'a op" and r
    by (simp add: trying_def)
  show ?thesis
    unfolding settles_def
  proof
    fix r
    obtain N where "snd (m N r) \<noteq> Inl Out_of_rounds" "\<forall>n \<ge> N. m n r = m N r" using m unfolding settles_def by blast
    then show "\<exists>N. snd (trying (m N) r) \<noteq> Inl Out_of_rounds \<and> (\<forall>n \<ge> N. trying (m n) r = trying (m N) r)"
      using fine same by blast
  qed
qed

lemma settles_provided [settles_rules]: "settles m \<Longrightarrow> settles (\<lambda>n. provided b (m n))"
  by (cases b) (simp_all add: provided_def settles_basic)

lemma settles_if [settles_rules]: "(b \<Longrightarrow> settles m) \<Longrightarrow> (\<not> b \<Longrightarrow> settles k) \<Longrightarrow> settles (\<lambda>n. if b then m n else k n)"
  by (cases b) simp_all

lemma settles_option [settles_rules]:
  "settles m \<Longrightarrow> (\<And>y. settles (\<lambda>n. f n y)) \<Longrightarrow> settles (\<lambda>n. case x of None \<Rightarrow> m n | Some y \<Rightarrow> f n y)"
  by (cases x) auto

lemma settles_sum [settles_rules]:
  "(\<And>y. settles (\<lambda>n. f n y)) \<Longrightarrow> (\<And>y. settles (\<lambda>n. g n y)) \<Longrightarrow> settles (\<lambda>n. case x of Inl y \<Rightarrow> f n y | Inr y \<Rightarrow> g n y)"
  by (cases x) auto

lemma settles_prod [settles_rules]: "(\<And>a b. settles (\<lambda>n. f n a b)) \<Longrightarrow> settles (\<lambda>n. case x of (a, b) \<Rightarrow> f n a b)"
  by (cases x) auto

lemma settles_json [settles_rules]:
  assumes "settles a" "\<And>x. settles (\<lambda>n. b n x)" "\<And>x. settles (\<lambda>n. c n x)" "\<And>x. settles (\<lambda>n. d n x)"
    "\<And>x. settles (\<lambda>n. e n x)" "\<And>x. settles (\<lambda>n. f n x)"
  shows "settles (\<lambda>n. case j of JNull \<Rightarrow> a n | JBool x \<Rightarrow> b n x | JNum x \<Rightarrow> c n x | JStr x \<Rightarrow> d n x | JArr x \<Rightarrow> e n x |
    JObj x \<Rightarrow> f n x)"
  using assms by (cases j) auto


text \<open>More rounds change nothing once a loop was not cut short.\<close>

lemma rounds_more: "snd (rounds f n s r) \<noteq> Inl Out_of_rounds \<Longrightarrow> n \<le> k \<Longrightarrow> rounds f k s r = rounds f n s r"
proof (induction n arbitrary: k s r)
  case 0
  then show ?case by (simp add: throw_def)
next
  case (Suc n)
  then obtain k' where k: "k = Suc k'" "n \<le> k'" by (cases k) auto
  obtain r' y where y: "f s r = (r', y)" by fastforce
  show ?case
    using Suc.IH [of _ r' k'] Suc.prems(1) k by (auto simp: chain_def y split: sum.splits)
qed

text \<open>A step that goes on read the clock before \<open>M\<close>: each round is later than the one before, so there are at
  most \<open>M\<close> of them.\<close>

lemma rounds_end:
  assumes "\<And>s r. snd (f s r) \<noteq> Inl Out_of_rounds" "\<And>s r r' s'. f s r = (r', Inr (Inl s')) \<Longrightarrow> ticks r < ticks r' \<and> ticks r < M"
  shows "M - ticks r < n \<Longrightarrow> snd (rounds f n s r) \<noteq> Inl Out_of_rounds"
proof (induction n arbitrary: s r)
  case (Suc n)
  obtain r' y where y: "f s r = (r', y)" by fastforce
  have "y \<noteq> Inl Out_of_rounds" using assms(1) [of s r] y by simp
  moreover have "snd (rounds f n s' r') \<noteq> Inl Out_of_rounds" if "y = Inr (Inl s')" for s'
  proof -
    have "M - ticks r' < n" using assms(2) [of s r r' s'] y that Suc.prems by auto
    then show ?thesis by (rule Suc.IH)
  qed
  ultimately show ?case by (auto simp: chain_def y give_def split: sum.split)
qed simp

lemma settles_rounds:
  assumes "\<And>s. settles (\<lambda>n. f s)" "\<And>s r r' s'. f s r = (r', Inr (Inl s')) \<Longrightarrow> ticks r < ticks r' \<and> ticks r < M"
  shows "settles (\<lambda>n. rounds f n s)"
proof -
  have "snd (f s r) \<noteq> Inl Out_of_rounds" for s r using assms(1) by (simp add: settles_def)
  then have ends: "M - ticks r < n \<Longrightarrow> snd (rounds f n s r) \<noteq> Inl Out_of_rounds" for n s r
    by (rule rounds_end [where f = f and M = M]) (use assms(2) in blast)+
  have "\<exists>N. snd (rounds f N s r) \<noteq> Inl Out_of_rounds \<and> (\<forall>n \<ge> N. rounds f n s r = rounds f N s r)" for r
    using ends [of r "Suc (M - ticks r)" s] rounds_more [of f "Suc (M - ticks r)" s r] by blast
  then show ?thesis by (simp add: settles_def)
qed


section \<open>What the rounds do not change\<close>

abbreviation allowing :: "sys \<Rightarrow> nat \<Rightarrow> sys" where
  "allowing S n \<equiv> S\<lparr>y_fuel := n\<rparr>"

lemma steady_poll: "poll (allowing S n) = poll S"
  by (simp add: poll_def)

lemma steady:
  "is_alive (allowing S n) = is_alive S" "live_members (allowing S n) = live_members S"
  "is_our_child (allowing S n) = is_our_child S" "killpg (allowing S n) = killpg S" "write_json (allowing S n) = write_json S"
  "emit_progress (allowing S n) = emit_progress S" "stderr_tail (allowing S n) = stderr_tail S"
  "sample_rss (allowing S n) = sample_rss S" "drain_stdout (allowing S n) = drain_stdout S"
  "read_line (allowing S n) = read_line S" "role_env (allowing S n) = role_env S" "env_get (allowing S n) = env_get S"
  by (simp_all add: fun_eq_iff poll_def is_alive_def live_members_def is_our_child_def killpg_def write_json_def emit_progress_def
      stderr_tail_def sample_rss_def drain_stdout_def read_line_def role_env_def env_get_def steady_poll
      cong del: if_weak_cong option.case_cong_weak list.case_cong_weak prod.case_cong_weak)

lemma steady_escalate: "escalate_signals (allowing S n) g sigs = escalate_signals S g sigs"
  by (induction sigs) (simp_all add: steady cong del: if_weak_cong)

lemma steady_reap: "reap_each (allowing S n) ps = reap_each S ps" "reap_orphans (allowing S n) = reap_orphans S"
proof -
  have e: "reap_each (allowing S n) ps = reap_each S ps" for ps by (induction ps) simp_all
  then show "reap_each (allowing S n) ps = reap_each S ps" .
  show "reap_orphans (allowing S n) = reap_orphans S"
    using e by (simp add: reap_orphans_def fun_eq_iff e [abs_def] cong del: option.case_cong_weak)
qed

lemma steady_kill: "kill_unlocked (allowing S n) = kill_unlocked S"
  by (simp add: kill_unlocked_def kill_leftovers_def kill_group_def steady steady_poll steady_reap steady_escalate
      cong del: if_weak_cong option.case_cong_weak pgid_answer.case_cong_weak)

lemma steady_cmds: "vendor_cmd (allowing S n) = vendor_cmd S" "claude_cmd (allowing S n) = claude_cmd S" "popen (allowing S n) = popen S"
  by (simp_all add: fun_eq_iff vendor_cmd_def claude_cmd_def grok_cmd_def binary_of_def popen_def steady
      cong del: if_weak_cong option.case_cong_weak spawn_answer.case_cong_weak)

lemma steady_steps:
  "answer_request (allowing S n) = answer_request S" "read_step (allowing S n) = read_step S" "await_step (allowing S n) = await_step S"
  "claude_step (allowing S n) = claude_step S" "grok_step (allowing S n) = grok_step S" "quota_or (allowing S n) = quota_or S"
  "grok_result (allowing S n) = grok_result S"
  by (simp_all add: fun_eq_iff answer_request_def read_step_def await_step_def claude_step_def grok_step_def quota_or_def
      grok_result_def steady_poll steady
      cong del: if_weak_cong option.case_cong_weak json.case_cong_weak)

lemma steady_fields:
  "y_dirs (allowing S n) = y_dirs S" "y_open (allowing S n) = y_open S" "y_clock (allowing S n) = y_clock S"
  "y_mono (allowing S n) = y_mono S" "y_tzdb (allowing S n) = y_tzdb S" "y_fuel (allowing S n) = n"
  by simp_all

lemmas steady_all = steady_fields steady_poll steady steady_reap steady_kill steady_cmds steady_steps


section \<open>Every turn ends\<close>

text \<open>Both clocks pass every moment.\<close>

definition time_passes :: "sys \<Rightarrow> bool" where
  "time_passes S \<longleftrightarrow> (\<forall>d. \<exists>M. \<forall>i \<ge> M. d \<le> y_clock S i \<and> d \<le> y_mono S i)"

lemma time_bound: "time_passes S \<Longrightarrow> \<exists>M. \<forall>i. (\<not> d \<le> y_clock S i \<or> \<not> d \<le> y_mono S i) \<longrightarrow> i < M"
  unfolding time_passes_def by (metis not_le)

definition later :: "runner \<Rightarrow> runner \<Rightarrow> bool" where
  "later r r' \<longleftrightarrow> ticks r \<le> ticks r'"

interpretation later: op_frame later
  by unfold_locales (simp_all add: later_def)

text \<open>A step that first reads the clock and goes on: it was before the deadline, and some time has passed.\<close>

lemma clock_first:
  assumes "chain (answer f) (\<lambda>t. if d \<le> t then stop_here else k) r = (r', Inr (Inl s'))"
    and "\<And>r. snd (stop_here r) \<noteq> Inr (Inl s')" and "stays later k"
  shows "ticks r < ticks r' \<and> \<not> d \<le> f (ticks r)"
proof -
  let ?r = "r\<lparr>ticks := Suc (ticks r)\<rparr>"
  have at_once: "(if d \<le> f (ticks r) then stop_here else k) ?r = (r', Inr (Inl s'))"
    using assms(1) by (simp add: chain_def answer_def)
  then have "\<not> d \<le> f (ticks r)" using assms(2) [of ?r] by auto
  moreover from this at_once have "k ?r = (r', Inr (Inl s'))" by simp
  then have "later ?r r'" using stays_at [OF assms(3)] by blast
  ultimately show ?thesis by (simp add: later_def)
qed

lemma steps_go_on:
  "claude_step S d x r = (r', Inr (Inl s)) \<Longrightarrow> ticks r < ticks r' \<and> \<not> d \<le> y_clock S (ticks r)"
  "grok_step S d mid x r = (r', Inr (Inl s)) \<Longrightarrow> ticks r < ticks r' \<and> \<not> d \<le> y_clock S (ticks r)"
  "read_step S d mid u r = (r', Inr (Inl v)) \<Longrightarrow> ticks r < ticks r' \<and> \<not> d \<le> y_clock S (ticks r)"
proof -
  show "claude_step S d x r = (r', Inr (Inl s)) \<Longrightarrow> ticks r < ticks r' \<and> \<not> d \<le> y_clock S (ticks r)"
    unfolding claude_step_def again_def finish_def Let_def by (erule clock_first) (simp add: throw_def, intro stays_rules)
  show "grok_step S d mid x r = (r', Inr (Inl s)) \<Longrightarrow> ticks r < ticks r' \<and> \<not> d \<le> y_clock S (ticks r)"
    unfolding grok_step_def again_def finish_def by (erule clock_first) (simp add: throw_def, intro stays_rules)
  show "read_step S d mid u r = (r', Inr (Inl v)) \<Longrightarrow> ticks r < ticks r' \<and> \<not> d \<le> y_clock S (ticks r)"
    unfolding read_step_def again_def finish_def by (erule clock_first) (simp add: give_def, intro stays_rules)
qed

lemma await_goes_on:
  "await_step S d u r = (r', Inr (Inl s)) \<Longrightarrow> ticks r < ticks r' \<and> (\<exists>i \<ge> ticks r. \<not> d \<le> y_mono S i)"
proof -
  assume go: "await_step S d u r = (r', Inr (Inl s))"
  obtain r1 y where r1: "poll S r = (r1, y)" by fastforce
  have "later r r1" using stays_at [OF later.stays_poll(1) r1] .
  moreover have "r' = r1\<lparr>ticks := Suc (ticks r1)\<rparr> \<and> \<not> d \<le> y_mono S (ticks r1)"
    using go r1 by (auto simp: await_step_def chain_def finish_def again_def give_def answer_def split: sum.splits if_splits)
  ultimately show ?thesis by (auto simp: later_def)
qed


lemma settles_basics:
  "settles (\<lambda>n. poll S)" "settles (\<lambda>n. is_alive S)" "settles (\<lambda>n. live_members S p)" "settles (\<lambda>n. is_our_child S p)"
  "settles (\<lambda>n. poll_by f)" "settles (\<lambda>n. the_pid)" "settles (\<lambda>n. write_json S d)" "settles (\<lambda>n. emit_progress S chunk)"
  "settles (\<lambda>n. stderr_tail S)" "settles (\<lambda>n. sample_rss S)" "settles (\<lambda>n. drain_stdout S)" "settles (\<lambda>n. read_line S)"
  "settles (\<lambda>n. killpg S p sig)" "settles (\<lambda>n. next_id)" "settles (\<lambda>n. must_not h)" "settles (\<lambda>n. role_cmd x)"
  "settles (\<lambda>n. note_claude_id d)" "settles (\<lambda>n. popen S cmd)" "settles (\<lambda>n. put_queue q)" "settles (\<lambda>n. forget_dead)"
proof -
  show poll_by: "settles (\<lambda>n. poll_by f)" for f unfolding poll_by_def keep_code_def by (intro settles_rules)
  show pid: "settles (\<lambda>n. the_pid)" unfolding the_pid_def by (intro settles_rules)
  show queue: "settles (\<lambda>n. put_queue q)" for q unfolding put_queue_def by (intro settles_rules)
  show poll: "settles (\<lambda>n. poll S)" unfolding poll_def by (rule poll_by)
  show "settles (\<lambda>n. is_alive S)" unfolding is_alive_def by (intro settles_rules poll)
  show "settles (\<lambda>n. live_members S p)" unfolding live_members_def by (intro settles_rules)
  show "settles (\<lambda>n. is_our_child S p)" unfolding is_our_child_def by (intro settles_rules)
  show "settles (\<lambda>n. write_json S d)" unfolding write_json_def by (intro settles_rules pid)
  show "settles (\<lambda>n. emit_progress S chunk)" unfolding emit_progress_def by (intro settles_rules)
  show "settles (\<lambda>n. stderr_tail S)" unfolding stderr_tail_def by (intro settles_rules)
  show "settles (\<lambda>n. sample_rss S)" unfolding sample_rss_def by (intro settles_rules)
  show "settles (\<lambda>n. drain_stdout S)" unfolding drain_stdout_def by (intro settles_rules queue)
  show "settles (\<lambda>n. read_line S)"
    unfolding read_line_def by (intro settles_rules) (auto intro!: settles_rules queue split: list.split option.split)
  show "settles (\<lambda>n. killpg S p sig)" unfolding killpg_def by (intro settles_rules)
  show "settles (\<lambda>n. next_id)" unfolding next_id_def by (intro settles_rules)
  show "settles (\<lambda>n. must_not h)" unfolding must_not_def by (intro settles_rules)
  show "settles (\<lambda>n. role_cmd x)" unfolding role_cmd_def by (intro settles_rules)
  show "settles (\<lambda>n. note_claude_id d)" unfolding note_claude_id_def by (intro settles_rules)
  show "settles (\<lambda>n. forget_dead)" unfolding forget_dead_def by (intro settles_rules)
  have start: "settles (\<lambda>n. chain (answer (\<lambda>i. y_popen S i b cmd)) (\<lambda>a. case a of
      Spawned p \<Rightarrow> f p | Refused_args e \<Rightarrow> g e | Spawn_error e \<Rightarrow> throw (Raised e)))"
    if "\<And>p. settles (\<lambda>n. f p)" "\<And>e. settles (\<lambda>n. g e)" for b f g
    using that by (intro settles_rules) (auto intro: settles_rules split: spawn_answer.split)
  show "settles (\<lambda>n. popen S cmd)" unfolding popen_def Let_def by (intro start settles_rules)
qed

declare settles_basics [settles_rules]

lemma settles_kill [settles_rules]: "settles (\<lambda>n. reap_orphans S)" "settles (\<lambda>n. kill_unlocked S)"
proof -
  have each: "settles (\<lambda>n. reap_each S ps)" for ps by (induction ps) (auto intro!: settles_rules)
  show reap: "settles (\<lambda>n. reap_orphans S)" unfolding reap_orphans_def Let_def by (intro settles_rules each)
  have esc: "settles (\<lambda>n. escalate_signals S g sigs)" for g sigs by (induction sigs) (auto intro!: settles_rules)
  have group: "settles (\<lambda>n. kill_group S p)" for p
    unfolding kill_group_def by (intro settles_rules) (auto intro!: settles_rules esc split: pgid_answer.split)
  show "settles (\<lambda>n. kill_unlocked S)"
    unfolding kill_unlocked_def kill_leftovers_def by (intro settles_rules reap group)
qed

lemma settles_steps:
  "settles (\<lambda>n. answer_request S d)" "settles (\<lambda>n. claude_step S t x)" "settles (\<lambda>n. grok_step S t mid x)"
  "settles (\<lambda>n. read_step S t mid u)" "settles (\<lambda>n. await_step S t u)" "settles (\<lambda>n. grok_result S d acts seen)"
proof -
  show req: "settles (\<lambda>n. answer_request S d)" for d unfolding answer_request_def by (intro settles_rules)
  show "settles (\<lambda>n. claude_step S t x)" "settles (\<lambda>n. grok_step S t mid x)" "settles (\<lambda>n. read_step S t mid u)"
    "settles (\<lambda>n. await_step S t u)" "settles (\<lambda>n. grok_result S d acts seen)"
    unfolding claude_step_def grok_step_def read_step_def await_step_def again_def finish_def grok_result_def quota_or_def Let_def
    by (intro settles_rules req)+
qed


lemma settles_calls:
  assumes "time_passes S"
  shows "settles (\<lambda>n. read_result (allowing S n) mid t)" "settles (\<lambda>n. await_liveness (allowing S n) t)"
    "settles (\<lambda>n. acp_call (allowing S n) meth params)"
proof -
  have read: "settles (\<lambda>n. rounds (read_step S d mid) n ())" for d mid
  proof -
    obtain M where "\<forall>i. (\<not> d \<le> y_clock S i \<or> \<not> d \<le> y_mono S i) \<longrightarrow> i < M" using time_bound [OF assms] by blast
    then show ?thesis by (intro settles_rounds [where M = M] settles_steps) (use steps_go_on(3) in blast)
  qed
  have wait: "settles (\<lambda>n. rounds (await_step S d) n ())" for d
  proof -
    obtain M where M: "\<forall>i. (\<not> d \<le> y_clock S i \<or> \<not> d \<le> y_mono S i) \<longrightarrow> i < M" using time_bound [OF assms] by blast
    show ?thesis
    proof (rule settles_rounds [where M = M])
      fix s r r' s' assume "await_step S d s r = (r', Inr (Inl s'))"
      from await_goes_on [OF this] M show "ticks r < ticks r' \<and> ticks r < M" by (meson le_less_trans)
    qed (rule settles_steps)
  qed
  show call: "settles (\<lambda>n. read_result (allowing S n) mid t)" for mid t
    unfolding read_result_def steady_all by (intro settles_rules read)
  show "settles (\<lambda>n. await_liveness (allowing S n) t)"
    unfolding await_liveness_def steady_all by (intro settles_rules wait)
  show "settles (\<lambda>n. acp_call (allowing S n) meth params)"
    unfolding acp_call_def steady_all by (intro settles_rules call)
qed

lemma settles_spawn:
  assumes "time_passes S"
  shows "settles (\<lambda>n. acp_initialize (allowing S n))" "settles (\<lambda>n. spawn_unlocked (allowing S n) go_on)"
    "settles (\<lambda>n. ensure_spawned (allowing S n) go_on)" "settles (\<lambda>n. respawn_after_error (allowing S n))"
proof -
  note calls = settles_calls [OF assms]
  show init: "settles (\<lambda>n. acp_initialize (allowing S n))"
    unfolding acp_initialize_def by (intro settles_rules calls)
  have retry: "settles (\<lambda>n. retry_without_resume (allowing S n))"
    unfolding retry_without_resume_def steady_all by (intro settles_rules calls)
  show spawn: "settles (\<lambda>n. spawn_unlocked (allowing S n) go_on)" for go_on
    unfolding spawn_unlocked_def steady_all by (intro settles_rules calls retry init)
  show "settles (\<lambda>n. ensure_spawned (allowing S n) go_on)"
    unfolding ensure_spawned_def steady_all by (intro settles_rules spawn)
  show "settles (\<lambda>n. respawn_after_error (allowing S n))"
    unfolding respawn_after_error_def respawn_def steady_all by (intro settles_rules spawn)
qed

lemma settles_turns:
  assumes "time_passes S"
  shows "settles (\<lambda>n. vendor_turn (allowing S n) prompt t)"
proof -
  note spawn = settles_spawn [OF assms]
  have claude: "settles (\<lambda>n. rounds (claude_step S d) n x)" for d x
  proof -
    obtain M where "\<forall>i. (\<not> d \<le> y_clock S i \<or> \<not> d \<le> y_mono S i) \<longrightarrow> i < M" using time_bound [OF assms] by blast
    then show ?thesis by (intro settles_rounds [where M = M] settles_steps) (use steps_go_on(1) in blast)
  qed
  have grok: "settles (\<lambda>n. rounds (grok_step S d mid) n x)" for d mid x
  proof -
    obtain M where "\<forall>i. (\<not> d \<le> y_clock S i \<or> \<not> d \<le> y_mono S i) \<longrightarrow> i < M" using time_bound [OF assms] by blast
    then show ?thesis by (intro settles_rounds [where M = M] settles_steps) (use steps_go_on(2) in blast)
  qed
  have result: "settles (\<lambda>n. claude_result (allowing S n) d texts acts)" for d texts acts
    unfolding claude_result_def Let_def steady_all by (intro settles_rules spawn)
  show ?thesis
    unfolding vendor_turn_def claude_turn_def grok_turn_def steady_all
    by (intro settles_rules claude grok result spawn settles_steps)
qed

text \<open>C9: a turn of a live CLI ends, whatever the vendor writes or does not write, spawns, retries, handshakes and kills
  included: as long as the clocks run on, some number of rounds is enough for all of its loops, and with
  more rounds the turn is the same.\<close>

theorem turn_ends:
  assumes "time_passes S"
  shows "\<exists>N. snd (turn (S\<lparr>y_fuel := N\<rparr>) prompt t r) \<noteq> Inl Out_of_rounds \<and>
    (\<forall>n \<ge> N. turn (S\<lparr>y_fuel := n\<rparr>) prompt t r = turn (S\<lparr>y_fuel := N\<rparr>) prompt t r)"
proof -
  have "settles (\<lambda>n. end_turn (allowing S n) t x)" for x
    unfolding end_turn_def steady_all by (intro settles_rules) (auto intro!: settles_rules split: stop.split)
  then have "settles (\<lambda>n. turn (allowing S n) prompt t)"
    unfolding turn_def by (intro settles_rules settles_turns settles_spawn assms)
  then show ?thesis by (simp add: settles_def)
qed

lemma turn_ends_witness: "\<exists>N. snd (turn (plain_sys\<lparr>y_fuel := N\<rparr>) ''hi'' 60 running) \<noteq> Inl Out_of_rounds"
proof -
  have "\<exists>M. \<forall>i \<ge> M. d \<le> rat_of_nat i" for d
    using reals_Archimedean2 [of d] by (meson less_imp_le of_nat_le_iff order_trans)
  then have "time_passes plain_sys" by (simp add: time_passes_def plain_sys_def)
  from turn_ends [OF this] show ?thesis by blast
qed

end
