(* ===== verification/Runner_Outcome.thy ===== *)
theory Runner_Outcome
  imports Runner_Ends
begin

text \<open>
  What a turn of a live CLI reports: its status is one of four, and the status \<open>done\<close> of a Grok turn comes with
  text the agent wrote.
\<close>

named_theorems yields_rules \<open>operations whose value satisfies a predicate\<close>

section \<open>Values\<close>

definition yields :: "('a \<Rightarrow> bool) \<Rightarrow> 'a op \<Rightarrow> bool" where
  "yields P m \<longleftrightarrow> (\<forall>r r' x. m r = (r', Inr x) \<longrightarrow> P x)"

lemma yields_give: "P x \<Longrightarrow> yields P (give x)"
  by (simp add: yields_def give_def)

lemma yields_throw [yields_rules]: "yields P (throw e)"
  by (simp add: yields_def throw_def)

lemma yields_chain [yields_rules]: "(\<And>x. yields P (f x)) \<Longrightarrow> yields P (chain m f)"
  unfolding yields_def chain_def by (auto split: prod.splits sum.splits)

lemma yields_chain_of_result: "(\<And>x. y = Inr x \<Longrightarrow> yields P (f x)) \<Longrightarrow> yields P (chain (of_result y) f)"
  by (cases y) (simp_all add: yields_def chain_def of_result_def give_def throw_def)

lemma yields_if [yields_rules]: "(b \<Longrightarrow> yields P m) \<Longrightarrow> (\<not> b \<Longrightarrow> yields P n) \<Longrightarrow> yields P (if b then m else n)"
  by simp

lemma yields_trying: "yields P m \<Longrightarrow> yields (case_sum (\<lambda>e. True) P) (trying m)"
  by (auto simp: yields_def trying_def split: prod.splits sum.splits stop.splits)

lemma yields_bind: "yields Q m \<Longrightarrow> (\<And>x. Q x \<Longrightarrow> yields P (f x)) \<Longrightarrow> yields P (chain m f)"
  unfolding yields_def chain_def by (auto split: prod.splits sum.splits) blast

section \<open>The status of a turn\<close>

definition turn_statuses :: "string list" where
  "turn_statuses = [''done'', ''failed'', ''needs_human'', ''quota_exhausted'']"

definition known_status :: "dict \<Rightarrow> bool" where
  "known_status d \<longleftrightarrow> (\<exists>s \<in> set turn_statuses. map_of d ''status'' = Some (JStr s))"

lemma known_acted: "s \<in> set turn_statuses \<Longrightarrow> known_status (acted ((''status'', JStr s) # d) acts)"
  by (simp add: known_status_def acted_def)

lemma known_append: "known_status d \<Longrightarrow> known_status (d @ e)"
  by (auto simp: known_status_def map_add_def)

lemma known_failed: "known_status (failed why)"
  by (simp add: failed_def known_acted turn_statuses_def)

lemma known_quota: "classify_quota tzdb now text stop e = Inr (Some q) \<Longrightarrow> known_status (acted q acts)"
  by (auto simp: classify_quota_def quota_fragment_def Let_def map_sum_def turn_statuses_def intro!: known_acted
      split: if_splits sum.splits)

lemma known_quota_or: "known_status other \<Longrightarrow> yields known_status (quota_or S stop e acts extra other)"
  unfolding quota_or_def
  by (intro yields_rules yields_chain_of_result yields_give) (auto intro: known_append known_quota split: option.split)

lemma known_claude: "yields known_status (claude_turn S prompt n)"
proof -
  have "yields known_status (claude_result S d texts acts)" for d texts acts
    unfolding claude_result_def Let_def
    by (intro yields_rules yields_chain_of_result yields_give)
       (auto intro: known_quota known_acted simp: turn_statuses_def split: option.split)
  then show ?thesis unfolding claude_turn_def by (intro yields_rules) (auto split: prod.split)
qed

lemma known_grok: "yields known_status (grok_turn S prompt n)"
proof -
  have "yields known_status (grok_result S d chunks seen)" for d chunks seen
    unfolding grok_result_def Let_def
    by (intro yields_rules known_quota_or yields_give known_append) (auto intro!: known_acted known_append yields_give simp: turn_statuses_def)
  then show ?thesis unfolding grok_turn_def by (intro yields_rules) (auto split: prod.split)
qed

text \<open>Whatever happens in a turn of a live CLI (a failed spawn, a deadline, an exception, a vendor error), its result
  carries one of the four statuses the gateway tells apart.\<close>

theorem turn_status_known:
  assumes "turn S prompt n r = (r', Inr d)"
  shows "\<exists>s \<in> {''done'', ''failed'', ''needs_human'', ''quota_exhausted''}. dget d ''status'' = JStr s"
proof -
  have ended: "yields known_status (end_turn S n x)" if "case x of Inl e \<Rightarrow> True | Inr d \<Rightarrow> known_status d" for x
    using that unfolding end_turn_def
    by (cases x) (auto intro!: yields_rules yields_give known_append known_failed split: stop.split)
  have "yields known_status (vendor_turn S prompt n)"
    unfolding vendor_turn_def by (intro yields_rules known_claude known_grok)
  then have "yields known_status (chain (trying (vendor_turn S prompt n)) (end_turn S n))"
    using ended by (intro yields_bind [OF yields_trying])
  then have "yields known_status (turn S prompt n)"
    unfolding turn_def by (intro yields_rules) (auto intro!: yields_give known_failed split: sum.split)
  then have "known_status d" using assms unfolding yields_def by blast
  then obtain s where "s \<in> set turn_statuses" "map_of d ''status'' = Some (JStr s)" unfolding known_status_def by blast
  then show ?thesis by (intro bexI [of _ s]) (auto simp: turn_statuses_def dget_def)
qed

lemma turn_status_known_witness:
  "\<exists>s \<in> {''done'', ''failed'', ''needs_human'', ''quota_exhausted''}.
     dget (case snd (turn (plain_sys\<lparr>y_dirs := \<lambda>i. Some ''x''\<rparr>) ''hi'' 60 (running\<lparr>self := new_cli plain_args\<rparr>)) of
       Inr d \<Rightarrow> d | Inl e \<Rightarrow> []) ''status'' = JStr s"
proof -
  let ?t = "turn (plain_sys\<lparr>y_dirs := \<lambda>i. Some ''x''\<rparr>) ''hi'' 60 (running\<lparr>self := new_cli plain_args\<rparr>)"
  have "isl (snd ?t) = False" by code_simp
  then obtain r d where t: "?t = (r, Inr d)" by (cases ?t; cases "snd ?t") auto
  from turn_status_known [OF t] show ?thesis by (simp add: t)
qed

end
