(* ===== verification/Runner_Turn.thy ===== *)
theory Runner_Turn
  imports Runner_Outcome Loop_Turns
begin

text \<open>
  A turn inside the container (\<open>agentd/docker/session-runner/agentd_runner/turn.py\<close>): the paths of a role, the
  prompt, the live or disposable run, and the record of its end.  The process of the runner is the state
  \<open>server\<close>; the disposable path ends with what its child left in the pipe and as exit status, which are
  answers of the outside, as are the files read and the writes that raise.
\<close>

section \<open>The runner's process\<close>

type_synonym models = "(string \<times> (string \<times> string) list) list"

text \<open>\<open>RunnerState\<close>, the sessions with the rest of what the runner did, and the secrets and transcripts written.\<close>

record server =
  bearer :: "string option"
  attached :: bool
  x_session_key :: "string option"
  x_roles :: "(string \<times> string) list"
  x_models :: models
  initialized :: bool
  missed :: dict
  registered :: registry
  rig :: runner
  secrets :: "(string \<times> string \<times> string) list"
  transcripts :: "(string \<times> json) list"

datatype child_pipe = Child_result dict | Child_empty | Child_broken string

record files =
  u_text :: "string \<Rightarrow> string option"
  u_json :: "string \<Rightarrow> json option"
  u_homes :: bool
  u_layout :: "nat \<Rightarrow> string \<Rightarrow> string option"
  u_prompt :: "nat \<Rightarrow> string option"
  u_append :: "nat \<Rightarrow> string option"
  u_mkdir :: "nat \<Rightarrow> string option"
  u_child :: "nat \<Rightarrow> child_pipe \<times> int option"
  u_secret :: "nat \<Rightarrow> string option"
  u_user :: "nat \<Rightarrow> string \<Rightarrow> string + json"
  u_wipe :: "nat \<Rightarrow> string \<Rightarrow> int"
  u_rss :: "nat \<Rightarrow> int \<times> int"

type_synonym 'a srv = "server \<Rightarrow> server \<times> (stop + 'a)"

definition sgive :: "'a \<Rightarrow> 'a srv" where
  "sgive x s = (s, Inr x)"

definition sraise :: "string \<Rightarrow> 'a srv" where
  "sraise e s = (s, Inl (Raised e))"

definition sbind :: "'a srv \<Rightarrow> ('a \<Rightarrow> 'b srv) \<Rightarrow> 'b srv" where
  "sbind m f s = (case m s of (s', Inl e) \<Rightarrow> (s', Inl e) | (s', Inr x) \<Rightarrow> f x s')"

abbreviation sthen :: "unit srv \<Rightarrow> 'b srv \<Rightarrow> 'b srv" where
  "sthen m n \<equiv> sbind m (\<lambda>_. n)"

definition sget :: "(server \<Rightarrow> 'a) \<Rightarrow> 'a srv" where
  "sget f s = (s, Inr (f s))"

definition sput :: "(server \<Rightarrow> server) \<Rightarrow> unit srv" where
  "sput f s = (f s, Inr ())"

definition sdo :: "'a op \<Rightarrow> 'a srv" where
  "sdo m s = (case m (rig s) of (r, x) \<Rightarrow> (s\<lparr>rig := r\<rparr>, x))"

definition sprovided :: "bool \<Rightarrow> unit srv \<Rightarrow> unit srv" where
  "sprovided b m = (if b then m else sgive ())"

definition strying :: "'a srv \<Rightarrow> (string + 'a) srv" where
  "strying m s =
     (case m s of
        (s', Inl Out_of_rounds) \<Rightarrow> (s', Inl Out_of_rounds)
      | (s', Inl e) \<Rightarrow> (s', Inr (Inl (stop_text e)))
      | (s', Inr x) \<Rightarrow> (s', Inr (Inr x)))"

definition sresult :: "string + 'a \<Rightarrow> 'a srv" where
  "sresult x = (case x of Inl e \<Rightarrow> sraise e | Inr v \<Rightarrow> sgive v)"

definition smust_not :: "(nat \<Rightarrow> string option) \<Rightarrow> unit srv" where
  "smust_not f = sdo (must_not f)"

fun seach :: "('x \<Rightarrow> unit srv) \<Rightarrow> 'x list \<Rightarrow> unit srv" where
  "seach f [] = sgive ()"
| "seach f (x # xs) = sthen (f x) (seach f xs)"

fun scollect :: "('x \<Rightarrow> 'a srv) \<Rightarrow> 'x list \<Rightarrow> 'a list srv" where
  "scollect f [] = sgive []"
| "scollect f (x # xs) = sbind (f x) (\<lambda>a. sbind (scollect f xs) (\<lambda>as. sgive (a # as)))"

text \<open>A method of a role's session: the session is loaded, and stored again whatever the method does.\<close>

definition with_session :: "string \<Rightarrow> 'a op \<Rightarrow> 'a srv" where
  "with_session role m s =
     (case m (rig s) of (r, x) \<Rightarrow> (s\<lparr>rig := r, registered := register role (self r) (registered s)\<rparr>, x))"

definition live_session :: "sys \<Rightarrow> session_args \<Rightarrow> unit srv" where
  "live_session S a s =
     (case get_or_create_session S a (registered s) (rig s) of
        (r, Inr reg) \<Rightarrow> (s\<lparr>rig := r, registered := reg\<rparr>, Inr ())
      | (r, Inl e) \<Rightarrow> (s\<lparr>rig := r, registered := register (l_role a) (self r) (registered s)\<rparr>, Inl e))"

section \<open>Roles, models and paths\<close>

definition role_uids :: "(string \<times> int) list" where
  "role_uids = [(''architect'', 1001), (''developer'', 1002)]"

definition uid_of :: "string \<Rightarrow> int" where
  "uid_of role = (case map_of role_uids role of None \<Rightarrow> 0 | Some u \<Rightarrow> u)"

definition adapter_alias :: "string \<Rightarrow> string" where
  "adapter_alias a = (case map_of [(''claude-code'', ''claude''), (''grok-cli'', ''grok'')] a of None \<Rightarrow> a | Some b \<Rightarrow> b)"

definition spec_value :: "(string \<times> string) list \<Rightarrow> string \<Rightarrow> string option" where
  "spec_value spec k = (case map_of spec k of None \<Rightarrow> None | Some v \<Rightarrow> if v = [] then None else Some v)"

definition model_spec :: "models \<Rightarrow> string \<Rightarrow> string option \<times> string option" where
  "model_spec ms adapter =
     (let own = (case map_of ms adapter of None \<Rightarrow> [] | Some x \<Rightarrow> x);
          spec = (if own \<noteq> [] then own else (case map_of ms (adapter_alias adapter) of None \<Rightarrow> [] | Some x \<Rightarrow> x)) in
      (spec_value spec ''model'', spec_value spec ''reasoning_effort''))"

definition issue_num_from_params :: "dict \<Rightarrow> int option" where
  "issue_num_from_params params =
     (let v = dget (json_obj (dget params ''context'')) ''issue_num'' in
      if v = JNull \<or> v = JStr [] then None else json_int v)"

definition session_base :: "sys \<Rightarrow> int option \<Rightarrow> string" where
  "session_base S issue =
     (case issue of
        Some n \<Rightarrow> project_root S @ ''/sessions/'' @ dec n
      | None \<Rightarrow> first_of [env_get S ''AGENTD_SESSION_DIR'', ''/srv/session''])"

record paths =
  p_base :: string
  p_home :: string
  p_tmp :: string
  p_xdg :: string
  p_context :: string
  p_scratch :: string
  p_worktrees :: string
  p_transcript :: string
  p_summary :: string

definition role_paths :: "sys \<Rightarrow> files \<Rightarrow> string \<Rightarrow> int option \<Rightarrow> paths" where
  "role_paths S W role issue =
     (let base = session_base S issue @ ''/'' @ role; durable = project_root S @ ''/home/'' @ role in
      \<lparr>p_base = base, p_home = (if u_homes W then durable else base @ ''/home''), p_tmp = durable @ ''/tmp'',
       p_xdg = durable @ ''/xdg'', p_context = base @ ''/context'', p_scratch = base @ ''/scratch'',
       p_worktrees = base @ ''/worktrees'', p_transcript = base @ ''/transcript.jsonl'',
       p_summary = base @ ''/context/summary.md''\<rparr>)"

definition resolve_adapter :: "sys \<Rightarrow> string \<Rightarrow> string \<Rightarrow> string" where
  "resolve_adapter S role name =
     first_of [env_get S ''AGENTD_ADAPTER'', name, if role = ''architect'' then ''claude-code'' else ''grok-cli'']"

section \<open>Rehydration\<close>

record memory =
  m_summary :: string
  m_tail :: "json list"
  m_lines :: nat

definition last_n :: "nat \<Rightarrow> 'a list \<Rightarrow> 'a list" where
  "last_n n xs = drop (length xs - n) xs"

definition load_rehydration :: "sys \<Rightarrow> files \<Rightarrow> string \<Rightarrow> int option \<Rightarrow> memory" where
  "load_rehydration S W role issue =
     (let ps = role_paths S W role issue;
          lines = (case u_text W (p_transcript ps) of None \<Rightarrow> [] | Some t \<Rightarrow> splitlines False [] t) in
      \<lparr>m_summary = (case u_text W (p_summary ps) of None \<Rightarrow> [] | Some t \<Rightarrow> t),
       m_tail = List.map_filter (u_json W) (last_n 50 lines), m_lines = length lines\<rparr>)"

section \<open>The prompt\<close>

definition obligations :: "((string \<times> string) \<times> string) list" where
  "obligations =
     [
      ((''architect'', ''PLANNING''), ''Write the RFC into the worktree and open the Design PR from the architect branch. Do not '' @
         ''implement.''),
      ((''architect'', ''DESIGN_REVIEW''), ''Developer is reviewing the Design PR. Wait. Do not implement.''),
      ((''architect'', ''DESIGN_REWORK''), ''Revise the RFC from review feedback and push. Do not implement.''),
      ((''architect'', ''DESIGN_APPROVED''), ''Merge the Design PR ('' @
         [section_sign] @
         ''8.3). Do not open a Feature PR yet.''),
      ((''architect'', ''IMPLEMENTING''), ''The Developer is implementing. Wait for the Feature PR. Do not implement, and do not '' @
         ''close the issue.''),
      ((''architect'', ''CODE_REVIEW''), ''Review the Feature PR: request changes or approve. Do not merge.''),
      ((''architect'', ''CODE_REWORK''), ''Developer is fixing the Feature PR. Wait. Do not implement or merge.''),
      ((''architect'', ''MERGING''), ''Developer merges the Feature PR ('' @
         [section_sign] @
         ''8.4). Wait. Do not merge yourself.''),
      ((''architect'', ''AWAITING_VERIFICATION''), ''Feature PR is merged. The gateway writes a '' @
         [section_sign] @
         ''10.1 verification block scaffold on the issue body. Refine steps / Not covered between '' @
         ''the <!-- agentd:verification v1 --> sentinels if needed; do not remove the checkbox or '' @
         ''ordering line. Wait for the owner to tick and close. Do not close the issue.''),
      ((''developer'', ''PLANNING''), ''Architect is drafting the design. Wait. Do not implement.''),
      ((''developer'', ''DESIGN_REVIEW''), ''Review the Design PR: request changes or approve. Do not implement.''),
      ((''developer'', ''DESIGN_REWORK''), ''Architect is revising the design. Wait. Do not implement.''),
      ((''developer'', ''DESIGN_APPROVED''), ''Architect is merging the Design PR. Wait. Do not implement yet.''),
      ((''developer'', ''IMPLEMENTING''), ''Implement against the approved design and open the Feature PR.''),
      ((''developer'', ''CODE_REVIEW''), ''Architect is reviewing the Feature PR. Wait. Do not merge.''),
      ((''developer'', ''CODE_REWORK''), ''Address Architect review feedback and push. Do not merge yet.''),
      ((''developer'', ''MERGING''), ''Merge the Feature PR only after merge_authorized ('' @
         [section_sign] @
         ''8.4), then delete the branch. Do not merge without authorization.''),
      ((''developer'', ''AWAITING_VERIFICATION''), ''Wait for owner verification and issue close. Do not open work unless further work is '' @
         ''requested.''),
      ((''developer'', ''TEARDOWN''), ''Remove this issue's developer worktree, developer branch, and its own scratch directory, '' @
         ''then git worktree prune. Report what you removed. Do not touch Architect paths, other '' @
         ''issues, or the project container.''),
      ((''architect'', ''TEARDOWN''), ''Remove this issue's architect worktree, architect branch, and its own scratch directory, '' @
         ''then git worktree prune. Report what you removed. Do not touch Developer paths, other '' @
         ''issues, or the project container.'')]"

definition role_obligation :: "string \<Rightarrow> string \<Rightarrow> string" where
  "role_obligation role state = (case map_of obligations (py_lower role, state) of None \<Rightarrow> [] | Some t \<Rightarrow> t)"

text \<open>\<open>json.dumps\<close> with its default separators, and with \<open>indent=2\<close> at a depth.\<close>

fun json_plain :: "json \<Rightarrow> string" where
  "json_plain (JArr xs) = CHR ''['' # join '', '' (map json_plain xs) @ '']''"
| "json_plain (JObj kvs) = CHR ''{'' # join '', '' (map (\<lambda>(k, v). json_quote k @ '': '' @ json_plain v) kvs) @ ''}''"
| "json_plain j = json_text j"

definition indent :: "nat \<Rightarrow> string" where
  "indent n = CHR 0x0A # replicate (2 * n) CHR '' ''"

fun json_indented :: "nat \<Rightarrow> json \<Rightarrow> string" where
  "json_indented n (JArr xs) =
     (if xs = [] then ''[]''
      else CHR ''['' # indent (Suc n) @ join (CHR '','' # indent (Suc n)) (map (json_indented (Suc n)) xs) @ indent n @ '']'')"
| "json_indented n (JObj kvs) =
     (if kvs = [] then ''{}''
      else CHR ''{'' # indent (Suc n) @
        join (CHR '','' # indent (Suc n)) (map (\<lambda>(k, v). json_quote k @ '': '' @ json_indented (Suc n) v) kvs) @ indent n @ ''}'')"
| "json_indented n j = json_text j"

definition design_invariant :: string where
  "design_invariant =
     ''Invariant: no implementation code before DESIGN_APPROVED. '' @
     ''Until then, design artifacts only (RFC / Design PR).''"

definition resume_note :: string where
  "resume_note =
     ''This is a turn.resume. The previous attempt was interrupted. '' @
     ''Establish actual state from git status, git log, the worktree, '' @
     ''and PR state on GitHub before deciding what remains. '' @
     ''Do not replay work that already landed.''"

definition hard_rule :: string where
  "hard_rule =
     ''Hard rule ('' @ [section_sign] @ ''10.3): Never close the GitHub issue and never use closing '' @
     ''keywords (Fixes/Closes) on a PR that would close the *session* issue. '' @
     ''Only the human owner closes session issues '' @ [em_dash] @ '' that event is the teardown '' @
     ''trigger. Agents must not call the issues close API.''"

definition respond_note :: string where
  "respond_note =
     ''Respond by performing the agent work for this event. '' @ ''When finished, summarize what you did.''"

text \<open>The parts before and after the context is read; a context that is no mapping raises.\<close>

definition prompt_head :: "dict \<Rightarrow> dict \<Rightarrow> string list" where
  "prompt_head past params =
     (let role = str_or_empty (dget params ''role''); state = py_strip (str_or_empty (dget params ''session_state''));
          duty = role_obligation role state;
          gone = (case dget params ''missed'' of JObj d \<Rightarrow> dget d ''retired_turns'' | _ \<Rightarrow> dget past ''retired_turns'') in
      [''Role: '' @ role, ''Turn: '' @ py_str (dget params ''turn_id'')] @
      (if state = [] then [] else [''Session state: '' @ state] @
         (if duty = [] then [] else [''Your obligation in this state: '' @ duty])) @
      [design_invariant] @ (if truthy (dget params ''resuming'') then [resume_note] else []) @
      (if truthy gone then [''Your previous turn was interrupted and was not resumed. Retired: '' @ take 2000 (json_plain gone)]
       else []) @
      [''Event: '' @ take 4000 (json_indented 0
         (py_or (dget params ''digest'') (py_or (dget params ''event'') (JObj []))))])"

definition memory_part :: "(string \<times> json list) option \<Rightarrow> string list" where
  "memory_part mem =
     (case mem of
        None \<Rightarrow> []
      | Some (summary, tail) \<Rightarrow>
          if summary \<noteq> [] then [''--- Context summary ---'' @ nl @ take 8000 summary]
          else if tail \<noteq> [] then [''--- Recent transcript ---'' @ nl @ take 6000 (json_indented 0 (JArr (last_n 10 tail)))]
          else [])"

definition build_prompt :: "files \<Rightarrow> dict \<Rightarrow> dict \<Rightarrow> (string \<times> json list) option \<Rightarrow> string + string" where
  "build_prompt W past params mem =
     bind_exc (sub_obj params ''context'') (\<lambda>ctx.
       let tree = dget ctx ''worktree''; file = dget ctx ''digest'' in
       Inr (join (nl @ nl) (prompt_head past params @
         (if truthy tree then [''Issue worktree: '' @ py_str tree @ nl @
            ''Perform file/git work inside this path (project-root CLI session).''] else []) @
         memory_part mem @
         (if truthy file then (case u_text W (py_str file) of None \<Rightarrow> []
            | Some t \<Rightarrow> [''--- Event digest file ---'' @ nl @ take 4000 t]) else []) @
         [hard_rule, respond_note])))"

section \<open>Running a turn\<close>

definition deadline_of :: "dict \<Rightarrow> string + int" where
  "deadline_of params =
     (case json_int (py_or (dget params ''deadline_s'') (JNum 900)) of
        None \<Rightarrow> Inl ''invalid literal for int()'' | Some n \<Rightarrow> Inr n)"

text \<open>The parent's side of the disposable path: what is in the pipe, and exit status 2 for a failed privilege drop.\<close>

definition oneshot_result :: "sys \<Rightarrow> files \<Rightarrow> dict \<Rightarrow> dict srv" where
  "oneshot_result S W params =
     sbind (sresult (deadline_of params)) (\<lambda>_. sbind (sdo (answer (u_child W))) (\<lambda>(pipe, exit_status). sgive
       (if y_root S \<and> exit_status = Some 2 then failed ''refusing to run adapter as root (setuid failed)''
        else (case pipe of
            Child_result d \<Rightarrow> d
          | Child_empty \<Rightarrow> failed ''empty result pipe''
          | Child_broken e \<Rightarrow> failed ((if y_root S then ''pipe read failed: '' else ''turn error: '') @ e)))))"

definition args_for :: "sys \<Rightarrow> models \<Rightarrow> string \<Rightarrow> string \<Rightarrow> paths \<Rightarrow> session_args" where
  "args_for S ms role adapter ps =
     \<lparr>l_role = role, l_adapter = adapter, l_uid = uid_of role, l_home = p_home ps, l_tmp = p_tmp ps, l_xdg = p_xdg ps,
      l_cwd = project_root S, l_model = fst (model_spec ms adapter), l_effort = snd (model_spec ms adapter)\<rparr>"

definition live_result :: "sys \<Rightarrow> dict \<Rightarrow> string \<Rightarrow> paths \<Rightarrow> string \<Rightarrow> string \<Rightarrow> dict srv" where
  "live_result S params role ps adapter prompt =
     sbind (sresult (deadline_of params)) (\<lambda>n. sbind (sget x_models) (\<lambda>ms.
       sthen (live_session S (args_for S ms role adapter ps))
       (sbind (strying (with_session role (ensure_spawned S True))) (\<lambda>x. case x of
           Inl e \<Rightarrow> sgive (failed (''cli spawn failed: '' @ e))
         | Inr _ \<Rightarrow> with_session role (turn S prompt n)))))"

definition transcript_record :: "int \<Rightarrow> string \<Rightarrow> string \<Rightarrow> string \<Rightarrow> dict \<Rightarrow> dict \<Rightarrow> json" where
  "transcript_record ts tid role adapter params d =
     JObj [(''ts'', JNum ts), (''turn_id'', JStr tid), (''role'', JStr role), (''adapter'', JStr adapter),
       (''event'', dget params ''event''), (''status'', dget d ''status''), (''summary'', dget d ''summary''),
       (''public_actions'', py_or (dget d ''public_actions'') (JArr [])),
       (''live_session'', JBool (truthy (dget d ''live_session'')))]"

definition rss_of :: "registry \<Rightarrow> string \<Rightarrow> int" where
  "rss_of reg role = (case map_of reg role of None \<Rightarrow> 0 | Some c \<Rightarrow> c_rss c)"

text \<open>\<open>rss_snapshot()\<close> on the sessions held.\<close>

definition snapshot :: "sys \<Rightarrow> registry srv" where
  "snapshot S = sbind (sget registered) (\<lambda>reg. sbind (sdo (rss_snapshot S reg)) (\<lambda>reg'.
     sthen (sput (\<lambda>s. s\<lparr>registered := reg'\<rparr>)) (sgive reg')))"

definition mark_growth :: "nat \<Rightarrow> dict \<Rightarrow> dict" where
  "mark_growth n d = (if 5000 \<le> n then dput d ''transcript_growth_warning'' (JNum (int n)) else d)"

definition exec_turn_as_role :: "sys \<Rightarrow> files \<Rightarrow> dict \<Rightarrow> dict srv" where
  "exec_turn_as_role S W params =
     (let role = str_or_empty (dget params ''role''); issue = issue_num_from_params params;
          ps = role_paths S W role issue; mem = load_rehydration S W role issue;
          adapter = resolve_adapter S role (str_or_empty (dget params ''adapter'')); oneshot = use_oneshot S adapter in
      if role \<notin> fst ` set role_uids then sgive (failed (''unknown role '' @ role))
      else
        sthen (smust_not (\<lambda>i. u_layout W i role))
        (sbind (sget missed) (\<lambda>past. sbind (sresult (build_prompt W past params
            (if oneshot then Some (m_summary mem, m_tail mem)
             else if m_summary mem \<noteq> [] then Some (m_summary mem, []) else None))) (\<lambda>prompt.
        sbind (sresult (deadline_of params)) (\<lambda>_. sbind (sdo (answer (y_clock S))) (\<lambda>now.
        let tid = (if truthy (dget params ''turn_id'') then py_str (dget params ''turn_id'') else ''t-'' @ dec \<lfloor>now\<rfloor>) in
        sthen (smust_not (u_prompt W))
        (sbind (if oneshot then oneshot_result S W params else live_result S params role ps adapter prompt) (\<lambda>d.
        sbind (sdo (answer (y_clock S))) (\<lambda>later. sbind (sdo (answer (u_append W))) (\<lambda>lost.
        sthen (sprovided (lost = None) (sput (\<lambda>s. s\<lparr>transcripts := transcripts s @
            [(p_transcript ps, transcript_record \<lfloor>later\<rfloor> tid role adapter params d)]\<rparr>)))
        (let d' = dput (dput (dput d ''turn_id'' (JStr tid)) ''role'' (JStr role)) ''adapter'' (JStr adapter) in
         sbind (if oneshot then sgive d'
            else sbind (snapshot S) (\<lambda>reg.
              sgive (if has_key d' ''cli_rss_kb'' then d' else dput d' ''cli_rss_kb'' (JNum (rss_of reg role))))) (\<lambda>d''.
         sgive (mark_growth (m_lines mem) d'')))))))))))))"

text \<open>\<open>ensure_role_cli_spawned\<close>: soft, its exceptions are reported; the directories are made outside the \<open>try\<close>.\<close>

definition opt_json :: "string option \<Rightarrow> json" where
  "opt_json x = (case x of None \<Rightarrow> JNull | Some v \<Rightarrow> JStr v)"

definition ensure_role_cli_spawned :: "sys \<Rightarrow> files \<Rightarrow> string \<Rightarrow> bool \<Rightarrow> dict srv" where
  "ensure_role_cli_spawned S W role continue =
     (let adapter = resolve_adapter S role []; ps = role_paths S W role None in
      if role \<notin> fst ` set role_uids
      then sgive [(''role'', JStr role), (''spawned'', JBool False), (''error'', JStr ''unknown role'')]
      else if use_oneshot S adapter
      then sgive [(''role'', JStr role), (''spawned'', JBool False), (''mode'', JStr ''oneshot'')]
      else
        sthen (smust_not (u_mkdir W)) (sbind (sget x_models) (\<lambda>ms.
        let a = args_for S ms role adapter ps in
        sbind (strying (sthen (live_session S a) (with_session role (ensure_spawned S continue)))) (\<lambda>x. case x of
            Inl e \<Rightarrow> sgive [(''role'', JStr role), (''spawned'', JBool False), (''error'', JStr e)]
          | Inr _ \<Rightarrow> sbind (sget (\<lambda>s. self (rig s))) (\<lambda>c. sgive
              [(''role'', JStr role), (''spawned'', JBool True), (''adapter'', JStr adapter),
               (''model'', opt_json (l_model a)), (''reasoning_effort'', opt_json (l_effort a)),
               (''pid'', case c_proc c of None \<Rightarrow> JNull | Some p \<Rightarrow> JNum (pid p)),
               (''rss_kb'', JNum (c_rss c)), (''continue_session'', JBool continue)])))))"

end
