(* ===== verification/Runner_Server.thy ===== *)
theory Runner_Server
  imports Runner_Turn
begin

text \<open>
  The runner's JSON-RPC server (\<open>agentd/docker/session-runner/agentd_runner/server.py\<close>): the requests, the
  identity check before any turn, the secrets of the roles, and one connection from its first frame on.
\<close>

section \<open>Secrets and identities\<close>

definition check_bearer :: "server \<Rightarrow> string option \<Rightarrow> bool" where
  "check_bearer s token =
     (case (bearer s, token) of (Some b, Some t) \<Rightarrow> b \<noteq> [] \<and> b = t | _ \<Rightarrow> False)"

text \<open>\<open>write_role_secret\<close>: the file system's refusals are an answer.\<close>

definition write_role_secret :: "files \<Rightarrow> string \<Rightarrow> string \<Rightarrow> string \<Rightarrow> unit srv" where
  "write_role_secret W role name v =
     (if role \<notin> fst ` set role_uids then sraise (''unknown role '' @ role)
      else if name = [] \<or> CHR ''/'' \<in> set name \<or> name \<in> set [''.'', ''..'']
      then sraise (''invalid secret name '' @ repr_str name)
      else sthen (smust_not (u_secret W))
        (sput (\<lambda>s. s\<lparr>secrets := filter (\<lambda>(r, n, _). (r, n) \<noteq> (role, name)) (secrets s) @ [(role, name, v)]\<rparr>)))"

definition write_role_token :: "files \<Rightarrow> string \<Rightarrow> string \<Rightarrow> unit srv" where
  "write_role_token W role tok = write_role_secret W role ''token'' tok"

text \<open>One token of \<open>identity_preflight\<close>: what is wrong with it.\<close>

definition preflight_one :: "files \<Rightarrow> (string \<times> string) list \<Rightarrow> string \<times> string \<Rightarrow> string list srv" where
  "preflight_one W expected x =
     (case x of (role, pat) \<Rightarrow>
        (case map_of expected role of
           None \<Rightarrow> sgive [role @ '': no configured login'']
         | Some want \<Rightarrow>
             if want = [] then sgive [role @ '': no configured login'']
             else if pat = [] then sgive [role @ '': empty token'']
             else sbind (sdo (answer (\<lambda>i. u_user W i pat))) (\<lambda>a. sgive (case a of
                 Inl e \<Rightarrow> [role @ '': GET /user failed: '' @ e]
               | Inr (JObj d) \<Rightarrow>
                   if dget d ''login'' \<noteq> JStr want
                   then [role @ '': token login='' @ py_repr (dget d ''login'') @ '' != configured '' @ repr_str want] else []
               | Inr j \<Rightarrow> [role @ '': GET /user failed: '' @ no_attr j ''get'']))))"

definition identity_preflight :: "files \<Rightarrow> (string \<times> string) list \<Rightarrow> (string \<times> string) list \<Rightarrow> string list srv" where
  "identity_preflight W tokens expected =
     sbind (scollect (preflight_one W expected) tokens) (\<lambda>xs. sgive (concat xs))"

section \<open>Requests\<close>

definition reply_ok :: "json \<Rightarrow> dict \<Rightarrow> dict" where
  "reply_ok rid result = [(''jsonrpc'', JStr ''2.0''), (''id'', rid), (''result'', JObj result)]"

definition reply_err :: "json \<Rightarrow> int \<Rightarrow> string \<Rightarrow> dict" where
  "reply_err rid n msg = [(''jsonrpc'', JStr ''2.0''), (''id'', rid), (''error'', JObj [(''code'', JNum n), (''message'', JStr msg)])]"

definition str_pairs :: "dict \<Rightarrow> (string \<times> string) list" where
  "str_pairs d = map (\<lambda>(k, v). (k, py_str v)) d"

definition str_obj :: "(string \<times> string) list \<Rightarrow> json" where
  "str_obj kvs = JObj (map (\<lambda>(k, v). (k, JStr v)) kvs)"

definition models_obj :: "models \<Rightarrow> json" where
  "models_obj ms = JObj (map (\<lambda>(a, spec). (a, str_obj spec)) ms)"

definition key_json :: "server \<Rightarrow> json" where
  "key_json s = opt_json (x_session_key s)"

definition attach :: "json \<Rightarrow> dict \<Rightarrow> dict srv" where
  "attach rid params s =
     (let token = py_or (dget params ''bearer'') (dget params ''token'') in
      if \<not> check_bearer s (if token = JNull then None else Some (py_str token)) then (s, Inr (reply_err rid (-32001) ''invalid bearer''))
      else (s\<lparr>attached := True\<rparr>, Inr (reply_ok rid [(''attached'', JBool True), (''session_key'', key_json s)])))"

definition health_ping :: "sys \<Rightarrow> files \<Rightarrow> json \<Rightarrow> dict srv" where
  "health_ping S W rid =
     sbind (sdo (answer (u_rss W))) (\<lambda>(rss, peak). sbind (snapshot S) (\<lambda>reg. sbind (sdo (answer (y_clock S))) (\<lambda>now. sbind (sget id) (\<lambda>s.
       sgive (reply_ok rid
         [(''ok'', JBool True), (''rss_bytes'', JNum rss), (''rss_peak_bytes'', JNum peak),
          (''cli_rss_kb'', JObj (map (\<lambda>(k, c). (k, JNum (c_rss c))) reg)), (''sampled_at'', JNum \<lfloor>now\<rfloor>),
          (''session_key'', key_json s), (''initialized'', JBool (initialized s)), (''models'', models_obj (x_models s))])))))"

text \<open>The models of \<open>session.init\<close>; Inl is the adapter whose entry is no mapping.\<close>

fun parse_models :: "dict \<Rightarrow> string + models" where
  "parse_models [] = Inr []"
| "parse_models ((a, JObj spec) # ms) =
     (let entry = concat (map (\<lambda>k. let v = py_strip (str_or_empty (dget spec k)) in if v = [] then [] else [(k, v)])
          [''model'', ''reasoning_effort'']) in
      map_sum id (\<lambda>xs. if entry = [] then xs else (a, entry) # xs) (parse_models ms))"
| "parse_models ((a, _) # ms) = Inl a"

definition memory_json :: "memory \<Rightarrow> json" where
  "memory_json m =
     JObj [(''summary'', JStr (m_summary m)), (''transcript_tail'', JArr (m_tail m)), (''transcript_lines'', JNum (int (m_lines m)))]"

definition role_names :: "string list" where
  "role_names = map fst role_uids"

text \<open>\<open>session.init\<close> and \<open>session.resume\<close> once the parameters are read: layouts, secrets, identities, CLIs.\<close>

definition store_secrets :: "files \<Rightarrow> dict \<Rightarrow> string \<Rightarrow> unit srv" where
  "store_secrets W tokens oauth =
     sthen (seach (\<lambda>role. smust_not (\<lambda>i. u_layout W i role)) role_names)
     (sthen (seach (\<lambda>(role, pat). sprovided (role \<in> set role_names \<and> truthy pat) (write_role_token W role (py_str pat))) tokens)
       (sprovided (oauth \<noteq> []) (seach (\<lambda>role. write_role_secret W role ''claude_oauth_token'' oauth) role_names)))"

definition begin_session :: "sys \<Rightarrow> files \<Rightarrow> json \<Rightarrow> string \<Rightarrow> dict \<Rightarrow> string \<Rightarrow> dict srv" where
  "begin_session S W rid meth params key =
     (let resuming = (meth = ''session.resume'') in
      sthen (sput (\<lambda>s. s\<lparr>initialized := True\<rparr>))
      (sthen (sprovided resuming (case dget params ''missed'' of
           JObj d \<Rightarrow> sput (\<lambda>s. s\<lparr>missed := d\<rparr>)
         | _ \<Rightarrow> sgive ()))
      (sbind (scollect (\<lambda>role. sbind (ensure_role_cli_spawned S W role resuming) (\<lambda>d. sgive (role, JObj d))) role_names) (\<lambda>clis.
       sbind (sget id) (\<lambda>s. sgive (reply_ok rid
         [(''session_key'', JStr key), (''initialized'', JBool True), (''method'', JStr meth), (''roles'', str_obj (x_roles s)),
          (''models'', models_obj (x_models s)),
          (''rehydrated'', JObj (if resuming then map (\<lambda>role. (role, memory_json (load_rehydration S W role None))) role_names else [])),
          (''cli_spawn'', JObj clis)]))))))"

definition session_init :: "sys \<Rightarrow> files \<Rightarrow> json \<Rightarrow> string \<Rightarrow> dict \<Rightarrow> dict srv" where
  "session_init S W rid meth params =
     sbind (sget x_session_key) (\<lambda>old.
     let key = py_str (py_or (dget params ''session_key'') (JStr (case old of None \<Rightarrow> [] | Some k \<Rightarrow> k)));
         part = (\<lambda>k. py_or (dget params k) (JObj [])) in
     case (part ''roles'', part ''tokens'') of
       (JObj roles, JObj tokens) \<Rightarrow>
         (case part ''model_credentials'' of
            JObj creds \<Rightarrow>
              (case part ''models'' of
                 JObj ms \<Rightarrow>
                   (case parse_models ms of
                      Inl a \<Rightarrow> sgive (reply_err rid (-32602) (''models.'' @ a @ '' must be an object''))
                    | Inr parsed \<Rightarrow>
                        sthen (sput (\<lambda>s. s\<lparr>x_session_key := Some key, x_roles := str_pairs roles, x_models := parsed\<rparr>))
                        (sthen (store_secrets W tokens (py_strip (str_or_empty (dget creds ''claude_oauth_token''))))
                        (sbind (identity_preflight W (str_pairs tokens) (str_pairs roles)) (\<lambda>errs.
                         if errs \<noteq> []
                         then sthen (sput (\<lambda>s. s\<lparr>initialized := False\<rparr>))
                           (sgive (reply_err rid (-32010) (''identity preflight failed: '' @ join ''; '' errs)))
                         else begin_session S W rid meth params key))))
               | _ \<Rightarrow> sgive (reply_err rid (-32602) ''models must be an object''))
          | _ \<Rightarrow> sgive (reply_err rid (-32602) ''model_credentials must be an object''))
     | _ \<Rightarrow> sgive (reply_err rid (-32602) ''roles and tokens must be objects''))"

text \<open>\<open>session.teardown\<close>: the wipe of the secrets is best effort and never decides the reply.\<close>

definition close_session :: "sys \<Rightarrow> string \<times> cli \<Rightarrow> string list srv" where
  "close_session S x =
     (case x of (k, c) \<Rightarrow> sthen (sdo (load_self c)) (sbind (with_session k (kill_unlocked S)) (\<lambda>why.
        sgive (case why of None \<Rightarrow> [] | Some w \<Rightarrow> [c_role c @ '': '' @ w]))))"

definition wipe_role :: "files \<Rightarrow> string \<Rightarrow> unit srv" where
  "wipe_role W role =
     sbind (sdo (answer (\<lambda>i. u_wipe W i role))) (\<lambda>rc.
       sprovided (rc = 0) (sput (\<lambda>s. s\<lparr>secrets := filter (\<lambda>(r, _). r \<noteq> role) (secrets s)\<rparr>)))"

definition session_teardown :: "sys \<Rightarrow> files \<Rightarrow> json \<Rightarrow> dict srv" where
  "session_teardown S W rid =
     sbind (sget registered) (\<lambda>reg. sbind (scollect (close_session S) reg) (\<lambda>whys.
     sthen (sput (\<lambda>s. s\<lparr>registered := []\<rparr>))
     (sthen (seach (wipe_role W) role_names)
     (sthen (sput (\<lambda>s. s\<lparr>initialized := False\<rparr>))
       (sgive (if concat whys \<noteq> []
          then reply_err rid (-32003) (''teardown could not kill held CLIs: '' @ join ''; '' (concat whys))
          else reply_ok rid [(''torn_down'', JBool True)]))))))"

definition turn_request :: "sys \<Rightarrow> files \<Rightarrow> json \<Rightarrow> string \<Rightarrow> dict \<Rightarrow> dict srv" where
  "turn_request S W rid meth params =
     sbind (sget initialized) (\<lambda>ready.
     let role = str_or_empty (dget params ''role'') in
     if \<not> ready then sgive (reply_err rid (-32002) ''session not initialized'')
     else if role \<notin> set role_names then sgive (reply_err rid (-32602) (''unknown role '' @ role))
     else sbind (exec_turn_as_role S W (if meth = ''turn.resume'' then dput params ''resuming'' (JBool True) else params))
       (\<lambda>d. sgive (reply_ok rid d)))"

definition handle_request :: "sys \<Rightarrow> files \<Rightarrow> dict \<Rightarrow> bool \<Rightarrow> dict srv" where
  "handle_request S W req authed =
     (let rid = dget req ''id''; meth = dget req ''method''; params = json_obj (dget req ''params'') in
      if meth = JStr ''session.attach'' then attach rid params
      else if \<not> authed then sgive (reply_err rid (-32001) ''not attached'')
      else (case meth of
          JStr m \<Rightarrow>
            if m = ''health.ping'' then health_ping S W rid
            else if m \<in> set [''session.init'', ''session.resume''] then session_init S W rid m params
            else if m = ''session.teardown'' then session_teardown S W rid
            else if m \<in> set [''turn.dispatch'', ''turn.resume''] then turn_request S W rid m params
            else if m = ''escalate.human''
            then sgive (reply_ok rid [(''status'', JStr ''needs_human''),
              (''reason'', JStr (py_str (py_or (dget params ''reason'') (JStr ''unspecified'')))),
              (''question'', JStr (str_or_empty (dget params ''question'')))])
            else if m = ''artifact.register''
            then sgive (reply_ok rid [(''accepted'', JBool True), (''kind'', dget params ''kind''), (''ref'', dget params ''ref''),
              (''role'', dget params ''role'')])
            else sgive (reply_err rid (-32601) (''method not found: '' @ m))
        | _ \<Rightarrow> sgive (reply_err rid (-32601) (''method not found: '' @ py_str meth))))"

section \<open>A connection\<close>

text \<open>A line as it is read; \<open>Undecodable\<close> and a frame that is no mapping end the handler with an exception.\<close>

datatype incoming = Blank | Not_json | Undecodable | Frame json

text \<open>The replies of \<open>handle\<close>, in order; the two flags are \<open>authed\<close> and \<open>first\<close>.\<close>

fun handle :: "sys \<Rightarrow> files \<Rightarrow> bool \<Rightarrow> bool \<Rightarrow> incoming list \<Rightarrow> server \<Rightarrow> server \<times> dict list" where
  "handle S W authed first [] s = (s, [])"
| "handle S W authed first (Blank # ls) s = handle S W authed first ls s"
| "handle S W authed first (Undecodable # ls) s = (s, [])"
| "handle S W authed first (Not_json # ls) s =
     map_prod id ((#) (reply_err JNull (-32700) ''parse error'')) (handle S W authed first ls s)"
| "handle S W authed first (Frame j # ls) s =
     (case j of
        JObj req \<Rightarrow>
          (let attaching = (dget req ''method'' = JStr ''session.attach'') in
           if first \<and> \<not> attaching
           then (s, [reply_err (dget req ''id'') (-32001) ''first frame must be session.attach''])
           else if attaching
           then (case handle_request S W req False s of
               (s', Inr a) \<Rightarrow>
                 if authed \<or> has_key a ''result'' then map_prod id ((#) a) (handle S W True False ls s') else (s', [a])
             | (s', Inl _) \<Rightarrow> (s', []))
           else if \<not> authed then (s, [reply_err (dget req ''id'') (-32001) ''not attached''])
           else (case handle_request S W req True s of
               (s', Inr a) \<Rightarrow> map_prod id ((#) a) (handle S W True False ls s')
             | (s', Inl Out_of_rounds) \<Rightarrow> (s', [])
             | (s', Inl e) \<Rightarrow>
                 map_prod id ((#) (reply_err (dget req ''id'') (-32000) (''internal error: '' @ stop_text e)))
                   (handle S W True False ls s')))
      | _ \<Rightarrow> (s, []))"

text \<open>\<open>load_bearer\<close>: the file, else the variable of a test host; None refuses to bind.\<close>

definition load_bearer :: "sys \<Rightarrow> string option \<Rightarrow> string option" where
  "load_bearer S file =
     (case map_option py_strip file of
        Some (c # cs) \<Rightarrow> Some (c # cs)
      | _ \<Rightarrow> if env_get S ''AGENTD_RUNNER_BEARER'' = [] then None else Some (env_get S ''AGENTD_RUNNER_BEARER''))"

text \<open>\<open>read_vmrss\<close>: bytes of the first \<open>VmRSS\<close> line, None where it cannot be read.\<close>

definition read_vmrss :: "string list option \<Rightarrow> int option" where
  "read_vmrss ls =
     (case (case ls of None \<Rightarrow> None | Some ls \<Rightarrow> find (\<lambda>l. starts_with l ''VmRSS:'') ls) of
        None \<Rightarrow> None
      | Some l \<Rightarrow> (case second_word l of None \<Rightarrow> None | Some w \<Rightarrow> map_option (\<lambda>n. n * 1024) (py_int w)))"

definition rss_bytes :: "string list option \<Rightarrow> int \<Rightarrow> int" where
  "rss_bytes ls peak = (case read_vmrss ls of None \<Rightarrow> peak | Some n \<Rightarrow> n)"

end
