(* ===== verification/Runner_Gate.thy ===== *)
theory Runner_Gate
  imports Runner_Server
begin

text \<open>
  What the runner's server and its prompts guarantee: nothing happens before the bearer, a session starts only
  with verified identities, and each dispatchable state has its obligation in the prompt.
\<close>

section \<open>A runner\<close>

definition plain_files :: files where
  "plain_files =
     \<lparr>u_text = (\<lambda>p. None), u_json = (\<lambda>l. None), u_homes = True, u_layout = (\<lambda>i role. None), u_prompt = (\<lambda>i. None),
      u_append = (\<lambda>i. None), u_mkdir = (\<lambda>i. None), u_child = (\<lambda>i. (Child_empty, Some 0)), u_secret = (\<lambda>i. None),
      u_user = (\<lambda>i pat. Inr (JObj [(''login'', JStr pat)])), u_wipe = (\<lambda>i role. 0), u_rss = (\<lambda>i. (0, 0))\<rparr>"

definition mock_sys :: sys where
  "mock_sys = plain_sys\<lparr>y_environ := [(''AGENTD_ADAPTER'', ''mock'')]\<rparr>"

definition fresh_server :: server where
  "fresh_server =
     \<lparr>bearer = Some ''b'', attached = False, x_session_key = None, x_roles = [], x_models = [], initialized = True, missed = [],
      registered = [], rig = running, secrets = [], transcripts = []\<rparr>"

definition one_role :: dict where
  "one_role = [(''tokens'', JObj [(''architect'', JStr ''a'')]), (''roles'', JObj [(''architect'', JStr ''a'')])]"

section \<open>Prompts\<close>

text \<open>The obligations cover the state machine: for either role, the states without an obligation in the prompt are
  exactly INTAKE, the pause and the two ended ones, in which no turn is dispatched.\<close>

theorem obligations_cover_dispatch:
  "(role_obligation role (state_name st) = [] \<longleftrightarrow> st \<in> {INTAKE, PAUSED_HUMAN, CLOSED, FAILED} \<or> role \<notin> {''architect'', ''developer''})"
  if "py_lower role = role"
proof -
  have known: "role_obligation role (state_name st) = [] \<longleftrightarrow> st \<in> {INTAKE, PAUSED_HUMAN, CLOSED, FAILED}" if "role \<in> {''architect'', ''developer''}"
    using that \<open>py_lower role = role\<close> by (cases st; auto simp: role_obligation_def obligations_def)
  moreover have "role_obligation role (state_name st) = []" if "role \<notin> {''architect'', ''developer''}"
    using that \<open>py_lower role = role\<close> by (cases st; auto simp: role_obligation_def obligations_def)
  ultimately show ?thesis by blast
qed

lemma obligations_cover_dispatch_witness: "role_obligation ''developer'' (state_name MERGING) \<noteq> []"
proof -
  have "py_lower ''developer'' = ''developer''" by code_simp
  from obligations_cover_dispatch [OF this, of MERGING] show ?thesis by simp
qed

lemma contains_join: "x \<in> set xs \<Longrightarrow> contains x (join sep xs)"
proof (induction sep xs rule: join.induct)
  case (3 sep y z ys)
  show ?case
  proof (cases "x = y")
    case True
    then show ?thesis using containsI [of x "[]"] by simp
  next
    case False
    with 3 obtain u v where "join sep (z # ys) = u @ x @ v" by (auto simp: contains_iff)
    then have "join sep (y # z # ys) = (y @ sep @ u) @ x @ v" by simp
    then show ?thesis by (metis containsI)
  qed
qed (auto simp: contains_iff intro: exI [of _ "[]"])

text \<open>Whatever the event, the memory and the context, a prompt states the design invariant and the rule that no agent
  closes the session's issue.\<close>

theorem prompt_carries_rules:
  assumes "build_prompt W past params mem = Inr prompt"
  shows "contains design_invariant prompt \<and> contains hard_rule prompt"
proof -
  obtain parts where parts: "prompt = join (nl @ nl) (prompt_head past params @ parts @ [hard_rule, respond_note])"
    using assms by (auto simp: build_prompt_def bind_exc_def Let_def split: sum.splits) (metis append.assoc)+
  have "design_invariant \<in> set (prompt_head past params)" by (simp add: prompt_head_def Let_def)
  then show ?thesis unfolding parts by (intro conjI contains_join) simp_all
qed

lemma prompt_carries_rules_witness:
  "\<exists>prompt. build_prompt plain_files [] [] None = Inr prompt \<and> contains hard_rule prompt"
proof -
  obtain prompt where p: "build_prompt plain_files [] [] None = Inr prompt"
    by (simp add: build_prompt_def sub_obj_def as_obj_def py_or_def bind_exc_def Let_def)
  from prompt_carries_rules [OF p] p show ?thesis by blast
qed

section \<open>Before the bearer\<close>

definition presents :: "server \<Rightarrow> incoming \<Rightarrow> bool" where
  "presents s l =
     (case l of
        Frame (JObj req) \<Rightarrow>
          (let params = json_obj (dget req ''params''); token = py_or (dget params ''bearer'') (dget params ''token'') in
           dget req ''method'' = JStr ''session.attach'' \<and> token \<noteq> JNull \<and> check_bearer s (Some (py_str token)))
      | _ \<Rightarrow> False)"

lemma bad_attach:
  assumes "dget req ''method'' = JStr ''session.attach''" "\<not> presents s (Frame (JObj req))"
  shows "\<exists>a. handle_request S W req False s = (s, Inr a) \<and> \<not> has_key a ''result''"
proof -
  have "check_bearer s None = False" by (simp add: check_bearer_def split: option.split)
  with assms show ?thesis
    by (auto simp: handle_request_def attach_def presents_def Let_def reply_err_def)
qed

text \<open>C11: nothing happens before the bearer: a connection none of whose frames presents it leaves the runner as it was,
  and every reply it gets is an error.\<close>

theorem nothing_before_bearer:
  assumes "list_all (\<lambda>l. \<not> presents s l) ls"
  shows "fst (handle S W False first ls s) = s \<and> list_all (\<lambda>a. \<not> has_key a ''result'') (snd (handle S W False first ls s))"
  using assms
proof (induction ls arbitrary: first)
  case (Cons l ls)
  show ?case
  proof (cases l)
    case (Frame j)
    show ?thesis
    proof (cases j)
      case (JObj req)
      show ?thesis
      proof (cases "dget req ''method'' = JStr ''session.attach''")
        case True
        then obtain a where "handle_request S W req False s = (s, Inr a)" "\<not> has_key a ''result''"
          using bad_attach [OF True, of s S W] Cons.prems Frame JObj by auto
        with True Frame JObj show ?thesis by simp
      qed (simp add: Frame JObj reply_err_def)
    qed (simp_all add: Frame)
  qed (use Cons in \<open>simp_all add: reply_err_def\<close>)
qed simp

lemma nothing_before_bearer_witness:
  "fst (handle mock_sys plain_files False True [Not_json, Frame (JObj [(''method'', JStr ''session.teardown'')])] fresh_server) = fresh_server"
  using nothing_before_bearer [of fresh_server "[Not_json, Frame (JObj [(''method'', JStr ''session.teardown'')])]" mock_sys plain_files True]
  by (simp add: presents_def)

section \<open>Identities\<close>

lemma sbind_Inr: "sbind m f s = (s', Inr y) \<Longrightarrow> \<exists>s1 x. m s = (s1, Inr x) \<and> f x s1 = (s', Inr y)"
  by (auto simp: sbind_def split: prod.splits sum.splits)

lemma scollect_empty:
  "scollect f xs s = (s', Inr ys) \<Longrightarrow> concat ys = [] \<Longrightarrow> x \<in> set xs \<Longrightarrow> \<exists>s1 s2. f x s1 = (s2, Inr [])"
proof (induction xs arbitrary: s ys)
  case (Cons z zs)
  obtain s1 a s2 as where a: "f z s = (s1, Inr a)" "scollect f zs s1 = (s2, Inr as)" "ys = a # as" "s' = s2"
    using Cons.prems(1) by (auto dest!: sbind_Inr simp: sgive_def)
  then show ?case using Cons.IH [OF a(2) [folded a(4)]] Cons.prems(2,3) by auto
qed simp

lemma preflight_ok:
  assumes "preflight_one W expected (role, pat) s = (s', Inr [])"
  shows "\<exists>want i d. map_of expected role = Some want \<and> want \<noteq> [] \<and> pat \<noteq> [] \<and> u_user W i pat = Inr (JObj d) \<and>
    dget d ''login'' = JStr want"
  using assms
  by (auto simp: preflight_one_def sgive_def sbind_def sdo_def answer_def split: option.splits if_splits sum.splits json.splits prod.splits)

text \<open>C10: a session starts only with verified identities: when the init or resume request is answered with a result, every
  token it brought answers GitHub's own question with the login its role is configured for.\<close>

theorem init_means_verified:
  assumes "session_init S W rid meth params s = (s', Inr a)" "has_key a ''result''"
    and "dget params ''tokens'' = JObj tokens" "dget params ''roles'' = JObj roles" "(role, pat) \<in> set tokens"
  shows "\<exists>want i d. map_of (str_pairs roles) role = Some want \<and> u_user W i (py_str pat) = Inr (JObj d) \<and> dget d ''login'' = JStr want"
proof -
  have objs: "py_or (dget params ''tokens'') (JObj []) = JObj tokens" "py_or (dget params ''roles'') (JObj []) = JObj roles"
    using assms(3,4) by (simp_all add: py_or_def)
  have err: "\<not> has_key (reply_err rid n msg) ''result''" for n msg by (simp add: reply_err_def)
  obtain errs s1 s2 where pre: "identity_preflight W (str_pairs tokens) (str_pairs roles) s1 = (s2, Inr errs)" "errs = []"
    using assms(1,2) err unfolding session_init_def Let_def objs
    by (auto dest!: sbind_Inr simp: sgive_def split: json.splits sum.splits if_splits)
  from sbind_Inr [OF pre(1) [unfolded identity_preflight_def]] pre(2) obtain ys s5
    where ys: "scollect (preflight_one W (str_pairs roles)) (str_pairs tokens) s1 = (s5, Inr ys)" "concat ys = []"
    by (auto simp: sgive_def)
  have "(role, py_str pat) \<in> set (str_pairs tokens)" using assms(5) by (force simp: str_pairs_def)
  from scollect_empty [OF ys this] obtain s3 s4 where "preflight_one W (str_pairs roles) (role, py_str pat) s3 = (s4, Inr [])"
    by blast
  from preflight_ok [OF this] show ?thesis by blast
qed

lemma init_means_verified_witness: "\<exists>want d. want = ''a'' \<and> u_user plain_files 0 ''a'' = Inr (JObj d) \<and> dget d ''login'' = JStr want"
proof -
  have "case snd (session_init mock_sys plain_files JNull ''session.init'' one_role fresh_server) of
      Inr a \<Rightarrow> has_key a ''result'' | Inl e \<Rightarrow> False"
    by code_simp
  then obtain s' a where a: "session_init mock_sys plain_files JNull ''session.init'' one_role fresh_server = (s', Inr a)" "has_key a ''result''"
    by (cases "session_init mock_sys plain_files JNull ''session.init'' one_role fresh_server") (auto split: sum.splits)
  have d: "dget one_role ''tokens'' = JObj [(''architect'', JStr ''a'')]" "dget one_role ''roles'' = JObj [(''architect'', JStr ''a'')]"
    "(''architect'', JStr ''a'') \<in> set [(''architect'', JStr ''a'')]"
    by (simp_all add: one_role_def)
  from init_means_verified [OF a d] show ?thesis by (auto simp: str_pairs_def plain_files_def py_str_def)
qed

lemma layout_fails:
  assumes "u_layout W (ticks (rig s)) ''architect'' = Some why"
  shows "store_secrets W tokens oauth s = (s\<lparr>rig := (rig s)\<lparr>ticks := Suc (ticks (rig s))\<rparr>\<rparr>, Inl (Raised why))"
proof -
  have names: "role_names = [''architect'', ''developer'']" by (simp add: role_names_def role_uids_def)
  have "seach (\<lambda>role. smust_not (\<lambda>i. u_layout W i role)) role_names s =
      (s\<lparr>rig := (rig s)\<lparr>ticks := Suc (ticks (rig s))\<rparr>\<rparr>, Inl (Raised why))"
    unfolding names using assms by (simp add: sbind_def smust_not_def must_not_def sdo_def chain_def answer_def throw_def)
  then show ?thesis by (simp add: store_secrets_def sbind_def)
qed

text \<open>An init whose role layout fails keeps the old session open: the configured roles and models are already the new
  ones, no identity was asked for, and the runner still counts as initialized, so it takes turns.\<close>

theorem failed_layout_stays_initialized:
  assumes "initialized s" "u_layout W (ticks (rig s)) ''architect'' = Some why"
    and "dget params ''tokens'' = JObj tokens" "dget params ''roles'' = JObj roles"
    and "dget params ''models'' = JNull" "dget params ''model_credentials'' = JNull"
  shows "\<exists>s'. session_init S W rid meth params s = (s', Inl (Raised why)) \<and> initialized s' \<and> x_roles s' = str_pairs roles \<and>
    x_models s' = []"
proof -
  have objs: "py_or (dget params ''tokens'') (JObj []) = JObj tokens" "py_or (dget params ''roles'') (JObj []) = JObj roles"
    "py_or JNull (JObj []) = JObj []"
    using assms(3,4) by (simp_all add: py_or_def)
  show ?thesis
    unfolding session_init_def Let_def objs assms(5,6)
    by (simp add: sbind_def [of "sget _"] sget_def sbind_def [of "sput _"] sput_def sbind_def [of "store_secrets _ _ _"] layout_fails assms(1,2))
qed

lemma failed_layout_stays_initialized_witness:
  "initialized (fst (session_init mock_sys (plain_files\<lparr>u_layout := \<lambda>i role. Some ''x''\<rparr>) JNull ''session.init'' one_role fresh_server))"
proof -
  have "dget one_role ''tokens'' = JObj [(''architect'', JStr ''a'')]" "dget one_role ''roles'' = JObj [(''architect'', JStr ''a'')]"
    "dget one_role ''models'' = JNull" "dget one_role ''model_credentials'' = JNull" "initialized fresh_server"
    "u_layout (plain_files\<lparr>u_layout := \<lambda>i role. Some ''x''\<rparr>) (ticks (rig fresh_server)) ''architect'' = Some ''x''"
    by (simp_all add: one_role_def fresh_server_def)
  from failed_layout_stays_initialized [OF this(5,6,1-4)] show ?thesis by (metis fst_conv)
qed

section \<open>Teardowns\<close>

definition same_signals :: "server \<Rightarrow> server \<Rightarrow> bool" where
  "same_signals s s' \<longleftrightarrow> signalled (rig s') = signalled (rig s) \<and> registered s' = registered s"

lemma wipes_quiet: "\<exists>s'. seach (wipe_role W) rs s = (s', Inr ()) \<and> same_signals s s'"
proof (induction rs arbitrary: s)
  case (Cons r rs)
  obtain s1 where s1: "wipe_role W r s = (s1, Inr ())" "same_signals s s1"
    by (cases "u_wipe W (ticks (rig s)) r = 0")
       (auto simp: wipe_role_def sbind_def sdo_def answer_def sprovided_def sput_def sgive_def same_signals_def)
  obtain s2 where "seach (wipe_role W) rs s1 = (s2, Inr ())" "same_signals s1 s2" using Cons by blast
  with s1 show ?case by (auto simp: sbind_def same_signals_def)
qed (simp add: sgive_def same_signals_def)

lemma teardown_empties:
  assumes "session_teardown S W rid s = (s', Inr a)"
  shows "registered s' = []"
proof -
  obtain s1 s2 s3 s4 where "sput (\<lambda>s. s\<lparr>registered := []\<rparr>) s1 = (s2, Inr ())" "seach (wipe_role W) role_names s2 = (s3, Inr ())"
    "sput (\<lambda>s. s\<lparr>initialized := False\<rparr>) s3 = (s4, Inr ())" "s' = s4"
    using assms unfolding session_teardown_def by (auto dest!: sbind_Inr simp: sgive_def)
  moreover from this have "same_signals s2 s3" using wipes_quiet [of W role_names s2] by auto
  ultimately show ?thesis by (auto simp: sput_def same_signals_def)
qed

text \<open>C33: a teardown that could not kill a CLI forgets it all the same: asked again, the runner signals nobody and reports
  that the session is torn down, although the CLI may still run.\<close>

theorem failed_teardown_then_ok:
  assumes "session_teardown S W rid s = (s1, Inr (reply_err rid (-32003) why))"
  shows "\<exists>s2. session_teardown S W rid' s1 = (s2, Inr (reply_ok rid' [(''torn_down'', JBool True)])) \<and>
    signalled (rig s2) = signalled (rig s1)"
proof -
  have empty: "registered s1 = []" using teardown_empties [OF assms] .
  obtain s2 where "seach (wipe_role W) role_names (s1\<lparr>registered := []\<rparr>) = (s2, Inr ())" "same_signals (s1\<lparr>registered := []\<rparr>) s2"
    using wipes_quiet by blast
  with empty show ?thesis
    by (simp add: session_teardown_def sbind_def sget_def sput_def sgive_def same_signals_def)
qed

lemma failed_teardown_then_ok_witness:
  "snd (session_teardown (plain_sys\<lparr>y_killpg := \<lambda>i g sig. 1\<rparr>) plain_files JNull
     (fst (session_teardown (plain_sys\<lparr>y_killpg := \<lambda>i g sig. 1\<rparr>) plain_files JNull
       (fresh_server\<lparr>registered := [(''developer'', running_cli)]\<rparr>)))) = Inr (reply_ok JNull [(''torn_down'', JBool True)])"
proof -
  let ?S = "plain_sys\<lparr>y_killpg := \<lambda>i g sig. 1\<rparr>" and ?s = "fresh_server\<lparr>registered := [(''developer'', running_cli)]\<rparr>"
  have "snd (session_teardown ?S plain_files JNull ?s) = Inr (reply_err JNull (-32003)
      ''teardown could not kill held CLIs: developer: killpg(42, 15) as uid 1001 failed: errno 1 (EPERM)'')"
    by code_simp
  then obtain s1 where "session_teardown ?S plain_files JNull ?s = (s1, Inr (reply_err JNull (-32003)
      ''teardown could not kill held CLIs: developer: killpg(42, 15) as uid 1001 failed: errno 1 (EPERM)''))"
    by (metis prod.collapse)
  from failed_teardown_then_ok [OF this] this show ?thesis by (metis fst_conv snd_conv)
qed

end
