(* ===== verification/Gc.thy ===== *)
theory Gc
  imports Store_Facts Gitops_Names Config Snapshot
begin

text \<open>
  The hourly garbage collection (\<open>agentd/src/agentd/gc.py\<close>): one pass over archives, session directories,
  worktrees, the ledger, the containers and the clones, and the thread that runs passes.  What the file
  system, git and docker answer is a parameter and does not change during a pass; a pass does its own
  writes and deletions only.
\<close>

section \<open>The outside\<close>

text \<open>A listing that raises is None, as are a \<open>stat\<close> and a \<open>resolve\<close> that raise; \<open>o_keeps\<close> says that \<open>unlink\<close>
  of a path raises.\<close>

record outside =
  o_now :: int
  o_root :: string
  o_is_dir :: "string \<Rightarrow> bool"
  o_is_file :: "string \<Rightarrow> bool"
  o_exists :: "string \<Rightarrow> bool"
  o_names :: "string \<Rightarrow> string list option"
  o_mtime :: "string \<Rightarrow> int option"
  o_resolve :: "string \<Rightarrow> string option"
  o_git :: "string \<Rightarrow> string list \<Rightarrow> int \<times> string"
  o_keeps :: "string \<Rightarrow> bool"
  o_docker :: "string list \<Rightarrow> int \<times> string"
  o_json :: "string \<Rightarrow> json exc"
  o_lock :: bool

definition under :: "string \<Rightarrow> string \<Rightarrow> string" where
  "under d n = d @ ''/'' @ n"

definition resolved :: "outside \<Rightarrow> string \<Rightarrow> string" where
  "resolved W p = (case o_resolve W p of None \<Rightarrow> p | Some q \<Rightarrow> q)"

section \<open>Clones and scratch directories\<close>

text \<open>\<open>any(path.iterdir())\<close> of a listing that raises is read as a directory that is not empty.\<close>

definition scratch_dir_cleared :: "outside \<Rightarrow> string \<Rightarrow> bool" where
  "scratch_dir_cleared W ref \<longleftrightarrow> \<not> o_exists W ref \<or> (o_is_dir W ref \<and> o_names W ref = Some [])"

definition git_answers_for :: "outside \<Rightarrow> string \<Rightarrow> bool" where
  "git_answers_for W clone =
     (case o_git W clone [''rev-parse'', ''--show-toplevel''] of
        (rc, text) \<Rightarrow> rc = 0 \<and> py_strip text \<noteq> [] \<and> resolved W (py_strip text) = resolved W clone)"

definition local_branch_gone :: "outside \<Rightarrow> string \<Rightarrow> string \<Rightarrow> bool" where
  "local_branch_gone W clone branch =
     (if branch = [] then False
      else if \<not> o_exists W clone then False
      else if \<not> o_exists W (under clone ''.git'') \<and> \<not> o_exists W (under clone ''HEAD'') then False
      else if \<not> git_answers_for W clone then False
      else (case o_git W clone [''branch'', ''--list'', branch] of (rc, text) \<Rightarrow> rc = 0 \<and> py_strip text = []))"

section \<open>Listings of docker and git\<close>

record found_container =
  k_id :: string
  k_name :: string
  k_labels :: dict
  k_running :: bool

text \<open>The lines of \<open>docker ps\<close>: id, name and state.\<close>

definition ps_rows :: "string \<Rightarrow> (string \<times> string \<times> string) list" where
  "ps_rows text =
     concat (map (\<lambda>l. case map py_strip (split_on CHR 0x09 [] l) of
         cid # name # state # _ \<Rightarrow> if cid = [] then [] else [(cid, name, state)]
       | _ \<Rightarrow> []) (splitlines False [] text))"

definition foreign_container :: "(string \<times> string \<times> string) list \<Rightarrow> json \<Rightarrow> found_container exc" where
  "foreign_container rows j =
     bind_exc (as_obj j) (\<lambda>d. bind_exc (sub_obj d ''Config'') (\<lambda>conf. bind_exc (sub_obj conf ''Labels'') (\<lambda>labels.
     bind_exc (sub_obj d ''State'') (\<lambda>state.
       let cid = take 12 (str_or_empty (dget d ''Id''));
           name = (case map_of (rev rows) cid of None \<Rightarrow> [] | Some (n, _) \<Rightarrow> n) in
       Inr \<lparr>k_id = str_or_empty (py_or (dget d ''Id'') (JStr cid)),
            k_name = (if name = [] then dropWhile (\<lambda>c. c = CHR ''/'') (str_or_empty (dget d ''Name'')) else name),
            k_labels = labels, k_running = truthy (dget state ''Running'')\<rparr>))))"

definition ps_format :: string where
  "ps_format = join [CHR 0x09] [''{{.ID}}'', ''{{.Names}}'', ''{{.State}}'']"

definition list_managed_and_foreign_containers :: "outside \<Rightarrow> found_container list exc" where
  "list_managed_and_foreign_containers W =
     (let (rc, text) = o_docker W [''ps'', ''-a'', ''--format'', ps_format]; rows = ps_rows text in
      if rc \<noteq> 0 then Inl ''docker ps failed''
      else if rows = [] then Inr []
      else (let (rc2, text2) = o_docker W (''inspect'' # map fst rows) in
            if rc2 \<noteq> 0 then Inl ''docker inspect failed''
            else bind_exc (o_json W (if text2 = [] then ''[]'' else text2)) (\<lambda>data. bind_exc (py_list data)
                   (collect (\<lambda>j. bind_exc (foreign_container rows j) (\<lambda>c. Inr [c]))))))"

definition is_managed :: "found_container \<Rightarrow> bool" where
  "is_managed c \<longleftrightarrow> str_or_empty (dget (k_labels c) ''agentd.managed'') = ''true''"

text \<open>\<open>_git_worktree_list\<close>.\<close>

definition git_worktree_list :: "outside \<Rightarrow> string \<Rightarrow> string list" where
  "git_worktree_list W clone =
     (case o_git W clone [''worktree'', ''list'', ''--porcelain''] of
        (rc, text) \<Rightarrow>
          if rc \<noteq> 0 then []
          else map (drop (length ''worktree '')) (filter (\<lambda>l. starts_with l ''worktree '') (splitlines False [] text)))"

section \<open>A pass\<close>

record owned_container =
  w_name :: string
  w_id :: string
  w_project :: string
  w_running :: bool
  w_owner :: string

text \<open>The store, what the pass did to the disk, and its report.\<close>

record pass =
  g_store :: store
  g_unlinked :: "string list"
  g_collected :: "string list"
  archives_expired :: "string list"
  tmps_expired :: "string list"
  residue :: "string list"
  orphans :: "(string \<times> string) list"
  ledger_stale :: "(string \<times> string) list"
  containers :: "owned_container list"
  git_gc :: "string option list"

definition first_pass :: "store \<Rightarrow> pass" where
  "first_pass st =
     \<lparr>g_store = st, g_unlinked = [], g_collected = [], archives_expired = [], tmps_expired = [], residue = [], orphans = [],
      ledger_stale = [], containers = [], git_gc = []\<rparr>"

text \<open>A step of a pass; Some is the exception that ends it.\<close>

type_synonym gc_step = "pass \<Rightarrow> pass \<times> string option"

definition nothing :: gc_step where
  "nothing p = (p, None)"

definition noting :: "(pass \<Rightarrow> pass) \<Rightarrow> gc_step" where
  "noting f p = (f p, None)"

definition and_then :: "gc_step \<Rightarrow> gc_step \<Rightarrow> gc_step" where
  "and_then m n p = (case m p of (p', None) \<Rightarrow> n p' | (p', Some e) \<Rightarrow> (p', Some e))"

fun each_of :: "('x \<Rightarrow> gc_step) \<Rightarrow> 'x list \<Rightarrow> gc_step" where
  "each_of f [] = nothing"
| "each_of f (x # xs) = and_then (f x) (each_of f xs)"

definition each_name :: "outside \<Rightarrow> string \<Rightarrow> (string \<Rightarrow> gc_step) \<Rightarrow> gc_step" where
  "each_name W d f = (case o_names W d of None \<Rightarrow> (\<lambda>p. (p, Some ''OSError'')) | Some ns \<Rightarrow> each_of f ns)"

definition unlink :: "outside \<Rightarrow> string \<Rightarrow> gc_step" where
  "unlink W path p = (if o_keeps W path then (p, Some ''OSError'') else (p\<lparr>g_unlinked := g_unlinked p @ [path]\<rparr>, None))"

definition artifact_age_floor_s :: int where "artifact_age_floor_s = 10 * 60"
definition tmp_max_age_s :: int where "tmp_max_age_s = 60 * 60"

subsection \<open>Archives\<close>

definition consider_archive_file :: "outside \<Rightarrow> int \<Rightarrow> bool \<Rightarrow> string \<Rightarrow> string \<Rightarrow> gc_step" where
  "consider_archive_file W retain_s dry name path =
     (case o_mtime W path of
        None \<Rightarrow> nothing
      | Some mtime \<Rightarrow>
          if ends_with name ''.tar.gz.tmp''
          then if tmp_max_age_s \<le> o_now W - mtime
            then and_then (noting (\<lambda>p. p\<lparr>tmps_expired := tmps_expired p @ [path]\<rparr>)) (if dry then nothing else unlink W path)
            else nothing
          else if ends_with name ''.tar.gz'' \<and> retain_s \<le> o_now W - mtime
          then and_then (noting (\<lambda>p. p\<lparr>archives_expired := archives_expired p @ [path]\<rparr>)) (if dry then nothing else unlink W path)
          else nothing)"

text \<open>\<open>glob\<close> finds nothing in a directory it may not read.\<close>

definition archive_entry :: "outside \<Rightarrow> int \<Rightarrow> bool \<Rightarrow> string \<Rightarrow> string \<Rightarrow> gc_step" where
  "archive_entry W retain_s dry d name =
     (let entry = under d name in
      if o_is_file W entry then consider_archive_file W retain_s dry name entry
      else if \<not> o_is_dir W entry then nothing
      else
        (let ns = (case o_names W entry of None \<Rightarrow> [] | Some ns \<Rightarrow> ns);
             found = filter (\<lambda>n. ends_with n ''.tar.gz'') ns @ filter (\<lambda>n. ends_with n ''.tar.gz.tmp'') ns in
         and_then (each_of (\<lambda>n. consider_archive_file W retain_s dry n (under entry n)) found)
           (if found = [] then noting (\<lambda>p. p\<lparr>residue := residue p @ [entry]\<rparr>) else nothing)))"

definition sweep_archive :: "outside \<Rightarrow> dict \<Rightarrow> bool \<Rightarrow> gc_step" where
  "sweep_archive W raw dry =
     (let d = under (o_root W) ''archive'' in
      if \<not> o_is_dir W d then nothing
      else (case archive_days raw of
          None \<Rightarrow> (\<lambda>p. (p, Some ''archive_days''))
        | Some days \<Rightarrow> each_name W d (archive_entry W (days * 86400) dry d)))"

subsection \<open>Session directories and worktrees\<close>

definition issue_session :: "store \<Rightarrow> string \<Rightarrow> int \<Rightarrow> session_row option" where
  "issue_session st proj issue =
     find (\<lambda>s. s_repo s \<noteq> [] \<and> s_issue s \<noteq> 0 \<and> project_dir_name (s_repo s) = proj \<and> s_issue s = issue) (rev (list_sessions st))"

definition old_enough :: "outside \<Rightarrow> string \<Rightarrow> bool" where
  "old_enough W path =
     (case o_mtime W path of None \<Rightarrow> False | Some mtime \<Rightarrow> artifact_age_floor_s \<le> o_now W - mtime)"

definition session_dir :: "outside \<Rightarrow> store \<Rightarrow> string \<Rightarrow> string \<Rightarrow> string \<Rightarrow> gc_step" where
  "session_dir W st proj d name =
     (let child = under d name in
      if \<not> o_is_dir W child \<or> name = [] \<or> \<not> list_all is_digit name then nothing
      else (case issue_session st proj (the (digits_val 0 False name)) of
          None \<Rightarrow> if old_enough W child then noting (\<lambda>p. p\<lparr>orphans := orphans p @ [(child, ''absent'')]\<rparr>) else nothing
        | Some s \<Rightarrow>
            if s_state s \<noteq> CLOSED then nothing
            else if old_enough W child then noting (\<lambda>p. p\<lparr>orphans := orphans p @ [(child, ''CLOSED'')]\<rparr>) else nothing))"

definition sweep_session_dirs :: "outside \<Rightarrow> gc_step" where
  "sweep_session_dirs W p =
     (let d = under (o_root W) ''projects''; st = g_store p in
      if \<not> o_is_dir W d then (p, None)
      else each_name W d (\<lambda>proj.
        let sess = under (under d proj) ''sessions'' in
        if \<not> o_is_dir W (under d proj) \<or> \<not> o_is_dir W sess then nothing
        else each_name W sess (session_dir W st proj sess)) p)"

definition ledger_refs :: "outside \<Rightarrow> store \<Rightarrow> string list" where
  "ledger_refs W st =
     concat (map (\<lambda>s. if session_key s = [] then [] else
       concat (map (\<lambda>a. if a_kind a \<noteq> ''worktree'' \<or> a_ref a = [] then []
           else a_ref a # (case o_resolve W (a_ref a) of None \<Rightarrow> [] | Some q \<Rightarrow> [q]))
         (list_artifacts (session_key s) True st))) (list_sessions st))"

definition worktree_at :: "outside \<Rightarrow> string list \<Rightarrow> string \<Rightarrow> string \<Rightarrow> gc_step" where
  "worktree_at W ledger clone wt =
     (if resolved W wt = resolved W clone then nothing
      else if wt \<in> set ledger \<or> resolved W wt \<in> set ledger then nothing
      else if old_enough W wt then noting (\<lambda>p. p\<lparr>orphans := orphans p @ [(wt, ''worktree'')]\<rparr>)
      else nothing)"

text \<open>The clones of the sessions, each once.\<close>

fun clones_of :: "outside \<Rightarrow> string list \<Rightarrow> session_row list \<Rightarrow> string list" where
  "clones_of W seen [] = []"
| "clones_of W seen (s # ss) =
     (let clone = shared_clone_path (o_root W) (s_repo s) in
      if s_repo s = [] \<or> resolved W clone \<in> set seen then clones_of W seen ss
      else clone # clones_of W (resolved W clone # seen) ss)"

definition sweep_worktrees :: "outside \<Rightarrow> gc_step" where
  "sweep_worktrees W p =
     (let ledger = ledger_refs W (g_store p) in
      each_of (\<lambda>clone. if \<not> o_exists W clone then nothing else each_of (worktree_at W ledger clone) (git_worktree_list W clone))
        (clones_of W [] (list_sessions (g_store p))) p)"

subsection \<open>The ledger\<close>

definition ledger_row_is_stale :: "outside \<Rightarrow> string \<Rightarrow> string \<Rightarrow> string option \<Rightarrow> bool" where
  "ledger_row_is_stale W kind ref clone =
     (if kind = ''branch'' then (case clone of None \<Rightarrow> False | Some c \<Rightarrow> local_branch_gone W c ref)
      else if kind = ''scratch'' then scratch_dir_cleared W ref
      else if kind = ''worktree'' then \<not> o_exists W ref
      else False)"

definition ledger_row :: "outside \<Rightarrow> bool \<Rightarrow> session_row \<Rightarrow> artifact_row \<Rightarrow> gc_step" where
  "ledger_row W dry s a =
     (let clone = (if s_repo s = [] then None else Some (shared_clone_path (o_root W) (s_repo s))) in
      if \<not> ledger_row_is_stale W (a_kind a) (a_ref a) clone then nothing
      else if a_created a \<le> 0 \<or> o_now W - a_created a < artifact_age_floor_s then nothing
      else and_then (noting (\<lambda>p. p\<lparr>ledger_stale := ledger_stale p @ [(a_ref a, a_kind a)]\<rparr>))
        (if dry then nothing
         else noting (\<lambda>p. p\<lparr>g_store := fst (mark_artifact_removed (o_now W) (session_key s) (a_ref a) (Some (a_kind a))
                (Some (o_now W)) (g_store p))\<rparr>)))"

definition sweep_ledger :: "outside \<Rightarrow> bool \<Rightarrow> gc_step" where
  "sweep_ledger W dry p =
     each_of (\<lambda>s p. if session_key s = [] then (p, None)
         else each_of (ledger_row W dry s) (list_artifacts (session_key s) True (g_store p)) p)
       (list_sessions (g_store p)) p"

subsection \<open>Containers and clones\<close>

definition container_owner :: "store \<Rightarrow> string \<Rightarrow> bool \<Rightarrow> string" where
  "container_owner st project running =
     (if project = [] \<or> \<not> is_live_project project st \<or> get_runner project st = None then ''unowned''
      else if running then ''live'' else ''live-cold'')"

definition sweep_containers :: "outside \<Rightarrow> gc_step" where
  "sweep_containers W p =
     (case list_managed_and_foreign_containers W of
        Inl _ \<Rightarrow> (p, None)
      | Inr raw \<Rightarrow> (p\<lparr>containers := containers p @ map (\<lambda>c.
          let project = str_or_empty (dget (k_labels c) ''agentd.project'') in
          \<lparr>w_name = k_name c, w_id = k_id c, w_project = project, w_running = k_running c,
           w_owner = container_owner (g_store p) project (k_running c)\<rparr>) (filter is_managed raw)\<rparr>, None))"

text \<open>\<open>_maybe_git_gc\<close>: \<open>list_sessions\<close> reads no project key, so a repository is its own project.\<close>

definition gc_clone :: "outside \<Rightarrow> bool \<Rightarrow> string \<Rightarrow> gc_step" where
  "gc_clone W dry repo p =
     (let clone = shared_clone_path (o_root W) repo in
      if \<not> o_exists W (under clone ''.git'') \<and> \<not> o_is_dir W clone then (p, None)
      else if is_live_project repo (g_store p) then (p, None)
      else (p\<lparr>git_gc := git_gc p @ [Some repo], g_collected := g_collected p @ (if dry then [] else [repo])\<rparr>, None))"

definition maybe_git_gc :: "outside \<Rightarrow> bool \<Rightarrow> gc_step" where
  "maybe_git_gc W dry p =
     (if \<not> o_lock W then (p\<lparr>git_gc := git_gc p @ [None]\<rparr>, None)
      else each_of (gc_clone W dry) (filter (\<lambda>r. r \<noteq> []) (rev (remdups (rev (map s_repo (list_sessions (g_store p))))))) p)"

definition collect_once :: "outside \<Rightarrow> dict \<Rightarrow> bool \<Rightarrow> store \<Rightarrow> pass \<times> string option" where
  "collect_once W raw dry st =
     and_then (sweep_archive W raw dry) (and_then (sweep_session_dirs W) (and_then (sweep_worktrees W)
       (and_then (sweep_ledger W dry) (and_then (sweep_containers W) (maybe_git_gc W dry))))) (first_pass st)"

section \<open>The thread\<close>

text \<open>\<open>_loop\<close>: where it is, the two events, and whether a signal came since the last pass was begun.\<close>

datatype gc_place = At_top | At_clear | At_pass | In_pass | In_wait | Left

record gc_thread =
  place :: gc_place
  stopping :: bool
  nudged :: bool
  wanted :: bool

definition started :: gc_thread where
  "started = \<lparr>place = At_top, stopping = False, nudged = False, wanted = False\<rparr>"

inductive gc_move :: "gc_thread \<Rightarrow> gc_thread \<Rightarrow> bool" where
  signal: "gc_move t (t\<lparr>nudged := True, wanted := True\<rparr>)"
| stop: "gc_move t (t\<lparr>stopping := True\<rparr>)"
| top: "place t = At_top \<Longrightarrow> gc_move t (t\<lparr>place := if stopping t then Left else At_clear\<rparr>)"
| clear: "place t = At_clear \<Longrightarrow> gc_move t (t\<lparr>place := At_pass, nudged := False\<rparr>)"
| begin_pass: "place t = At_pass \<Longrightarrow> gc_move t (t\<lparr>place := In_pass, wanted := False\<rparr>)"
| pass: "place t = In_pass \<Longrightarrow> gc_move t (t\<lparr>place := In_wait\<rparr>)"
| woken: "place t = In_wait \<Longrightarrow> nudged t \<Longrightarrow> gc_move t (t\<lparr>place := if stopping t then Left else At_top\<rparr>)"
| timed_out: "place t = In_wait \<Longrightarrow> gc_move t (t\<lparr>place := if stopping t then Left else At_top\<rparr>)"

inductive_cases gc_moveE: "gc_move t t'"

definition gc_reach :: "gc_thread \<Rightarrow> bool" where
  "gc_reach t \<longleftrightarrow> rtranclp gc_move started t"

end
