(* ===== verification/Gc_Facts.thy ===== *)
theory Gc_Facts
  imports Gc
begin

text \<open>
  What a garbage collection pass may destroy: only expired archive files, only ledger rows whose artifact is
  gone, only the clones of projects without a live session; a dry run destroys nothing; and a signal to
  the thread is never lost.
\<close>

section \<open>Frames\<close>

named_theorems frame_rules \<open>steps of a pass that keep a relation\<close>

definition keeps_to :: "(pass \<Rightarrow> pass \<Rightarrow> bool) \<Rightarrow> gc_step \<Rightarrow> bool" where
  "keeps_to R m \<longleftrightarrow> (\<forall>p. R p (fst (m p)))"

locale pass_frame =
  fixes R :: "pass \<Rightarrow> pass \<Rightarrow> bool"
  assumes R_refl: "R p p"
    and R_trans: "R p q \<Longrightarrow> R q r \<Longrightarrow> R p r"
    and R_report: "R p (p\<lparr>archives_expired := a\<rparr>)" "R p (p\<lparr>tmps_expired := t\<rparr>)" "R p (p\<lparr>residue := x\<rparr>)"
      "R p (p\<lparr>orphans := y\<rparr>)" "R p (p\<lparr>ledger_stale := z\<rparr>)" "R p (p\<lparr>containers := c\<rparr>)" "R p (p\<lparr>git_gc := g\<rparr>)"
begin

lemma keeps_basic [frame_rules]: "keeps_to R nothing" "keeps_to R (\<lambda>p. (p, e))"
  by (simp_all add: keeps_to_def nothing_def R_refl)

lemma keeps_noting [frame_rules]:
  "keeps_to R (noting (\<lambda>p. p\<lparr>archives_expired := a p\<rparr>))" "keeps_to R (noting (\<lambda>p. p\<lparr>tmps_expired := t p\<rparr>))"
  "keeps_to R (noting (\<lambda>p. p\<lparr>residue := x p\<rparr>))" "keeps_to R (noting (\<lambda>p. p\<lparr>orphans := y p\<rparr>))"
  "keeps_to R (noting (\<lambda>p. p\<lparr>ledger_stale := z p\<rparr>))"
  by (simp_all add: keeps_to_def noting_def R_report)

lemma keeps_then [frame_rules]: "keeps_to R m \<Longrightarrow> keeps_to R n \<Longrightarrow> keeps_to R (and_then m n)"
  by (auto simp: keeps_to_def and_then_def split: prod.splits option.splits) (metis R_trans fst_conv)+

lemma keeps_if [frame_rules]: "(b \<Longrightarrow> keeps_to R m) \<Longrightarrow> (\<not> b \<Longrightarrow> keeps_to R n) \<Longrightarrow> keeps_to R (if b then m else n)"
  by simp

lemma keeps_option [frame_rules]:
  "(x = None \<Longrightarrow> keeps_to R m) \<Longrightarrow> (\<And>y. x = Some y \<Longrightarrow> keeps_to R (f y)) \<Longrightarrow> keeps_to R (case x of None \<Rightarrow> m | Some y \<Rightarrow> f y)"
  by (cases x) auto

lemma keeps_each [frame_rules]: "(\<And>x. x \<in> set xs \<Longrightarrow> keeps_to R (f x)) \<Longrightarrow> keeps_to R (each_of f xs)"
  by (induction xs) (auto intro!: frame_rules)

lemma keeps_names [frame_rules]: "(\<And>n. keeps_to R (f n)) \<Longrightarrow> keeps_to R (each_name W d f)"
  unfolding each_name_def by (intro frame_rules)

lemma keeps_session_dirs: "keeps_to R (sweep_session_dirs W)"
proof -
  define look where "look st = (let d = under (o_root W) ''projects'' in each_name W d (\<lambda>proj.
      let sess = under (under d proj) ''sessions'' in
      if \<not> o_is_dir W (under d proj) \<or> \<not> o_is_dir W sess then nothing else each_name W sess (session_dir W st proj sess)))" for st
  have "keeps_to R (look st)" for st
    unfolding look_def Let_def session_dir_def by (intro frame_rules)
  moreover have "sweep_session_dirs W p = (if \<not> o_is_dir W (under (o_root W) ''projects'') then (p, None) else look (g_store p) p)" for p
    unfolding sweep_session_dirs_def look_def Let_def by (rule refl)
  ultimately show ?thesis by (simp add: keeps_to_def R_refl)
qed

lemma keeps_worktrees: "keeps_to R (sweep_worktrees W)"
proof -
  have "keeps_to R (each_of (\<lambda>clone. if \<not> o_exists W clone then nothing
      else each_of (worktree_at W ledger clone) (git_worktree_list W clone)) cs)" for ledger cs
    unfolding worktree_at_def by (intro frame_rules)
  then show ?thesis by (simp add: sweep_worktrees_def Let_def keeps_to_def)
qed

lemma keeps_containers: "keeps_to R (sweep_containers W)"
  by (auto simp: sweep_containers_def keeps_to_def R_refl R_report split: sum.split)

lemma keeps_archive:
  assumes "\<And>d name. \<not> dry \<Longrightarrow> keeps_to R (unlink W (under d name))"
  shows "keeps_to R (sweep_archive W raw dry)"
  unfolding sweep_archive_def archive_entry_def consider_archive_file_def Let_def
  by (intro frame_rules assms)

lemma keeps_pass:
  assumes "keeps_to R (sweep_archive W raw dry)" "keeps_to R (sweep_ledger W dry)" "keeps_to R (maybe_git_gc W dry)"
  shows "R (first_pass st) (fst (collect_once W raw dry st))"
proof -
  have "keeps_to R (and_then (sweep_archive W raw dry) (and_then (sweep_session_dirs W) (and_then (sweep_worktrees W)
      (and_then (sweep_ledger W dry) (and_then (sweep_containers W) (maybe_git_gc W dry))))))"
    by (intro frame_rules assms keeps_session_dirs keeps_worktrees keeps_containers)
  then show ?thesis by (simp add: keeps_to_def collect_once_def)
qed

end

section \<open>Deletions\<close>

text \<open>An archive file the pass may delete: in the archive or one directory below, and old enough for its name.\<close>

definition expired :: "outside \<Rightarrow> int \<Rightarrow> string \<Rightarrow> bool" where
  "expired W days path \<longleftrightarrow>
     (\<exists>d name mtime. path = under d name \<and> o_mtime W path = Some mtime \<and>
        (d = under (o_root W) ''archive'' \<or> (\<exists>e. d = under (under (o_root W) ''archive'') e)) \<and>
        (if ends_with name ''.tar.gz.tmp'' then 3600 \<le> o_now W - mtime
         else ends_with name ''.tar.gz'' \<and> days * 86400 \<le> o_now W - mtime))"

definition only_expired :: "outside \<Rightarrow> dict \<Rightarrow> pass \<Rightarrow> pass \<Rightarrow> bool" where
  "only_expired W raw p q \<longleftrightarrow>
     (\<exists>new. g_unlinked q = g_unlinked p @ new \<and> list_all (\<lambda>x. \<exists>days. archive_days raw = Some days \<and> expired W days x) new)"

interpretation old_files: pass_frame "only_expired W raw" for W raw
proof (unfold_locales, goal_cases)
  case (2 p q r)
  then obtain n1 n2 where n: "g_unlinked q = g_unlinked p @ n1" "g_unlinked r = g_unlinked q @ n2"
    "list_all (\<lambda>x. \<exists>days. archive_days raw = Some days \<and> expired W days x) n1"
    "list_all (\<lambda>x. \<exists>days. archive_days raw = Some days \<and> expired W days x) n2"
    unfolding only_expired_def by blast
  then show ?case unfolding only_expired_def by (intro exI [of _ "n1 @ n2"]) simp
qed (auto simp: only_expired_def)

lemma unlink_expired: "archive_days raw = Some days \<Longrightarrow> expired W days x \<Longrightarrow> keeps_to (only_expired W raw) (unlink W x)"
  by (auto simp: keeps_to_def unlink_def only_expired_def)

lemma archive_expired: "keeps_to (only_expired W raw) (sweep_archive W raw dry)"
proof -
  let ?d = "under (o_root W) ''archive''"
  have one: "keeps_to (only_expired W raw) (consider_archive_file W (days * 86400) dry name (under d name))"
    if "archive_days raw = Some days" "d = ?d \<or> (\<exists>e. d = under ?d e)" for days d name
  proof -
    have "keeps_to (only_expired W raw) (unlink W (under d name))"
      if "o_mtime W (under d name) = Some mtime" "if ends_with name ''.tar.gz.tmp'' then tmp_max_age_s \<le> o_now W - mtime
          else ends_with name ''.tar.gz'' \<and> days * 86400 \<le> o_now W - mtime" for mtime
    proof (rule unlink_expired)
      show "archive_days raw = Some days" by fact
      have "tmp_max_age_s = 3600" by (simp add: tmp_max_age_s_def)
      then show "expired W days (under d name)"
        unfolding expired_def using that \<open>d = ?d \<or> (\<exists>e. d = under ?d e)\<close> by (intro exI [of _ d] exI [of _ name] exI [of _ mtime]) simp
    qed
    then show ?thesis unfolding consider_archive_file_def by (intro frame_rules) auto
  qed
  then show ?thesis
    unfolding sweep_archive_def archive_entry_def Let_def by (intro frame_rules) blast+
qed

lemma ledger_step_keeps:
  assumes "\<And>s a. s \<in> set (sessions (g_store p)) \<Longrightarrow> session_key s \<noteq> [] \<Longrightarrow> keeps_to R (ledger_row W dry s a)"
    and "pass_frame R"
  shows "R p (fst (sweep_ledger W dry p))"
proof -
  have "keeps_to R (\<lambda>q. if session_key s = [] then (q, None)
      else each_of (ledger_row W dry s) (list_artifacts (session_key s) True (g_store q)) q)" if "s \<in> set (sessions (g_store p))" for s
  proof -
    have "keeps_to R (each_of (ledger_row W dry s) xs)" if "session_key s \<noteq> []" for xs
      using assms(1) [OF \<open>s \<in> _\<close> that] by (intro pass_frame.keeps_each [OF assms(2)])
    then show ?thesis using pass_frame.R_refl [OF assms(2)] by (simp add: keeps_to_def)
  qed
  then have "keeps_to R (each_of (\<lambda>s q. if session_key s = [] then (q, None)
      else each_of (ledger_row W dry s) (list_artifacts (session_key s) True (g_store q)) q) (list_sessions (g_store p)))"
    by (intro pass_frame.keeps_each [OF assms(2)]) (simp add: list_sessions_def)
  then show ?thesis by (simp add: sweep_ledger_def keeps_to_def)
qed

lemma gc_clones_keep: "(\<And>repo. keeps_to R (gc_clone W dry repo)) \<Longrightarrow> pass_frame R \<Longrightarrow> keeps_to R (maybe_git_gc W dry)"
proof -
  assume one: "\<And>repo. keeps_to R (gc_clone W dry repo)" and R: "pass_frame R"
  have "keeps_to R (each_of (gc_clone W dry) rs)" for rs by (rule pass_frame.keeps_each [OF R one])
  then show ?thesis using pass_frame.R_report(7) [OF R] by (simp add: keeps_to_def maybe_git_gc_def)
qed

text \<open>Garbage collection deletes only files of the archive that are past their time: a tarball older than the
  configured retention, or a half-written one older than an hour, in the archive or one directory below it.\<close>

theorem gc_deletes_only_expired:
  "list_all (\<lambda>path. \<exists>days. archive_days raw = Some days \<and> expired W days path) (g_unlinked (fst (collect_once W raw dry st)))"
proof -
  have "keeps_to (only_expired W raw) (ledger_row W dry s a)" "keeps_to (only_expired W raw) (gc_clone W dry repo)" for s a repo
    by (auto simp: keeps_to_def ledger_row_def gc_clone_def only_expired_def Let_def nothing_def noting_def and_then_def)
  then have "only_expired W raw (first_pass st) (fst (collect_once W raw dry st))"
    by (intro old_files.keeps_pass archive_expired gc_clones_keep old_files.pass_frame_axioms)
       (simp add: keeps_to_def ledger_step_keeps old_files.pass_frame_axioms)
  then show ?thesis by (auto simp: only_expired_def first_pass_def)
qed

section \<open>Dry runs\<close>

definition undisturbed :: "pass \<Rightarrow> pass \<Rightarrow> bool" where
  "undisturbed p q \<longleftrightarrow> g_store q = g_store p \<and> g_unlinked q = g_unlinked p \<and> g_collected q = g_collected p"

interpretation dry_run: pass_frame undisturbed
  by unfold_locales (simp_all add: undisturbed_def)

text \<open>A dry run of the garbage collection only reports: the store is what it was, no file is deleted and no
  clone is collected.\<close>

theorem dry_gc_is_pure:
  "g_store (fst (collect_once W raw True st)) = st \<and> g_unlinked (fst (collect_once W raw True st)) = [] \<and>
   g_collected (fst (collect_once W raw True st)) = []"
proof -
  have "keeps_to undisturbed (ledger_row W True s a)" "keeps_to undisturbed (gc_clone W True repo)" for s a repo
    by (auto simp: keeps_to_def ledger_row_def gc_clone_def undisturbed_def Let_def nothing_def noting_def and_then_def)
  then have "undisturbed (first_pass st) (fst (collect_once W raw True st))"
    by (intro dry_run.keeps_pass dry_run.keeps_archive gc_clones_keep dry_run.pass_frame_axioms)
       (simp_all add: keeps_to_def ledger_step_keeps dry_run.pass_frame_axioms)
  then show ?thesis by (simp add: undisturbed_def first_pass_def)
qed

section \<open>The ledger\<close>

text \<open>
  What gone means for a row: git, answering for the session's own clone and not for one above it, lists no
  such branch; the scratch directory is missing or empty; the worktree is missing.
\<close>

definition seen_gone :: "outside \<Rightarrow> session_row \<Rightarrow> artifact_row \<Rightarrow> bool" where
  "seen_gone W s a \<longleftrightarrow>
     (let clone = shared_clone_path (o_root W) (s_repo s); top = o_git W clone [''rev-parse'', ''--show-toplevel''];
          listed = o_git W clone [''branch'', ''--list'', a_ref a] in
      (a_kind a = ''branch'' \<and> s_repo s \<noteq> [] \<and> o_exists W clone \<and> fst top = 0 \<and>
         resolved W (py_strip (snd top)) = resolved W clone \<and> fst listed = 0 \<and> py_strip (snd listed) = []) \<or>
      (a_kind a = ''scratch'' \<and> (\<not> o_exists W (a_ref a) \<or> o_names W (a_ref a) = Some [])) \<or>
      (a_kind a = ''worktree'' \<and> \<not> o_exists W (a_ref a)))"

lemma stale_is_gone:
  "ledger_row_is_stale W (a_kind a) (a_ref a) (if s_repo s = [] then None else Some (shared_clone_path (o_root W) (s_repo s))) \<Longrightarrow>
    seen_gone W s a"
  by (auto simp: ledger_row_is_stale_def seen_gone_def local_branch_gone_def git_answers_for_def scratch_dir_cleared_def Let_def
      split: if_splits prod.splits)

text \<open>A row a pass may close: open, its artifact seen to be gone, and entered long enough ago.\<close>

definition reclaimable :: "outside \<Rightarrow> store \<Rightarrow> artifact_row \<Rightarrow> bool" where
  "reclaimable W st a \<longleftrightarrow> a_removed a = None \<and>
     (\<exists>s \<in> set (sessions st). session_key s = a_session a \<and> seen_gone W s a) \<and>
     0 < a_created a \<and> 600 \<le> o_now W - a_created a"

definition closes :: "outside \<Rightarrow> store \<Rightarrow> artifact_row \<Rightarrow> artifact_row \<Rightarrow> bool" where
  "closes W st a b \<longleftrightarrow> b = a \<or> (b = a\<lparr>a_removed := Some (o_now W)\<rparr> \<and> reclaimable W st a)"

definition ledger_from :: "outside \<Rightarrow> store \<Rightarrow> pass \<Rightarrow> bool" where
  "ledger_from W st p \<longleftrightarrow>
     g_store p = st\<lparr>artifacts := artifacts (g_store p)\<rparr> \<and> list_all2 (closes W st) (artifacts st) (artifacts (g_store p))"

definition ledger_kept :: "outside \<Rightarrow> store \<Rightarrow> pass \<Rightarrow> pass \<Rightarrow> bool" where
  "ledger_kept W st p q \<longleftrightarrow> (ledger_from W st p \<longrightarrow> ledger_from W st q)"

interpretation ledger: pass_frame "ledger_kept W st" for W st
  by unfold_locales (simp_all add: ledger_kept_def ledger_from_def)

lemma open_rows_old:
  assumes "ledger_from W st p" "a \<in> set (list_artifacts k True (g_store p))"
  shows "a \<in> set (artifacts st) \<and> a_session a = k \<and> a_removed a = None"
proof -
  have a: "a \<in> set (artifacts (g_store p))" "a_session a = k" "a_removed a = None"
    using assms(2) by (auto simp: list_artifacts_def by_created_def)
  obtain i where "i < length (artifacts (g_store p))" "artifacts (g_store p) ! i = a"
    using a(1) by (auto simp: in_set_conv_nth)
  moreover from this have "i < length (artifacts st)" "closes W st (artifacts st ! i) a"
    using assms(1) by (auto simp: ledger_from_def list_all2_conv_all_nth)
  ultimately show ?thesis using a by (auto simp: closes_def)
qed

lemma only_artifacts: "x = st\<lparr>artifacts := artifacts x\<rparr> \<Longrightarrow> x\<lparr>artifacts := rows\<rparr> = st\<lparr>artifacts := rows\<rparr>"
  by (cases x; cases st) simp

lemma same_open_row:
  assumes "ledger_ok st" "a \<in> set (artifacts st)" "b \<in> set (artifacts st)" "a_removed a = None" "a_removed b = None"
    "a_session a = a_session b" "a_kind a = a_kind b" "a_ref a = a_ref b"
  shows "a = b"
  using assms unfolding ledger_ok_def distinct_map by (auto simp: open_ref_def inj_on_def)

lemma ledger_row_kept:
  assumes ok: "ledger_ok st"
    and "s \<in> set (sessions st)" "a \<in> set (artifacts st) \<and> a_session a = session_key s \<and> a_removed a = None"
  shows "keeps_to (ledger_kept W st) (ledger_row W dry s a)"
proof -
  let ?clone = "if s_repo s = [] then None else Some (shared_clone_path (o_root W) (s_repo s))"
  let ?m = "artifact_matches (session_key s) (a_ref a) (Some (a_kind a))"
  have mark: "keeps_to (ledger_kept W st) (noting (\<lambda>p. p\<lparr>g_store := fst (mark_artifact_removed (o_now W) (session_key s) (a_ref a)
      (Some (a_kind a)) (Some (o_now W)) (g_store p))\<rparr>))"
    if stale: "ledger_row_is_stale W (a_kind a) (a_ref a) ?clone" and old: "0 < a_created a" "600 \<le> o_now W - a_created a"
  proof -
    have kind: "a_kind a \<noteq> []" using stale by (auto simp: ledger_row_is_stale_def split: if_splits)
    have one: "closes W st x (if ?m b then b\<lparr>a_removed := Some (o_now W)\<rparr> else b)"
      if "closes W st x b" "x \<in> set (artifacts st)" for x b
    proof (cases "?m b")
      case True
      then have b: "b = x" "a_removed x = None" "a_session x = session_key s" "a_ref x = a_ref a" "a_kind x = a_kind a"
        using that kind by (auto simp: artifact_matches_def closes_def)
      then have "x = a" using same_open_row [OF ok that(2)] assms(3) by simp
      moreover from b have "seen_gone W s x" using stale by (intro stale_is_gone) simp
      ultimately have "reclaimable W st x" using b assms(2) old unfolding reclaimable_def by metis
      with b True show ?thesis by (simp add: closes_def)
    qed (simp add: that)
    have "list_all2 (closes W st) (artifacts st) (upd_where ?m (\<lambda>b. b\<lparr>a_removed := Some (o_now W)\<rparr>) ys)"
      if "list_all2 (closes W st) (artifacts st) ys" for ys
    proof -
      from that have "list_all2 (\<lambda>x b. closes W st x (if ?m b then b\<lparr>a_removed := Some (o_now W)\<rparr> else b)) (artifacts st) ys"
        by (rule list.rel_mono_strong) (rule one)
      then show ?thesis by (simp only: upd_where_def list_all2_map2)
    qed
    then show ?thesis
      by (auto simp: keeps_to_def noting_def ledger_kept_def ledger_from_def mark_artifact_removed_def intro: only_artifacts)
  qed
  show ?thesis
    unfolding ledger_row_def Let_def
    by (intro frame_rules mark) (auto simp: artifact_age_floor_s_def)
qed

lemma ledger_swept:
  assumes ok: "ledger_ok st"
  shows "keeps_to (ledger_kept W st) (sweep_ledger W dry)"
proof -
  have one: "keeps_to (ledger_kept W st) (\<lambda>q. if session_key s = [] then (q, None)
      else each_of (ledger_row W dry s) (list_artifacts (session_key s) True (g_store q)) q)" if s: "s \<in> set (sessions st)" for s
  proof -
    have "ledger_kept W st q (fst (each_of (ledger_row W dry s) (list_artifacts (session_key s) True (g_store q)) q))" for q
    proof (cases "ledger_from W st q")
      case True
      then have "keeps_to (ledger_kept W st) (each_of (ledger_row W dry s) (list_artifacts (session_key s) True (g_store q)))"
        using open_rows_old ledger_row_kept [OF ok s] by (intro ledger.keeps_each) blast
      then show ?thesis by (simp add: keeps_to_def)
    qed (simp add: ledger_kept_def)
    then show ?thesis by (simp add: keeps_to_def ledger_kept_def)
  qed
  show ?thesis
    unfolding keeps_to_def
  proof
    fix p
    show "ledger_kept W st p (fst (sweep_ledger W dry p))"
    proof (cases "ledger_from W st p")
      case True
      then have "sessions (g_store p) = sessions st" unfolding ledger_from_def by (metis store.select_convs(5) store.surjective store.update_convs(7))
      then have "keeps_to (ledger_kept W st) (each_of (\<lambda>s q. if session_key s = [] then (q, None)
          else each_of (ledger_row W dry s) (list_artifacts (session_key s) True (g_store q)) q) (list_sessions (g_store p)))"
        using one by (intro ledger.keeps_each) (simp add: list_sessions_def)
      then show ?thesis by (simp add: sweep_ledger_def keeps_to_def)
    qed (simp add: ledger_kept_def)
  qed
qed

text \<open>C20: in a ledger whose open rows name different artifacts (which every store call keeps), garbage collection changes
  nothing of the store but the ledger; there it sets only the removal time, and only of rows that were still open, whose own
  branch, scratch directory or worktree was seen to be gone, and that were themselves entered ten minutes ago or more.\<close>

theorem gc_closes_only_gone:
  assumes "ledger_ok st"
  shows "\<exists>rows. g_store (fst (collect_once W raw dry st)) = st\<lparr>artifacts := rows\<rparr> \<and>
    list_all2 (closes W st) (artifacts st) rows"
proof -
  have "keeps_to (ledger_kept W st) (unlink W x)" "keeps_to (ledger_kept W st) (gc_clone W dry repo)" for x repo
    by (auto simp: keeps_to_def unlink_def gc_clone_def ledger_kept_def ledger_from_def Let_def)
  then have "ledger_kept W st (first_pass st) (fst (collect_once W raw dry st))"
    by (intro ledger.keeps_pass ledger.keeps_archive gc_clones_keep ledger_swept assms ledger.pass_frame_axioms)
  moreover have "ledger_from W st (first_pass st)"
    by (simp add: ledger_from_def first_pass_def list.rel_refl closes_def)
  ultimately show ?thesis by (auto simp: ledger_kept_def ledger_from_def)
qed

definition emptied_scratch :: store where
  "emptied_scratch = fst (register_artifact 5 ''o/r#1'' ''developer'' ''scratch'' ''/s/1'' None
     (upsert_session (example_args MERGING) empty_store))"

definition bare_disk :: outside where
  "bare_disk = \<lparr>o_now = 1000, o_root = ''/r'', o_is_dir = (\<lambda>_. False), o_is_file = (\<lambda>_. False), o_exists = (\<lambda>_. False),
     o_names = (\<lambda>_. None), o_mtime = (\<lambda>_. None), o_resolve = (\<lambda>_. None), o_git = (\<lambda>_ _. (1, [])), o_keeps = (\<lambda>_. False),
     o_docker = (\<lambda>_. (1, [])), o_json = (\<lambda>_. Inl []), o_lock = False\<rparr>"

theorem gc_closes_only_gone_witness:
  "\<exists>rows. g_store (fst (collect_once bare_disk [] False emptied_scratch)) = emptied_scratch\<lparr>artifacts := rows\<rparr> \<and>
     list_all2 (closes bare_disk emptied_scratch) (artifacts emptied_scratch) rows"
proof (rule gc_closes_only_gone)
  have "artifacts (upsert_session (example_args MERGING) empty_store) = []"
    by (simp add: upsert_session_def upsert_def empty_store_def)
  then show "ledger_ok emptied_scratch"
    unfolding emptied_scratch_def by (intro ledger_register) (simp add: ledger_ok_def)
qed

section \<open>Clones\<close>

definition idle_clones :: "outside \<Rightarrow> store \<Rightarrow> pass \<Rightarrow> pass \<Rightarrow> bool" where
  "idle_clones W st p q \<longleftrightarrow> (sessions (g_store p) = sessions st \<longrightarrow> sessions (g_store q) = sessions st \<and>
     (\<exists>new. g_collected q = g_collected p @ new \<and> list_all (\<lambda>r. o_lock W \<and> \<not> is_live_project r st) new))"

interpretation clones: pass_frame "idle_clones W st" for W st
proof (unfold_locales, goal_cases)
  case (2 p q r)
  show ?case
    unfolding idle_clones_def
  proof
    assume "sessions (g_store p) = sessions st"
    then obtain n1 n2 where "sessions (g_store q) = sessions st" "sessions (g_store r) = sessions st"
      "g_collected q = g_collected p @ n1" "g_collected r = g_collected q @ n2"
      "list_all (\<lambda>r. o_lock W \<and> \<not> is_live_project r st) n1" "list_all (\<lambda>r. o_lock W \<and> \<not> is_live_project r st) n2"
      using 2 unfolding idle_clones_def by blast
    then show "sessions (g_store r) = sessions st \<and>
        (\<exists>new. g_collected r = g_collected p @ new \<and> list_all (\<lambda>r. o_lock W \<and> \<not> is_live_project r st) new)"
      by (intro conjI exI [of _ "n1 @ n2"]) simp_all
  qed
qed (auto simp: idle_clones_def)

text \<open>\<open>git gc\<close> runs only under the admission lock and never in the clone of a project with a session that is
  not closed.\<close>

theorem git_gc_spares_live:
  "list_all (\<lambda>repo. o_lock W \<and> \<not> is_live_project repo st) (g_collected (fst (collect_once W raw dry st)))"
proof -
  have quiet: "keeps_to (idle_clones W st) (unlink W x)" "keeps_to (idle_clones W st) (ledger_row W dry s a)" for x s a
    by (auto simp: keeps_to_def unlink_def ledger_row_def idle_clones_def Let_def nothing_def noting_def and_then_def
        mark_artifact_removed_def)
  have "keeps_to (idle_clones W st) (maybe_git_gc W dry)"
  proof (cases "o_lock W")
    case True
    then have "keeps_to (idle_clones W st) (gc_clone W dry repo)" for repo
      by (auto simp: keeps_to_def gc_clone_def idle_clones_def Let_def is_live_project_def)
    then show ?thesis by (rule gc_clones_keep) (rule clones.pass_frame_axioms)
  qed (simp add: keeps_to_def maybe_git_gc_def idle_clones_def)
  then have "idle_clones W st (first_pass st) (fst (collect_once W raw dry st))"
    using quiet by (intro clones.keeps_pass clones.keeps_archive)
       (simp_all add: keeps_to_def ledger_step_keeps clones.pass_frame_axioms)
  then show ?thesis by (auto simp: idle_clones_def first_pass_def)
qed

section \<open>The thread\<close>

lemma reach_induct:
  assumes "gc_reach t" "P started" "\<And>t t'. gc_reach t \<Longrightarrow> P t \<Longrightarrow> gc_move t t' \<Longrightarrow> P t'"
  shows "P t"
  using assms(1) unfolding gc_reach_def
  by (induction rule: rtranclp_induct) (use assms(2,3) in \<open>auto simp: gc_reach_def\<close>)

text \<open>C32: a signal is never lost: when one came after the last pass was begun, the waiting thread finds its event set
  and does not sleep until the next hour.\<close>

theorem signal_never_lost:
  assumes "gc_reach t" "place t = In_wait" "wanted t"
  shows "nudged t"
proof -
  have "wanted t \<longrightarrow> nudged t \<or> place t = At_pass"
    by (rule reach_induct [OF assms(1)]) (auto simp: started_def elim!: gc_moveE)
  with assms show ?thesis by simp
qed

lemma reach_step: "gc_reach t \<Longrightarrow> gc_move t t' \<Longrightarrow> gc_reach t'"
  unfolding gc_reach_def by (rule rtranclp.rtrancl_into_rtrancl)

lemma reach_clear: "gc_reach (started\<lparr>place := At_clear\<rparr>)"
proof -
  have "gc_reach started" by (simp add: gc_reach_def)
  from reach_step [OF this gc_move.top] show ?thesis by (simp add: started_def)
qed

lemma signal_never_lost_witness: "nudged (started\<lparr>place := In_wait, nudged := True, wanted := True\<rparr>)"
proof (rule signal_never_lost)
  from reach_step [OF reach_clear gc_move.clear] have "gc_reach (started\<lparr>place := At_pass\<rparr>)" by (simp add: started_def)
  from reach_step [OF this gc_move.begin_pass] have "gc_reach (started\<lparr>place := In_pass\<rparr>)" by (simp add: started_def)
  from reach_step [OF this gc_move.signal] have "gc_reach (started\<lparr>place := In_pass, nudged := True, wanted := True\<rparr>)"
    by (simp add: started_def)
  from reach_step [OF this gc_move.pass] show "gc_reach (started\<lparr>place := In_wait, nudged := True, wanted := True\<rparr>)"
    by (simp add: started_def)
qed simp_all

text \<open>What the source admits: a stop that comes just before the event is cleared leaves the thread asleep.\<close>

lemma stop_may_sleep: "\<exists>t. gc_reach t \<and> place t = In_wait \<and> stopping t \<and> \<not> nudged t"
proof -
  from reach_step [OF reach_clear gc_move.stop] have "gc_reach (started\<lparr>place := At_clear, stopping := True\<rparr>)"
    by (simp add: started_def)
  from reach_step [OF this gc_move.signal]
  have "gc_reach (started\<lparr>place := At_clear, stopping := True, nudged := True, wanted := True\<rparr>)" by (simp add: started_def)
  from reach_step [OF this gc_move.clear]
  have "gc_reach (started\<lparr>place := At_pass, stopping := True, wanted := True\<rparr>)" by (simp add: started_def)
  from reach_step [OF this gc_move.begin_pass]
  have "gc_reach (started\<lparr>place := In_pass, stopping := True\<rparr>)" by (simp add: started_def)
  from reach_step [OF this gc_move.pass]
  have "gc_reach (started\<lparr>place := In_wait, stopping := True\<rparr>)" by (simp add: started_def)
  then show ?thesis by (intro exI [of _ "started\<lparr>place := In_wait, stopping := True\<rparr>"]) (simp add: started_def)
qed

end
