(* ===== verification/Webhook.thy ===== *)
theory Webhook
  imports Store_Facts Complex_Main
begin

text \<open>
  The gateway's front door: signature check (\<open>agentd/src/agentd/hmac_verify.py\<close>), webhook handler and
  readiness probe (\<open>server.py\<close>), secrets (\<open>keychain.py\<close>), the wait for docker (\<open>docker_wait.py\<close>)
  and the start of the process (\<open>__main__.py\<close>).  Bytes are characters below 256.  HMAC-SHA256 as a hex
  digest, \<open>json.loads\<close>, the clocks and the answers of the operating system are parameters; header
  values are Latin-1, as the ASGI server decodes them.
\<close>

section \<open>Secrets\<close>

text \<open>\<open>get_password\<close>; the last argument is what \<open>security find-generic-password\<close> prints, None when it fails or
  is not there.\<close>

definition env_key_of :: "string \<Rightarrow> string" where
  "env_key_of account =
     ''AGENTD_SECRET_'' @ replace_all ''.'' ''_'' (replace_all ''-'' ''_'' (py_upper account))"

definition get_password ::
  "(string \<Rightarrow> string option) \<Rightarrow> (string \<Rightarrow> string \<Rightarrow> string option) \<Rightarrow> string \<Rightarrow> string \<Rightarrow> string option" where
  "get_password environ security account service =
     (case environ (env_key_of account) of
        Some v \<Rightarrow> Some v
      | None \<Rightarrow> map_option py_strip (security service account))"

definition utf8 :: "string \<Rightarrow> string" where
  "utf8 s = concat (map (\<lambda>c. if (code c :: nat) < 128 then [c]
     else [char_of (192 + code c div 64 :: nat), char_of (128 + code c mod 64 :: nat)]) s)"

definition webhook_secret ::
  "(string \<Rightarrow> string option) \<Rightarrow> (string \<Rightarrow> string \<Rightarrow> string option) \<Rightarrow> string option" where
  "webhook_secret environ security =
     map_option utf8 (get_password environ security ''webhook-secret'' ''agentd'')"

section \<open>Signature\<close>

text \<open>\<open>hmac.compare_digest\<close> of two strings; None is the \<open>TypeError\<close> for a string that is not ASCII.\<close>

definition compare_digest :: "string \<Rightarrow> string \<Rightarrow> bool option" where
  "compare_digest a b = (if (\<forall>c \<in> set a \<union> set b. (code c :: nat) < 128) then Some (a = b) else None)"

definition verify_signature ::
  "(string \<Rightarrow> string \<Rightarrow> string) \<Rightarrow> string \<Rightarrow> string \<Rightarrow> string option \<Rightarrow> bool option" where
  "verify_signature mac secret body header =
     (case header of
        None \<Rightarrow> Some False
      | Some h \<Rightarrow>
          if h = [] \<or> \<not> starts_with h ''sha256='' then Some False
          else compare_digest (mac secret body) (py_strip (drop (length ''sha256='') h)))"

section \<open>Body and metadata\<close>

datatype arrival = Chunk string | Disconnect
datatype hook_body = Whole string | Over | Lost

definition max_body :: nat where
  "max_body = 2 * 1024 * 1024"

text \<open>\<open>_read_body_capped\<close>: the running total and the parts; \<open>Lost\<close> is \<open>ClientDisconnect\<close>.\<close>

fun read_body_capped :: "nat \<Rightarrow> nat \<Rightarrow> string list \<Rightarrow> arrival list \<Rightarrow> hook_body" where
  "read_body_capped cap so_far parts [] = Whole (concat parts)"
| "read_body_capped cap so_far parts (Disconnect # _) = Lost"
| "read_body_capped cap so_far parts (Chunk c # rest) =
     (if cap < so_far + length c then Over
      else read_body_capped cap (so_far + length c) (parts @ [c]) rest)"

text \<open>\<open>int\<close> of a string, with the interpreter's limit of 4300 digits.\<close>

definition int_text :: "string \<Rightarrow> int option" where
  "int_text s = (if 4300 < length (filter is_digit s) then None else py_int s)"

text \<open>What \<open>json.loads\<close> of the bytes does: a value, \<open>JSONDecodeError\<close>, or another exception (bytes that are not
  Unicode, a nesting too deep).\<close>

datatype parsed = Parsed json | Not_json | Parse_raises

text \<open>\<open>(x or {}).get\<close>, None where that has no \<open>get\<close>.\<close>

definition or_empty_dict :: "json \<Rightarrow> dict option" where
  "or_empty_dict j = (case py_or j (JObj []) of JObj d \<Rightarrow> Some d | _ \<Rightarrow> None)"

definition text_or_none :: "json \<Rightarrow> string option" where
  "text_or_none j = (if j = JNull then None else Some (py_str j))"

definition num_or_none :: "json \<Rightarrow> int option option" where
  "num_or_none j = (case j of JNull \<Rightarrow> Some None | JStr s \<Rightarrow> map_option Some (int_text s)
     | _ \<Rightarrow> map_option Some (json_int j))"

definition issue_number :: "dict \<Rightarrow> json" where
  "issue_number data =
     (if has_key data ''issue'' \<and> is_obj (dget data ''issue'') then dget2 data ''issue'' ''number''
      else if has_key data ''pull_request'' \<and> is_obj (dget data ''pull_request'')
      then dget2 data ''pull_request'' ''number''
      else JNull)"

record meta =
  m_action :: "string option"
  m_repo :: "string option"
  m_issue :: "int option"
  m_sender :: "string option"

text \<open>\<open>_parse_meta\<close>; None: it raises.\<close>

definition parse_meta :: "parsed \<Rightarrow> meta option" where
  "parse_meta p =
     (case p of
        Not_json \<Rightarrow> Some \<lparr>m_action = None, m_repo = None, m_issue = None, m_sender = None\<rparr>
      | Parsed (JObj data) \<Rightarrow>
          (case (or_empty_dict (dget data ''repository''), or_empty_dict (dget data ''sender''),
                 num_or_none (issue_number data)) of
             (Some repo, Some sender, Some issue) \<Rightarrow>
               Some \<lparr>m_action = text_or_none (dget data ''action''), m_repo = text_or_none (dget repo ''full_name''),
                     m_issue = issue, m_sender = text_or_none (dget sender ''login'')\<rparr>
           | _ \<Rightarrow> None)
      | _ \<Rightarrow> None)"

section \<open>The webhook handler\<close>

record hook_request =
  q_signature :: "string option"
  q_delivery :: "string option"
  q_event :: "string option"
  q_length :: "string option"
  q_stream :: "arrival list"

datatype hook_response = Reply int string | Raised

record gateway =
  gw_secret :: string
  gw_store :: store
  gw_nudge :: bool

text \<open>\<open>create_app\<close>; None is its \<open>ValueError\<close>.\<close>

definition create_app :: "string \<Rightarrow> store \<Rightarrow> gateway option" where
  "create_app secret st =
     (if secret = [] then None else Some \<lparr>gw_secret = secret, gw_store = st, gw_nudge = False\<rparr>)"

text \<open>A number SQLite can bind.\<close>

definition int64 :: "int \<Rightarrow> bool" where
  "int64 i \<longleftrightarrow> - (2 ^ 63) \<le> i \<and> i < 2 ^ 63"

definition as_payload :: "parsed \<Rightarrow> json option" where
  "as_payload p = (case p of Parsed j \<Rightarrow> Some j | _ \<Rightarrow> None)"

text \<open>The end of \<open>github_webhook\<close>, from \<open>_parse_meta\<close> on; \<open>db_ok\<close>: the statement itself succeeds.\<close>

definition accept_delivery ::
  "(string \<Rightarrow> parsed) \<Rightarrow> bool \<Rightarrow> int \<Rightarrow> hook_request \<Rightarrow> string \<Rightarrow> string \<Rightarrow> gateway \<Rightarrow> gateway \<times> hook_response" where
  "accept_delivery loads db_ok now q did raw G =
     (let event = (case q_event q of None \<Rightarrow> ''unknown'' | Some e \<Rightarrow> if e = [] then ''unknown'' else e)
      in case parse_meta (loads raw) of
           None \<Rightarrow> (G, Raised)
         | Some m \<Rightarrow>
             if \<not> db_ok \<or> (case m_issue m of None \<Rightarrow> False | Some i \<Rightarrow> \<not> int64 i) then (G, Raised)
             else (case insert_delivery now did event (m_action m) (m_repo m) (m_issue m) (m_sender m)
                          (as_payload (loads raw)) Queued (gw_store G) of
                     (st, Inl _) \<Rightarrow> (G\<lparr>gw_store := st\<rparr>, Raised)
                   | (st, Inr True) \<Rightarrow> (G\<lparr>gw_store := st, gw_nudge := True\<rparr>, Reply 200 ''ok'')
                   | (st, Inr False) \<Rightarrow> (G\<lparr>gw_store := st\<rparr>, Reply 200 ''ok'')))"

text \<open>The guards of \<open>github_webhook\<close> before it, in order: the answer, or the delivery id and the body.\<close>

definition screen_request ::
  "(string \<Rightarrow> string \<Rightarrow> string) \<Rightarrow> string \<Rightarrow> hook_request \<Rightarrow> hook_response + (string \<times> string)" where
  "screen_request mac secret q =
     (if secret = [] then Inl Raised
      else case map_option int_text (q_length q) of
        Some None \<Rightarrow> Inl (Reply 400 ''invalid content-length'')
      | cl \<Rightarrow>
          if (case cl of Some (Some n) \<Rightarrow> int max_body < n | _ \<Rightarrow> False) then Inl (Reply 413 ''payload too large'')
          else (case read_body_capped max_body 0 [] (q_stream q) of
             Lost \<Rightarrow> Inl Raised
           | Over \<Rightarrow> Inl (Reply 413 ''payload too large'')
           | Whole raw \<Rightarrow>
               (case verify_signature mac secret raw (q_signature q) of
                  None \<Rightarrow> Inl Raised
                | Some False \<Rightarrow> Inl (Reply 401 ''invalid signature'')
                | Some True \<Rightarrow>
                    (case q_delivery q of
                       None \<Rightarrow> Inl (Reply 400 ''missing delivery id'')
                     | Some did \<Rightarrow>
                         if did = [] then Inl (Reply 400 ''missing delivery id'') else Inr (did, raw)))))"

definition github_webhook ::
  "(string \<Rightarrow> string \<Rightarrow> string) \<Rightarrow> (string \<Rightarrow> parsed) \<Rightarrow> bool \<Rightarrow> int \<Rightarrow> hook_request \<Rightarrow> gateway
   \<Rightarrow> gateway \<times> hook_response" where
  "github_webhook mac loads db_ok now q G =
     (case screen_request mac (gw_secret G) q of
        Inl r \<Rightarrow> (G, r)
      | Inr (did, raw) \<Rightarrow> accept_delivery loads db_ok now q did raw G)"

text \<open>Requests in the order they reach the store, each with the clock and the database's mood.\<close>

definition serve ::
  "(string \<Rightarrow> string \<Rightarrow> string) \<Rightarrow> (string \<Rightarrow> parsed) \<Rightarrow> (bool \<times> int \<times> hook_request) list \<Rightarrow> gateway \<Rightarrow> gateway" where
  "serve mac loads = fold (\<lambda>(ok, now, q) G. fst (github_webhook mac loads ok now q G))"

section \<open>Probes\<close>

definition healthz :: "string \<Rightarrow> (string \<times> string) list" where
  "healthz version = [(''status'', ''ok''), (''version'', version)]"

record readiness =
  rd_ready :: bool
  rd_docker :: bool
  rd_sqlite :: bool
  rd_free :: "rat option"
  rd_disk_ok :: bool
  rd_paused :: bool

text \<open>\<open>readyz\<close>: \<open>snapshot_ok\<close> and \<open>latch_ok\<close> say whether the two reads of the store succeed.  The second is
  outside the handler's \<open>try\<close>; None: it raises.\<close>

definition readyz ::
  "rat \<Rightarrow> bool \<Rightarrow> bool \<Rightarrow> bool \<Rightarrow> rat option \<Rightarrow> store \<Rightarrow> (int \<times> readiness) option" where
  "readyz floor_g docker_ok snapshot_ok latch_ok disk st =
     (let disk_ok = (case disk of None \<Rightarrow> True | Some g \<Rightarrow> floor_g \<le> g);
          ok = (docker_ok \<and> snapshot_ok \<and> disk_ok)
      in if \<not> latch_ok then None
         else Some (if ok then 200 else 503,
           \<lparr>rd_ready = ok, rd_docker = docker_ok, rd_sqlite = snapshot_ok, rd_free = disk, rd_disk_ok = disk_ok,
            rd_paused = is_disk_paused st\<rparr>))"

section \<open>Starting the process\<close>

text \<open>\<open>wait_for_docker\<close>: \<open>clock k\<close> is the reading of the \<open>k\<close>-th test of the loop, \<open>up k\<close> whether the socket
  answers then.\<close>

fun wait_loop :: "(nat \<Rightarrow> rat) \<Rightarrow> (nat \<Rightarrow> bool) \<Rightarrow> rat \<Rightarrow> rat \<Rightarrow> nat \<Rightarrow> nat \<Rightarrow> rat \<Rightarrow> bool option" where
  "wait_loop clock up deadline max_delay 0 k delay = None"
| "wait_loop clock up deadline max_delay (Suc fuel) k delay =
     (if clock k < deadline
      then if up k then Some True
           else wait_loop clock up deadline max_delay fuel (Suc k) (min max_delay (delay * 3 / 2))
      else Some False)"

definition wait_for_docker ::
  "(nat \<Rightarrow> rat) \<Rightarrow> (nat \<Rightarrow> bool) \<Rightarrow> rat \<Rightarrow> rat \<Rightarrow> rat \<Rightarrow> rat \<Rightarrow> nat \<Rightarrow> bool option" where
  "wait_for_docker clock up start timeout initial_delay max_delay fuel =
     wait_loop clock up (start + timeout) max_delay fuel 0 initial_delay"

text \<open>\<open>_listen\<close>; None is \<open>ValueError\<close>.\<close>

definition listen_on :: "string \<Rightarrow> string option \<Rightarrow> int option \<Rightarrow> (string \<times> int) option" where
  "listen_on listen host_override port_override =
     (let (host, _, port_s) = partition_at CHR '':'' listen;
          given = (case host_override of None \<Rightarrow> [] | Some h \<Rightarrow> h);
          host = (if given \<noteq> [] then given else if host \<noteq> [] then host else ''127.0.0.1'')
      in case port_override of
           Some p \<Rightarrow> Some (host, p)
         | None \<Rightarrow> map_option (Pair host) (py_int (if port_s = [] then ''8787'' else port_s)))"

datatype start_result = Exits int | Crashes | Listens string int gateway

text \<open>The \<open>serve\<close> command, once the arguments are read.  The wait's outcome only chooses a log line, so the
  process waits at most and goes on; the store it opens is an argument.\<close>

definition start_serve ::
  "string option \<Rightarrow> string \<Rightarrow> string option \<Rightarrow> int option \<Rightarrow> store \<Rightarrow> start_result" where
  "start_serve secret listen host port st =
     (case secret of
        None \<Rightarrow> Exits 1
      | Some s \<Rightarrow>
          if s = [] then Exits 1
          else (case create_app s st of
                  None \<Rightarrow> Crashes
                | Some G \<Rightarrow> (case listen_on listen host port of
                    None \<Rightarrow> Crashes
                  | Some (h, p) \<Rightarrow> Listens h p G)))"

section \<open>Facts\<close>

lemma read_body_whole:
  "read_body_capped cap so_far parts xs = Whole b \<Longrightarrow>
     \<exists>cs. xs = map Chunk cs \<and> b = concat parts @ concat cs \<and> (so_far \<le> cap \<longrightarrow> so_far + length (concat cs) \<le> cap)"
proof (induction cap so_far parts xs rule: read_body_capped.induct)
  case (3 cap so_far parts c rest)
  then obtain cs where "rest = map Chunk cs" "b = concat (parts @ [c]) @ concat cs"
      "so_far + length c \<le> cap" "so_far + length c \<le> cap \<longrightarrow> so_far + length c + length (concat cs) \<le> cap"
    by (auto split: if_splits)
  then show ?case by (intro exI [of _ "c # cs"]) auto
qed auto

text \<open>What an accepted request looks like.\<close>

definition signed :: "(string \<Rightarrow> string \<Rightarrow> string) \<Rightarrow> string \<Rightarrow> string \<Rightarrow> string option \<Rightarrow> bool" where
  "signed mac secret raw header =
     (case header of None \<Rightarrow> False
      | Some h \<Rightarrow> starts_with h ''sha256='' \<and> py_strip (drop 7 h) = mac secret raw)"

definition admitted ::
  "(string \<Rightarrow> string \<Rightarrow> string) \<Rightarrow> string \<Rightarrow> hook_request \<Rightarrow> string \<Rightarrow> string \<Rightarrow> bool" where
  "admitted mac secret q did raw \<longleftrightarrow>
     secret \<noteq> [] \<and> did \<noteq> [] \<and> q_delivery q = Some did \<and>
     (\<exists>cs. q_stream q = map Chunk cs \<and> raw = concat cs) \<and> length raw \<le> max_body \<and>
     signed mac secret raw (q_signature q)"

lemma verified_is_signed:
  "verify_signature mac secret raw header = Some True \<Longrightarrow> signed mac secret raw header"
  by (auto simp: verify_signature_def signed_def compare_digest_def numeral_eq_Suc split: option.splits if_splits)

lemma screened_admits:
  assumes "screen_request mac secret q = Inr (did, raw)"
  shows "admitted mac secret q did raw"
proof -
  from assms have "secret \<noteq> []" "did \<noteq> []" "q_delivery q = Some did"
    and w: "read_body_capped max_body 0 [] (q_stream q) = Whole raw"
    and v: "verify_signature mac secret raw (q_signature q) = Some True"
    by (auto simp: screen_request_def split: if_splits option.splits hook_body.splits bool.splits)
  with read_body_whole [OF w] verified_is_signed [OF v] show ?thesis
    by (auto simp: admitted_def)
qed

lemma screened_refuses: "screen_request mac secret q = Inl r \<Longrightarrow> r \<noteq> Reply 200 t"
  by (auto simp: screen_request_def split: if_splits option.splits hook_body.splits bool.splits)

lemma insert_delivery_row:
  "d \<in> set (deliveries (fst (insert_delivery now did ev ac re is se p v st))) \<Longrightarrow>
     d \<in> set (deliveries st) \<or> delivery_id d = did \<and> d_payload d = p \<and> d_status d = v"
  by (auto simp: insert_delivery_def insert_ignore_def index_nodes_def Let_def split: option.splits json.splits if_splits)

lemma insert_delivery_ids:
  "delivery_id ` set (deliveries (fst (insert_delivery now did ev ac re is se p v st))) =
     insert did (delivery_id ` set (deliveries st))"
  by (auto simp: insert_delivery_def insert_ignore_def index_nodes_def Let_def split: option.split json.split)

text \<open>The store after a request that was let in: unchanged, or after one \<open>insert_delivery\<close>.\<close>

lemma accepted_store:
  "accept_delivery loads ok now q did raw G = (G, Raised) \<or>
   (gw_secret (fst (accept_delivery loads ok now q did raw G)) = gw_secret G \<and>
    (\<exists>ev (m :: meta). gw_store (fst (accept_delivery loads ok now q did raw G)) = fst (insert_delivery now did ev
        (m_action m) (m_repo m) (m_issue m) (m_sender m) (as_payload (loads raw)) Queued (gw_store G))) \<and>
    snd (accept_delivery loads ok now q did raw G) \<in> {Raised, Reply 200 ''ok''} \<and>
    (gw_nudge (fst (accept_delivery loads ok now q did raw G)) \<longleftrightarrow> gw_nudge G \<or>
       snd (accept_delivery loads ok now q did raw G) \<noteq> Raised \<and>
       did \<notin> delivery_id ` set (deliveries (gw_store G))))"
proof (cases "parse_meta (loads raw)")
  case None
  then show ?thesis by (simp add: accept_delivery_def)
next
  case (Some m)
  let ?ev = "case q_event q of None \<Rightarrow> ''unknown'' | Some e \<Rightarrow> if e = [] then ''unknown'' else e"
  obtain st r where i: "insert_delivery now did ?ev (m_action m) (m_repo m) (m_issue m) (m_sender m)
      (as_payload (loads raw)) Queued (gw_store G) = (st, r)" by fastforce
  then have st: "st = fst (insert_delivery now did ?ev (m_action m) (m_repo m) (m_issue m) (m_sender m)
      (as_payload (loads raw)) Queued (gw_store G))" by simp
  have r: "r = Inr b \<Longrightarrow> b = (did \<notin> delivery_id ` set (deliveries (gw_store G)))" for b
    using i by (auto simp: insert_delivery_def Let_def split: if_splits option.splits json.splits)
  show ?thesis
  proof (cases "\<not> ok \<or> (case m_issue m of None \<Rightarrow> False | Some i \<Rightarrow> \<not> int64 i)")
    case True
    then show ?thesis using Some by (simp add: accept_delivery_def)
  next
    case False
    with Some i have a: "accept_delivery loads ok now q did raw G =
        (case r of Inl _ \<Rightarrow> (G\<lparr>gw_store := st\<rparr>, Raised)
         | Inr True \<Rightarrow> (G\<lparr>gw_store := st, gw_nudge := True\<rparr>, Reply 200 ''ok'')
         | Inr False \<Rightarrow> (G\<lparr>gw_store := st\<rparr>, Reply 200 ''ok''))"
      by (simp add: accept_delivery_def split: sum.split bool.split)
    have "gw_store (fst (accept_delivery loads ok now q did raw G)) = st"
      "gw_secret (fst (accept_delivery loads ok now q did raw G)) = gw_secret G"
      "snd (accept_delivery loads ok now q did raw G) \<in> {Raised, Reply 200 ''ok''}"
      "gw_nudge (fst (accept_delivery loads ok now q did raw G)) \<longleftrightarrow> gw_nudge G \<or>
       snd (accept_delivery loads ok now q did raw G) \<noteq> Raised \<and> did \<notin> delivery_id ` set (deliveries (gw_store G))"
      by (auto simp: a dest: r split: sum.split bool.split)
    then show ?thesis unfolding st by (intro disjI2 conjI exI) assumption+
  qed
qed

text \<open>The one shape a request's effect can have.\<close>

lemma webhook_step:
  "(\<exists>r. github_webhook mac loads ok now q G = (G, r) \<and> (\<forall>t. r \<noteq> Reply 200 t)) \<or>
   (\<exists>did raw G' r ev (m :: meta). admitted mac (gw_secret G) q did raw \<and> github_webhook mac loads ok now q G = (G', r) \<and>
      gw_secret G' = gw_secret G \<and>
      gw_store G' = fst (insert_delivery now did ev (m_action m) (m_repo m) (m_issue m) (m_sender m)
        (as_payload (loads raw)) Queued (gw_store G)) \<and> r \<in> {Raised, Reply 200 ''ok''} \<and>
      (gw_nudge G' \<longleftrightarrow> gw_nudge G \<or> r \<noteq> Raised \<and> did \<notin> delivery_id ` set (deliveries (gw_store G))))"
proof (cases "screen_request mac (gw_secret G) q")
  case (Inl r)
  with screened_refuses [OF Inl] show ?thesis by (simp add: github_webhook_def)
next
  case (Inr dt)
  obtain did raw where dt: "dt = (did, raw)" by fastforce
  have g: "github_webhook mac loads ok now q G = accept_delivery loads ok now q did raw G"
    by (simp add: github_webhook_def Inr dt)
  obtain G' r where a: "accept_delivery loads ok now q did raw G = (G', r)" by fastforce
  from Inr dt screened_admits have "admitted mac (gw_secret G) q did raw" by blast
  with accepted_store [of loads ok now q did raw G] show ?thesis
    unfolding g a by auto
qed

lemma webhook_keeps_secret [simp]: "gw_secret (fst (github_webhook mac loads ok now q G)) = gw_secret G"
  using webhook_step [of mac loads ok now q G] by auto

text \<open>One request: the rows it may add.\<close>

lemma webhook_rows:
  assumes "d \<in> set (deliveries (gw_store (fst (github_webhook mac loads ok now q G))))" "d \<notin> set (deliveries (gw_store G))"
  shows "\<exists>raw. admitted mac (gw_secret G) q (delivery_id d) raw \<and> d_payload d = as_payload (loads raw) \<and> d_status d = Queued"
  using webhook_step [of mac loads ok now q G]
proof (elim disjE exE conjE)
  fix did raw G' r ev and m :: meta
  assume "admitted mac (gw_secret G) q did raw" "github_webhook mac loads ok now q G = (G', r)"
    "gw_store G' = fst (insert_delivery now did ev (m_action m) (m_repo m) (m_issue m) (m_sender m) (as_payload (loads raw)) Queued
       (gw_store G))"
  with assms insert_delivery_row [of d now did ev "m_action m" "m_repo m" "m_issue m" "m_sender m" "as_payload (loads raw)" Queued
      "gw_store G"]
  show ?thesis by auto
qed (use assms in auto)

lemma webhook_wf: "wf_store (gw_store G) \<Longrightarrow> wf_store (gw_store (fst (github_webhook mac loads ok now q G)))"
  using webhook_step [of mac loads ok now q G] wf_insert_delivery by (elim disjE exE conjE) (simp, metis fst_conv)

lemma serve_wf: "wf_store (gw_store G) \<Longrightarrow> wf_store (gw_store (serve mac loads reqs G))"
  by (induction reqs arbitrary: G) (auto simp: serve_def webhook_wf)

section \<open>Properties\<close>

text \<open>C14: nothing reaches the queue unsigned.  Whatever requests arrive, in whatever order and however the
  database fails, every delivery row the gateway adds is queued, under the id of a request whose whole body, of at most
  2 MiB, is signed with the HMAC of the webhook secret, and its payload is what that signed body parses to.\<close>

theorem nothing_unsigned_enters:
  assumes "d \<in> set (deliveries (gw_store (serve mac loads reqs G)))" "d \<notin> set (deliveries (gw_store G))"
  shows "\<exists>r \<in> set reqs. \<exists>raw. admitted mac (gw_secret G) (snd (snd r)) (delivery_id d) raw \<and>
    d_payload d = as_payload (loads raw) \<and> d_status d = Queued"
  using assms
proof (induction reqs arbitrary: G)
  case (Cons r reqs)
  obtain ok now q where r: "r = (ok, now, q)" by (cases r) auto
  let ?G = "fst (github_webhook mac loads ok now q G)"
  have "serve mac loads (r # reqs) G = serve mac loads reqs ?G" by (simp add: serve_def r)
  with Cons.prems Cons.IH [of ?G] webhook_rows [of d mac loads ok now q G] show ?case
    by (cases "d \<in> set (deliveries (gw_store ?G))") (auto simp: r)
qed (simp add: serve_def)

definition a_hook :: hook_request where
  "a_hook = \<lparr>q_signature = Some ''sha256=ab '', q_delivery = Some ''d1'', q_event = Some ''ping'', q_length = Some ''2'',
     q_stream = [Chunk ''{'', Chunk ''}'']\<rparr>"

definition a_gateway :: gateway where
  "a_gateway = \<lparr>gw_secret = ''k'', gw_store = empty_store, gw_nudge = False\<rparr>"

lemma a_hook_signed: "verify_signature (\<lambda>_ _. ''ab'') ''k'' ''{}'' (Some ''sha256=ab '') = Some True"
  by code_simp

lemma two_bytes: "int_text ''2'' = Some 2"
  by code_simp

lemma a_hook_screened: "screen_request (\<lambda>_ _. ''ab'') ''k'' a_hook = Inr (''d1'', ''{}'')"
  by (simp add: screen_request_def a_hook_def max_body_def two_bytes a_hook_signed)

lemma a_hook_served:
  "github_webhook (\<lambda>_ _. ''ab'') (\<lambda>_. Parsed (JObj [])) True 7 a_hook a_gateway =
     (a_gateway\<lparr>gw_store := fst (insert_delivery 7 ''d1'' ''ping'' None None None None (Some (JObj [])) Queued empty_store),
        gw_nudge := True\<rparr>, Reply 200 ''ok'')"
proof -
  have "parse_meta (Parsed (JObj [])) = Some \<lparr>m_action = None, m_repo = None, m_issue = None, m_sender = None\<rparr>"
    by code_simp
  moreover have "q_event a_hook = Some ''ping''" by (simp add: a_hook_def)
  ultimately show ?thesis
    by (simp add: github_webhook_def a_gateway_def a_hook_screened accept_delivery_def as_payload_def
        insert_delivery_def Let_def empty_store_def node_ids_from_payload_def py_or_def)
qed

theorem nothing_unsigned_enters_witness:
  "\<exists>raw. admitted (\<lambda>_ _. ''ab'') ''k'' a_hook ''d1'' raw"
proof -
  let ?G = "serve (\<lambda>_ _. ''ab'') (\<lambda>_. Parsed (JObj [])) [(True, 7, a_hook)] a_gateway"
  have "''d1'' \<in> delivery_id ` set (deliveries (gw_store ?G))" by (simp add: serve_def a_hook_served insert_delivery_ids)
  then obtain d where "d \<in> set (deliveries (gw_store ?G))" "delivery_id d = ''d1''" by auto
  moreover have "d \<notin> set (deliveries (gw_store a_gateway))" by (simp add: a_gateway_def empty_store_def)
  ultimately show ?thesis
    using nothing_unsigned_enters [of d "\<lambda>_ _. ''ab''" "\<lambda>_. Parsed (JObj [])" "[(True, 7, a_hook)]" a_gateway]
    by (auto simp: a_gateway_def)
qed

text \<open>What the sender may rely on.  An answer 200 means that the delivery is in the ledger; the dispatcher
  is nudged for a new delivery and not for a redelivery; and every other answer leaves the gateway as it
  was.\<close>

theorem answers_tell_the_truth:
  assumes "github_webhook mac loads ok now q G = (G', Reply status t)"
  shows "(status = 200 \<longrightarrow> (\<exists>did. q_delivery q = Some did \<and> did \<in> delivery_id ` set (deliveries (gw_store G')) \<and>
            (gw_nudge G' \<longleftrightarrow> gw_nudge G \<or> did \<notin> delivery_id ` set (deliveries (gw_store G))))) \<and>
         (status \<noteq> 200 \<longrightarrow> G' = G)"
  using webhook_step [of mac loads ok now q G] assms
  by (elim disjE exE conjE) (auto simp: insert_delivery_ids admitted_def)

theorem answers_tell_the_truth_witness:
  "\<exists>did. q_delivery a_hook = Some did \<and> (gw_nudge (fst (github_webhook (\<lambda>_ _. ''ab'') (\<lambda>_. Parsed (JObj [])) True 7 a_hook
     a_gateway)) \<longleftrightarrow> gw_nudge a_gateway \<or> did \<notin> delivery_id ` set (deliveries (gw_store a_gateway)))"
  using answers_tell_the_truth [OF a_hook_served] by (auto simp: a_hook_served)

text \<open>A redelivery, which carries the same id, is answered 200 without a nudge and leaves the store alone.\<close>

lemma redelivery_is_quiet:
  assumes "did \<in> delivery_id ` set (deliveries (gw_store G))"
  shows "accept_delivery loads ok now q did raw G \<in> {(G, Raised), (G, Reply 200 ''ok'')}"
proof -
  from assms have "delivery_of did (gw_store G) \<noteq> None"
    by (auto simp: delivery_of_def find_key_None_iff)
  then show ?thesis
    by (auto simp: accept_delivery_def Let_def redelivery_ignored split: option.splits)
qed

text \<open>The wait for docker ends: when every round of the loop takes at least \<open>d\<close> seconds, which its sleep gives
  for the shortest delay, \<open>timeout / d\<close> rounds and one are enough.\<close>

lemma wait_loop_ends:
  assumes "\<forall>k. clock k + d \<le> clock (Suc k)" "deadline \<le> clock k + of_nat n * d"
  shows "wait_loop clock up deadline max_delay (Suc n) k delay \<noteq> None"
  using assms(2)
proof (induction n arbitrary: k delay)
  case (Suc n)
  have "deadline \<le> clock (Suc k) + of_nat n * d"
    using Suc.prems assms(1) [rule_format, of k] by (simp add: algebra_simps)
  from Suc.IH [OF this] show ?case by (simp del: wait_loop.simps not_None_eq add: wait_loop.simps(2) [of _ _ _ _ "Suc n"])
qed simp

lemma wait_for_docker_ends:
  assumes "\<forall>k. clock k + d \<le> clock (Suc k)" "0 < d" "start \<le> clock 0" "timeout \<le> of_nat n * d"
  shows "\<exists>b. wait_for_docker clock up start timeout initial_delay max_delay (Suc n) = Some b"
  using wait_loop_ends [OF assms(1), of "start + timeout" 0 n up max_delay initial_delay] assms(3,4)
  by (auto simp: wait_for_docker_def)

text \<open>The process listens only with a secret, and the probe says ready only with docker, the database and the
  disk; a database that fails both reads makes the probe raise instead of answering 503.\<close>

lemma listens_with_secret:
  "start_serve secret listen host port st = Listens h p G \<Longrightarrow>
     gw_secret G \<noteq> [] \<and> secret = Some (gw_secret G) \<and> gw_store G = st \<and> \<not> gw_nudge G"
  by (auto simp: start_serve_def create_app_def split: option.splits if_splits)

lemma readyz_sound:
  "readyz floor_g d s l disk st = Some (200, b) \<Longrightarrow>
     d \<and> s \<and> l \<and> (case disk of None \<Rightarrow> True | Some g \<Rightarrow> floor_g \<le> g) \<and> rd_ready b"
  by (auto simp: readyz_def Let_def split: if_splits)

lemma readyz_needs_latch: "readyz floor_g d False False disk st = None"
  by (simp add: readyz_def Let_def)

text \<open>A signature header that is not ASCII makes the comparison raise: the request fails with an exception
  and not with 401.\<close>

lemma non_ascii_signature_raises:
  "verify_signature (\<lambda>_ _. ''ab'') ''k'' ''{}'' (Some (''sha256='' @ [CHR 0xE9])) = None"
  by code_simp

end
