(* ===== verification/Gitops_Clone.thy ===== *)
theory Gitops_Clone
  imports Gitops_Names
begin

text \<open>
  The shared clones and worktrees of \<open>agentd/src/agentd/gitops.py\<close>: every call of a function is the list of
  commands it issues, in order, under the repository's lock.  What git answers to the \<open>n\<close>-th command, what
  exists after \<open>n\<close> of them, and which of them time out are parameters; nobody else changes the clone meanwhile.
\<close>

section \<open>Commands\<close>

datatype git_answer = Done int string | Broken

datatype staleness = Unknown_stale | Behind string

text \<open>The flag of a git command: lazy fetching allowed (\<open>_git_env\<close>).\<close>

datatype git_event = Mkdir string | Move string string | Git string "string list" bool | Warn staleness

record git_world =
  g_answer :: "nat \<Rightarrow> string \<Rightarrow> string list \<Rightarrow> git_answer"
  g_late :: "nat \<Rightarrow> bool"
  g_exists :: "nat \<Rightarrow> string \<Rightarrow> bool"
  g_refuses :: "nat \<Rightarrow> bool"

text \<open>\<open>CalledProcessError\<close>, \<open>TimeoutExpired\<close>, \<open>OSError\<close>, \<open>IndexError\<close>.\<close>

datatype trouble = Exit_code | Too_late | Os_trouble | No_index

type_synonym 'a sh = "git_event list \<Rightarrow> git_event list \<times> (trouble + 'a)"

definition sh_ret :: "'a \<Rightarrow> 'a sh" where
  "sh_ret x h = (h, Inr x)"

definition sh_bind :: "'a sh \<Rightarrow> ('a \<Rightarrow> 'b sh) \<Rightarrow> 'b sh" where
  "sh_bind m f h = (case m h of (h, Inl e) \<Rightarrow> (h, Inl e) | (h, Inr x) \<Rightarrow> f x h)"

definition sh_seq :: "'a sh \<Rightarrow> 'b sh \<Rightarrow> 'b sh" where
  "sh_seq m k = sh_bind m (\<lambda>_. k)"

text \<open>\<open>_git\<close>, with its \<open>check\<close>, whether it has a timeout, and \<open>lazy_fetch\<close>.\<close>

definition git :: "git_world \<Rightarrow> bool \<Rightarrow> bool \<Rightarrow> bool \<Rightarrow> string \<Rightarrow> string list \<Rightarrow> (int \<times> string) sh" where
  "git W check timed lazy cwd args h =
     (h @ [Git cwd args lazy],
      if timed \<and> g_late W (length h) then Inl Too_late
      else case g_answer W (length h) cwd args of
        Broken \<Rightarrow> Inl Os_trouble
      | Done rc out \<Rightarrow> if check \<and> rc \<noteq> 0 then Inl Exit_code else Inr (rc, out))"

definition on_disk :: "git_world \<Rightarrow> git_event \<Rightarrow> unit sh" where
  "on_disk W e h = (h @ [e], if g_refuses W (length h) then Inl Os_trouble else Inr ())"

definition warn :: "staleness \<Rightarrow> unit sh" where
  "warn s h = (h @ [Warn s], Inr ())"

definition exists_now :: "git_world \<Rightarrow> string \<Rightarrow> bool sh" where
  "exists_now W p h = (h, Inr (g_exists W (length h) p))"

section \<open>The shared clone\<close>

definition legacy_shared_clone_path :: "string \<Rightarrow> string \<Rightarrow> string" where
  "legacy_shared_clone_path root repo_full =
     (let (owner, _, repo) = partition_at CHR ''/'' repo_full in root @ ''/repos/'' @ owner @ ''/'' @ repo)"

text \<open>\<open>(p / ".git").exists() or (p / "HEAD").exists()\<close>, the second asked only when the first is not there.\<close>

definition is_clone :: "git_world \<Rightarrow> string \<Rightarrow> bool sh" where
  "is_clone W p =
     sh_bind (exists_now W (p @ ''/.git'')) (\<lambda>b. if b then sh_ret True else exists_now W (p @ ''/HEAD''))"

definition resolve_base_ref :: "git_world \<Rightarrow> string \<Rightarrow> string sh" where
  "resolve_base_ref W clone =
     sh_bind (git W False False True clone [''symbolic-ref'', ''--short'', ''refs/remotes/origin/HEAD'']) (\<lambda>(_, out).
     (let base = py_strip out
      in if base = [] then sh_ret ''HEAD''
         else sh_bind (git W False False True clone [''rev-parse'', ''--verify'', ''-q'', base]) (\<lambda>(rc, _).
           sh_ret (if rc = 0 then base else ''HEAD''))))"

text \<open>\<open>_fetch\<close>: a timeout is caught, any other exception is not.\<close>

fun fetch_steps :: "git_world \<Rightarrow> string \<Rightarrow> string list list \<Rightarrow> bool sh" where
  "fetch_steps W clone [] h = (h, Inr True)"
| "fetch_steps W clone (args # rest) h =
     (case git W False True True clone args h of
        (h, Inl Too_late) \<Rightarrow> (h, Inr False)
      | (h, Inl e) \<Rightarrow> (h, Inl e)
      | (h, Inr (rc, _)) \<Rightarrow> if rc \<noteq> 0 then (h, Inr False) else fetch_steps W clone rest h)"

abbreviation fetch_args :: "string list" where
  "fetch_args \<equiv> [''fetch'', ''origin'', ''--prune'']"

abbreviation set_head_args :: "string list" where
  "set_head_args \<equiv> [''remote'', ''set-head'', ''origin'', ''--auto'']"

definition fetch :: "git_world \<Rightarrow> string \<Rightarrow> bool sh" where
  "fetch W clone = fetch_steps W clone [fetch_args, set_head_args]"

text \<open>\<open>base.split("/", 1)[1]\<close> and the command that uses it.\<close>

definition force_branch :: "git_world \<Rightarrow> string \<Rightarrow> string \<Rightarrow> unit sh" where
  "force_branch W clone base =
     (case partition_at CHR ''/'' base of (_, found, branch) \<Rightarrow>
        if \<not> found then (\<lambda>h. (h, Inl No_index))
        else sh_seq (git W False False False clone [''branch'', ''-f'', branch, base]) (sh_ret ()))"

definition move_default :: "git_world \<Rightarrow> string \<Rightarrow> string \<Rightarrow> unit sh" where
  "move_default W clone base =
     sh_bind (git W False False True clone [''rev-parse'', base]) (\<lambda>(rc, out).
       if rc \<noteq> 0 then sh_ret ()
       else
         sh_seq (git W False False False clone [''update-ref'', ''--no-deref'', ''HEAD'', py_strip out])
        (sh_seq (git W False False False clone [''read-tree'', ''--empty''])
          (force_branch W clone base)))"

definition sync_default_branch :: "git_world \<Rightarrow> string \<Rightarrow> unit sh" where
  "sync_default_branch W clone =
     sh_bind (resolve_base_ref W clone) (\<lambda>base. if base = ''HEAD'' then sh_ret () else move_default W clone base)"

definition parent_of :: "string \<Rightarrow> string" where
  "parent_of p = rev (drop 1 (dropWhile (\<lambda>c. c \<noteq> CHR ''/'') (rev p)))"

definition migrate_legacy :: "git_world \<Rightarrow> string \<Rightarrow> string \<Rightarrow> unit sh" where
  "migrate_legacy W path legacy =
     sh_bind (is_clone W path) (\<lambda>here.
     if here then sh_ret ()
     else sh_bind (is_clone W legacy) (\<lambda>old.
       if \<not> old then sh_ret ()
       else sh_seq (on_disk W (Mkdir (parent_of path)))
           (sh_bind (exists_now W path) (\<lambda>taken. if taken then sh_ret () else on_disk W (Move legacy path)))))"

definition clone_args :: "string \<Rightarrow> string \<Rightarrow> string list" where
  "clone_args url path = [''clone'', ''--filter=blob:none'', ''--no-checkout'', url, path]"

definition make_clone :: "git_world \<Rightarrow> string \<Rightarrow> string \<Rightarrow> string option \<Rightarrow> unit sh" where
  "make_clone W path repo_full clone_url =
     (let url = (case clone_url of Some u \<Rightarrow> if u = [] then ''https://github.com/'' @ repo_full @ ''.git'' else u
                 | None \<Rightarrow> ''https://github.com/'' @ repo_full @ ''.git'')
      in sh_seq (on_disk W (Mkdir (parent_of path)))
        (sh_seq (git W True True True [] (clone_args url path)) (sh_ret ())))"

definition ensure_shared_clone :: "git_world \<Rightarrow> string \<Rightarrow> string \<Rightarrow> string option \<Rightarrow> string sh" where
  "ensure_shared_clone W root repo_full clone_url =
     (let path = shared_clone_path root repo_full
      in sh_seq (migrate_legacy W path (legacy_shared_clone_path root repo_full))
        (sh_seq (sh_bind (is_clone W path) (\<lambda>here. if here then sh_ret () else make_clone W path repo_full clone_url))
        (sh_seq (git W True False True path [''config'', ''gc.auto'', ''0''])
        (sh_seq (git W True False True path [''config'', ''worktree.useRelativePaths'', ''true''])
        (sh_seq (sh_bind (fetch W path) (\<lambda>fresh. if fresh then sync_default_branch W path else sh_ret ()))
           (sh_ret path))))))"

section \<open>Worktrees\<close>

definition log_staleness :: "git_world \<Rightarrow> string \<Rightarrow> string \<Rightarrow> string \<Rightarrow> unit sh" where
  "log_staleness W clone branch base_ref =
     (if base_ref = ''HEAD'' then warn Unknown_stale
      else sh_bind (git W False False True clone [''branch'', ''--list'', branch]) (\<lambda>(_, out).
        if py_strip out = [] then sh_ret ()
        else sh_bind (git W False False True clone [''rev-list'', ''--count'', branch @ ''..'' @ base_ref]) (\<lambda>(rc, out).
          if rc \<noteq> 0 \<or> py_strip out = [] \<or> py_strip out = ''0'' then sh_ret () else warn (Behind (py_strip out)))))"

definition worktree_already_on_branch :: "git_world \<Rightarrow> string \<Rightarrow> string \<Rightarrow> bool sh" where
  "worktree_already_on_branch W path branch =
     sh_bind (exists_now W path) (\<lambda>there.
     if \<not> there then sh_ret False
     else sh_bind (git W False False True [] [''-C'', path, ''rev-parse'', ''--abbrev-ref'', ''HEAD'']) (\<lambda>(rc, out).
       sh_ret (rc = 0 \<and> py_strip out = branch)))"

text \<open>\<open>except CalledProcessError: pass\<close>.\<close>

definition ignore_exit :: "(int \<times> string) sh \<Rightarrow> unit sh" where
  "ignore_exit m h = (case m h of (h, Inl Exit_code) \<Rightarrow> (h, Inr ()) | (h, Inl e) \<Rightarrow> (h, Inl e) | (h, Inr _) \<Rightarrow> (h, Inr ()))"

definition add_existing :: "string \<Rightarrow> string \<Rightarrow> string list" where
  "add_existing path branch = [''worktree'', ''add'', path, branch]"

definition add_new :: "string \<Rightarrow> string \<Rightarrow> string \<Rightarrow> string list" where
  "add_new path branch base_ref = [''worktree'', ''add'', ''--no-track'', ''-b'', branch, path, base_ref]"

abbreviation remove_args :: "string \<Rightarrow> string list" where
  "remove_args path \<equiv> [''worktree'', ''remove'', ''--force'', path]"

abbreviation head_args :: "string \<Rightarrow> string list" where
  "head_args path \<equiv> [''-C'', path, ''rev-parse'', ''--abbrev-ref'', ''HEAD'']"

text \<open>The stale worktree is removed if it is there; then the branch decides how the worktree is added.\<close>

definition clear_stale :: "git_world \<Rightarrow> string \<Rightarrow> string \<Rightarrow> unit sh" where
  "clear_stale W clone path = sh_bind (exists_now W path) (\<lambda>stale.
     if stale then ignore_exit (git W True False True clone (remove_args path)) else sh_ret ())"

definition add_for :: "string \<Rightarrow> string \<Rightarrow> string \<Rightarrow> string \<Rightarrow> string list" where
  "add_for out path branch base_ref =
     (if py_strip out \<noteq> [] then add_existing path branch else add_new path branch base_ref)"

definition add_tree :: "git_world \<Rightarrow> string \<Rightarrow> string \<Rightarrow> string \<Rightarrow> string \<Rightarrow> bool sh" where
  "add_tree W clone path branch base_ref =
     sh_bind (git W False False True clone [''branch'', ''--list'', branch]) (\<lambda>(_, out).
       sh_seq (git W True False True clone (add_for out path branch base_ref)) (sh_ret True))"

text \<open>\<open>worktree_add\<close>: whether a worktree was added, the elapsed time left aside.\<close>

definition worktree_add :: "git_world \<Rightarrow> string \<Rightarrow> string \<Rightarrow> string \<Rightarrow> string \<Rightarrow> bool sh" where
  "worktree_add W clone path branch base_ref =
     sh_seq (on_disk W (Mkdir (parent_of path)))
    (sh_seq (log_staleness W clone branch base_ref)
    (sh_bind (worktree_already_on_branch W path branch) (\<lambda>there.
       if there then sh_ret False
       else sh_seq (clear_stale W clone path) (add_tree W clone path branch base_ref))))"

section \<open>What a program of commands issues\<close>

text \<open>Every run of \<open>m\<close> only appends to the log, and only commands that satisfy \<open>P\<close>.\<close>

definition adds :: "(git_event \<Rightarrow> bool) \<Rightarrow> 'a sh \<Rightarrow> bool" where
  "adds P m \<longleftrightarrow> (\<forall>h. \<exists>v. fst (m h) = h @ v \<and> (\<forall>e \<in> set v. P e))"

lemma addsE:
  assumes "adds P m" "m h = (h', r)"
  obtains v where "h' = h @ v" "\<forall>e \<in> set v. P e"
  using assms by (force simp: adds_def dest: spec [of _ h])

lemma adds_log: "adds P m \<Longrightarrow> m h = (h', r) \<Longrightarrow> \<forall>e \<in> set h. P e \<Longrightarrow> \<forall>e \<in> set h'. P e"
  by (elim addsE) auto

lemma adds_ret [simp, intro]: "adds P (sh_ret x)"
  by (simp add: adds_def sh_ret_def)

lemma adds_bind [intro]:
  assumes "adds P m" "\<And>x. adds P (f x)"
  shows "adds P (sh_bind m f)"
  unfolding adds_def
proof
  fix h
  obtain h1 r where m: "m h = (h1, r)" by fastforce
  from addsE [OF assms(1) m] obtain v where v: "h1 = h @ v" "\<forall>e \<in> set v. P e" by blast
  show "\<exists>v. fst (sh_bind m f h) = h @ v \<and> (\<forall>e \<in> set v. P e)"
  proof (cases r)
    case (Inr x)
    obtain w where "fst (f x h1) = h1 @ w" "\<forall>e \<in> set w. P e"
      using assms(2) [of x] unfolding adds_def by blast
    with v m Inr show ?thesis by (intro exI [of _ "v @ w"]) (auto simp: sh_bind_def)
  qed (use m v in \<open>auto simp: sh_bind_def\<close>)
qed

lemma adds_seq [intro]: "adds P m \<Longrightarrow> adds P k \<Longrightarrow> adds P (sh_seq m k)"
  unfolding sh_seq_def by blast

lemma adds_if [intro]: "adds P a \<Longrightarrow> adds P b \<Longrightarrow> adds P (if c then a else b)"
  by simp

lemma adds_pair [intro]: "(\<And>a b. adds P (f a b)) \<Longrightarrow> adds P (case x of (a, b) \<Rightarrow> f a b)"
  by (cases x) simp

lemma adds_git [intro]: "P (Git cwd args lazy) \<Longrightarrow> adds P (git W check timed lazy cwd args)"
  by (simp add: adds_def git_def)

lemma adds_disk [intro]: "P e \<Longrightarrow> adds P (on_disk W e)"
  by (simp add: adds_def on_disk_def)

lemma adds_warn [intro]: "P (Warn s) \<Longrightarrow> adds P (warn s)"
  by (simp add: adds_def warn_def)

lemma adds_exists [simp, intro]: "adds P (exists_now W p)"
  by (simp add: adds_def exists_now_def)

lemma adds_raise [simp]: "adds P (\<lambda>h. (h, Inl e))"
  by (simp add: adds_def)

lemma adds_fetch_steps:
  "(\<And>args. args \<in> set xs \<Longrightarrow> P (Git c args True)) \<Longrightarrow> adds P (fetch_steps W c xs)"
proof (induction xs)
  case (Cons a xs)
  have "\<exists>v. fst (fetch_steps W c (a # xs) h) = h @ v \<and> (\<forall>e \<in> set v. P e)" for h
  proof -
    let ?h = "h @ [Git c a True]"
    from Cons have "adds P (fetch_steps W c xs)" by simp
    then obtain v where v: "fst (fetch_steps W c xs ?h) = ?h @ v" "\<forall>e \<in> set v. P e"
      unfolding adds_def by blast
    have "fst (fetch_steps W c (a # xs) h) \<in> {?h, ?h @ v}"
      using v by (auto simp: git_def split: git_answer.split trouble.split)
    with v Cons.prems show ?thesis by auto
  qed
  then show ?case unfolding adds_def by blast
qed (simp add: adds_def)

text \<open>A bind that ended, split at its first part.\<close>

lemma sh_bindE:
  assumes "sh_bind m f h = (h', r)"
  obtains (raised) e where "m h = (h', Inl e)" "r = Inl e"
        | (went_on) h1 x where "m h = (h1, Inr x)" "f x h1 = (h', r)"
  using assms by (auto simp: sh_bind_def split: prod.splits sum.splits)

lemma sh_seqE:
  assumes "sh_seq m k h = (h', r)"
  obtains (raised) e where "m h = (h', Inl e)" "r = Inl e"
        | (went_on) h1 x where "m h = (h1, Inr x)" "k h1 = (h', r)"
  using assms unfolding sh_seq_def by (elim sh_bindE) blast+

text \<open>A successful command in a log: its place, and the exit code git gave there.\<close>

definition done_at :: "git_world \<Rightarrow> git_event list \<Rightarrow> nat \<Rightarrow> string \<Rightarrow> string list \<Rightarrow> bool" where
  "done_at W h k cwd args \<longleftrightarrow> k < length h \<and> h ! k = Git cwd args True \<and>
     (\<exists>out. g_answer W k cwd args = Done 0 out)"

lemma done_at_append: "done_at W h k c a \<Longrightarrow> done_at W (h @ v) k c a"
  by (simp add: done_at_def nth_append)

lemma git_ok: "git W check timed lazy c a h = (h', Inr (rc, out)) \<Longrightarrow>
    h' = h @ [Git c a lazy] \<and> g_answer W (length h) c a = Done rc out \<and> (check \<longrightarrow> rc = 0) \<and>
    (timed \<longrightarrow> \<not> g_late W (length h))"
  by (auto simp: git_def split: if_splits git_answer.splits)

lemma fetch_fresh:
  assumes "fetch W c h = (h', Inr True)"
  shows "h' = h @ [Git c fetch_args True, Git c set_head_args True] \<and>
     done_at W h' (length h) c fetch_args \<and> done_at W h' (Suc (length h)) c set_head_args \<and>
     \<not> g_late W (length h) \<and> \<not> g_late W (Suc (length h))"
  using assms
  by (auto simp: fetch_def git_def done_at_def nth_append split: prod.splits sum.splits trouble.splits if_splits git_answer.splits)

section \<open>The default branch\<close>

text \<open>The commands that move the clone's own refs or index.\<close>

fun moves_default :: "git_event \<Rightarrow> bool" where
  "moves_default (Git c (a # args) l) = (a = ''update-ref'' \<or> a = ''read-tree'' \<or> (a = ''branch'' \<and> hd args = ''-f''))"
| "moves_default _ = False"

lemmas adds_rules = adds_bind adds_seq adds_if adds_pair adds_git adds_disk adds_ret adds_exists adds_warn

lemma still_resolve: "adds (\<lambda>e. \<not> moves_default e) (resolve_base_ref W c)"
  unfolding resolve_base_ref_def Let_def by (intro adds_rules) simp_all

lemma still_fetch: "adds (\<lambda>e. \<not> moves_default e) (fetch W c)"
  unfolding fetch_def by (rule adds_fetch_steps) auto

lemma still_clone: "adds (\<lambda>e. \<not> moves_default e) (make_clone W p repo url)"
  unfolding make_clone_def Let_def clone_args_def by (intro adds_rules) simp_all

lemma still_migrate: "adds (\<lambda>e. \<not> moves_default e) (migrate_legacy W p l)"
  unfolding migrate_legacy_def is_clone_def by (intro adds_rules) simp_all

lemma base_verified:
  assumes "resolve_base_ref W c h = (h', Inr base)" "base \<noteq> ''HEAD''"
  shows "done_at W h' (Suc (length h)) c [''rev-parse'', ''--verify'', ''-q'', base]"
  using assms unfolding resolve_base_ref_def
  by (auto elim!: sh_bindE simp: Let_def sh_ret_def done_at_def nth_append dest!: git_ok split: if_splits)

text \<open>What may be done to the clone's own refs, given the remote's default branch.\<close>

definition moved_to :: "string \<Rightarrow> string \<Rightarrow> git_event \<Rightarrow> bool" where
  "moved_to c base e \<longleftrightarrow>
     (\<exists>sha. e = Git c [''update-ref'', ''--no-deref'', ''HEAD'', sha] False) \<or>
     e = Git c [''read-tree'', ''--empty''] False \<or>
     (\<exists>remote branch. base = remote @ CHR ''/'' # branch \<and> e = Git c [''branch'', ''-f'', branch, base] False)"

lemma still_force: "adds (\<lambda>e. moves_default e \<longrightarrow> moved_to c base e) (force_branch W c base)"
proof -
  obtain u f b where p: "partition_at CHR ''/'' base = (u, f, b)" by (cases "partition_at CHR ''/'' base") auto
  then have "f \<Longrightarrow> base = u @ CHR ''/'' # b" by (cases f) (auto dest: partition_at_Some)
  then have "f \<Longrightarrow> moved_to c base (Git c [''branch'', ''-f'', b, base] False)" by (auto simp: moved_to_def)
  then show ?thesis
    by (auto simp: force_branch_def p intro!: adds_seq adds_git)
qed

lemma sync_tail: "adds (\<lambda>e. moves_default e \<longrightarrow> moved_to c base e) (move_default W c base)"
  unfolding move_default_def by (intro adds_rules still_force) (auto simp: moved_to_def)

lemma sync_moves:
  assumes "sync_default_branch W c h = (h', r)"
  shows "\<exists>v. h' = h @ v \<and> (\<forall>e \<in> set v. moves_default e \<longrightarrow> (\<exists>base k. length h \<le> k \<and>
     done_at W h' k c [''rev-parse'', ''--verify'', ''-q'', base] \<and> moved_to c base e))"
  using assms unfolding sync_default_branch_def
proof (cases rule: sh_bindE)
  case (raised e)
  from addsE [OF still_resolve raised(1)] show ?thesis by metis
next
  case (went_on h1 base)
  from addsE [OF still_resolve went_on(1)] obtain u where u: "h1 = h @ u" "\<forall>e \<in> set u. \<not> moves_default e" .
  show ?thesis
  proof (cases "base = ''HEAD''")
    case True
    with went_on(2) u show ?thesis by (auto simp: sh_ret_def)
  next
    case False
    with went_on(2) have "move_default W c base h1 = (h', r)" by simp
    from addsE [OF sync_tail this] obtain v
      where v: "h' = h1 @ v" "\<forall>e \<in> set v. moves_default e \<longrightarrow> moved_to c base e" .
    have "done_at W h' (Suc (length h)) c [''rev-parse'', ''--verify'', ''-q'', base]"
      unfolding v(1) by (rule done_at_append [OF base_verified [OF went_on(1) False]])
    with u v show ?thesis
      by (intro exI [of _ "u @ v"]) (auto intro!: exI [of _ base] exI [of _ "Suc (length h)"])
  qed
qed

section \<open>Worktree commands\<close>

text \<open>The commands of \<open>worktree_add\<close> that touch a worktree or a branch, all others only ask.\<close>

definition asks :: "string \<Rightarrow> string \<Rightarrow> string \<Rightarrow> string \<Rightarrow> git_event \<Rightarrow> bool" where
  "asks clone path branch base e \<longleftrightarrow>
     (\<exists>s. e = Warn s) \<or> (\<exists>d. e = Mkdir d) \<or> e = Git clone [''branch'', ''--list'', branch] True \<or>
     e = Git clone [''rev-list'', ''--count'', branch @ ''..'' @ base] True \<or>
     e = Git [] [''-C'', path, ''rev-parse'', ''--abbrev-ref'', ''HEAD''] True"

lemma asks_staleness: "adds (asks clone path branch base) (log_staleness W clone branch base)"
  unfolding log_staleness_def by (intro adds_rules) (simp_all add: asks_def)

lemma asks_branch: "adds (asks clone path branch base) (worktree_already_on_branch W path branch)"
  unfolding worktree_already_on_branch_def by (intro adds_rules) (simp_all add: asks_def)

lemma adds_ignore_exit: "adds P m \<Longrightarrow> adds P (ignore_exit m)"
proof -
  assume a: "adds P m"
  have "fst (ignore_exit m h) = fst (m h)" for h
    by (simp add: ignore_exit_def split: prod.split sum.split trouble.split)
  with a show ?thesis by (simp add: adds_def)
qed

text \<open>What \<open>worktree_add\<close> does when it does more than ask: a removal needs a worktree that is not on the branch,
  and whether the branch is created is what git answered about it.\<close>

definition right_add :: "string \<Rightarrow> string \<Rightarrow> string \<Rightarrow> string \<Rightarrow> string list" where
  "right_add listed path branch base =
     (if py_strip listed = [] then [''worktree'', ''add'', ''--no-track'', ''-b'', branch, path, base]
      else [''worktree'', ''add'', path, branch])"

lemma add_for_right: "add_for out path branch base = right_add out path branch base"
  by (simp add: add_for_def right_add_def add_new_def add_existing_def)

definition justified :: "git_world \<Rightarrow> git_event list \<Rightarrow> string \<Rightarrow> string \<Rightarrow> string \<Rightarrow> string \<Rightarrow> git_event \<Rightarrow> bool" where
  "justified W h clone path branch base e \<longleftrightarrow>
     asks clone path branch base e \<or>
     (e = Git clone (remove_args path) True \<and> (\<exists>k rc out. k < length h \<and> h ! k = Git [] (head_args path) True \<and>
        g_answer W k [] (head_args path) = Done rc out \<and> \<not> (rc = 0 \<and> py_strip out = branch))) \<or>
     (\<exists>k rc out. k < length h \<and> h ! k = Git clone [''branch'', ''--list'', branch] True \<and>
        g_answer W k clone [''branch'', ''--list'', branch] = Done rc out \<and> e = Git clone (right_add out path branch base) True)"

lemma justified_later: "justified W h c p b base e \<Longrightarrow> justified W (h @ v) c p b base e"
  unfolding justified_def by (elim disjE exE conjE) (auto simp: nth_append intro: less_SucI)

lemma branch_check:
  assumes "worktree_already_on_branch W path branch h = (h', Inr b)"
  shows "(\<not> b \<and> h' = h \<and> \<not> g_exists W (length h) path) \<or>
    (h' = h @ [Git [] (head_args path) True] \<and>
     (\<exists>rc out. g_answer W (length h) [] (head_args path) = Done rc out \<and> b = (rc = 0 \<and> py_strip out = branch)))"
  using assms unfolding worktree_already_on_branch_def
  by (auto elim!: sh_bindE simp: exists_now_def sh_ret_def dest!: git_ok split: if_splits)

lemma clear_stale_log:
  "clear_stale W clone path h = (h', r) \<Longrightarrow>
     h' = h \<or> (g_exists W (length h) path \<and> h' = h @ [Git clone (remove_args path) True])"
  by (auto simp: clear_stale_def sh_bind_def exists_now_def sh_ret_def ignore_exit_def git_def
      split: if_splits prod.splits sum.splits trouble.splits git_answer.splits)

lemma add_tree_log:
  assumes "add_tree W clone path branch base h = (h', r)"
  shows "(h' = h @ [Git clone [''branch'', ''--list'', branch] True] \<and> (\<exists>x. r = Inl x)) \<or>
    (\<exists>rc out. g_answer W (length h) clone [''branch'', ''--list'', branch] = Done rc out \<and>
       h' = h @ [Git clone [''branch'', ''--list'', branch] True, Git clone (right_add out path branch base) True] \<and>
       ((\<exists>x. r = Inl x) \<or> r = Inr True \<and> (\<exists>o'. g_answer W (Suc (length h)) clone (right_add out path branch base) = Done 0 o')))"
  using assms
  by (auto simp: add_tree_def add_for_right sh_seq_def sh_bind_def git_def sh_ret_def split: if_splits prod.splits sum.splits git_answer.splits)

definition first_checks :: "git_world \<Rightarrow> string \<Rightarrow> string \<Rightarrow> string \<Rightarrow> string \<Rightarrow> bool sh" where
  "first_checks W clone path branch base =
     sh_seq (on_disk W (Mkdir (parent_of path)))
       (sh_seq (log_staleness W clone branch base) (worktree_already_on_branch W path branch))"

lemma worktree_add_split:
  "worktree_add W clone path branch base = sh_bind (first_checks W clone path branch base) (\<lambda>there.
     if there then sh_ret False else sh_seq (clear_stale W clone path) (add_tree W clone path branch base))"
  by (rule ext) (simp add: worktree_add_def first_checks_def sh_seq_def sh_bind_def split: prod.split sum.split)

lemma asks_first: "adds (asks clone path branch base) (first_checks W clone path branch base)"
  unfolding first_checks_def
  by (intro adds_seq adds_disk asks_staleness asks_branch) (simp add: asks_def)

lemma first_checks_no:
  assumes "first_checks W clone path branch base h = (h', Inr False)" "g_exists W (length h') path"
  shows "justified W h' clone path branch base (Git clone (remove_args path) True)"
proof -
  from assms(1) obtain g where "worktree_already_on_branch W path branch g = (h', Inr False)"
    unfolding first_checks_def by (elim sh_seqE) auto
  from branch_check [OF this] assms(2) show ?thesis
    by (auto simp: justified_def intro!: exI [of _ "length g"])
qed

lemma added_justified:
  assumes "g_answer W (length h) clone [''branch'', ''--list'', branch] = Done rc out"
    and "h' = h @ [Git clone [''branch'', ''--list'', branch] True, Git clone (right_add out path branch base) True]"
    and "e \<in> set (drop (length h) h')"
  shows "justified W h' clone path branch base e"
proof -
  have "justified W h' clone path branch base (Git clone (right_add out path branch base) True)"
    unfolding justified_def using assms(1,2)
    by (intro disjI2 exI [of _ "length h"] exI [of _ rc] exI [of _ out]) simp
  with assms(2,3) show ?thesis by (auto simp: justified_def asks_def)
qed

lemma add_tree_justified:
  assumes "add_tree W clone path branch base h = (h', r)"
  shows "\<exists>v. h' = h @ v \<and> (\<forall>e \<in> set v. justified W h' clone path branch base e) \<and> r \<noteq> Inr False \<and>
    (r = Inr True \<longrightarrow> (\<exists>out o'. v \<noteq> [] \<and> last v = Git clone (right_add out path branch base) True \<and>
       g_answer W (length h' - 1) clone (right_add out path branch base) = Done 0 o'))"
  using add_tree_log [OF assms]
proof
  assume "h' = h @ [Git clone [''branch'', ''--list'', branch] True] \<and> (\<exists>x. r = Inl x)"
  then show ?thesis by (auto simp: justified_def asks_def)
next
  assume "\<exists>rc out. g_answer W (length h) clone [''branch'', ''--list'', branch] = Done rc out \<and>
       h' = h @ [Git clone [''branch'', ''--list'', branch] True, Git clone (right_add out path branch base) True] \<and>
       ((\<exists>x. r = Inl x) \<or> r = Inr True \<and> (\<exists>o'. g_answer W (Suc (length h)) clone (right_add out path branch base) = Done 0 o'))"
  then obtain rc out where a: "g_answer W (length h) clone [''branch'', ''--list'', branch] = Done rc out"
    and h: "h' = h @ [Git clone [''branch'', ''--list'', branch] True, Git clone (right_add out path branch base) True]"
    and r: "(\<exists>x. r = Inl x) \<or> r = Inr True \<and> (\<exists>o'. g_answer W (Suc (length h)) clone (right_add out path branch base) = Done 0 o')"
    by blast
  have "\<forall>e \<in> set (drop (length h) h'). justified W h' clone path branch base e"
    using added_justified [OF a h] by blast
  with h r show ?thesis by (intro exI [of _ "drop (length h) h'"]) auto
qed

lemma cleared_justified:
  assumes "first_checks W clone path branch base h = (h1, Inr False)" "clear_stale W clone path h1 = (h2, r)"
  shows "\<exists>w. h2 = h1 @ w \<and> (\<forall>e \<in> set w. justified W h2 clone path branch base e)"
  using clear_stale_log [OF assms(2)] first_checks_no [OF assms(1)] justified_later by auto

lemma asks_justified: "asks clone path branch base e \<Longrightarrow> justified W h clone path branch base e"
  by (simp add: justified_def)

section \<open>Properties\<close>

text \<open>The clone's default branch follows the remote only on good evidence.  Preparing a clone moves HEAD,
  empties the index or forces the default branch only after \<open>git fetch\<close> and \<open>set-head\<close> both succeeded,
  neither having timed out, and only to a base \<open>remote/branch\<close> that git verified after them; the branch
  forced is that base's own.\<close>

theorem default_moves_when_fresh:
  assumes "ensure_shared_clone W root repo url [] = (h, r)" "e \<in> set h" "moves_default e"
  shows "\<exists>k j base. moved_to (shared_clone_path root repo) base e \<and> k + 1 < j \<and>
     done_at W h k (shared_clone_path root repo) fetch_args \<and> \<not> g_late W k \<and>
     done_at W h (k + 1) (shared_clone_path root repo) set_head_args \<and> \<not> g_late W (k + 1) \<and>
     done_at W h j (shared_clone_path root repo) [''rev-parse'', ''--verify'', ''-q'', base]"
proof -
  let ?p = "shared_clone_path root repo" and ?still = "adds (\<lambda>e. \<not> moves_default e)"
  let ?prep = "sh_seq (migrate_legacy W ?p (legacy_shared_clone_path root repo))
      (sh_seq (sh_bind (is_clone W ?p) (\<lambda>here. if here then sh_ret () else make_clone W ?p repo url))
      (sh_seq (git W True False True ?p [''config'', ''gc.auto'', ''0''])
        (git W True False True ?p [''config'', ''worktree.useRelativePaths'', ''true''])))"
  let ?sync = "sh_bind (fetch W ?p) (\<lambda>fresh. if fresh then sync_default_branch W ?p else sh_ret ())"
  have prep: "?still ?prep"
    unfolding is_clone_def by (intro adds_rules still_migrate still_clone) simp_all
  have "ensure_shared_clone W root repo url = sh_seq ?prep (sh_seq ?sync (sh_ret ?p))"
    by (rule ext) (simp add: ensure_shared_clone_def Let_def sh_seq_def sh_bind_def split: prod.split sum.split)
  with assms(1) have "sh_seq ?prep (sh_seq ?sync (sh_ret ?p)) [] = (h, r)" by simp
  then show ?thesis
  proof (cases rule: sh_seqE)
    case (raised x)
    from adds_log [OF prep raised(1)] assms(2,3) show ?thesis by auto
  next
    case (went_on h1 x)
    from adds_log [OF prep went_on(1)] have h1: "\<forall>e \<in> set h1. \<not> moves_default e" by auto
    obtain r' where sync: "?sync h1 = (h, r')"
      using went_on(2) by (elim sh_seqE) (auto simp: sh_ret_def)
    then show ?thesis
    proof (cases rule: sh_bindE)
      case (raised y)
      from adds_log [OF still_fetch raised(1) h1] assms(2,3) show ?thesis by auto
    next
      case (went_on h2 fresh)
      note h2 = adds_log [OF still_fetch went_on(1) h1]
      with went_on(2) assms(2,3) have fresh: fresh "sync_default_branch W ?p h2 = (h, r')"
        by (auto simp: sh_ret_def split: if_splits)
      have went_on_fresh: "fetch W ?p h1 = (h2, Inr True)" using went_on(1) fresh(1) by simp
      from sync_moves [OF fresh(2)] obtain v where v: "h = h2 @ v"
        "\<forall>e \<in> set v. moves_default e \<longrightarrow> (\<exists>base k. length h2 \<le> k \<and>
           done_at W h k ?p [''rev-parse'', ''--verify'', ''-q'', base] \<and> moved_to ?p base e)" by blast
      with assms(2,3) h2 obtain base k where "length h2 \<le> k"
        "done_at W h k ?p [''rev-parse'', ''--verify'', ''-q'', base]" "moved_to ?p base e" by auto
      moreover from fetch_fresh [OF went_on_fresh] have "done_at W h (length h1) ?p fetch_args"
        "done_at W h (Suc (length h1)) ?p set_head_args" "length h2 = Suc (Suc (length h1))"
        unfolding v(1) by (blast intro: done_at_append, blast intro: done_at_append, simp)
      ultimately show ?thesis using fetch_fresh [OF went_on_fresh]
        by (intro exI [of _ "length h1"] exI [of _ k] exI [of _ base]) simp
    qed
  qed
qed

definition a_git :: git_world where
  "a_git = \<lparr>g_answer = (\<lambda>n cwd args. if args = [''symbolic-ref'', ''--short'', ''refs/remotes/origin/HEAD''] then Done 0 ''origin/main''
       else if take 2 args = [''branch'', ''--list''] then Done 0 [] else Done 0 ''abc''),
     g_late = (\<lambda>_. False), g_exists = (\<lambda>_ p. p = ''/r/projects/o__n/repo/.git''), g_refuses = (\<lambda>_. False)\<rparr>"

lemma a_clone_prepared:
  "ensure_shared_clone a_git ''/r'' ''o/n'' None [] =
    (let p = ''/r/projects/o__n/repo'' in
     ([Git p [''config'', ''gc.auto'', ''0''] True, Git p [''config'', ''worktree.useRelativePaths'', ''true''] True,
       Git p fetch_args True, Git p set_head_args True,
       Git p [''symbolic-ref'', ''--short'', ''refs/remotes/origin/HEAD''] True,
       Git p [''rev-parse'', ''--verify'', ''-q'', ''origin/main''] True, Git p [''rev-parse'', ''origin/main''] True,
       Git p [''update-ref'', ''--no-deref'', ''HEAD'', ''abc''] False, Git p [''read-tree'', ''--empty''] False,
       Git p [''branch'', ''-f'', ''main'', ''origin/main''] False], Inr p))"
  by code_simp

theorem default_moves_when_fresh_witness:
  "\<exists>k. done_at a_git (fst (ensure_shared_clone a_git ''/r'' ''o/n'' None [])) k ''/r/projects/o__n/repo'' fetch_args"
proof -
  have p: "shared_clone_path ''/r'' ''o/n'' = ''/r/projects/o__n/repo''" by code_simp
  have "Git ''/r/projects/o__n/repo'' [''branch'', ''-f'', ''main'', ''origin/main''] False
      \<in> set (fst (ensure_shared_clone a_git ''/r'' ''o/n'' None []))"
    by (simp add: a_clone_prepared Let_def)
  from default_moves_when_fresh [OF prod.collapse [symmetric] this, unfolded p] show ?thesis by auto
qed

text \<open>A branch that exists is never created anew or re-based, and a worktree that is on its branch is never
  touched.  Every command of \<open>worktree_add\<close> either only asks, or removes a worktree whose HEAD git reported
  not to be the branch, or adds the worktree: on the existing branch when git listed it, with a new branch
  from the base only when git listed none.  The result False means that only questions were asked, True
  that the addition, its last command, succeeded.\<close>

theorem worktree_add_careful:
  assumes "worktree_add W clone path branch base h = (h', r)"
  shows "\<exists>v. h' = h @ v \<and> (\<forall>e \<in> set v. justified W h' clone path branch base e) \<and>
    (r = Inr False \<longrightarrow> (\<forall>e \<in> set v. asks clone path branch base e)) \<and>
    (r = Inr True \<longrightarrow> (\<exists>out o'. last v = Git clone (right_add out path branch base) True \<and>
       g_answer W (length h' - 1) clone (right_add out path branch base) = Done 0 o'))"
proof -
  from assms have "sh_bind (first_checks W clone path branch base) (\<lambda>there.
      if there then sh_ret False else sh_seq (clear_stale W clone path) (add_tree W clone path branch base)) h = (h', r)"
    by (simp add: worktree_add_split)
  then show ?thesis
  proof (cases rule: sh_bindE)
    case (raised e)
    from addsE [OF asks_first raised(1)] raised(2) asks_justified show ?thesis
      by (metis sum.distinct(1))
  next
    case (went_on h1 there)
    from addsE [OF asks_first went_on(1)] obtain u
      where u: "h1 = h @ u" "\<forall>e \<in> set u. asks clone path branch base e" .
    show ?thesis
    proof (cases there)
      case True
      with went_on(2) u show ?thesis by (auto simp: sh_ret_def asks_justified)
    next
      case False
      with went_on have n: "first_checks W clone path branch base h = (h1, Inr False)"
        "sh_seq (clear_stale W clone path) (add_tree W clone path branch base) h1 = (h', r)" by simp_all
      from n(2) show ?thesis
      proof (cases rule: sh_seqE)
        case (raised e)
        from cleared_justified [OF n(1) raised(1)] raised(2) u show ?thesis
          by (auto simp: asks_justified)
      next
        case (went_on h2 x)
        from cleared_justified [OF n(1) went_on(1)] obtain w
          where w: "h2 = h1 @ w" "\<forall>e \<in> set w. justified W h2 clone path branch base e" by blast
        from add_tree_justified [OF went_on(2)] obtain v where v: "h' = h2 @ v"
          "\<forall>e \<in> set v. justified W h' clone path branch base e" "r \<noteq> Inr False"
          "r = Inr True \<longrightarrow> (\<exists>out o'. v \<noteq> [] \<and> last v = Git clone (right_add out path branch base) True \<and>
             g_answer W (length h' - 1) clone (right_add out path branch base) = Done 0 o')" by blast
        have "\<forall>e \<in> set w. justified W h' clone path branch base e"
          unfolding v(1) using w(2) justified_later by blast
        with u w v show ?thesis
          by (intro exI [of _ "u @ w @ v"]) (auto simp: asks_justified)
      qed
    qed
  qed
qed

theorem worktree_add_careful_witness:
  "justified a_git (fst (worktree_add a_git ''/c'' ''/w/x'' ''b'' ''origin/main'' [])) ''/c'' ''/w/x'' ''b'' ''origin/main''
     (last (fst (worktree_add a_git ''/c'' ''/w/x'' ''b'' ''origin/main'' [])))"
proof -
  have "fst (worktree_add a_git ''/c'' ''/w/x'' ''b'' ''origin/main'' []) \<noteq> []" by code_simp
  with worktree_add_careful [OF prod.collapse [symmetric], of a_git "''/c''" "''/w/x''" "''b''" "''origin/main''" "[]"]
  show ?thesis by auto
qed

lemma a_new_worktree:
  "worktree_add a_git ''/c'' ''/w/x'' ''b'' ''origin/main'' [] =
     ([Mkdir ''/w'', Git ''/c'' [''branch'', ''--list'', ''b''] True, Git ''/c'' [''branch'', ''--list'', ''b''] True,
       Git ''/c'' (add_new ''/w/x'' ''b'' ''origin/main'') True], Inr True)"
  by code_simp

text \<open>A fetch that fails or times out is no error: the clone is used as it is.  A clone that times out is.\<close>

lemma late_fetch_proceeds:
  "g_late W (length h) \<Longrightarrow> fetch W c h = (h @ [Git c fetch_args True], Inr False)"
  by (simp add: fetch_def git_def)

lemma late_clone_raises:
  assumes "\<not> g_refuses W (length h)" "g_late W (Suc (length h))"
  shows "snd (make_clone W path repo url h) = Inl Too_late"
  using assms by (simp add: make_clone_def Let_def sh_seq_def sh_bind_def on_disk_def git_def)

end
