(* ===== verification/Review_Stats.thy ===== *)
theory Review_Stats
  imports Store_Facts
begin

text \<open>
  Turns per review (\<open>agentd/src/agentd/review_stats.py\<close>) over the store's rows.  Reports only:
  inline comments are counted on the review they name, turns on the delivery that woke them.
\<close>

section \<open>Readings\<close>

definition add_num :: "int option \<Rightarrow> int list \<Rightarrow> int list" where
  "add_num raw nums = (case raw of None \<Rightarrow> nums | Some n \<Rightarrow> if n \<in> set nums then nums else nums @ [n])"

definition session_issue_nums :: "session_row \<Rightarrow> int list" where
  "session_issue_nums sess =
     add_num (s_feature_pr sess) (add_num (s_design_pr sess) (add_num (Some (s_issue sess)) []))"

definition payload_dict :: "json option \<Rightarrow> dict" where
  "payload_dict blob = (case blob of Some (JObj d) \<Rightarrow> d | _ \<Rightarrow> [])"

text \<open>\<open>_as_int\<close>.\<close>

definition as_int :: "json \<Rightarrow> int option" where
  "as_int v = (if v = JNull \<or> v = JStr [] then None else json_int v)"

definition is_empty_actions :: "string option \<Rightarrow> bool" where
  "is_empty_actions a \<longleftrightarrow> a \<in> {Some ''[]'', Some [], None}"

section \<open>One session\<close>

record submitted =
  sub_delivery :: string
  sub_review :: "int option"
  sub_pr :: "int option"
  sub_state :: string

record tally =
  y_submitted :: "submitted list"
  y_comments :: "int option list"
  y_threads :: nat
  y_issue_comments :: nat

definition submission_of :: "delivery \<Rightarrow> submitted" where
  "submission_of row =
     (let payload = payload_dict (d_payload row);
          review = json_obj (dget payload ''review'');
          pr_obj = json_obj (dget payload ''pull_request'')
      in \<lparr>sub_delivery = delivery_id row, sub_review = as_int (dget review ''id''),
          sub_pr = (case as_int (dget pr_obj ''number'') of None \<Rightarrow> d_issue row | Some n \<Rightarrow> Some n),
          sub_state = py_lower (str_or_empty (dget review ''state''))\<rparr>)"

text \<open>One turn of the loop over the deliveries.\<close>

definition tally_row :: "tally \<Rightarrow> delivery \<Rightarrow> tally" where
  "tally_row y row =
     (if d_event row = ''pull_request_review'' \<and> d_action row = Some ''submitted''
      then y\<lparr>y_submitted := y_submitted y @ [submission_of row]\<rparr>
      else if d_event row = ''pull_request_review_comment'' \<and> d_action row = Some ''created''
      then y\<lparr>y_comments := y_comments y @
             [as_int (dget2 (payload_dict (d_payload row)) ''comment'' ''pull_request_review_id'')]\<rparr>
      else if d_event row = ''pull_request_review_thread'' then y\<lparr>y_threads := Suc (y_threads y)\<rparr>
      else if d_event row = ''issue_comment'' \<and> d_action row = Some ''created''
      then y\<lparr>y_issue_comments := Suc (y_issue_comments y)\<rparr>
      else y)"

definition tally_rows :: "delivery list \<Rightarrow> tally" where
  "tally_rows = foldl tally_row \<lparr>y_submitted = [], y_comments = [], y_threads = 0, y_issue_comments = 0\<rparr>"

definition submitted_ids :: "tally \<Rightarrow> int list" where
  "submitted_ids y = List.map_filter sub_review (y_submitted y)"

text \<open>\<open>comments_by_review\<close> and \<open>unmatched\<close>: a comment counts on a review that was submitted.\<close>

definition comments_on :: "tally \<Rightarrow> int \<Rightarrow> nat" where
  "comments_on y rid = (if rid \<in> set (submitted_ids y) then count_list (y_comments y) (Some rid) else 0)"

definition unmatched :: "tally \<Rightarrow> nat" where
  "unmatched y = length (filter (\<lambda>r. case r of None \<Rightarrow> True | Some rid \<Rightarrow> rid \<notin> set (submitted_ids y)) (y_comments y))"

record review_stat =
  rs_review :: "int option"
  rs_pr :: "int option"
  rs_state :: string
  rs_inline :: nat
  rs_turn :: "string option"
  rs_woken :: nat
  rs_empty :: nat

text \<open>The turns of a delivery; an empty delivery id groups no turn.\<close>

definition turns_of :: "turn_row list \<Rightarrow> string \<Rightarrow> turn_row list" where
  "turns_of ts did = sort_key t_started (filter (\<lambda>t. t_delivery t = Some did \<and> did \<noteq> []) ts)"

definition review_stat_of :: "tally \<Rightarrow> turn_row list \<Rightarrow> submitted \<Rightarrow> review_stat" where
  "review_stat_of y ts item =
     (let tlist = turns_of ts (sub_delivery item)
      in \<lparr>rs_review = sub_review item, rs_pr = sub_pr item, rs_state = sub_state item,
          rs_inline = (case sub_review item of None \<Rightarrow> 0 | Some rid \<Rightarrow> comments_on y rid),
          rs_turn = (case tlist of [] \<Rightarrow> None | t # _ \<Rightarrow> Some (turn_id t)),
          rs_woken = length tlist,
          rs_empty = length (filter (\<lambda>t. is_empty_actions (t_actions t)) tlist)\<rparr>)"

record session_stats =
  ss_session :: string
  ss_reviews :: "review_stat list"
  ss_threads :: nat
  ss_issue_comments :: nat
  ss_unmatched :: nat
  ss_turns :: nat
  ss_empty :: nat

definition collect_session_review_stats :: "store \<Rightarrow> session_row \<Rightarrow> session_stats" where
  "collect_session_review_stats st sess =
     (let y = tally_rows (list_deliveries_for (s_repo sess) (session_issue_nums sess) st);
          ts = list_turns (session_key sess) st
      in \<lparr>ss_session = session_key sess, ss_reviews = map (review_stat_of y ts) (y_submitted y),
          ss_threads = y_threads y, ss_issue_comments = y_issue_comments y, ss_unmatched = unmatched y,
          ss_turns = length ts, ss_empty = length (filter (\<lambda>t. is_empty_actions (t_actions t)) ts)\<rparr>)"

definition collect_review_stats :: "store \<Rightarrow> session_row list \<Rightarrow> session_stats list" where
  "collect_review_stats st = map (collect_session_review_stats st)"

section \<open>Facts\<close>

definition is_submission :: "delivery \<Rightarrow> bool" where
  "is_submission row \<longleftrightarrow> d_event row = ''pull_request_review'' \<and> d_action row = Some ''submitted''"

definition is_inline_comment :: "delivery \<Rightarrow> bool" where
  "is_inline_comment row \<longleftrightarrow> d_event row = ''pull_request_review_comment'' \<and> d_action row = Some ''created''"

lemma submitted_of_rows: "y_submitted (tally_rows rows) = map submission_of (filter is_submission rows)"
proof -
  have "y_submitted (foldl tally_row y rows) = y_submitted y @ map submission_of (filter is_submission rows)" for y
    by (induction rows arbitrary: y) (auto simp: tally_row_def is_submission_def)
  then show ?thesis by (simp add: tally_rows_def)
qed

lemma comments_of_rows: "length (y_comments (tally_rows rows)) = length (filter is_inline_comment rows)"
proof -
  have "length (y_comments (foldl tally_row y rows)) = length (y_comments y) + length (filter is_inline_comment rows)" for y
    by (induction rows arbitrary: y) (auto simp: tally_row_def is_inline_comment_def)
  then show ?thesis by (simp add: tally_rows_def)
qed

text \<open>Rows counted under distinct keys are counted at most once, and exactly once when every row has one.\<close>

lemma one_key: "distinct ids \<Longrightarrow> (\<Sum>i\<leftarrow>ids. if x = Some i \<and> Q i then 1 else 0) =
    (case x of None \<Rightarrow> 0 | Some i \<Rightarrow> if i \<in> set ids \<and> Q i then 1 else (0 :: nat))"
  by (induction ids) (auto split: option.split)

lemma sum_by_key:
  "distinct ids \<Longrightarrow> (\<Sum>i\<leftarrow>ids. length (filter (\<lambda>x. k x = Some i \<and> Q i x) xs)) =
     length (filter (\<lambda>x. case k x of None \<Rightarrow> False | Some i \<Rightarrow> i \<in> set ids \<and> Q i x) xs)"
proof (induction xs)
  case (Cons x xs)
  have "(\<Sum>i\<leftarrow>ids. length (filter (\<lambda>x. k x = Some i \<and> Q i x) (x # xs))) =
      (\<Sum>i\<leftarrow>ids. (if k x = Some i \<and> Q i x then 1 else 0) + length (filter (\<lambda>x. k x = Some i \<and> Q i x) xs))"
    by (rule arg_cong [where f = sum_list]) simp
  also have "\<dots> = (\<Sum>i\<leftarrow>ids. if k x = Some i \<and> Q i x then 1 else 0) +
      (\<Sum>i\<leftarrow>ids. length (filter (\<lambda>x. k x = Some i \<and> Q i x) xs))"
    by (rule sum_list_addf)
  finally show ?case
    unfolding one_key [OF Cons.prems, of "k x" "\<lambda>i. Q i x"] Cons.IH [OF Cons.prems]
    by (auto split: option.split)
qed simp

lemma sum_by_key_le:
  assumes "distinct ids" "\<And>i x. Q i x \<Longrightarrow> R x"
  shows "(\<Sum>i\<leftarrow>ids. length (filter (\<lambda>x. k x = Some i \<and> Q i x) xs)) \<le> length (filter R xs)"
  unfolding sum_by_key [OF assms(1)]
  by (induction xs) (auto split: option.split dest: assms(2))

lemma sum_over_some:
  "(\<Sum>x\<leftarrow>xs. case f x of None \<Rightarrow> 0 | Some i \<Rightarrow> g i) = (\<Sum>i\<leftarrow>List.map_filter f xs. (g i :: nat))"
  by (induction xs) (auto simp: List.map_filter_simps split: option.split)

lemma count_as_filter: "count_list xs (Some i) = length (filter (\<lambda>x. x = Some i \<and> True) xs)"
  by (induction xs) auto

lemma turns_of_such: "length (filter P (turns_of ts did)) =
    length (filter (\<lambda>t. t_delivery t = Some did \<and> did \<noteq> [] \<and> P t) ts)"
  by (simp add: turns_of_def filter_sort conj_comms)

lemma distinct_map_sort: "distinct (map f (sort_key k xs)) = distinct (map f xs)"
  by (simp add: distinct_map)

text \<open>Every comment is on a submitted review or unmatched.\<close>

lemma comments_split:
  assumes "distinct (submitted_ids y)"
  shows "(\<Sum>i\<leftarrow>submitted_ids y. comments_on y i) + unmatched y = length (y_comments y)"
proof -
  have "(\<Sum>i\<leftarrow>submitted_ids y. comments_on y i) = (\<Sum>i\<leftarrow>submitted_ids y. count_list (y_comments y) (Some i))"
    by (rule arg_cong [where f = sum_list], rule map_cong) (simp_all add: comments_on_def)
  also have "\<dots> = length (filter (\<lambda>x. case x of None \<Rightarrow> False | Some i \<Rightarrow> i \<in> set (submitted_ids y)) (y_comments y))"
    unfolding count_as_filter using sum_by_key [OF assms, of "\<lambda>x. x" "\<lambda>_ _. True"]
    by (simp cong: option.case_cong)
  finally have "(\<Sum>i\<leftarrow>submitted_ids y. comments_on y i) =
      length (filter (\<lambda>x. case x of None \<Rightarrow> False | Some i \<Rightarrow> i \<in> set (submitted_ids y)) (y_comments y))" .
  moreover have "unmatched y = length (filter (\<lambda>x. \<not> (case x of None \<Rightarrow> False | Some i \<Rightarrow> i \<in> set (submitted_ids y))) (y_comments y))"
    unfolding unmatched_def by (rule arg_cong [where f = length], rule filter_cong) (auto split: option.split)
  ultimately show ?thesis by (simp add: sum_length_filter_compl)
qed

section \<open>Properties\<close>

text \<open>The report accounts for everything once.  When no review was submitted twice, the inline comments
  shown on the reviews and the unmatched ones together are all the inline comments of the session's issue
  and pull requests; and the turns woken by the reviews, like the empty ones among them, are never more
  than the session's turns and empty turns.\<close>

theorem stats_account_once:
  assumes "wf_store st" "S = collect_session_review_stats st sess"
    and "rows = list_deliveries_for (s_repo sess) (session_issue_nums sess) st"
    and "distinct (List.map_filter (\<lambda>d. sub_review (submission_of d)) (filter is_submission rows))"
  shows "(\<Sum>r\<leftarrow>ss_reviews S. rs_inline r) + ss_unmatched S = length (filter is_inline_comment rows) \<and>
    (\<Sum>r\<leftarrow>ss_reviews S. rs_woken r) \<le> ss_turns S \<and> (\<Sum>r\<leftarrow>ss_reviews S. rs_empty r) \<le> ss_empty S"
proof -
  let ?y = "tally_rows rows" and ?ts = "list_turns (session_key sess) st"
  let ?dids = "map sub_delivery (y_submitted ?y)"
  have S: "ss_reviews S = map (review_stat_of ?y ?ts) (y_submitted ?y)" "ss_unmatched S = unmatched ?y"
    "ss_turns S = length ?ts" "ss_empty S = length (filter (\<lambda>t. is_empty_actions (t_actions t)) ?ts)"
    unfolding assms(2,3) by (simp_all add: collect_session_review_stats_def Let_def)
  have ids: "distinct (submitted_ids ?y)"
    using assms(4) by (simp add: submitted_ids_def submitted_of_rows List.map_filter_def comp_def filter_map)
  have "distinct (map delivery_id rows)"
    using assms(1) unfolding assms(3) list_deliveries_for_def wf_store_def
    by (simp add: distinct_map_sort distinct_map_filter)
  then have dids: "distinct ?dids"
    by (simp add: submitted_of_rows comp_def submission_of_def Let_def distinct_map_filter)
  have "(\<Sum>r\<leftarrow>ss_reviews S. rs_inline r) = (\<Sum>i\<leftarrow>submitted_ids ?y. comments_on ?y i)"
    unfolding S submitted_ids_def sum_over_some [symmetric]
    by (simp add: comp_def review_stat_of_def Let_def)
  then have 1: "(\<Sum>r\<leftarrow>ss_reviews S. rs_inline r) + ss_unmatched S = length (filter is_inline_comment rows)"
    using comments_split [OF ids] S(2) comments_of_rows [of rows] by simp
  have "(\<Sum>r\<leftarrow>ss_reviews S. rs_woken r) = (\<Sum>d\<leftarrow>?dids. length (filter (\<lambda>t. t_delivery t = Some d \<and> d \<noteq> []) ?ts))"
    unfolding S by (simp add: comp_def review_stat_of_def Let_def turns_of_def)
  then have 2: "(\<Sum>r\<leftarrow>ss_reviews S. rs_woken r) \<le> ss_turns S"
    using sum_by_key_le [OF dids, of "\<lambda>d _. d \<noteq> []" "\<lambda>_. True" t_delivery ?ts] S(3) by simp
  have "(\<Sum>r\<leftarrow>ss_reviews S. rs_empty r) = (\<Sum>d\<leftarrow>?dids. length (filter
      (\<lambda>t. t_delivery t = Some d \<and> d \<noteq> [] \<and> is_empty_actions (t_actions t)) ?ts))"
    unfolding S by (simp add: comp_def review_stat_of_def Let_def turns_of_such)
  then have 3: "(\<Sum>r\<leftarrow>ss_reviews S. rs_empty r) \<le> ss_empty S"
    using sum_by_key_le [OF dids, of "\<lambda>d t. d \<noteq> [] \<and> is_empty_actions (t_actions t)"
        "\<lambda>t. is_empty_actions (t_actions t)" t_delivery ?ts] S(4) by simp
  from 1 2 3 show ?thesis by blast
qed

definition a_row :: "string \<Rightarrow> string \<Rightarrow> string \<Rightarrow> dict \<Rightarrow> delivery" where
  "a_row did event action data = \<lparr>delivery_id = did, d_event = event, d_action = Some action, d_repo = ''o/r'',
     d_issue = Some 5, d_sender = ''x'', d_received = 1, d_payload = Some (JObj data), d_status = Done, d_next = 0, d_defers = 0\<rparr>"

text \<open>A review, a comment of it and a comment of another review; a turn that the review woke.\<close>

definition a_sess :: session_row where
  "a_sess = \<lparr>session_key = ''o/r#5'', s_project = ''o/r'', s_repo = ''o/r'', s_issue = 5, s_state = CODE_REVIEW, s_paused = None,
     s_resume = None, s_open_threads = None, s_architect = ''a'', s_developer = ''d'', s_locked = True,
     s_design_pr = None, s_feature_pr = None, s_design_head = None, s_feature_head = None, s_turns = 1,
     s_consec = 0, s_rounds = 0, s_fp = None, s_fp_repeat = 0, s_zero_threads = 0, s_silent = 0,
     s_verified = None, s_class = None, s_closed_esc = None, s_created = 0, s_updated = 0\<rparr>"

definition a_reviewed :: store where
  "a_reviewed = empty_store\<lparr>sessions := [a_sess],
     turns := [\<lparr>turn_id = ''t1'', t_session = ''o/r#5'', t_role = ''developer'', t_delivery = Some ''d1'', t_started = 2,
       t_ended = Some 3, t_status = Some ''ok'', t_summary = None, t_actions = Some ''[]'', t_resumes = 0\<rparr>],
     deliveries := [a_row ''d1'' ''pull_request_review'' ''submitted'' [(''review'', JObj [(''id'', JNum 7)])],
       a_row ''d2'' ''pull_request_review_comment'' ''created'' [(''comment'', JObj [(''pull_request_review_id'', JNum 7)])],
       a_row ''d3'' ''pull_request_review_comment'' ''created'' [(''comment'', JObj [(''pull_request_review_id'', JNum 8)])]]\<rparr>"

lemma a_report:
  "collect_session_review_stats a_reviewed a_sess = \<lparr>ss_session = ''o/r#5'',
     ss_reviews = [\<lparr>rs_review = Some 7, rs_pr = Some 5, rs_state = [], rs_inline = 1, rs_turn = Some ''t1'', rs_woken = 1,
       rs_empty = 1\<rparr>],
     ss_threads = 0, ss_issue_comments = 0, ss_unmatched = 1, ss_turns = 1, ss_empty = 1\<rparr>"
  by code_simp

theorem stats_account_once_witness:
  "(\<Sum>r\<leftarrow>ss_reviews (collect_session_review_stats a_reviewed a_sess). rs_inline r) +
     ss_unmatched (collect_session_review_stats a_reviewed a_sess) = 2"
proof -
  have "wf_store a_reviewed"
    by (simp add: wf_store_def a_reviewed_def empty_store_def a_row_def a_sess_def)
  moreover have "distinct (List.map_filter (\<lambda>d. sub_review (submission_of d)) (filter is_submission
      (list_deliveries_for (s_repo a_sess) (session_issue_nums a_sess) a_reviewed)))" by code_simp
  moreover have "length (filter is_inline_comment
      (list_deliveries_for (s_repo a_sess) (session_issue_nums a_sess) a_reviewed)) = 2" by code_simp
  ultimately show ?thesis
    using stats_account_once [OF _ refl refl, of a_reviewed a_sess] by metis
qed

end
