(* ===== verification/Agentctl.thy ===== *)
theory Agentctl
  imports Review_Stats Gc_Facts Reconcile_Facts
begin

text \<open>
  The operator's command line (\<open>agentd/src/agentctl/__main__.py\<close>): each command reads the store the gateway
  works on, and one command writes to it.  The keychain's token, GitHub's answers, and the outside of the
  garbage collection and of the reconciler are parameters; the JSON text that is printed stays a value.
\<close>

section \<open>Sessions\<close>

text \<open>\<open>store.get_session(key) or row\<close>.\<close>

definition full_row :: "store \<Rightarrow> session_row \<Rightarrow> session_row" where
  "full_row st row = (case get_session (session_key row) st of None \<Rightarrow> row | Some s \<Rightarrow> s)"

text \<open>\<open>_resolve_session\<close>.\<close>

definition find_session :: "store \<Rightarrow> string \<Rightarrow> session_row option" where
  "find_session st key0 =
     (let key = py_strip key0
      in if key = [] then None
         else if CHR ''#'' \<in> set key then get_session key st
         else (case py_int key of
                 None \<Rightarrow> get_session key st
               | Some issue \<Rightarrow> find (\<lambda>s. s_issue s = issue) (map (full_row st) (list_sessions st))))"

definition ljust :: "nat \<Rightarrow> string \<Rightarrow> string" where
  "ljust w s = s @ replicate (w - length s) CHR '' ''"

definition pr_placeholder :: "int option \<Rightarrow> string" where
  "pr_placeholder v = (case v of None \<Rightarrow> ''-'' | Some n \<Rightarrow> dec n)"

text \<open>The rows of \<open>_print_live_sessions\<close>, newest first and by key among equals, and their lines.\<close>

definition live_rows :: "store \<Rightarrow> session_row list" where
  "live_rows st = sort_key (\<lambda>r. - s_updated r) (sort_key session_key (map (full_row st) (list_nonterminal_sessions st)))"

definition widest :: "nat list \<Rightarrow> nat" where
  "widest ns = foldr max ns 0"

definition live_line :: "nat \<Rightarrow> nat \<Rightarrow> session_row \<Rightarrow> string" where
  "live_line key_w state_w r =
     ljust key_w (session_key r) @ ''  '' @ ljust state_w (state_name (s_state r)) @ ''  '' @
     ''turns='' @ dec (s_turns r) @ ''  silent='' @ dec (s_silent r) @ ''  '' @
     ''design_pr='' @ pr_placeholder (s_design_pr r) @ ''  '' @
     ''feature_pr='' @ pr_placeholder (s_feature_pr r)"

definition print_live_sessions :: "store \<Rightarrow> string list" where
  "print_live_sessions st =
     (let rows = live_rows st
      in map (live_line (widest (map (\<lambda>r. length (session_key r)) rows))
            (widest (map (\<lambda>r. length (state_name (s_state r))) rows))) rows)"

section \<open>Status\<close>

record status_view =
  sv_total :: nat
  sv_queued :: nat
  sv_by_status :: "(dstatus \<times> nat) list"
  sv_paused :: bool
  sv_reason :: "string option"
  sv_updated :: int
  sv_sessions :: nat
  sv_blocks :: "block_row list"

definition by_status :: "store \<Rightarrow> (dstatus \<times> nat) list" where
  "by_status st =
     filter (\<lambda>x. snd x \<noteq> 0) (map (\<lambda>s. (s, count_by_status st s)) [Deferred, Done, Dropped, Queued, Routed])"

definition status_snapshot :: "store \<Rightarrow> status_view" where
  "status_snapshot st =
     \<lparr>sv_total = delivery_count st, sv_queued = queue_depth st, sv_by_status = by_status st,
      sv_paused = disk_paused (breaker st), sv_reason = br_reason (breaker st), sv_updated = br_updated (breaker st),
      sv_sessions = length (sessions st),
      sv_blocks = sort_key b_opened (filter (\<lambda>b. b_resolved b = None) (blocks st))\<rparr>"

section \<open>Commands\<close>

record ctl_world =
  c_token :: "string option"
  c_get :: http
  c_patch :: request
  c_log :: "string option"
  c_outside :: outside
  c_raw :: dict
  c_watch :: watch
  c_loop :: loop
  c_integrity :: string

datatype ctl_out =
    Exit int | Crash string
  | Lines "string list"
  | Status status_view nat
  | Session_rows "session_row list"
  | Would_quarantine nat nat
  | Quarantined nat "(dstatus \<times> nat) list"
  | Preview string bool bool "string option"
  | Unchanged string
  | Written string bool
  | Stats "session_stats list"
  | Gc_report Gc.pass "string option"
  | Reconcile_report "sup_exn + report"

datatype ctl_cmd =
    Show_status | Sessions bool | Logs int | Quarantine_deferred "int option" bool
  | Reconcile_now bool | Gc_now | Write_verification string bool | Review_stats "string option"

text \<open>\<open>lines[-n:]\<close> of the log; \<open>-0\<close> is the whole list, and a negative \<open>n\<close> drops from the front.\<close>

definition last_lines :: "int \<Rightarrow> string list \<Rightarrow> string list" where
  "last_lines n xs =
     (if n = 0 then xs else if 0 < n then drop (length xs - nat n) xs else drop (nat (- n)) xs)"

definition ctl_logs :: "ctl_world \<Rightarrow> int \<Rightarrow> ctl_out" where
  "ctl_logs C n = (case c_log C of None \<Rightarrow> Exit 1 | Some txt \<Rightarrow> Lines (last_lines n (splitlines False [] txt)))"

definition ctl_quarantine :: "int option \<Rightarrow> bool \<Rightarrow> store \<Rightarrow> store \<times> ctl_out" where
  "ctl_quarantine cutoff dry st =
     (if dry then (st, Would_quarantine (count_by_status st Deferred) (count_deferred cutoff st))
      else (case quarantine_deferred cutoff st of (st', n) \<Rightarrow> (st', Quarantined n (by_status st'))))"

definition pr_json :: "int option \<Rightarrow> json" where
  "pr_json v = (case v of None \<Rightarrow> JNull | Some n \<Rightarrow> JNum n)"

definition verification_body :: "session_row \<Rightarrow> string \<Rightarrow> string" where
  "verification_body sess current =
     (let d = pr_json (s_design_pr sess); f = pr_json (s_feature_pr sess)
      in upsert_verification_block current (default_steps_for_session d f)
           (filter (\<lambda>p. p \<noteq> JNull \<and> p \<noteq> JStr []) [d, f]) Nc_none None True)"

text \<open>\<open>write-verification\<close>: the outcome, and the body of the request it sends, if any.\<close>

definition ctl_write_verification :: "ctl_world \<Rightarrow> string \<Rightarrow> bool \<Rightarrow> store \<Rightarrow> ctl_out \<times> string option" where
  "ctl_write_verification C key dry st =
     (case find_session st key of
        None \<Rightarrow> (Exit 1, None)
      | Some sess \<Rightarrow>
          (let repo = s_repo sess; n = s_issue sess;
               token = (if c_token C = Some [] then None else c_token C)
           in if token = None \<and> \<not> dry then (Exit 1, None)
              else case (if token = None then Inr [] else get_issue_body repo n token (c_get C)) of
                Inl e \<Rightarrow> (Crash e, None)
              | Inr current \<Rightarrow>
                  (let new_body = verification_body sess current;
                       had = (extract_verification_block current \<noteq> None)
                   in if dry then (Preview (session_key sess) had (new_body \<noteq> current) (extract_verification_block new_body), None)
                      else if new_body = current \<and> had then (Unchanged (session_key sess), None)
                      else (case patch_issue_body repo n new_body token (c_patch C) of
                              Inl e \<Rightarrow> (Crash e, Some new_body)
                            | Inr _ \<Rightarrow> (Written (session_key sess) had, Some new_body)))))"

definition ctl_review_stats :: "string option \<Rightarrow> store \<Rightarrow> ctl_out" where
  "ctl_review_stats key st =
     (case key of
        None \<Rightarrow> Stats (collect_review_stats st (map (full_row st) (list_sessions st)))
      | Some k \<Rightarrow> (case find_session st k of None \<Rightarrow> Exit 1 | Some s \<Rightarrow> Stats (collect_review_stats st [s])))"

definition ctl_reconcile :: "ctl_world \<Rightarrow> bool \<Rightarrow> store \<Rightarrow> store \<times> ctl_out" where
  "ctl_reconcile C dry st =
     (if \<not> dry then (st, Exit 2)
      else if c_integrity C \<noteq> ''ok'' then (st, Exit 1)
      else (case reconcile_once (c_watch C) True ((c_loop C)\<lparr>db := st\<rparr>) of (l, r) \<Rightarrow> (db l, Reconcile_report r)))"

text \<open>\<open>main\<close>: the store afterwards, what is printed, and what is sent to GitHub.\<close>

definition ctl :: "ctl_world \<Rightarrow> ctl_cmd \<Rightarrow> store \<Rightarrow> store \<times> ctl_out \<times> string option" where
  "ctl C cmd st =
     (case cmd of
        Show_status \<Rightarrow> (st, Status (status_snapshot st) (count_hot_sessions st), None)
      | Sessions live \<Rightarrow>
          (st, (if live then Lines (print_live_sessions st) else Session_rows (map (full_row st) (list_sessions st))), None)
      | Logs n \<Rightarrow> (st, ctl_logs C n, None)
      | Quarantine_deferred cutoff dry \<Rightarrow> (case ctl_quarantine cutoff dry st of (st', out) \<Rightarrow> (st', out, None))
      | Reconcile_now dry \<Rightarrow> (case ctl_reconcile C dry st of (st', out) \<Rightarrow> (st', out, None))
      | Gc_now \<Rightarrow> (case collect_once (c_outside C) (c_raw C) True st of (p, e) \<Rightarrow> (g_store p, Gc_report p e, None))
      | Write_verification key dry \<Rightarrow> (case ctl_write_verification C key dry st of (out, text) \<Rightarrow> (st, out, text))
      | Review_stats key \<Rightarrow> (st, ctl_review_stats key st, None))"

section \<open>Facts\<close>

lemma full_row_same: "wf_store st \<Longrightarrow> s \<in> set (sessions st) \<Longrightarrow> full_row st s = s"
  by (simp add: full_row_def get_session_def wf_store_def find_key_distinct)

lemma quarantine_store:
  "fst (ctl_quarantine cutoff dry st) = (if dry then st else fst (quarantine_deferred cutoff st))"
  by (simp add: ctl_quarantine_def split: prod.split)

lemma reconcile_pure: "fst (ctl_reconcile C dry st) = st"
  using dry_reconcile_is_pure [of "c_watch C" "(c_loop C)\<lparr>db := st\<rparr>"]
  by (auto simp: ctl_reconcile_def split: prod.split)

lemma gc_pure: "collect_once W raw True st = (p, e) \<Longrightarrow> g_store p = st"
  using dry_gc_is_pure [of W raw st] by simp

lemma no_sort_change: "mset (sort_key f xs) = mset xs"
  by simp

lemma sent_body:
  assumes "snd (ctl_write_verification C key dry st) = Some text"
  shows "\<not> dry \<and> (\<exists>sess current tok. find_session st key = Some sess \<and> c_token C = Some tok \<and> tok \<noteq> [] \<and>
     get_issue_body (s_repo sess) (s_issue sess) (Some tok) (c_get C) = Inr current \<and>
     text = verification_body sess current \<and> \<not> (text = current \<and> extract_verification_block current \<noteq> None))"
  using assms
  by (auto simp: ctl_write_verification_def Let_def split: option.splits if_splits sum.splits)

section \<open>Properties\<close>

text \<open>The command line changes the store in one way only.  Every command, with every answer from outside,
  leaves the store as it is, except \<open>quarantine-deferred\<close> without a dry run, which does what the store's
  \<open>quarantine_deferred\<close> does; and a body is sent to GitHub only by \<open>write-verification\<close> without a dry
  run, with a token, for the session the key names, and it is the scaffold of the body just read.\<close>

theorem ctl_writes_only_that:
  "fst (ctl C cmd st) = (case cmd of Quarantine_deferred cutoff False \<Rightarrow> fst (quarantine_deferred cutoff st) | _ \<Rightarrow> st) \<and>
   (\<forall>text. snd (snd (ctl C cmd st)) = Some text \<longrightarrow>
      (\<exists>key sess current tok. cmd = Write_verification key False \<and> find_session st key = Some sess \<and>
         c_token C = Some tok \<and> tok \<noteq> [] \<and>
         get_issue_body (s_repo sess) (s_issue sess) (Some tok) (c_get C) = Inr current \<and>
         text = verification_body sess current))"
proof (cases cmd)
  case (Quarantine_deferred cutoff dry)
  with quarantine_store [of cutoff dry st] show ?thesis
    by (cases dry) (auto simp: ctl_def split: prod.split)
next
  case (Reconcile_now dry)
  with reconcile_pure [of C dry st] show ?thesis by (auto simp: ctl_def split: prod.split)
next
  case (Write_verification key dry)
  then have c: "fst (ctl C cmd st) = st" "snd (snd (ctl C cmd st)) = snd (ctl_write_verification C key dry st)"
    by (simp_all add: ctl_def split: prod.split)
  have "\<exists>key' sess current tok. cmd = Write_verification key' False \<and> find_session st key' = Some sess \<and>
      c_token C = Some tok \<and> tok \<noteq> [] \<and>
      get_issue_body (s_repo sess) (s_issue sess) (Some tok) (c_get C) = Inr current \<and>
      b = verification_body sess current" if "snd (ctl_write_verification C key dry st) = Some b" for b
    using sent_body [OF that] Write_verification by blast
  with c Write_verification show ?thesis by auto
next
  case Gc_now
  then show ?thesis by (auto simp: ctl_def split: prod.split dest: gc_pure)
qed (simp_all add: ctl_def)

text \<open>The live listing is complete and in order: it has one line for every session that is neither closed nor
  in teardown and no other, the most recently updated first, and by key among sessions of the same
  second.\<close>

theorem live_listing_complete:
  assumes "wf_store st"
  shows "mset (live_rows st) = mset (filter (\<lambda>s. s_state s \<notin> {CLOSED, TEARDOWN}) (sessions st)) \<and>
    length (print_live_sessions st) = length (filter (\<lambda>s. s_state s \<notin> {CLOSED, TEARDOWN}) (sessions st)) \<and>
    sorted_wrt (\<lambda>r r'. s_updated r > s_updated r' \<or> (s_updated r = s_updated r' \<and> session_key r \<le> session_key r'))
      (live_rows st)"
proof -
  let ?xs = "list_nonterminal_sessions st"
  have rows: "map (full_row st) ?xs = ?xs"
    by (rule map_idI) (auto simp: list_nonterminal_sessions_def full_row_same [OF assms])
  let ?le = "\<lambda>r r'. s_updated r > s_updated r' \<or> (s_updated r = s_updated r' \<and> session_key r \<le> session_key r')"
  have "sorted_wrt ?le (sort_key (\<lambda>r. - s_updated r) ys)" if "sorted (map session_key ys)" for ys
    using that
  proof (induction ys)
    case (Cons y ys)
    have "sorted_wrt ?le (insort_key (\<lambda>r. - s_updated r) y zs)"
      if "sorted_wrt ?le zs" "\<forall>z \<in> set zs. session_key y \<le> session_key z" for zs
      using that by (induction zs) (force simp: set_insort_key)+
    with Cons show ?case by simp
  qed simp
  from this [OF sorted_sort_key] have "sorted_wrt ?le (live_rows st)" unfolding live_rows_def .
  moreover have "mset (live_rows st) = mset ?xs" by (simp add: live_rows_def rows)
  moreover from this have "length (live_rows st) = length ?xs" by (rule mset_eq_length)
  ultimately show ?thesis
    by (simp add: list_nonterminal_sessions_def print_live_sessions_def Let_def)
qed

definition old_and_new :: store where
  "old_and_new = empty_store\<lparr>sessions :=
     [a_sess\<lparr>session_key := ''o/q#5'', s_repo := ''o/q'', s_state := CLOSED, s_updated := 9\<rparr>, a_sess]\<rparr>"

theorem live_listing_complete_witness: "length (print_live_sessions old_and_new) = 1"
proof -
  have "wf_store old_and_new" by (simp add: wf_store_def old_and_new_def empty_store_def a_sess_def)
  from live_listing_complete [OF this] show ?thesis by (simp add: old_and_new_def a_sess_def)
qed

lemma live_line_example:
  "print_live_sessions old_and_new = [''o/r#5  CODE_REVIEW  turns=1  silent=0  design_pr=-  feature_pr=-'']"
  by code_simp

text \<open>A bare issue number names the session that changed last, closed or not, although a live one has the same
  number.\<close>

lemma bare_number_finds_closed: "map_option s_state (find_session old_and_new ''5'') = Some CLOSED"
  by code_simp

definition bare_host :: outside where
  "bare_host = \<lparr>o_now = 100, o_root = ''/r'', o_is_dir = (\<lambda>_. False), o_is_file = (\<lambda>_. False), o_exists = (\<lambda>_. False),
     o_names = (\<lambda>_. None), o_mtime = (\<lambda>_. None), o_resolve = (\<lambda>_. None), o_git = (\<lambda>_ _. (1, [])),
     o_keeps = (\<lambda>_. False), o_docker = (\<lambda>_. (1, [])), o_json = (\<lambda>_. Inl []), o_lock = True\<rparr>"

definition a_desk :: ctl_world where
  "a_desk = \<lparr>c_token = Some ''t'', c_get = (\<lambda>_. Inr (JObj [(''body'', JStr ''goal'')])), c_patch = (\<lambda>_ _. Inr JNull), c_log = None,
     c_outside = bare_host, c_raw = [], c_watch = patrol, c_loop = example_loop empty_store, c_integrity = ''ok''\<rparr>"

theorem ctl_writes_only_that_witness:
  "\<exists>text. snd (snd (ctl a_desk (Write_verification ''o/r#5'' False) old_and_new)) = Some text \<and>
     text = verification_body a_sess ''goal''"
proof -
  have "find_session old_and_new ''o/r#5'' = Some a_sess" by code_simp
  moreover have "snd (snd (ctl a_desk (Write_verification ''o/r#5'' False) old_and_new)) \<noteq> None" by code_simp
  moreover have "get_issue_body (s_repo a_sess) (s_issue a_sess) (Some ''t'') (c_get a_desk) = Inr ''goal''" by code_simp
  moreover have "c_token a_desk = Some ''t''" by (simp add: a_desk_def)
  ultimately show ?thesis
    using ctl_writes_only_that [of a_desk "Write_verification ''o/r#5'' False" old_and_new] by force
qed

end
