(* ===== verification/Migration.thy ===== *)
theory Migration
  imports Store_Facts "HOL-Library.AList"
begin

text \<open>
  Opening the database (\<open>Store.__init__\<close> and the schema chain of \<open>agentd/src/agentd/db.py\<close>): tables as SQLite
  shows them to the migrations, by name, each with its columns and its rows in rowid order.  None: a
  statement raised and the process does not start; what it leaves in the file is not modelled.
\<close>

section \<open>Tables\<close>

text \<open>A payload is kept as what decompressing and parsing it gives, None when either raises one of the exceptions
  the backfill catches.\<close>

datatype cell = Null | Num int | Txt string | Blob "json option"

type_synonym sql_row = "(string \<times> cell) list"

record sql_table =
  cols :: "string list"
  rows :: "sql_row list"

record database =
  user_version :: int
  tabs :: "(string \<times> sql_table) list"

definition cell_of :: "sql_row \<Rightarrow> string \<Rightarrow> cell" where
  "cell_of r c = (case map_of r c of None \<Rightarrow> Null | Some v \<Rightarrow> v)"

definition get_tab :: "database \<Rightarrow> string \<Rightarrow> sql_table option" where
  "get_tab d t = map_of (tabs d) t"

definition put_tab :: "string \<Rightarrow> sql_table \<Rightarrow> database \<Rightarrow> database" where
  "put_tab t T d = d\<lparr>tabs := AList.update t T (tabs d)\<rparr>"

definition rows_of :: "database \<Rightarrow> string \<Rightarrow> sql_row list" where
  "rows_of d t = (case get_tab d t of None \<Rightarrow> [] | Some T \<Rightarrow> rows T)"

text \<open>\<open>_table_columns\<close>.\<close>

definition table_columns :: "database \<Rightarrow> string \<Rightarrow> string list" where
  "table_columns d t = (case get_tab d t of None \<Rightarrow> [] | Some T \<Rightarrow> cols T)"

definition text_or :: "cell \<Rightarrow> string \<Rightarrow> string" where
  "text_or v s = (case v of Txt u \<Rightarrow> if u = [] then s else u | _ \<Rightarrow> s)"

section \<open>The schema\<close>

definition schema_version :: int where "schema_version = 11"

definition schema :: "(string \<times> string list) list" where
  "schema =
    [(''deliveries'', [''delivery_id'', ''event'', ''action'', ''repo'', ''issue_num'', ''sender'', ''received_at'',
       ''payload'', ''status'', ''next_attempt_at'', ''defer_count'']),
     (''delivery_nodes'', [''node_id'', ''delivery_id'', ''seen_at'']),
     (''circuit_breaker'', [''id'', ''disk_paused'', ''reason'', ''updated_at'']),
     (''runners'', [''project_key'', ''container_id'', ''endpoint'', ''token'', ''tier'', ''last_seen_at'']),
     (''sessions'', [''session_key'', ''project_key'', ''repo'', ''issue_num'', ''state'', ''paused_reason'',
       ''resume_state'', ''stall_open_threads'', ''architect'', ''developer'', ''roles_locked'', ''design_pr'',
       ''feature_pr'', ''design_pr_head'', ''feature_pr_head'', ''turn_count'', ''consec_agent_turns'',
       ''review_rounds'', ''progress_fp'', ''progress_repeat'', ''zero_thread_rounds'', ''silent_turns'',
       ''gh_watermark'', ''verified_at'', ''classification'', ''closed_issue_escalated_at'', ''created_at'',
       ''updated_at'']),
     (''turns'', [''turn_id'', ''session_key'', ''role'', ''delivery_id'', ''started_at'', ''ended_at'', ''status'',
       ''summary'', ''public_actions'', ''resume_attempts'']),
     (''artifacts'', [''id'', ''session_key'', ''role'', ''kind'', ''ref'', ''created_at'', ''removed_at'']),
     (''escalations'', [''id'', ''session_key'', ''role'', ''reason'', ''comment_id'', ''opened_at'', ''resolved_at'']),
     (''project_blocks'', [''project_key'', ''reason'', ''session_key'', ''issue_num'', ''comment_id'', ''opened_at'',
       ''resolved_at''])]"

definition create_missing :: "string \<times> string list \<Rightarrow> database \<Rightarrow> database" where
  "create_missing tc d =
     (if get_tab d (fst tc) = None then put_tab (fst tc) \<lparr>cols = snd tc, rows = []\<rparr> d else d)"

text \<open>\<open>INSERT OR IGNORE INTO circuit_breaker\<close>.\<close>

definition breaker_seed :: "database \<Rightarrow> database" where
  "breaker_seed d =
     (case get_tab d ''circuit_breaker'' of
        None \<Rightarrow> d
      | Some T \<Rightarrow> if \<exists>r \<in> set (rows T). cell_of r ''id'' = Num 1 then d
          else put_tab ''circuit_breaker'' (T\<lparr>rows := rows T @ [[(''id'', Num 1), (''disk_paused'', Num 0),
            (''reason'', Null), (''updated_at'', Num 0)]]\<rparr>) d)"

text \<open>\<open>executescript(SCHEMA)\<close>: missing tables are created; an index on a column that is not there raises.\<close>

definition run_schema :: "database \<Rightarrow> database option" where
  "run_schema d0 =
     (let d = fold create_missing schema d0
      in if {''status'', ''received_at''} \<subseteq> set (table_columns d ''deliveries'') \<and>
            ''project_key'' \<in> set (table_columns d ''sessions'')
         then Some (breaker_seed d) else None)"

section \<open>Migrations\<close>

text \<open>\<open>ALTER TABLE t ADD COLUMN c\<close> where the table is there and the column is not; only a table that is not there has no
  columns.\<close>

definition ensure_column :: "string \<Rightarrow> string \<Rightarrow> cell \<Rightarrow> database \<Rightarrow> database" where
  "ensure_column t c dflt d =
     (case get_tab d t of
        None \<Rightarrow> d
      | Some T \<Rightarrow> if c \<in> set (cols T) then d
          else put_tab t \<lparr>cols = cols T @ [c], rows = map (\<lambda>r. r @ [(c, dflt)]) (rows T)\<rparr> d)"

definition stamp :: "int \<Rightarrow> database \<Rightarrow> database" where
  "stamp v d = d\<lparr>user_version := v\<rparr>"

definition schema_then_stamp :: "int \<Rightarrow> database \<Rightarrow> database option" where
  "schema_then_stamp v d = map_option (stamp v) (run_schema d)"

definition fill_project_key :: "database \<Rightarrow> database" where
  "fill_project_key d =
     (case get_tab d ''sessions'' of
        None \<Rightarrow> d
      | Some T \<Rightarrow> put_tab ''sessions'' (T\<lparr>rows := map (\<lambda>r. if cell_of r ''project_key'' \<in> {Txt [], Null}
            then AList.update ''project_key'' (cell_of r ''repo'') r else r) (rows T)\<rparr>) d)"

definition runner_project :: "database \<Rightarrow> sql_row \<Rightarrow> string" where
  "runner_project d r =
     (let sk = text_or (cell_of r ''session_key'') [];
          repo = (case find (\<lambda>s. cell_of s ''session_key'' = cell_of r ''session_key'' \<and> cell_of r ''session_key'' \<noteq> Null)
                    (rows_of d ''sessions'') of None \<Rightarrow> [] | Some s \<Rightarrow> text_or (cell_of s ''repo'') [])
      in if repo \<noteq> [] then repo
         else if CHR ''#'' \<in> set sk then fst (partition_at CHR ''#'' sk)
         else sk)"

definition project_runner :: "string \<Rightarrow> sql_row \<Rightarrow> sql_row" where
  "project_runner pk r =
     [(''project_key'', Txt pk), (''container_id'', cell_of r ''container_id''), (''endpoint'', cell_of r ''endpoint''),
      (''token'', cell_of r ''token''), (''tier'', Txt (text_or (cell_of r ''tier'') ''cold'')),
      (''last_seen_at'', cell_of r ''last_seen_at'')]"

text \<open>One row of the rewrite: the last runner of a project wins, in the place of the first.\<close>

definition collapse_runner :: "database \<Rightarrow> sql_row \<Rightarrow> sql_row list \<Rightarrow> sql_row list" where
  "collapse_runner d r out =
     (let pk = runner_project d r
      in if pk = [] then out
         else upsert (\<lambda>x. cell_of x ''project_key'') (project_runner pk r) (\<lambda>_. project_runner pk r) out)"

definition rekey_runners :: "database \<Rightarrow> database" where
  "rekey_runners d =
     (case get_tab d ''runners'' of
        None \<Rightarrow> d
      | Some T \<Rightarrow>
          if ''session_key'' \<in> set (cols T) \<and> ''project_key'' \<notin> set (cols T)
          then put_tab ''runners''
            \<lparr>cols = [''project_key'', ''container_id'', ''endpoint'', ''token'', ''tier'', ''last_seen_at''],
             rows = fold (collapse_runner d) (rows T) []\<rparr> d
          else d)"

definition migrate_v1_to_v2 :: "database \<Rightarrow> database option" where
  "migrate_v1_to_v2 d =
     schema_then_stamp 2 (rekey_runners (fill_project_key (ensure_column ''sessions'' ''project_key'' (Txt []) d)))"

definition migrate_v2_to_v3 :: "database \<Rightarrow> database option" where
  "migrate_v2_to_v3 d = schema_then_stamp 3 (ensure_column ''sessions'' ''resume_state'' Null d)"

definition migrate_v3_to_v4 :: "database \<Rightarrow> database option" where
  "migrate_v3_to_v4 d = schema_then_stamp 4 (ensure_column ''sessions'' ''stall_open_threads'' Null d)"

definition migrate_v4_to_v5 :: "database \<Rightarrow> database option" where
  "migrate_v4_to_v5 d = schema_then_stamp 5 d"

definition migrate_v5_to_v6 :: "database \<Rightarrow> database option" where
  "migrate_v5_to_v6 d = schema_then_stamp 6
     (ensure_column ''turns'' ''public_actions'' Null (ensure_column ''sessions'' ''silent_turns'' (Num 0) d))"

definition migrate_v6_to_v7 :: "database \<Rightarrow> database option" where
  "migrate_v6_to_v7 d = schema_then_stamp 7 (ensure_column ''sessions'' ''classification'' Null d)"

text \<open>The backfill of the node index: a payload that does not parse is skipped; a value without \<open>get\<close> raises.\<close>

definition index_row :: "string \<Rightarrow> int \<Rightarrow> string \<Rightarrow> sql_row" where
  "index_row did seen nid = [(''node_id'', Txt nid), (''delivery_id'', Txt did), (''seen_at'', Num seen)]"

fun backfill :: "sql_row list \<Rightarrow> sql_row list \<Rightarrow> sql_row list option" where
  "backfill [] idx = Some idx"
| "backfill (r # rs) idx =
     (case cell_of r ''payload'' of
        Blob (Some (JObj data)) \<Rightarrow>
          (case node_ids_from_payload data of
             None \<Rightarrow> None
           | Some nids \<Rightarrow> backfill rs (fold (\<lambda>nid. insert_ignore (\<lambda>x. cell_of x ''node_id'')
               (index_row (text_or (cell_of r ''delivery_id'') [])
                 (case cell_of r ''received_at'' of Num n \<Rightarrow> n | _ \<Rightarrow> 0) nid)) nids idx))
      | Blob (Some _) \<Rightarrow> None
      | _ \<Rightarrow> backfill rs idx)"

definition backfill_nodes :: "database \<Rightarrow> database option" where
  "backfill_nodes d =
     (case get_tab d ''delivery_nodes'' of
        None \<Rightarrow> None
      | Some T \<Rightarrow> map_option (\<lambda>idx. put_tab ''delivery_nodes'' (T\<lparr>rows := idx\<rparr>) d)
          (backfill (rows_of d ''deliveries'') (rows T)))"

definition migrate_v7_to_v8 :: "database \<Rightarrow> database option" where
  "migrate_v7_to_v8 d =
     (case run_schema d of
        None \<Rightarrow> None
      | Some d \<Rightarrow> map_option (stamp 8) (backfill_nodes (ensure_column ''sessions'' ''closed_issue_escalated_at'' Null d)))"

definition migrate_v8_to_v9 :: "database \<Rightarrow> database option" where
  "migrate_v8_to_v9 d = map_option (\<lambda>d. stamp 9 (ensure_column ''turns'' ''resume_attempts'' (Num 0) d)) (run_schema d)"

definition migrate_v9_to_v10 :: "database \<Rightarrow> database option" where
  "migrate_v9_to_v10 d = map_option (\<lambda>d. stamp 10 (ensure_column ''sessions'' ''feature_pr_head'' Null
     (ensure_column ''sessions'' ''design_pr_head'' Null d))) (run_schema d)"

definition migrate_v10_to_v11 :: "database \<Rightarrow> database option" where
  "migrate_v10_to_v11 d = map_option (\<lambda>d. stamp 11 (ensure_column ''deliveries'' ''defer_count'' (Num 0)
     (ensure_column ''deliveries'' ''next_attempt_at'' (Num 0) d))) (run_schema d)"

definition migrations :: "(int \<times> (database \<Rightarrow> database option)) list" where
  "migrations = [(1, migrate_v1_to_v2), (2, migrate_v2_to_v3), (3, migrate_v3_to_v4), (4, migrate_v4_to_v5),
     (5, migrate_v5_to_v6), (6, migrate_v6_to_v7), (7, migrate_v7_to_v8), (8, migrate_v8_to_v9),
     (9, migrate_v9_to_v10), (10, migrate_v10_to_v11)]"

text \<open>The chain of tests \<open>if ver == k\<close>, each of which moves \<open>ver\<close> on.\<close>

fun climb :: "(int \<times> (database \<Rightarrow> database option)) list \<Rightarrow> int \<Rightarrow> database \<Rightarrow> (int \<times> database) option" where
  "climb [] ver d = Some (ver, d)"
| "climb ((k, m) # ms) ver d =
     (if ver = k then (case m d of None \<Rightarrow> None | Some d \<Rightarrow> climb ms (k + 1) d) else climb ms ver d)"

definition rebuild_schema :: "database \<Rightarrow> database option" where
  "rebuild_schema d = schema_then_stamp schema_version (d\<lparr>tabs := []\<rparr>)"

text \<open>\<open>_apply_schema\<close>; None is the \<open>RuntimeError\<close> of a newer database, or a statement that raised.\<close>

definition apply_schema :: "database \<Rightarrow> database option" where
  "apply_schema d =
     (let ver = user_version d
      in if ver = schema_version then run_schema d
         else if ver = 0 then schema_then_stamp schema_version d
         else if ver > schema_version then None
         else (case climb migrations ver d of
                 None \<Rightarrow> None
               | Some (ver, d) \<Rightarrow> if ver = schema_version then Some d else rebuild_schema d))"

text \<open>\<open>Store.__init__\<close>: the pragmas after the schema must answer \<open>ok\<close> and 1.\<close>

definition open_store :: "string \<Rightarrow> int \<Rightarrow> database \<Rightarrow> database option" where
  "open_store integrity fk d =
     (case apply_schema d of None \<Rightarrow> None | Some d \<Rightarrow> if integrity = ''ok'' \<and> fk = 1 then Some d else None)"

section \<open>The shape of a database of an older version\<close>

text \<open>The columns that came with each version; all others are of version 1.\<close>

definition added_in :: "(int \<times> string \<times> string) list" where
  "added_in = [(2, ''sessions'', ''project_key''), (2, ''runners'', ''project_key''), (3, ''sessions'', ''resume_state''),
     (4, ''sessions'', ''stall_open_threads''), (6, ''sessions'', ''silent_turns''), (6, ''turns'', ''public_actions''),
     (7, ''sessions'', ''classification''), (8, ''sessions'', ''closed_issue_escalated_at''),
     (9, ''turns'', ''resume_attempts''), (10, ''sessions'', ''design_pr_head''), (10, ''sessions'', ''feature_pr_head''),
     (11, ''deliveries'', ''next_attempt_at''), (11, ''deliveries'', ''defer_count'')]"

definition due :: "int \<Rightarrow> string \<Rightarrow> string \<Rightarrow> bool" where
  "due v t c \<longleftrightarrow> (\<forall>(w, t', c') \<in> set added_in. t' = t \<and> c' = c \<longrightarrow> w \<le> v)"

definition shaped :: "int \<Rightarrow> database \<Rightarrow> bool" where
  "shaped v d \<longleftrightarrow> (\<forall>t cs. (t, cs) \<in> set schema \<longrightarrow> get_tab d t \<noteq> None \<longrightarrow>
     (\<forall>c \<in> set cs. due v t c \<longrightarrow> c \<in> set (table_columns d t)))"

definition payload_fine :: "cell \<Rightarrow> bool" where
  "payload_fine v = (case v of Blob (Some (JObj data)) \<Rightarrow> node_ids_from_payload data \<noteq> None
     | Blob (Some _) \<Rightarrow> False | _ \<Rightarrow> True)"

definition indexable :: "database \<Rightarrow> bool" where
  "indexable d \<longleftrightarrow> (\<forall>r \<in> set (rows_of d ''deliveries''). payload_fine (cell_of r ''payload''))"

text \<open>What a migration may do to a row: add columns, and fill the project key.\<close>

definition names :: "sql_row \<Rightarrow> string set" where
  "names r = fst ` set r"

definition new_names :: "string set" where
  "new_names = snd ` snd ` set added_in"

definition row_kept :: "sql_row \<Rightarrow> sql_row \<Rightarrow> bool" where
  "row_kept r r' \<longleftrightarrow> (\<forall>c. c \<notin> new_names \<longrightarrow> cell_of r' c = cell_of r c) \<and>
     (\<forall>c \<in> names r. c \<in> names r' \<and> (c \<noteq> ''project_key'' \<longrightarrow> cell_of r' c = cell_of r c))"

definition carried :: "database \<Rightarrow> database \<Rightarrow> bool" where
  "carried d d' \<longleftrightarrow> (\<forall>t. t \<notin> {''runners'', ''delivery_nodes'', ''circuit_breaker''} \<longrightarrow>
     list_all2 row_kept (rows_of d t) (rows_of d' t))"

lemma row_kept_refl [simp]: "row_kept r r"
  by (simp add: row_kept_def)

lemma row_kept_trans: "row_kept r r' \<Longrightarrow> row_kept r' r'' \<Longrightarrow> row_kept r r''"
  unfolding row_kept_def by (intro conjI allI ballI impI) simp_all

lemma carried_refl [simp]: "carried d d"
  by (simp add: carried_def list.rel_refl)

lemma carried_trans: "carried d d' \<Longrightarrow> carried d' d'' \<Longrightarrow> carried d d''"
  unfolding carried_def
proof (intro allI impI)
  fix t
  assume a: "\<forall>t. t \<notin> {''runners'', ''delivery_nodes'', ''circuit_breaker''} \<longrightarrow> list_all2 row_kept (rows_of d t) (rows_of d' t)"
    "\<forall>t. t \<notin> {''runners'', ''delivery_nodes'', ''circuit_breaker''} \<longrightarrow> list_all2 row_kept (rows_of d' t) (rows_of d'' t)"
    and t: "t \<notin> {''runners'', ''delivery_nodes'', ''circuit_breaker''}"
  show "list_all2 row_kept (rows_of d t) (rows_of d'' t)"
    by (rule list_all2_trans [OF row_kept_trans a(1) [rule_format, OF t] a(2) [rule_format, OF t]])
qed

lemma get_put [simp]: "get_tab (put_tab t T d) t' = (if t' = t then Some T else get_tab d t')"
  by (simp add: get_tab_def put_tab_def update_conv')

lemma columns_put [simp]: "table_columns (put_tab t T d) t' = (if t' = t then cols T else table_columns d t')"
  by (simp add: table_columns_def)

lemma rows_put [simp]: "rows_of (put_tab t T d) t' = (if t' = t then rows T else rows_of d t')"
  by (simp add: rows_of_def)

lemma version_put [simp]: "user_version (put_tab t T d) = user_version d"
  by (simp add: put_tab_def)

lemma get_stamp [simp]: "get_tab (stamp v d) t = get_tab d t"
  by (simp add: get_tab_def stamp_def)

lemma stamp_simps [simp]: "table_columns (stamp v d) = table_columns d" "rows_of (stamp v d) = rows_of d"
  "user_version (stamp v d) = v"
  by (simp_all add: fun_eq_iff table_columns_def rows_of_def) (simp add: stamp_def)

lemma shaped_stamp [simp]: "shaped w (stamp v d) = shaped w d"
  by (simp add: shaped_def)

lemma carried_stamp [simp]: "carried d (stamp v d') = carried d d'"
  by (simp add: carried_def)

text \<open>A table that gains columns, or is new with all of them, keeps the shape.\<close>

lemma shaped_put:
  assumes "shaped v d" "\<And>cs. (t, cs) \<in> set schema \<Longrightarrow>
     (get_tab d t \<noteq> None \<and> set (table_columns d t) \<subseteq> set (cols T)) \<or> set cs \<subseteq> set (cols T)"
  shows "shaped v (put_tab t T d)"
  using assms unfolding shaped_def by (auto split: if_splits) blast+

lemma schema_unique: "(t, cs) \<in> set schema \<Longrightarrow> (t, cs') \<in> set schema \<Longrightarrow> cs = cs'"
proof -
  have "distinct (map fst schema)" by code_simp
  then show "(t, cs) \<in> set schema \<Longrightarrow> (t, cs') \<in> set schema \<Longrightarrow> ?thesis"
    by (metis eq_key_imp_eq_value)
qed

lemma shaped_up:
  assumes "shaped v d" "\<And>t c. (v + 1, t, c) \<in> set added_in \<Longrightarrow> get_tab d t = None \<or> c \<in> set (table_columns d t)"
  shows "shaped (v + 1) d"
  unfolding shaped_def
proof (intro allI impI ballI)
  fix t cs c
  assume a: "(t, cs) \<in> set schema" "get_tab d t \<noteq> None" "c \<in> set cs" "due (v + 1) t c"
  show "c \<in> set (table_columns d t)"
  proof (cases "(v + 1, t, c) \<in> set added_in")
    case True
    from assms(2) [OF this] a(2) show ?thesis by simp
  next
    case False
    have "due v t c"
      unfolding due_def
    proof (intro ballI, clarify)
      fix w t' c'
      assume e: "(w, t, c) \<in> set added_in"
      with a(4) have "w \<le> v + 1" by (auto simp: due_def)
      with False e show "w \<le> v" by (cases "w = v + 1") auto
    qed
    with assms(1) a show ?thesis unfolding shaped_def by blast
  qed
qed

section \<open>The steps\<close>

text \<open>What every step gives: the shape and the rows are kept.\<close>

definition gains :: "database \<Rightarrow> database \<Rightarrow> bool" where
  "gains d d' \<longleftrightarrow> carried d d' \<and> (\<forall>v. shaped v d \<longrightarrow> shaped v d') \<and> user_version d' = user_version d"

lemma gains_refl [simp]: "gains d d"
  by (simp add: gains_def)

lemma gains_trans: "gains d d' \<Longrightarrow> gains d' d'' \<Longrightarrow> gains d d''"
  unfolding gains_def by (auto intro: carried_trans)

lemma cell_append: "cell_of (r @ [(c, v)]) c' =
    (if c' \<in> names r then cell_of r c' else if c' = c then v else cell_of r c')"
proof (cases "map_of r c'")
  case None
  then have "c' \<notin> names r" by (simp add: names_def map_of_eq_None_iff)
  with None show ?thesis by (simp add: cell_of_def map_add_def)
next
  case (Some x)
  then have "c' \<in> names r" by (force simp: names_def dest: map_of_SomeD)
  with Some show ?thesis by (simp add: cell_of_def map_add_def)
qed

lemma names_append [simp]: "names (r @ [(c, v)]) = insert c (names r)"
  by (simp add: names_def)

lemma row_kept_add: "c \<in> new_names \<Longrightarrow> row_kept r (r @ [(c, v)])"
  by (auto simp: row_kept_def cell_append)

lemma gains_put:
  assumes "\<And>cs. (t, cs) \<in> set schema \<Longrightarrow>
     (get_tab d t \<noteq> None \<and> set (table_columns d t) \<subseteq> set (cols T)) \<or> set cs \<subseteq> set (cols T)"
    and "t \<in> {''runners'', ''delivery_nodes'', ''circuit_breaker''} \<or> list_all2 row_kept (rows_of d t) (rows T)"
  shows "gains d (put_tab t T d)"
proof -
  have "carried d (put_tab t T d)"
    using assms(2) by (auto simp: carried_def list.rel_refl)
  then show ?thesis using shaped_put [OF _ assms(1)] by (simp add: gains_def)
qed

lemma gains_ensure: "c \<in> new_names \<Longrightarrow> gains d (ensure_column t c v d)"
proof -
  assume c: "c \<in> new_names"
  have "list_all2 row_kept rs (map (\<lambda>r. r @ [(c, v)]) rs)" for rs
    by (induction rs) (simp_all add: row_kept_add [OF c])
  then show ?thesis
    by (auto simp: ensure_column_def table_columns_def rows_of_def split: option.split intro!: gains_put)
qed

lemma ensure_has: "get_tab (ensure_column t c v d) t = None \<or> c \<in> set (table_columns (ensure_column t c v d) t)"
  by (auto simp: ensure_column_def table_columns_def split: option.split)

lemma ensure_keeps: "get_tab d t' = None \<or> c' \<in> set (table_columns d t') \<Longrightarrow>
    get_tab (ensure_column t c v d) t' = None \<or> c' \<in> set (table_columns (ensure_column t c v d) t')"
  by (auto simp: ensure_column_def table_columns_def split: option.split)

lemma gains_create: "tc \<in> set schema \<Longrightarrow> gains d (create_missing tc d)"
proof -
  assume "tc \<in> set schema"
  moreover obtain t cs where "tc = (t, cs)" by (cases tc)
  ultimately show ?thesis
    by (auto simp: create_missing_def rows_of_def intro!: gains_put dest: schema_unique [of t cs])
qed

lemma gains_create_all: "set xs \<subseteq> set schema \<Longrightarrow> gains d (fold create_missing xs d)"
  by (induction xs arbitrary: d) (auto intro: gains_trans gains_create)

lemma create_keeps: "get_tab d t \<noteq> None \<Longrightarrow> get_tab (fold create_missing xs d) t \<noteq> None"
  by (induction xs arbitrary: d) (auto simp: create_missing_def)

lemma create_all: "(t, cs) \<in> set xs \<Longrightarrow> get_tab (fold create_missing xs d) t \<noteq> None"
proof (induction xs arbitrary: d)
  case (Cons x xs)
  show ?case
  proof (cases "x = (t, cs)")
    case True
    have "get_tab (create_missing x d) t \<noteq> None" by (simp add: True create_missing_def)
    then show ?thesis by (simp add: create_keeps)
  next
    case False
    with Cons show ?thesis by simp
  qed
qed simp

lemma gains_seed: "gains d (breaker_seed d)"
  by (auto simp: breaker_seed_def table_columns_def split: option.split intro!: gains_put)

lemma present_seed: "get_tab (breaker_seed d) t = None \<longleftrightarrow> get_tab d t = None"
  by (auto simp: breaker_seed_def split: option.split)

definition complete :: "database \<Rightarrow> bool" where
  "complete d \<longleftrightarrow> (\<forall>t cs. (t, cs) \<in> set schema \<longrightarrow> get_tab d t \<noteq> None)"

lemma shaped_column: "shaped v d \<Longrightarrow> (t, cs) \<in> set schema \<Longrightarrow> c \<in> set cs \<Longrightarrow> due v t c \<Longrightarrow> get_tab d t \<noteq> None \<Longrightarrow>
    c \<in> set (table_columns d t)"
  unfolding shaped_def by blast

lemma run_schema_ok:
  assumes "shaped v d" "2 \<le> v"
  shows "\<exists>d'. run_schema d = Some d' \<and> gains d d' \<and> complete d'"
proof -
  let ?d = "fold create_missing schema d"
  have g: "gains d ?d" by (simp add: gains_create_all)
  with assms(1) have s: "shaped v ?d" by (simp add: gains_def)
  have all: "get_tab ?d t \<noteq> None" if "(t, cs) \<in> set schema" for t cs
    by (rule create_all [OF that])
  have 1: "(''deliveries'', the (map_of schema ''deliveries'')) \<in> set schema"
    "{''status'', ''received_at''} \<subseteq> set (the (map_of schema ''deliveries''))"
    "(''sessions'', the (map_of schema ''sessions'')) \<in> set schema"
    "''project_key'' \<in> set (the (map_of schema ''sessions''))" by code_simp+
  have 2: "due v ''deliveries'' ''status''" "due v ''deliveries'' ''received_at''" "due v ''sessions'' ''project_key''"
    using assms(2) by (simp_all add: due_def added_in_def)
  have "run_schema d = Some (breaker_seed ?d)"
    using shaped_column [OF s 1(1) _ 2(1) all [OF 1(1)]] shaped_column [OF s 1(1) _ 2(2) all [OF 1(1)]]
      shaped_column [OF s 1(3) 1(4) 2(3) all [OF 1(3)]] 1(2)
    by (simp add: run_schema_def Let_def)
  moreover have "complete (breaker_seed ?d)"
    using all by (auto simp: complete_def present_seed)
  ultimately show ?thesis using gains_trans [OF g gains_seed] by blast
qed

section \<open>The migrations\<close>

text \<open>A runners table of version 1 is keyed by session, unless it was rewritten already.\<close>

definition keyed_runners :: "database \<Rightarrow> bool" where
  "keyed_runners d \<longleftrightarrow> get_tab d ''runners'' = None \<or> ''session_key'' \<in> set (table_columns d ''runners'') \<or>
     ''project_key'' \<in> set (table_columns d ''runners'')"

definition lifts :: "int \<Rightarrow> (database \<Rightarrow> database option) \<Rightarrow> bool" where
  "lifts v m \<longleftrightarrow> (\<forall>d. shaped v d \<and> indexable d \<and> (v = 1 \<longrightarrow> keyed_runners d) \<longrightarrow>
     (\<exists>d'. m d = Some d' \<and> shaped (v + 1) d' \<and> carried d d' \<and> complete d' \<and> user_version d' = v + 1))"

lemma carried_indexable: "carried d d' \<Longrightarrow> indexable d \<Longrightarrow> indexable d'"
proof -
  assume c: "carried d d'" and i: "indexable d"
  have p: "''payload'' \<notin> new_names" by (simp add: new_names_def added_in_def)
  from c have "list_all2 row_kept (rows_of d ''deliveries'') (rows_of d' ''deliveries'')" by (simp add: carried_def)
  then show ?thesis
    using i p by (simp add: indexable_def all_set_conv_all_nth list_all2_conv_all_nth row_kept_def)
qed

text \<open>Columns first, then the schema.\<close>

lemma lifts_columns_first:
  assumes "1 \<le> v" "\<And>d. shaped v d \<Longrightarrow> (v = 1 \<Longrightarrow> keyed_runners d) \<Longrightarrow> carried d (f d) \<and> shaped (v + 1) (f d)"
  shows "lifts v (\<lambda>d. schema_then_stamp (v + 1) (f d))"
  unfolding lifts_def
proof (intro allI impI, elim conjE)
  fix d assume "shaped v d" "indexable d" "v = 1 \<longrightarrow> keyed_runners d"
  with assms(2) have f: "carried d (f d)" "shaped (v + 1) (f d)" by blast+
  with run_schema_ok [of "v + 1" "f d"] assms(1) obtain d' where
    d': "run_schema (f d) = Some d'" "gains (f d) d'" "complete d'" by auto
  with f show "\<exists>d'. schema_then_stamp (v + 1) (f d) = Some d' \<and> shaped (v + 1) d' \<and> carried d d' \<and> complete d' \<and>
      user_version d' = v + 1"
    by (auto simp: schema_then_stamp_def gains_def complete_def intro: carried_trans)
qed

text \<open>The schema first, then columns and rows.\<close>

lemma lifts_schema_first:
  assumes "2 \<le> v" "w = v + 1" "\<And>d. shaped v d \<Longrightarrow> indexable d \<Longrightarrow> complete d \<Longrightarrow>
      \<exists>d'. f d = Some d' \<and> carried d d' \<and> shaped w d' \<and> complete d'"
  shows "lifts v (\<lambda>d. case run_schema d of None \<Rightarrow> None | Some d \<Rightarrow> map_option (stamp w) (f d))"
  unfolding lifts_def assms(2) [symmetric]
proof (intro allI impI, elim conjE)
  fix d assume s: "shaped v d" "indexable d" "v = 1 \<longrightarrow> keyed_runners d"
  with run_schema_ok [OF s(1) assms(1)] obtain d1 where
    d1: "run_schema d = Some d1" "gains d d1" "complete d1" by auto
  with s have "shaped v d1" "carried d d1" "indexable d1" by (auto simp: gains_def intro: carried_indexable)
  with assms(3) [of d1] d1 obtain d' where "f d1 = Some d'" "carried d1 d'" "shaped w d'" "complete d'" by blast
  with d1 \<open>carried d d1\<close> show "\<exists>d'. (case run_schema d of None \<Rightarrow> None | Some d \<Rightarrow> map_option (stamp w) (f d)) = Some d' \<and>
      shaped w d' \<and> carried d d' \<and> complete d' \<and> user_version d' = w"
    by (auto simp: complete_def intro: carried_trans)
qed

lemma new_name_simps [simp]: "''resume_state'' \<in> new_names" "''stall_open_threads'' \<in> new_names"
  "''silent_turns'' \<in> new_names" "''public_actions'' \<in> new_names" "''classification'' \<in> new_names"
  "''closed_issue_escalated_at'' \<in> new_names" "''resume_attempts'' \<in> new_names" "''design_pr_head'' \<in> new_names"
  "''feature_pr_head'' \<in> new_names" "''next_attempt_at'' \<in> new_names" "''defer_count'' \<in> new_names"
  "''project_key'' \<in> new_names"
  by (simp_all add: new_names_def added_in_def)

text \<open>One column, and two.\<close>

lemma one_column:
  assumes "shaped v d" "c \<in> new_names" "\<And>t' c'. (v + 1, t', c') \<in> set added_in \<Longrightarrow> t' = t \<and> c' = c"
  shows "carried d (ensure_column t c x d) \<and> shaped (v + 1) (ensure_column t c x d)"
proof -
  have g: "gains d (ensure_column t c x d)" by (rule gains_ensure [OF assms(2)])
  have "shaped (v + 1) (ensure_column t c x d)"
    by (rule shaped_up) (use g assms(1) ensure_has assms(3) in \<open>auto simp: gains_def\<close>)
  with g show ?thesis by (simp add: gains_def)
qed

lemma two_columns:
  assumes "shaped v d" "c \<in> new_names" "c2 \<in> new_names"
    and "\<And>t' c'. (v + 1, t', c') \<in> set added_in \<Longrightarrow> (t' = t \<and> c' = c) \<or> (t' = t2 \<and> c' = c2)"
  shows "carried d (ensure_column t2 c2 x2 (ensure_column t c x d)) \<and>
    shaped (v + 1) (ensure_column t2 c2 x2 (ensure_column t c x d))"
proof -
  let ?d1 = "ensure_column t c x d" and ?d2 = "ensure_column t2 c2 x2 (ensure_column t c x d)"
  have g: "gains d ?d2" by (rule gains_trans [OF gains_ensure [OF assms(2)] gains_ensure [OF assms(3)]])
  have "shaped (v + 1) ?d2"
  proof (rule shaped_up)
    show "shaped v ?d2" using g assms(1) by (simp add: gains_def)
    fix t' c' assume "(v + 1, t', c') \<in> set added_in"
    with assms(4) ensure_keeps [OF ensure_has [of t c x d]] ensure_has
    show "get_tab ?d2 t' = None \<or> c' \<in> set (table_columns ?d2 t')" by blast
  qed
  with g show ?thesis by (simp add: gains_def)
qed

lemma ensure_complete: "complete d \<Longrightarrow> complete (ensure_column t c x d)"
  by (auto simp: complete_def ensure_column_def split: option.split)

lemma lifts_2: "lifts 2 migrate_v2_to_v3"
  unfolding migrate_v2_to_v3_def [abs_def]
  by (rule lifts_columns_first [of 2, simplified]) (rule one_column [of 2, simplified], auto simp: added_in_def)

lemma lifts_3: "lifts 3 migrate_v3_to_v4"
  unfolding migrate_v3_to_v4_def [abs_def]
  by (rule lifts_columns_first [of 3, simplified]) (rule one_column [of 3, simplified], auto simp: added_in_def)

lemma lifts_4: "lifts 4 migrate_v4_to_v5"
  unfolding migrate_v4_to_v5_def [abs_def]
  by (rule lifts_columns_first [of 4, simplified]) (auto intro: shaped_up [of 4, simplified] simp: added_in_def)

lemma lifts_5: "lifts 5 migrate_v5_to_v6"
  unfolding migrate_v5_to_v6_def [abs_def]
  by (rule lifts_columns_first [of 5, simplified]) (rule two_columns [of 5, simplified], auto simp: added_in_def)

lemma lifts_6: "lifts 6 migrate_v6_to_v7"
  unfolding migrate_v6_to_v7_def [abs_def]
  by (rule lifts_columns_first [of 6, simplified]) (rule one_column [of 6, simplified], auto simp: added_in_def)

lemma schema_first_column:
  "(\<lambda>d. map_option (\<lambda>d. stamp w (f d)) (run_schema d)) =
     (\<lambda>d. case run_schema d of None \<Rightarrow> None | Some d \<Rightarrow> map_option (stamp w) (Some (f d)))"
  by (rule ext) (simp split: option.split)

lemma lifts_8: "lifts 8 migrate_v8_to_v9"
  unfolding migrate_v8_to_v9_def [abs_def] schema_first_column
  by (rule lifts_schema_first)
     (use one_column [of 8, simplified] ensure_complete in \<open>auto simp: added_in_def\<close>)

lemma lifts_9: "lifts 9 migrate_v9_to_v10"
  unfolding migrate_v9_to_v10_def [abs_def] schema_first_column
  by (rule lifts_schema_first)
     (use two_columns [of 9, simplified] ensure_complete in \<open>auto simp: added_in_def\<close>)

lemma lifts_10: "lifts 10 migrate_v10_to_v11"
  unfolding migrate_v10_to_v11_def [abs_def] schema_first_column
  by (rule lifts_schema_first)
     (use two_columns [of 10, simplified] ensure_complete in \<open>auto simp: added_in_def\<close>)

lemma backfill_ok: "(\<forall>r \<in> set rs. payload_fine (cell_of r ''payload'')) \<Longrightarrow> backfill rs idx \<noteq> None"
  by (induction rs arbitrary: idx)
     (auto simp: payload_fine_def split: cell.splits option.splits json.splits)

lemma lifts_7: "lifts 7 migrate_v7_to_v8"
  unfolding migrate_v7_to_v8_def [abs_def]
proof (rule lifts_schema_first)
  fix d assume d: "shaped 7 d" "indexable d" "complete d"
  let ?d = "ensure_column ''sessions'' ''closed_issue_escalated_at'' Null d"
  have c: "carried d ?d" "shaped 8 ?d" using one_column [of 7, simplified, OF d(1)] by (auto simp: added_in_def)
  have "(''delivery_nodes'', [''node_id'', ''delivery_id'', ''seen_at'']) \<in> set schema" by code_simp
  with ensure_complete [OF d(3)] have "get_tab ?d ''delivery_nodes'' \<noteq> None" unfolding complete_def by blast
  then obtain T where T: "get_tab ?d ''delivery_nodes'' = Some T" by blast
  have "indexable ?d" by (rule carried_indexable [OF c(1) d(2)])
  then obtain idx where "backfill (rows_of ?d ''deliveries'') (rows T) = Some idx"
    using backfill_ok unfolding indexable_def by blast
  with T have f: "backfill_nodes ?d = Some (put_tab ''delivery_nodes'' (T\<lparr>rows := idx\<rparr>) ?d)"
    by (simp add: backfill_nodes_def)
  have "gains ?d (put_tab ''delivery_nodes'' (T\<lparr>rows := idx\<rparr>) ?d)"
    using T by (auto intro!: gains_put simp: table_columns_def)
  moreover have "complete (put_tab ''delivery_nodes'' (T\<lparr>rows := idx\<rparr>) ?d)"
    using ensure_complete [OF d(3)] by (auto simp: complete_def)
  ultimately show "\<exists>d'. backfill_nodes ?d = Some d' \<and> carried d d' \<and> shaped 8 d' \<and> complete d'"
    using f c by (auto simp: gains_def intro: carried_trans)
qed simp_all

lemma cell_update: "cell_of (AList.update c v r) c' = (if c' = c then v else cell_of r c')"
  by (simp add: cell_of_def update_conv')

lemma row_kept_fill: "row_kept r (AList.update ''project_key'' v r)"
  unfolding row_kept_def using new_name_simps(12)
  by (auto simp: cell_update names_def dom_update simp del: new_name_simps)

lemma gains_fill: "gains d (fill_project_key d)"
proof -
  have l: "list_all2 row_kept rs (map (\<lambda>r. if P r then AList.update ''project_key'' (f r) r else r) rs)" for P f rs
    by (induction rs) (simp_all add: row_kept_fill)
  show ?thesis
  proof (cases "get_tab d ''sessions''")
    case (Some T)
    then have "gains d (put_tab ''sessions'' (T\<lparr>rows := map (\<lambda>r. if cell_of r ''project_key'' \<in> {Txt [], Null}
            then AList.update ''project_key'' (cell_of r ''repo'') r else r) (rows T)\<rparr>) d)"
      by (intro gains_put disjI2 disjI1) (simp_all add: table_columns_def rows_of_def l)
    with Some show ?thesis by (simp add: fill_project_key_def)
  qed (simp add: fill_project_key_def)
qed

lemma fill_columns: "get_tab (fill_project_key d) t = None \<longleftrightarrow> get_tab d t = None"
  "table_columns (fill_project_key d) t = table_columns d t"
  by (auto simp: fill_project_key_def table_columns_def split: option.split)

lemma fill_others: "t \<noteq> ''sessions'' \<Longrightarrow> get_tab (fill_project_key d) t = get_tab d t"
  by (auto simp: fill_project_key_def split: option.split)

lemma ensure_others: "t' \<noteq> t \<Longrightarrow> get_tab (ensure_column t c x d) t' = get_tab d t'"
  by (auto simp: ensure_column_def split: option.split)

lemma gains_rekey: "gains d (rekey_runners d)"
proof -
  have "(''runners'', [''project_key'', ''container_id'', ''endpoint'', ''token'', ''tier'', ''last_seen_at'']) \<in> set schema"
    by code_simp
  from schema_unique [OF this] show ?thesis
    by (auto simp: rekey_runners_def split: option.split intro!: gains_put)
qed

lemma rekey_columns:
  "keyed_runners d \<Longrightarrow> get_tab (rekey_runners d) ''runners'' = None \<or>
     ''project_key'' \<in> set (table_columns (rekey_runners d) ''runners'')"
  by (auto simp: rekey_runners_def keyed_runners_def table_columns_def split: option.splits)

lemma rekey_others: "t \<noteq> ''runners'' \<Longrightarrow> get_tab (rekey_runners d) t = get_tab d t"
  by (auto simp: rekey_runners_def split: option.split)

lemma lifts_1: "lifts 1 migrate_v1_to_v2"
  unfolding migrate_v1_to_v2_def [abs_def]
proof (rule lifts_columns_first [of 1, simplified])
  fix d assume d: "shaped 1 d" "keyed_runners d"
  let ?e = "ensure_column ''sessions'' ''project_key'' (Txt []) d"
  let ?f = "fill_project_key ?e" and ?r = "rekey_runners (fill_project_key ?e)"
  have g: "gains d ?r"
    by (rule gains_trans [OF gains_ensure gains_trans [OF gains_fill gains_rekey]]) simp
  have k: "keyed_runners ?f"
    using d(2) by (simp add: keyed_runners_def table_columns_def fill_others ensure_others)
  have "shaped (1 + 1) ?r"
  proof (rule shaped_up)
    show "shaped 1 ?r" using g d(1) by (simp add: gains_def)
    fix t c assume "((1::int) + 1, t, c) \<in> set added_in"
    then consider "t = ''sessions'' \<and> c = ''project_key''" | "t = ''runners'' \<and> c = ''project_key''"
      by (auto simp: added_in_def)
    then show "get_tab ?r t = None \<or> c \<in> set (table_columns ?r t)"
    proof cases
      case 1
      have "get_tab ?r ''sessions'' = get_tab ?f ''sessions''" by (simp add: rekey_others)
      then have "table_columns ?r ''sessions'' = table_columns ?f ''sessions''" by (simp add: table_columns_def)
      with 1 ensure_has [of "''sessions''" "''project_key''"] show ?thesis
        by (simp add: rekey_others fill_columns)
    next
      case 2
      with rekey_columns [OF k] show ?thesis by simp
    qed
  qed
  with g show "carried d ?r \<and> shaped 2 ?r" by (simp add: gains_def)
qed

fun successive :: "int \<Rightarrow> (int \<times> (database \<Rightarrow> database option)) list \<Rightarrow> bool" where
  "successive k [] = True"
| "successive k ((j, m) # ms) = (j = k \<and> lifts k m \<and> successive (k + 1) ms)"

lemma climb_ok:
  assumes "successive k ms" "k \<le> v" "v < k + int (length ms)" "shaped v d" "indexable d" "v = 1 \<longrightarrow> keyed_runners d"
    and "1 \<le> k"
  shows "\<exists>d'. climb ms v d = Some (k + int (length ms), d') \<and> shaped (k + int (length ms)) d' \<and> carried d d' \<and>
    complete d' \<and> user_version d' = k + int (length ms)"
  using assms
proof (induction ms arbitrary: k v d)
  case (Cons x ms)
  obtain m where x: "x = (k, m)" "lifts k m" "successive (k + 1) ms" using Cons.prems(1) by (cases x) auto
  show ?case
  proof (cases "v = k")
    case True
    with x(2) Cons.prems obtain d' where d': "m d = Some d'" "shaped (k + 1) d'" "carried d d'" "complete d'"
      "user_version d' = k + 1" unfolding lifts_def by blast
    show ?thesis
    proof (cases ms)
      case Nil
      with d' x True show ?thesis by simp
    next
      case (Cons y ys)
      have "\<exists>d''. climb ms (k + 1) d' = Some (k + 1 + int (length ms), d'') \<and> shaped (k + 1 + int (length ms)) d'' \<and>
          carried d' d'' \<and> complete d'' \<and> user_version d'' = k + 1 + int (length ms)"
        by (rule Cons.IH [OF x(3) _ _ d'(2) carried_indexable [OF d'(3)]]) (use Cons Cons.prems in auto)
      with d' x True show ?thesis by (auto simp: add.assoc [symmetric] intro: carried_trans)
    qed
  next
    case False
    have "\<exists>d''. climb ms v d = Some (k + 1 + int (length ms), d'') \<and> shaped (k + 1 + int (length ms)) d'' \<and>
        carried d d'' \<and> complete d'' \<and> user_version d'' = k + 1 + int (length ms)"
      by (rule Cons.IH [OF x(3)]) (use False Cons.prems in auto)
    with False x show ?thesis by (simp add: algebra_simps)
  qed
qed simp

lemma migrations_successive: "successive 1 migrations"
  using lifts_1 lifts_2 lifts_3 lifts_4 lifts_5 lifts_6 lifts_7 lifts_8 lifts_9 lifts_10 by (simp add: migrations_def)

section \<open>Properties\<close>

text \<open>An upgrade loses nothing.  A database of any version from 1 to 10 that has the columns of its version,
  and payloads the node index can read, opens: the result has the current version, every table with every
  column of the schema, and each row of every table but the runners, the node index and the breaker in its
  place with all it held, except that an empty project key is filled in.\<close>

theorem upgrade_loses_nothing:
  assumes "1 \<le> user_version d" "user_version d < schema_version" "shaped (user_version d) d" "indexable d" "keyed_runners d"
  shows "\<exists>d'. apply_schema d = Some d' \<and> user_version d' = schema_version \<and> carried d d' \<and>
    (\<forall>t cs. (t, cs) \<in> set schema \<longrightarrow> set cs \<subseteq> set (table_columns d' t))"
proof -
  have n: "(1::int) + int (length migrations) = schema_version" by (simp add: migrations_def schema_version_def)
  with climb_ok [OF migrations_successive, of "user_version d" d] assms obtain d' where
    d': "climb migrations (user_version d) d = Some (schema_version, d')" "shaped schema_version d'" "carried d d'"
      "complete d'" "user_version d' = schema_version" by auto
  have "due schema_version t c" for t c
    by (auto simp: due_def added_in_def schema_version_def)
  with d'(2,4) have "\<forall>t cs. (t, cs) \<in> set schema \<longrightarrow> set cs \<subseteq> set (table_columns d' t)"
    unfolding shaped_def complete_def by blast
  with d' assms show ?thesis by (auto simp: apply_schema_def Let_def)
qed

definition old_database :: database where
  "old_database = \<lparr>user_version = 7, tabs = [(''deliveries'',
     \<lparr>cols = [''delivery_id'', ''event'', ''action'', ''repo'', ''issue_num'', ''sender'', ''received_at'', ''payload'', ''status''],
      rows = [[(''delivery_id'', Txt ''d1''), (''event'', Txt ''issues''), (''action'', Null), (''repo'', Txt ''o/r''),
        (''issue_num'', Num 3), (''sender'', Txt ''x''), (''received_at'', Num 100),
        (''payload'', Blob (Some (JObj [(''issue'', JObj [(''node_id'', JStr ''I1'')])]))), (''status'', Txt ''done'')]]\<rparr>)]\<rparr>"

theorem upgrade_loses_nothing_witness:
  "\<exists>d'. apply_schema old_database = Some d' \<and> user_version d' = 11 \<and> length (rows_of d' ''deliveries'') = 1"
proof -
  have s: "shaped 7 old_database"
    by (auto simp: shaped_def schema_def get_tab_def table_columns_def old_database_def due_def added_in_def)
  have i: "indexable old_database" by code_simp
  have "keyed_runners old_database" by (simp add: keyed_runners_def get_tab_def old_database_def)
  with s i obtain d' where d': "apply_schema old_database = Some d'" "user_version d' = 11" "carried old_database d'"
    using upgrade_loses_nothing [of old_database] by (auto simp: old_database_def schema_version_def)
  have "list_all2 row_kept (rows_of old_database ''deliveries'') (rows_of d' ''deliveries'')"
    using d'(3) by (simp add: carried_def)
  then have "length (rows_of d' ''deliveries'') = 1"
    by (auto dest: list_all2_lengthD simp: rows_of_def get_tab_def old_database_def)
  with d' show ?thesis by blast
qed

lemma old_nodes_indexed:
  "map_option (\<lambda>d. map (\<lambda>r. cell_of r ''node_id'') (rows_of d ''delivery_nodes'')) (apply_schema old_database) = Some [Txt ''I1'']"
  by code_simp

text \<open>A database of a newer version is refused, and an unknown older one is rebuilt, which drops every row.\<close>

lemma newer_refused: "schema_version < user_version d \<Longrightarrow> open_store integrity fk d = None"
  by (simp add: open_store_def apply_schema_def Let_def schema_version_def)

lemma no_path_rebuilds: "user_version d < 0 \<Longrightarrow> apply_schema d = rebuild_schema d"
  by (simp add: apply_schema_def Let_def schema_version_def migrations_def)

text \<open>A stored payload that is JSON but not an object stops every upgrade from before version 8, although
  \<open>insert_delivery\<close> accepts such a payload.\<close>

lemma backfill_raises_on_array:
  "backfill [[(''delivery_id'', Txt ''d1''), (''payload'', Blob (Some (JArr [])))]] [] = None"
  by (simp add: cell_of_def)

end
