(* ===== verification/Spec2Isabelle.thy ===== *)
theory Spec2Isabelle
  imports Routing Gitops_Names Intake Governor Merge_Auth Verify_Block Supervisor Loop_Endings Reconcile_Facts Runner_Actions Runner_Gate Gc_Facts
    Webhook Gitops_Clone Agentctl Migration
begin

text \<open>
  Verification development of \<^bold>\<open>agentd\<close>, the gateway that runs an Architect and a Developer agent
  on GitHub issues (\<open>agentd/src/agentd\<close>, Python).

  A webhook is signed by GitHub; the web server checks the signature and puts the delivery into the SQLite store; the drain hands it to the session loop, which finds its
  session (or passes the intake gate and creates one), judges it by its own evidence and GitHub's,
  moves the session's state machine, and wakes an agent through the supervisor's container.  The
  owner's close ends the session by teardown turns and an archive.

  \<^bold>\<open>The parts.\<close>
  \<^item> \<open>Agentd_Base\<close>, \<open>Rows\<close>, \<open>Json\<close>, \<open>Regex\<close>: Python strings and integers, keyed row lists (a table
    with a primary key), JSON values with truthiness and \<open>str\<close>, and a backtracking matcher for the
    regular expressions the source uses.  Strings are Latin-1 character lists; the em dash, the
    ellipsis, the section sign and the arrow of message texts have one-character stand-ins.
  \<^item> \<open>Fsm\<close> (\<open>fsm.py\<close>): the states, the event kinds and \<open>transition\<close>, with the paths it allows.
  \<^item> \<open>Routing\<close> (\<open>routing.py\<close>): which recipient an event wakes, and the comment markers.
  \<^item> \<open>Loop_Safety\<close> (\<open>loop_safety.py\<close>): turn budgets, silent turns and stall detection.
  \<^item> \<open>Gitops_Names\<close>, \<open>Gitops_Clone\<close> (\<open>gitops.py\<close>): session keys, project directories, role branches; the
    shared clone and the worktrees of the roles, as the list of the git commands and file-system steps each
    call performs over arbitrary answers of git (\<open>git_world\<close>), and which of them may move or overwrite a branch.
  \<^item> \<open>Store\<close>, \<open>Store_Facts\<close> (\<open>db.py\<close>): the tables as records, every method of \<open>Store\<close> that reads or
    changes them as one atomic step, and the invariants of any sequence of calls.
  \<^item> \<open>Migration\<close> (\<open>db.py\<close>): the tables of a database file of any schema version as named columns, the ten
    steps v1 to v11 and \<open>_apply_schema\<close>; that an upgrade keeps every row and value and gains every column.
  \<^item> \<open>Webhook\<close> (\<open>server.py\<close>, \<open>hmac_verify.py\<close>, \<open>keychain.py\<close>, \<open>docker_wait.py\<close>, \<open>__main__.py\<close>): the webhook
    route from the signature check to \<open>insert_delivery\<close>, the capped body, \<open>healthz\<close> and \<open>readyz\<close>, the secrets, the
    wait for docker and what the start of the server ends in; HMAC-SHA256 is an argument.
  \<^item> \<open>Config\<close>, \<open>Intake\<close> (\<open>config.py\<close>, \<open>intake.py\<close>): settings over the parsed YAML, the intake gate.
  \<^item> \<open>Governor\<close> (\<open>governor.py\<close>): the disk breaker's hysteresis.
  \<^item> \<open>Merge_Auth\<close> (\<open>verify.py\<close>): design approval, Feature merge authorisation, branch rules.
  \<^item> \<open>Verify_Block\<close> (\<open>verification.py\<close>): the verification block of an issue body.
  \<^item> \<open>Closing_Keywords\<close> (\<open>closing_keywords.py\<close>): the keywords that would close a session issue.
  \<^item> \<open>Archive\<close> (\<open>archive.py\<close>): paths, manifest and completion comment.
  \<^item> \<open>Github\<close> (\<open>github_write.py\<close>, \<open>github_fetch.py\<close>): guards, URLs and readings of the answers.
  \<^item> \<open>Supervisor\<close> (\<open>supervisor.py\<close>): \<open>ensure_session\<close> with adopt, promote and create, admission
    under the HOT cap, the leak checks on a new container.
  \<^item> \<open>Loop_World\<close> to \<open>Loop_Process\<close> (\<open>session_loop.py\<close>): the session loop.  \<open>Loop_World\<close> has its state
    (\<open>loop\<close>: the store, the module-level dictionaries and the requests sent so far), the outside
    (\<open>env\<close>) and the combinators; \<open>Loop_Events\<close> the session, kind and digest of a delivery
    (\<open>digest.py\<close> too); \<open>Loop_Actions\<close> escalation, bounded retries, pull-request gates and the stall
    observer; \<open>Loop_Turns\<close> \<open>_dispatch_turn\<close> and the resume of interrupted turns; \<open>Loop_Close\<close> body
    edits, the close-time grace and classification; \<open>Loop_Teardown\<close> teardown turns, archive and the
    close handler; \<open>Loop_Gates\<close> the approvals, merges, routing and head gates; \<open>Loop_Process\<close>
    \<open>_process_one\<close> (\<open>process_job\<close> on the session's row), \<open>_resume_from_escalation\<close> and the drain.

  \<^item> \<open>Dispatcher\<close> (\<open>dispatcher.py\<close>): the scan of the queue through the intake gate and the rounds of the
    thread that drives the session loop; \<open>signals\<close> is what the threads beside it do.
  \<^item> \<open>Rpc_Client\<close> (\<open>rpc_client.py\<close>): the frame loop of a call to a runner, and the probe.
  \<^item> \<open>Snapshot\<close>, \<open>Sweep\<close>, \<open>Reconciler\<close> (\<open>github_fetch.py\<close>, \<open>reconciler.py\<close>): what a sweep reads from GitHub
    with the timestamps, what it writes or synthesises for a session, and the whole pass with docker's
    inventory, the runner rows and the open turns; \<open>watch\<close> is what the reconciler is wired to.
    \<open>Sweep_Facts\<close> and \<open>Reconcile_Facts\<close> hold their theorems: frames again, results (\<open>finishes\<close>,
    \<open>results\<close>), \<open>run_step\<close>, any interleaving of dispatcher rounds and reconcile passes, and the cap of a sweep as an
    account: each row added to the queue is one unit of \<open>synthesized\<close>, and a sweep that reports nothing \<open>capped\<close> is the sweep
    under any larger cap.
  \<^item> \<open>Gc\<close>, \<open>Gc_Facts\<close> (\<open>gc.py\<close>, \<open>gitops.py\<close>): one garbage collection pass over archives, directories,
    worktrees, the ledger, containers and clones, with its report, and the moves of its thread; what it
    may delete, close and collect (\<open>reclaimable\<close>, of the closed row itself, under \<open>ledger_ok\<close>, the unique identity of open
    rows), and that a signal is not lost.

  \<^item> \<open>Review_Stats\<close>, \<open>Agentctl\<close> (\<open>review_stats.py\<close>, \<open>agentctl/__main__.py\<close>, \<open>status_snapshot\<close> of \<open>db.py\<close>): the
    statistics of the Architect's reviews, and the commands of the operator with what they print and write.

  \<^bold>\<open>The session runner\<close> (\<open>agentd/docker/session-runner/agentd_runner\<close>), the process inside the container:
  \<^item> \<open>Runner_Actions\<close> (\<open>public_actions.py\<close>): which tool calls changed GitHub.
  \<^item> \<open>Runner_Quota\<close> (\<open>quota.py\<close>): redaction, the reset instant, the classification of quota hits.
  \<^item> \<open>Runner_World\<close>, \<open>Runner_Cli\<close>, \<open>Runner_Live\<close> (\<open>cli_session.py\<close>): the process held for a role with its
    guarded kill and the reaper; environment, commands, stream, ACP and spawn; the turns of both vendors
    and the registry.  \<open>runner\<close> is the session at work with what it did, \<open>sys\<close> the operating system at
    each tick, \<open>'a op\<close> a method, which may raise.
  \<^item> \<open>Runner_Frame\<close>, \<open>Runner_Facts\<close>, \<open>Runner_Ends\<close>, \<open>Runner_Outcome\<close>: the locales \<open>op_frame\<close> and \<open>cli_frame\<close>
    (relations every method keeps), whom the runner signals and what it starts, that turns end and that
    stale output never answers one, and which statuses a turn reports.
  \<^item> \<open>Runner_Turn\<close>, \<open>Runner_Server\<close>, \<open>Runner_Gate\<close> (\<open>turn.py\<close>, \<open>server.py\<close>): paths, memory, prompt and record of
    a turn; the requests and a connection; the bearer, the identities and the teardown.

  \<^bold>\<open>The session loop's theorems.\<close>
  A handler is a function on \<open>loop\<close> that returns a value or the raised exception.  \<open>keeps R m\<close> says that
  the states before and after \<open>m\<close> are related, whatever happens.  The locales \<open>loop_frame\<close>,
  \<open>session_steps\<close>, \<open>pausing\<close>, \<open>driving\<close>, \<open>writing\<close>, \<open>closing\<close> and \<open>whole\<close> (\<open>Loop_Frame\<close>, \<open>Loop_Drive\<close>,
  \<open>Loop_Whole\<close>) name, in this order of strength, the primitive steps a relation must allow; inside
  them every handler is shown to keep it, once.  \<open>Loop_Theorems\<close> and \<open>Loop_Moves\<close> interpret them: the
  store's well-formedness, one session per delivery, the attempt counters, the turns sent, the final
  CLOSED, and how the state of a session moves.  \<open>Loop_Guarantees\<close>, \<open>Loop_Limits\<close> and \<open>Loop_Endings\<close>
  state the properties; \<open>kind_earned\<close> (\<open>Loop_Drive\<close>) is their abstract specification of the evidence a
  kind needs before the state machine sees it.  In \<open>Loop_Limits\<close> the inductive \<open>drain_run\<close> says what a drain does
  delivery by delivery, and \<open>given_up\<close> what is left when a delivery is out of attempts; \<open>Loop_Endings\<close> has the body a
  restore writes.  \<open>Loop_Examples\<close> runs the model on a concrete gateway.

  Interfaces are locales: besides those above, \<open>keyed_table\<close> (rows under a primary key),
  \<open>invariant_machine\<close> and \<open>absorbing_machine\<close> (steps that keep a predicate), \<open>store_preorder\<close> (a relation
  between stores every step of a supervisor call respects); each is interpreted on the model's own
  definitions, and the properties rest on its facts.

  \<^bold>\<open>Conventions.\<close>
  What GitHub, docker, git, the file system and the runner answer are arguments of the definitions
  (\<open>http\<close>, \<open>request\<close>, \<open>host\<close>, \<open>env\<close>): the theorems hold for every answer.  In the session loop each answer,
  the clock included, is read at a tick that never returns, so two equal requests may be answered
  differently.  SHA-256 and number formatting are arguments too.  Errors are values: \<open>Inl\<close> of a result
  is the raised exception.  The definitions terminate (structural recursion, or a measure on the text
  still to be read), and the only retried work of the gateway is bounded by the attempt counters.  The
  four loops of the session runner that wait for a clock take their rounds from \<open>y_fuel\<close>; running out of
  them is a value of its own, and \<open>turn_ends\<close> shows that some number of rounds is enough for a whole turn as
  long as the clocks run on, and that more of them change nothing.

  \<^bold>\<open>Not modelled.\<close>
  HTTP, subprocess and file-system effects themselves, threads (each store method runs under the
  store's lock and is one step, each method of a live CLI under its session's lock; webhooks that arrive
  while a turn runs are an answer of that turn), payload compression (a stored payload is the text the
  server received), log lines, the ASGI framework that carries the routes of \<open>server.py\<close>, argument parsing
  and the JSON rendering of what \<open>agentctl\<close> prints, the timers of the dispatcher and reconciler threads,
  the integrity PRAGMA, and in the session runner the disposable adapters (their child's pipe and exit
  status are answers), the forked helpers that drop privileges, and the creation of a role's directories.
\<close>

end
